(* ===== verification/Prelude.thy ===== *)
theory Prelude
  imports Main
begin

text \<open>
  Shared vocabulary of the SYROTP development.

  \<^item> JavaScript string operations the sources use (\<open>trim\<close>, \<open>toUpperCase\<close>, \<open>startsWith\<close>,
    \<open>slice\<close>, \<open>split\<close>, \<open>indexOf\<close>, number rendering and \<open>parseInt\<close>) over
    \<open>string\<close>, that is, lists of code units. The case mapping and the white-space class are those
    of the ASCII range, the alphabet of every identifier, code, nonce and SMS command of the
    protocol; text outside ASCII is not interpreted.
  \<^item> Character classes and the anchored regular expressions of the sources as Boolean functions.
  \<^item> Row-level operations on database tables: a table is the list of its rows, an
    \<open>UPDATE .. WHERE\<close> is \<open>update_where\<close>, a partial unique index is \<open>unique_on\<close>.
  \<^item> The \<open>named_theorems\<close> collections the component theories feed and use.
\<close>

named_theorems js_defs "definitions of the JavaScript string operations"
named_theorems tbl "facts about table operations"
named_theorems op_defs "definitions of the server operations"

section \<open>Characters\<close>

definition code_unit :: "char \<Rightarrow> nat" where
  "code_unit c = of_char c"

definition is_ws :: "char \<Rightarrow> bool" where
  "is_ws c \<longleftrightarrow> (9 \<le> code_unit c \<and> code_unit c \<le> 13) \<or> code_unit c = 32"

definition is_upper :: "char \<Rightarrow> bool" where
  "is_upper c \<longleftrightarrow> 65 \<le> code_unit c \<and> code_unit c \<le> 90"

definition is_lower :: "char \<Rightarrow> bool" where
  "is_lower c \<longleftrightarrow> 97 \<le> code_unit c \<and> code_unit c \<le> 122"

definition is_digit :: "char \<Rightarrow> bool" where
  "is_digit c \<longleftrightarrow> 48 \<le> code_unit c \<and> code_unit c \<le> 57"

definition is_alnum :: "char \<Rightarrow> bool" where
  "is_alnum c \<longleftrightarrow> is_upper c \<or> is_lower c \<or> is_digit c"

definition is_upper_alnum :: "char \<Rightarrow> bool" where
  "is_upper_alnum c \<longleftrightarrow> is_upper c \<or> is_digit c"

definition is_hex :: "char \<Rightarrow> bool" where
  "is_hex c \<longleftrightarrow> is_digit c \<or> (97 \<le> code_unit c \<and> code_unit c \<le> 102)
                      \<or> (65 \<le> code_unit c \<and> code_unit c \<le> 70)"

definition upper_char :: "char \<Rightarrow> char" where
  "upper_char c = (if is_lower c then char_of (code_unit c - 32) else c)"

definition lower_char :: "char \<Rightarrow> char" where
  "lower_char c = (if is_upper c then char_of (code_unit c + 32) else c)"

lemma code_unit_less [simp]: "code_unit c < 256"
  by (simp add: code_unit_def)

lemma code_unit_char_of [simp]: "code_unit (char_of n) = n mod 256"
  by (simp add: code_unit_def)

lemma code_unit_eq_iff: "code_unit c = code_unit d \<longleftrightarrow> c = d"
  by (simp add: code_unit_def)

lemmas char_class_defs =
  is_ws_def is_upper_def is_lower_def is_digit_def is_alnum_def is_upper_alnum_def is_hex_def

lemma code_unit_upper_char [simp]:
  "code_unit (upper_char c) = (if is_lower c then code_unit c - 32 else code_unit c)"
  by (auto simp: upper_char_def is_lower_def)

lemma upper_char_not_lower [simp]: "\<not> is_lower (upper_char c)"
  by (auto simp: is_lower_def)

lemma upper_char_idem [simp]: "upper_char (upper_char c) = upper_char c"
  using upper_char_not_lower [of c] by (simp add: upper_char_def)

lemma is_ws_upper_char [simp]: "is_ws (upper_char c) = is_ws c"
  by (auto simp: is_ws_def is_lower_def)

lemma upper_char_id: "\<not> is_lower c \<Longrightarrow> upper_char c = c"
  by (simp add: upper_char_def)

lemma upper_alnum_not_lower [simp]: "is_upper_alnum c \<Longrightarrow> \<not> is_lower c"
  by (auto simp: char_class_defs)

lemma alnum_not_ws [simp]: "is_alnum c \<Longrightarrow> \<not> is_ws c"
  by (auto simp: char_class_defs)

lemma upper_alnum_not_ws [simp]: "is_upper_alnum c \<Longrightarrow> \<not> is_ws c"
  by (auto simp: char_class_defs)

lemma ws_not_lower [simp]: "is_ws c \<Longrightarrow> \<not> is_lower c"
  by (auto simp: char_class_defs)

lemma upper_not_ws [simp]: "is_upper c \<Longrightarrow> \<not> is_ws c"
  by (auto simp: char_class_defs)

lemma upper_not_lower [simp]: "is_upper c \<Longrightarrow> \<not> is_lower c"
  by (auto simp: char_class_defs)

lemma is_ws_space [simp]: "is_ws CHR '' ''"
  by (simp add: is_ws_def code_unit_def)

lemma upper_alnum_is_alnum: "is_upper_alnum c \<Longrightarrow> is_alnum c"
  by (auto simp: char_class_defs)

lemma list_all_take: "list_all P xs \<Longrightarrow> list_all P (take n xs)"
  by (auto simp: list_all_iff dest: in_set_takeD)

section \<open>JavaScript strings\<close>

definition js_trim :: "string \<Rightarrow> string" where
  "js_trim s = rev (dropWhile is_ws (rev (dropWhile is_ws s)))"

definition js_upper :: "string \<Rightarrow> string" where
  "js_upper s = map upper_char s"

definition js_lower :: "string \<Rightarrow> string" where
  "js_lower s = map lower_char s"

definition starts_with :: "string \<Rightarrow> string \<Rightarrow> bool" where
  "starts_with s p \<longleftrightarrow> take (length p) s = p"

definition ends_with :: "string \<Rightarrow> string \<Rightarrow> bool" where
  "ends_with s p \<longleftrightarrow> length p \<le> length s \<and> drop (length s - length p) s = p"

text \<open>\<open>s.replace(/\s+/g, "")\<close> deletes every white-space character.\<close>

definition remove_ws :: "string \<Rightarrow> string" where
  "remove_ws s = filter (\<lambda>c. \<not> is_ws c) s"

text \<open>\<open>s.split(c)\<close> for a one-character separator: never empty.\<close>

fun split_on :: "char \<Rightarrow> string \<Rightarrow> string list" where
  "split_on c [] = [[]]"
| "split_on c (x # xs) =
     (if x = c then [] # split_on c xs
      else (case split_on c xs of [] \<Rightarrow> [[x]] | p # ps \<Rightarrow> (x # p) # ps))"

text \<open>\<open>s.indexOf(c)\<close>: \<open>None\<close> stands for \<open>-1\<close>.\<close>

fun index_of :: "char \<Rightarrow> string \<Rightarrow> nat option" where
  "index_of c [] = None"
| "index_of c (x # xs) = (if x = c then Some 0 else map_option Suc (index_of c xs))"

text \<open>\<open>s.lastIndexOf(c)\<close>.\<close>

definition last_index_of :: "char \<Rightarrow> string \<Rightarrow> nat option" where
  "last_index_of c s = map_option (\<lambda>i. length s - 1 - i) (index_of c (rev s))"

text \<open>\<open>s[i]\<close> appended to a string: JavaScript renders a missing element as "undefined".\<close>

definition char_at :: "string \<Rightarrow> nat \<Rightarrow> string" where
  "char_at s i = (if i < length s then [s ! i] else ''undefined'')"

text \<open>A JavaScript string option is set when it is present and not empty.\<close>

definition truthy :: "string option \<Rightarrow> bool" where
  "truthy s \<longleftrightarrow> s \<noteq> None \<and> s \<noteq> Some []"

text \<open>\<open>parts.join(sep)\<close>.\<close>

fun join_with :: "string \<Rightarrow> string list \<Rightarrow> string" where
  "join_with sep [] = []"
| "join_with sep [p] = p"
| "join_with sep (p # q # ps) = p @ sep @ join_with sep (q # ps)"

text \<open>\<open>s.replace(/\/+$/, "")\<close>.\<close>

definition strip_slashes :: "string \<Rightarrow> string" where
  "strip_slashes s = rev (dropWhile (\<lambda>c. c = CHR ''/'') (rev s))"

text \<open>The anchored patterns \<open>/^[class]+$/\<close>, \<open>/^[class]{lo,hi}$/\<close> and \<open>/^prefix[class]+$/\<close>.\<close>

definition all_in :: "(char \<Rightarrow> bool) \<Rightarrow> string \<Rightarrow> bool" where
  "all_in P s \<longleftrightarrow> s \<noteq> [] \<and> list_all P s"

definition all_in_between :: "(char \<Rightarrow> bool) \<Rightarrow> nat \<Rightarrow> nat \<Rightarrow> string \<Rightarrow> bool" where
  "all_in_between P lo hi s \<longleftrightarrow> lo \<le> length s \<and> length s \<le> hi \<and> list_all P s"

definition prefixed_id :: "string \<Rightarrow> string \<Rightarrow> bool" where
  "prefixed_id p s \<longleftrightarrow> starts_with s p \<and> all_in is_alnum (drop (length p) s)"

text \<open>Decimal rendering of numbers in template literals, and \<open>Number.parseInt(s, 10)\<close>.\<close>

definition digit_char :: "nat \<Rightarrow> char" where
  "digit_char d = char_of (48 + d)"

fun show_nat :: "nat \<Rightarrow> string" where
  "show_nat n = (if n < 10 then [digit_char n] else show_nat (n div 10) @ [digit_char (n mod 10)])"

declare show_nat.simps [simp del]

definition show_int :: "int \<Rightarrow> string" where
  "show_int i = (if i < 0 then CHR ''-'' # show_nat (nat (- i)) else show_nat (nat i))"

definition digit_val :: "char \<Rightarrow> nat" where
  "digit_val c = code_unit c - 48"

definition digits_val :: "string \<Rightarrow> nat" where
  "digits_val s = foldl (\<lambda>n c. 10 * n + digit_val c) 0 s"

definition parse_int :: "string \<Rightarrow> int option" where
  "parse_int s =
     (let t = dropWhile is_ws s;
          neg = (t \<noteq> [] \<and> hd t = CHR ''-'');
          u = (if t \<noteq> [] \<and> (hd t = CHR ''-'' \<or> hd t = CHR ''+'') then tl t else t);
          ds = takeWhile is_digit u
      in if ds = [] then None
         else Some (if neg then - int (digits_val ds) else int (digits_val ds)))"

lemmas [js_defs] = js_trim_def js_upper_def js_lower_def starts_with_def ends_with_def
  remove_ws_def all_in_def all_in_between_def prefixed_id_def

lemma dropWhile_id: "(xs \<noteq> [] \<Longrightarrow> \<not> P (hd xs)) \<Longrightarrow> dropWhile P xs = xs"
  by (cases xs) auto

lemma js_trim_id: "list_all (\<lambda>c. \<not> is_ws c) s \<Longrightarrow> js_trim s = s"
proof -
  assume a: "list_all (\<lambda>c. \<not> is_ws c) s"
  then have 1: "dropWhile is_ws s = s"
    by (intro dropWhile_id) (cases s, auto)
  from a have "dropWhile is_ws (rev s) = rev s"
    by (intro dropWhile_id) (auto simp: list_all_iff hd_rev)
  with 1 show ?thesis by (simp add: js_trim_def)
qed

lemma js_trim_ends:
  "s \<noteq> [] \<Longrightarrow> \<not> is_ws (hd s) \<Longrightarrow> \<not> is_ws (last s) \<Longrightarrow> js_trim s = s"
  by (simp add: js_trim_def dropWhile_id hd_rev)

text \<open>Trimming removes a run of white space on the left and one on the right, nothing else.\<close>

lemma js_trim_decomp:
  "\<exists>l r. s = l @ js_trim s @ r \<and> list_all is_ws l \<and> list_all is_ws r"
proof -
  let ?m = "dropWhile is_ws s"
  have 1: "s = takeWhile is_ws s @ ?m" by simp
  have 3: "?m = js_trim s @ rev (takeWhile is_ws (rev ?m))"
    by (metis js_trim_def rev_append rev_rev_ident takeWhile_dropWhile_id)
  have "s = takeWhile is_ws s @ js_trim s @ rev (takeWhile is_ws (rev ?m))"
    using 1 3 by simp
  moreover have "list_all is_ws (takeWhile is_ws s)"
    by (auto simp: list_all_iff dest: set_takeWhileD)
  moreover have "list_all is_ws (rev (takeWhile is_ws (rev ?m)))"
    by (auto simp: list_all_iff dest: set_takeWhileD)
  ultimately show ?thesis by blast
qed

lemma remove_ws_trim [simp]: "remove_ws (js_trim s) = remove_ws s"
proof -
  obtain l r where s: "s = l @ js_trim s @ r" and l: "list_all is_ws l" and r: "list_all is_ws r"
    using js_trim_decomp by blast
  have "filter (\<lambda>c. \<not> is_ws c) l = []" and "filter (\<lambda>c. \<not> is_ws c) r = []"
    using l r by (auto simp: list_all_iff filter_empty_conv)
  then show ?thesis
    by (subst (2) s) (simp add: remove_ws_def)
qed

lemma remove_ws_id: "list_all (\<lambda>c. \<not> is_ws c) s \<Longrightarrow> remove_ws s = s"
  by (simp add: remove_ws_def list_all_iff filter_id_conv)

lemma remove_ws_append [simp]: "remove_ws (a @ b) = remove_ws a @ remove_ws b"
  by (simp add: remove_ws_def)

lemma js_upper_append [simp]: "js_upper (a @ b) = js_upper a @ js_upper b"
  by (simp add: js_upper_def)

lemma js_upper_id: "list_all (\<lambda>c. \<not> is_lower c) s \<Longrightarrow> js_upper s = s"
  by (simp add: js_upper_def list_all_iff upper_char_id map_idI)

lemma length_js_upper [simp]: "length (js_upper s) = length s"
  by (simp add: js_upper_def)

lemma dropWhile_ws_map_upper:
  "dropWhile is_ws (map upper_char s) = map upper_char (dropWhile is_ws s)"
  by (induction s) auto

lemma js_trim_upper: "js_trim (js_upper s) = js_upper (js_trim s)"
  by (simp add: js_trim_def js_upper_def dropWhile_ws_map_upper rev_map)

lemma starts_with_append [simp]: "starts_with (p @ s) p"
  by (simp add: starts_with_def)

lemma starts_with_decomp: "starts_with s p \<longleftrightarrow> (\<exists>t. s = p @ t)"
  by (metis append_eq_conv_conj append_take_drop_id starts_with_def)

lemma split_on_nonempty [simp]: "split_on c s \<noteq> []"
  by (induction s) (auto split: list.splits)

lemma split_on_no_sep: "c \<notin> set s \<Longrightarrow> split_on c s = [s]"
  by (induction s) auto

lemma split_on_append: "c \<notin> set a \<Longrightarrow> split_on c (a @ c # b) = a # split_on c b"
  by (induction a) auto

lemma split_on_pieces: "p \<in> set (split_on c s) \<Longrightarrow> c \<notin> set p"
  by (induction s arbitrary: p) (auto split: if_splits list.splits)

lemma index_of_None: "index_of c s = None \<longleftrightarrow> c \<notin> set s"
  by (induction s) auto

lemma index_of_append: "c \<notin> set a \<Longrightarrow> index_of c (a @ c # b) = Some (length a)"
  by (induction a) auto

lemma index_of_Some: "index_of c s = Some i \<Longrightarrow> i < length s \<and> s ! i = c"
  by (induction s arbitrary: i) (auto split: if_splits)

lemma last_index_of_append:
  "c \<notin> set b \<Longrightarrow> last_index_of c (a @ c # b) = Some (length a)"
  by (simp add: last_index_of_def index_of_append)

section \<open>Decimal numbers\<close>

lemma digit_char_class: "d < 10 \<Longrightarrow> is_digit (digit_char d)"
  by (simp add: digit_char_def is_digit_def)

lemma digit_val_char: "d < 10 \<Longrightarrow> digit_val (digit_char d) = d"
  by (simp add: digit_char_def digit_val_def)

lemma show_nat_digits: "list_all is_digit (show_nat n)"
proof (induction n rule: show_nat.induct)
  case (1 n)
  then show ?case
    by (cases "n < 10") (simp_all add: show_nat.simps [of n] digit_char_class)
qed

lemma show_nat_nonempty [simp]: "show_nat n \<noteq> []"
  by (subst show_nat.simps) simp

lemma digits_val_append: "digits_val (a @ [c]) = 10 * digits_val a + digit_val c"
  by (simp add: digits_val_def)

lemma digits_val_show_nat [simp]: "digits_val (show_nat n) = n"
proof (induction n rule: show_nat.induct)
  case (1 n)
  show ?case
  proof (cases "n < 10")
    case True
    then show ?thesis
      by (subst show_nat.simps) (simp add: digits_val_def digit_val_char)
  next
    case False
    with 1 have "digits_val (show_nat (n div 10)) = n div 10" by simp
    with False show ?thesis
      by (subst show_nat.simps) (simp add: digits_val_append digit_val_char)
  qed
qed

lemma show_nat_inj [simp]: "show_nat m = show_nat n \<longleftrightarrow> m = n"
  by (metis digits_val_show_nat)

lemma show_nat_chars: "c \<in> set (show_nat n) \<Longrightarrow> is_digit c"
  using show_nat_digits by (auto simp: list_all_iff)

lemma takeWhile_show_nat [simp]: "takeWhile is_digit (show_nat n) = show_nat n"
  using show_nat_chars [of _ n] unfolding takeWhile_eq_all_conv by blast

lemma digit_not_ws: "is_digit c \<Longrightarrow> \<not> is_ws c"
  by (auto simp: char_class_defs)

lemma is_digit_minus [simp]: "\<not> is_digit CHR ''-''" and is_digit_plus [simp]: "\<not> is_digit CHR ''+''"
  by (simp_all add: is_digit_def code_unit_def)

lemma is_ws_minus [simp]: "\<not> is_ws CHR ''-''"
  by (simp add: is_ws_def code_unit_def)

lemma parse_int_show_nat: "parse_int (show_nat n) = Some (int n)"
proof -
  let ?s = "show_nat n"
  have hd: "is_digit (hd ?s)" using show_nat_chars [of "hd ?s" n] by simp
  then have "dropWhile is_ws ?s = ?s" by (intro dropWhile_id) (simp add: digit_not_ws)
  moreover have "hd ?s \<noteq> CHR ''-''" "hd ?s \<noteq> CHR ''+''" using hd by (metis is_digit_minus, metis is_digit_plus)
  ultimately show ?thesis by (simp add: parse_int_def Let_def)
qed

text \<open>A rendered integer reads back as itself.\<close>

lemma parse_int_show_int: "parse_int (show_int i) = Some i"
proof (cases "i < 0")
  case True
  then show ?thesis by (simp add: parse_int_def show_int_def Let_def)
next
  case False
  then show ?thesis using parse_int_show_nat [of "nat i"] by (simp add: show_int_def)
qed

section \<open>Tables\<close>

text \<open>
  \<open>UPDATE t SET f WHERE P\<close> rewrites the matching rows in place; \<open>RETURNING\<close> yields the rewritten
  rows.
\<close>

definition update_where :: "('r \<Rightarrow> bool) \<Rightarrow> ('r \<Rightarrow> 'r) \<Rightarrow> 'r list \<Rightarrow> 'r list" where
  "update_where P f rows = map (\<lambda>r. if P r then f r else r) rows"

definition returning :: "('r \<Rightarrow> bool) \<Rightarrow> ('r \<Rightarrow> 'r) \<Rightarrow> 'r list \<Rightarrow> 'r list" where
  "returning P f rows = map f (filter P rows)"

text \<open>A (partial) unique index: no two rows that satisfy the predicate share a key.\<close>

definition unique_on :: "('r \<Rightarrow> bool) \<Rightarrow> ('r \<Rightarrow> 'k) \<Rightarrow> 'r list \<Rightarrow> bool" where
  "unique_on P k rows \<longleftrightarrow> distinct (map k (filter P rows))"

text \<open>\<open>SELECT .. LIMIT 1\<close>: the first matching row, if any.\<close>

definition select_one :: "('r \<Rightarrow> bool) \<Rightarrow> 'r list \<Rightarrow> 'r option" where
  "select_one P rows = find P rows"

lemma select_one_Some: "select_one P rows = Some r \<Longrightarrow> r \<in> set rows \<and> P r"
  by (auto simp: select_one_def find_Some_iff)

lemma select_one_None: "select_one P rows = None \<longleftrightarrow> (\<forall>r \<in> set rows. \<not> P r)"
  by (auto simp: select_one_def find_None_iff)

lemma select_one_Nil [simp]: "select_one P [] = None"
  by (simp add: select_one_def)

lemma select_one_Cons [simp]:
  "select_one P (r # rows) = (if P r then Some r else select_one P rows)"
  by (simp add: select_one_def)

lemma update_where_Nil [simp]: "update_where P f [] = []"
  by (simp add: update_where_def)

lemma update_where_Cons [simp]:
  "update_where P f (r # rows) = (if P r then f r else r) # update_where P f rows"
  by (simp add: update_where_def)

lemma update_where_append [simp]:
  "update_where P f (a @ b) = update_where P f a @ update_where P f b"
  by (simp add: update_where_def)

lemma length_update_where [simp]: "length (update_where P f rows) = length rows"
  by (simp add: update_where_def)

lemma set_update_where: "set (update_where P f rows) = (\<lambda>r. if P r then f r else r) ` set rows"
  by (simp add: update_where_def)

lemma update_where_id: "\<forall>r \<in> set rows. \<not> P r \<Longrightarrow> update_where P f rows = rows"
  by (simp add: update_where_def map_idI)

lemma map_update_where [tbl]:
  "(\<And>r. k (f r) = k r) \<Longrightarrow> map k (update_where P f rows) = map k rows"
  by (simp add: update_where_def)

lemma returning_Nil [simp]: "returning P f [] = []"
  by (simp add: returning_def)

lemma returning_eq_Nil: "returning P f rows = [] \<longleftrightarrow> (\<forall>r \<in> set rows. \<not> P r)"
  by (auto simp: returning_def filter_empty_conv)

lemma unique_on_Nil [simp]: "unique_on P k []"
  by (simp add: unique_on_def)

lemma unique_on_snoc:
  "unique_on P k (rows @ [r]) \<longleftrightarrow>
     unique_on P k rows \<and> (P r \<longrightarrow> (\<forall>r' \<in> set rows. P r' \<longrightarrow> k r' \<noteq> k r))"
  by (auto simp: unique_on_def image_iff)

lemma unique_onD:
  "unique_on P k rows \<Longrightarrow> a \<in> set rows \<Longrightarrow> b \<in> set rows \<Longrightarrow> P a \<Longrightarrow> P b \<Longrightarrow> k a = k b \<Longrightarrow> a = b"
  unfolding unique_on_def distinct_map inj_on_def by auto

lemma unique_on_mid:
  "unique_on Q k (xs @ ys) \<Longrightarrow> Q c \<Longrightarrow>
     unique_on Q k (xs @ c # ys) \<longleftrightarrow> k c \<notin> k ` {x \<in> set (xs @ ys). Q x}"
  by (auto simp: unique_on_def)

lemma unique_on_mid_out: "\<not> Q b \<Longrightarrow> unique_on Q k (xs @ b # ys) \<longleftrightarrow> unique_on Q k (xs @ ys)"
  by (simp add: unique_on_def)

text \<open>An update that only takes rows out of the indexed part keeps the index.\<close>

lemma unique_on_update_shrink:
  assumes "unique_on Q k rows"
    and "\<And>r. P r \<Longrightarrow> Q (f r) \<Longrightarrow> Q r \<and> k (f r) = k r"
  shows "unique_on Q k (update_where P f rows)"
  using assms(1)
proof (induction rows)
  case Nil
  then show ?case by simp
next
  case (Cons r rows)
  have sub: "k x \<in> k ` {y \<in> set rows. Q y}"
    if "x \<in> set (update_where P f rows)" and "Q x" for x
    using that assms(2) by (fastforce simp: set_update_where split: if_splits)
  from Cons have IH: "unique_on Q k (update_where P f rows)"
    by (auto simp: unique_on_def split: if_splits)
  have "k r' \<notin> k ` {y \<in> set (update_where P f rows). Q y}"
    if "r' = (if P r then f r else r)" and "Q r'" for r'
  proof -
    have "Q r" and "k r' = k r"
      using that assms(2) [of r] by (auto split: if_splits)
    with Cons.prems have "k r \<notin> k ` {y \<in> set rows. Q y}"
      by (auto simp: unique_on_def)
    with sub \<open>k r' = k r\<close> show ?thesis by (auto simp: image_iff) metis
  qed
  with IH show ?case by (auto simp: unique_on_def)
qed

lemma filter_update_where_length_le:
  "(\<And>r. P r \<Longrightarrow> Q (f r) \<Longrightarrow> Q r) \<Longrightarrow>
   length (filter Q (update_where P f rows)) \<le> length (filter Q rows)"
  by (induction rows) (auto intro: le_SucI)

section \<open>Sums as results\<close>

text \<open>A call returns \<open>Inr\<close> its value or \<open>Inl\<close> what it threw.\<close>

definition is_ok :: "'e + 'a \<Rightarrow> bool" where
  "is_ok r \<longleftrightarrow> (case r of Inl _ \<Rightarrow> False | Inr _ \<Rightarrow> True)"

lemma is_ok_simps [simp]: "is_ok (Inr a)" "\<not> is_ok (Inl e)"
  by (simp_all add: is_ok_def)

end
