(* ===== verification/Errors.thy ===== *)
theory Errors
  imports Prelude
begin

text \<open>
  Errors as values (\<open>lib/errors.ts\<close>, \<open>lib/phone.ts\<close>, \<open>lib/ssrfGuard.ts\<close>,
  \<open>admin/receivers.ts\<close>) and the root error handler (\<open>plugins/errorHandler.ts\<close>).

  Everything a handler of the server can throw is a value of \<open>exn\<close>; an operation returns
  \<open>exn + 'a\<close>. \<open>error_handler\<close> turns a thrown value into the reply a client sees.
\<close>

datatype error_details = RetryAfter int | Issues

record api_error =
  statusCode :: int
  err_code :: string
  err_message :: string
  err_details :: "error_details option"

text \<open>A \<open>FastifyError\<close>: framework errors with an optional status and code of their own.\<close>

record fastify_error =
  fe_validation :: bool
  fe_statusCode :: "int option"
  fe_code :: "string option"
  fe_message :: string

datatype exn =
    ApiError api_error
  | PhoneError string
  | WebhookValidationError string string
  | UniqueViolation string
  | AdminError string string
  | FastifyError fastify_error
  | JsError string

definition api_error :: "int \<Rightarrow> string \<Rightarrow> string \<Rightarrow> error_details option \<Rightarrow> exn" where
  "api_error st c m d =
     ApiError \<lparr>statusCode = st, err_code = c, err_message = m, err_details = d\<rparr>"

definition badRequest :: "string \<Rightarrow> string \<Rightarrow> exn" where
  "badRequest c m = api_error 400 c m None"

definition badRequestIssues :: "string \<Rightarrow> string \<Rightarrow> exn" where
  "badRequestIssues c m = api_error 400 c m (Some Issues)"

definition unauthorized :: "string \<Rightarrow> exn" where
  "unauthorized m = api_error 401 ''unauthorized'' m None"

definition unauthorized_default :: exn where
  "unauthorized_default = unauthorized ''missing or invalid credentials''"

definition forbidden :: "string \<Rightarrow> exn" where
  "forbidden m = api_error 403 ''forbidden'' m None"

definition phoneNotBound :: exn where
  "phoneNotBound = api_error 403 ''phone_not_bound''
     ''phone is not bound to this app; complete the phone-binding ceremony first'' None"

definition notFound :: "string \<Rightarrow> exn" where
  "notFound resource = api_error 404 ''not_found'' (resource @ '' not found'') None"

definition conflict :: "string \<Rightarrow> string \<Rightarrow> exn" where
  "conflict c m = api_error 409 c m None"

definition rateLimited :: "int \<Rightarrow> exn" where
  "rateLimited retryAfterSeconds =
     api_error 429 ''rate_limited'' ''too many requests'' (Some (RetryAfter retryAfterSeconds))"

definition serviceUnavailable :: "string \<Rightarrow> string \<Rightarrow> exn" where
  "serviceUnavailable c m = api_error 503 c m None"

definition internal :: "string \<Rightarrow> exn" where
  "internal m = api_error 500 ''internal_error'' m None"

lemmas error_defs = badRequest_def badRequestIssues_def unauthorized_def unauthorized_default_def
  forbidden_def phoneNotBound_def notFound_def conflict_def rateLimited_def
  serviceUnavailable_def internal_def api_error_def

section \<open>The root error handler\<close>

record reply =
  rp_status :: int
  rp_retry_after :: "string option"
  rp_code :: string
  rp_message :: string
  rp_request_id :: "string option"
  rp_details :: "error_details option"

text \<open>
  The properties \<open>err.validation\<close>, \<open>err.statusCode\<close>, \<open>err.code\<close> and \<open>err.message\<close>
  of a thrown value that is not an \<open>ApiError\<close>. A \<open>PhoneError\<close>, a
  \<open>WebhookValidationError\<close>, an \<open>AdminError\<close> and a database error carry no status.
\<close>

definition js_validation :: "exn \<Rightarrow> bool" where
  "js_validation e = (case e of FastifyError f \<Rightarrow> fe_validation f | _ \<Rightarrow> False)"

definition js_statusCode :: "exn \<Rightarrow> int option" where
  "js_statusCode e = (case e of FastifyError f \<Rightarrow> fe_statusCode f | _ \<Rightarrow> None)"

definition js_code :: "exn \<Rightarrow> string option" where
  "js_code e = (case e of FastifyError f \<Rightarrow> fe_code f
     | PhoneError c \<Rightarrow> Some c
     | WebhookValidationError c _ \<Rightarrow> Some c
     | AdminError c _ \<Rightarrow> Some c
     | UniqueViolation _ \<Rightarrow> Some ''23505''
     | _ \<Rightarrow> None)"

definition js_message :: "exn \<Rightarrow> string" where
  "js_message e = (case e of FastifyError f \<Rightarrow> fe_message f
     | PhoneError c \<Rightarrow> c
     | WebhookValidationError _ m \<Rightarrow> m
     | AdminError _ m \<Rightarrow> m
     | UniqueViolation c \<Rightarrow> ''duplicate key value violates unique constraint '' @ c
     | JsError m \<Rightarrow> m
     | ApiError a \<Rightarrow> err_message a)"

text \<open>\<open>ApiError.toJSON\<close>: the request id is left out when empty.\<close>

definition toJSON :: "api_error \<Rightarrow> string \<Rightarrow> reply" where
  "toJSON a requestId =
     \<lparr>rp_status = statusCode a, rp_retry_after = None, rp_code = err_code a,
      rp_message = err_message a,
      rp_request_id = (if requestId = [] then None else Some requestId),
      rp_details = err_details a\<rparr>"

definition error_handler :: "exn \<Rightarrow> string \<Rightarrow> reply" where
  "error_handler err requestId =
     (case err of
        ApiError a \<Rightarrow>
          (toJSON a requestId)\<lparr>rp_retry_after :=
             (case err_details a of
                Some (RetryAfter n) \<Rightarrow> if statusCode a = 429 \<and> n \<noteq> 0 then Some (show_int n) else None
              | _ \<Rightarrow> None)\<rparr>
      | _ \<Rightarrow>
        if js_validation err then
          \<lparr>rp_status = 400, rp_retry_after = None, rp_code = ''validation_error'',
           rp_message = js_message err, rp_request_id = Some requestId, rp_details = Some Issues\<rparr>
        else
          (let status = (case js_statusCode err of Some s \<Rightarrow> s | None \<Rightarrow> 0) in
           if 400 \<le> status \<and> status < 500 then
             \<lparr>rp_status = status, rp_retry_after = None,
              rp_code = (case js_code err of Some c \<Rightarrow> c | None \<Rightarrow> ''http_'' @ show_int status),
              rp_message = (if js_message err = [] then ''request failed'' else js_message err),
              rp_request_id = Some requestId, rp_details = None\<rparr>
           else
             \<lparr>rp_status = 500, rp_retry_after = None, rp_code = ''internal_error'',
              rp_message = ''internal error'', rp_request_id = Some requestId, rp_details = None\<rparr>))"

definition not_found_handler :: "string \<Rightarrow> reply" where
  "not_found_handler requestId =
     \<lparr>rp_status = 404, rp_retry_after = None, rp_code = ''not_found'',
      rp_message = ''route not found'', rp_request_id = Some requestId, rp_details = None\<rparr>"

lemma error_handler_ApiError:
  "rp_status (error_handler (ApiError a) rid) = statusCode a"
  "rp_code (error_handler (ApiError a) rid) = err_code a"
  by (simp_all add: error_handler_def toJSON_def)

text \<open>
  The internals a reply may show: only an \<open>ApiError\<close> or a framework error of class 4xx
  determines the text of its reply; everything else is answered by the same generic reply.
\<close>

lemma error_handler_generic:
  assumes "\<And>a. e \<noteq> ApiError a" and "\<And>f. e \<noteq> FastifyError f"
  shows "error_handler e rid =
     \<lparr>rp_status = 500, rp_retry_after = None, rp_code = ''internal_error'',
      rp_message = ''internal error'', rp_request_id = Some rid, rp_details = None\<rparr>"
  using assms by (cases e) (auto simp: error_handler_def js_validation_def js_statusCode_def)

end
