(* ===== verification/Schema.thy ===== *)
theory Schema
  imports Prelude
begin

text \<open>
  The tables of \<open>db/schema.ts\<close> (and of \<open>migrations/\<close>, which own the unique indexes): one record
  per table, a nullable column as an \<open>option\<close>, a \<open>timestamptz\<close> as its instant in milliseconds.
  \<open>payload_json\<close> and \<open>meta_json\<close> hold the value that is rendered, not its text. The record
  \<open>db\<close> is the database; the predicates \<open>pending_uniq\<close>, \<open>active_uq\<close>, \<open>idem_uq\<close> and
  \<open>lookup_uq\<close> are its unique indexes.
\<close>

datatype verification_status = Pending | Verified | Expired | Cancelled | Failed

datatype api_key_kind = KPublic | KSecret | KGateway

datatype webhook_delivery_status = DPending | DDelivered | DFailed | DAbandoned

datatype binding_status = BPending | BVerified | BRevoked

datatype event_type = EvVerified | EvExpired | EvCancelled

record app_row =
  ap_id :: string
  ap_name :: string
  ap_createdAt :: int
  ap_disabled :: bool

record api_key_row =
  ak_id :: string
  ak_appId :: string
  ak_kind :: api_key_kind
  ak_keyHash :: string
  ak_keyPrefix :: string
  ak_label :: "string option"
  ak_createdAt :: int
  ak_lastUsedAt :: "int option"
  ak_revokedAt :: "int option"

record receiver_row =
  rc_id :: string
  rc_appId :: string
  rc_name :: string
  rc_operator :: "string option"
  rc_msisdn :: string
  rc_secretHash :: string
  rc_enabled :: bool
  rc_lastHeartbeatAt :: "int option"
  rc_createdAt :: int

record verification_row =
  vr_id :: string
  vr_appId :: string
  vr_phoneE164 :: string
  vr_purpose :: string
  vr_clientRef :: "string option"
  vr_locale :: "string option"
  vr_receiverId :: string
  vr_receiverMsisdnSnapshot :: "string option"
  vr_receiverOperatorSnapshot :: "string option"
  vr_code :: string
  vr_messagePrefix :: string
  vr_status :: verification_status
  vr_attempts :: int
  vr_expiresAt :: int
  vr_verifiedAt :: "int option"
  vr_cancelledAt :: "int option"
  vr_matchedInboundId :: "string option"
  vr_createdIp :: "string option"
  vr_createdAt :: int

record inbound_row =
  in_id :: string
  in_receiverId :: string
  in_fromE164 :: string
  in_toMsisdn :: string
  in_body :: string
  in_receivedAt :: int
  in_idempotencyKey :: string
  in_matchedVerificationId :: "string option"
  in_createdAt :: int

record audit_row =
  au_appId :: "string option"
  au_actor :: "string option"
  au_action :: string
  au_resourceType :: "string option"
  au_resourceId :: "string option"
  au_ip :: "string option"
  au_userAgent :: "string option"
  au_requestId :: "string option"
  au_meta :: "(string \<times> string) list"

record endpoint_row =
  we_id :: string
  we_appId :: string
  we_url :: string
  we_secretCiphertext :: string
  we_enabled :: bool
  we_eventTypes :: "event_type list"
  we_createdAt :: int
  we_updatedAt :: int

record event_data =
  ed_verification_id :: string
  ed_status :: verification_status
  ed_phone_masked :: string
  ed_purpose :: string
  ed_client_ref :: "string option"
  ed_verified_at :: "int option"
  ed_expired_at :: "int option"
  ed_cancelled_at :: "int option"

record event_envelope =
  en_id :: string
  en_type :: event_type
  en_created_at :: int
  en_data :: event_data

record event_row =
  ev_id :: string
  ev_appId :: string
  ev_eventType :: event_type
  ev_verificationId :: "string option"
  ev_payload :: event_envelope
  ev_createdAt :: int

record delivery_row =
  dl_id :: string
  dl_endpointId :: string
  dl_eventId :: string
  dl_eventType :: event_type
  dl_status :: webhook_delivery_status
  dl_attemptCount :: nat
  dl_nextAttemptAt :: int
  dl_lastStatusCode :: "int option"
  dl_lastError :: "string option"
  dl_createdAt :: int
  dl_updatedAt :: int

record credential_row =
  wc_id :: string
  wc_appId :: string
  wc_clientRef :: string
  wc_credentialIdHash :: string
  wc_publicKey :: "nat list"
  wc_signCount :: nat
  wc_transports :: "string list"
  wc_backupState :: "bool option"
  wc_backupEligible :: "bool option"
  wc_createdAt :: int
  wc_lastUsedAt :: "int option"

datatype challenge_purpose = PRegister | PLogin

record challenge_row =
  ch_id :: string
  ch_appId :: string
  ch_clientRef :: string
  ch_challenge :: string
  ch_purpose :: challenge_purpose
  ch_expiresAt :: int
  ch_usedAt :: "int option"
  ch_createdAt :: int

record binding_row =
  pb_id :: string
  pb_appId :: string
  pb_receiverId :: string
  pb_phoneE164 :: string
  pb_status :: binding_status
  pb_nonce :: string
  pb_expiresAt :: int
  pb_boundAt :: "int option"
  pb_revokedAt :: "int option"
  pb_createdAt :: int

record db =
  apps :: "app_row list"
  apiKeys :: "api_key_row list"
  receivers :: "receiver_row list"
  verifications :: "verification_row list"
  inboundSms :: "inbound_row list"
  auditLog :: "audit_row list"
  webhookEndpoints :: "endpoint_row list"
  webhookEvents :: "event_row list"
  webhookDeliveries :: "delivery_row list"
  webauthnCredentials :: "credential_row list"
  webauthnChallenges :: "challenge_row list"
  phoneBindings :: "binding_row list"

definition empty_db :: db where
  "empty_db = \<lparr>apps = [], apiKeys = [], receivers = [], verifications = [], inboundSms = [],
     auditLog = [], webhookEndpoints = [], webhookEvents = [], webhookDeliveries = [],
     webauthnCredentials = [], webauthnChallenges = [], phoneBindings = []\<rparr>"

section \<open>Unique indexes\<close>

text \<open>\<open>verifications_pending_uniq\<close> (migration 0006): (receiver, phone, code) of pending rows.\<close>

definition pending_key :: "verification_row \<Rightarrow> string \<times> string \<times> string" where
  "pending_key v = (vr_receiverId v, vr_phoneE164 v, vr_code v)"

definition pending_uniq :: "verification_row list \<Rightarrow> bool" where
  "pending_uniq vs = unique_on (\<lambda>v. vr_status v = Pending) pending_key vs"

text \<open>\<open>phone_bindings_active_uq\<close> (migration 0005): (app, phone) of verified rows.\<close>

definition active_key :: "binding_row \<Rightarrow> string \<times> string" where
  "active_key b = (pb_appId b, pb_phoneE164 b)"

definition active_uq :: "binding_row list \<Rightarrow> bool" where
  "active_uq bs = unique_on (\<lambda>b. pb_status b = BVerified) active_key bs"

text \<open>\<open>inbound_sms_idem_uq\<close>: (receiver, idempotency key).\<close>

definition idem_key :: "inbound_row \<Rightarrow> string \<times> string" where
  "idem_key i = (in_receiverId i, in_idempotencyKey i)"

definition idem_uq :: "inbound_row list \<Rightarrow> bool" where
  "idem_uq rows = unique_on (\<lambda>_. True) idem_key rows"

text \<open>\<open>webauthn_credentials_lookup_uq\<close>: (app, credential id hash).\<close>

definition lookup_key :: "credential_row \<Rightarrow> string \<times> string" where
  "lookup_key c = (wc_appId c, wc_credentialIdHash c)"

definition lookup_uq :: "credential_row list \<Rightarrow> bool" where
  "lookup_uq cs = unique_on (\<lambda>_. True) lookup_key cs"

end
