(* ===== verification/Redis.thy ===== *)
theory Redis
  imports Prelude
begin

text \<open>
  The Redis commands the server issues (\<open>lib/redis.ts\<close> is only the connection): \<open>INCR\<close>,
  \<open>EXPIRE .. NX\<close> and \<open>SET .. EX .. NX\<close>. A key holds a number and an optional expiry instant
  in milliseconds; at and after that instant the key is absent. \<open>rs_exec_null\<close> is the case in
  which a \<open>MULTI\<close>/\<open>EXEC\<close> block answers \<open>null\<close>.
\<close>

record redis_store =
  rs_exec_null :: bool
  rs_data :: "string \<Rightarrow> (int \<times> int option) option"

definition empty_redis :: redis_store where
  "empty_redis = \<lparr>rs_exec_null = False, rs_data = (\<lambda>_. None)\<rparr>"

text \<open>The live entry of a key at an instant.\<close>

definition redis_get :: "redis_store \<Rightarrow> int \<Rightarrow> string \<Rightarrow> (int \<times> int option) option" where
  "redis_get rs now k =
     (case rs_data rs k of
        None \<Rightarrow> None
      | Some (v, None) \<Rightarrow> Some (v, None)
      | Some (v, Some e) \<Rightarrow> if now < e then Some (v, Some e) else None)"

definition redis_put :: "redis_store \<Rightarrow> string \<Rightarrow> int \<times> int option \<Rightarrow> redis_store" where
  "redis_put rs k e = rs\<lparr>rs_data := (rs_data rs)(k := Some e)\<rparr>"

text \<open>\<open>INCR\<close> creates a missing key with value 1 and keeps an existing expiry.\<close>

definition redis_incr :: "redis_store \<Rightarrow> int \<Rightarrow> string \<Rightarrow> int \<times> redis_store" where
  "redis_incr rs now k =
     (case redis_get rs now k of
        None \<Rightarrow> (1, redis_put rs k (1, None))
      | Some (v, e) \<Rightarrow> (v + 1, redis_put rs k (v + 1, e)))"

text \<open>\<open>EXPIRE k seconds NX\<close> sets an expiry only where there is none.\<close>

definition redis_expire_nx :: "redis_store \<Rightarrow> int \<Rightarrow> string \<Rightarrow> int \<Rightarrow> redis_store" where
  "redis_expire_nx rs now k seconds =
     (case redis_get rs now k of
        Some (v, None) \<Rightarrow> redis_put rs k (v, Some (now + seconds * 1000))
      | _ \<Rightarrow> rs)"

text \<open>\<open>SET k 1 EX seconds NX\<close>: \<open>True\<close> for \<open>OK\<close>, \<open>False\<close> for a key that is live.\<close>

definition redis_set_nx :: "redis_store \<Rightarrow> int \<Rightarrow> string \<Rightarrow> int \<Rightarrow> bool \<times> redis_store" where
  "redis_set_nx rs now k seconds =
     (case redis_get rs now k of
        Some _ \<Rightarrow> (False, rs)
      | None \<Rightarrow> (True, redis_put rs k (1, Some (now + seconds * 1000))))"

lemma redis_get_put [simp]:
  "redis_get (redis_put rs k (v, None)) now k' = (if k' = k then Some (v, None) else redis_get rs now k')"
  "redis_get (redis_put rs k (v, Some e)) now k' =
     (if k' = k then (if now < e then Some (v, Some e) else None) else redis_get rs now k')"
  by (simp_all add: redis_get_def redis_put_def)

lemma rs_exec_null_put [simp]: "rs_exec_null (redis_put rs k e) = rs_exec_null rs"
  by (simp add: redis_put_def)

lemma redis_get_earlier: "redis_get rs t k = Some x \<Longrightarrow> t' \<le> t \<Longrightarrow> redis_get rs t' k = Some x"
  by (auto simp: redis_get_def split: option.splits if_splits prod.splits)

lemma redis_get_later_None: "redis_get rs t k = None \<Longrightarrow> t \<le> t' \<Longrightarrow> redis_get rs t' k = None"
  by (auto simp: redis_get_def split: option.splits if_splits prod.splits)

text \<open>First writer wins: a second \<open>SET NX\<close> is refused for as long as the entry lives.\<close>

lemma redis_set_nx_again:
  assumes "redis_set_nx rs now k s = (True, rs')" and "now \<le> t" and "t < now + s * 1000"
  shows "redis_set_nx rs' t k s' = (False, rs')"
  using assms by (auto simp: redis_set_nx_def split: option.splits)

lemma redis_set_nx_expired:
  assumes "redis_set_nx rs now k s = (True, rs')" and "now + s * 1000 \<le> t"
  shows "fst (redis_set_nx rs' t k s')"
  using assms by (auto simp: redis_set_nx_def split: option.splits)

end
