(* ===== verification/Metrics.thy ===== *)
theory Metrics
  imports Schema Complex_Main
begin

text \<open>
  \<open>services/metrics.ts\<close>: the hooks of the \<open>metrics\<close> object. The registry is the list of the
  hook calls made so far, newest last; a counter is read off it by \<open>counter\<close>, the receiver gauges by
  \<open>last_receiver_gauges\<close>. A histogram observation is recorded with its label and without the measured
  duration. Label values are the closed enumerations of the source.
\<close>

datatype start_bucket =
    B_start | B_status | B_inbound
  | B_verification_start_per_app | B_inbound_sms_per_app | B_phone_binding_start_per_app
  | B_inbound_per_ip | B_heartbeat_per_ip | B_heartbeat_per_receiver
  | B_verification_cancel_per_app | B_webhook_crud_per_app
  | B_phone_binding_read_per_app | B_phone_binding_revoke_per_app | B_webauthn_per_app

datatype inbound_reason = R_matched | R_no_match | R_duplicate | R_expired

datatype key_reject = K_missing | K_malformed | K_unknown | K_revoked | K_wrong_kind | K_app_disabled

datatype receiver_match = M_preferred | M_fallback | M_none

datatype collision_outcome = C_retried | C_exhausted

datatype delivery_terminal = T_delivered | T_failed | T_abandoned | T_retried

datatype fail_reason =
    F_network_error | F_timeout | F_client_4xx | F_server_5xx | F_rate_limited
  | F_endpoint_disabled | F_bad_response

datatype latency_class = L_2xx | L_4xx | L_5xx | L_network | L_timeout | L_other

record abuse_gauges =
  ag_failed_verification_rate :: rat
  ag_unmatched_inbound_rate :: rat
  ag_binding_failure_rate :: rat
  ag_min_app_health_score :: int

record receiver_gauges =
  rg_enabledTotal :: nat
  rg_disabledTotal :: nat
  rg_healthyTotal :: nat
  rg_perReceiverHeartbeatAge :: "(string \<times> int) list"

datatype metric =
    VerificationStarted string
  | VerificationTerminal string verification_status
  | VerificationStartObserved latency_class
  | InboundReceived string bool inbound_reason
  | InboundMatchObserved bool
  | HmacRejected string
  | ApiKeyRejected key_reject
  | RateLimited start_bucket
  | HeartbeatDbUpdate bool
  | ReceiverSelected receiver_match
  | MatchingInvariantViolated
  | VerificationCodeCollision collision_outcome
  | SetAbuseSignals abuse_gauges
  | WebhookEventEmitted event_type
  | WebhookDeliveryTerminal delivery_terminal
  | WebhookDeliveryFailure fail_reason
  | WebhookDeliveryObserved latency_class
  | SetReceiverGauges receiver_gauges

text \<open>\<open>classifyStatus\<close>: the label of the start-latency histogram.\<close>

definition classifyStatus :: "int \<Rightarrow> latency_class" where
  "classifyStatus s =
     (if 200 \<le> s \<and> s < 300 then L_2xx
      else if 400 \<le> s \<and> s < 500 then L_4xx
      else if 500 \<le> s \<and> s < 600 then L_5xx
      else L_other)"

text \<open>The value of the counter series a hook call increments.\<close>

definition counter :: "metric \<Rightarrow> metric list \<Rightarrow> nat" where
  "counter m ms = count_list ms m"

text \<open>The last value the receiver gauges were set to.\<close>

definition last_receiver_gauges :: "metric list \<Rightarrow> receiver_gauges option" where
  "last_receiver_gauges ms =
     fold (\<lambda>m acc. case m of SetReceiverGauges g \<Rightarrow> Some g | _ \<Rightarrow> acc) ms None"

lemma counter_append [simp]: "counter m (a @ b) = counter m a + counter m b"
  by (simp add: counter_def)

lemma counter_Nil [simp]: "counter m [] = 0"
  by (simp add: counter_def)

lemma counter_Cons [simp]: "counter m (x # xs) = (if x = m then 1 else 0) + counter m xs"
  by (simp add: counter_def)

end
