(* ===== verification/World.thy ===== *)
theory World
  imports Errors Schema Redis Metrics
begin

text \<open>
  The state of the server: the database, the Redis store and the metrics registry
  (\<open>db/index.ts\<close>, \<open>lib/redis.ts\<close>, \<open>services/metrics.ts\<close>), the configuration values the
  operations read (\<open>config.ts\<close>), fresh identifiers (\<open>lib/ids.ts\<close>) and the audit log
  (\<open>services/audit.ts\<close>).

  An operation takes the state and returns its result with the new state. A database transaction
  is one atomic step of the model: it either returns its value with the changed tables or throws
  and leaves them as they were. Clock readings are arguments: \<open>now\<close> is the server's
  \<open>Date.now()\<close>, \<open>dbnow\<close> the database's \<open>now()\<close>.
\<close>

record world =
  w_db :: db
  w_redis :: redis_store
  w_metrics :: "metric list"

definition empty_world :: world where
  "empty_world = \<lparr>w_db = empty_db, w_redis = empty_redis, w_metrics = []\<rparr>"

text \<open>The settings of \<open>config.ts\<close> that the operations read, with their defaults.\<close>

record config =
  MASTER_ENCRYPTION_KEY :: string
  VERIFICATION_TTL_SECONDS :: int
  VERIFICATION_CODE_LENGTH :: nat
  MAX_PENDING_PER_PHONE :: nat
  RATE_LIMIT_START_PER_IP_PER_MIN :: int
  RATE_LIMIT_STATUS_PER_IP_PER_MIN :: int
  RATE_LIMIT_INBOUND_PER_RECEIVER_PER_MIN :: int
  RATE_LIMIT_INBOUND_PER_IP_PER_MIN :: int
  RATE_LIMIT_HEARTBEAT_PER_RECEIVER_PER_MIN :: int
  RATE_LIMIT_VERIFICATIONS_PER_APP_PER_MIN :: int
  RATE_LIMIT_INBOUND_PER_APP_PER_MIN :: int
  RATE_LIMIT_BINDINGS_PER_APP_PER_MIN :: int
  RATE_LIMIT_CANCEL_PER_APP_PER_MIN :: int
  RATE_LIMIT_WEBHOOK_CRUD_PER_APP_PER_MIN :: int
  RATE_LIMIT_BINDING_READ_PER_APP_PER_MIN :: int
  RATE_LIMIT_BINDING_REVOKE_PER_APP_PER_MIN :: int
  RATE_LIMIT_WEBAUTHN_PER_APP_PER_MIN :: int
  RECEIVER_HEARTBEAT_TIMEOUT_SECONDS :: int
  INBOUND_TIMESTAMP_SKEW_SECONDS :: int
  DEFAULT_PHONE_REGION :: string
  WEBAUTHN_RP_ID :: "string option"
  WEBAUTHN_RP_NAME :: "string option"
  WEBAUTHN_ORIGINS :: string
  WEBAUTHN_CHALLENGE_TTL_SECONDS :: int
  PHONE_BINDING_TTL_SECONDS :: int

definition default_config :: config where
  "default_config =
     \<lparr>MASTER_ENCRYPTION_KEY = replicate 64 CHR ''0'',
      VERIFICATION_TTL_SECONDS = 600,
      VERIFICATION_CODE_LENGTH = 6,
      MAX_PENDING_PER_PHONE = 3,
      RATE_LIMIT_START_PER_IP_PER_MIN = 10,
      RATE_LIMIT_STATUS_PER_IP_PER_MIN = 60,
      RATE_LIMIT_INBOUND_PER_RECEIVER_PER_MIN = 120,
      RATE_LIMIT_INBOUND_PER_IP_PER_MIN = 600,
      RATE_LIMIT_HEARTBEAT_PER_RECEIVER_PER_MIN = 6,
      RATE_LIMIT_VERIFICATIONS_PER_APP_PER_MIN = 500,
      RATE_LIMIT_INBOUND_PER_APP_PER_MIN = 1000,
      RATE_LIMIT_BINDINGS_PER_APP_PER_MIN = 60,
      RATE_LIMIT_CANCEL_PER_APP_PER_MIN = 60,
      RATE_LIMIT_WEBHOOK_CRUD_PER_APP_PER_MIN = 30,
      RATE_LIMIT_BINDING_READ_PER_APP_PER_MIN = 60,
      RATE_LIMIT_BINDING_REVOKE_PER_APP_PER_MIN = 30,
      RATE_LIMIT_WEBAUTHN_PER_APP_PER_MIN = 30,
      RECEIVER_HEARTBEAT_TIMEOUT_SECONDS = 120,
      INBOUND_TIMESTAMP_SKEW_SECONDS = 300,
      DEFAULT_PHONE_REGION = ''SY'',
      WEBAUTHN_RP_ID = None,
      WEBAUTHN_RP_NAME = None,
      WEBAUTHN_ORIGINS = [],
      WEBAUTHN_CHALLENGE_TTL_SECONDS = 300,
      PHONE_BINDING_TTL_SECONDS = 300\<rparr>"

section \<open>Metrics and tables of the state\<close>

definition metric :: "metric \<Rightarrow> world \<Rightarrow> world" where
  "metric m w = w\<lparr>w_metrics := w_metrics w @ [m]\<rparr>"

lemma metric_simps [simp]:
  "w_db (metric m w) = w_db w"
  "w_redis (metric m w) = w_redis w"
  "w_metrics (metric m w) = w_metrics w @ [m]"
  by (simp_all add: metric_def)

text \<open>\<open>newId(prefix)\<close>: the prefix, an underscore and a fresh ULID (the argument).\<close>

definition newId :: "string \<Rightarrow> string \<Rightarrow> string" where
  "newId prefix ulid = prefix @ ''_'' @ ulid"

lemma newId_prefixed:
  assumes "all_in is_alnum u" shows "prefixed_id (p @ ''_'') (newId p u)"
  using assms by (simp add: prefixed_id_def newId_def starts_with_def)

section \<open>Audit log\<close>

text \<open>
  \<open>audit\<close> appends one row; a failing insert is logged and swallowed, which the flag \<open>ok\<close>
  selects. The user agent is cut to 256 characters.
\<close>

definition audit :: "bool \<Rightarrow> audit_row \<Rightarrow> world \<Rightarrow> world" where
  "audit ok entry w =
     (if ok then
        w\<lparr>w_db := (w_db w)\<lparr>auditLog := auditLog (w_db w) @
          [entry\<lparr>au_userAgent := map_option (take 256) (au_userAgent entry)\<rparr>]\<rparr>\<rparr>
      else w)"

definition audit_entry :: "string \<Rightarrow> audit_row" where
  "audit_entry action =
     \<lparr>au_appId = None, au_actor = None, au_action = action, au_resourceType = None,
      au_resourceId = None, au_ip = None, au_userAgent = None, au_requestId = None, au_meta = []\<rparr>"

lemma audit_simps [simp]:
  "w_redis (audit ok e w) = w_redis w"
  "w_metrics (audit ok e w) = w_metrics w"
  "apps (w_db (audit ok e w)) = apps (w_db w)"
  "apiKeys (w_db (audit ok e w)) = apiKeys (w_db w)"
  "receivers (w_db (audit ok e w)) = receivers (w_db w)"
  "verifications (w_db (audit ok e w)) = verifications (w_db w)"
  "inboundSms (w_db (audit ok e w)) = inboundSms (w_db w)"
  "webhookEndpoints (w_db (audit ok e w)) = webhookEndpoints (w_db w)"
  "webhookEvents (w_db (audit ok e w)) = webhookEvents (w_db w)"
  "webhookDeliveries (w_db (audit ok e w)) = webhookDeliveries (w_db w)"
  "webauthnCredentials (w_db (audit ok e w)) = webauthnCredentials (w_db w)"
  "webauthnChallenges (w_db (audit ok e w)) = webauthnChallenges (w_db w)"
  "phoneBindings (w_db (audit ok e w)) = phoneBindings (w_db w)"
  by (simp_all add: audit_def)

end
