(* ===== verification/Http.thy ===== *)
theory Http
  imports World
begin

text \<open>
  What the route handlers share: request handlers as state transformers that return or throw
  (\<open>andThen\<close>, \<open>reject\<close>, \<open>give\<close>), parsed JSON bodies (\<open>plugins/rawBody.ts\<close>
  hands them over with the raw bytes) and the schema checks of the routes. A schema is a function
  from a value to its parsed form, \<open>None\<close> when it does not validate; an object schema reads its
  own keys and ignores others, as \<open>z.object\<close> does. The date syntax of \<open>z.string().datetime()\<close>
  and \<open>new Date\<close> are arguments.
\<close>

section \<open>Handlers\<close>

type_synonym 'a handler = "world \<Rightarrow> (exn + 'a) \<times> world"

definition andThen :: "'a handler \<Rightarrow> ('a \<Rightarrow> 'b handler) \<Rightarrow> 'b handler" where
  "andThen m k w = (case m w of (Inl e, w1) \<Rightarrow> (Inl e, w1) | (Inr a, w1) \<Rightarrow> k a w1)"

definition give :: "'a \<Rightarrow> 'a handler" where
  "give a w = (Inr a, w)"

definition reject :: "exn \<Rightarrow> 'a handler" where
  "reject e w = (Inl e, w)"

definition ensure :: "bool \<Rightarrow> exn \<Rightarrow> unit handler" where
  "ensure c e = (if c then give () else reject e)"

definition effect :: "(world \<Rightarrow> world) \<Rightarrow> unit handler" where
  "effect f w = (Inr (), f w)"

text \<open>A parsed body or parameter, or the error of the route.\<close>

definition require_some :: "'a option \<Rightarrow> exn \<Rightarrow> 'a handler" where
  "require_some p e = (case p of Some a \<Rightarrow> give a | None \<Rightarrow> reject e)"

definition lift_result :: "exn + 'a \<Rightarrow> 'a handler" where
  "lift_result r = (case r of Inl e \<Rightarrow> reject e | Inr a \<Rightarrow> give a)"

text \<open>\<open>try .. catch\<close>: a thrown value is replaced by another.\<close>

definition map_error :: "(exn \<Rightarrow> exn) \<Rightarrow> 'a handler \<Rightarrow> 'a handler" where
  "map_error f m w = (case m w of (Inl e, w1) \<Rightarrow> (Inl (f e), w1) | (Inr a, w1) \<Rightarrow> (Inr a, w1))"

lemmas handler_defs = andThen_def give_def reject_def ensure_def effect_def require_some_def lift_result_def map_error_def

lemma andThen_Inr_iff:
  "andThen m k w = (Inr b, w') \<longleftrightarrow> (\<exists>a w1. m w = (Inr a, w1) \<and> k a w1 = (Inr b, w'))"
  by (auto simp: andThen_def split: prod.splits sum.splits)

lemma andThen_Inl_iff:
  "andThen m k w = (Inl e, w') \<longleftrightarrow> m w = (Inl e, w') \<or> (\<exists>a w1. m w = (Inr a, w1) \<and> k a w1 = (Inl e, w'))"
  by (auto simp: andThen_def split: prod.splits sum.splits)

lemma andThen_throws: "m w = (Inl e, w1) \<Longrightarrow> andThen m k w = (Inl e, w1)"
  by (simp add: andThen_def)

lemma andThen_returns: "m w = (Inr a, w1) \<Longrightarrow> andThen m k w = k a w1"
  by (simp add: andThen_def)

lemma handler_simps [simp]:
  "give a w = (Inr a, w)" "reject e w = (Inl e, w)" "effect f w = (Inr (), f w)"
  "ensure True e w = (Inr (), w)" "ensure False e w = (Inl e, w)"
  "require_some (Some a) e w = (Inr a, w)" "require_some None e w = (Inl e, w)"
  by (simp_all add: handler_defs)

text \<open>
  Pre- and postconditions on the state, whatever the handler returns or throws; a handler
  \<open>frames\<close> a relation of the states before and after.
\<close>

definition ends :: "(world \<Rightarrow> bool) \<Rightarrow> 'a handler \<Rightarrow> (world \<Rightarrow> bool) \<Rightarrow> bool" where
  "ends P m Q \<longleftrightarrow> (\<forall>w. P w \<longrightarrow> Q (snd (m w)))"

definition frames :: "(world \<Rightarrow> world \<Rightarrow> bool) \<Rightarrow> 'a handler \<Rightarrow> bool" where
  "frames R m \<longleftrightarrow> (\<forall>w. R w (snd (m w)))"

named_theorems framing "handlers that frame a relation"

lemma ends_andThen:
  assumes "ends P m R" and "\<And>a. ends R (k a) Q" and "\<And>w. R w \<Longrightarrow> Q w"
  shows "ends P (andThen m k) Q"
  unfolding ends_def
proof (intro allI impI)
  fix w assume "P w"
  then have r: "R (snd (m w))" using assms(1) by (simp add: ends_def)
  show "Q (snd (andThen m k w))"
    using r assms(2,3) by (cases "m w"; cases "fst (m w)") (auto simp: andThen_def ends_def)
qed

lemma frames_andThen:
  assumes "\<And>a b c. R a b \<Longrightarrow> R b c \<Longrightarrow> R a c" and "frames R m" and "\<And>a. frames R (k a)"
  shows "frames R (andThen m k)"
  unfolding frames_def
proof (intro allI)
  fix w
  have 1: "R w (snd (m w))" using assms(2) by (simp add: frames_def)
  show "R w (snd (andThen m k w))"
    using 1 assms(1,3) by (cases "m w"; cases "fst (m w)") (auto simp: andThen_def frames_def)
qed

lemma frames_pure:
  assumes "\<And>w. R w w"
  shows "frames R (give a)" "frames R (reject e)" "frames R (ensure c e)" "frames R (require_some p e)" "frames R (lift_result r)"
  using assms by (simp_all add: frames_def handler_defs split: option.splits sum.splits)

lemma frames_effect: "(\<And>w. R w (f w)) \<Longrightarrow> frames R (effect f)"
  by (simp add: frames_def)

lemma snd_map_error [simp]: "snd (map_error f m w) = snd (m w)"
  by (auto simp: map_error_def split: prod.splits sum.splits)

lemma frames_map_error: "frames R m \<Longrightarrow> frames R (map_error f m)"
  by (simp add: frames_def)

section \<open>JSON bodies and schemas\<close>

datatype json = JNull | JBool bool | JNum rat | JStr string | JArr "json list" | JObj "(string \<times> json) list"

text \<open>The value of a key; of a repeated key \<open>JSON.parse\<close> keeps the last.\<close>

definition field :: "string \<Rightarrow> json option \<Rightarrow> json option" where
  "field k b = (case b of Some (JObj kvs) \<Rightarrow> map_of (rev kvs) k | _ \<Rightarrow> None)"

definition is_object :: "json option \<Rightarrow> bool" where
  "is_object b = (case b of Some (JObj _) \<Rightarrow> True | _ \<Rightarrow> False)"

text \<open>\<open>z.string().min(lo).max(hi)\<close> with a further test, required and optional.\<close>

definition z_string :: "nat \<Rightarrow> nat \<Rightarrow> (string \<Rightarrow> bool) \<Rightarrow> json option \<Rightarrow> string option" where
  "z_string lo hi P v = (case v of Some (JStr s) \<Rightarrow> if lo \<le> length s \<and> length s \<le> hi \<and> P s then Some s else None | _ \<Rightarrow> None)"

definition z_optional :: "(json option \<Rightarrow> 'a option) \<Rightarrow> json option \<Rightarrow> 'a option option" where
  "z_optional p v = (case v of None \<Rightarrow> Some None | Some _ \<Rightarrow> map_option Some (p v))"

definition is_integer :: "rat \<Rightarrow> bool" where
  "is_integer r \<longleftrightarrow> of_int \<lfloor>r\<rfloor> = r"

text \<open>\<open>z.number().int()\<close> with optional bounds.\<close>

definition z_int :: "int option \<Rightarrow> int option \<Rightarrow> json option \<Rightarrow> int option" where
  "z_int lo hi v =
     (case v of
        Some (JNum r) \<Rightarrow>
          if is_integer r \<and> (case lo of None \<Rightarrow> True | Some l \<Rightarrow> l \<le> \<lfloor>r\<rfloor>) \<and> (case hi of None \<Rightarrow> True | Some h \<Rightarrow> \<lfloor>r\<rfloor> \<le> h)
          then Some \<lfloor>r\<rfloor> else None
      | _ \<Rightarrow> None)"

lemma z_string_Some: "z_string lo hi P v = Some s \<longleftrightarrow> v = Some (JStr s) \<and> lo \<le> length s \<and> length s \<le> hi \<and> P s"
  by (auto simp: z_string_def split: option.splits json.splits if_splits)

section \<open>Requests\<close>

record request =
  req_authorization :: "string option"
  req_ip :: string
  req_id :: string
  req_userAgent :: "string option"
  req_param_id :: string
  req_body :: "json option"
  req_rawBody :: "string option"

end
