(* ===== verification/Cli.thy ===== *)
theory Cli
  imports Http
begin

text \<open>
  The command line of \<open>packages/cli\<close>: exit codes (\<open>exit.ts\<close>), its errors (\<open>errors.ts\<close>), the
  argument parser (\<open>argv.ts\<close>), the \<open>.env\<close> loader (\<open>config.ts\<close>), the checks
  (\<open>checks/index.ts\<close>) and \<open>syrotp doctor\<close> (\<open>commands/doctor.ts\<close>). Running a program, opening
  a socket, fetching and parsing a URL are arguments. Symbols outside ASCII are written in UTF-8.
\<close>

section \<open>Exit codes\<close>

datatype exit_code = OK | RUNTIME | USAGE | MISSING_CONFIG | MISSING_DEP | UNREACHABLE

definition exit_value :: "exit_code \<Rightarrow> int" where
  "exit_value c = (case c of OK \<Rightarrow> 0 | RUNTIME \<Rightarrow> 1 | USAGE \<Rightarrow> 2 | MISSING_CONFIG \<Rightarrow> 3 | MISSING_DEP \<Rightarrow> 4 | UNREACHABLE \<Rightarrow> 5)"

definition SEVERITY :: "exit_code list" where
  "SEVERITY = [MISSING_DEP, MISSING_CONFIG, UNREACHABLE, RUNTIME, USAGE]"

definition pickWorst :: "exit_code list \<Rightarrow> exit_code" where
  "pickWorst codes =
     (if codes = [] then OK
      else case find (\<lambda>candidate. candidate \<in> set codes) SEVERITY of Some candidate \<Rightarrow> candidate | None \<Rightarrow> OK)"

definition nameOf :: "exit_code \<Rightarrow> string" where
  "nameOf c = (case c of OK \<Rightarrow> ''OK'' | RUNTIME \<Rightarrow> ''RUNTIME'' | USAGE \<Rightarrow> ''USAGE'' | MISSING_CONFIG \<Rightarrow> ''MISSING_CONFIG''
     | MISSING_DEP \<Rightarrow> ''MISSING_DEP'' | UNREACHABLE \<Rightarrow> ''UNREACHABLE'')"

text \<open>Codes are ordered by severity, so that the worst of several is their maximum.\<close>

definition severity :: "exit_code \<Rightarrow> nat" where
  "severity c = (case c of OK \<Rightarrow> 0 | USAGE \<Rightarrow> 1 | RUNTIME \<Rightarrow> 2 | UNREACHABLE \<Rightarrow> 3 | MISSING_CONFIG \<Rightarrow> 4 | MISSING_DEP \<Rightarrow> 5)"

lemma severity_inj: "severity c = severity d \<longleftrightarrow> c = d"
  by (cases c; cases d) (simp_all add: severity_def)

instantiation exit_code :: linorder
begin

definition less_eq_exit_code :: "exit_code \<Rightarrow> exit_code \<Rightarrow> bool" where
  "less_eq_exit_code c d \<longleftrightarrow> severity c \<le> severity d"

definition less_exit_code :: "exit_code \<Rightarrow> exit_code \<Rightarrow> bool" where
  "less_exit_code c d \<longleftrightarrow> severity c < severity d"

instance
  by standard (auto simp: less_eq_exit_code_def less_exit_code_def severity_inj)

end

lemmas exit_order = less_eq_exit_code_def less_exit_code_def severity_def

lemma pickWorst_Max: "pickWorst codes = Max (insert OK (set codes))"
proof (rule sym, rule Max_eqI)
  show "pickWorst codes \<in> insert OK (set codes)"
    by (auto simp: pickWorst_def SEVERITY_def)
  show "c \<le> pickWorst codes" if "c \<in> insert OK (set codes)" for c
    using that by (cases c) (auto simp: pickWorst_def SEVERITY_def exit_order)
qed simp

lemma exit_value_inj: "exit_value c = exit_value d \<longleftrightarrow> c = d"
  by (cases c; cases d) (simp_all add: exit_value_def)

section \<open>Errors\<close>

record cli_error =
  cl_code :: exit_code
  cl_message :: string
  cl_hint :: "string option"

definition cli_error :: "exit_code \<Rightarrow> string \<Rightarrow> string option \<Rightarrow> cli_error" where
  "cli_error code message hint = \<lparr>cl_code = code, cl_message = message, cl_hint = hint\<rparr>"

abbreviation "usage \<equiv> cli_error USAGE"
abbreviation "missingConfig \<equiv> cli_error MISSING_CONFIG"
abbreviation "missingDep \<equiv> cli_error MISSING_DEP"
abbreviation "unreachable \<equiv> cli_error UNREACHABLE"
abbreviation "runtime \<equiv> cli_error RUNTIME"

lemma cl_code_error [simp]: "cl_code (cli_error c m h) = c"
  by (simp add: cli_error_def)

section \<open>Arguments\<close>

datatype command = CHelp | CVersion | CDoctor | CBootstrap | CReceiver | CSmoke | CLoadtest | CUnknown

record parsed_args =
  pa_command :: command
  pa_rest :: "string list"
  pa_unknownToken :: "string option"
  pa_helpTopic :: "string option"

definition first_of :: "string list \<Rightarrow> string option" where
  "first_of xs = (case xs of [] \<Rightarrow> None | x # _ \<Rightarrow> Some x)"

definition parseTopLevel :: "string list \<Rightarrow> parsed_args" where
  "parseTopLevel argv =
     (case argv of
        [] \<Rightarrow> \<lparr>pa_command = CHelp, pa_rest = [], pa_unknownToken = None, pa_helpTopic = None\<rparr>
      | tok # rest \<Rightarrow>
        let plain = (\<lambda>c. \<lparr>pa_command = c, pa_rest = rest, pa_unknownToken = None, pa_helpTopic = None\<rparr>) in
        if tok = ''-h'' \<or> tok = ''--help'' then (plain CHelp)\<lparr>pa_helpTopic := first_of rest\<rparr>
        else if tok = ''help'' then
          \<lparr>pa_command = CHelp, pa_rest = drop 1 rest, pa_unknownToken = None, pa_helpTopic = first_of rest\<rparr>
        else if tok = ''-v'' \<or> tok = ''--version'' \<or> tok = ''version'' then plain CVersion
        else if tok = ''doctor'' then plain CDoctor
        else if tok = ''bootstrap'' then plain CBootstrap
        else if tok = ''receiver'' then plain CReceiver
        else if tok = ''smoke'' then plain CSmoke
        else if tok = ''loadtest'' then plain CLoadtest
        else (plain CUnknown)\<lparr>pa_unknownToken := Some tok\<rparr>)"

record flag_def =
  fd_value :: bool
  fd_alias :: "string option"

datatype flag_value = FStr string | FTrue

type_synonym flag_spec = "(string \<times> flag_def) list"
type_synonym flag_values = "string \<rightharpoonup> flag_value"

record flag_result =
  fp_values :: flag_values
  fp_positionals :: "string list"
  fp_unknown :: "string option"

text \<open>
  The tables of flags are object literals, so a name they lack is looked up in \<open>Object.prototype\<close>:
  its members are found, count as flags without a value, and only the assignment to
  \<open>__proto__\<close> leaves no entry. As an alias they name no flag.
\<close>

definition PROTO_KEYS :: "string list" where
  "PROTO_KEYS = [''constructor'', ''__defineGetter__'', ''__defineSetter__'', ''hasOwnProperty'', ''__lookupGetter__'',
     ''__lookupSetter__'', ''isPrototypeOf'', ''propertyIsEnumerable'', ''toString'', ''valueOf'', ''__proto__'', ''toLocaleString'']"

definition own_or_proto :: "flag_spec \<Rightarrow> string \<Rightarrow> (string \<times> bool) option" where
  "own_or_proto spec name =
     (case map_of spec name of
        Some d \<Rightarrow> Some (name, fd_value d)
      | None \<Rightarrow> if name \<in> set PROTO_KEYS then Some (name, False) else None)"

definition alias_of :: "flag_spec \<Rightarrow> string \<Rightarrow> string option" where
  "alias_of spec a = map_option fst (find (\<lambda>(name, d). truthy (fd_alias d) \<and> fd_alias d = Some a) (rev spec))"

definition flag_lookup :: "flag_spec \<Rightarrow> bool \<Rightarrow> string \<Rightarrow> (string \<times> bool) option" where
  "flag_lookup spec isLong name =
     (if isLong then own_or_proto spec name
      else case alias_of spec name of
        Some n \<Rightarrow> own_or_proto spec n
      | None \<Rightarrow> if name \<in> set PROTO_KEYS then None else own_or_proto spec name)"

definition set_flag :: "string \<Rightarrow> flag_value \<Rightarrow> flag_values \<Rightarrow> flag_values" where
  "set_flag name v values = (if name = ''__proto__'' then values else values(name \<mapsto> v))"

text \<open>\<open>tok.replace(/^-+/, "")\<close>, cut at its first equals sign.\<close>

definition split_flag :: "string \<Rightarrow> string \<times> string option" where
  "split_flag tok =
     (let name = dropWhile (\<lambda>c. c = CHR ''-'') tok
      in case index_of CHR ''='' name of None \<Rightarrow> (name, None) | Some eq \<Rightarrow> (take eq name, Some (drop (eq + 1) name)))"

fun scan_flags :: "flag_spec \<Rightarrow> flag_values \<Rightarrow> string list \<Rightarrow> string list \<Rightarrow> flag_result" where
  "scan_flags spec vs ps [] = \<lparr>fp_values = vs, fp_positionals = ps, fp_unknown = None\<rparr>"
| "scan_flags spec vs ps (tok # ts) =
     (if tok = ''--'' then \<lparr>fp_values = vs, fp_positionals = ps @ ts, fp_unknown = None\<rparr>
      else if starts_with tok ''-'' then
        case flag_lookup spec (starts_with tok ''--'') (fst (split_flag tok)) of
          None \<Rightarrow> \<lparr>fp_values = vs, fp_positionals = ps, fp_unknown = Some tok\<rparr>
        | Some (name, False) \<Rightarrow> scan_flags spec (set_flag name FTrue vs) ps ts
        | Some (name, True) \<Rightarrow>
          (case snd (split_flag tok) of
             Some v \<Rightarrow> scan_flags spec (set_flag name (FStr v) vs) ps ts
           | None \<Rightarrow>
             (case ts of
                [] \<Rightarrow> \<lparr>fp_values = vs, fp_positionals = ps, fp_unknown = Some tok\<rparr>
              | v # ts' \<Rightarrow> scan_flags spec (set_flag name (FStr v) vs) ps ts'))
      else scan_flags spec vs (ps @ [tok]) ts)"

definition parseFlags :: "flag_spec \<Rightarrow> string list \<Rightarrow> flag_result" where
  "parseFlags spec argv = scan_flags spec Map.empty [] argv"


section \<open>The environment file\<close>

definition KNOWN_VARS :: "string list" where
  "KNOWN_VARS = [''SYROTP_BASE_URL'', ''DATABASE_URL'', ''REDIS_URL'', ''MASTER_ENCRYPTION_KEY'', ''COOKIE_SECRET'',
     ''PUBLIC_BASE_URL'', ''NODE_ENV'', ''LOG_LEVEL'', ''PORT'', ''HOST'']"

definition NEWLINE :: char where
  "NEWLINE = CHR 0x0A"

definition RETURN :: char where
  "RETURN = CHR 0x0D"

text \<open>\<open>content.split(/\r?\n/)\<close>: a carriage return is taken away before a line feed, not at the end.\<close>

definition split_lines :: "string \<Rightarrow> string list" where
  "split_lines content =
     (let ps = split_on NEWLINE content
      in map (\<lambda>l. if l \<noteq> [] \<and> last l = RETURN then butlast l else l) (butlast ps) @ [last ps])"

definition env_key :: "string \<Rightarrow> bool" where
  "env_key k \<longleftrightarrow> k \<noteq> [] \<and> (is_upper (hd k) \<or> is_lower (hd k) \<or> hd k = CHR ''_'') \<and>
     list_all (\<lambda>c. is_alnum c \<or> c = CHR ''_'') (tl k)"

text \<open>\<open>slice(1, -1)\<close> of a value that begins and ends with a quote, be it the same one.\<close>

definition unquote :: "string \<Rightarrow> string" where
  "unquote v =
     (if v \<noteq> [] \<and> ((hd v = CHR 0x22 \<and> last v = CHR 0x22) \<or> (hd v = CHR 0x27 \<and> last v = CHR 0x27))
      then butlast (tl v) else v)"

definition dotenv_line :: "string \<Rightarrow> (string \<times> string) option" where
  "dotenv_line rawLine =
     (let line = js_trim rawLine in
      if line = [] \<or> starts_with line ''#'' then None
      else case index_of CHR ''='' line of
        None \<Rightarrow> None
      | Some eq \<Rightarrow>
        let key = js_trim (take eq line) in
        if \<not> env_key key then None else Some (key, unquote (js_trim (drop (eq + 1) line))))"

definition parseDotenv :: "string \<Rightarrow> (string \<times> string) list" where
  "parseDotenv content = List.map_filter dotenv_line (split_lines content)"

record loaded_config =
  lc_envFilePath :: "string option"
  lc_envFileLoaded :: bool
  lc_vars :: "(string \<times> string) list"
  lc_env :: "string \<rightharpoonup> string"

definition merge_env :: "(string \<rightharpoonup> string) \<Rightarrow> (string \<times> string) list \<Rightarrow> (string \<rightharpoonup> string)" where
  "merge_env env kvs = fold (\<lambda>(k, v) e. if e k = None then e(k \<mapsto> v) else e) kvs env"

text \<open>The file is the one asked for, else \<open>fallback\<close>, the \<open>.env\<close> of the directory the user is in.\<close>

definition loadConfig :: "(string \<rightharpoonup> string) \<Rightarrow> (string \<rightharpoonup> string) \<Rightarrow> string \<Rightarrow> string option \<Rightarrow> loaded_config" where
  "loadConfig files env fallback envFile =
     (let target = (if truthy envFile then the envFile else fallback);
          env' = (case files target of Some content \<Rightarrow> merge_env env (parseDotenv content) | None \<Rightarrow> env)
      in \<lparr>lc_envFilePath = (if files target \<noteq> None then Some target else None),
          lc_envFileLoaded = (files target \<noteq> None),
          lc_vars = List.map_filter (\<lambda>k. if truthy (env' k) then Some (k, the (env' k)) else None) KNOWN_VARS,
          lc_env = env'\<rparr>)"

section \<open>Masking\<close>

fun contains_str :: "string \<Rightarrow> string \<Rightarrow> bool" where
  "contains_str [] sub = (sub = [])"
| "contains_str (c # cs) sub = (starts_with (c # cs) sub \<or> contains_str cs sub)"

definition secret_name :: "string \<Rightarrow> bool" where
  "secret_name name \<longleftrightarrow> list_ex (contains_str (js_upper name)) [''SECRET'', ''PASSWORD'', ''TOKEN'', ''KEY'']"

definition store_url :: "string \<Rightarrow> bool" where
  "store_url v \<longleftrightarrow> list_ex (starts_with (js_lower v)) [''postgres://'', ''postgresql://'', ''redis://'']"

text \<open>\<open>value.replace(/(:\/\/)[^@/]+(@)/, "$1***$2")\<close>, the leftmost match.\<close>

fun hide_credentials :: "string \<Rightarrow> string" where
  "hide_credentials [] = []"
| "hide_credentials (c # cs) =
     (let rest = drop 3 (c # cs); user = takeWhile (\<lambda>x. x \<noteq> CHR ''@'' \<and> x \<noteq> CHR ''/'') rest;
          after = drop (length user) rest
      in if starts_with (c # cs) ''://'' \<and> user \<noteq> [] \<and> after \<noteq> [] \<and> hd after = CHR ''@''
         then ''://***'' @ after else c # hide_credentials cs)"

definition maskForDisplay :: "string \<Rightarrow> string \<Rightarrow> string" where
  "maskForDisplay name v =
     (if secret_name name then
        (if length v \<le> 8 then ''[REDACTED]'' else take 4 v @ ''***'' @ drop (length v - 2) v)
      else if store_url v then hide_credentials v else v)"

definition redactValue :: "string \<Rightarrow> string \<Rightarrow> string" where
  "redactValue name v =
     (if secret_name name then
        (if length v \<le> 8 then ''[REDACTED]'' else take 4 v @ ''***'' @ drop (length v - 2) v)
      else if store_url v then hide_credentials v else v)"


lemma maskForDisplay_redactValue: "maskForDisplay = redactValue"
  by (intro ext) (simp add: maskForDisplay_def redactValue_def)

section \<open>Rendering\<close>

definition paint :: "bool \<Rightarrow> string \<Rightarrow> string \<Rightarrow> string" where
  "paint useColor code s = (if useColor then CHR 0x1B # ''['' @ code @ ''m'' @ s @ CHR 0x1B # ''[0m'' else s)"

abbreviation "bold col \<equiv> paint col ''1''"
abbreviation "dimmed col \<equiv> paint col ''2''"
abbreviation "red col \<equiv> paint col ''31''"
abbreviation "green col \<equiv> paint col ''32''"
abbreviation "yellow col \<equiv> paint col ''33''"
abbreviation "cyan col \<equiv> paint col ''36''"
abbreviation "gray col \<equiv> paint col ''90''"

definition CHECK :: string where
  "CHECK = [CHR 0xE2, CHR 0x9C, CHR 0x93]"

definition CROSS :: string where
  "CROSS = [CHR 0xE2, CHR 0x9C, CHR 0x97]"

definition DOT :: string where
  "DOT = [CHR 0xC2, CHR 0xB7]"

definition ARROW :: string where
  "ARROW = [CHR 0xE2, CHR 0x86, CHR 0x92]"

definition DASH :: string where
  "DASH = [CHR 0xE2, CHR 0x80, CHR 0x94]"

definition AT_LEAST :: string where
  "AT_LEAST = [CHR 0xE2, CHR 0x89, CHR 0xA5]"

text \<open>The number of characters of a text in UTF-8, continuation bytes left out.\<close>

definition js_length :: "string \<Rightarrow> nat" where
  "js_length s = length (filter (\<lambda>c. \<not> (128 \<le> code_unit c \<and> code_unit c < 192)) s)"

definition pad_end :: "nat \<Rightarrow> string \<Rightarrow> string" where
  "pad_end w s = s @ replicate (w - js_length s) CHR '' ''"

text \<open>What a command writes: text, a JSON document, or the help of a topic.\<close>

datatype written = Wrote string | WroteJson json | HelpPage string

section \<open>Checks\<close>

datatype check_status = Pass | Fail | Skip

datatype category = Dep | Configuration | Reachability

record check_result =
  cr_title :: string
  cr_status :: check_status
  cr_category :: category
  cr_detail :: "string option"
  cr_hint :: "string option"

text \<open>
  The world around the checks: the version of Node, the output of a program that exits with 0, the
  host and port of a URL, the reason a connection fails, the answer to a GET, the status and the
  JSON of its body, each of which may be an error with a message, and how a JSON value prints.
\<close>

record check_env =
  ck_node :: string
  ck_exec :: "string \<Rightarrow> string list \<Rightarrow> string option"
  ck_url :: "string \<Rightarrow> (string \<times> int option) option"
  ck_tcp :: "string \<Rightarrow> int \<Rightarrow> int \<Rightarrow> string option"
  ck_fetch :: "string \<Rightarrow> int \<Rightarrow> string + int \<times> (string + json)"
  ck_show :: "json \<Rightarrow> string"

definition checkNode :: "check_env \<Rightarrow> check_result" where
  "checkNode ck =
     (let v = ck_node ck; parts = split_on CHR ''.'' v; maj = parse_int (hd parts);
          minor_ok = (case tl parts of [] \<Rightarrow> False | m # _ \<Rightarrow> (case parse_int m of Some n \<Rightarrow> n \<ge> 10 | None \<Rightarrow> False));
          ok = (case maj of Some m \<Rightarrow> m > 20 \<or> (m = 20 \<and> minor_ok) | None \<Rightarrow> False)
      in \<lparr>cr_title = ''node '' @ AT_LEAST @ '' 20.10'', cr_status = (if ok then Pass else Fail), cr_category = Dep,
          cr_detail = Some (CHR ''v'' # v),
          cr_hint = (if ok then None else Some ''install Node 20.10+ from https://nodejs.org'')\<rparr>)"

definition checkOnPath :: "check_env \<Rightarrow> string \<Rightarrow> string list \<Rightarrow> string \<Rightarrow> string \<Rightarrow> check_result" where
  "checkOnPath ck cmd args title hint =
     (case ck_exec ck cmd args of
        Some stdout \<Rightarrow>
          \<lparr>cr_title = title, cr_status = Pass, cr_category = Dep, cr_detail = Some (js_trim (hd (split_lines stdout))), cr_hint = None\<rparr>
      | None \<Rightarrow> \<lparr>cr_title = title, cr_status = Fail, cr_category = Dep, cr_detail = None, cr_hint = Some hint\<rparr>)"

definition backquoted :: "string \<Rightarrow> string" where
  "backquoted s = CHR 0x60 # s @ [CHR 0x60]"

definition checkPnpm :: "check_env \<Rightarrow> check_result" where
  "checkPnpm ck = checkOnPath ck ''pnpm'' [''--version''] ''pnpm''
     (''install via '' @ backquoted ''npm install -g pnpm'' @ '' or '' @ backquoted ''corepack enable'')"

definition checkDocker :: "check_env \<Rightarrow> check_result" where
  "checkDocker ck = checkOnPath ck ''docker'' [''--version''] ''docker'' ''install Docker Desktop or Docker Engine''"

definition checkDockerCompose :: "check_env \<Rightarrow> check_result" where
  "checkDockerCompose ck = checkOnPath ck ''docker'' [''compose'', ''version''] ''docker compose''
     (''update Docker '' @ DASH @ '' compose v2+ is bundled'')"

definition checkEnvFile :: "(string \<rightharpoonup> string) \<Rightarrow> loaded_config \<Rightarrow> check_result" where
  "checkEnvFile files lc =
     (if \<not> truthy (lc_envFilePath lc) then
        \<lparr>cr_title = ''.env'', cr_status = Fail, cr_category = Configuration, cr_detail = None,
         cr_hint = Some (''copy .env.example '' @ ARROW @ '' .env and fill in MASTER_ENCRYPTION_KEY + COOKIE_SECRET'')\<rparr>
      else let path = the (lc_envFilePath lc) in
        if files path = None then
          \<lparr>cr_title = ''.env'', cr_status = Fail, cr_category = Configuration, cr_detail = Some path,
           cr_hint = Some (''copy .env.example '' @ ARROW @ '' .env and fill secrets'')\<rparr>
        else
          \<lparr>cr_title = ''.env'', cr_status = Pass, cr_category = Configuration,
           cr_detail = Some (path @ '' ('' @ show_nat (length (lc_vars lc)) @ '' known vars)''), cr_hint = None\<rparr>)"

definition checkEnvVar :: "string \<Rightarrow> loaded_config \<Rightarrow> check_result" where
  "checkEnvVar name lc =
     (if truthy (lc_env lc name) then
        \<lparr>cr_title = name, cr_status = Pass, cr_category = Configuration,
         cr_detail = Some (maskForDisplay name (the (lc_env lc name))), cr_hint = None\<rparr>
      else
        \<lparr>cr_title = name, cr_status = Fail, cr_category = Configuration, cr_detail = None,
         cr_hint = Some (''set '' @ name @ '' in .env or your shell'')\<rparr>)"

text \<open>\<open>checkPostgres\<close> and \<open>checkRedis\<close> are one text up to their names and the default port.\<close>

definition check_store :: "check_env \<Rightarrow> int option \<Rightarrow> string option \<Rightarrow> string \<Rightarrow> string \<Rightarrow> int \<Rightarrow> check_result" where
  "check_store ck timeoutMs url name var def_port =
     (let title = name @ '' reachable'';
          base = \<lparr>cr_title = title, cr_status = Fail, cr_category = Reachability, cr_detail = None, cr_hint = None\<rparr>
      in if \<not> truthy url then base\<lparr>cr_status := Skip, cr_detail := Some (var @ '' not set'')\<rparr>
         else case ck_url ck (the url) of
           None \<Rightarrow> base\<lparr>cr_hint := Some (var @ '' is not a valid URL'')\<rparr>
         | Some (host, p) \<Rightarrow>
           let port = (case p of Some n \<Rightarrow> n | None \<Rightarrow> def_port); peer = host @ '':'' @ show_int port in
           case ck_tcp ck host port (case timeoutMs of Some t \<Rightarrow> t | None \<Rightarrow> 3000) of
             None \<Rightarrow> base\<lparr>cr_status := Pass, cr_detail := Some peer\<rparr>
           | Some reason \<Rightarrow>
             base\<lparr>cr_detail := Some (peer @ '': '' @ reason),
                  cr_hint := Some (''is the '' @ name @ '' container running? check with '' @ backquoted ''docker compose ps'')\<rparr>)"

definition checkPostgres :: "check_env \<Rightarrow> int option \<Rightarrow> loaded_config \<Rightarrow> check_result" where
  "checkPostgres ck timeoutMs lc = check_store ck timeoutMs (lc_env lc ''DATABASE_URL'') ''postgres'' ''DATABASE_URL'' 5432"

definition checkRedis :: "check_env \<Rightarrow> int option \<Rightarrow> loaded_config \<Rightarrow> check_result" where
  "checkRedis ck timeoutMs lc = check_store ck timeoutMs (lc_env lc ''REDIS_URL'') ''redis'' ''REDIS_URL'' 6379"

text \<open>A value of the health document, a question mark for \<open>null\<close> and \<open>undefined\<close>.\<close>

definition shown_or_question :: "(json \<Rightarrow> string) \<Rightarrow> string \<Rightarrow> json \<Rightarrow> string" where
  "shown_or_question show_json k body =
     (case field k (Some body) of None \<Rightarrow> ''?'' | Some JNull \<Rightarrow> ''?'' | Some v \<Rightarrow> show_json v)"

definition checkServerHealth :: "check_env \<Rightarrow> int option \<Rightarrow> loaded_config \<Rightarrow> check_result" where
  "checkServerHealth ck timeoutMs lc =
     (let base = \<lparr>cr_title = ''server /v1/health'', cr_status = Fail, cr_category = Reachability, cr_detail = None, cr_hint = None\<rparr>;
          running = ''is the SYROTP server running? ''
      in case lc_env lc ''SYROTP_BASE_URL'' of
           None \<Rightarrow> base\<lparr>cr_status := Skip, cr_detail := Some ''SYROTP_BASE_URL not set''\<rparr>
         | Some b \<Rightarrow>
           if b = [] then base\<lparr>cr_status := Skip, cr_detail := Some ''SYROTP_BASE_URL not set''\<rparr>
           else
             let url = strip_slashes b @ ''/v1/health'';
                 caught = (\<lambda>reason. base\<lparr>cr_detail := Some (url @ '': '' @ reason),
                   cr_hint := Some (running @ ''check with '' @ backquoted ''curl ${SYROTP_BASE_URL}/v1/health'')\<rparr>)
             in case ck_fetch ck url (case timeoutMs of Some t \<Rightarrow> t | None \<Rightarrow> 3000) of
                  Inl reason \<Rightarrow> caught reason
                | Inr (status, body) \<Rightarrow>
                  if \<not> (200 \<le> status \<and> status < 300) then
                    base\<lparr>cr_detail := Some (url @ '': HTTP '' @ show_int status),
                         cr_hint := Some (running @ backquoted ''docker compose up -d server'' @ '' or ''
                           @ backquoted ''node apps/server/dist/index.js'')\<rparr>
                  else case body of
                    Inl reason \<Rightarrow> caught reason
                  | Inr JNull \<Rightarrow> caught ''Cannot read properties of null''
                  | Inr j \<Rightarrow>
                    base\<lparr>cr_status := Pass,
                         cr_detail := Some (url @ '' '' @ ARROW @ '' status='' @ shown_or_question (ck_show ck) ''status'' j @
                           '', version='' @ shown_or_question (ck_show ck) ''version'' j)\<rparr>)"


section \<open>Doctor\<close>

definition printGroup :: "bool \<Rightarrow> string \<Rightarrow> check_result list \<Rightarrow> written list" where
  "printGroup col title results =
     (let longest = fold max (map (js_length \<circ> cr_title) results) 0
      in Wrote (NEWLINE # cyan col title @ [NEWLINE]) #
         concat (map (\<lambda>r.
           let marker = (case cr_status r of Pass \<Rightarrow> green col CHECK | Fail \<Rightarrow> red col CROSS | Skip \<Rightarrow> gray col DOT)
           in Wrote (''  '' @ marker @ '' '' @ pad_end longest (cr_title r) @
                (if truthy (cr_detail r) then ''  '' @ gray col (the (cr_detail r)) else []) @ [NEWLINE]) #
              (if cr_status r = Fail \<and> truthy (cr_hint r)
               then [Wrote (''     '' @ dimmed col ''hint:'' @ '' '' @ the (cr_hint r) @ [NEWLINE])] else [])) results))"

definition category_exit :: "category \<Rightarrow> exit_code" where
  "category_exit c = (case c of Dep \<Rightarrow> MISSING_DEP | Configuration \<Rightarrow> MISSING_CONFIG | Reachability \<Rightarrow> UNREACHABLE)"

definition environment_checks :: "check_env \<Rightarrow> check_result list" where
  "environment_checks ck = [checkNode ck, checkPnpm ck, checkDocker ck, checkDockerCompose ck]"

definition configuration_checks :: "(string \<rightharpoonup> string) \<Rightarrow> loaded_config \<Rightarrow> check_result list" where
  "configuration_checks files lc =
     [checkEnvFile files lc, checkEnvVar ''DATABASE_URL'' lc, checkEnvVar ''REDIS_URL'' lc, checkEnvVar ''SYROTP_BASE_URL'' lc]"

definition reachability_checks :: "check_env \<Rightarrow> int option \<Rightarrow> loaded_config \<Rightarrow> check_result list" where
  "reachability_checks ck timeoutMs lc = [checkPostgres ck timeoutMs lc, checkRedis ck timeoutMs lc, checkServerHealth ck timeoutMs lc]"

definition failure_codes :: "check_result list \<Rightarrow> exit_code list" where
  "failure_codes rs = map (\<lambda>r. category_exit (cr_category r)) (filter (\<lambda>r. cr_status r = Fail) rs)"

text \<open>What a run of the command sees: the process environment, the files and the world of the checks.\<close>

record doctor_env =
  do_files :: "string \<rightharpoonup> string"
  do_env :: "string \<rightharpoonup> string"
  do_dotenv :: string
  do_checks :: check_env
  do_color :: bool

definition runDoctor :: "doctor_env \<Rightarrow> string option \<Rightarrow> int option \<Rightarrow> exit_code \<times> written list" where
  "runDoctor de envFile timeoutMs =
     (let lc = loadConfig (do_files de) (do_env de) (do_dotenv de) envFile; col = do_color de;
          env = environment_checks (do_checks de);
          cfg = configuration_checks (do_files de) lc;
          reach = reachability_checks (do_checks de) timeoutMs lc;
          all = env @ cfg @ reach;
          count = (\<lambda>st. length (filter (\<lambda>r. cr_status r = st) all));
          tally = dimmed col (''('' @ show_nat (count Pass) @ '' ok, '' @ show_nat (count Skip) @ '' skipped)'');
          printed = printGroup col ''Environment'' env @ printGroup col ''Configuration'' cfg @
            printGroup col ''Reachability'' reach @ [Wrote [NEWLINE]]
      in if count Fail = 0 then
           (OK, printed @ [Wrote (green col CHECK @ '' '' @ bold col ''all checks passed'' @ '' '' @ tally @ [NEWLINE])])
         else
           (pickWorst (failure_codes all),
            printed @ [Wrote (red col CROSS @ '' '' @ bold col (show_nat (count Fail) @ '' check'' @
              (if count Fail = 1 then [] else ''s'') @ '' failed'') @ '' '' @ tally @ [NEWLINE])]))"

lemma merge_env: "merge_env env kvs k = (case env k of Some v \<Rightarrow> Some v | None \<Rightarrow> map_of kvs k)"
  unfolding merge_env_def by (induction kvs arbitrary: env) (auto split: option.splits if_splits)

lemma runDoctor_worst:
  "fst (runDoctor de envFile timeoutMs) =
     (let lc = loadConfig (do_files de) (do_env de) (do_dotenv de) envFile
      in Max (insert OK (set (failure_codes (environment_checks (do_checks de) @
           configuration_checks (do_files de) lc @ reachability_checks (do_checks de) timeoutMs lc)))))"
  unfolding runDoctor_def Let_def pickWorst_Max [symmetric]
  by (simp add: failure_codes_def filter_empty_conv pickWorst_def del: filter_append)

text \<open>The categories of the three groups.\<close>

lemma environment_category: "r \<in> set (environment_checks ck) \<Longrightarrow> cr_category r = Dep"
  by (auto simp: environment_checks_def checkNode_def checkPnpm_def checkDocker_def checkDockerCompose_def checkOnPath_def
      Let_def split: option.splits)

lemma configuration_category: "r \<in> set (configuration_checks files lc) \<Longrightarrow> cr_category r = Configuration"
  by (auto simp: configuration_checks_def checkEnvFile_def checkEnvVar_def Let_def)

lemma check_store_category: "cr_category (check_store ck t url name var p) = Reachability"
  by (simp add: check_store_def Let_def split: option.split prod.split)

lemma checkServerHealth_category: "cr_category (checkServerHealth ck t lc) = Reachability"
  by (simp add: checkServerHealth_def Let_def split: option.split sum.split prod.split json.split)

lemma reachability_category: "r \<in> set (reachability_checks ck t lc) \<Longrightarrow> cr_category r = Reachability"
  by (auto simp: reachability_checks_def checkPostgres_def checkRedis_def check_store_category checkServerHealth_category)

definition some_failed :: "check_result list \<Rightarrow> bool" where
  "some_failed rs \<longleftrightarrow> list_ex (\<lambda>r. cr_status r = Fail) rs"

lemma failure_codes_group:
  assumes "\<And>r. r \<in> set rs \<Longrightarrow> cr_category r = c"
  shows "set (failure_codes rs) = (if some_failed rs then {category_exit c} else {})"
  using assms by (auto simp: failure_codes_def some_failed_def list_ex_iff)

lemma failure_codes_append: "failure_codes (xs @ ys) = failure_codes xs @ failure_codes ys"
  by (simp add: failure_codes_def)


text \<open>What the verdict of a run depends on, read off its inputs.\<close>

definition dotenv_path :: "doctor_env \<Rightarrow> string option \<Rightarrow> string" where
  "dotenv_path de envFile = (if truthy envFile then the envFile else do_dotenv de)"

definition seen_var :: "doctor_env \<Rightarrow> string option \<Rightarrow> string \<Rightarrow> string option" where
  "seen_var de envFile v =
     (case do_env de v of Some x \<Rightarrow> Some x
      | None \<Rightarrow> (case do_files de (dotenv_path de envFile) of Some content \<Rightarrow> map_of (parseDotenv content) v | None \<Rightarrow> None))"

definition store_down :: "check_env \<Rightarrow> int \<Rightarrow> string \<Rightarrow> int \<Rightarrow> bool" where
  "store_down ck t url def_port =
     (case ck_url ck url of None \<Rightarrow> True
      | Some (host, p) \<Rightarrow> ck_tcp ck host (case p of Some n \<Rightarrow> n | None \<Rightarrow> def_port) t \<noteq> None)"

definition server_down :: "check_env \<Rightarrow> int \<Rightarrow> string \<Rightarrow> bool" where
  "server_down ck t base =
     (case ck_fetch ck (strip_slashes base @ ''/v1/health'') t of
        Inl _ \<Rightarrow> True
      | Inr (status, body) \<Rightarrow> \<not> (200 \<le> status \<and> status < 300) \<or> (case body of Inl _ \<Rightarrow> True | Inr j \<Rightarrow> j = JNull))"

lemma loadConfig_env: "lc_env (loadConfig (do_files de) (do_env de) (do_dotenv de) envFile) v = seen_var de envFile v"
  by (auto simp: loadConfig_def seen_var_def dotenv_path_def Let_def merge_env split: option.splits)

lemma loadConfig_path:
  "lc_envFilePath (loadConfig files env fallback envFile) =
     (let target = if truthy envFile then the envFile else fallback in if files target \<noteq> None then Some target else None)"
  by (simp add: loadConfig_def Let_def)

lemma environment_failed:
  "some_failed (environment_checks ck) \<longleftrightarrow> cr_status (checkNode ck) = Fail \<or>
     list_ex (\<lambda>(cmd, args). ck_exec ck cmd args = None)
       [(''pnpm'', [''--version'']), (''docker'', [''--version'']), (''docker'', [''compose'', ''version''])]"
  by (auto simp: some_failed_def environment_checks_def checkPnpm_def checkDocker_def checkDockerCompose_def checkOnPath_def
      split: option.splits)

lemma checkEnvVar_failed: "cr_status (checkEnvVar v lc) = Fail \<longleftrightarrow> \<not> truthy (lc_env lc v)"
  by (simp add: checkEnvVar_def)

lemma configuration_failed:
  assumes "lc = loadConfig (do_files de) (do_env de) (do_dotenv de) envFile"
  shows "some_failed (configuration_checks (do_files de) lc) \<longleftrightarrow>
     dotenv_path de envFile = [] \<or> do_files de (dotenv_path de envFile) = None \<or>
     list_ex (\<lambda>v. \<not> truthy (seen_var de envFile v)) [''DATABASE_URL'', ''REDIS_URL'', ''SYROTP_BASE_URL'']"
proof -
  have "cr_status (checkEnvFile (do_files de) lc) = Fail \<longleftrightarrow>
      dotenv_path de envFile = [] \<or> do_files de (dotenv_path de envFile) = None"
    by (auto simp: checkEnvFile_def Let_def assms loadConfig_path dotenv_path_def truthy_def)
  then show ?thesis
    by (simp add: some_failed_def configuration_checks_def checkEnvVar_failed assms loadConfig_env)
qed

lemma check_store_failed:
  "truthy url \<Longrightarrow> cr_status (check_store ck timeoutMs url name var def_port) = Fail \<longleftrightarrow>
     store_down ck (case timeoutMs of Some t \<Rightarrow> t | None \<Rightarrow> 3000) (the url) def_port"
  by (auto simp: check_store_def store_down_def Let_def split: option.splits)

lemma checkServerHealth_failed:
  assumes "truthy (lc_env lc ''SYROTP_BASE_URL'')"
  shows "cr_status (checkServerHealth ck timeoutMs lc) = Fail \<longleftrightarrow>
     server_down ck (case timeoutMs of Some t \<Rightarrow> t | None \<Rightarrow> 3000) (the (lc_env lc ''SYROTP_BASE_URL''))"
proof -
  obtain b where b: "lc_env lc ''SYROTP_BASE_URL'' = Some b" "b \<noteq> []" using assms by (auto simp: truthy_def)
  obtain t where t: "t = (case timeoutMs of Some t \<Rightarrow> t | None \<Rightarrow> 3000)" by simp
  show ?thesis
  proof (cases "ck_fetch ck (strip_slashes b @ ''/v1/health'') t")
    case (Inr sb)
    obtain st body where "sb = (st, body)" by fastforce
    with Inr show ?thesis
      unfolding checkServerHealth_def server_down_def b(1) option.case option.sel Let_def t [symmetric] using b(2)
      by (cases body; cases "projr body") simp_all
  qed (simp add: checkServerHealth_def server_down_def b Let_def t [symmetric])
qed

lemma group_codes:
  "set (failure_codes (environment_checks ck)) = (if some_failed (environment_checks ck) then {MISSING_DEP} else {})"
  "set (failure_codes (configuration_checks files lc)) = (if some_failed (configuration_checks files lc) then {MISSING_CONFIG} else {})"
  "set (failure_codes (reachability_checks ck t lc)) = (if some_failed (reachability_checks ck t lc) then {UNREACHABLE} else {})"
  using failure_codes_group [of "environment_checks ck" Dep] failure_codes_group [of "configuration_checks files lc" Configuration]
    failure_codes_group [of "reachability_checks ck t lc" Reachability]
  by (simp_all add: environment_category configuration_category reachability_category category_exit_def)

text \<open>
  The exit code of \<open>syrotp doctor\<close>. Whatever the checks answer, it is determined by the first of these that
  holds: a missing tool gives 4; a missing environment file, or one of three variables set
  neither in the shell nor by its first line in the file, gives 3; a store that does not accept a
  connection or a server without a healthy document gives 5; else it is 0.
\<close>

theorem doctor_exit:
  "fst (runDoctor de envFile timeoutMs) =
     (let ck = do_checks de; value = (\<lambda>v. the (seen_var de envFile v)); t = (case timeoutMs of Some t \<Rightarrow> t | None \<Rightarrow> 3000) in
      if cr_status (checkNode ck) = Fail \<or>
         list_ex (\<lambda>(cmd, args). ck_exec ck cmd args = None)
           [(''pnpm'', [''--version'']), (''docker'', [''--version'']), (''docker'', [''compose'', ''version''])] then MISSING_DEP
      else if dotenv_path de envFile = [] \<or> do_files de (dotenv_path de envFile) = None \<or>
         list_ex (\<lambda>v. \<not> truthy (seen_var de envFile v)) [''DATABASE_URL'', ''REDIS_URL'', ''SYROTP_BASE_URL''] then MISSING_CONFIG
      else if store_down ck t (value ''DATABASE_URL'') 5432 \<or> store_down ck t (value ''REDIS_URL'') 6379 \<or>
         server_down ck t (value ''SYROTP_BASE_URL'') then UNREACHABLE
      else OK)"
proof -
  let ?lc = "loadConfig (do_files de) (do_env de) (do_dotenv de) envFile"
  let ?e = "some_failed (environment_checks (do_checks de))" and ?c = "some_failed (configuration_checks (do_files de) ?lc)"
    and ?r = "some_failed (reachability_checks (do_checks de) timeoutMs ?lc)"
  have worst: "fst (runDoctor de envFile timeoutMs) =
      (if ?e then MISSING_DEP else if ?c then MISSING_CONFIG else if ?r then UNREACHABLE else OK)"
    unfolding runDoctor_worst Let_def failure_codes_append set_append group_codes
    by (auto simp: max_def exit_order)
  have r: "?r \<longleftrightarrow> store_down (do_checks de) (case timeoutMs of Some t \<Rightarrow> t | None \<Rightarrow> 3000) (the (seen_var de envFile ''DATABASE_URL'')) 5432 \<or>
      store_down (do_checks de) (case timeoutMs of Some t \<Rightarrow> t | None \<Rightarrow> 3000) (the (seen_var de envFile ''REDIS_URL'')) 6379 \<or>
      server_down (do_checks de) (case timeoutMs of Some t \<Rightarrow> t | None \<Rightarrow> 3000) (the (seen_var de envFile ''SYROTP_BASE_URL''))"
    if "\<not> ?c"
    using that checkServerHealth_failed [of ?lc "do_checks de" timeoutMs] unfolding configuration_failed [OF refl]
    by (simp add: some_failed_def reachability_checks_def checkPostgres_def checkRedis_def check_store_failed loadConfig_env)
  show ?thesis
    unfolding worst Let_def using r by (simp only: environment_failed configuration_failed [OF refl] if_False simp_thms split: if_split) blast
qed


section \<open>Facts about the parsers\<close>

text \<open>Arguments written out are read back; positional arguments stand behind the double dash.\<close>

definition render_flag :: "string \<times> flag_value \<Rightarrow> string" where
  "render_flag kv = (case kv of (n, FTrue) \<Rightarrow> ''--'' @ n | (n, FStr v) \<Rightarrow> ''--'' @ n @ ''='' @ v)"

definition writable :: "flag_spec \<Rightarrow> string \<times> flag_value \<Rightarrow> bool" where
  "writable spec kv \<longleftrightarrow>
     (case kv of (n, v) \<Rightarrow> n \<noteq> [] \<and> hd n \<noteq> CHR ''-'' \<and> CHR ''='' \<notin> set n \<and> n \<noteq> ''__proto__'' \<and>
        map_option fd_value (map_of spec n) = Some (v \<noteq> FTrue))"

lemma split_render_flag:
  assumes "writable spec (n, v)"
  shows "split_flag (render_flag (n, v)) = (n, case v of FTrue \<Rightarrow> None | FStr x \<Rightarrow> Some x)"
proof -
  have "dropWhile (\<lambda>c. c = CHR ''-'') (''--'' @ n @ t) = n @ t" for t
    using assms by (cases n) (auto simp: writable_def)
  from this [of "[]"] this [of "''='' @ t" for t] assms show ?thesis
    by (cases v) (auto simp: split_flag_def render_flag_def writable_def Let_def index_of_None [THEN iffD2] index_of_append)
qed

lemma scan_render_flags:
  "list_all (writable spec) kvs \<Longrightarrow>
     scan_flags spec vs [] (map render_flag kvs @ ''--'' # ps)
     = \<lparr>fp_values = fold (\<lambda>(n, v). set_flag n v) kvs vs, fp_positionals = ps, fp_unknown = None\<rparr>"
proof (induction kvs arbitrary: vs)
  case (Cons kv kvs)
  obtain n v where kv: "kv = (n, v)" by (cases kv)
  with Cons.prems have w: "writable spec (n, v)" by simp
  obtain d where d: "map_of spec n = Some d" "fd_value d = (v \<noteq> FTrue)" using w by (auto simp: writable_def)
  have t: "starts_with (render_flag (n, v)) ''--''" "starts_with (render_flag (n, v)) ''-''" "render_flag (n, v) \<noteq> ''--''"
    using w by (cases v; simp add: render_flag_def starts_with_def writable_def)+
  show ?case
    using Cons d t split_render_flag [OF w]
    by (cases v) (simp_all add: kv flag_lookup_def own_or_proto_def)
qed simp

lemma flags_roundtrip:
  assumes "list_all (writable spec) kvs"
  shows "parseFlags spec (map render_flag kvs @ ''--'' # ps) = \<lparr>fp_values = map_of (rev kvs), fp_positionals = ps, fp_unknown = None\<rparr>"
proof -
  have "fold (\<lambda>(n, v). set_flag n v) kvs vs = vs ++ map_of (rev kvs)" for vs
    using assms by (induction kvs arbitrary: vs) (auto simp: set_flag_def writable_def map_add_def fun_eq_iff split: option.splits)
  then show ?thesis
    using scan_render_flags [OF assms] by (simp add: parseFlags_def)
qed

text \<open>A name every object inherits is taken for a flag of any command; a misspelt one is refused.\<close>

lemma inherited_flag_accepted:
  "fp_unknown (parseFlags [(''help'', \<lparr>fd_value = False, fd_alias = Some ''h''\<rparr>)] [''--toString'']) = None"
  "fp_unknown (parseFlags [(''help'', \<lparr>fd_value = False, fd_alias = Some ''h''\<rparr>)] [''--tostring'']) = Some ''--tostring''"
  by code_simp+

text \<open>
  Credentials of a store URL are hidden up to the first at sign, unless a slash comes before it; the
  TLS scheme of Redis is not among the schemes looked for.
\<close>

lemma mask_leaks:
  "maskForDisplay ''REDIS_URL'' ''redis://:hunter2@cache:6380'' = ''redis://***@cache:6380''"
  "maskForDisplay ''REDIS_URL'' ''rediss://:hunter2@cache:6380'' = ''rediss://:hunter2@cache:6380''"
  "maskForDisplay ''DATABASE_URL'' ''postgres://u:p@ss@db/x'' = ''postgres://***@ss@db/x''"
  by code_simp+

end
