(* ===== verification/LoadMetrics.thy ===== *)
theory LoadMetrics
  imports Cli
begin

text \<open>
  What the load-test tool measures and how it judges a run: \<open>histogram.ts\<close>, \<open>metrics.ts\<close>, the
  recording of an outcome (\<open>scenarios/common.ts\<close>), the classification of answers (\<open>client.ts\<close>) and the
  acceptance policies (\<open>acceptance.ts\<close>), all under \<open>tools/loadtest/src\<close>. Times are rationals; the rounding of
  doubles is not modelled.
\<close>

section \<open>Latencies\<close>

record latencies =
  la_samples :: "rat list"
  la_mn :: "rat option"
  la_mx :: rat
  la_sum :: rat

definition no_latencies :: latencies where
  "no_latencies = \<lparr>la_samples = [], la_mn = None, la_mx = 0, la_sum = 0\<rparr>"

text \<open>A measurement is \<open>None\<close> when it is not finite; \<open>la_mn\<close> is \<open>None\<close> for infinity.\<close>

definition lat_add :: "rat option \<Rightarrow> latencies \<Rightarrow> latencies" where
  "lat_add ms l =
     (case ms of
        None \<Rightarrow> l
      | Some x \<Rightarrow>
        if x < 0 then l
        else \<lparr>la_samples = la_samples l @ [x],
              la_mn = Some (case la_mn l of None \<Rightarrow> x | Some m \<Rightarrow> if x < m then x else m),
              la_mx = (if x > la_mx l then x else la_mx l), la_sum = la_sum l + x\<rparr>)"

definition lat_count :: "latencies \<Rightarrow> nat" where
  "lat_count l = length (la_samples l)"

definition lat_min :: "latencies \<Rightarrow> rat" where
  "lat_min l = (if la_samples l = [] then 0 else the (la_mn l))"

definition lat_mean :: "latencies \<Rightarrow> rat" where
  "lat_mean l = (if la_samples l = [] then 0 else la_sum l / of_nat (lat_count l))"

definition percentile :: "rat \<Rightarrow> latencies \<Rightarrow> rat" where
  "percentile p l =
     (let n = lat_count l in
      if n = 0 then 0 else if p \<le> 0 then the (la_mn l) else if p \<ge> 100 then la_mx l
      else sort (la_samples l) ! nat (min (int n - 1) (max 0 (\<lceil>p / 100 * of_nat n\<rceil> - 1))))"

text \<open>\<open>Math.round(x * k) / k\<close>.\<close>

definition round_to :: "rat \<Rightarrow> rat \<Rightarrow> rat" where
  "round_to k x = of_int \<lfloor>x * k + 1 / 2\<rfloor> / k"

record latency_snapshot =
  ls_count :: nat
  ls_min_ms :: rat
  ls_max_ms :: rat
  ls_mean_ms :: rat
  ls_p50_ms :: rat
  ls_p95_ms :: rat
  ls_p99_ms :: rat

definition lat_snapshot :: "latencies \<Rightarrow> latency_snapshot" where
  "lat_snapshot l =
     \<lparr>ls_count = lat_count l, ls_min_ms = round_to 100 (lat_min l), ls_max_ms = round_to 100 (la_mx l),
      ls_mean_ms = round_to 100 (lat_mean l), ls_p50_ms = round_to 100 (percentile 50 l),
      ls_p95_ms = round_to 100 (percentile 95 l), ls_p99_ms = round_to 100 (percentile 99 l)\<rparr>"

section \<open>Counters\<close>

record op_metrics =
  om_latency :: latencies
  om_ok :: nat
  om_expected_4xx :: nat
  om_unexpected_4xx :: nat
  om_err_5xx :: nat
  om_network_err :: nat
  om_timeout :: nat
  om_total :: nat
  om_extras :: "string \<rightharpoonup> nat"

definition no_ops :: op_metrics where
  "no_ops = \<lparr>om_latency = no_latencies, om_ok = 0, om_expected_4xx = 0, om_unexpected_4xx = 0, om_err_5xx = 0,
     om_network_err = 0, om_timeout = 0, om_total = 0, om_extras = Map.empty\<rparr>"

definition bumpExtra :: "string \<Rightarrow> op_metrics \<Rightarrow> op_metrics" where
  "bumpExtra key m = m\<lparr>om_extras := (om_extras m)(key \<mapsto> (case om_extras m key of None \<Rightarrow> 0 | Some n \<Rightarrow> n) + 1)\<rparr>"

text \<open>The requests that count for or against success: all but the expected refusals.\<close>

definition success_denom :: "op_metrics \<Rightarrow> nat" where
  "success_denom m = om_ok m + om_unexpected_4xx m + om_err_5xx m + om_network_err m + om_timeout m"

definition successRate :: "op_metrics \<Rightarrow> rat" where
  "successRate m = (if success_denom m = 0 then 1 else of_nat (om_ok m) / of_nat (success_denom m))"

record run_metrics =
  rm_start :: op_metrics
  rm_status :: op_metrics
  rm_inbound :: op_metrics
  rm_heartbeat :: op_metrics
  rm_double_verifications :: nat
  rm_unhandled_exceptions :: nat

definition no_metrics :: run_metrics where
  "no_metrics = \<lparr>rm_start = no_ops, rm_status = no_ops, rm_inbound = no_ops, rm_heartbeat = no_ops,
     rm_double_verifications = 0, rm_unhandled_exceptions = 0\<rparr>"

section \<open>Outcomes of requests\<close>

datatype answer_kind = AOk | AExpected4xx | AUnexpected4xx | AErr5xx

datatype load_outcome = Answered answer_kind int json "rat option" | NetworkErr string "rat option" | TimedOut "rat option"

definition classify :: "int list \<Rightarrow> int \<Rightarrow> answer_kind" where
  "classify expected4xx status =
     (if 200 \<le> status \<and> status < 300 then AOk
      else if status \<ge> 500 then AErr5xx
      else if status \<in> set expected4xx then AExpected4xx
      else AUnexpected4xx)"

text \<open>What \<open>fetch\<close> comes to, with the time it took.\<close>

datatype wire = WAnswer int string "rat option" | WAbort "rat option" | WError string "rat option"

definition client_outcome :: "(string \<Rightarrow> json option) \<Rightarrow> int list \<Rightarrow> wire \<Rightarrow> load_outcome" where
  "client_outcome parse expected4xx w =
     (case w of
        WAnswer status body ms \<Rightarrow>
          Answered (classify expected4xx status) status
            (if body = [] then JObj [] else case parse body of Some j \<Rightarrow> j | None \<Rightarrow> JObj [(''_raw'', JStr body)]) ms
      | WAbort ms \<Rightarrow> TimedOut ms
      | WError message ms \<Rightarrow> NetworkErr message ms)"

definition record_outcome :: "load_outcome \<Rightarrow> op_metrics \<Rightarrow> op_metrics" where
  "record_outcome out m0 =
     (let m = m0\<lparr>om_total := om_total m0 + 1\<rparr> in
      case out of
        Answered kind _ _ ms \<Rightarrow>
          let m1 = m\<lparr>om_latency := lat_add ms (om_latency m)\<rparr> in
          (case kind of
             AOk \<Rightarrow> m1\<lparr>om_ok := om_ok m + 1\<rparr>
           | AExpected4xx \<Rightarrow> m1\<lparr>om_expected_4xx := om_expected_4xx m + 1\<rparr>
           | AUnexpected4xx \<Rightarrow> m1\<lparr>om_unexpected_4xx := om_unexpected_4xx m + 1\<rparr>
           | AErr5xx \<Rightarrow> m1\<lparr>om_err_5xx := om_err_5xx m + 1\<rparr>)
      | NetworkErr _ _ \<Rightarrow> m\<lparr>om_network_err := om_network_err m + 1\<rparr>
      | TimedOut _ \<Rightarrow> m\<lparr>om_timeout := om_timeout m + 1\<rparr>)"

section \<open>Acceptance\<close>

record acceptance_check =
  ac_name :: string
  ac_pass :: bool
  ac_threshold :: string
  ac_actual :: string

datatype measured = MStart | MInbound | MStatus

record acceptance_policy =
  po_successFor :: "measured list"
  po_p95StartMs :: "rat option"
  po_p95InboundMs :: "rat option"
  po_p95StatusMs :: "rat option"
  po_minSuccessRate :: "rat option"
  po_noDoubleVerifications :: bool
  po_noServerErrors :: bool

definition policy_of :: "measured list \<Rightarrow> acceptance_policy" where
  "policy_of ops = \<lparr>po_successFor = ops, po_p95StartMs = None, po_p95InboundMs = None, po_p95StatusMs = None, po_minSuccessRate = None,
     po_noDoubleVerifications = False, po_noServerErrors = False\<rparr>"

definition full_policy :: "rat \<Rightarrow> acceptance_policy" where
  "full_policy ms = \<lparr>po_successFor = [MStart, MInbound, MStatus], po_p95StartMs = Some ms, po_p95InboundMs = Some ms,
     po_p95StatusMs = Some ms, po_minSuccessRate = Some (999 / 1000), po_noDoubleVerifications = True, po_noServerErrors = True\<rparr>"

definition defaultPolicy :: "string \<Rightarrow> acceptance_policy" where
  "defaultPolicy scenario =
     (if scenario \<in> set [''scenario-a'', ''scenario-b'', ''full-flow''] then full_policy 400
      else if scenario = ''soak'' then full_policy 500
      else if scenario = ''scenario-c'' then (full_policy 400)\<lparr>po_successFor := [MStart, MInbound], po_p95StatusMs := None\<rparr>
      else if scenario = ''start-only'' then
        (policy_of [MStart])\<lparr>po_p95StartMs := Some 400, po_minSuccessRate := Some (999 / 1000), po_noServerErrors := True\<rparr>
      else if scenario = ''inbound-only'' then
        (full_policy 400)\<lparr>po_successFor := [MStart, MInbound], po_p95StartMs := None, po_p95StatusMs := None\<rparr>
      else if scenario \<in> set [''status-polling'', ''replay-storm'', ''wrong-code-storm''] then (policy_of [])\<lparr>po_noServerErrors := True\<rparr>
      else if scenario = ''receiver-disabled'' then policy_of []
      else if scenario = ''mixed'' then
        (full_policy 400)\<lparr>po_successFor := [MStart, MInbound], po_p95StatusMs := None, po_minSuccessRate := Some (99 / 100)\<rparr>
      else policy_of [MStart])"

text \<open>\<open>n.toFixed(2)\<close> of a number that is not negative.\<close>

definition toFixed2 :: "rat \<Rightarrow> string" where
  "toFixed2 x =
     (let n = nat \<lfloor>x * 100 + 1 / 2\<rfloor>
      in show_nat (n div 100) @ ''.'' @ show_nat (n mod 100 div 10) @ show_nat (n mod 10))"

definition ms_text :: "rat \<Rightarrow> string" where
  "ms_text n = toFixed2 n @ ''ms''"

definition pct_text :: "rat \<Rightarrow> string" where
  "pct_text n = toFixed2 (n * 100) @ ''%''"

definition measured_ops :: "run_metrics \<Rightarrow> measured \<Rightarrow> op_metrics" where
  "measured_ops m which = (case which of MStart \<Rightarrow> rm_start m | MInbound \<Rightarrow> rm_inbound m | MStatus \<Rightarrow> rm_status m)"

definition AT_MOST :: string where
  "AT_MOST = [CHR 0xE2, CHR 0x89, CHR 0xA4]"

definition p95_check :: "string \<Rightarrow> rat option \<Rightarrow> op_metrics \<Rightarrow> acceptance_check list" where
  "p95_check name limit op =
     (case limit of
        None \<Rightarrow> []
      | Some t \<Rightarrow>
        if om_total op > 0 then
          let v = ls_p95_ms (lat_snapshot (om_latency op)) in
          [\<lparr>ac_name = ''p95 '' @ name @ '' '' @ AT_MOST @ '' threshold'', ac_pass = (v \<le> t), ac_threshold = ms_text t, ac_actual = ms_text v\<rparr>]
        else [])"

definition combined_rate :: "op_metrics list \<Rightarrow> rat" where
  "combined_rate ops =
     (let ok = sum_list (map om_ok ops); denom = sum_list (map success_denom ops)
      in if denom = 0 then 1 else of_nat ok / of_nat denom)"

definition success_check :: "acceptance_policy \<Rightarrow> run_metrics \<Rightarrow> acceptance_check list" where
  "success_check p m =
     (case po_minSuccessRate p of
        None \<Rightarrow> []
      | Some t \<Rightarrow>
        if po_successFor p = [] then []
        else let rate = combined_rate (map (measured_ops m) (po_successFor p)) in
          [\<lparr>ac_name = ''success rate '' @ AT_LEAST @ '' '' @ pct_text t, ac_pass = (rate \<ge> t), ac_threshold = pct_text t, ac_actual = pct_text rate\<rparr>])"

definition zero_check :: "string \<Rightarrow> nat \<Rightarrow> acceptance_check" where
  "zero_check name n = \<lparr>ac_name = name, ac_pass = (n = 0), ac_threshold = ''0'', ac_actual = show_nat n\<rparr>"

definition all_ops :: "run_metrics \<Rightarrow> op_metrics list" where
  "all_ops m = [rm_start m, rm_inbound m, rm_status m, rm_heartbeat m]"

definition evaluate :: "run_metrics \<Rightarrow> acceptance_policy \<Rightarrow> bool \<times> acceptance_check list" where
  "evaluate m p =
     (let checks = p95_check ''start'' (po_p95StartMs p) (rm_start m) @ p95_check ''inbound'' (po_p95InboundMs p) (rm_inbound m) @
            p95_check ''status'' (po_p95StatusMs p) (rm_status m) @ success_check p m @
            (if po_noDoubleVerifications p then [zero_check ''no double-verifications'' (rm_double_verifications m)] else []) @
            (if po_noServerErrors p then [zero_check ''no 5xx responses'' (sum_list (map om_err_5xx (all_ops m)))] else []) @
            [zero_check ''no unhandled worker exceptions'' (rm_unhandled_exceptions m)]
      in (list_all ac_pass checks, checks))"


section \<open>What the gate means\<close>

lemma sorted_nth_less:
  "sorted ys \<Longrightarrow> i < length ys \<Longrightarrow> ys ! i < t \<longleftrightarrow> i < length (filter (\<lambda>x. x < t) ys)"
  for ys :: "'a::linorder list"
proof (induction ys arbitrary: i)
  case (Cons y ys)
  show ?case
  proof (cases "y < t")
    case True
    then show ?thesis using Cons by (cases i) auto
  next
    case False
    then have "filter (\<lambda>x. x < t) ys = []" using Cons.prems by (auto simp: filter_empty_conv)
    moreover have "y \<le> (y # ys) ! i" using nth_mem [OF Cons.prems(2)] Cons.prems(1) by auto
    then have "\<not> (y # ys) ! i < t" using False by simp
    ultimately show ?thesis using False by simp
  qed
qed simp

definition below :: "rat \<Rightarrow> latencies \<Rightarrow> nat" where
  "below t l = length (filter (\<lambda>x. x < t) (la_samples l))"

lemma percentile_less:
  assumes "0 < p" and "p < 100" and "la_samples l \<noteq> []"
  shows "percentile p l < t \<longleftrightarrow> p / 100 * of_nat (lat_count l) \<le> of_nat (below t l)"
proof -
  let ?n = "lat_count l" and ?c = "\<lceil>p / 100 * of_nat (lat_count l)\<rceil>"
  have n: "0 < ?n" using assms(3) by (simp add: lat_count_def)
  have "0 < p / 100 * of_nat ?n" using assms(1) n by simp
  then have c0: "0 < ?c" by (simp only: zero_less_ceiling)
  have "p / 100 * of_nat ?n \<le> of_nat ?n" using assms(2) n by (simp add: field_simps)
  then have cn: "?c \<le> int ?n" by (simp add: ceiling_le_iff)
  have idx: "nat (min (int ?n - 1) (max 0 (?c - 1))) = nat (?c - 1)" using c0 cn by simp
  have i: "nat (?c - 1) < length (sort (la_samples l))" using c0 cn by (simp add: lat_count_def) linarith
  have "length (filter (\<lambda>x. x < t) (sort (la_samples l))) = below t l"
    by (simp add: below_def filter_sort)
  then have "percentile p l < t \<longleftrightarrow> nat (?c - 1) < below t l"
    using sorted_nth_less [OF sorted_sort i, of t] assms n idx by (simp add: percentile_def Let_def)
  also have "\<dots> \<longleftrightarrow> ?c \<le> int (below t l)" using c0 by linarith
  also have "\<dots> \<longleftrightarrow> p / 100 * of_nat ?n \<le> of_nat (below t l)" by (simp add: ceiling_le_iff)
  finally show ?thesis .
qed

lemma round_to_le:
  "round_to 100 v \<le> of_nat t \<longleftrightarrow> v < of_nat t + 1 / 200"
proof -
  have "round_to 100 v \<le> of_nat t \<longleftrightarrow> of_int \<lfloor>v * 100 + 1 / 2\<rfloor> \<le> (of_int (int t * 100) :: rat)"
    by (simp add: round_to_def field_simps)
  also have "\<dots> \<longleftrightarrow> v * 100 + 1 / 2 < of_int (int t * 100 + 1)"
    by (simp only: of_int_le_iff floor_le_iff) simp
  also have "\<dots> \<longleftrightarrow> v < of_nat t + 1 / 200" by (auto simp: field_simps)
  finally show ?thesis .
qed

text \<open>An operation meets its limit: enough of its measured times are below it, up to half a hundredth.\<close>

definition meets :: "nat \<Rightarrow> op_metrics \<Rightarrow> bool" where
  "meets t op \<longleftrightarrow> om_total op = 0 \<or>
     95 * lat_count (om_latency op) \<le> 100 * below (of_nat t + 1 / 200) (om_latency op)"

lemma p95_check_pass: "list_all ac_pass (p95_check name (Some (of_nat t)) op) \<longleftrightarrow> meets t op"
proof (cases "la_samples (om_latency op) = []")
  case True
  moreover have "\<lfloor>1 / 2 :: rat\<rfloor> = 0" by (simp add: floor_eq_iff)
  ultimately show ?thesis
    by (simp add: p95_check_def Let_def lat_snapshot_def percentile_def lat_count_def round_to_def meets_def)
next
  case False
  have "(95 :: rat) / 100 * of_nat (lat_count (om_latency op)) \<le> of_nat (below (of_nat t + 1 / 200) (om_latency op)) \<longleftrightarrow>
      (of_nat (95 * lat_count (om_latency op)) :: rat) \<le> of_nat (100 * below (of_nat t + 1 / 200) (om_latency op))"
    by (simp add: field_simps)
  then show ?thesis
    using percentile_less [of 95, OF _ _ False]
    by (simp add: p95_check_def Let_def lat_snapshot_def round_to_le meets_def del: of_nat_mult)
qed

lemma combined_rate_ge:
  "combined_rate ops \<ge> 999 / 1000 \<longleftrightarrow> 999 * sum_list (map success_denom ops) \<le> 1000 * sum_list (map om_ok ops)"
proof -
  have le: "sum_list (map om_ok ops) \<le> sum_list (map success_denom ops)"
    by (rule sum_list_mono) (simp add: success_denom_def)
  have rate: "999 / 1000 \<le> of_nat a / (of_nat b :: rat) \<longleftrightarrow> 999 * b \<le> 1000 * a" if "b \<noteq> 0" for a b :: nat
  proof -
    have "999 / 1000 \<le> of_nat a / (of_nat b :: rat) \<longleftrightarrow> of_nat (999 * b) \<le> (of_nat (1000 * a) :: rat)"
      using that by (simp add: field_simps)
    then show ?thesis by (simp only: of_nat_le_iff)
  qed
  show ?thesis
    using le rate [of "sum_list (map success_denom ops)" "sum_list (map om_ok ops)"]
    by (cases "sum_list (map success_denom ops) = 0") (simp_all only: combined_rate_def Let_def if_True if_False, simp_all)
qed

text \<open>
  What the acceptance gate of a full-flow run decides. It passes exactly when for each of the three operations at least
  95 percent of the measured times are below the limit (to half a hundredth of a millisecond, the
  rounding of the report), at least 999 of 1000 counted requests succeeded, and no server error,
  double verification or exception was counted. Requests that were refused as expected and times
  of requests that got no answer do not count; an operation that did not happen passes.
\<close>

lemma full_gate_exact:
  "fst (evaluate m (full_policy (of_nat t))) \<longleftrightarrow>
     meets t (rm_start m) \<and> meets t (rm_inbound m) \<and> meets t (rm_status m) \<and>
     999 * (success_denom (rm_start m) + success_denom (rm_inbound m) + success_denom (rm_status m))
       \<le> 1000 * (om_ok (rm_start m) + om_ok (rm_inbound m) + om_ok (rm_status m)) \<and>
     rm_double_verifications m = 0 \<and>
     om_err_5xx (rm_start m) = 0 \<and> om_err_5xx (rm_inbound m) = 0 \<and> om_err_5xx (rm_status m) = 0 \<and> om_err_5xx (rm_heartbeat m) = 0 \<and>
     rm_unhandled_exceptions m = 0"
  using combined_rate_ge [of "map (measured_ops m) [MStart, MInbound, MStatus]"]
  by (simp add: evaluate_def Let_def p95_check_pass full_policy_def success_check_def zero_check_def measured_ops_def all_ops_def)
     (simp add: ac_simps)

end
