(* ===== verification/Crypto.thy ===== *)
theory Crypto
  imports Errors
begin

text \<open>
  \<open>lib/crypto.ts\<close>: constant-time comparison, token generation and keyed hashing. A \<open>Buffer\<close> is
  a \<open>string\<close> (a list of bytes); the UTF-8 encoding of the texts compared here is the identity.
  HMAC-SHA256 and SHA-256 of \<open>node:crypto\<close> are arguments (\<open>hmac key msg\<close> and
  \<open>sha256 msg\<close>, both with lower-case hex output), and so is the random source: \<open>randomInt\<close>
  gives the value of the \<open>i\<close>-th call, \<open>randomBytes\<close> the bytes of the one call.
\<close>

type_synonym hmac_fn = "string \<Rightarrow> string \<Rightarrow> string"
type_synonym hash_fn = "string \<Rightarrow> string"

section \<open>Comparison\<close>

text \<open>\<open>timingSafeEqual\<close> throws (\<open>None\<close>) on buffers of different length.\<close>

definition timingSafeEqual :: "string \<Rightarrow> string \<Rightarrow> bool option" where
  "timingSafeEqual a b =
     (if length a \<noteq> length b then None else Some (list_all2 (=) a b))"

definition safeEqual :: "string \<Rightarrow> string \<Rightarrow> bool option" where
  "safeEqual a b =
     (if length a \<noteq> length b then
        (let filler = replicate (length a) (CHR 0x00) in
         case timingSafeEqual a filler of None \<Rightarrow> None | Some _ \<Rightarrow> Some False)
      else timingSafeEqual a b)"

lemma safeEqual_eq [simp]: "safeEqual a b = Some (a = b)"
  by (auto simp: safeEqual_def timingSafeEqual_def list.rel_eq Let_def)

section \<open>Hex\<close>

definition hex_digit :: "nat \<Rightarrow> char" where
  "hex_digit n = (if n < 10 then char_of (48 + n) else char_of (87 + n))"

definition hex_val :: "char \<Rightarrow> nat" where
  "hex_val c = (if is_digit c then code_unit c - 48
                else if is_lower c then code_unit c - 87 else code_unit c - 55)"

text \<open>\<open>buf.toString("hex")\<close>.\<close>

fun to_hex :: "string \<Rightarrow> string" where
  "to_hex [] = []"
| "to_hex (b # bs) = hex_digit (code_unit b div 16) # hex_digit (code_unit b mod 16) # to_hex bs"

text \<open>\<open>Buffer.from(s, "hex")\<close> decodes pairs of digits and stops at the first bad pair.\<close>

fun from_hex :: "string \<Rightarrow> string" where
  "from_hex (a # b # s) =
     (if is_hex a \<and> is_hex b then char_of (16 * hex_val a + hex_val b) # from_hex s else [])"
| "from_hex _ = []"

lemma hex_digit_props:
  "n < 16 \<Longrightarrow> is_hex (hex_digit n) \<and> hex_val (hex_digit n) = n"
  by (auto simp: hex_digit_def hex_val_def char_class_defs)

lemma from_hex_to_hex [simp]: "from_hex (to_hex bs) = bs"
proof (induction bs)
  case (Cons b bs)
  have "code_unit b div 16 < 16" and "code_unit b mod 16 < 16"
    using code_unit_less [of b] by (simp_all add: less_mult_imp_div_less)
  then show ?case
    using Cons by (simp add: hex_digit_props code_unit_def)
qed simp

lemma length_to_hex [simp]: "length (to_hex bs) = 2 * length bs"
  by (induction bs) simp_all

lemma to_hex_class: "list_all is_hex (to_hex bs)"
proof (induction bs)
  case (Cons b bs)
  have "code_unit b div 16 < 16" and "code_unit b mod 16 < 16"
    using code_unit_less [of b] by (simp_all add: less_mult_imp_div_less)
  then show ?case using Cons by (simp add: hex_digit_props)
qed simp

section \<open>Tokens\<close>

text \<open>The characters drawn from an alphabet by a sequence of indices.\<close>

definition draw :: "string \<Rightarrow> (nat \<Rightarrow> nat) \<Rightarrow> nat \<Rightarrow> string" where
  "draw alphabet idx n = concat (map (\<lambda>i. char_at alphabet (idx i)) [0..<n])"

definition CODE_ALPHABET :: string where
  "CODE_ALPHABET = ''ABCDEFGHJKMNPQRSTUVWXYZ23456789''"

definition generateCode :: "(nat \<Rightarrow> nat) \<Rightarrow> nat \<Rightarrow> exn + string" where
  "generateCode randomInt len =
     (if len < 4 \<or> len > 32 then Inl (JsError ''invalid code length'')
      else Inr (draw CODE_ALPHABET randomInt len))"

definition API_KEY_ALPHABET :: string where
  "API_KEY_ALPHABET = ''abcdefghijklmnopqrstuvwxyz0123456789''"

definition generateApiKey :: "string \<Rightarrow> string \<Rightarrow> string" where
  "generateApiKey randomBytes prefix =
     prefix @ ''_'' @ draw API_KEY_ALPHABET
       (\<lambda>i. code_unit (randomBytes ! i) mod length API_KEY_ALPHABET) (length randomBytes)"

definition generateNonceHex :: "string \<Rightarrow> string" where
  "generateNonceHex randomBytes = to_hex randomBytes"

text \<open>Indices inside the alphabet draw one character each.\<close>

lemma draw_in:
  assumes "\<And>i. i < n \<Longrightarrow> idx i < length alphabet"
  shows "draw alphabet idx n = map (\<lambda>i. alphabet ! idx i) [0..<n]"
proof -
  have "map (\<lambda>i. char_at alphabet (idx i)) [0..<n] = map (\<lambda>c. [c]) (map (\<lambda>i. alphabet ! idx i) [0..<n])"
    using assms by (simp add: char_at_def)
  then show ?thesis by (simp only: draw_def concat_map_singleton map_ident)
qed

lemma length_draw:
  "(\<And>i. i < n \<Longrightarrow> idx i < length alphabet) \<Longrightarrow> length (draw alphabet idx n) = n"
  by (simp add: draw_in)

lemma draw_class:
  assumes "\<And>i. i < n \<Longrightarrow> idx i < length alphabet" and "list_all P alphabet"
  shows "list_all P (draw alphabet idx n)"
  using assms by (auto simp: draw_in list_all_iff)

lemma length_CODE_ALPHABET: "length CODE_ALPHABET = 31"
  by (simp add: CODE_ALPHABET_def)

lemma CODE_ALPHABET_class: "list_all is_upper_alnum CODE_ALPHABET"
  by (simp add: CODE_ALPHABET_def char_class_defs code_unit_def)

lemma CODE_ALPHABET_unambiguous: "distinct CODE_ALPHABET \<and> set CODE_ALPHABET \<inter> set ''0O1IL'' = {}"
  by (simp add: CODE_ALPHABET_def)

lemma length_API_KEY_ALPHABET: "length API_KEY_ALPHABET = 36"
  by (simp add: API_KEY_ALPHABET_def)

lemma API_KEY_ALPHABET_class: "list_all (\<lambda>c. is_alnum c \<and> c \<noteq> CHR ''_'') API_KEY_ALPHABET"
  by (simp add: API_KEY_ALPHABET_def char_class_defs code_unit_def)

text \<open>
  \<open>generateCode\<close>. For a length the configuration admits and random indices below the size of
  the alphabet it returns a code of exactly that length over upper-case letters and digits, without
  the ambiguous characters 0, O, 1, I and L; every other length is refused.
\<close>

theorem generateCode_shape:
  assumes "\<And>i. randomInt i < 31"
  shows "if 4 \<le> len \<and> len \<le> 32
         then \<exists>c. generateCode randomInt len = Inr c \<and> length c = len \<and>
                  list_all is_upper_alnum c \<and> set c \<inter> set ''0O1IL'' = {}
         else generateCode randomInt len = Inl (JsError ''invalid code length'')"
proof -
  have idx: "\<And>i. i < len \<Longrightarrow> randomInt i < length CODE_ALPHABET"
    using assms by (simp add: length_CODE_ALPHABET)
  have "list_all (\<lambda>c. c \<notin> set ''0O1IL'') CODE_ALPHABET"
    using CODE_ALPHABET_unambiguous by (auto simp: list_all_iff)
  then have "list_all (\<lambda>c. c \<notin> set ''0O1IL'') (draw CODE_ALPHABET randomInt len)"
    using idx by (intro draw_class)
  then have "set (draw CODE_ALPHABET randomInt len) \<inter> set ''0O1IL'' = {}"
    by (auto simp: list_all_iff)
  then show ?thesis
    using length_draw [OF idx] draw_class [OF idx CODE_ALPHABET_class]
    by (auto simp: generateCode_def)
qed

theorem generateCode_shape_witness:
  "\<exists>c. generateCode (\<lambda>i. 5 * i mod 31) 6 = Inr c \<and> length c = 6 \<and> c = ''AFMSX4''"
  using generateCode_shape [of "\<lambda>i. 5 * i mod 31" 6]
  by (simp add: generateCode_def draw_def char_at_def CODE_ALPHABET_def upt_rec)

lemma generateCode_ok:
  assumes "\<And>i. randomInt i < 31" and "4 \<le> len" and "len \<le> 32"
  shows "\<exists>c. generateCode randomInt len = Inr c \<and> length c = len \<and> list_all is_upper_alnum c"
proof -
  have idx: "\<And>i. i < len \<Longrightarrow> randomInt i < length CODE_ALPHABET"
    using assms by (simp add: length_CODE_ALPHABET)
  show ?thesis
    using length_draw [OF idx] draw_class [OF idx CODE_ALPHABET_class] assms
    by (auto simp: generateCode_def)
qed

lemma generateApiKey_random:
  "\<exists>r. generateApiKey rb p = p @ ''_'' @ r \<and> length r = length rb \<and>
       list_all (\<lambda>c. is_alnum c \<and> c \<noteq> CHR ''_'') r"
proof -
  have idx: "\<And>i. i < length rb \<Longrightarrow>
      code_unit (rb ! i) mod length API_KEY_ALPHABET < length API_KEY_ALPHABET"
    by (simp add: length_API_KEY_ALPHABET)
  show ?thesis
    unfolding generateApiKey_def
    using length_draw [OF idx] draw_class [OF idx API_KEY_ALPHABET_class]
    by (intro exI conjI) (rule refl, assumption, assumption)
qed

section \<open>Keyed hashes\<close>

definition hashSecret :: "hmac_fn \<Rightarrow> string \<Rightarrow> string \<Rightarrow> string \<Rightarrow> string" where
  "hashSecret hmac domain masterKeyHex v = hmac (from_hex masterKeyHex) (domain @ '':'' @ v)"

definition verifyHmacHex :: "hmac_fn \<Rightarrow> string \<Rightarrow> string \<Rightarrow> string \<Rightarrow> bool option" where
  "verifyHmacHex hmac key payload signatureHex = safeEqual (hmac key payload) signatureHex"

end
