(* ===== verification/Auth.thy ===== *)
theory Auth
  imports World Crypto
begin

text \<open>
  API keys: \<open>lookupApiKey\<close> (\<open>services/apiKeys.ts\<close>), \<open>extractBearer\<close> and \<open>requireKey\<close>
  (\<open>plugins/auth.ts\<close>), and \<open>bootstrapApp\<close> (\<open>admin/bootstrap.ts\<close>), which creates the keys that
  these accept.
\<close>

record authed_key =
  ay_id :: string
  ay_appId :: string
  ay_kind :: api_key_kind

text \<open>
  \<open>PREFIX_TO_KIND[prefix]\<close>. A name inherited from \<open>Object.prototype\<close> would pass the truth test
  of the source and is rejected by its later comparison with the stored kind.
\<close>

definition PREFIX_TO_KIND :: "string \<Rightarrow> api_key_kind option" where
  "PREFIX_TO_KIND p =
     (if p = ''pk_live'' then Some KPublic else if p = ''sk_live'' then Some KSecret
      else if p = ''gw_live'' then Some KGateway else None)"

text \<open>The rows of \<open>api_keys INNER JOIN apps\<close>.\<close>

definition keys_with_apps :: "db \<Rightarrow> (api_key_row \<times> app_row) list" where
  "keys_with_apps d = [(k, a). k \<leftarrow> apiKeys d, a \<leftarrow> apps d, ak_appId k = ap_id a]"

definition api_key_hash :: "config \<Rightarrow> hmac_fn \<Rightarrow> string \<Rightarrow> string" where
  "api_key_hash cfg hmac raw = hashSecret hmac ''api_key'' (MASTER_ENCRYPTION_KEY cfg) raw"

text \<open>The last-used stamp is written in the background; \<open>stamped\<close> tells whether it succeeded.\<close>

definition lookupApiKey ::
  "config \<Rightarrow> hmac_fn \<Rightarrow> bool \<Rightarrow> int \<Rightarrow> string \<Rightarrow> world \<Rightarrow> authed_key option \<times> world" where
  "lookupApiKey cfg hmac stamped now raw w =
     (if length raw < 16 \<or> length raw > 128 then (None, w)
      else case last_index_of CHR ''_'' raw of
        None \<Rightarrow> (None, w)
      | Some lastUnderscore \<Rightarrow>
        (case PREFIX_TO_KIND (take lastUnderscore raw) of
           None \<Rightarrow> (None, w)
         | Some kind \<Rightarrow>
           let hash = api_key_hash cfg hmac raw in
           case select_one (\<lambda>(k, a). ak_keyHash k = hash) (keys_with_apps (w_db w)) of
             None \<Rightarrow> (None, w)
           | Some (k, a) \<Rightarrow>
             if ak_revokedAt k \<noteq> None then (None, w)
             else if ap_disabled a then (None, w)
             else if ak_kind k \<noteq> kind then (None, w)
             else (Some \<lparr>ay_id = ak_id k, ay_appId = ak_appId k, ay_kind = ak_kind k\<rparr>,
               if stamped then w\<lparr>w_db := (w_db w)\<lparr>apiKeys := update_where (\<lambda>r. ak_id r = ak_id k)
                      (\<lambda>r. r\<lparr>ak_lastUsedAt := Some now\<rparr>) (apiKeys (w_db w))\<rparr>\<rparr>
               else w)))"

definition extractBearer :: "string option \<Rightarrow> string option" where
  "extractBearer authorization =
     (case authorization of
        None \<Rightarrow> None
      | Some h \<Rightarrow>
        if h = [] then None
        else if \<not> starts_with h ''Bearer '' then None
        else let tok = js_trim (drop 7 h) in if length tok > 0 then Some tok else None)"

definition requireKey ::
  "config \<Rightarrow> hmac_fn \<Rightarrow> bool \<Rightarrow> int \<Rightarrow> string option \<Rightarrow> api_key_kind list \<Rightarrow> world
     \<Rightarrow> (exn + authed_key) \<times> world" where
  "requireKey cfg hmac stamped now authorization allowed w =
     (case extractBearer authorization of
        None \<Rightarrow> (Inl unauthorized_default, metric (ApiKeyRejected K_missing) w)
      | Some tok \<Rightarrow>
        (case lookupApiKey cfg hmac stamped now tok w of
           (None, w1) \<Rightarrow> (Inl unauthorized_default, metric (ApiKeyRejected K_unknown) w1)
         | (Some key, w1) \<Rightarrow>
           if ay_kind key \<notin> set allowed then
             (Inl (forbidden ''key kind not permitted for this endpoint''),
              metric (ApiKeyRejected K_wrong_kind) w1)
           else (Inr key, w1)))"

record bootstrap_result =
  br_appId :: string
  br_appName :: string
  br_publicKey :: string
  br_secretKey :: string

text \<open>The default of \<open>api_keys_key_hash_uq\<close>: a key hash is stored at most once.\<close>

definition key_hash_uq :: "api_key_row list \<Rightarrow> bool" where
  "key_hash_uq ks = unique_on (\<lambda>_. True) ak_keyHash ks"

definition new_key ::
  "config \<Rightarrow> hmac_fn \<Rightarrow> int \<Rightarrow> string \<Rightarrow> string \<Rightarrow> api_key_kind \<Rightarrow> string \<Rightarrow> string \<Rightarrow> api_key_row" where
  "new_key cfg hmac now u appId kind raw label =
     \<lparr>ak_id = newId ''key'' u, ak_appId = appId, ak_kind = kind,
      ak_keyHash = api_key_hash cfg hmac raw, ak_keyPrefix = take 12 raw,
      ak_label = Some label, ak_createdAt = now, ak_lastUsedAt = None, ak_revokedAt = None\<rparr>"

text \<open>
  Two statements, not one transaction: the application row stays when the keys are refused.
  \<open>uls\<close> are the three fresh ULIDs, \<open>rb1\<close> and \<open>rb2\<close> the random bytes of the two keys.
\<close>

definition bootstrapApp ::
  "config \<Rightarrow> hmac_fn \<Rightarrow> int \<Rightarrow> string \<times> string \<times> string \<Rightarrow> string \<Rightarrow> string \<Rightarrow> string \<Rightarrow> world
     \<Rightarrow> (exn + bootstrap_result) \<times> world" where
  "bootstrapApp cfg hmac now uls rb1 rb2 name w =
     (if length (js_trim name) = 0 then (Inl (JsError ''bootstrapApp: name is required''), w)
      else
        let trimmed = js_trim name;
            (u1, u2, u3) = uls;
            appId = newId ''app'' u1;
            d1 = (w_db w)\<lparr>apps := apps (w_db w) @
                   [\<lparr>ap_id = appId, ap_name = trimmed, ap_createdAt = now, ap_disabled = False\<rparr>]\<rparr>;
            publicKey = generateApiKey rb1 ''pk_live'';
            secretKey = generateApiKey rb2 ''sk_live'';
            ks = apiKeys d1 @
              [new_key cfg hmac now u2 appId KPublic publicKey ''default-public'',
               new_key cfg hmac now u3 appId KSecret secretKey ''default-secret'']
        in if key_hash_uq ks
           then (Inr \<lparr>br_appId = appId, br_appName = trimmed, br_publicKey = publicKey,
                      br_secretKey = secretKey\<rparr>, w\<lparr>w_db := d1\<lparr>apiKeys := ks\<rparr>\<rparr>)
           else (Inl (UniqueViolation ''api_keys_key_hash_uq''), w\<lparr>w_db := d1\<rparr>))"

section \<open>Soundness\<close>

lemma lookupApiKey_Some:
  assumes "lookupApiKey cfg hmac stamped now raw w = (Some key, w')"
  shows "\<exists>k \<in> set (apiKeys (w_db w)). \<exists>a \<in> set (apps (w_db w)).
           ak_appId k = ap_id a \<and> ak_keyHash k = api_key_hash cfg hmac raw \<and>
           ak_revokedAt k = None \<and> \<not> ap_disabled a \<and>
           key = \<lparr>ay_id = ak_id k, ay_appId = ak_appId k, ay_kind = ak_kind k\<rparr> \<and>
           (\<exists>i. PREFIX_TO_KIND (take i raw) = Some (ak_kind k))"
proof -
  obtain i kind k a where sel:
      "select_one (\<lambda>(k, a). ak_keyHash k = api_key_hash cfg hmac raw) (keys_with_apps (w_db w)) = Some (k, a)"
    and rest: "PREFIX_TO_KIND (take i raw) = Some kind" "ak_revokedAt k = None" "\<not> ap_disabled a"
      "ak_kind k = kind" "key = \<lparr>ay_id = ak_id k, ay_appId = ak_appId k, ay_kind = ak_kind k\<rparr>"
    using assms
    by (auto simp: lookupApiKey_def Let_def split: if_splits option.splits)
  have "(k, a) \<in> set (keys_with_apps (w_db w)) \<and> ak_keyHash k = api_key_hash cfg hmac raw"
    using select_one_Some [OF sel] by simp
  then have "k \<in> set (apiKeys (w_db w))" "a \<in> set (apps (w_db w))" "ak_appId k = ap_id a"
      "ak_keyHash k = api_key_hash cfg hmac raw"
    by (auto simp: keys_with_apps_def)
  with rest show ?thesis by blast
qed

lemma lookupApiKey_tables [simp]:
  "apps (w_db (snd (lookupApiKey cfg hmac st now raw w))) = apps (w_db w)"
  "receivers (w_db (snd (lookupApiKey cfg hmac st now raw w))) = receivers (w_db w)"
  "verifications (w_db (snd (lookupApiKey cfg hmac st now raw w))) = verifications (w_db w)"
  "inboundSms (w_db (snd (lookupApiKey cfg hmac st now raw w))) = inboundSms (w_db w)"
  "phoneBindings (w_db (snd (lookupApiKey cfg hmac st now raw w))) = phoneBindings (w_db w)"
  "webhookEndpoints (w_db (snd (lookupApiKey cfg hmac st now raw w))) = webhookEndpoints (w_db w)"
  "webhookEvents (w_db (snd (lookupApiKey cfg hmac st now raw w))) = webhookEvents (w_db w)"
  "webhookDeliveries (w_db (snd (lookupApiKey cfg hmac st now raw w))) = webhookDeliveries (w_db w)"
  by (simp_all add: lookupApiKey_def Let_def split: option.splits)

lemma lookupApiKey_other [simp]:
  "w_redis (snd (lookupApiKey cfg hmac st now raw w)) = w_redis w"
  "w_metrics (snd (lookupApiKey cfg hmac st now raw w)) = w_metrics w"
  by (auto simp: lookupApiKey_def Let_def split: option.splits)

text \<open>
  What an authenticated request proves. \<open>requireKey\<close> returns a key only for a bearer token whose
  hash is stored in a key row that is not revoked and belongs to an existing application that is
  not disabled; the kind is the stored one, is the one the token's prefix announces and is allowed
  here. Every refusal is 401 or 403 and is counted once.
\<close>

theorem requireKey_sound:
  "case requireKey cfg hmac stamped now authorization allowed w of
     (Inr key, w') \<Rightarrow>
        \<exists>h tok. authorization = Some h \<and> starts_with h ''Bearer '' \<and> tok = js_trim (drop 7 h) \<and>
          (\<exists>k \<in> set (apiKeys (w_db w)). \<exists>a \<in> set (apps (w_db w)).
            ak_appId k = ap_id a \<and> ak_keyHash k = hashSecret hmac ''api_key'' (MASTER_ENCRYPTION_KEY cfg) tok \<and>
            ak_revokedAt k = None \<and> \<not> ap_disabled a \<and> ak_kind k \<in> set allowed \<and>
            (\<exists>i. PREFIX_TO_KIND (take i tok) = Some (ak_kind k)) \<and>
            key = \<lparr>ay_id = ak_id k, ay_appId = ak_appId k, ay_kind = ak_kind k\<rparr>)
   | (Inl e, w') \<Rightarrow> (\<exists>r. w_metrics w' = w_metrics w @ [ApiKeyRejected r]) \<and>
        (e = unauthorized_default \<or> e = forbidden ''key kind not permitted for this endpoint'')"
proof (cases "extractBearer authorization")
  case None
  then show ?thesis by (simp add: requireKey_def)
next
  case (Some tok)
  then obtain h where h: "authorization = Some h" "starts_with h ''Bearer ''" "tok = js_trim (drop 7 h)"
    by (auto simp: extractBearer_def Let_def split: option.splits if_splits)
  obtain res w1 where l: "lookupApiKey cfg hmac stamped now tok w = (res, w1)" by fastforce
  have m: "w_metrics w1 = w_metrics w" using lookupApiKey_other(2) [of cfg hmac stamped now tok w] l by simp
  show ?thesis
  proof (cases res)
    case None
    then show ?thesis using Some l m by (simp add: requireKey_def)
  next
    case (Some key)
    show ?thesis
    proof (cases "ay_kind key \<in> set allowed")
      case True
      then show ?thesis
        using lookupApiKey_Some l Some h \<open>extractBearer authorization = Some tok\<close>
        by (fastforce simp: requireKey_def api_key_hash_def)
    next
      case False
      then show ?thesis
        using l m Some \<open>extractBearer authorization = Some tok\<close> by (simp add: requireKey_def)
    qed
  qed
qed

section \<open>Keys that are created authenticate\<close>

lemma lookupApiKey_stored:
  assumes k: "k \<in> set (apiKeys (w_db w))" and a: "a \<in> set (apps (w_db w))" "ak_appId k = ap_id a"
    and u: "key_hash_uq (apiKeys (w_db w))" "distinct (map ap_id (apps (w_db w)))"
    and h: "ak_keyHash k = api_key_hash cfg hmac raw" "ak_revokedAt k = None" "\<not> ap_disabled a"
    and raw: "raw = p @ CHR ''_'' # r" "CHR ''_'' \<notin> set r" "PREFIX_TO_KIND p = Some (ak_kind k)"
      "16 \<le> length raw" "length raw \<le> 128"
  shows "fst (lookupApiKey cfg hmac st now raw w)
           = Some \<lparr>ay_id = ak_id k, ay_appId = ak_appId k, ay_kind = ak_kind k\<rparr>"
proof -
  have "(k, a) \<in> set (keys_with_apps (w_db w))"
    using k a by (auto simp: keys_with_apps_def)
  then have "select_one (\<lambda>(k, a). ak_keyHash k = api_key_hash cfg hmac raw) (keys_with_apps (w_db w)) \<noteq> None"
    using h(1) by (auto simp: select_one_None)
  then obtain k' a' where sel:
      "select_one (\<lambda>(k, a). ak_keyHash k = api_key_hash cfg hmac raw) (keys_with_apps (w_db w)) = Some (k', a')"
    by auto
  have k': "k' \<in> set (apiKeys (w_db w))" "a' \<in> set (apps (w_db w))" "ak_appId k' = ap_id a'"
      "ak_keyHash k' = api_key_hash cfg hmac raw"
    using select_one_Some [OF sel] by (auto simp: keys_with_apps_def)
  have kk: "k' = k"
    using unique_onD [OF u(1) [unfolded key_hash_uq_def] k'(1) k] k'(4) h(1) by simp
  have "a' = a"
    using u(2) a k'(2,3) kk by (auto simp: distinct_map inj_on_def)
  with sel kk show ?thesis
    using raw h by (simp add: lookupApiKey_def last_index_of_append Let_def)
qed

lemma requireKey_stored:
  assumes l: "fst (lookupApiKey cfg hmac st now raw w) = Some key"
    and r: "raw \<noteq> []" "js_trim raw = raw" and k: "ay_kind key \<in> set allowed"
  shows "fst (requireKey cfg hmac st now (Some (''Bearer '' @ raw)) allowed w) = Inr key"
proof -
  have "extractBearer (Some (''Bearer '' @ raw)) = Some raw"
    using r by (simp add: extractBearer_def starts_with_def Let_def)
  moreover obtain w2 where "lookupApiKey cfg hmac st now raw w = (Some key, w2)"
    using l by (cases "lookupApiKey cfg hmac st now raw w") simp
  ultimately show ?thesis using k by (simp add: requireKey_def)
qed

lemma issued_key_authenticates:
  assumes k: "k \<in> set (apiKeys (w_db w))" "ak_keyHash k = api_key_hash cfg hmac raw" "ak_revokedAt k = None"
      "ak_kind k = kind" "ak_appId k = app"
    and a: "a \<in> set (apps (w_db w))" "ap_id a = app" "\<not> ap_disabled a"
    and u: "key_hash_uq (apiKeys (w_db w))" "distinct (map ap_id (apps (w_db w)))"
    and raw: "raw = p @ ''_'' @ r" "length r = 32" "list_all (\<lambda>c. is_alnum c \<and> c \<noteq> CHR ''_'') r" "PREFIX_TO_KIND p = Some kind"
  shows "fst (requireKey cfg hmac st now' (Some (''Bearer '' @ raw)) [kind] w)
           = Inr \<lparr>ay_id = ak_id k, ay_appId = app, ay_kind = kind\<rparr>"
proof -
  have p: "p = ''pk_live'' \<or> p = ''sk_live'' \<or> p = ''gw_live''"
    using raw(4) by (auto simp: PREFIX_TO_KIND_def split: if_splits)
  then have len: "length p = 7" and ws: "list_all (\<lambda>c. \<not> is_ws c) p"
    by (auto simp: char_class_defs code_unit_def)
  have nu: "CHR ''_'' \<notin> set r" using raw(3) by (auto simp: list_all_iff)
  have raw': "raw = p @ CHR ''_'' # r" "PREFIX_TO_KIND p = Some (ak_kind k)" "16 \<le> length raw" "length raw \<le> 128"
    using raw(1,2,4) len k(4) by simp_all
  have "fst (lookupApiKey cfg hmac st now' raw w)
      = Some \<lparr>ay_id = ak_id k, ay_appId = ak_appId k, ay_kind = ak_kind k\<rparr>"
  proof (rule lookupApiKey_stored [OF k(1) a(1) _ u k(2,3) a(3) raw'(1) nu raw'(2-4)])
    show "ak_appId k = ap_id a" using a(2) k(5) by simp
  qed
  moreover have "list_all (\<lambda>c. \<not> is_ws c) r"
    using raw(3) by (rule list.pred_mono_strong) simp
  then have "list_all (\<lambda>c. \<not> is_ws c) raw"
    using ws unfolding raw(1) by (simp add: is_ws_def code_unit_def)
  then have "js_trim raw = raw" by (rule js_trim_id)
  moreover have "raw \<noteq> []" using raw'(1) by simp
  ultimately show ?thesis using k(4,5) by (intro requireKey_stored) simp_all
qed

lemma generated_key_authenticates:
  assumes k: "k \<in> set (apiKeys (w_db w))" "k = new_key cfg hmac now u app kind raw label"
    and a: "a \<in> set (apps (w_db w))" "ap_id a = app" "\<not> ap_disabled a"
    and u: "key_hash_uq (apiKeys (w_db w))" "distinct (map ap_id (apps (w_db w)))"
    and raw: "raw = generateApiKey rb p" "length rb = 32" "PREFIX_TO_KIND p = Some kind"
  shows "fst (requireKey cfg hmac st now' (Some (''Bearer '' @ raw)) [kind] w)
           = Inr \<lparr>ay_id = ak_id k, ay_appId = app, ay_kind = kind\<rparr>"
proof -
  obtain r where r: "raw = p @ ''_'' @ r" "length r = 32" "list_all (\<lambda>c. is_alnum c \<and> c \<noteq> CHR ''_'') r"
    using generateApiKey_random [of rb p] raw by auto
  show ?thesis
    by (rule issued_key_authenticates [OF k(1) _ _ _ _ a u r raw(3)]) (simp_all add: k(2) new_key_def)
qed

lemma bootstrapApp_ok:
  assumes "bootstrapApp cfg hmac now (u1, u2, u3) rb1 rb2 name w = (Inr res, w')"
  shows "\<exists>kp ks a. kp = new_key cfg hmac now u2 (br_appId res) KPublic (br_publicKey res) ''default-public'' \<and>
      ks = new_key cfg hmac now u3 (br_appId res) KSecret (br_secretKey res) ''default-secret'' \<and>
      br_publicKey res = generateApiKey rb1 ''pk_live'' \<and> br_secretKey res = generateApiKey rb2 ''sk_live'' \<and>
      key_hash_uq (apiKeys (w_db w')) \<and> apiKeys (w_db w') = apiKeys (w_db w) @ [kp, ks] \<and>
      apps (w_db w') = apps (w_db w) @ [a] \<and> ap_id a = br_appId res \<and> \<not> ap_disabled a"
  using assms unfolding bootstrapApp_def Let_def prod.case
  by (auto split: if_splits)

text \<open>
  A freshly bootstrapped application can authenticate. When \<open>bootstrapApp\<close> succeeds with a fresh
  application id, both keys it returns are accepted by \<open>requireKey\<close> in the resulting state, each
  with its own kind and the new application.
\<close>

theorem bootstrapApp_keys_authenticate:
  assumes "bootstrapApp cfg hmac now uls rb1 rb2 name w = (Inr res, w')"
    and "distinct (map ap_id (apps (w_db w)))" and "br_appId res \<notin> ap_id ` set (apps (w_db w))"
    and "length rb1 = 32" and "length rb2 = 32"
  shows "\<exists>i j. fst (requireKey cfg hmac st now' (Some (''Bearer '' @ br_publicKey res)) [KPublic] w')
                 = Inr \<lparr>ay_id = i, ay_appId = br_appId res, ay_kind = KPublic\<rparr> \<and>
               fst (requireKey cfg hmac st now' (Some (''Bearer '' @ br_secretKey res)) [KSecret] w')
                 = Inr \<lparr>ay_id = j, ay_appId = br_appId res, ay_kind = KSecret\<rparr>"
proof -
  obtain u1 u2 u3 where u: "uls = (u1, u2, u3)" by (cases uls)
  obtain kp ks a where b:
      "kp = new_key cfg hmac now u2 (br_appId res) KPublic (br_publicKey res) ''default-public''"
      "ks = new_key cfg hmac now u3 (br_appId res) KSecret (br_secretKey res) ''default-secret''"
      "br_publicKey res = generateApiKey rb1 ''pk_live''" "br_secretKey res = generateApiKey rb2 ''sk_live''"
      "key_hash_uq (apiKeys (w_db w'))" "apiKeys (w_db w') = apiKeys (w_db w) @ [kp, ks]"
      "apps (w_db w') = apps (w_db w) @ [a]" "ap_id a = br_appId res" "\<not> ap_disabled a"
    using bootstrapApp_ok [OF assms(1) [unfolded u]] by blast
  have d: "distinct (map ap_id (apps (w_db w')))" using assms(2,3) b(7,8) by simp
  have in_k: "kp \<in> set (apiKeys (w_db w'))" "ks \<in> set (apiKeys (w_db w'))" "a \<in> set (apps (w_db w'))"
    using b(6,7) by simp_all
  have pf: "PREFIX_TO_KIND ''pk_live'' = Some KPublic" "PREFIX_TO_KIND ''sk_live'' = Some KSecret"
    by (simp_all add: PREFIX_TO_KIND_def)
  show ?thesis
    using generated_key_authenticates [OF in_k(1) b(1) in_k(3) b(8,9,5) d b(3) assms(4) pf(1)]
      generated_key_authenticates [OF in_k(2) b(2) in_k(3) b(8,9,5) d b(4) assms(5) pf(2)]
    by blast
qed

theorem bootstrapApp_keys_authenticate_witness:
  "\<exists>res w' i. bootstrapApp default_config (\<lambda>k m. m) 0 (''1'', ''2'', ''3'') (replicate 32 CHR ''a'')
        (replicate 32 CHR ''b'') ''Acme'' empty_world = (Inr res, w') \<and>
     fst (requireKey default_config (\<lambda>k m. m) True 5 (Some (''Bearer '' @ br_secretKey res)) [KSecret] w')
       = Inr \<lparr>ay_id = i, ay_appId = ''app_1'', ay_kind = KSecret\<rparr>"
proof -
  let ?b = "bootstrapApp default_config (\<lambda>k m. m) 0 (''1'', ''2'', ''3'') (replicate 32 CHR ''a'')
        (replicate 32 CHR ''b'') ''Acme'' empty_world"
  have t: "js_trim ''Acme'' = ''Acme''"
    by (simp add: js_trim_id char_class_defs code_unit_def)
  obtain res w' where r: "?b = (Inr res, w')" and a: "br_appId res = ''app_1''"
    by (simp add: bootstrapApp_def t Let_def key_hash_uq_def unique_on_def new_key_def api_key_hash_def
        hashSecret_def generateApiKey_def empty_world_def empty_db_def newId_def)
  show ?thesis
    using r a bootstrapApp_keys_authenticate [OF r, of True 5]
    by (auto simp: empty_world_def empty_db_def)
qed

end
