(* ===== verification/RateLimit.thy ===== *)
theory RateLimit
  imports World
begin

text \<open>
  \<open>services/rateLimit.ts\<close>: the fixed-window counter in Redis. \<open>now\<close> is \<open>Date.now()\<close>; Redis
  uses the same clock. The locale \<open>window_counter\<close> states the contract the callers rely on: in
  one window the \<open>n\<close>-th call on a key counts \<open>n\<close>, whatever calls on other keys come between.
\<close>

record rate_check =
  rk_allowed :: bool
  rk_count :: int
  rk_remaining :: int
  rk_resetSeconds :: int

text \<open>\<open>Math.floor(Date.now() / 1000 / windowSeconds)\<close>, the number of the window.\<close>

definition window_no :: "int \<Rightarrow> int \<Rightarrow> int" where
  "window_no now windowSeconds = now div (1000 * windowSeconds)"

definition bucket :: "string \<Rightarrow> int \<Rightarrow> int \<Rightarrow> string" where
  "bucket key now windowSeconds = ''syrotp:rl:'' @ key @ '':'' @ show_int (window_no now windowSeconds)"

definition rateCheck ::
  "redis_store \<Rightarrow> int \<Rightarrow> string \<Rightarrow> int \<Rightarrow> int \<Rightarrow> rate_check \<times> redis_store" where
  "rateCheck rs now key limit windowSeconds =
     (let b = bucket key now windowSeconds in
      if rs_exec_null rs then
        (\<lparr>rk_allowed = True, rk_count = 0, rk_remaining = limit, rk_resetSeconds = windowSeconds\<rparr>, rs)
      else
        let (count, rs1) = redis_incr rs now b;
            rs2 = redis_expire_nx rs1 now b windowSeconds
        in (\<lparr>rk_allowed = (count \<le> limit), rk_count = count, rk_remaining = max 0 (limit - count),
             rk_resetSeconds = windowSeconds - (now div 1000) mod windowSeconds\<rparr>, rs2))"

text \<open>The rate-limit gate of the routes: count, and on excess record the metric and throw.\<close>

definition rate_gate ::
  "start_bucket \<Rightarrow> string \<Rightarrow> int \<Rightarrow> int \<Rightarrow> world \<Rightarrow> (exn + unit) \<times> world" where
  "rate_gate bk key limit now w =
     (let (rl, rs) = rateCheck (w_redis w) now key limit 60; w1 = w\<lparr>w_redis := rs\<rparr> in
      if \<not> rk_allowed rl then (Inl (rateLimited (rk_resetSeconds rl)), metric (RateLimited bk) w1)
      else (Inr (), w1))"

section \<open>One call\<close>

definition live_count :: "redis_store \<Rightarrow> int \<Rightarrow> string \<Rightarrow> int" where
  "live_count rs now k = (case redis_get rs now k of Some (v, _) \<Rightarrow> v | None \<Rightarrow> 0)"

lemma rateCheck_count:
  assumes "\<not> rs_exec_null rs"
  shows "rk_count (fst (rateCheck rs now key limit win)) = live_count rs now (bucket key now win) + 1"
  using assms by (auto simp: rateCheck_def Let_def redis_incr_def live_count_def split: option.splits)

lemma rateCheck_allowed:
  assumes "\<not> rs_exec_null rs"
  shows "rk_allowed (fst (rateCheck rs now key limit win))
           \<longleftrightarrow> live_count rs now (bucket key now win) + 1 \<le> limit"
  using assms by (auto simp: rateCheck_def Let_def redis_incr_def live_count_def split: option.splits)

lemma rateCheck_exec_null [simp]:
  "rs_exec_null (snd (rateCheck rs now key limit win)) = rs_exec_null rs"
  by (auto simp: rateCheck_def Let_def redis_incr_def redis_expire_nx_def split: option.splits)

text \<open>The reset hint is the number of seconds to the next window, at least one.\<close>

lemma rateCheck_reset:
  assumes "win > 0"
  shows "1 \<le> rk_resetSeconds (fst (rateCheck rs now key limit win)) \<and>
         rk_resetSeconds (fst (rateCheck rs now key limit win)) \<le> win"
proof -
  have "0 \<le> now div 1000 mod win" and "now div 1000 mod win < win" using assms by simp_all
  then have "1 \<le> win - now div 1000 mod win" and "win - now div 1000 mod win \<le> win" by linarith+
  with assms show ?thesis by (simp add: rateCheck_def Let_def split: prod.splits)
qed

lemma redis_get_put_other [simp]: "k' \<noteq> k \<Longrightarrow> redis_get (redis_put rs k e) t k' = redis_get rs t k'"
  by (simp add: redis_get_def redis_put_def)

lemma rateCheck_other_data:
  "k \<noteq> bucket key now win \<Longrightarrow> rs_data (snd (rateCheck rs now key limit win)) k = rs_data rs k"
  by (auto simp: rateCheck_def Let_def redis_incr_def redis_expire_nx_def redis_put_def
      split: option.splits)

lemma bucket_inj: "bucket k now win = bucket k' t win' \<longleftrightarrow> k = k' \<and> window_no now win = window_no t win'"
proof -
  have no: "CHR '':'' \<notin> set (show_int i)" for i
  proof -
    have "\<not> is_digit CHR '':''" by (simp add: is_digit_def code_unit_def)
    then have "CHR '':'' \<notin> set (show_nat n)" for n using show_nat_chars by blast
    then show ?thesis by (simp add: show_int_def)
  qed
  have "k = k' \<and> show_int (window_no now win) = show_int (window_no t win')"
    if "k @ CHR '':'' # show_int (window_no now win) = k' @ CHR '':'' # show_int (window_no t win')"
  proof -
    have "last_index_of CHR '':'' (k @ CHR '':'' # show_int (window_no now win)) = Some (length k)"
      and "last_index_of CHR '':'' (k' @ CHR '':'' # show_int (window_no t win')) = Some (length k')"
      using no by (simp_all add: last_index_of_append)
    with that show ?thesis by simp
  qed
  moreover have "show_int i = show_int j \<longleftrightarrow> i = j" for i j
    by (metis option.inject parse_int_show_int)
  ultimately show ?thesis by (auto simp: bucket_def)
qed

text \<open>An entry written in a window still lives at every later instant of that window.\<close>

definition expiry_ok :: "redis_store \<Rightarrow> string \<Rightarrow> int \<Rightarrow> int \<Rightarrow> bool" where
  "expiry_ok rs k start len \<longleftrightarrow>
     (case rs_data rs k of Some (_, Some e) \<Rightarrow> start + len \<le> e | Some (_, None) \<Rightarrow> False | None \<Rightarrow> True)"

lemma rateCheck_same:
  assumes "\<not> rs_exec_null rs" and "now \<le> t" and "window_no t win = window_no now win" and "win > 0"
    and "expiry_ok rs (bucket key now win) (window_no now win * (1000 * win)) (1000 * win)"
  shows "live_count (snd (rateCheck rs now key limit win)) t (bucket key t win)
           = live_count rs now (bucket key now win) + 1
       \<and> expiry_ok (snd (rateCheck rs now key limit win)) (bucket key now win)
             (window_no now win * (1000 * win)) (1000 * win)"
proof -
  let ?b = "bucket key now win" and ?m = "1000 * win"
  let ?fin = "window_no now win * ?m + ?m"
  have b: "bucket key t win = ?b" using assms(3) by (simp add: bucket_def)
  have m: "0 < ?m" using assms(4) by simp
  have lo: "window_no now win * ?m \<le> now" and hi: "now < ?fin"
    using m by (simp_all add: window_no_def div_mult_mod_eq pos_mod_bound minus_mod_eq_div_mult [symmetric])
  have "t < window_no t win * ?m + ?m"
    using m by (simp add: window_no_def minus_mod_eq_div_mult [symmetric] pos_mod_bound)
  then have t: "t < ?fin" by (simp add: assms(3))
  have e: "?fin \<le> now + win * 1000" using lo by simp
  show ?thesis
  proof (cases "rs_data rs ?b")
    case None
    with assms(1) b t e show ?thesis
      by (simp add: rateCheck_def Let_def redis_incr_def redis_get_def redis_expire_nx_def
          redis_put_def live_count_def expiry_ok_def)
  next
    case (Some p)
    then obtain v x where p: "rs_data rs ?b = Some (v, Some x)" and x: "?fin \<le> x"
      using assms(5) by (auto simp: expiry_ok_def split: option.splits prod.splits)
    with assms(1) b t hi show ?thesis
      by (simp add: rateCheck_def Let_def redis_incr_def redis_get_def redis_expire_nx_def
          redis_put_def live_count_def expiry_ok_def)
  qed
qed

section \<open>Sequences of calls\<close>

text \<open>
  A family of counters: \<open>hit\<close> counts one call on a key at an instant, \<open>level\<close> is the count
  reached so far, \<open>good\<close> the provider's invariant and \<open>next_ok\<close> the instants that belong
  together. \<open>runs\<close> is the list of the counts a sequence of calls gets, \<open>admitted\<close> the number
  of the calls on a key that stay within a limit.
\<close>

locale window_counter =
  fixes hit :: "'s \<Rightarrow> 'k \<Rightarrow> 't \<Rightarrow> int \<times> 's"
    and level :: "'s \<Rightarrow> 'k \<Rightarrow> 't \<Rightarrow> int"
    and good :: "'s \<Rightarrow> 't \<Rightarrow> bool"
    and next_ok :: "'t \<Rightarrow> 't \<Rightarrow> bool"
  assumes hit_value: "good s t \<Longrightarrow> fst (hit s k t) = level s k t + 1"
    and hit_good: "good s t \<Longrightarrow> good (snd (hit s k t)) t"
    and hit_level: "good s t \<Longrightarrow>
          level (snd (hit s k t)) k' t = level s k' t + (if k' = k then 1 else 0)"
    and stable: "good s t \<Longrightarrow> next_ok t t' \<Longrightarrow> good s t' \<and> level s k t' = level s k t"
begin

primrec runs :: "'s \<Rightarrow> ('k \<times> 't) list \<Rightarrow> int list" where
  "runs s [] = []"
| "runs s (c # cs) = fst (hit s (fst c) (snd c)) # runs (snd (hit s (fst c) (snd c))) cs"

definition admitted :: "int \<Rightarrow> 'k \<Rightarrow> 's \<Rightarrow> ('k \<times> 't) list \<Rightarrow> nat" where
  "admitted limit k s cs = length (filter (\<lambda>(c, n). fst c = k \<and> n \<le> limit) (zip cs (runs s cs)))"

lemma admitted_Cons:
  "admitted limit k s (c # cs) =
     (if fst c = k \<and> fst (hit s (fst c) (snd c)) \<le> limit then 1 else 0)
       + admitted limit k (snd (hit s (fst c) (snd c))) cs"
  by (auto simp: admitted_def)

lemma admitted_exact:
  assumes "good s t" and "successively next_ok (t # map snd cs)"
  shows "int (admitted limit k s cs)
           = min (int (length (filter (\<lambda>c. fst c = k) cs))) (max 0 (limit - level s k t))"
  using assms
proof (induction cs arbitrary: s t)
  case Nil
  then show ?case by (simp add: admitted_def)
next
  case (Cons c cs)
  obtain q u where c: "c = (q, u)" by (cases c)
  have g: "good s u" and l: "level s j u = level s j t" for j
    using Cons.prems stable [of s t u] by (auto simp: c)
  have "int (admitted limit k (snd (hit s q u)) cs)
      = min (int (length (filter (\<lambda>c. fst c = k) cs))) (max 0 (limit - level (snd (hit s q u)) k u))"
    using Cons.prems by (intro Cons.IH hit_good g) (simp add: c)
  then show ?case
    using hit_value [OF g, of q] hit_level [OF g, of q k] l [of k] by (auto simp: c admitted_Cons)
qed

end

text \<open>The counters of \<open>rateCheck\<close> for one window length, at instants of one window.\<close>

definition rl_hit :: "int \<Rightarrow> int \<Rightarrow> redis_store \<Rightarrow> string \<Rightarrow> int \<Rightarrow> int \<times> redis_store" where
  "rl_hit limit win rs key t = (rk_count (fst (rateCheck rs t key limit win)), snd (rateCheck rs t key limit win))"

definition rl_level :: "int \<Rightarrow> redis_store \<Rightarrow> string \<Rightarrow> int \<Rightarrow> int" where
  "rl_level win rs key t = live_count rs t (bucket key t win)"

definition rl_good :: "int \<Rightarrow> redis_store \<Rightarrow> int \<Rightarrow> bool" where
  "rl_good win rs t \<longleftrightarrow> win > 0 \<and> \<not> rs_exec_null rs \<and>
     (\<forall>k. expiry_ok rs (bucket k t win) (window_no t win * (1000 * win)) (1000 * win))"

definition same_window :: "int \<Rightarrow> int \<Rightarrow> int \<Rightarrow> bool" where
  "same_window win t t' \<longleftrightarrow> t \<le> t' \<and> window_no t' win = window_no t win"

lemma rl_level_stable:
  assumes "rl_good win rs t" and "same_window win t t'"
  shows "rl_level win rs k t' = rl_level win rs k t"
proof -
  let ?m = "1000 * win"
  have b: "bucket k t' win = bucket k t win" and m: "0 < ?m"
    using assms by (simp_all add: bucket_def same_window_def rl_good_def)
  have "u < window_no u win * ?m + ?m" for u
    using m by (simp add: window_no_def minus_mod_eq_div_mult [symmetric] pos_mod_bound)
  then have "t < window_no t win * ?m + ?m" and "t' < window_no t win * ?m + ?m"
    using assms(2) by (metis, metis same_window_def)
  moreover have "expiry_ok rs (bucket k t win) (window_no t win * ?m) ?m"
    using assms(1) by (simp add: rl_good_def)
  ultimately show ?thesis
    by (auto simp: rl_level_def b live_count_def redis_get_def expiry_ok_def split: option.splits)
qed

lemma rl_hit_other: "k' \<noteq> k \<Longrightarrow> rl_level win (snd (rl_hit limit win rs k t)) k' t = rl_level win rs k' t"
  by (simp add: rl_level_def rl_hit_def live_count_def redis_get_def rateCheck_other_data bucket_inj)

interpretation rl: window_counter "rl_hit limit win" "rl_level win" "rl_good win" "same_window win"
  for limit win
proof
  fix s k k' and t t' :: int
  assume g: "rl_good win s t"
  then have e: "expiry_ok s (bucket k t win) (window_no t win * (1000 * win)) (1000 * win)"
    and n: "\<not> rs_exec_null s" and w: "win > 0" for k
    by (simp_all add: rl_good_def)
  show "fst (rl_hit limit win s k t) = rl_level win s k t + 1"
    using n by (simp add: rl_hit_def rl_level_def rateCheck_count)
  have s: "rl_level win (snd (rl_hit limit win s k t)) k t = rl_level win s k t + 1"
    and e': "expiry_ok (snd (rl_hit limit win s k t)) (bucket k t win) (window_no t win * (1000 * win)) (1000 * win)"
    using rateCheck_same [OF n _ _ w e, of t k limit] by (simp_all add: rl_hit_def rl_level_def)
  show "rl_level win (snd (rl_hit limit win s k t)) k' t = rl_level win s k' t + (if k' = k then 1 else 0)"
    using s rl_hit_other by simp
  have "expiry_ok (snd (rl_hit limit win s k t)) (bucket j t win) (window_no t win * (1000 * win)) (1000 * win)" for j
  proof (cases "j = k")
    case False
    then show ?thesis using e [of j]
      by (simp add: expiry_ok_def rl_hit_def rateCheck_other_data bucket_inj)
  qed (simp add: e')
  with n w show "rl_good win (snd (rl_hit limit win s k t)) t"
    by (simp add: rl_good_def rl_hit_def)
  assume sw: "same_window win t t'"
  then have "bucket j t' win = bucket j t win" and "window_no t' win = window_no t win" for j
    by (simp_all add: same_window_def bucket_def)
  then have "rl_good win s t'" using g by (simp add: rl_good_def)
  then show "rl_good win s t' \<and> rl_level win s k t' = rl_level win s k t"
    using rl_level_stable [OF g sw] by simp
qed

text \<open>A run of rate checks: one limit and window, calls of (key, instant), newest store last.\<close>

primrec rate_run :: "int \<Rightarrow> int \<Rightarrow> redis_store \<Rightarrow> (string \<times> int) list \<Rightarrow> bool list" where
  "rate_run limit win rs [] = []"
| "rate_run limit win rs (c # cs) =
     (let (r, rs') = rateCheck rs (snd c) (fst c) limit win in rk_allowed r # rate_run limit win rs' cs)"

lemma rate_run_runs:
  "\<not> rs_exec_null rs \<Longrightarrow> rate_run limit win rs cs = map (\<lambda>n. n \<le> limit) (rl.runs limit win rs cs)"
proof (induction cs arbitrary: rs)
  case (Cons c cs)
  then have "rk_allowed (fst (rateCheck rs (snd c) (fst c) limit win))
      \<longleftrightarrow> rk_count (fst (rateCheck rs (snd c) (fst c) limit win)) \<le> limit"
    by (simp add: rateCheck_allowed rateCheck_count)
  moreover have "rate_run limit win (snd (rl_hit limit win rs (fst c) (snd c))) cs
      = map (\<lambda>n. n \<le> limit) (rl.runs limit win (snd (rl_hit limit win rs (fst c) (snd c))) cs)"
    using Cons.prems by (intro Cons.IH) (simp add: rl_hit_def)
  moreover have "snd (rl_hit limit win rs (fst c) (snd c)) = snd (rateCheck rs (snd c) (fst c) limit win)"
    and "fst (rl_hit limit win rs (fst c) (snd c)) = rk_count (fst (rateCheck rs (snd c) (fst c) limit win))"
    by (simp_all add: rl_hit_def)
  ultimately show ?case by (simp only: rate_run.simps rl.runs.simps list.map case_prod_beta Let_def)
qed simp

lemma rate_run_admitted:
  assumes "\<not> rs_exec_null rs"
  shows "length (filter (\<lambda>(c, ok). fst c = k \<and> ok) (zip cs (rate_run limit win rs cs)))
           = rl.admitted limit win limit k rs cs"
proof -
  have "length (filter (\<lambda>(c, ok). fst c = k \<and> ok) (zip cs (map f ns)))
      = length (filter (\<lambda>(c, n). fst c = k \<and> f n) (zip cs ns))" for f :: "int \<Rightarrow> bool" and ns
    by (simp add: zip_map2 filter_map o_def case_prod_beta split_def)
  then show ?thesis using assms by (simp add: rate_run_runs rl.admitted_def)
qed

text \<open>
  C15: the rate limiter admits exactly the limit. In one window, for any interleaving of calls on any
  keys in time order, the number of admitted calls on a key is the number of its calls, capped by
  what the limit leaves over the count already reached.
\<close>

theorem rateCheck_window_exact:
  assumes "rl_good win rs t" and "successively (same_window win) (t # map snd cs)"
  shows "int (length (filter (\<lambda>(c, ok). fst c = k \<and> ok) (zip cs (rate_run limit win rs cs))))
     = min (int (length (filter (\<lambda>c. fst c = k) cs))) (max 0 (limit - rl_level win rs k t))"
proof -
  have "\<not> rs_exec_null rs" using assms(1) by (simp add: rl_good_def)
  then show ?thesis
    using rl.admitted_exact [OF assms, of limit limit k] by (simp add: rate_run_admitted)
qed

lemma empty_redis_good: "0 < win \<Longrightarrow> rl_good win empty_redis t"
  by (simp add: rl_good_def empty_redis_def expiry_ok_def)

lemma rl_level_empty [simp]: "rl_level win empty_redis k t = 0"
  by (simp add: rl_level_def live_count_def redis_get_def empty_redis_def)

theorem rateCheck_window_exact_witness:
  "int (length (filter (\<lambda>(c, ok). fst c = ''a'' \<and> ok)
      (zip [(''a'', 10 :: int), (''b'', 11), (''a'', 12), (''a'', 13)]
         (rate_run 2 60 empty_redis [(''a'', 10), (''b'', 11), (''a'', 12), (''a'', 13)])))) = 2"
  using rateCheck_window_exact [of 60 empty_redis 0
      "[(''a'', 10), (''b'', 11), (''a'', 12), (''a'', 13)]" "''a''" 2, OF empty_redis_good]
  by (simp add: same_window_def window_no_def rl_level_empty del: rate_run.simps)

text \<open>Redis answering \<open>null\<close> fails open.\<close>

lemma rateCheck_fail_open:
  "rs_exec_null rs \<Longrightarrow> rateCheck rs now key limit win =
     (\<lparr>rk_allowed = True, rk_count = 0, rk_remaining = limit, rk_resetSeconds = win\<rparr>, rs)"
  by (simp add: rateCheck_def)

section \<open>The gate\<close>

lemma rate_gate_db [simp]: "w_db (snd (rate_gate bk key limit now w)) = w_db w"
  by (auto simp: rate_gate_def Let_def split: prod.splits)

lemma rate_gate_error:
  "fst (rate_gate bk key limit now w) = Inl e \<Longrightarrow>
     \<exists>n. 1 \<le> n \<and> n \<le> 60 \<and> e = rateLimited n"
  using rateCheck_reset [of 60 "w_redis w" now key limit]
  by (auto simp: rate_gate_def Let_def split: prod.splits if_splits)

end
