(* ===== verification/Aead.thy ===== *)
theory Aead
  imports Crypto
begin

text \<open>
  \<open>lib/aead.ts\<close>: the wire format of wrapped secrets, \<open>v1.iv.tag.ciphertext\<close> in base64url.
  AES-256-GCM of \<open>node:crypto\<close> is an argument, a record of the key stream (CTR mode) and of the
  authentication tag: \<open>gcm_ctr key iv data\<close> en- and decrypts, \<open>gcm_tag key iv aad ct\<close> is
  the tag. \<open>gcm_ok\<close> states what is relied on: deciphering undoes enciphering. \<open>final()\<close>
  throws unless the tag given is the tag of what is deciphered. Base64 is modelled as the code of
  the standard library it is.
\<close>

section \<open>Base64\<close>

definition b64_char :: "nat \<Rightarrow> char" where
  "b64_char n =
     (if n < 26 then char_of (65 + n) else if n < 52 then char_of (71 + n)
      else if n < 62 then char_of (n - 4) else if n = 62 then CHR ''+'' else CHR ''/'')"

definition b64_val :: "char \<Rightarrow> nat option" where
  "b64_val c =
     (if is_upper c then Some (code_unit c - 65) else if is_lower c then Some (code_unit c - 71)
      else if is_digit c then Some (code_unit c + 4)
      else if c = CHR ''+'' then Some 62 else if c = CHR ''/'' then Some 63 else None)"

text \<open>Bytes to sextets and back; \<open>buf.toString("base64")\<close> pads to groups of four.\<close>

fun sextets :: "nat list \<Rightarrow> nat list" where
  "sextets [] = []"
| "sextets [a] = [a div 4, a mod 4 * 16]"
| "sextets [a, b] = [a div 4, a mod 4 * 16 + b div 16, b mod 16 * 4]"
| "sextets (a # b # c # s) =
     a div 4 # (a mod 4 * 16 + b div 16) # (b mod 16 * 4 + c div 64) # c mod 64 # sextets s"

fun octets :: "nat list \<Rightarrow> nat list" where
  "octets [] = []"
| "octets [p] = []"
| "octets [p, q] = [p * 4 + q div 16]"
| "octets [p, q, r] = [p * 4 + q div 16, q mod 16 * 16 + r div 4]"
| "octets (p # q # r # t # s) =
     (p * 4 + q div 16) # (q mod 16 * 16 + r div 4) # (r mod 4 * 64 + t) # octets s"

definition to_base64 :: "string \<Rightarrow> string" where
  "to_base64 buf =
     map b64_char (sextets (map code_unit buf)) @
       replicate (if length buf mod 3 = 1 then 2 else if length buf mod 3 = 2 then 1 else 0) CHR ''=''"

text \<open>\<open>Buffer.from(s, "base64")\<close> skips the characters outside the alphabet.\<close>

definition from_base64 :: "string \<Rightarrow> string" where
  "from_base64 s = map char_of (octets (List.map_filter b64_val s))"

definition replace_char :: "char \<Rightarrow> char \<Rightarrow> string \<Rightarrow> string" where
  "replace_char a b s = map (\<lambda>c. if c = a then b else c) s"

text \<open>\<open>.replace(/=+$/, "")\<close>.\<close>

definition strip_eq :: "string \<Rightarrow> string" where
  "strip_eq s = rev (dropWhile (\<lambda>c. c = CHR ''='') (rev s))"

definition b64u :: "string \<Rightarrow> string" where
  "b64u buf = strip_eq (replace_char CHR ''/'' CHR ''_'' (replace_char CHR ''+'' CHR ''-'' (to_base64 buf)))"

definition b64uDecode :: "string \<Rightarrow> string" where
  "b64uDecode s =
     (let pad = (if length s mod 4 = 0 then [] else replicate (4 - length s mod 4) CHR ''='')
      in from_base64 (replace_char CHR ''_'' CHR ''/'' (replace_char CHR ''-'' CHR ''+'' s) @ pad))"

lemma b64_val_char: "n < 64 \<Longrightarrow> b64_val (b64_char n) = Some n"
  by (auto simp: b64_val_def b64_char_def is_upper_def is_lower_def is_digit_def code_unit_def)

definition b64u_char :: "nat \<Rightarrow> char" where
  "b64u_char n = (if n = 62 then CHR ''-'' else if n = 63 then CHR ''_'' else b64_char n)"

lemma b64_char_all:
  "\<forall>n \<in> set [0..<64]. b64_char n \<notin> set ''-_=.'' \<and>
     (if b64_char n = CHR ''/'' then CHR ''_'' else if b64_char n = CHR ''+'' then CHR ''-''
      else b64_char n) = b64u_char n"
  by code_simp

lemma b64u_char_all:
  "\<forall>n \<in> set [0..<64]. b64u_char n \<notin> set ''+/=.'' \<and>
     b64_val (if b64u_char n = CHR ''_'' then CHR ''/'' else if b64u_char n = CHR ''-'' then CHR ''+''
      else b64u_char n) = Some n"
  by code_simp

lemmas b64_charD = b64_char_all [unfolded set_upt, rule_format]
lemmas b64u_charD = b64u_char_all [unfolded set_upt, rule_format]

lemma sextets_less: "\<forall>a \<in> set bs. a < 256 \<Longrightarrow> \<forall>n \<in> set (sextets bs). n < 64"
  by (induction bs rule: sextets.induct) auto

lemma octets_sextets: "\<forall>a \<in> set bs. a < 256 \<Longrightarrow> octets (sextets bs) = bs"
  by (induction bs rule: sextets.induct) auto

text \<open>The URL-safe form of a buffer: the sextets in the URL-safe alphabet, no padding.\<close>

lemma b64u_sextets: "b64u buf = map b64u_char (sextets (map code_unit buf))"
proof -
  let ?s = "sextets (map code_unit buf)"
  let ?r = "\<lambda>s. replace_char CHR ''/'' CHR ''_'' (replace_char CHR ''+'' CHR ''-'' s)"
  have lt: "\<forall>n \<in> set ?s. n < 64" by (intro sextets_less) auto
  have "?r (map b64_char ?s) = map b64u_char ?s"
    unfolding replace_char_def map_map
    by (rule map_cong) (use lt b64_charD in \<open>fastforce simp: o_def\<close>)+
  then have 1: "?r (to_base64 buf) = map b64u_char ?s @ replicate k CHR ''=''"
    if "k = (if length buf mod 3 = 1 then 2 else if length buf mod 3 = 2 then 1 else 0)" for k
    using that by (simp add: to_base64_def replace_char_def)
  have "strip_eq (map b64u_char ?s @ replicate k CHR ''='') = map b64u_char ?s" for k
  proof -
    have "dropWhile (\<lambda>c. c = CHR ''='') (replicate k CHR ''='' @ rev (map b64u_char ?s))
        = dropWhile (\<lambda>c. c = CHR ''='') (rev (map b64u_char ?s))"
      by (induction k) simp_all
    also have "\<dots> = rev (map b64u_char ?s)"
    proof (rule dropWhile_id)
      assume "rev (map b64u_char ?s) \<noteq> []"
      then have "hd (rev (map b64u_char ?s)) \<in> set (map b64u_char ?s)"
        by (metis hd_in_set set_rev)
      with lt b64u_charD show "hd (rev (map b64u_char ?s)) \<noteq> CHR ''=''" by fastforce
    qed
    finally show ?thesis by (simp add: strip_eq_def)
  qed
  with 1 show ?thesis by (simp add: b64u_def)
qed

lemma map_filter_map_some:
  "\<forall>x \<in> set xs. f (g x) = Some x \<Longrightarrow> List.map_filter f (map g xs) = xs"
  by (induction xs) (auto simp: List.map_filter_simps)

lemma map_filter_append: "List.map_filter f (a @ b) = List.map_filter f a @ List.map_filter f b"
  by (induction a) (auto simp: List.map_filter_simps split: option.splits)

lemma map_filter_replicate_None: "f c = None \<Longrightarrow> List.map_filter f (replicate n c) = []"
  by (induction n) (auto simp: List.map_filter_simps)

lemma b64uDecode_b64u [simp]: "b64uDecode (b64u buf) = buf"
proof -
  let ?s = "sextets (map code_unit buf)"
  let ?r = "\<lambda>s. replace_char CHR ''_'' CHR ''/'' (replace_char CHR ''-'' CHR ''+'' s)"
  have lt: "\<forall>n \<in> set ?s. n < 64" by (intro sextets_less) auto
  have r: "?r (map b64u_char ?s)
      = map (\<lambda>n. if b64u_char n = CHR ''_'' then CHR ''/'' else if b64u_char n = CHR ''-'' then CHR ''+''
             else b64u_char n) ?s"
    by (simp add: replace_char_def)
  have v: "List.map_filter b64_val (?r (map b64u_char ?s)) = ?s"
    unfolding r by (rule map_filter_map_some) (use lt b64u_charD in fastforce)
  have e: "b64_val CHR ''='' = None"
    by (simp add: b64_val_def is_upper_def is_lower_def is_digit_def code_unit_def)
  have "octets ?s = map code_unit buf" by (rule octets_sextets) auto
  then show ?thesis
    using v e by (simp add: b64uDecode_def b64u_sextets Let_def from_base64_def map_filter_append
        map_filter_replicate_None o_def code_unit_def)
qed

lemma b64u_no_dot: "CHR ''.'' \<notin> set (b64u buf)"
proof -
  have "\<forall>n \<in> set (sextets (map code_unit buf)). n < 64" by (intro sextets_less) auto
  with b64u_charD show ?thesis by (fastforce simp: b64u_sextets)
qed

section \<open>Wrapping\<close>

record gcm =
  gcm_ctr :: "string \<Rightarrow> string \<Rightarrow> string \<Rightarrow> string"
  gcm_tag :: "string \<Rightarrow> string \<Rightarrow> string \<Rightarrow> string \<Rightarrow> string"

definition gcm_ok :: "gcm \<Rightarrow> bool" where
  "gcm_ok g \<longleftrightarrow> (\<forall>key iv data. gcm_ctr g key iv (gcm_ctr g key iv data) = data)"

text \<open>An empty or missing \<open>aad\<close> is no additional data.\<close>

definition aad_of :: "string option \<Rightarrow> string" where
  "aad_of aad = (case aad of Some a \<Rightarrow> a | None \<Rightarrow> [])"

definition wrap :: "gcm \<Rightarrow> string \<Rightarrow> string \<Rightarrow> string \<Rightarrow> string option \<Rightarrow> exn + string" where
  "wrap g iv masterKeyHex plaintext aad =
     (let key = from_hex masterKeyHex in
      if length key \<noteq> 32 then Inl (JsError ''master key must be 32 bytes'')
      else
        let ct = gcm_ctr g key iv plaintext;
            tag = gcm_tag g key iv (aad_of aad) ct
        in Inr (''v1'' @ ''.'' @ b64u iv @ ''.'' @ b64u tag @ ''.'' @ b64u ct))"

definition unwrap :: "gcm \<Rightarrow> string \<Rightarrow> string \<Rightarrow> string option \<Rightarrow> exn + string" where
  "unwrap g masterKeyHex wrapped aad =
     (case split_on CHR ''.'' wrapped of
        [v, p1, p2, p3] \<Rightarrow>
          if v \<noteq> ''v1'' then Inl (JsError ''bad wrap format'')
          else
            let key = from_hex masterKeyHex in
            if length key \<noteq> 32 then Inl (JsError ''master key must be 32 bytes'')
            else
              let iv = b64uDecode p1; tag = b64uDecode p2; ct = b64uDecode p3 in
              if gcm_tag g key iv (aad_of aad) ct = tag then Inr (gcm_ctr g key iv ct)
              else Inl (JsError ''Unsupported state or unable to authenticate data'')
      | _ \<Rightarrow> Inl (JsError ''bad wrap format''))"

lemma split_wrap:
  "split_on CHR ''.'' (''v1'' @ ''.'' @ b64u a @ ''.'' @ b64u b @ ''.'' @ b64u c)
     = [''v1'', b64u a, b64u b, b64u c]"
  using split_on_append [of "CHR ''.''" "''v1''"] 
  by (simp add: split_on_append split_on_no_sep b64u_no_dot)

text \<open>What \<open>unwrap\<close> does with the output of \<open>wrap\<close>, under any additional data.\<close>

lemma unwrap_wrap:
  assumes "gcm_ok g" and "wrap g iv k pt aad = Inr w"
  shows "unwrap g k w aad' =
    (let key = from_hex k; ct = gcm_ctr g key iv pt in
     if gcm_tag g key iv (aad_of aad') ct = gcm_tag g key iv (aad_of aad) ct then Inr pt
     else Inl (JsError ''Unsupported state or unable to authenticate data''))"
proof -
  let ?key = "from_hex k"
  have l: "length ?key = 32" and w: "w = ''v1'' @ ''.'' @ b64u iv @ ''.'' @
      b64u (gcm_tag g ?key iv (aad_of aad) (gcm_ctr g ?key iv pt)) @ ''.'' @ b64u (gcm_ctr g ?key iv pt)"
    using assms(2) by (auto simp: wrap_def Let_def split: if_splits)
  show ?thesis
    unfolding unwrap_def w split_wrap using l assms(1) by (simp add: Let_def gcm_ok_def)
qed

text \<open>
  Wrapping round trip and row binding. A value wrapped under some additional data is recovered by
  unwrapping under the same data, and unwrapping it under other data gives back the value or
  throws; it gives the value only when the two authentication tags collide.
\<close>

theorem wrap_unwrap_roundtrip:
  assumes "gcm_ok g" and "wrap g iv k pt aad = Inr w"
  shows "unwrap g k w aad = Inr pt \<and>
         (is_ok (unwrap g k w aad') \<longleftrightarrow>
            gcm_tag g (from_hex k) iv (aad_of aad') (gcm_ctr g (from_hex k) iv pt)
          = gcm_tag g (from_hex k) iv (aad_of aad) (gcm_ctr g (from_hex k) iv pt))"
  using unwrap_wrap [OF assms] by (auto simp: Let_def)

text \<open>A cipher with the required laws that evaluates: reversal, and the additional data as tag.\<close>

definition rev_gcm :: gcm where
  "rev_gcm = \<lparr>gcm_ctr = (\<lambda>_ _. rev), gcm_tag = (\<lambda>_ _ aad _. aad)\<rparr>"

lemma rev_gcm_ok: "gcm_ok rev_gcm"
  by (simp add: gcm_ok_def rev_gcm_def)

lemma from_hex_zeros: "from_hex (replicate 64 CHR ''0'') = replicate 32 (CHR 0x00)"
  by code_simp

theorem wrap_unwrap_roundtrip_witness:
  "\<exists>w. wrap rev_gcm ''123456789012'' (replicate 64 CHR ''0'') ''secret'' (Some ''receiver:a'') = Inr w \<and>
       unwrap rev_gcm (replicate 64 CHR ''0'') w (Some ''receiver:a'') = Inr ''secret'' \<and>
       \<not> is_ok (unwrap rev_gcm (replicate 64 CHR ''0'') w (Some ''receiver:b''))"
proof -
  let ?k = "replicate 64 CHR ''0''"
  obtain w where w: "wrap rev_gcm ''123456789012'' ?k ''secret'' (Some ''receiver:a'') = Inr w"
    by (simp add: wrap_def Let_def from_hex_zeros)
  show ?thesis
    using wrap_unwrap_roundtrip [OF rev_gcm_ok w, of "Some ''receiver:b''"] w
    by (intro exI [of _ w]) (simp add: rev_gcm_def aad_of_def)
qed

text \<open>A value that unwraps was produced with the tag of its own additional data.\<close>

lemma unwrap_ok_tag:
  assumes "unwrap g k w aad = Inr pt"
  shows "\<exists>iv ct. gcm_tag g (from_hex k) iv (aad_of aad) ct = b64uDecode (split_on CHR ''.'' w ! 2) \<and>
                 pt = gcm_ctr g (from_hex k) iv ct \<and> length (from_hex k) = 32"
  using assms by (auto simp: unwrap_def Let_def split: list.splits if_splits)

end
