(* ===== verification/Hmac.thy ===== *)
theory Hmac
  imports World Aead
begin

text \<open>
  \<open>services/hmac.ts\<close>: the authentication of a gateway request (\<open>verifyGatewayHmac\<close>) and the
  wrapping of a gateway's signing key. \<open>env\<close> collects the third-party functions: the GCM cipher,
  HMAC-SHA256 and SHA-256. The raw body is the list of its bytes. A timestamp header outside the
  range of exact doubles is outside the skew window in the model and in the code.
\<close>

record crypto_env =
  ce_gcm :: gcm
  ce_hmac :: hmac_fn
  ce_sha256 :: hash_fn

record hmac_input =
  hi_receiverId :: string
  hi_timestampHeader :: string
  hi_nonceHeader :: string
  hi_signatureHeader :: string
  hi_rawBody :: string

record authed_receiver =
  ar_id :: string
  ar_appId :: string
  ar_msisdn :: string

definition nonce_key :: "string \<Rightarrow> string \<Rightarrow> string" where
  "nonce_key receiverId nonce = ''syrotp:nonce:'' @ receiverId @ '':'' @ nonce"

definition receiver_aad :: "string \<Rightarrow> string" where
  "receiver_aad i = ''receiver:'' @ i"

definition signed_payload :: "crypto_env \<Rightarrow> int \<Rightarrow> string \<Rightarrow> string \<Rightarrow> string" where
  "signed_payload ce ts nonce rawBody = show_int ts @ ''.'' @ nonce @ ''.'' @ ce_sha256 ce rawBody"

text \<open>\<open>Inl\<close> is \<open>{ ok: false, reason }\<close>, \<open>Inr\<close> is \<open>{ ok: true, receiver }\<close>.\<close>

definition verifyGatewayHmac ::
  "config \<Rightarrow> crypto_env \<Rightarrow> int \<Rightarrow> hmac_input \<Rightarrow> world \<Rightarrow> (string + authed_receiver) \<times> world" where
  "verifyGatewayHmac cfg ce now inp w =
     (if \<not> prefixed_id ''rcv_'' (hi_receiverId inp) then (Inl ''bad_receiver_id'', w)
      else if \<not> all_in_between is_hex 32 128 (hi_nonceHeader inp) then (Inl ''bad_nonce'', w)
      else if \<not> all_in_between is_hex 64 64 (hi_signatureHeader inp) then (Inl ''bad_signature_format'', w)
      else case parse_int (hi_timestampHeader inp) of
        None \<Rightarrow> (Inl ''bad_timestamp'', w)
      | Some ts \<Rightarrow>
        if \<bar>now div 1000 - ts\<bar> > INBOUND_TIMESTAMP_SKEW_SECONDS cfg then (Inl ''timestamp_skew'', w)
        else case select_one (\<lambda>r. rc_id r = hi_receiverId inp) (receivers (w_db w)) of
          None \<Rightarrow> (Inl ''unknown_receiver'', w)
        | Some receiver \<Rightarrow>
          if \<not> rc_enabled receiver then (Inl ''unknown_receiver'', w)
          else case unwrap (ce_gcm ce) (MASTER_ENCRYPTION_KEY cfg) (rc_secretHash receiver)
                      (Some (receiver_aad (rc_id receiver))) of
            Inl _ \<Rightarrow> (Inl ''key_unavailable'', w)
          | Inr signingKey \<Rightarrow>
            let payload = signed_payload ce ts (hi_nonceHeader inp) (hi_rawBody inp);
                expected = ce_hmac ce signingKey payload in
            if safeEqual expected (hi_signatureHeader inp) \<noteq> Some True then (Inl ''bad_signature'', w)
            else
              let (ok, rs) = redis_set_nx (w_redis w) now
                     (nonce_key (hi_receiverId inp) (hi_nonceHeader inp))
                     (INBOUND_TIMESTAMP_SKEW_SECONDS cfg) in
              if \<not> ok then (Inl ''replay'', w)
              else (Inr \<lparr>ar_id = rc_id receiver, ar_appId = rc_appId receiver,
                         ar_msisdn = rc_msisdn receiver\<rparr>, w\<lparr>w_redis := rs\<rparr>))"

definition wrapGatewaySigningKey ::
  "config \<Rightarrow> crypto_env \<Rightarrow> string \<Rightarrow> string \<Rightarrow> string \<Rightarrow> exn + string" where
  "wrapGatewaySigningKey cfg ce iv rawKey receiverId =
     wrap (ce_gcm ce) iv (MASTER_ENCRYPTION_KEY cfg) rawKey (Some (receiver_aad receiverId))"

section \<open>Acceptance\<close>

text \<open>Everything but the nonce check: the request is well formed, timely and signed.\<close>

definition signed_by ::
  "config \<Rightarrow> crypto_env \<Rightarrow> int \<Rightarrow> hmac_input \<Rightarrow> receiver_row list \<Rightarrow> receiver_row \<Rightarrow> bool" where
  "signed_by cfg ce now inp rows r \<longleftrightarrow>
     prefixed_id ''rcv_'' (hi_receiverId inp) \<and>
     all_in_between is_hex 32 128 (hi_nonceHeader inp) \<and>
     all_in_between is_hex 64 64 (hi_signatureHeader inp) \<and>
     select_one (\<lambda>r. rc_id r = hi_receiverId inp) rows = Some r \<and> rc_enabled r \<and>
     (\<exists>ts key. parse_int (hi_timestampHeader inp) = Some ts \<and>
        \<bar>now div 1000 - ts\<bar> \<le> INBOUND_TIMESTAMP_SKEW_SECONDS cfg \<and>
        unwrap (ce_gcm ce) (MASTER_ENCRYPTION_KEY cfg) (rc_secretHash r)
           (Some (receiver_aad (rc_id r))) = Inr key \<and>
        hi_signatureHeader inp =
          ce_hmac ce key (signed_payload ce ts (hi_nonceHeader inp) (hi_rawBody inp)))"

definition receiver_of :: "receiver_row \<Rightarrow> authed_receiver" where
  "receiver_of r = \<lparr>ar_id = rc_id r, ar_appId = rc_appId r, ar_msisdn = rc_msisdn r\<rparr>"

lemma verifyGatewayHmac_ok_iff:
  "verifyGatewayHmac cfg ce now inp w = (Inr a, w') \<longleftrightarrow>
     (\<exists>r rs. signed_by cfg ce now inp (receivers (w_db w)) r \<and> a = receiver_of r \<and>
        redis_set_nx (w_redis w) now (nonce_key (hi_receiverId inp) (hi_nonceHeader inp))
          (INBOUND_TIMESTAMP_SKEW_SECONDS cfg) = (True, rs) \<and> w' = w\<lparr>w_redis := rs\<rparr>)"
  unfolding verifyGatewayHmac_def signed_by_def receiver_of_def Let_def
  by (auto split: option.splits sum.splits prod.splits if_splits)

lemma signed_request_accepted:
  assumes "signed_by cfg ce now inp (receivers (w_db w)) r"
    and "redis_get (w_redis w) now (nonce_key (hi_receiverId inp) (hi_nonceHeader inp)) = None"
  shows "fst (verifyGatewayHmac cfg ce now inp w) = Inr (receiver_of r)"
proof -
  obtain w' where "verifyGatewayHmac cfg ce now inp w = (Inr (receiver_of r), w')"
    using assms unfolding verifyGatewayHmac_ok_iff by (auto simp: redis_set_nx_def)
  then show ?thesis by simp
qed

lemma verifyGatewayHmac_db [simp]: "w_db (snd (verifyGatewayHmac cfg ce now inp w)) = w_db w"
  by (auto simp: verifyGatewayHmac_def Let_def split: option.splits sum.splits prod.splits)

lemma verifyGatewayHmac_metrics [simp]:
  "w_metrics (snd (verifyGatewayHmac cfg ce now inp w)) = w_metrics w"
  by (auto simp: verifyGatewayHmac_def Let_def split: option.splits sum.splits prod.splits)

lemma verifyGatewayHmac_rejected:
  "fst (verifyGatewayHmac cfg ce now inp w) = Inl e \<Longrightarrow> snd (verifyGatewayHmac cfg ce now inp w) = w"
  by (auto simp: verifyGatewayHmac_def Let_def split: option.splits sum.splits prod.splits if_splits)

text \<open>
  What an accepted gateway request proves. It names an enabled receiver, its timestamp is within the
  skew window of the server clock, and its signature is the HMAC, under that receiver's own
  unwrapped signing key, of exactly this timestamp, nonce and body; nothing but the nonce entry
  in Redis changes. A rejected request changes nothing.
\<close>

theorem verifyGatewayHmac_sound:
  "case verifyGatewayHmac cfg ce now inp w of
     (Inr a, w') \<Rightarrow> (\<exists>r ts key. r \<in> set (receivers (w_db w)) \<and> rc_id r = hi_receiverId inp \<and> rc_enabled r \<and>
         a = \<lparr>ar_id = rc_id r, ar_appId = rc_appId r, ar_msisdn = rc_msisdn r\<rparr> \<and>
         parse_int (hi_timestampHeader inp) = Some ts \<and>
         \<bar>now div 1000 - ts\<bar> \<le> INBOUND_TIMESTAMP_SKEW_SECONDS cfg \<and>
         unwrap (ce_gcm ce) (MASTER_ENCRYPTION_KEY cfg) (rc_secretHash r)
            (Some (''receiver:'' @ rc_id r)) = Inr key \<and>
         hi_signatureHeader inp = ce_hmac ce key
            (show_int ts @ ''.'' @ hi_nonceHeader inp @ ''.'' @ ce_sha256 ce (hi_rawBody inp))) \<and>
         w_db w' = w_db w \<and> w_metrics w' = w_metrics w
   | (Inl _, w') \<Rightarrow> w' = w"
proof (cases "verifyGatewayHmac cfg ce now inp w")
  case (Pair res w')
  show ?thesis
  proof (cases res)
    case (Inl e)
    then show ?thesis using Pair verifyGatewayHmac_rejected [of cfg ce now inp w e] by simp
  next
    case (Inr a)
    with Pair obtain r where r: "signed_by cfg ce now inp (receivers (w_db w)) r" "a = receiver_of r"
      using verifyGatewayHmac_ok_iff by metis
    moreover have "w_db w' = w_db w" "w_metrics w' = w_metrics w"
      using Pair verifyGatewayHmac_db [of cfg ce now inp w]
        verifyGatewayHmac_metrics [of cfg ce now inp w] by simp_all
    moreover have "r \<in> set (receivers (w_db w)) \<and> rc_id r = hi_receiverId inp"
      using r(1) select_one_Some by (fastforce simp: signed_by_def)
    ultimately show ?thesis
      using Pair Inr by (auto simp: signed_by_def receiver_of_def signed_payload_def receiver_aad_def)
  qed
qed

section \<open>A signed request that evaluates\<close>

text \<open>A receiver whose key is wrapped by \<open>wrapGatewaySigningKey\<close>, and a request signed with it.\<close>

definition demo_env :: crypto_env where
  "demo_env = \<lparr>ce_gcm = rev_gcm, ce_hmac = (\<lambda>k m. take 64 (to_hex (k @ rev m) @ replicate 64 CHR ''0'')),
     ce_sha256 = (\<lambda>m. to_hex m)\<rparr>"

definition demo_iv :: string where
  "demo_iv = ''123456789012''"

definition demo_secret :: string where
  "demo_secret = (case wrapGatewaySigningKey default_config demo_env demo_iv ''k'' ''rcv_1'' of
      Inr s \<Rightarrow> s | Inl _ \<Rightarrow> [])"

definition demo_receiver :: receiver_row where
  "demo_receiver = \<lparr>rc_id = ''rcv_1'', rc_appId = ''app_1'', rc_name = ''r'', rc_operator = None,
     rc_msisdn = ''+963900000000'', rc_secretHash = demo_secret, rc_enabled = True,
     rc_lastHeartbeatAt = Some 0, rc_createdAt = 0\<rparr>"

definition demo_nonce :: string where
  "demo_nonce = replicate 32 CHR ''a''"

definition demo_request :: "int \<Rightarrow> hmac_input" where
  "demo_request ts = \<lparr>hi_receiverId = ''rcv_1'', hi_timestampHeader = show_int ts, hi_nonceHeader = demo_nonce,
     hi_signatureHeader = ce_hmac demo_env ''k'' (signed_payload demo_env ts demo_nonce ''{}''),
     hi_rawBody = ''{}''\<rparr>"

definition demo_world :: world where
  "demo_world = empty_world\<lparr>w_db := empty_db\<lparr>receivers := [demo_receiver]\<rparr>\<rparr>"

lemma demo_secret_wrapped:
  "wrapGatewaySigningKey default_config demo_env demo_iv ''k'' ''rcv_1'' = Inr demo_secret"
  unfolding demo_secret_def
  by (auto simp: wrapGatewaySigningKey_def wrap_def Let_def default_config_def from_hex_zeros)

lemma demo_unwrap:
  "unwrap rev_gcm (MASTER_ENCRYPTION_KEY default_config) demo_secret (Some (receiver_aad ''rcv_1''))
     = Inr ''k''"
proof -
  have "wrap rev_gcm demo_iv (MASTER_ENCRYPTION_KEY default_config) ''k'' (Some (receiver_aad ''rcv_1''))
      = Inr demo_secret"
    using demo_secret_wrapped by (simp add: wrapGatewaySigningKey_def demo_env_def)
  from unwrap_wrap [OF rev_gcm_ok this] show ?thesis by (simp add: Let_def)
qed

lemma demo_signed:
  assumes "\<bar>now div 1000 - ts\<bar> \<le> 300"
  shows "signed_by default_config demo_env now (demo_request ts) [demo_receiver] demo_receiver"
proof -
  have hex: "all_in_between is_hex 64 64 (take 64 (to_hex m @ replicate 64 CHR ''0''))" for m
  proof -
    have "list_all is_hex (to_hex m @ replicate 64 CHR ''0'')"
      using to_hex_class by (simp add: list_all_iff char_class_defs code_unit_def)
    then have "list_all is_hex (take 64 (to_hex m @ replicate 64 CHR ''0''))"
      by (rule list_all_take)
    then show ?thesis by (simp add: all_in_between_def min_def)
  qed
  show ?thesis
    unfolding signed_by_def
  proof (intro conjI exI)
    show "prefixed_id ''rcv_'' (hi_receiverId (demo_request ts))"
      by (simp add: demo_request_def prefixed_id_def starts_with_def all_in_def char_class_defs code_unit_def)
    show "all_in_between is_hex 32 128 (hi_nonceHeader (demo_request ts))"
      by (simp add: demo_request_def demo_nonce_def all_in_between_def list_all_iff char_class_defs code_unit_def)
    show "all_in_between is_hex 64 64 (hi_signatureHeader (demo_request ts))"
      unfolding demo_request_def demo_env_def by (simp only: hmac_input.simps crypto_env.simps hex)
    show "unwrap (ce_gcm demo_env) (MASTER_ENCRYPTION_KEY default_config) (rc_secretHash demo_receiver)
       (Some (receiver_aad (rc_id demo_receiver))) = Inr ''k''"
      using demo_unwrap by (simp add: demo_env_def demo_receiver_def)
    show "\<bar>now div 1000 - ts\<bar> \<le> INBOUND_TIMESTAMP_SKEW_SECONDS default_config"
      using assms by (simp add: default_config_def)
  qed (simp_all add: demo_request_def demo_receiver_def parse_int_show_int)
qed

lemma demo_accepted:
  assumes "\<bar>now div 1000 - ts\<bar> \<le> 300"
  shows "\<exists>w'. verifyGatewayHmac default_config demo_env now (demo_request ts) demo_world
               = (Inr (receiver_of demo_receiver), w')"
  using demo_signed [OF assms]
  by (auto simp: verifyGatewayHmac_ok_iff demo_world_def empty_world_def redis_set_nx_def redis_get_def empty_redis_def)

section \<open>Replay\<close>



text \<open>
  The nonce outlives the request only by half. A captured request whose timestamp is ahead of the
  server clock is accepted a second time once the nonce entry has expired, as long as the clock is
  still within the skew window of its timestamp: the window is twice as long as the entry lives.
\<close>

theorem gateway_replay_after_nonce_expiry:
  assumes "verifyGatewayHmac cfg ce now inp w = (Inr a, w')"
    and "parse_int (hi_timestampHeader inp) = Some ts"
    and "now + INBOUND_TIMESTAMP_SKEW_SECONDS cfg * 1000 \<le> now'"
    and "\<bar>now' div 1000 - ts\<bar> \<le> INBOUND_TIMESTAMP_SKEW_SECONDS cfg"
  shows "\<exists>w''. verifyGatewayHmac cfg ce now' inp w' = (Inr a, w'')"
proof -
  obtain r rs where r: "signed_by cfg ce now inp (receivers (w_db w)) r" "a = receiver_of r"
    and s: "redis_set_nx (w_redis w) now (nonce_key (hi_receiverId inp) (hi_nonceHeader inp))
          (INBOUND_TIMESTAMP_SKEW_SECONDS cfg) = (True, rs)" and w': "w' = w\<lparr>w_redis := rs\<rparr>"
    using assms(1) verifyGatewayHmac_ok_iff by metis
  have "signed_by cfg ce now' inp (receivers (w_db w')) r"
    using r(1) assms(2,4) w' by (auto simp: signed_by_def)
  moreover obtain rs' where "redis_set_nx (w_redis w') now'
      (nonce_key (hi_receiverId inp) (hi_nonceHeader inp)) (INBOUND_TIMESTAMP_SKEW_SECONDS cfg) = (True, rs')"
    using redis_set_nx_expired [OF s assms(3), of "INBOUND_TIMESTAMP_SKEW_SECONDS cfg"] w'
    by (auto simp: prod_eq_iff)
  ultimately show ?thesis using r(2) by (auto simp: verifyGatewayHmac_ok_iff)
qed

theorem gateway_replay_after_nonce_expiry_witness:
  "\<exists>a w' w''. verifyGatewayHmac default_config demo_env 1000000 (demo_request 1200) demo_world = (Inr a, w') \<and>
       verifyGatewayHmac default_config demo_env 1400000 (demo_request 1200) w' = (Inr a, w'')"
proof -
  obtain w' where w': "verifyGatewayHmac default_config demo_env 1000000 (demo_request 1200) demo_world
      = (Inr (receiver_of demo_receiver), w')"
    using demo_accepted [of 1000000 1200] by auto
  show ?thesis
    using w' gateway_replay_after_nonce_expiry [OF w', of 1200 1400000]
    by (auto simp: demo_request_def default_config_def parse_int_show_int)
qed

end
