(* ===== verification/Phone.thy ===== *)
theory Phone
  imports Errors
begin

text \<open>
  \<open>lib/phone.ts\<close>: \<open>normalizePhone\<close> around the parser of \<open>libphonenumber-js\<close> (the argument
  \<open>parsePhone\<close>, from the text and the default region to the parsed number) and \<open>maskPhone\<close>,
  the only form in which a phone number leaves the server in views and webhook payloads.
\<close>

datatype phone_type = PremiumRate | SharedCost | OtherType

text \<open>What the server reads of a parsed number.\<close>

record parsed_phone =
  pp_isValid :: bool
  pp_type :: phone_type
  pp_number :: string
  pp_nationalNumber :: string
  pp_country :: "string option"

type_synonym phone_parser = "string \<Rightarrow> string \<Rightarrow> parsed_phone option"

record normalized_phone =
  np_e164 :: string
  np_national :: string
  np_country :: string

definition normalizePhone :: "phone_parser \<Rightarrow> string \<Rightarrow> string \<Rightarrow> exn + normalized_phone" where
  "normalizePhone parsePhone raw defaultRegion =
     (let trimmed = js_trim raw in
      if length trimmed < 5 \<or> length trimmed > 20 then Inl (PhoneError ''invalid_phone'')
      else case parsePhone trimmed defaultRegion of
        None \<Rightarrow> Inl (PhoneError ''invalid_phone'')
      | Some parsed \<Rightarrow>
          if \<not> pp_isValid parsed then Inl (PhoneError ''invalid_phone'')
          else if pp_type parsed = PremiumRate \<or> pp_type parsed = SharedCost
            then Inl (PhoneError ''phone_type_not_allowed'')
          else Inr \<lparr>np_e164 = pp_number parsed, np_national = pp_nationalNumber parsed,
                    np_country = (case pp_country parsed of Some c \<Rightarrow> c | None \<Rightarrow> defaultRegion)\<rparr>)"

definition maskPhone :: "string \<Rightarrow> string" where
  "maskPhone e164 =
     (if \<not> starts_with e164 ''+'' \<or> length e164 < 7 then ''***''
      else
        let keepFront = min 6 (length e164 - 4);
            keepBack = 3;
            front = take keepFront e164;
            back = drop (length e164 - keepBack) e164;
            stars = replicate (length e164 - keepFront - keepBack) CHR ''*''
        in front @ stars @ back)"

lemma normalizePhone_ok_iff:
  "normalizePhone parsePhone raw region = Inr n \<longleftrightarrow>
     5 \<le> length (js_trim raw) \<and> length (js_trim raw) \<le> 20 \<and>
     (\<exists>p. parsePhone (js_trim raw) region = Some p \<and> pp_isValid p \<and> pp_type p = OtherType \<and>
        n = \<lparr>np_e164 = pp_number p, np_national = pp_nationalNumber p,
             np_country = (case pp_country p of Some c \<Rightarrow> c | None \<Rightarrow> region)\<rparr>)"
proof -
  have "t = OtherType \<longleftrightarrow> t \<noteq> PremiumRate \<and> t \<noteq> SharedCost" for t
    by (cases t) auto
  then show ?thesis
    by (auto simp: normalizePhone_def Let_def not_less split: option.splits if_splits)
qed

text \<open>Every failure is a \<open>PhoneError\<close> with one of the two documented codes.\<close>

lemma normalizePhone_error:
  "normalizePhone parsePhone raw region = Inl e \<Longrightarrow>
     e = PhoneError ''invalid_phone'' \<or> e = PhoneError ''phone_type_not_allowed''"
  by (auto simp: normalizePhone_def Let_def split: option.splits if_splits)

lemma maskPhone_long:
  assumes "starts_with s ''+''" and "7 \<le> length s"
  shows "maskPhone s = take (min 6 (length s - 4)) s
           @ replicate (length s - min 6 (length s - 4) - 3) CHR ''*'' @ drop (length s - 3) s"
  using assms by (simp add: maskPhone_def Let_def)

text \<open>
  Masking a phone number. The mask of an E.164 number has its length, keeps at most its first
  six and its last three characters, replaces at least one character between them, and depends on
  nothing else: two numbers of equal length that agree on the kept characters have the same mask.
\<close>

theorem maskPhone_hides:
  assumes "starts_with s ''+''" and "7 \<le> length s"
  shows "length (maskPhone s) = length s \<and>
         (\<exists>kf. 1 \<le> kf \<and> kf \<le> 6 \<and> kf + 3 < length s \<and>
          (\<forall>i. kf \<le> i \<and> i < length s - 3 \<longrightarrow> maskPhone s ! i = CHR ''*'') \<and>
          (\<forall>t. length t = length s \<and> take kf t = take kf s \<and>
               drop (length s - 3) t = drop (length s - 3) s \<longrightarrow> maskPhone t = maskPhone s))"
proof -
  define kf where "kf = min 6 (length s - 4)"
  have kf: "1 \<le> kf" "kf \<le> 6" "kf + 3 < length s" using assms(2) by (auto simp: kf_def)
  have mask: "maskPhone t = take kf t @ replicate (length s - kf - 3) CHR ''*'' @ drop (length s - 3) t"
    if "starts_with t ''+''" and "length t = length s" for t
    using that assms(2) by (simp add: maskPhone_long kf_def)
  have stars: "maskPhone s ! i = CHR ''*''" if "kf \<le> i" and "i < length s - 3" for i
  proof -
    have "i - kf < length s - kf - 3" and "\<not> i < kf" using that kf by linarith+
    then show ?thesis using kf assms(1) by (simp add: mask nth_append)
  qed
  have same: "maskPhone t = maskPhone s"
    if t: "length t = length s" "take kf t = take kf s" "drop (length s - 3) t = drop (length s - 3) s" for t
  proof -
    have "take 1 t = take 1 s" using t(2) kf(1) by (metis min.absorb1 take_take)
    then have "starts_with t ''+''" using assms(1) by (simp add: starts_with_def)
    with t assms(1) show ?thesis by (simp add: mask)
  qed
  have "length (maskPhone s) = length s" using kf assms(1) by (simp add: mask)
  with stars same kf show ?thesis by blast
qed

theorem maskPhone_hides_witness:
  "length (maskPhone ''+963991234567'') = 13 \<and> maskPhone ''+963991234567'' = ''+96399****567''"
  using maskPhone_hides [of "''+963991234567''"]
  by (simp add: maskPhone_def starts_with_def Let_def numeral_eq_Suc)

end
