(* ===== verification/Outbox.thy ===== *)
theory Outbox
  imports World Phone
begin

text \<open>
  The transactional outbox of \<open>services/webhooks.ts\<close>: the payload of a verification event and its
  emission inside the transaction that changes the verification. Fresh identifiers are arguments:
  \<open>u\<close> the ULID of the event, \<open>us i\<close> that of the delivery to the \<open>i\<close>-th endpoint.
\<close>

definition event_status :: "event_type \<Rightarrow> verification_status" where
  "event_status t = (case t of EvVerified \<Rightarrow> Verified | EvExpired \<Rightarrow> Expired | EvCancelled \<Rightarrow> Cancelled)"

definition buildVerificationEventData :: "verification_row \<Rightarrow> event_type \<Rightarrow> event_data" where
  "buildVerificationEventData row t =
     \<lparr>ed_verification_id = vr_id row,
      ed_status = (if t = EvVerified then Verified else if t = EvExpired then Expired else Cancelled),
      ed_phone_masked = maskPhone (vr_phoneE164 row),
      ed_purpose = vr_purpose row,
      ed_client_ref = vr_clientRef row,
      ed_verified_at = (if t = EvVerified then vr_verifiedAt row else None),
      ed_expired_at = (if t = EvExpired then Some (vr_expiresAt row) else None),
      ed_cancelled_at = (if t = EvCancelled then vr_cancelledAt row else None)\<rparr>"

text \<open>Enabled endpoints of the application that subscribe to the event type.\<close>

definition subscribed :: "event_type \<Rightarrow> string \<Rightarrow> endpoint_row \<Rightarrow> bool" where
  "subscribed t appId e \<longleftrightarrow> we_appId e = appId \<and> we_enabled e \<and> t \<in> set (we_eventTypes e)"

definition new_delivery :: "event_type \<Rightarrow> string \<Rightarrow> int \<Rightarrow> string \<Rightarrow> endpoint_row \<Rightarrow> delivery_row" where
  "new_delivery t eventId createdAt u e =
     \<lparr>dl_id = newId ''wd'' u, dl_endpointId = we_id e, dl_eventId = eventId, dl_eventType = t,
      dl_status = DPending, dl_attemptCount = 0, dl_nextAttemptAt = createdAt,
      dl_lastStatusCode = None, dl_lastError = None, dl_createdAt = createdAt, dl_updatedAt = createdAt\<rparr>"

definition emitVerificationEventInTx ::
  "event_type \<Rightarrow> string \<Rightarrow> event_data \<Rightarrow> string \<Rightarrow> (nat \<Rightarrow> string) \<Rightarrow> int \<Rightarrow> world \<Rightarrow> world" where
  "emitVerificationEventInTx t appId data u us now w =
     (let eventId = newId ''evt'' u;
          envelope = \<lparr>en_id = eventId, en_type = t, en_created_at = now, en_data = data\<rparr>;
          d1 = (w_db w)\<lparr>webhookEvents := webhookEvents (w_db w) @
                 [\<lparr>ev_id = eventId, ev_appId = appId, ev_eventType = t,
                   ev_verificationId = Some (ed_verification_id data), ev_payload = envelope,
                   ev_createdAt = now\<rparr>]\<rparr>;
          endpoints = filter (subscribed t appId) (webhookEndpoints d1);
          w1 = metric (WebhookEventEmitted t) (w\<lparr>w_db := d1\<rparr>)
      in if endpoints = [] then w1
         else w1\<lparr>w_db := d1\<lparr>webhookDeliveries := webhookDeliveries d1 @
                 map (\<lambda>(i, e). new_delivery t eventId now (us i) e) (List.enumerate 0 endpoints)\<rparr>\<rparr>)"

text \<open>What the emission leaves alone and what it adds.\<close>

lemma emit_simps [simp]:
  "apps (w_db (emitVerificationEventInTx t a d u us now w)) = apps (w_db w)"
  "apiKeys (w_db (emitVerificationEventInTx t a d u us now w)) = apiKeys (w_db w)"
  "receivers (w_db (emitVerificationEventInTx t a d u us now w)) = receivers (w_db w)"
  "verifications (w_db (emitVerificationEventInTx t a d u us now w)) = verifications (w_db w)"
  "inboundSms (w_db (emitVerificationEventInTx t a d u us now w)) = inboundSms (w_db w)"
  "phoneBindings (w_db (emitVerificationEventInTx t a d u us now w)) = phoneBindings (w_db w)"
  "webhookEndpoints (w_db (emitVerificationEventInTx t a d u us now w)) = webhookEndpoints (w_db w)"
  "webauthnCredentials (w_db (emitVerificationEventInTx t a d u us now w)) = webauthnCredentials (w_db w)"
  "webauthnChallenges (w_db (emitVerificationEventInTx t a d u us now w)) = webauthnChallenges (w_db w)"
  "w_redis (emitVerificationEventInTx t a d u us now w) = w_redis w"
  "w_metrics (emitVerificationEventInTx t a d u us now w) = w_metrics w @ [WebhookEventEmitted t]"
  by (simp_all add: emitVerificationEventInTx_def Let_def)

definition emitted_event :: "event_type \<Rightarrow> string \<Rightarrow> event_data \<Rightarrow> string \<Rightarrow> int \<Rightarrow> event_row" where
  "emitted_event t a d u now =
     \<lparr>ev_id = newId ''evt'' u, ev_appId = a, ev_eventType = t,
      ev_verificationId = Some (ed_verification_id d),
      ev_payload = \<lparr>en_id = newId ''evt'' u, en_type = t, en_created_at = now, en_data = d\<rparr>,
      ev_createdAt = now\<rparr>"

lemma emit_events [simp]:
  "webhookEvents (w_db (emitVerificationEventInTx t a d u us now w))
     = webhookEvents (w_db w) @ [emitted_event t a d u now]"
  by (simp add: emitVerificationEventInTx_def emitted_event_def Let_def)

lemma emit_deliveries:
  "\<exists>ds. webhookDeliveries (w_db (emitVerificationEventInTx t a d u us now w)) = webhookDeliveries (w_db w) @ ds \<and>
     map dl_endpointId ds = map we_id (filter (subscribed t a) (webhookEndpoints (w_db w))) \<and>
     (\<forall>x \<in> set ds. dl_eventId x = newId ''evt'' u \<and> dl_eventType x = t \<and> dl_status x = DPending \<and>
        dl_attemptCount x = 0 \<and> dl_nextAttemptAt x = now)"
proof -
  let ?es = "filter (subscribed t a) (webhookEndpoints (w_db w))"
  let ?ds = "map (\<lambda>(i, e). new_delivery t (newId ''evt'' u) now (us i) e) (List.enumerate 0 ?es)"
  have "map dl_endpointId ?ds = map (we_id \<circ> snd) (List.enumerate 0 ?es)"
    by (simp add: new_delivery_def case_prod_beta)
  also have "\<dots> = map we_id ?es" by (simp only: map_map [symmetric] map_snd_enumerate)
  finally have m: "map dl_endpointId ?ds = map we_id ?es" .
  have "webhookDeliveries (w_db (emitVerificationEventInTx t a d u us now w)) = webhookDeliveries (w_db w) @ ?ds"
    by (simp add: emitVerificationEventInTx_def Let_def)
  with m show ?thesis
    by (intro exI [of _ ?ds]) (auto simp: new_delivery_def simp del: map_map)
qed

text \<open>The number of events of a verification.\<close>

definition events_of :: "db \<Rightarrow> string \<Rightarrow> event_row list" where
  "events_of d vid = filter (\<lambda>e. ev_verificationId e = Some vid) (webhookEvents d)"

lemma events_of_emit:
  "events_of (w_db (emitVerificationEventInTx t a d u us now w)) vid =
     events_of (w_db w) vid @ (if ed_verification_id d = vid then [emitted_event t a d u now] else [])"
  by (simp add: events_of_def emitted_event_def)

text \<open>
  The payload of a webhook event is a whitelist. Whatever the verification row holds, the data block depends only
  on its id, its masked phone, its purpose, its client reference and the time stamp of the event:
  changing the code, the receiver, the full number behind the same mask, the requesting address or
  any other column does not change it.
\<close>

theorem event_data_whitelist:
  assumes "vr_id r = vr_id s" and "maskPhone (vr_phoneE164 r) = maskPhone (vr_phoneE164 s)"
    and "vr_purpose r = vr_purpose s" and "vr_clientRef r = vr_clientRef s"
    and "vr_verifiedAt r = vr_verifiedAt s" and "vr_expiresAt r = vr_expiresAt s"
    and "vr_cancelledAt r = vr_cancelledAt s"
  shows "buildVerificationEventData r t = buildVerificationEventData s t \<and>
         ed_status (buildVerificationEventData r t) = event_status t"
  using assms by (cases t) (simp_all add: buildVerificationEventData_def event_status_def)

definition demo_verification :: verification_row where
  "demo_verification = \<lparr>vr_id = ''vrf_1'', vr_appId = ''app_1'', vr_phoneE164 = ''+963991234567'',
     vr_purpose = ''login'', vr_clientRef = None, vr_locale = None, vr_receiverId = ''rcv_1'',
     vr_receiverMsisdnSnapshot = Some ''+963900000000'', vr_receiverOperatorSnapshot = None,
     vr_code = ''A7K9P2'', vr_messagePrefix = ''VERIFY'', vr_status = Pending, vr_attempts = 0,
     vr_expiresAt = 600000, vr_verifiedAt = None, vr_cancelledAt = None, vr_matchedInboundId = None,
     vr_createdIp = None, vr_createdAt = 0\<rparr>"

theorem event_data_whitelist_witness:
  "buildVerificationEventData (demo_verification\<lparr>vr_code := ''ZZZZZZ'', vr_phoneE164 := ''+963990000567''\<rparr>) EvExpired
     = buildVerificationEventData demo_verification EvExpired"
  using event_data_whitelist [of "demo_verification\<lparr>vr_code := ''ZZZZZZ'', vr_phoneE164 := ''+963990000567''\<rparr>"
      demo_verification EvExpired]
  by (simp add: demo_verification_def maskPhone_def starts_with_def Let_def numeral_eq_Suc)

end
