(* ===== verification/Verifications.thy ===== *)
theory Verifications
  imports Outbox Crypto
begin

text \<open>
  \<open>services/verifications.ts\<close>: the life cycle of a verification. Every database transaction of the
  source is a definition of its own (\<open>start_tx\<close>, \<open>lazyExpireAndEmit\<close>, \<open>cancel_tx\<close>), which the
  operations compose; the theory \<open>Server\<close> interleaves them. Time stamps of views are instants.
  A background statement of the source takes a flag \<open>ok\<close> that tells whether the database
  accepted it.
\<close>

section \<open>Receiver selection\<close>

record picked_receiver =
  pk_id :: string
  pk_msisdn :: string
  pk_operator :: "string option"
  pk_match :: receiver_match

definition pending_count :: "db \<Rightarrow> string \<Rightarrow> nat" where
  "pending_count d rid =
     length (filter (\<lambda>v. vr_status v = Pending \<and> vr_receiverId v = rid) (verifications d))"

definition healthy_receiver :: "config \<Rightarrow> int \<Rightarrow> string \<Rightarrow> string option \<Rightarrow> receiver_row \<Rightarrow> bool" where
  "healthy_receiver cfg dbnow appId operator r \<longleftrightarrow>
     rc_appId r = appId \<and> rc_enabled r \<and>
     (case rc_lastHeartbeatAt r of
        None \<Rightarrow> False
      | Some h \<Rightarrow> h > dbnow - RECEIVER_HEARTBEAT_TIMEOUT_SECONDS cfg * 1000) \<and>
     (truthy operator \<longrightarrow> rc_operator r = operator)"

text \<open>\<open>ORDER BY pending_count ASC, created_at ASC LIMIT 1\<close>, as two stable sorts.\<close>

definition runHealthyReceiverQuery ::
  "config \<Rightarrow> int \<Rightarrow> db \<Rightarrow> string \<Rightarrow> string option \<Rightarrow> receiver_row option" where
  "runHealthyReceiverQuery cfg dbnow d appId operator =
     (case sort_key (\<lambda>r. pending_count d (rc_id r))
             (sort_key rc_createdAt (filter (healthy_receiver cfg dbnow appId operator) (receivers d))) of
        [] \<Rightarrow> None
      | r # _ \<Rightarrow> Some r)"

definition picked :: "receiver_match \<Rightarrow> receiver_row \<Rightarrow> picked_receiver" where
  "picked m r = \<lparr>pk_id = rc_id r, pk_msisdn = rc_msisdn r, pk_operator = rc_operator r, pk_match = m\<rparr>"

definition pickReceiver ::
  "config \<Rightarrow> int \<Rightarrow> db \<Rightarrow> string \<Rightarrow> string option \<Rightarrow> picked_receiver option" where
  "pickReceiver cfg dbnow d appId preferredOperator =
     (case (if truthy preferredOperator
            then runHealthyReceiverQuery cfg dbnow d appId preferredOperator else None) of
        Some r \<Rightarrow> Some (picked M_preferred r)
      | None \<Rightarrow>
        (case runHealthyReceiverQuery cfg dbnow d appId None of
           None \<Rightarrow> None
         | Some r \<Rightarrow> Some (picked (if truthy preferredOperator then M_fallback else M_none) r)))"

section \<open>Starting a verification\<close>

record start_input =
  si_appId :: string
  si_phoneE164 :: string
  si_purpose :: string
  si_clientRef :: "string option"
  si_locale :: "string option"
  si_ip :: "string option"
  si_preferredOperator :: "string option"

record public_verification =
  pv_id :: string
  pv_status :: verification_status
  pv_phone_masked :: string
  pv_send_to :: "string option"
  pv_message :: "string option"
  pv_client_ref :: "string option"
  pv_purpose :: string
  pv_verified_at :: "int option"
  pv_expires_at :: int
  pv_created_at :: int
  pv_attempts :: int

definition is_bound :: "db \<Rightarrow> string \<Rightarrow> string \<Rightarrow> bool" where
  "is_bound d appId phone \<longleftrightarrow>
     list_ex (\<lambda>b. pb_appId b = appId \<and> pb_phoneE164 b = phone \<and> pb_status b = BVerified) (phoneBindings d)"

definition phone_pending :: "db \<Rightarrow> string \<Rightarrow> string \<Rightarrow> nat" where
  "phone_pending d appId phone =
     length (filter (\<lambda>v. vr_appId v = appId \<and> vr_phoneE164 v = phone \<and> vr_status v = Pending)
       (verifications d))"

definition new_verification ::
  "config \<Rightarrow> start_input \<Rightarrow> string \<Rightarrow> int \<Rightarrow> int \<Rightarrow> string \<Rightarrow> picked_receiver \<Rightarrow> verification_row" where
  "new_verification cfg inp vid now dbnow code receiver =
     \<lparr>vr_id = vid, vr_appId = si_appId inp, vr_phoneE164 = si_phoneE164 inp,
      vr_purpose = si_purpose inp, vr_clientRef = si_clientRef inp, vr_locale = si_locale inp,
      vr_receiverId = pk_id receiver, vr_receiverMsisdnSnapshot = Some (pk_msisdn receiver),
      vr_receiverOperatorSnapshot = pk_operator receiver, vr_code = code,
      vr_messagePrefix = ''VERIFY'', vr_status = Pending, vr_attempts = 0,
      vr_expiresAt = now + VERIFICATION_TTL_SECONDS cfg * 1000, vr_verifiedAt = None,
      vr_cancelledAt = None, vr_matchedInboundId = None, vr_createdIp = si_ip inp,
      vr_createdAt = dbnow\<rparr>"

text \<open>
  One attempt, under the advisory lock of (app, phone): the count, the receiver choice and the insert
  are one transaction. The insert is refused by \<open>verifications_pending_uniq\<close>.
\<close>

definition start_tx ::
  "config \<Rightarrow> start_input \<Rightarrow> string \<Rightarrow> int \<Rightarrow> int \<Rightarrow> string \<Rightarrow> world
     \<Rightarrow> (exn + picked_receiver \<times> string) \<times> world" where
  "start_tx cfg inp vid now dbnow code w =
     (let d = w_db w in
      if phone_pending d (si_appId inp) (si_phoneE164 inp) \<ge> MAX_PENDING_PER_PHONE cfg then
        (Inl (conflict ''too_many_pending'' ''too many pending verifications for this phone''), w)
      else case pickReceiver cfg dbnow d (si_appId inp) (si_preferredOperator inp) of
        None \<Rightarrow> (Inl (serviceUnavailable ''no_receiver'' ''no healthy receiver available''), w)
      | Some receiver \<Rightarrow>
        let vs = verifications d @ [new_verification cfg inp vid now dbnow code receiver] in
        if pending_uniq vs then (Inr (receiver, code), w\<lparr>w_db := d\<lparr>verifications := vs\<rparr>\<rparr>)
        else (Inl (UniqueViolation ''verifications_pending_uniq''), w))"

definition isPendingCodeCollision :: "exn \<Rightarrow> bool" where
  "isPendingCodeCollision e \<longleftrightarrow>
     (case e of UniqueViolation n \<Rightarrow> n = ''verifications_pending_uniq'' | _ \<Rightarrow> False)"

definition MAX_CODE_COLLISION_RETRIES :: nat where
  "MAX_CODE_COLLISION_RETRIES = 3"

text \<open>The loop with \<open>n\<close> rounds left; \<open>rnd i\<close> is the random source of round \<open>i\<close>.\<close>

fun collision_loop ::
  "config \<Rightarrow> (nat \<Rightarrow> nat \<Rightarrow> nat) \<Rightarrow> (string \<Rightarrow> world \<Rightarrow> (exn + 'a) \<times> world) \<Rightarrow> nat \<Rightarrow> nat \<Rightarrow> world
     \<Rightarrow> (exn + 'a) \<times> world" where
  "collision_loop cfg rnd attempt i 0 w =
     (Inl (serviceUnavailable ''code_generation_collision''
        ''could not allocate a unique verification code after multiple attempts; retry the request''),
      metric (VerificationCodeCollision C_exhausted) w)"
| "collision_loop cfg rnd attempt i (Suc n) w =
     (case generateCode (rnd i) (VERIFICATION_CODE_LENGTH cfg) of
        Inl e \<Rightarrow> (Inl e, w)
      | Inr code \<Rightarrow>
        (case attempt code w of
           (Inr a, w1) \<Rightarrow> (Inr a, w1)
         | (Inl err, w1) \<Rightarrow>
           if \<not> isPendingCodeCollision err then (Inl err, w1)
           else collision_loop cfg rnd attempt (Suc i) n
                  (metric (VerificationCodeCollision C_retried) w1)))"

definition runWithCodeCollisionRetry ::
  "config \<Rightarrow> (nat \<Rightarrow> nat \<Rightarrow> nat) \<Rightarrow> (string \<Rightarrow> world \<Rightarrow> (exn + 'a) \<times> world) \<Rightarrow> world
     \<Rightarrow> (exn + 'a) \<times> world" where
  "runWithCodeCollisionRetry cfg rnd attempt w =
     collision_loop cfg rnd attempt 0 MAX_CODE_COLLISION_RETRIES w"

definition startVerification ::
  "config \<Rightarrow> (nat \<Rightarrow> nat \<Rightarrow> nat) \<Rightarrow> string \<Rightarrow> int \<Rightarrow> int \<Rightarrow> start_input \<Rightarrow> world
     \<Rightarrow> (exn + public_verification) \<times> world" where
  "startVerification cfg rnd u now dbnow inp w =
     (if \<not> is_bound (w_db w) (si_appId inp) (si_phoneE164 inp) then (Inl phoneNotBound, w)
      else
        let vid = newId ''vrf'' u in
        case runWithCodeCollisionRetry cfg rnd (start_tx cfg inp vid now dbnow) w of
          (Inl e, w1) \<Rightarrow> (Inl e, w1)
        | (Inr (receiver, code), w1) \<Rightarrow>
          (Inr \<lparr>pv_id = vid, pv_status = Pending, pv_phone_masked = maskPhone (si_phoneE164 inp),
                pv_send_to = Some (pk_msisdn receiver), pv_message = Some (''VERIFY'' @ '' '' @ code),
                pv_client_ref = si_clientRef inp, pv_purpose = si_purpose inp, pv_verified_at = None,
                pv_expires_at = now + VERIFICATION_TTL_SECONDS cfg * 1000, pv_created_at = now,
                pv_attempts = 0\<rparr>,
           metric (ReceiverSelected (pk_match receiver)) w1))"

section \<open>Expiry, reads and cancellation\<close>

definition set_verifications :: "verification_row list \<Rightarrow> world \<Rightarrow> world" where
  "set_verifications vs w = w\<lparr>w_db := (w_db w)\<lparr>verifications := vs\<rparr>\<rparr>"

lemma set_verifications_simps [simp]:
  "verifications (w_db (set_verifications vs w)) = vs"
  "apps (w_db (set_verifications vs w)) = apps (w_db w)"
  "apiKeys (w_db (set_verifications vs w)) = apiKeys (w_db w)"
  "receivers (w_db (set_verifications vs w)) = receivers (w_db w)"
  "inboundSms (w_db (set_verifications vs w)) = inboundSms (w_db w)"
  "phoneBindings (w_db (set_verifications vs w)) = phoneBindings (w_db w)"
  "webhookEndpoints (w_db (set_verifications vs w)) = webhookEndpoints (w_db w)"
  "webhookEvents (w_db (set_verifications vs w)) = webhookEvents (w_db w)"
  "webhookDeliveries (w_db (set_verifications vs w)) = webhookDeliveries (w_db w)"
  "w_redis (set_verifications vs w) = w_redis w"
  "w_metrics (set_verifications vs w) = w_metrics w"
  by (simp_all add: set_verifications_def)

text \<open>Fresh identifiers of an emission: the event's ULID and those of the deliveries.\<close>

type_synonym event_ids = "string \<times> (nat \<Rightarrow> string)"

definition emit_for :: "event_type \<Rightarrow> event_ids \<Rightarrow> int \<Rightarrow> verification_row \<Rightarrow> world \<Rightarrow> world" where
  "emit_for t ids now row w =
     emitVerificationEventInTx t (vr_appId row) (buildVerificationEventData row t) (fst ids) (snd ids) now w"

definition expire_set :: "verification_row \<Rightarrow> verification_row" where
  "expire_set v = v\<lparr>vr_status := Expired\<rparr>"

definition cancel_set :: "int \<Rightarrow> verification_row \<Rightarrow> verification_row" where
  "cancel_set now v = v\<lparr>vr_status := Cancelled, vr_cancelledAt := Some now\<rparr>"

definition lazyExpireAndEmit :: "bool \<Rightarrow> event_ids \<Rightarrow> int \<Rightarrow> string \<Rightarrow> world \<Rightarrow> world" where
  "lazyExpireAndEmit ok ids now vid w =
     (if \<not> ok then w
      else
        let P = (\<lambda>v. vr_id v = vid \<and> vr_status v = Pending);
            vs = verifications (w_db w)
        in case returning P expire_set vs of
             [] \<Rightarrow> w
           | row # _ \<Rightarrow> emit_for EvExpired ids now row (set_verifications (update_where P expire_set vs) w))"

definition past_ttl :: "int \<Rightarrow> verification_row \<Rightarrow> bool" where
  "past_ttl now v \<longleftrightarrow> vr_status v = Pending \<and> vr_expiresAt v \<le> now"

definition effective_status :: "int \<Rightarrow> verification_row \<Rightarrow> verification_status" where
  "effective_status now v = (if past_ttl now v then Expired else vr_status v)"

definition after_read :: "bool \<Rightarrow> event_ids \<Rightarrow> int \<Rightarrow> verification_row \<Rightarrow> world \<Rightarrow> world" where
  "after_read ok ids now v w = (if past_ttl now v then lazyExpireAndEmit ok ids now (vr_id v) w else w)"

text \<open>The key kind is an argument of the source with no effect on the view.\<close>

definition getVerification ::
  "bool \<Rightarrow> event_ids \<Rightarrow> int \<Rightarrow> string \<Rightarrow> string \<Rightarrow> world \<Rightarrow> (exn + public_verification) \<times> world" where
  "getVerification ok ids now appId vid w =
     (case select_one (\<lambda>v. vr_id v = vid \<and> vr_appId v = appId) (verifications (w_db w)) of
        None \<Rightarrow> (Inl (notFound ''verification''), w)
      | Some row \<Rightarrow>
        (Inr \<lparr>pv_id = vr_id row, pv_status = effective_status now row,
              pv_phone_masked = maskPhone (vr_phoneE164 row), pv_send_to = None, pv_message = None,
              pv_client_ref = vr_clientRef row, pv_purpose = vr_purpose row,
              pv_verified_at = vr_verifiedAt row, pv_expires_at = vr_expiresAt row,
              pv_created_at = vr_createdAt row, pv_attempts = vr_attempts row\<rparr>,
         after_read ok ids now row w))"

definition cancel_tx :: "event_ids \<Rightarrow> int \<Rightarrow> string \<Rightarrow> string \<Rightarrow> world \<Rightarrow> (exn + unit) \<times> world" where
  "cancel_tx ids now appId vid w =
     (let P = (\<lambda>v. vr_id v = vid \<and> vr_appId v = appId \<and> vr_status v = Pending);
          f = cancel_set now;
          vs = verifications (w_db w)
      in case returning P f vs of
           [] \<Rightarrow>
             (case select_one (\<lambda>v. vr_id v = vid \<and> vr_appId v = appId) vs of
                None \<Rightarrow> (Inl (notFound ''verification''), w)
              | Some _ \<Rightarrow> (Inl (conflict ''not_pending'' ''verification is not pending''), w))
         | row # _ \<Rightarrow> (Inr (), emit_for EvCancelled ids now row (set_verifications (update_where P f vs) w)))"

text \<open>The second pair of identifiers is that of the read which follows.\<close>

definition cancelVerification ::
  "bool \<Rightarrow> event_ids \<Rightarrow> event_ids \<Rightarrow> int \<Rightarrow> string \<Rightarrow> string \<Rightarrow> world \<Rightarrow> (exn + public_verification) \<times> world" where
  "cancelVerification ok ids ids2 now appId vid w =
     (case cancel_tx ids now appId vid w of
        (Inl e, w1) \<Rightarrow> (Inl e, w1)
      | (Inr _, w1) \<Rightarrow> getVerification ok ids2 now appId vid w1)"

definition is_purpose_char :: "char \<Rightarrow> bool" where
  "is_purpose_char c \<longleftrightarrow> is_alnum c \<or> c \<in> set ''_-:.''"

definition validatePurpose :: "string \<Rightarrow> exn + unit" where
  "validatePurpose p =
     (if \<not> all_in_between is_purpose_char 2 64 p
      then Inl (badRequest ''invalid_purpose'' ''purpose must be 2-64 chars matching [a-zA-Z0-9_-:.]'')
      else Inr ())"

section \<open>The hosted page\<close>

record hosted_verification =
  hv_id :: string
  hv_status :: verification_status
  hv_phone_masked :: string
  hv_expires_at :: int
  hv_created_at :: int
  hv_verified_at :: "int option"
  hv_send_to :: "string option"
  hv_message :: "string option"

record hosted_status =
  hs_status :: verification_status
  hs_expires_at :: int
  hs_verified_at :: "int option"

definition getHostedVerification ::
  "bool \<Rightarrow> event_ids \<Rightarrow> int \<Rightarrow> string \<Rightarrow> world \<Rightarrow> hosted_verification option \<times> world" where
  "getHostedVerification ok ids now vid w =
     (case select_one (\<lambda>v. vr_id v = vid) (verifications (w_db w)) of
        None \<Rightarrow> (None, w)
      | Some row \<Rightarrow>
        let joined = map_option rc_msisdn
              (select_one (\<lambda>r. rc_id r = vr_receiverId row) (receivers (w_db w)));
            effectiveMsisdn = (case vr_receiverMsisdnSnapshot row of Some m \<Rightarrow> Some m | None \<Rightarrow> joined);
            status = effective_status now row;
            isPending = (status = Pending)
        in (Some \<lparr>hv_id = vr_id row, hv_status = status, hv_phone_masked = maskPhone (vr_phoneE164 row),
                  hv_expires_at = vr_expiresAt row, hv_created_at = vr_createdAt row,
                  hv_verified_at = vr_verifiedAt row,
                  hv_send_to = (if isPending then effectiveMsisdn else None),
                  hv_message = (if isPending then Some (vr_messagePrefix row @ '' '' @ vr_code row) else None)\<rparr>,
            after_read ok ids now row w))"

definition getHostedVerificationStatus ::
  "bool \<Rightarrow> event_ids \<Rightarrow> int \<Rightarrow> string \<Rightarrow> world \<Rightarrow> hosted_status option \<times> world" where
  "getHostedVerificationStatus ok ids now vid w =
     (case select_one (\<lambda>v. vr_id v = vid) (verifications (w_db w)) of
        None \<Rightarrow> (None, w)
      | Some row \<Rightarrow>
        (Some \<lparr>hs_status = effective_status now row, hs_expires_at = vr_expiresAt row,
               hs_verified_at = vr_verifiedAt row\<rparr>,
         after_read ok ids now row w))"

section \<open>Receiver selection is healthy and least loaded\<close>

lemma runHealthyReceiverQuery_Some:
  assumes "runHealthyReceiverQuery cfg dbnow d appId op = Some r"
  shows "r \<in> set (receivers d) \<and> healthy_receiver cfg dbnow appId op r \<and>
    (\<forall>r' \<in> set (receivers d). healthy_receiver cfg dbnow appId op r' \<longrightarrow>
       pending_count d (rc_id r) \<le> pending_count d (rc_id r'))"
proof -
  let ?xs = "sort_key rc_createdAt (filter (healthy_receiver cfg dbnow appId op) (receivers d))"
  obtain rs where rs: "sort_key (\<lambda>r. pending_count d (rc_id r)) ?xs = r # rs"
    using assms by (auto simp: runHealthyReceiverQuery_def split: list.splits)
  then have s: "set (r # rs) = {x \<in> set (receivers d). healthy_receiver cfg dbnow appId op x}"
    by (metis set_filter set_sort)
  have "sorted (map (\<lambda>r. pending_count d (rc_id r)) (r # rs))"
    by (metis rs sorted_sort_key)
  with s show ?thesis by (auto simp: set_eq_iff)
qed

lemma runHealthyReceiverQuery_None:
  "runHealthyReceiverQuery cfg dbnow d appId op = None \<longleftrightarrow>
     (\<forall>r \<in> set (receivers d). \<not> healthy_receiver cfg dbnow appId op r)"
proof -
  let ?f = "filter (healthy_receiver cfg dbnow appId op) (receivers d)"
  have "sort_key (\<lambda>r. pending_count d (rc_id r)) (sort_key rc_createdAt ?f) = [] \<longleftrightarrow> ?f = []"
    by (metis length_0_conv length_sort)
  then show ?thesis
    by (auto simp: runHealthyReceiverQuery_def filter_empty_conv split: list.splits)
qed

lemma healthy_receiver_any:
  "healthy_receiver cfg dbnow appId op r \<Longrightarrow> healthy_receiver cfg dbnow appId None r"
  by (simp add: healthy_receiver_def truthy_def)

lemma pickReceiver_healthy:
  assumes "pickReceiver cfg dbnow d appId op = Some p"
  shows "\<exists>r \<in> set (receivers d). healthy_receiver cfg dbnow appId None r \<and>
           pk_id p = rc_id r \<and> pk_msisdn p = rc_msisdn r \<and> pk_operator p = rc_operator r"
  using assms
  by (auto simp: pickReceiver_def picked_def split: option.splits if_splits
      dest!: runHealthyReceiverQuery_Some intro: healthy_receiver_any)

text \<open>
  Receiver selection. A receiver is found exactly when the application has an enabled receiver with
  a fresh heartbeat; the one chosen is such a receiver with the fewest pending verifications among
  those eligible; a preferred operator is honoured whenever it has one, else any is used and the
  choice is reported as a fallback.
\<close>

theorem pickReceiver_spec:
  "case pickReceiver cfg dbnow d appId op of
     None \<Rightarrow> \<forall>r \<in> set (receivers d). \<not> healthy_receiver cfg dbnow appId None r
   | Some p \<Rightarrow>
      \<exists>r \<in> set (receivers d). healthy_receiver cfg dbnow appId None r \<and>
        pk_id p = rc_id r \<and> pk_msisdn p = rc_msisdn r \<and> pk_operator p = rc_operator r \<and>
        (let eligible = (\<lambda>x. healthy_receiver cfg dbnow appId (if pk_match p = M_preferred then op else None) x) in
         eligible r \<and> (\<forall>x \<in> set (receivers d). eligible x \<longrightarrow> pending_count d (rc_id r) \<le> pending_count d (rc_id x))) \<and>
        (pk_match p = M_preferred \<longleftrightarrow>
           truthy op \<and> (\<exists>x \<in> set (receivers d). healthy_receiver cfg dbnow appId op x)) \<and>
        (pk_match p = M_none \<longleftrightarrow> \<not> truthy op)"
proof (cases "truthy op \<and> (\<exists>x \<in> set (receivers d). healthy_receiver cfg dbnow appId op x)")
  case True
  then obtain r where r: "runHealthyReceiverQuery cfg dbnow d appId op = Some r"
    by (metis runHealthyReceiverQuery_None not_None_eq)
  then have "pickReceiver cfg dbnow d appId op = Some (picked M_preferred r)"
    using True by (simp add: pickReceiver_def)
  with True runHealthyReceiverQuery_Some [OF r] show ?thesis
    by (auto simp: picked_def Let_def intro!: bexI [of _ r] healthy_receiver_any)
next
  case False
  then have n: "(if truthy op then runHealthyReceiverQuery cfg dbnow d appId op else None) = None"
    by (auto simp: runHealthyReceiverQuery_None)
  show ?thesis
  proof (cases "runHealthyReceiverQuery cfg dbnow d appId None")
    case None
    then have "pickReceiver cfg dbnow d appId op = None"
      using n by (simp only: pickReceiver_def option.case)
    then show ?thesis using None by (simp add: runHealthyReceiverQuery_None)
  next
    case (Some r)
    then have "pickReceiver cfg dbnow d appId op = Some (picked (if truthy op then M_fallback else M_none) r)"
      using n by (simp add: pickReceiver_def)
    with False runHealthyReceiverQuery_Some [OF Some] show ?thesis
      by (auto simp: picked_def Let_def intro!: bexI [of _ r])
  qed
qed

section \<open>Starting: outcome, cap and uniqueness\<close>

definition collides :: "db \<Rightarrow> string \<Rightarrow> string \<Rightarrow> string \<Rightarrow> bool" where
  "collides d rid phone code \<longleftrightarrow>
     (\<exists>v \<in> set (verifications d). vr_status v = Pending \<and> pending_key v = (rid, phone, code))"

lemma pending_uniq_new:
  assumes "pending_uniq (verifications d)"
  shows "pending_uniq (verifications d @ [new_verification cfg inp vid now dbnow code r]) \<longleftrightarrow>
           \<not> collides d (pk_id r) (si_phoneE164 inp) code"
  using assms
  by (auto simp: pending_uniq_def unique_on_snoc collides_def pending_key_def new_verification_def)

text \<open>The four outcomes of one attempt.\<close>

lemma start_tx_cases:
  assumes "pending_uniq (verifications (w_db w))"
  shows "start_tx cfg inp vid now dbnow code w =
    (if phone_pending (w_db w) (si_appId inp) (si_phoneE164 inp) \<ge> MAX_PENDING_PER_PHONE cfg then
       (Inl (conflict ''too_many_pending'' ''too many pending verifications for this phone''), w)
     else case pickReceiver cfg dbnow (w_db w) (si_appId inp) (si_preferredOperator inp) of
       None \<Rightarrow> (Inl (serviceUnavailable ''no_receiver'' ''no healthy receiver available''), w)
     | Some r \<Rightarrow>
       if collides (w_db w) (pk_id r) (si_phoneE164 inp) code
       then (Inl (UniqueViolation ''verifications_pending_uniq''), w)
       else (Inr (r, code), set_verifications
              (verifications (w_db w) @ [new_verification cfg inp vid now dbnow code r]) w))"
  using pending_uniq_new [OF assms] by (auto simp: start_tx_def Let_def set_verifications_def split: option.splits)

lemma start_tx_Inl: "start_tx cfg inp vid now dbnow code w = (Inl e, w') \<Longrightarrow> w' = w"
  by (auto simp: start_tx_def Let_def split: if_splits option.splits)

lemma start_tx_Inr:
  assumes "start_tx cfg inp vid now dbnow code w = (Inr x, w')"
  shows "\<exists>r. x = (r, code) \<and> pickReceiver cfg dbnow (w_db w) (si_appId inp) (si_preferredOperator inp) = Some r \<and>
     phone_pending (w_db w) (si_appId inp) (si_phoneE164 inp) < MAX_PENDING_PER_PHONE cfg \<and>
     w' = set_verifications (verifications (w_db w) @ [new_verification cfg inp vid now dbnow code r]) w \<and>
     pending_uniq (verifications (w_db w'))"
  using assms by (auto simp: start_tx_def Let_def set_verifications_def split: if_splits option.splits)

lemma collision_codes [simp]:
  "isPendingCodeCollision (UniqueViolation ''verifications_pending_uniq'')"
  "\<not> isPendingCodeCollision (conflict c m)"
  "\<not> isPendingCodeCollision (serviceUnavailable c m)"
  by (simp_all add: isPendingCodeCollision_def error_defs)

definition code_of :: "config \<Rightarrow> (nat \<Rightarrow> nat \<Rightarrow> nat) \<Rightarrow> nat \<Rightarrow> string" where
  "code_of cfg rnd j = draw CODE_ALPHABET (rnd j) (VERIFICATION_CODE_LENGTH cfg)"

definition code_length_ok :: "config \<Rightarrow> bool" where
  "code_length_ok cfg \<longleftrightarrow> 4 \<le> VERIFICATION_CODE_LENGTH cfg \<and> VERIFICATION_CODE_LENGTH cfg \<le> 32"

lemma generateCode_code_of:
  "code_length_ok cfg \<Longrightarrow> generateCode (rnd j) (VERIFICATION_CODE_LENGTH cfg) = Inr (code_of cfg rnd j)"
  by (simp add: generateCode_def code_of_def code_length_ok_def)

lemma start_tx_metric:
  "start_tx cfg inp vid now dbnow code (metric m w)
     = (fst (start_tx cfg inp vid now dbnow code w), metric m (snd (start_tx cfg inp vid now dbnow code w)))"
  by (simp add: start_tx_def Let_def metric_def split: option.splits)

definition retried :: "nat \<Rightarrow> world \<Rightarrow> world" where
  "retried n w = w\<lparr>w_metrics := w_metrics w @ replicate n (VerificationCodeCollision C_retried)\<rparr>"

lemma retried_simps [simp]:
  "w_db (retried n w) = w_db w" "w_redis (retried n w) = w_redis w" "retried 0 w = w"
  "w_metrics (retried n w) = w_metrics w @ replicate n (VerificationCodeCollision C_retried)"
  by (simp_all add: retried_def)

lemma retried_Suc: "retried n (metric (VerificationCodeCollision C_retried) w) = retried (Suc n) w"
  by (simp add: retried_def metric_def replicate_append_same [symmetric])

text \<open>With room and a receiver, the loop takes the first code that collides with no pending row.\<close>

lemma collision_loop_outcome:
  assumes "pending_uniq (verifications (w_db w))" and "code_length_ok cfg"
    and "phone_pending (w_db w) (si_appId inp) (si_phoneE164 inp) < MAX_PENDING_PER_PHONE cfg"
    and "pickReceiver cfg dbnow (w_db w) (si_appId inp) (si_preferredOperator inp) = Some r"
  shows "collision_loop cfg rnd (start_tx cfg inp vid now dbnow) i n w =
    (case find (\<lambda>j. \<not> collides (w_db w) (pk_id r) (si_phoneE164 inp) (code_of cfg rnd j)) [i..<i + n] of
       None \<Rightarrow> (Inl (serviceUnavailable ''code_generation_collision''
           ''could not allocate a unique verification code after multiple attempts; retry the request''),
           metric (VerificationCodeCollision C_exhausted) (retried n w))
     | Some j \<Rightarrow> (Inr (r, code_of cfg rnd j), set_verifications (verifications (w_db w) @
           [new_verification cfg inp vid now dbnow (code_of cfg rnd j) r]) (retried (j - i) w)))"
  using assms
proof (induction n arbitrary: i w)
  case 0
  then show ?case by simp
next
  case (Suc n)
  let ?c = "\<lambda>j. collides (w_db w) (pk_id r) (si_phoneE164 inp) (code_of cfg rnd j)"
  have g: "generateCode (rnd i) (VERIFICATION_CODE_LENGTH cfg) = Inr (code_of cfg rnd i)"
    using Suc.prems(2) by (rule generateCode_code_of)
  have up: "[i..<i + Suc n] = i # [Suc i..<Suc i + n]" by (simp add: upt_conv_Cons)
  show ?case
  proof (cases "?c i")
    case False
    then show ?thesis using Suc.prems g unfolding up by (simp add: start_tx_cases)
  next
    case True
    let ?w = "metric (VerificationCodeCollision C_retried) w"
    have "collision_loop cfg rnd (start_tx cfg inp vid now dbnow) i (Suc n) w
        = collision_loop cfg rnd (start_tx cfg inp vid now dbnow) (Suc i) n ?w"
      using Suc.prems g True by (simp add: start_tx_cases)
    also have "\<dots> = (case find (\<lambda>j. \<not> ?c j) [Suc i..<Suc i + n] of
       None \<Rightarrow> (Inl (serviceUnavailable ''code_generation_collision''
           ''could not allocate a unique verification code after multiple attempts; retry the request''),
           metric (VerificationCodeCollision C_exhausted) (retried n ?w))
     | Some j \<Rightarrow> (Inr (r, code_of cfg rnd j), set_verifications (verifications (w_db w) @
           [new_verification cfg inp vid now dbnow (code_of cfg rnd j) r]) (retried (j - Suc i) ?w)))"
      by (rule Suc.IH [of ?w "Suc i", unfolded metric_simps, OF Suc.prems])
    also have "\<dots> = (case find (\<lambda>j. \<not> ?c j) [i..<i + Suc n] of
       None \<Rightarrow> (Inl (serviceUnavailable ''code_generation_collision''
           ''could not allocate a unique verification code after multiple attempts; retry the request''),
           metric (VerificationCodeCollision C_exhausted) (retried (Suc n) w))
     | Some j \<Rightarrow> (Inr (r, code_of cfg rnd j), set_verifications (verifications (w_db w) @
           [new_verification cfg inp vid now dbnow (code_of cfg rnd j) r]) (retried (j - i) w)))"
    proof (cases "find (\<lambda>j. \<not> ?c j) [Suc i..<Suc i + n]")
      case None
      then show ?thesis unfolding up using True by (simp add: retried_Suc)
    next
      case (Some j)
      then have "j \<in> set [Suc i..<Suc i + n]" by (metis find_Some_iff nth_mem)
      then have "Suc i \<le> j" by auto
      then have "Suc (j - Suc i) = j - i" by linarith
      then have "retried (j - Suc i) ?w = retried (j - i) w" by (simp add: retried_Suc)
      then show ?thesis unfolding up using True Some by (simp del: upt_Suc)
    qed
    finally show ?thesis .
  qed
qed

lemma set_verifications_retried:
  "set_verifications vs (retried n w) = retried n (set_verifications vs w)"
  by (simp add: set_verifications_def retried_def)

text \<open>
  C23: the outcome of starting a verification. For a phone with a verified binding, room under the cap and a
  receiver, the call succeeds exactly when one of the first three generated codes differs from the
  code of every pending verification of that phone on that receiver; it then stores one pending row
  with the first such code and tells the user to send it to the chosen receiver. Otherwise it
  answers 503 and stores nothing.
\<close>

theorem startVerification_outcome:
  assumes "pending_uniq (verifications (w_db w))" and "code_length_ok cfg"
    and "is_bound (w_db w) (si_appId inp) (si_phoneE164 inp)"
    and "phone_pending (w_db w) (si_appId inp) (si_phoneE164 inp) < MAX_PENDING_PER_PHONE cfg"
    and "pickReceiver cfg dbnow (w_db w) (si_appId inp) (si_preferredOperator inp) = Some r"
  shows "case find (\<lambda>j. \<not> collides (w_db w) (pk_id r) (si_phoneE164 inp) (code_of cfg rnd j)) [0..<3] of
      Some j \<Rightarrow>
        \<exists>pv w'. startVerification cfg rnd u now dbnow inp w = (Inr pv, w') \<and>
          verifications (w_db w') = verifications (w_db w) @
            [new_verification cfg inp (newId ''vrf'' u) now dbnow (code_of cfg rnd j) r] \<and>
          pv_id pv = newId ''vrf'' u \<and> pv_send_to pv = Some (pk_msisdn r) \<and>
          pv_message pv = Some (''VERIFY '' @ code_of cfg rnd j) \<and> pv_status pv = Pending
    | None \<Rightarrow>
        \<exists>w'. startVerification cfg rnd u now dbnow inp w =
          (Inl (serviceUnavailable ''code_generation_collision''
             ''could not allocate a unique verification code after multiple attempts; retry the request''), w') \<and>
          w_db w' = w_db w"
proof (cases "find (\<lambda>j. \<not> collides (w_db w) (pk_id r) (si_phoneE164 inp) (code_of cfg rnd j)) [0..<3]")
  case None
  then have "runWithCodeCollisionRetry cfg rnd (start_tx cfg inp (newId ''vrf'' u) now dbnow) w =
     (Inl (serviceUnavailable ''code_generation_collision''
        ''could not allocate a unique verification code after multiple attempts; retry the request''),
      metric (VerificationCodeCollision C_exhausted) (retried 3 w))"
    unfolding runWithCodeCollisionRetry_def MAX_CODE_COLLISION_RETRIES_def
    using collision_loop_outcome [OF assms(1,2,4,5), of rnd "newId ''vrf'' u" now 0 3] by simp
  with None assms(3) show ?thesis by (simp add: startVerification_def)
next
  case (Some j)
  then have "runWithCodeCollisionRetry cfg rnd (start_tx cfg inp (newId ''vrf'' u) now dbnow) w =
     (Inr (r, code_of cfg rnd j), set_verifications (verifications (w_db w) @
        [new_verification cfg inp (newId ''vrf'' u) now dbnow (code_of cfg rnd j) r]) (retried j w))"
    unfolding runWithCodeCollisionRetry_def MAX_CODE_COLLISION_RETRIES_def
    using collision_loop_outcome [OF assms(1,2,4,5), of rnd "newId ''vrf'' u" now 0 3] by simp
  with Some assms(3) show ?thesis by (simp add: startVerification_def Let_def)
qed

definition start_demo_receiver :: receiver_row where
  "start_demo_receiver = \<lparr>rc_id = ''rcv_1'', rc_appId = ''app_1'', rc_name = ''r'', rc_operator = None,
     rc_msisdn = ''+963900000000'', rc_secretHash = [], rc_enabled = True, rc_lastHeartbeatAt = Some 0,
     rc_createdAt = 0\<rparr>"

definition start_demo_world :: world where
  "start_demo_world = empty_world\<lparr>w_db := empty_db\<lparr>receivers := [start_demo_receiver],
     verifications := [demo_verification\<lparr>vr_code := ''AAAAAA''\<rparr>],
     phoneBindings := [\<lparr>pb_id = ''pbn_1'', pb_appId = ''app_1'', pb_receiverId = ''rcv_1'',
       pb_phoneE164 = ''+963991234567'', pb_status = BVerified, pb_nonce = ''N'', pb_expiresAt = 300000,
       pb_boundAt = Some 5, pb_revokedAt = None, pb_createdAt = 0\<rparr>]\<rparr>\<rparr>"

definition start_demo_input :: start_input where
  "start_demo_input = \<lparr>si_appId = ''app_1'', si_phoneE164 = ''+963991234567'', si_purpose = ''login'',
     si_clientRef = None, si_locale = None, si_ip = None, si_preferredOperator = None\<rparr>"

lemma start_demo_pick:
  "pickReceiver default_config 1000 (w_db start_demo_world) ''app_1'' None = Some (picked M_none start_demo_receiver)"
  by (simp add: pickReceiver_def truthy_def runHealthyReceiverQuery_def start_demo_world_def healthy_receiver_def
      start_demo_receiver_def default_config_def)

text \<open>The first code collides with a pending row, the second is taken.\<close>

theorem startVerification_outcome_witness:
  "\<exists>pv w'. startVerification default_config (\<lambda>i _. i) ''2'' 1000 1000 start_demo_input start_demo_world = (Inr pv, w') \<and>
     pv_message pv = Some ''VERIFY BBBBBB''"
proof -
  have codes: "code_of default_config (\<lambda>i _. i) 0 = ''AAAAAA''" "code_of default_config (\<lambda>i _. i) 1 = ''BBBBBB''"
    by code_simp+
  have col: "collides (w_db start_demo_world) ''rcv_1'' ''+963991234567'' c \<longleftrightarrow> c = ''AAAAAA''" for c
    by (auto simp: collides_def start_demo_world_def demo_verification_def pending_key_def)
  have "find (\<lambda>j. \<not> collides (w_db start_demo_world) ''rcv_1'' ''+963991234567''
      (code_of default_config (\<lambda>i _. i) j)) [0..<3] = Some 1"
    by (simp add: upt_rec col codes [unfolded One_nat_def])
  moreover have "pending_uniq (verifications (w_db start_demo_world))" "code_length_ok default_config"
    "is_bound (w_db start_demo_world) ''app_1'' ''+963991234567''"
    "phone_pending (w_db start_demo_world) ''app_1'' ''+963991234567'' < MAX_PENDING_PER_PHONE default_config"
    by (simp_all add: pending_uniq_def unique_on_def start_demo_world_def code_length_ok_def default_config_def
        is_bound_def phone_pending_def demo_verification_def)
  ultimately show ?thesis
    using startVerification_outcome [of start_demo_world default_config start_demo_input 1000
        "picked M_none start_demo_receiver" "\<lambda>i _. i" "''2''" 1000] codes
    by (auto simp: start_demo_input_def start_demo_pick picked_def start_demo_receiver_def)
qed

theorem pickReceiver_spec_witness:
  "\<exists>r \<in> set (receivers (w_db start_demo_world)). healthy_receiver default_config 1000 ''app_1'' None r \<and>
     rc_id r = ''rcv_1''"
proof -
  obtain r where r: "r \<in> set (receivers (w_db start_demo_world))" "healthy_receiver default_config 1000 ''app_1'' None r"
      "pk_id (picked M_none start_demo_receiver) = rc_id r"
    using pickReceiver_spec [where cfg = default_config and dbnow = 1000 and d = "w_db start_demo_world"
        and appId = "''app_1''" and op = None, unfolded start_demo_pick option.case]
    by blast
  have "rc_id r = ''rcv_1''" using r(3) by (simp add: picked_def start_demo_receiver_def)
  with r show ?thesis by blast
qed

end
