(* ===== verification/SmsCommands.thy ===== *)
theory SmsCommands
  imports Crypto
begin

text \<open>
  The two SMS commands of the protocol, \<open>VERIFY <code>\<close> (\<open>extractCode\<close> of
  \<open>services/matching.ts\<close>) and \<open>BIND <nonce>\<close> (\<open>extractBindNonce\<close> of
  \<open>services/phoneBindings.ts\<close>), and the nonce generator. The locale \<open>sms_command\<close> states what
  the matcher relies on: what the server tells the user to send is read back as the token it
  generated, whatever the case and the white space of the message.
\<close>

definition extractCode :: "string \<Rightarrow> string \<Rightarrow> string option" where
  "extractCode prefix body =
     (let upper = js_upper (js_trim body) in
      if \<not> starts_with upper (js_upper prefix) then None
      else
        let tail = remove_ws (drop (length prefix) upper) in
        if length tail < 4 \<or> length tail > 32 then None
        else if \<not> all_in is_upper_alnum tail then None
        else Some tail)"

definition extractBindNonce :: "string \<Rightarrow> string option" where
  "extractBindNonce body =
     (let upper = js_upper (js_trim body) in
      if \<not> starts_with upper ''BIND'' then None
      else
        let tail = remove_ws (drop (length ''BIND'') upper) in
        if length tail < 8 \<or> length tail > 64 then None
        else if \<not> all_in is_upper_alnum tail then None
        else Some tail)"

definition BIND_ALPHABET :: string where
  "BIND_ALPHABET = ''ABCDEFGHJKLMNPQRSTUVWXYZ23456789''"

definition generateNonce :: "string \<Rightarrow> string" where
  "generateNonce randomBytes =
     draw BIND_ALPHABET (\<lambda>i. code_unit (randomBytes ! i) mod length BIND_ALPHABET) 24"

section \<open>The contract of an SMS command\<close>

locale sms_command =
  fixes cmd :: string and lo hi :: nat and reads :: "string \<Rightarrow> string option"
  assumes prefix_upper: "cmd \<noteq> [] \<and> list_all is_upper cmd"
    and lo_pos: "0 < lo"
    and reads_def: "reads body =
      (let t = remove_ws (drop (length cmd) (js_upper (js_trim body))) in
       if starts_with (js_upper (js_trim body)) cmd \<and> lo \<le> length t \<and> length t \<le> hi \<and> list_all is_upper_alnum t
       then Some t else None)"
begin

text \<open>A token of the right shape.\<close>

definition token :: "string \<Rightarrow> bool" where
  "token t \<longleftrightarrow> lo \<le> length t \<and> length t \<le> hi \<and> list_all is_upper_alnum t"

lemma reads_token: "reads body = Some t \<Longrightarrow> token t"
  by (auto simp: reads_def token_def Let_def split: if_splits)

lemma reads_prefix: "reads body = Some t \<Longrightarrow> starts_with (js_upper (js_trim body)) cmd"
  by (auto simp: reads_def Let_def split: if_splits)

text \<open>Surrounding white space, white space inside and lower case do not matter.\<close>

lemma roundtrip_noise:
  assumes t: "token t" and m: "js_upper m = cmd @ s" and s: "remove_ws s = t"
    and l: "list_all is_ws l" and r: "list_all is_ws r"
  shows "reads (l @ m @ r) = Some t"
proof -
  have up: "js_upper (js_trim (l @ m @ r)) = js_trim (js_upper l @ cmd @ s @ js_upper r)"
    using m by (simp add: js_trim_upper [symmetric])
  have wl: "js_upper l = l" and wr: "js_upper r = r"
    using l r by (auto intro!: js_upper_id simp: list_all_iff)
  have np: "\<not> is_ws (hd cmd)"
    using prefix_upper by (cases cmd) auto
  have dl: "dropWhile is_ws (l @ x) = dropWhile is_ws x" for x
    using l by (induction l) auto
  have st: "dropWhile is_ws (cmd @ s @ r) = cmd @ s @ r"
    by (rule dropWhile_id) (use np prefix_upper in auto)
  have tr: "js_trim (l @ cmd @ s @ r) = js_trim (cmd @ s @ r)"
    by (simp add: js_trim_def dl)
  have nws: "list_all (\<lambda>c. \<not> is_ws c) cmd"
    using prefix_upper by (auto simp: list_all_iff)
  obtain z where z: "js_trim (cmd @ s @ r) = cmd @ z" and rz: "remove_ws z = t"
  proof -
    have "js_trim (cmd @ s @ r) = rev (dropWhile is_ws (rev (s @ r) @ rev cmd))"
      unfolding js_trim_def st by simp
    also have "\<dots> = cmd @ rev (dropWhile is_ws (rev (s @ r)))"
    proof (cases "\<exists>c \<in> set (rev (s @ r)). \<not> is_ws c")
      case True
      then have "dropWhile is_ws (rev (s @ r) @ rev cmd) = dropWhile is_ws (rev (s @ r)) @ rev cmd"
        by (metis dropWhile_append1)
      then show ?thesis by (metis rev_append rev_rev_ident)
    next
      case False
      then have "dropWhile is_ws (rev (s @ r)) = []" by (auto simp: dropWhile_eq_Nil_conv)
      moreover have "dropWhile is_ws (rev (s @ r) @ rev cmd) = dropWhile is_ws (rev cmd)"
        using False by (intro dropWhile_append2) auto
      moreover have "dropWhile is_ws (rev cmd) = rev cmd"
        by (rule dropWhile_id) (use nws in \<open>auto simp: list_all_iff hd_rev\<close>)
      ultimately show ?thesis by simp
    qed
    finally have e: "js_trim (cmd @ s @ r) = cmd @ rev (dropWhile is_ws (rev (s @ r)))" .
    have "remove_ws (cmd @ rev (dropWhile is_ws (rev (s @ r)))) = remove_ws (cmd @ s @ r)"
      using remove_ws_trim [of "cmd @ s @ r"] e by simp
    moreover have "remove_ws r = []"
      using r by (auto simp: remove_ws_def list_all_iff filter_empty_conv)
    ultimately have "remove_ws (rev (dropWhile is_ws (rev (s @ r)))) = t" using s by simp
    with e show ?thesis by (rule that)
  qed
  have "js_upper (js_trim (l @ m @ r)) = cmd @ z"
    using up wl wr tr z by simp
  then show ?thesis using t rz by (simp add: reads_def token_def Let_def)
qed

lemma roundtrip: "token t \<Longrightarrow> reads (cmd @ '' '' @ t) = Some t"
proof -
  assume t: "token t"
  have "js_upper (cmd @ '' '' @ t) = cmd @ '' '' @ t"
    using prefix_upper t
    by (intro js_upper_id) (auto simp: list_all_iff token_def)
  moreover have "remove_ws ('' '' @ t) = t"
    using t by (simp add: token_def remove_ws_def list_all_iff filter_id_conv)
  ultimately show ?thesis
    using roundtrip_noise [of t "cmd @ '' '' @ t" "'' '' @ t" "[]" "[]"] t by simp
qed

end

interpretation verify_cmd: sms_command "''VERIFY''" 4 32 "extractCode ''VERIFY''"
proof
  fix body
  have u: "js_upper ''VERIFY'' = ''VERIFY''"
    by (rule js_upper_id) (simp add: char_class_defs code_unit_def)
  show "extractCode ''VERIFY'' body =
      (let t = remove_ws (drop (length ''VERIFY'') (js_upper (js_trim body))) in
       if starts_with (js_upper (js_trim body)) ''VERIFY'' \<and> 4 \<le> length t \<and> length t \<le> 32 \<and> list_all is_upper_alnum t
       then Some t else None)"
    by (auto simp: extractCode_def u Let_def all_in_def not_less)
qed (simp_all add: char_class_defs code_unit_def)

interpretation bind_cmd: sms_command "''BIND''" 8 64 extractBindNonce
proof
  fix body
  show "extractBindNonce body =
      (let t = remove_ws (drop (length ''BIND'') (js_upper (js_trim body))) in
       if starts_with (js_upper (js_trim body)) ''BIND'' \<and> 8 \<le> length t \<and> length t \<le> 64 \<and> list_all is_upper_alnum t
       then Some t else None)"
    by (auto simp: extractBindNonce_def Let_def all_in_def not_less)
qed (simp_all add: char_class_defs code_unit_def)

lemma BIND_ALPHABET_class: "list_all is_upper_alnum BIND_ALPHABET"
  by (simp add: BIND_ALPHABET_def char_class_defs code_unit_def)

lemma generateNonce_token: "bind_cmd.token (generateNonce rb)"
proof -
  have idx: "\<And>i. i < 24 \<Longrightarrow> code_unit (rb ! i) mod length BIND_ALPHABET < length BIND_ALPHABET"
    by (simp add: BIND_ALPHABET_def)
  show ?thesis
    using length_draw [OF idx] draw_class [OF idx BIND_ALPHABET_class]
    by (simp add: bind_cmd.token_def generateNonce_def)
qed

text \<open>
  C22: what the user is told to send is what the matcher reads. Every code that \<open>generateCode\<close> issues and
  every binding nonce is recovered from its message, in any letter case, with any white space
  around the message and anywhere after the keyword; and no message is both a \<open>VERIFY\<close> and a
  \<open>BIND\<close> command.
\<close>

theorem sms_commands_roundtrip:
  assumes "generateCode rnd len = Inr code" and "\<And>i. rnd i < 31"
    and "js_upper m = ''VERIFY'' @ s" and "remove_ws s = code"
    and "js_upper n = ''BIND'' @ t" and "remove_ws t = generateNonce rb"
    and "list_all is_ws l" and "list_all is_ws r"
  shows "extractCode ''VERIFY'' (l @ m @ r) = Some code \<and>
         extractBindNonce (l @ n @ r) = Some (generateNonce rb) \<and>
         (extractCode ''VERIFY'' body = None \<or> extractBindNonce body = None)"
proof -
  have "4 \<le> len \<and> len \<le> 32" using assms(1) by (auto simp: generateCode_def split: if_splits)
  then have "verify_cmd.token code"
    using generateCode_ok [of rnd len] assms(1,2) by (auto simp: verify_cmd.token_def)
  then have v: "extractCode ''VERIFY'' (l @ m @ r) = Some code"
    using assms by (intro verify_cmd.roundtrip_noise)
  have b: "extractBindNonce (l @ n @ r) = Some (generateNonce rb)"
    using assms by (intro bind_cmd.roundtrip_noise generateNonce_token)
  have "\<not> (starts_with x ''VERIFY'' \<and> starts_with x ''BIND'')" for x
    by (auto simp: starts_with_decomp)
  then have "extractCode ''VERIFY'' body = None \<or> extractBindNonce body = None"
    using verify_cmd.reads_prefix bind_cmd.reads_prefix by fastforce
  with v b show ?thesis by blast
qed

definition zero_bytes :: string where
  "zero_bytes = replicate 24 (CHR 0x00)"

lemma generateNonce_zero: "generateNonce zero_bytes = replicate 24 CHR ''A''"
  by code_simp

theorem sms_commands_roundtrip_witness:
  "extractCode ''VERIFY'' (''  '' @ ''verify a a aa'' @ '' '') = Some ''AAAA'' \<and>
   extractBindNonce (''  '' @ (''bind '' @ replicate 24 CHR ''a'') @ '' '') = Some (generateNonce zero_bytes)"
proof -
  have g: "generateCode (\<lambda>_. 0) 4 = Inr ''AAAA''"
    by (simp add: generateCode_def draw_def char_at_def CODE_ALPHABET_def upt_rec)
  have 1: "js_upper ''verify a a aa'' = ''VERIFY'' @ '' A A AA''"
    "js_upper (''bind '' @ replicate 24 CHR ''a'') = ''BIND'' @ '' '' @ replicate 24 CHR ''A''"
    by code_simp+
  have 2: "remove_ws '' A A AA'' = ''AAAA''" "remove_ws ('' '' @ replicate 24 CHR ''A'') = generateNonce zero_bytes"
    "list_all is_ws ''  ''" "list_all is_ws '' ''"
    by (simp_all add: remove_ws_def is_ws_def code_unit_def generateNonce_zero)
  show ?thesis
    using sms_commands_roundtrip [OF g _ 1(1) 2(1) 1(2) 2(2) 2(3) 2(4)] by simp
qed

end
