(* ===== verification/PhoneBindings.thy ===== *)
theory PhoneBindings
  imports World Phone SmsCommands
begin

text \<open>
  \<open>services/phoneBindings.ts\<close>: the binding ceremony. A binding is created pending with a nonce,
  becomes verified when the phone sends the nonce to the same receiver in time, and is revoked on
  request. The partial unique index \<open>phone_bindings_active_uq\<close> refuses a statement that would
  leave two verified bindings of one (app, phone); the refused statement changes nothing.
\<close>

record phone_binding =
  bv_id :: string
  bv_app_id :: string
  bv_receiver_id :: string
  bv_phone_e164 :: string
  bv_status :: binding_status
  bv_expires_at :: int
  bv_bound_at :: "int option"
  bv_revoked_at :: "int option"
  bv_created_at :: int

record start_binding_input =
  sb_appId :: string
  sb_receiverId :: string
  sb_phone :: string

record start_binding_result =
  sr_binding :: phone_binding
  sr_send_to :: string
  sr_bind_message :: string

definition set_bindings :: "binding_row list \<Rightarrow> world \<Rightarrow> world" where
  "set_bindings bs w = w\<lparr>w_db := (w_db w)\<lparr>phoneBindings := bs\<rparr>\<rparr>"

lemma set_bindings_simps [simp]:
  "phoneBindings (w_db (set_bindings bs w)) = bs"
  "apps (w_db (set_bindings bs w)) = apps (w_db w)"
  "receivers (w_db (set_bindings bs w)) = receivers (w_db w)"
  "verifications (w_db (set_bindings bs w)) = verifications (w_db w)"
  "inboundSms (w_db (set_bindings bs w)) = inboundSms (w_db w)"
  "webhookEndpoints (w_db (set_bindings bs w)) = webhookEndpoints (w_db w)"
  "webhookEvents (w_db (set_bindings bs w)) = webhookEvents (w_db w)"
  "webhookDeliveries (w_db (set_bindings bs w)) = webhookDeliveries (w_db w)"
  "w_redis (set_bindings bs w) = w_redis w" "w_metrics (set_bindings bs w) = w_metrics w"
  by (simp_all add: set_bindings_def)

definition new_binding ::
  "config \<Rightarrow> start_binding_input \<Rightarrow> string \<Rightarrow> string \<Rightarrow> string \<Rightarrow> int \<Rightarrow> int \<Rightarrow> binding_row" where
  "new_binding cfg inp bid phone nonce now dbnow =
     \<lparr>pb_id = bid, pb_appId = sb_appId inp, pb_receiverId = sb_receiverId inp, pb_phoneE164 = phone,
      pb_status = BPending, pb_nonce = nonce,
      pb_expiresAt = now + PHONE_BINDING_TTL_SECONDS cfg * 1000, pb_boundAt = None,
      pb_revokedAt = None, pb_createdAt = dbnow\<rparr>"

definition startBinding ::
  "config \<Rightarrow> phone_parser \<Rightarrow> string \<Rightarrow> string \<Rightarrow> int \<Rightarrow> int \<Rightarrow> start_binding_input \<Rightarrow> world
     \<Rightarrow> (exn + start_binding_result) \<times> world" where
  "startBinding cfg parsePhone u randomBytes now dbnow inp w =
     (case normalizePhone parsePhone (sb_phone inp) (DEFAULT_PHONE_REGION cfg) of
        Inl e \<Rightarrow> (Inl e, w)
      | Inr n \<Rightarrow>
        let phone = np_e164 n in
        case select_one (\<lambda>r. rc_id r = sb_receiverId inp \<and> rc_appId r = sb_appId inp) (receivers (w_db w)) of
          None \<Rightarrow> (Inl (notFound ''receiver''), w)
        | Some r \<Rightarrow>
          if \<not> rc_enabled r then (Inl (conflict ''receiver_disabled'' ''receiver is disabled''), w)
          else if list_ex (\<lambda>b. pb_appId b = sb_appId inp \<and> pb_phoneE164 b = phone \<and> pb_status b = BVerified)
                    (phoneBindings (w_db w))
          then (Inl (conflict ''already_bound''
                 ''phone is already verified-bound; revoke the existing binding first''), w)
          else
            let bid = newId ''pbn'' u;
                nonce = generateNonce randomBytes;
                row = new_binding cfg inp bid phone nonce now dbnow
            in (Inr \<lparr>sr_binding =
                       \<lparr>bv_id = bid, bv_app_id = sb_appId inp, bv_receiver_id = sb_receiverId inp,
                        bv_phone_e164 = phone, bv_status = BPending, bv_expires_at = pb_expiresAt row,
                        bv_bound_at = None, bv_revoked_at = None, bv_created_at = now\<rparr>,
                     sr_send_to = rc_msisdn r, sr_bind_message = ''BIND '' @ nonce\<rparr>,
                set_bindings (phoneBindings (w_db w) @ [row]) w))"

definition rowToPublic :: "binding_row \<Rightarrow> phone_binding" where
  "rowToPublic row =
     \<lparr>bv_id = pb_id row, bv_app_id = pb_appId row, bv_receiver_id = pb_receiverId row,
      bv_phone_e164 = pb_phoneE164 row, bv_status = pb_status row, bv_expires_at = pb_expiresAt row,
      bv_bound_at = pb_boundAt row, bv_revoked_at = pb_revokedAt row, bv_created_at = pb_createdAt row\<rparr>"

definition getBinding :: "string \<Rightarrow> string \<Rightarrow> world \<Rightarrow> exn + phone_binding" where
  "getBinding appId bid w =
     (case select_one (\<lambda>b. pb_id b = bid \<and> pb_appId b = appId) (phoneBindings (w_db w)) of
        None \<Rightarrow> Inl (notFound ''phone_binding'')
      | Some row \<Rightarrow> Inr (rowToPublic row))"

definition revokeBinding ::
  "int \<Rightarrow> string \<Rightarrow> string \<Rightarrow> world \<Rightarrow> (exn + phone_binding) \<times> world" where
  "revokeBinding now appId bid w =
     (let P = (\<lambda>b. pb_id b = bid \<and> pb_appId b = appId);
          f = (\<lambda>b. b\<lparr>pb_status := BRevoked, pb_revokedAt := Some now\<rparr>);
          bs = phoneBindings (w_db w)
      in case returning P f bs of
           [] \<Rightarrow> (Inl (notFound ''phone_binding''), w)
         | row # _ \<Rightarrow> (Inr (rowToPublic row), set_bindings (update_where P f bs) w))"

datatype consume_outcome =
    BindMatched string string
  | BindNoMatch | BindExpired | BindPhoneMismatch | BindAlreadyConsumed

definition bind_matches :: "int \<Rightarrow> string \<Rightarrow> string \<Rightarrow> string \<Rightarrow> binding_row \<Rightarrow> bool" where
  "bind_matches serverNow receiverId fromE164 nonce b \<longleftrightarrow>
     pb_nonce b = nonce \<and> pb_status b = BPending \<and> pb_receiverId b = receiverId \<and>
     pb_phoneE164 b = fromE164 \<and> pb_expiresAt b > serverNow"

definition bind_set :: "int \<Rightarrow> binding_row \<Rightarrow> binding_row" where
  "bind_set serverNow b = b\<lparr>pb_status := BVerified, pb_boundAt := Some serverNow\<rparr>"

definition consumeBindNonce ::
  "int \<Rightarrow> string \<Rightarrow> string \<Rightarrow> string \<Rightarrow> world \<Rightarrow> (exn + consume_outcome) \<times> world" where
  "consumeBindNonce serverNow receiverId fromE164 nonce w =
     (let P = bind_matches serverNow receiverId fromE164 nonce;
          bs = phoneBindings (w_db w);
          bs' = update_where P (bind_set serverNow) bs
      in if \<not> active_uq bs' then (Inl (UniqueViolation ''phone_bindings_active_uq''), w)
         else case returning P (bind_set serverNow) bs of
           row # _ \<Rightarrow> (Inr (BindMatched (pb_id row) (pb_appId row)), set_bindings bs' w)
         | [] \<Rightarrow>
           (Inr (case select_one (\<lambda>b. pb_nonce b = nonce) bs of
                   None \<Rightarrow> BindNoMatch
                 | Some p \<Rightarrow>
                   if pb_status p \<noteq> BPending then BindAlreadyConsumed
                   else if pb_expiresAt p \<le> serverNow then BindExpired
                   else if pb_receiverId p \<noteq> receiverId \<or> pb_phoneE164 p \<noteq> fromE164 then BindPhoneMismatch
                   else BindNoMatch), w))"

section \<open>Invariants of the operations\<close>

lemma active_uq_pending_snoc:
  "active_uq bs \<Longrightarrow> pb_status b \<noteq> BVerified \<Longrightarrow> active_uq (bs @ [b])"
  by (simp add: active_uq_def unique_on_snoc)

lemma startBinding_ok:
  assumes "startBinding cfg pp u rb now dbnow inp w = (Inr res, w')"
  shows "\<exists>row. w' = set_bindings (phoneBindings (w_db w) @ [row]) w \<and> pb_status row = BPending \<and>
     pb_id row = newId ''pbn'' u \<and> pb_nonce row = generateNonce rb \<and> pb_boundAt row = None \<and>
     pb_appId row = sb_appId inp \<and> pb_expiresAt row = now + PHONE_BINDING_TTL_SECONDS cfg * 1000 \<and>
     sr_bind_message res = ''BIND '' @ pb_nonce row \<and>
     (\<forall>b \<in> set (phoneBindings (w_db w)). pb_status b = BVerified \<longrightarrow> active_key b \<noteq> active_key row) \<and>
     (\<exists>r \<in> set (receivers (w_db w)). rc_id r = pb_receiverId row \<and> rc_appId r = pb_appId row \<and> rc_enabled r \<and>
        sr_send_to res = rc_msisdn r)"
proof -
  obtain n r where "normalizePhone pp (sb_phone inp) (DEFAULT_PHONE_REGION cfg) = Inr n"
    and r: "select_one (\<lambda>r. rc_id r = sb_receiverId inp \<and> rc_appId r = sb_appId inp) (receivers (w_db w)) = Some r"
      "rc_enabled r"
    and ex: "\<not> list_ex (\<lambda>b. pb_appId b = sb_appId inp \<and> pb_phoneE164 b = np_e164 n \<and> pb_status b = BVerified)
                    (phoneBindings (w_db w))"
    and row: "w' = set_bindings (phoneBindings (w_db w) @
        [new_binding cfg inp (newId ''pbn'' u) (np_e164 n) (generateNonce rb) now dbnow]) w"
      "sr_send_to res = rc_msisdn r" "sr_bind_message res = ''BIND '' @ generateNonce rb"
    using assms by (auto simp: startBinding_def Let_def split: sum.splits option.splits if_splits)
  then show ?thesis
    using select_one_Some [OF r(1)]
    by (intro exI [of _ "new_binding cfg inp (newId ''pbn'' u) (np_e164 n) (generateNonce rb) now dbnow"])
      (auto simp: new_binding_def active_key_def list_ex_iff)
qed

lemma startBinding_error: "startBinding cfg pp u rb now dbnow inp w = (Inl e, w') \<Longrightarrow> w' = w"
  by (auto simp: startBinding_def Let_def split: sum.splits option.splits if_splits)

lemma startBinding_bindings:
  "\<exists>new. phoneBindings (w_db (snd (startBinding cfg pp u rb now dbnow inp w))) = phoneBindings (w_db w) @ new \<and>
     (\<forall>b \<in> set new. pb_status b = BPending)"
  by (auto simp: startBinding_def Let_def new_binding_def split: sum.splits option.splits)

lemma active_uq_revoke:
  "active_uq bs \<Longrightarrow> active_uq (update_where P (\<lambda>b. b\<lparr>pb_status := BRevoked, pb_revokedAt := t\<rparr>) bs)"
  unfolding active_uq_def by (rule unique_on_update_shrink) auto

lemma revokeBinding_bindings:
  "phoneBindings (w_db (snd (revokeBinding now appId bid w)))
     = update_where (\<lambda>b. pb_id b = bid \<and> pb_appId b = appId)
         (\<lambda>b. b\<lparr>pb_status := BRevoked, pb_revokedAt := Some now\<rparr>) (phoneBindings (w_db w))"
  by (auto simp: revokeBinding_def Let_def returning_eq_Nil update_where_id split: list.splits)

lemma consumeBindNonce_bindings:
  "phoneBindings (w_db (snd (consumeBindNonce now rid from nonce w))) = phoneBindings (w_db w) \<or>
   (phoneBindings (w_db (snd (consumeBindNonce now rid from nonce w)))
      = update_where (bind_matches now rid from nonce) (bind_set now) (phoneBindings (w_db w)) \<and>
    active_uq (phoneBindings (w_db (snd (consumeBindNonce now rid from nonce w)))))"
  by (auto simp: consumeBindNonce_def Let_def split: list.splits)

lemma consumeBindNonce_other [simp]:
  "verifications (w_db (snd (consumeBindNonce now rid from nonce w))) = verifications (w_db w)"
  "inboundSms (w_db (snd (consumeBindNonce now rid from nonce w))) = inboundSms (w_db w)"
  "receivers (w_db (snd (consumeBindNonce now rid from nonce w))) = receivers (w_db w)"
  "webhookEvents (w_db (snd (consumeBindNonce now rid from nonce w))) = webhookEvents (w_db w)"
  "webhookEndpoints (w_db (snd (consumeBindNonce now rid from nonce w))) = webhookEndpoints (w_db w)"
  "webhookDeliveries (w_db (snd (consumeBindNonce now rid from nonce w))) = webhookDeliveries (w_db w)"
  "w_metrics (snd (consumeBindNonce now rid from nonce w)) = w_metrics w"
  "w_redis (snd (consumeBindNonce now rid from nonce w)) = w_redis w"
  by (auto simp: consumeBindNonce_def Let_def split: list.splits)

lemma bind_unmatched:
  assumes "\<forall>b \<in> set bs. \<not> bind_matches now rid from nonce b"
  shows "update_where (bind_matches now rid from nonce) (bind_set now) bs = bs"
    and "returning (bind_matches now rid from nonce) (bind_set now) bs = []"
  using assms by (simp_all add: update_where_id returning_eq_Nil)

text \<open>With unique nonces the update touches the one row that carries the nonce.\<close>

lemma bind_matched:
  assumes "unique_on (\<lambda>_. True) pb_nonce bs" and "b \<in> set bs" and "bind_matches now rid from nonce b"
  obtains xs ys where "bs = xs @ b # ys"
    and "update_where (bind_matches now rid from nonce) (bind_set now) bs = xs @ bind_set now b # ys"
    and "update_where (\<lambda>x. pb_nonce x = nonce) (bind_set now) bs = xs @ bind_set now b # ys"
    and "returning (bind_matches now rid from nonce) (bind_set now) bs = [bind_set now b]"
proof -
  let ?P = "bind_matches now rid from nonce" and ?Q = "\<lambda>x. pb_nonce x = nonce"
  have b: "?Q b" using assms(3) by (simp add: bind_matches_def)
  obtain xs ys where split: "bs = xs @ b # ys" using assms(2) by (meson split_list)
  have "distinct (map pb_nonce bs)" using assms(1) by (simp add: unique_on_def)
  then have no: "\<forall>x \<in> set xs \<union> set ys. \<not> ?Q x" using b unfolding split by (auto simp: image_iff)
  then have "filter ?P xs = []" "filter ?P ys = []" by (auto simp: filter_empty_conv bind_matches_def)
  then have "returning ?P (bind_set now) bs = [bind_set now b]" using assms(3) by (simp add: returning_def split)
  moreover have "\<forall>x \<in> set xs \<union> set ys. \<not> ?P x" using no by (auto simp: bind_matches_def)
  then have "update_where ?Q (bind_set now) bs = xs @ bind_set now b # ys" "update_where ?P (bind_set now) bs = xs @ bind_set now b # ys"
    using b assms(3) no by (simp_all add: split update_where_id)
  ultimately show thesis using that split by blast
qed

lemma active_uq_bind_set:
  assumes "active_uq (xs @ b # ys)" and "pb_status b \<noteq> BVerified"
  shows "active_uq (xs @ bind_set now b # ys) \<longleftrightarrow>
     \<not> (\<exists>b' \<in> set (xs @ b # ys). pb_status b' = BVerified \<and> active_key b' = active_key b)"
proof -
  have k: "active_key (bind_set now b) = active_key b" "pb_status (bind_set now b) = BVerified"
    by (simp_all add: bind_set_def active_key_def)
  have "unique_on (\<lambda>b. pb_status b = BVerified) active_key (xs @ ys)"
    using assms unfolding active_uq_def by (simp add: unique_on_mid_out)
  then have "active_uq (xs @ bind_set now b # ys) \<longleftrightarrow>
      active_key b \<notin> active_key ` {x \<in> set (xs @ ys). pb_status x = BVerified}"
    unfolding active_uq_def using k by (simp add: unique_on_mid)
  also have "\<dots> \<longleftrightarrow> \<not> (\<exists>b' \<in> set (xs @ b # ys). pb_status b' = BVerified \<and> active_key b' = active_key b)"
    using assms(2) by (auto simp: image_iff)
  finally show ?thesis .
qed

text \<open>
  Consuming a binding nonce. With the uniqueness of verified bindings in force and nonces unique, the call
  answers by the one row that carries the nonce: it is verified exactly when it is pending, unexpired, on this receiver and
  for this phone; a second pending binding of an already verified (app, phone) raises the unique
  violation and changes nothing; every other case reports why and changes nothing.
\<close>

theorem consumeBindNonce_cases:
  assumes "active_uq (phoneBindings (w_db w))"
    and "unique_on (\<lambda>_. True) pb_nonce (phoneBindings (w_db w))"
  shows "case select_one (\<lambda>b. pb_nonce b = nonce) (phoneBindings (w_db w)) of
     None \<Rightarrow> consumeBindNonce now rid from nonce w = (Inr BindNoMatch, w)
   | Some b \<Rightarrow>
       consumeBindNonce now rid from nonce w =
         (if pb_status b \<noteq> BPending then (Inr BindAlreadyConsumed, w)
          else if pb_expiresAt b \<le> now then (Inr BindExpired, w)
          else if pb_receiverId b \<noteq> rid \<or> pb_phoneE164 b \<noteq> from then (Inr BindPhoneMismatch, w)
          else if \<exists>b' \<in> set (phoneBindings (w_db w)). pb_status b' = BVerified \<and> active_key b' = active_key b
          then (Inl (UniqueViolation ''phone_bindings_active_uq''), w)
          else (Inr (BindMatched (pb_id b) (pb_appId b)),
                set_bindings (update_where (\<lambda>x. pb_nonce x = nonce) (bind_set now) (phoneBindings (w_db w))) w))"
proof (cases "select_one (\<lambda>b. pb_nonce b = nonce) (phoneBindings (w_db w))")
  case None
  then have "\<forall>b \<in> set (phoneBindings (w_db w)). \<not> bind_matches now rid from nonce b"
    by (auto simp: select_one_None bind_matches_def)
  note bind_unmatched [OF this]
  then show ?thesis using None assms(1) by (simp add: consumeBindNonce_def Let_def)
next
  case (Some b)
  let ?P = "bind_matches now rid from nonce" and ?bs = "phoneBindings (w_db w)"
  have b: "b \<in> set ?bs" "pb_nonce b = nonce" using select_one_Some [OF Some] by auto
  show ?thesis
  proof (cases "?P b")
    case False
    have only: "x = b" if "x \<in> set ?bs" "pb_nonce x = nonce" for x
      using unique_onD [OF assms(2) that(1) b(1)] that b(2) by simp
    have "\<forall>x \<in> set ?bs. \<not> ?P x" using False only by (auto simp: bind_matches_def)
    note bind_unmatched [OF this]
    then show ?thesis
      using Some assms(1) False b(2) by (auto simp: consumeBindNonce_def Let_def bind_matches_def)
  next
    case True
    then obtain xs ys where m: "?bs = xs @ b # ys" "update_where ?P (bind_set now) ?bs = xs @ bind_set now b # ys"
        "update_where (\<lambda>x. pb_nonce x = nonce) (bind_set now) ?bs = xs @ bind_set now b # ys"
        "returning ?P (bind_set now) ?bs = [bind_set now b]"
      using bind_matched [OF assms(2) b(1)] by blast
    have "pb_status b \<noteq> BVerified" using True by (simp add: bind_matches_def)
    then have "active_uq (xs @ bind_set now b # ys) \<longleftrightarrow> \<not> (\<exists>b' \<in> set ?bs. pb_status b' = BVerified \<and> active_key b' = active_key b)"
      using active_uq_bind_set assms(1) unfolding m(1) by blast
    with m(2-4) True show ?thesis
      by (auto simp: Some consumeBindNonce_def Let_def bind_matches_def bind_set_def)
  qed
qed

definition demo_binding :: "string \<Rightarrow> binding_status \<Rightarrow> binding_row" where
  "demo_binding nonce st = \<lparr>pb_id = ''pbn_'' @ nonce, pb_appId = ''app_1'', pb_receiverId = ''rcv_1'',
     pb_phoneE164 = ''+963991234567'', pb_status = st, pb_nonce = nonce, pb_expiresAt = 300000,
     pb_boundAt = None, pb_revokedAt = None, pb_createdAt = 0\<rparr>"

theorem consumeBindNonce_cases_witness:
  "consumeBindNonce 1000 ''rcv_1'' ''+963991234567'' ''N2''
      (set_bindings [demo_binding ''N1'' BVerified, demo_binding ''N2'' BPending] empty_world)
     = (Inl (UniqueViolation ''phone_bindings_active_uq''),
        set_bindings [demo_binding ''N1'' BVerified, demo_binding ''N2'' BPending] empty_world)"
  using consumeBindNonce_cases [where w = "set_bindings [demo_binding ''N1'' BVerified, demo_binding ''N2'' BPending] empty_world"
      and nonce = "''N2''" and now = 1000 and rid = "''rcv_1''" and ?from = "''+963991234567''"]
  by (simp add: demo_binding_def active_uq_def unique_on_def active_key_def)

end
