(* ===== verification/Matching.thy ===== *)
theory Matching
  imports Verifications PhoneBindings
begin

text \<open>
  \<open>services/matching.ts\<close>: \<open>processInbound\<close> stores an inbound SMS and matches it. Its statements
  are separate definitions, composed as the source composes them: \<open>insert_inbound\<close> (with the
  unique index \<open>inbound_sms_idem_uq\<close>), \<open>bind_phase\<close> for a \<open>BIND\<close> message and
  \<open>claim_tx\<close>/\<open>verify_phase\<close> for a \<open>VERIFY\<close> message. \<open>locked\<close> lists the ids of
  verification rows that concurrent transactions hold locked; the claim skips them.
\<close>

record match_input =
  mi_receiverId :: string
  mi_from :: string
  mi_to :: string
  mi_body :: string
  mi_receivedAt :: int
  mi_idempotencyKey :: string

datatype match_outcome =
    MatchedVerification string string
  | MatchedBinding string string
  | Unmatched string string
  | DuplicateInbound string

text \<open>The sender as stored: normalised, or its first 32 characters when it does not parse.\<close>

definition sender :: "config \<Rightarrow> phone_parser \<Rightarrow> string \<Rightarrow> string" where
  "sender cfg parsePhone from =
     (case normalizePhone parsePhone from (DEFAULT_PHONE_REGION cfg) of
        Inr n \<Rightarrow> np_e164 n
      | Inl _ \<Rightarrow> take 32 from)"

definition set_inbound :: "inbound_row list \<Rightarrow> world \<Rightarrow> world" where
  "set_inbound rows w = w\<lparr>w_db := (w_db w)\<lparr>inboundSms := rows\<rparr>\<rparr>"

lemma set_inbound_simps [simp]:
  "inboundSms (w_db (set_inbound rows w)) = rows"
  "apps (w_db (set_inbound rows w)) = apps (w_db w)"
  "receivers (w_db (set_inbound rows w)) = receivers (w_db w)"
  "verifications (w_db (set_inbound rows w)) = verifications (w_db w)"
  "phoneBindings (w_db (set_inbound rows w)) = phoneBindings (w_db w)"
  "webhookEndpoints (w_db (set_inbound rows w)) = webhookEndpoints (w_db w)"
  "webhookEvents (w_db (set_inbound rows w)) = webhookEvents (w_db w)"
  "webhookDeliveries (w_db (set_inbound rows w)) = webhookDeliveries (w_db w)"
  "w_redis (set_inbound rows w) = w_redis w" "w_metrics (set_inbound rows w) = w_metrics w"
  by (simp_all add: set_inbound_def)

definition new_inbound :: "match_input \<Rightarrow> string \<Rightarrow> string \<Rightarrow> int \<Rightarrow> inbound_row" where
  "new_inbound inp iid from dbnow =
     \<lparr>in_id = iid, in_receiverId = mi_receiverId inp, in_fromE164 = from, in_toMsisdn = mi_to inp,
      in_body = take 1600 (mi_body inp), in_receivedAt = mi_receivedAt inp,
      in_idempotencyKey = mi_idempotencyKey inp, in_matchedVerificationId = None,
      in_createdAt = dbnow\<rparr>"

definition insert_inbound :: "match_input \<Rightarrow> string \<Rightarrow> string \<Rightarrow> int \<Rightarrow> world \<Rightarrow> (exn + unit) \<times> world" where
  "insert_inbound inp iid from dbnow w =
     (let rows = inboundSms (w_db w) @ [new_inbound inp iid from dbnow] in
      if idem_uq rows then (Inr (), set_inbound rows w)
      else (Inl (UniqueViolation ''inbound_sms_idem_uq''), w))"

definition set_matched :: "string \<Rightarrow> string option \<Rightarrow> world \<Rightarrow> world" where
  "set_matched iid m w =
     set_inbound (update_where (\<lambda>i. in_id i = iid) (\<lambda>i. i\<lparr>in_matchedVerificationId := m\<rparr>)
       (inboundSms (w_db w))) w"

text \<open>The sub-select: a pending, unexpired row of this receiver, phone and code, not locked.\<close>

definition claimable :: "int \<Rightarrow> string \<Rightarrow> string \<Rightarrow> string \<Rightarrow> string list \<Rightarrow> verification_row \<Rightarrow> bool" where
  "claimable serverNow rid from code locked v \<longleftrightarrow>
     vr_receiverId v = rid \<and> vr_phoneE164 v = from \<and> vr_code v = code \<and> vr_status v = Pending \<and>
     vr_expiresAt v > serverNow \<and> vr_id v \<notin> set locked"

definition claim_set :: "int \<Rightarrow> string \<Rightarrow> verification_row \<Rightarrow> verification_row" where
  "claim_set serverNow iid v =
     v\<lparr>vr_status := Verified, vr_verifiedAt := Some serverNow, vr_matchedInboundId := Some iid,
       vr_attempts := vr_attempts v + 1\<rparr>"

definition claim_tx ::
  "event_ids \<Rightarrow> int \<Rightarrow> string list \<Rightarrow> string \<Rightarrow> string \<Rightarrow> string \<Rightarrow> string \<Rightarrow> world
     \<Rightarrow> verification_row option \<times> world" where
  "claim_tx ids serverNow locked rid from code iid w =
     (let vs = verifications (w_db w) in
      case select_one (claimable serverNow rid from code locked) vs of
        None \<Rightarrow> (None, w)
      | Some target \<Rightarrow>
        let P = (\<lambda>v. vr_id v = vr_id target);
            claimed = returning P (claim_set serverNow iid) vs;
            w1 = set_verifications (update_where P (claim_set serverNow iid) vs) w
        in case claimed of
             [] \<Rightarrow> (None, w1)
           | row # others \<Rightarrow>
             let w2 = (if others \<noteq> [] then metric MatchingInvariantViolated w1 else w1);
                 w3 = emit_for EvVerified ids serverNow row w2
             in (Some row, set_matched iid (Some (vr_id row)) w3))"

definition verify_phase ::
  "event_ids \<Rightarrow> int \<Rightarrow> string list \<Rightarrow> string \<Rightarrow> string \<Rightarrow> string \<Rightarrow> string \<Rightarrow> world
     \<Rightarrow> (exn + match_outcome) \<times> world" where
  "verify_phase ids serverNow locked rid from code iid w =
     (case claim_tx ids serverNow locked rid from code iid w of
        (None, w1) \<Rightarrow> (Inr (Unmatched ''no_match'' iid), set_matched iid None w1)
      | (Some row, w1) \<Rightarrow> (Inr (MatchedVerification (vr_id row) iid), w1))"

definition bind_phase ::
  "int \<Rightarrow> string \<Rightarrow> string \<Rightarrow> string \<Rightarrow> string \<Rightarrow> world \<Rightarrow> (exn + match_outcome) \<times> world" where
  "bind_phase serverNow rid from nonce iid w =
     (case consumeBindNonce serverNow rid from nonce w of
        (Inl e, w1) \<Rightarrow> (Inl e, w1)
      | (Inr (BindMatched bid appId), w1) \<Rightarrow> (Inr (MatchedBinding bid iid), set_matched iid (Some bid) w1)
      | (Inr _, w1) \<Rightarrow> (Inr (Unmatched ''binding_no_match'' iid), w1))"

definition processInbound ::
  "config \<Rightarrow> phone_parser \<Rightarrow> string \<Rightarrow> event_ids \<Rightarrow> int \<Rightarrow> int \<Rightarrow> string list \<Rightarrow> match_input \<Rightarrow> world
     \<Rightarrow> (exn + match_outcome) \<times> world" where
  "processInbound cfg parsePhone u ids serverNow dbnow locked inp w =
     (let from = sender cfg parsePhone (mi_from inp);
          bindNonce = extractBindNonce (mi_body inp);
          code = (if bindNonce = None then extractCode ''VERIFY'' (mi_body inp) else None);
          iid = newId ''in'' u
      in case insert_inbound inp iid from dbnow w of
           (Inl err, w1) \<Rightarrow>
             (case select_one (\<lambda>i. in_receiverId i = mi_receiverId inp \<and>
                     in_idempotencyKey i = mi_idempotencyKey inp) (inboundSms (w_db w1)) of
                Some prior \<Rightarrow> (Inr (DuplicateInbound (in_id prior)), w1)
              | None \<Rightarrow> (Inl err, w1))
         | (Inr _, w1) \<Rightarrow>
             (case bindNonce of
                Some nonce \<Rightarrow> bind_phase serverNow (mi_receiverId inp) from nonce iid w1
              | None \<Rightarrow>
                (case code of
                   None \<Rightarrow> (Inr (Unmatched ''no_match'' iid), w1)
                 | Some c \<Rightarrow> verify_phase ids serverNow locked (mi_receiverId inp) from c iid w1)))"

section \<open>Facts about the statements\<close>

lemma set_matched_simps [simp]:
  "inboundSms (w_db (set_matched iid m w)) =
     update_where (\<lambda>i. in_id i = iid) (\<lambda>i. i\<lparr>in_matchedVerificationId := m\<rparr>) (inboundSms (w_db w))"
  "receivers (w_db (set_matched iid m w)) = receivers (w_db w)"
  "verifications (w_db (set_matched iid m w)) = verifications (w_db w)"
  "phoneBindings (w_db (set_matched iid m w)) = phoneBindings (w_db w)"
  "webhookEndpoints (w_db (set_matched iid m w)) = webhookEndpoints (w_db w)"
  "webhookEvents (w_db (set_matched iid m w)) = webhookEvents (w_db w)"
  "webhookDeliveries (w_db (set_matched iid m w)) = webhookDeliveries (w_db w)"
  "w_redis (set_matched iid m w) = w_redis w" "w_metrics (set_matched iid m w) = w_metrics w"
  by (simp_all add: set_matched_def)

lemma insert_inbound_dup:
  assumes "idem_uq (inboundSms (w_db w))"
  shows "fst (insert_inbound inp iid from dbnow w) = Inl (UniqueViolation ''inbound_sms_idem_uq'') \<longleftrightarrow>
    (\<exists>i \<in> set (inboundSms (w_db w)). in_receiverId i = mi_receiverId inp \<and>
        in_idempotencyKey i = mi_idempotencyKey inp)"
  using assms by (auto simp: insert_inbound_def idem_uq_def unique_on_snoc idem_key_def new_inbound_def Let_def)

lemma insert_inbound_cases:
  "insert_inbound inp iid from dbnow w = (Inr (), set_inbound (inboundSms (w_db w) @ [new_inbound inp iid from dbnow]) w) \<and>
     idem_uq (inboundSms (w_db w) @ [new_inbound inp iid from dbnow]) \<or>
   insert_inbound inp iid from dbnow w = (Inl (UniqueViolation ''inbound_sms_idem_uq''), w)"
  by (auto simp: insert_inbound_def Let_def)

text \<open>With distinct ids a claim changes exactly the selected row and raises no alarm.\<close>

lemma claim_tx_cases:
  assumes "distinct (map vr_id (verifications (w_db w)))"
  shows "(claim_tx ids now locked rid from code iid w = (None, w) \<and>
           (\<forall>v \<in> set (verifications (w_db w)). \<not> claimable now rid from code locked v)) \<or>
    (\<exists>v \<in> set (verifications (w_db w)). claimable now rid from code locked v \<and>
       claim_tx ids now locked rid from code iid w =
         (Some (claim_set now iid v),
          set_matched iid (Some (vr_id v)) (emit_for EvVerified ids now (claim_set now iid v)
            (set_verifications (update_where (\<lambda>x. vr_id x = vr_id v) (claim_set now iid)
               (verifications (w_db w))) w))))"
proof (cases "select_one (claimable now rid from code locked) (verifications (w_db w))")
  case None
  then have "claim_tx ids now locked rid from code iid w = (None, w)" by (simp add: claim_tx_def Let_def)
  with None show ?thesis by (simp add: select_one_None)
next
  case (Some v)
  let ?vs = "verifications (w_db w)"
  have v: "v \<in> set ?vs" "claimable now rid from code locked v" using select_one_Some [OF Some] by auto
  obtain xs ys where split: "?vs = xs @ v # ys" using v(1) by (meson split_list)
  have "filter (\<lambda>x. vr_id x = vr_id v) xs = []" "filter (\<lambda>x. vr_id x = vr_id v) ys = []"
    using assms unfolding split by (auto simp: filter_empty_conv image_iff)
  then have "returning (\<lambda>x. vr_id x = vr_id v) (claim_set now iid) ?vs = [claim_set now iid v]"
    by (simp add: returning_def split)
  moreover have "vr_id (claim_set now iid v) = vr_id v" by (simp add: claim_set_def)
  ultimately show ?thesis using Some v by (auto simp: claim_tx_def Let_def)
qed

section \<open>Idempotence and the two commands\<close>

text \<open>
  A repeated delivery of one SMS is idempotent. Once a message with a given receiver and
  idempotency key is stored, processing any message with the same receiver and key answers
  "duplicate" with the id of the stored message and changes nothing at all.
\<close>

theorem processInbound_duplicate:
  assumes "idem_uq (inboundSms (w_db w))" and "i \<in> set (inboundSms (w_db w))"
    and "in_receiverId i = mi_receiverId inp" and "in_idempotencyKey i = mi_idempotencyKey inp"
  shows "processInbound cfg pp u ids now dbnow locked inp w = (Inr (DuplicateInbound (in_id i)), w)"
proof -
  have "insert_inbound inp iid f dbnow w = (Inl (UniqueViolation ''inbound_sms_idem_uq''), w)" for iid f
    using insert_inbound_dup [OF assms(1), of inp iid f dbnow] insert_inbound_cases [of inp iid f dbnow w] assms
    by auto
  moreover have "select_one (\<lambda>i. in_receiverId i = mi_receiverId inp \<and>
      in_idempotencyKey i = mi_idempotencyKey inp) (inboundSms (w_db w)) = Some i"
  proof -
    let ?P = "\<lambda>i. in_receiverId i = mi_receiverId inp \<and> in_idempotencyKey i = mi_idempotencyKey inp"
    have "select_one ?P (inboundSms (w_db w)) \<noteq> None" using assms by (auto simp: select_one_None)
    then obtain j where j: "select_one ?P (inboundSms (w_db w)) = Some j" by auto
    then have "j \<in> set (inboundSms (w_db w))" "idem_key j = idem_key i"
      using select_one_Some [OF j] assms by (auto simp: idem_key_def)
    then have "j = i" using unique_onD [OF assms(1) [unfolded idem_uq_def]] assms(2) by blast
    with j show ?thesis by simp
  qed
  ultimately show ?thesis by (simp add: processInbound_def Let_def)
qed

definition demo_inbound :: inbound_row where
  "demo_inbound = \<lparr>in_id = ''in_1'', in_receiverId = ''rcv_1'', in_fromE164 = ''+963991234567'',
     in_toMsisdn = ''+963900000000'', in_body = ''VERIFY A7K9P2'', in_receivedAt = 5,
     in_idempotencyKey = ''k1'', in_matchedVerificationId = None, in_createdAt = 5\<rparr>"

definition demo_match_input :: "string \<Rightarrow> match_input" where
  "demo_match_input body = \<lparr>mi_receiverId = ''rcv_1'', mi_from = ''+963991234567'',
     mi_to = ''+963900000000'', mi_body = body, mi_receivedAt = 7, mi_idempotencyKey = ''k1''\<rparr>"

theorem processInbound_duplicate_witness:
  "processInbound default_config (\<lambda>_ _. None) ''2'' (''3'', \<lambda>_. ''4'') 1000 1000 []
      (demo_match_input ''VERIFY A7K9P2'') (set_inbound [demo_inbound] empty_world)
     = (Inr (DuplicateInbound ''in_1''), set_inbound [demo_inbound] empty_world)"
  using processInbound_duplicate [of "set_inbound [demo_inbound] empty_world" demo_inbound
      "demo_match_input ''VERIFY A7K9P2''" default_config "\<lambda>_ _. None" "''2''" "(''3'', \<lambda>_. ''4'')" 1000 1000 "[]"]
  by (simp add: demo_inbound_def demo_match_input_def idem_uq_def unique_on_def)

end
