(* ===== verification/Routes.thy ===== *)
theory Routes
  imports Http Auth RateLimit Hmac Matching PhoneBindings
begin

text \<open>
  The routes of the verification and phone-binding API: \<open>routes/verifications.ts\<close>,
  \<open>routes/phoneBindings.ts\<close> and the handlers of \<open>hosted/web/plugin.ts\<close>. A handler returns
  the status code with the value of the reply, or throws. \<open>route_env\<close> collects what comes from
  outside during one request; the clock is read once.
\<close>

record route_env =
  ve_ce :: crypto_env
  ve_parse :: phone_parser
  ve_now :: int
  ve_dbnow :: int
  ve_stamped :: bool
  ve_audit_ok :: bool
  ve_expire_ok :: bool
  ve_ulid :: string
  ve_ids :: event_ids
  ve_ids2 :: event_ids
  ve_rnd :: "nat \<Rightarrow> nat \<Rightarrow> nat"
  ve_bytes :: string
  ve_iv :: string
  ve_locked :: "string list"
  ve_isDatetime :: "string \<Rightarrow> bool"
  ve_date :: "string \<Rightarrow> int"

definition with_key :: "config \<Rightarrow> route_env \<Rightarrow> request \<Rightarrow> api_key_kind list \<Rightarrow> authed_key handler" where
  "with_key cfg ve rq kinds = requireKey cfg (ce_hmac (ve_ce ve)) (ve_stamped ve) (ve_now ve) (req_authorization rq) kinds"

definition key_audit :: "authed_key \<Rightarrow> request \<Rightarrow> string \<Rightarrow> string \<Rightarrow> string option \<Rightarrow> audit_row" where
  "key_audit auth rq action rtype rid =
     (audit_entry action)\<lparr>au_appId := Some (ay_appId auth), au_actor := Some (''key:'' @ ay_id auth),
        au_resourceType := Some rtype, au_resourceId := rid, au_requestId := Some (req_id rq)\<rparr>"

section \<open>Verifications\<close>

record start_body =
  st_phone :: string
  st_purpose :: string
  st_client_ref :: "string option"
  st_locale :: "string option"
  st_operator :: "string option"

definition is_operator_char :: "char \<Rightarrow> bool" where
  "is_operator_char c \<longleftrightarrow> is_alnum c \<or> c \<in> set ''_-''"

definition startBody :: "json option \<Rightarrow> start_body option" where
  "startBody b =
     (if \<not> is_object b then None
      else case (z_string 5 20 (\<lambda>_. True) (field ''phone'' b), z_string 2 64 (\<lambda>_. True) (field ''purpose'' b),
                 z_optional (z_string 0 128 (\<lambda>_. True)) (field ''client_ref'' b),
                 z_optional (z_string 0 16 (\<lambda>_. True)) (field ''locale'' b),
                 z_optional (z_string 1 32 (all_in is_operator_char)) (field ''operator'' b)) of
        (Some p, Some u, Some c, Some l, Some a) \<Rightarrow>
          Some \<lparr>st_phone = p, st_purpose = u, st_client_ref = c, st_locale = l, st_operator = a\<rparr>
      | _ \<Rightarrow> None)"

definition vrf_id_param :: "string \<Rightarrow> string option" where
  "vrf_id_param i = (if prefixed_id ''vrf_'' i then Some i else None)"

text \<open>The \<open>catch\<close> of the route: a \<open>PhoneError\<close> becomes a 400 with its code.\<close>

definition phone_error_400 :: "exn \<Rightarrow> exn" where
  "phone_error_400 e = (case e of PhoneError c \<Rightarrow> badRequest c ''phone is not valid'' | _ \<Rightarrow> e)"

definition post_verifications :: "config \<Rightarrow> route_env \<Rightarrow> request \<Rightarrow> (int \<times> public_verification) handler" where
  "post_verifications cfg ve rq =
     andThen (with_key cfg ve rq [KPublic, KSecret]) (\<lambda>auth.
     andThen (rate_gate B_start (''start:ip:'' @ req_ip rq) (RATE_LIMIT_START_PER_IP_PER_MIN cfg) (ve_now ve)) (\<lambda>_.
     andThen (rate_gate B_verification_start_per_app (''start:app:'' @ ay_appId auth)
                (RATE_LIMIT_VERIFICATIONS_PER_APP_PER_MIN cfg) (ve_now ve)) (\<lambda>_.
     andThen (require_some (startBody (req_body rq)) (badRequestIssues ''validation_error'' ''invalid request body'')) (\<lambda>body.
     andThen (lift_result (validatePurpose (st_purpose body))) (\<lambda>_.
     andThen (map_error phone_error_400 (lift_result (normalizePhone (ve_parse ve) (st_phone body) (DEFAULT_PHONE_REGION cfg)))) (\<lambda>phone.
     andThen (startVerification cfg (ve_rnd ve) (ve_ulid ve) (ve_now ve) (ve_dbnow ve)
                \<lparr>si_appId = ay_appId auth, si_phoneE164 = np_e164 phone, si_purpose = st_purpose body,
                 si_clientRef = st_client_ref body, si_locale = st_locale body, si_ip = Some (req_ip rq),
                 si_preferredOperator = st_operator body\<rparr>) (\<lambda>v.
     andThen (effect (metric (VerificationStarted (ay_appId auth)))) (\<lambda>_.
     andThen (effect (metric (VerificationStartObserved (classifyStatus 201)))) (\<lambda>_.
     andThen (effect (audit (ve_audit_ok ve) ((key_audit auth rq ''verification.start'' ''verification'' (Some (pv_id v)))
                \<lparr>au_ip := Some (req_ip rq), au_userAgent := req_userAgent rq,
                 au_meta := [(''phone_masked'', pv_phone_masked v), (''purpose'', st_purpose body)]\<rparr>))) (\<lambda>_.
     give (201, v)))))))))))"

definition get_verification :: "config \<Rightarrow> route_env \<Rightarrow> request \<Rightarrow> public_verification handler" where
  "get_verification cfg ve rq =
     andThen (with_key cfg ve rq [KPublic, KSecret]) (\<lambda>auth.
     andThen (rate_gate B_status (''status:ip:'' @ req_ip rq) (RATE_LIMIT_STATUS_PER_IP_PER_MIN cfg) (ve_now ve)) (\<lambda>_.
     andThen (require_some (vrf_id_param (req_param_id rq)) (notFound ''verification'')) (\<lambda>i.
     getVerification (ve_expire_ok ve) (ve_ids ve) (ve_now ve) (ay_appId auth) i)))"

definition post_verification_cancel :: "config \<Rightarrow> route_env \<Rightarrow> request \<Rightarrow> public_verification handler" where
  "post_verification_cancel cfg ve rq =
     andThen (with_key cfg ve rq [KSecret]) (\<lambda>auth.
     andThen (rate_gate B_verification_cancel_per_app (''cancel:app:'' @ ay_appId auth)
                (RATE_LIMIT_CANCEL_PER_APP_PER_MIN cfg) (ve_now ve)) (\<lambda>_.
     andThen (require_some (vrf_id_param (req_param_id rq)) (notFound ''verification'')) (\<lambda>i.
     andThen (cancelVerification (ve_expire_ok ve) (ve_ids ve) (ve_ids2 ve) (ve_now ve) (ay_appId auth) i) (\<lambda>result.
     andThen (effect (metric (VerificationTerminal (ay_appId auth) Cancelled))) (\<lambda>_.
     andThen (effect (audit (ve_audit_ok ve) ((key_audit auth rq ''verification.cancel'' ''verification'' (Some i))
                \<lparr>au_ip := Some (req_ip rq)\<rparr>))) (\<lambda>_.
     give result))))))"

section \<open>Phone bindings\<close>

record binding_body =
  bb_phone :: string
  bb_receiver_id :: string

definition bindingStartBody :: "json option \<Rightarrow> binding_body option" where
  "bindingStartBody b =
     (if \<not> is_object b then None
      else case (z_string 4 32 (\<lambda>_. True) (field ''phone'' b),
                 (case field ''receiver_id'' b of Some (JStr s) \<Rightarrow> if prefixed_id ''rcv_'' s then Some s else None | _ \<Rightarrow> None)) of
        (Some p, Some r) \<Rightarrow> Some \<lparr>bb_phone = p, bb_receiver_id = r\<rparr>
      | _ \<Rightarrow> None)"

definition pbn_id_param :: "string \<Rightarrow> string option" where
  "pbn_id_param i = (if prefixed_id ''pbn_'' i then Some i else None)"

definition post_binding_start :: "config \<Rightarrow> route_env \<Rightarrow> request \<Rightarrow> (int \<times> start_binding_result) handler" where
  "post_binding_start cfg ve rq =
     andThen (with_key cfg ve rq [KSecret]) (\<lambda>auth.
     andThen (rate_gate B_phone_binding_start_per_app (''phone_binding_start:app:'' @ ay_appId auth)
                (RATE_LIMIT_BINDINGS_PER_APP_PER_MIN cfg) (ve_now ve)) (\<lambda>_.
     andThen (require_some (bindingStartBody (req_body rq)) (badRequestIssues ''validation_error'' ''invalid request body'')) (\<lambda>body.
     andThen (startBinding cfg (ve_parse ve) (ve_ulid ve) (ve_bytes ve) (ve_now ve) (ve_dbnow ve)
                \<lparr>sb_appId = ay_appId auth, sb_receiverId = bb_receiver_id body, sb_phone = bb_phone body\<rparr>) (\<lambda>result.
     andThen (effect (audit (ve_audit_ok ve)
                ((key_audit auth rq ''phone_binding.start'' ''phone_binding'' (Some (bv_id (sr_binding result))))
                   \<lparr>au_meta := [(''phone_e164'', bv_phone_e164 (sr_binding result)),
                               (''receiver_id'', bv_receiver_id (sr_binding result))]\<rparr>))) (\<lambda>_.
     give (201, result))))))"

definition get_binding :: "config \<Rightarrow> route_env \<Rightarrow> request \<Rightarrow> phone_binding handler" where
  "get_binding cfg ve rq =
     andThen (with_key cfg ve rq [KSecret]) (\<lambda>auth.
     andThen (rate_gate B_phone_binding_read_per_app (''phone_binding_read:app:'' @ ay_appId auth)
                (RATE_LIMIT_BINDING_READ_PER_APP_PER_MIN cfg) (ve_now ve)) (\<lambda>_.
     andThen (require_some (pbn_id_param (req_param_id rq)) (badRequest ''validation_error'' ''invalid id'')) (\<lambda>i w.
     (getBinding (ay_appId auth) i w, w))))"

definition post_binding_revoke :: "config \<Rightarrow> route_env \<Rightarrow> request \<Rightarrow> phone_binding handler" where
  "post_binding_revoke cfg ve rq =
     andThen (with_key cfg ve rq [KSecret]) (\<lambda>auth.
     andThen (rate_gate B_phone_binding_revoke_per_app (''phone_binding_revoke:app:'' @ ay_appId auth)
                (RATE_LIMIT_BINDING_REVOKE_PER_APP_PER_MIN cfg) (ve_now ve)) (\<lambda>_.
     andThen (require_some (pbn_id_param (req_param_id rq)) (badRequest ''validation_error'' ''invalid id'')) (\<lambda>i.
     andThen (revokeBinding (ve_now ve) (ay_appId auth) i) (\<lambda>updated.
     andThen (effect (audit (ve_audit_ok ve)
                ((key_audit auth rq ''phone_binding.revoke'' ''phone_binding'' (Some (bv_id updated)))
                   \<lparr>au_meta := [(''phone_e164'', bv_phone_e164 updated)]\<rparr>))) (\<lambda>_.
     give updated)))))"

section \<open>The hosted page\<close>

definition quoted :: "string \<Rightarrow> string" where
  "quoted s = CHR 0x27 # s @ [CHR 0x27]"

definition cspFor :: "string \<Rightarrow> string" where
  "cspFor scriptNonce = join_with ''; ''
     [''default-src '' @ quoted ''none'',
      ''script-src '' @ quoted (''nonce-'' @ scriptNonce),
      ''style-src '' @ quoted ''self'' @ '' '' @ quoted ''unsafe-inline'',
      ''connect-src '' @ quoted ''self'',
      ''img-src '' @ quoted ''self'' @ '' data:'',
      ''font-src '' @ quoted ''self'',
      ''base-uri '' @ quoted ''none'',
      ''form-action '' @ quoted ''none'',
      ''frame-ancestors '' @ quoted ''none'']"

record page =
  pg_verification :: hosted_verification
  pg_scriptNonce :: string
  pg_headers :: "(string \<times> string) list"

text \<open>The rendering of the page is the template engine's; the handler fixes its data and headers.\<close>

definition get_hosted_page :: "route_env \<Rightarrow> request \<Rightarrow> page handler" where
  "get_hosted_page ve rq =
     andThen (require_some (vrf_id_param (req_param_id rq)) (notFound ''verification'')) (\<lambda>i.
     andThen (\<lambda>w. let (v, w1) = getHostedVerification (ve_expire_ok ve) (ve_ids ve) (ve_now ve) i w in (Inr v, w1)) (\<lambda>v.
     andThen (require_some v (notFound ''verification'')) (\<lambda>v.
     let scriptNonce = to_base64 (ve_bytes ve) in
     give \<lparr>pg_verification = v, pg_scriptNonce = scriptNonce,
           pg_headers = [(''Content-Type'', ''text/html; charset=utf-8''), (''Content-Security-Policy'', cspFor scriptNonce),
             (''X-Frame-Options'', ''DENY''), (''X-Content-Type-Options'', ''nosniff''), (''Referrer-Policy'', ''no-referrer''),
             (''Cache-Control'', ''private, no-store'')]\<rparr>)))"

definition get_hosted_status :: "config \<Rightarrow> route_env \<Rightarrow> request \<Rightarrow> hosted_status handler" where
  "get_hosted_status cfg ve rq =
     andThen (rate_gate B_status (''status:ip:'' @ req_ip rq) (RATE_LIMIT_STATUS_PER_IP_PER_MIN cfg) (ve_now ve)) (\<lambda>_.
     andThen (require_some (vrf_id_param (req_param_id rq)) (notFound ''verification'')) (\<lambda>i.
     andThen (\<lambda>w. let (v, w1) = getHostedVerificationStatus (ve_expire_ok ve) (ve_ids ve) (ve_now ve) i w in (Inr v, w1)) (\<lambda>v.
     require_some v (notFound ''verification''))))"

end
