(* ===== verification/RoutesGateway.thy ===== *)
theory RoutesGateway
  imports Routes
begin

text \<open>
  The routes of the SMS gateways, \<open>routes/inbound.ts\<close>: signed inbound messages and heartbeats.
\<close>

record gateway_headers =
  gh_receiverId :: "string option"
  gh_timestamp :: "string option"
  gh_nonce :: "string option"
  gh_signature :: "string option"

text \<open>A header is a string, a list of strings of which the first counts, or missing.\<close>

datatype header_value = HString string | HList "string list"

definition header_get :: "(string \<Rightarrow> header_value option) \<Rightarrow> string \<Rightarrow> string option" where
  "header_get headers n =
     (case headers (js_lower n) of
        Some (HString s) \<Rightarrow> Some s
      | Some (HList (s # _)) \<Rightarrow> Some s
      | _ \<Rightarrow> None)"

definition readGatewayHeaders :: "(string \<Rightarrow> header_value option) \<Rightarrow> gateway_headers" where
  "readGatewayHeaders headers =
     \<lparr>gh_receiverId = header_get headers ''x-syrotp-receiver'', gh_timestamp = header_get headers ''x-syrotp-timestamp'',
      gh_nonce = header_get headers ''x-syrotp-nonce'', gh_signature = header_get headers ''x-syrotp-signature''\<rparr>"

record inbound_body =
  ib_from :: string
  ib_to :: string
  ib_body :: string
  ib_received_at :: string
  ib_idempotency_key :: string
  ib_sim_slot :: "int option"

definition inboundBody :: "(string \<Rightarrow> bool) \<Rightarrow> json option \<Rightarrow> inbound_body option" where
  "inboundBody isDatetime b =
     (if \<not> is_object b then None
      else case (z_string 3 32 (\<lambda>_. True) (field ''from'' b), z_string 3 32 (\<lambda>_. True) (field ''to'' b),
                 z_string 1 1600 (\<lambda>_. True) (field ''body'' b),
                 (case field ''received_at'' b of Some (JStr s) \<Rightarrow> if isDatetime s then Some s else None | _ \<Rightarrow> None),
                 z_string 8 128 (\<lambda>_. True) (field ''idempotency_key'' b),
                 z_optional (z_int (Some 0) (Some 7)) (field ''sim_slot'' b)) of
        (Some f, Some t, Some m, Some r, Some k, Some s) \<Rightarrow>
          Some \<lparr>ib_from = f, ib_to = t, ib_body = m, ib_received_at = r, ib_idempotency_key = k, ib_sim_slot = s\<rparr>
      | _ \<Rightarrow> None)"

text \<open>Only whether the body validates matters to the heartbeat handler.\<close>

definition heartbeatBody :: "(string \<Rightarrow> bool) \<Rightarrow> json option \<Rightarrow> bool" where
  "heartbeatBody isDatetime b =
     (is_object b \<and>
      (case field ''received_at'' b of Some (JStr s) \<Rightarrow> isDatetime s | _ \<Rightarrow> False) \<and>
      z_optional (z_int (Some 0) None) (field ''queue_depth'' b) \<noteq> None \<and>
      z_optional (z_int None None) (field ''sim_signal_dbm'' b) \<noteq> None \<and>
      z_optional (z_int (Some 0) (Some 100)) (field ''battery_percent'' b) \<noteq> None \<and>
      z_optional (z_string 0 32 (\<lambda>_. True)) (field ''app_version'' b) \<noteq> None)"

text \<open>The signature check of both routes: the reason is counted and kept from the client.\<close>

definition gateway_check :: "config \<Rightarrow> route_env \<Rightarrow> hmac_input \<Rightarrow> authed_receiver handler" where
  "gateway_check cfg ve inp w =
     (case verifyGatewayHmac cfg (ve_ce ve) (ve_now ve) inp w of
        (Inl reason, w1) \<Rightarrow> (Inl unauthorized_default, metric (HmacRejected reason) w1)
      | (Inr rcv, w1) \<Rightarrow> (Inr rcv, w1))"

definition is_matched :: "match_outcome \<Rightarrow> bool" where
  "is_matched oc = (case oc of MatchedVerification _ _ \<Rightarrow> True | MatchedBinding _ _ \<Rightarrow> True | _ \<Rightarrow> False)"

definition reasonLabel :: "match_outcome \<Rightarrow> inbound_reason" where
  "reasonLabel oc =
     (case oc of
        MatchedVerification _ _ \<Rightarrow> R_matched
      | MatchedBinding _ _ \<Rightarrow> R_matched
      | DuplicateInbound _ \<Rightarrow> R_duplicate
      | Unmatched r _ \<Rightarrow> if r = ''expired'' then R_expired else R_no_match)"

definition outcome_metrics :: "authed_receiver \<Rightarrow> match_outcome \<Rightarrow> world \<Rightarrow> world" where
  "outcome_metrics rcv oc w =
     (let w1 = metric (InboundMatchObserved (is_matched oc)) (metric (InboundReceived (ar_id rcv) (is_matched oc) (reasonLabel oc)) w)
      in if is_matched oc then metric (VerificationTerminal (ar_appId rcv) Verified) w1 else w1)"

definition inbound_audit :: "authed_receiver \<Rightarrow> request \<Rightarrow> match_outcome \<Rightarrow> audit_row" where
  "inbound_audit rcv rq oc =
     (let entry = (\<lambda>action iid meta. (audit_entry action)\<lparr>au_appId := Some (ar_appId rcv),
             au_actor := Some (''receiver:'' @ ar_id rcv), au_resourceType := Some ''inbound_sms'', au_resourceId := Some iid,
             au_ip := Some (req_ip rq), au_requestId := Some (req_id rq), au_meta := meta\<rparr>)
      in case oc of
           MatchedVerification vid iid \<Rightarrow> entry ''inbound.matched'' iid [(''verification_id'', vid)]
         | MatchedBinding bid iid \<Rightarrow> entry ''inbound.matched'' iid [(''phone_binding_id'', bid)]
         | Unmatched r iid \<Rightarrow> entry ''inbound.received'' iid [(''reason'', r)]
         | DuplicateInbound iid \<Rightarrow> entry ''inbound.received'' iid [(''reason'', ''duplicate'')])"

datatype inbound_reply = ReplyVerification string | ReplyBinding string | ReplyUnmatched string

definition answer_inbound :: "match_outcome \<Rightarrow> int \<times> inbound_reply" where
  "answer_inbound oc =
     (case oc of
        MatchedVerification vid _ \<Rightarrow> (202, ReplyVerification vid)
      | MatchedBinding bid _ \<Rightarrow> (202, ReplyBinding bid)
      | DuplicateInbound _ \<Rightarrow> (409, ReplyUnmatched ''duplicate'')
      | Unmatched r _ \<Rightarrow> (202, ReplyUnmatched r))"

definition post_inbound_sms :: "config \<Rightarrow> route_env \<Rightarrow> gateway_headers \<Rightarrow> request \<Rightarrow> (int \<times> inbound_reply) handler" where
  "post_inbound_sms cfg ve gh rq =
     andThen (ensure (truthy (gh_receiverId gh) \<and> truthy (gh_timestamp gh) \<and> truthy (gh_nonce gh) \<and> truthy (gh_signature gh))
                (unauthorized ''missing gateway headers'')) (\<lambda>_.
     andThen (ensure (prefixed_id ''rcv_'' (the (gh_receiverId gh))) (badRequest ''bad_receiver_id'' ''malformed receiver id'')) (\<lambda>_.
     andThen (require_some (req_rawBody rq) (badRequest ''bad_body'' ''raw body unavailable'')) (\<lambda>raw.
     andThen (rate_gate B_inbound_per_ip (''inbound:ip:'' @ req_ip rq) (RATE_LIMIT_INBOUND_PER_IP_PER_MIN cfg) (ve_now ve)) (\<lambda>_.
     andThen (gateway_check cfg ve \<lparr>hi_receiverId = the (gh_receiverId gh), hi_timestampHeader = the (gh_timestamp gh),
                hi_nonceHeader = the (gh_nonce gh), hi_signatureHeader = the (gh_signature gh), hi_rawBody = raw\<rparr>) (\<lambda>rcv.
     andThen (rate_gate B_inbound (''inbound:rcv:'' @ ar_id rcv) (RATE_LIMIT_INBOUND_PER_RECEIVER_PER_MIN cfg) (ve_now ve)) (\<lambda>_.
     andThen (rate_gate B_inbound_sms_per_app (''inbound:app:'' @ ar_appId rcv) (RATE_LIMIT_INBOUND_PER_APP_PER_MIN cfg) (ve_now ve)) (\<lambda>_.
     andThen (require_some (inboundBody (ve_isDatetime ve) (req_body rq)) (badRequest ''validation_error'' ''invalid inbound body'')) (\<lambda>body.
     andThen (processInbound cfg (ve_parse ve) (ve_ulid ve) (ve_ids ve) (ve_now ve) (ve_dbnow ve) (ve_locked ve)
                \<lparr>mi_receiverId = ar_id rcv, mi_from = ib_from body, mi_to = ib_to body, mi_body = ib_body body,
                 mi_receivedAt = ve_date ve (ib_received_at body), mi_idempotencyKey = ib_idempotency_key body\<rparr>) (\<lambda>oc.
     andThen (effect (outcome_metrics rcv oc)) (\<lambda>_.
     andThen (effect (audit (ve_audit_ok ve) (inbound_audit rcv rq oc))) (\<lambda>_.
     give (answer_inbound oc))))))))))))"

section \<open>Heartbeats\<close>

record heartbeat_reply =
  hr_server_time :: int
  hr_next_heartbeat_seconds :: int

text \<open>The row is rewritten only when its last heartbeat is older than a quarter of the timeout.\<close>

definition record_heartbeat :: "config \<Rightarrow> int \<Rightarrow> string \<Rightarrow> world \<Rightarrow> world" where
  "record_heartbeat cfg now i w =
     (let coalesceThresholdSec = RECEIVER_HEARTBEAT_TIMEOUT_SECONDS cfg div 4;
          lastHb = (case select_one (\<lambda>r. rc_id r = i) (receivers (w_db w)) of None \<Rightarrow> None | Some r \<Rightarrow> rc_lastHeartbeatAt r);
          stale = (case lastHb of None \<Rightarrow> True | Some t \<Rightarrow> now - t > coalesceThresholdSec * 1000)
      in if stale then
           metric (HeartbeatDbUpdate True) (w\<lparr>w_db := (w_db w)\<lparr>receivers :=
             update_where (\<lambda>r. rc_id r = i) (\<lambda>r. r\<lparr>rc_lastHeartbeatAt := Some now\<rparr>) (receivers (w_db w))\<rparr>\<rparr>)
         else metric (HeartbeatDbUpdate False) w)"

definition post_heartbeat :: "config \<Rightarrow> route_env \<Rightarrow> gateway_headers \<Rightarrow> request \<Rightarrow> heartbeat_reply handler" where
  "post_heartbeat cfg ve gh rq =
     andThen (ensure (prefixed_id ''rcv_'' (req_param_id rq)) (badRequest ''bad_receiver_id'' ''malformed receiver id'')) (\<lambda>_.
     andThen (ensure (truthy (gh_timestamp gh) \<and> truthy (gh_nonce gh) \<and> truthy (gh_signature gh)) unauthorized_default) (\<lambda>_.
     andThen (require_some (req_rawBody rq) (badRequest ''bad_body'' ''raw body unavailable'')) (\<lambda>raw.
     andThen (rate_gate B_heartbeat_per_ip (''inbound:ip:'' @ req_ip rq) (RATE_LIMIT_INBOUND_PER_IP_PER_MIN cfg) (ve_now ve)) (\<lambda>_.
     andThen (gateway_check cfg ve \<lparr>hi_receiverId = req_param_id rq, hi_timestampHeader = the (gh_timestamp gh),
                hi_nonceHeader = the (gh_nonce gh), hi_signatureHeader = the (gh_signature gh), hi_rawBody = raw\<rparr>) (\<lambda>rcv.
     andThen (rate_gate B_heartbeat_per_receiver (''heartbeat:rcv:'' @ ar_id rcv)
                (RATE_LIMIT_HEARTBEAT_PER_RECEIVER_PER_MIN cfg) (ve_now ve)) (\<lambda>_.
     andThen (ensure (heartbeatBody (ve_isDatetime ve) (req_body rq)) (badRequest ''validation_error'' ''invalid heartbeat body'')) (\<lambda>_.
     andThen (effect (record_heartbeat cfg (ve_now ve) (ar_id rcv))) (\<lambda>_.
     give \<lparr>hr_server_time = ve_now ve, hr_next_heartbeat_seconds = RECEIVER_HEARTBEAT_TIMEOUT_SECONDS cfg div 2\<rparr>))))))))"

end
