(* ===== verification/AdminReceivers.thy ===== *)
theory AdminReceivers
  imports RoutesGateway
begin

text \<open>
  Receiver administration, \<open>admin/receivers.ts\<close>, and the probe that signs a sample inbound request,
  \<open>admin/probe.ts\<close>. The closing property composes them with the gateway authentication: what
  \<open>addReceiver\<close> hands out is what \<open>verifyGatewayHmac\<close> accepts.
\<close>

section \<open>Adding a receiver\<close>

record add_receiver_options =
  ao_appId :: string
  ao_name :: string
  ao_operator :: "string option"
  ao_msisdn :: string
  ao_simulateHeartbeat :: bool

record add_receiver_result =
  ad_receiverId :: string
  ad_msisdn :: string
  ad_signingKey :: string
  ad_appId :: string
  ad_appName :: string
  ad_operator :: "string option"
  ad_name :: string

text \<open>\<open>s?.trim() || null\<close>.\<close>

definition trim_or_null :: "string option \<Rightarrow> string option" where
  "trim_or_null s = (case s of None \<Rightarrow> None | Some x \<Rightarrow> if js_trim x = [] then None else Some (js_trim x))"

definition new_receiver :: "add_receiver_options \<Rightarrow> string \<Rightarrow> string \<Rightarrow> string \<Rightarrow> int \<Rightarrow> int \<Rightarrow> receiver_row" where
  "new_receiver opts receiverId e164 wrapped now dbnow =
     \<lparr>rc_id = receiverId, rc_appId = ao_appId opts, rc_name = js_trim (ao_name opts),
      rc_operator = trim_or_null (ao_operator opts), rc_msisdn = e164, rc_secretHash = wrapped, rc_enabled = True,
      rc_lastHeartbeatAt = (if ao_simulateHeartbeat opts then Some now else None), rc_createdAt = dbnow\<rparr>"

text \<open>The receiver id, the key bytes and the cipher's initialisation vector are arguments; the message of
  \<open>app_disabled\<close> is cut at its dash, which is not ASCII.\<close>

definition addReceiver ::
  "config \<Rightarrow> crypto_env \<Rightarrow> phone_parser \<Rightarrow> string \<Rightarrow> string \<Rightarrow> string \<Rightarrow> int \<Rightarrow> int \<Rightarrow> add_receiver_options \<Rightarrow> world
     \<Rightarrow> (exn + add_receiver_result) \<times> world" where
  "addReceiver cfg ce parsePhone u rb iv now dbnow opts w =
     (if \<not> prefixed_id ''app_'' (ao_appId opts) then
        (Inl (AdminError ''invalid_app_id'' (''appId must look like '' @ quoted ''app_<ulid>'' @ ''; got: '' @ ao_appId opts)), w)
      else if js_trim (ao_name opts) = [] then (Inl (AdminError ''invalid_name'' ''receiver name is required''), w)
      else case normalizePhone parsePhone (ao_msisdn opts) (DEFAULT_PHONE_REGION cfg) of
        Inl e \<Rightarrow>
          (Inl (case e of
             PhoneError _ \<Rightarrow> AdminError ''invalid_msisdn'' (''msisdn '' @ quoted (ao_msisdn opts) @ '' is not a valid phone'')
           | _ \<Rightarrow> e), w)
      | Inr phone \<Rightarrow>
        case select_one (\<lambda>a. ap_id a = ao_appId opts) (apps (w_db w)) of
          None \<Rightarrow> (Inl (AdminError ''app_not_found'' (''app '' @ ao_appId opts @ '' not found'')), w)
        | Some app \<Rightarrow>
          if ap_disabled app then
            (Inl (AdminError ''app_disabled'' (''app '' @ ao_appId opts @ '' is disabled'')), w)
          else
            let receiverId = newId ''rcv'' u; signingKey = generateNonceHex rb in
            case wrapGatewaySigningKey cfg ce iv signingKey receiverId of
              Inl e \<Rightarrow> (Inl e, w)
            | Inr wrapped \<Rightarrow>
              (Inr \<lparr>ad_receiverId = receiverId, ad_msisdn = np_e164 phone, ad_signingKey = signingKey,
                    ad_appId = ao_appId opts, ad_appName = ap_name app, ad_operator = trim_or_null (ao_operator opts),
                    ad_name = js_trim (ao_name opts)\<rparr>,
               w\<lparr>w_db := (w_db w)\<lparr>receivers := receivers (w_db w) @
                  [new_receiver opts receiverId (np_e164 phone) wrapped now dbnow]\<rparr>\<rparr>))"

section \<open>Listing, disabling, enabling\<close>

record receiver_record =
  rr_row :: receiver_row
  rr_appName :: string
  rr_lastHeartbeatAgoSeconds :: "int option"
  rr_healthy :: bool

text \<open>The health shown to operators; the router itself asks for strictly less than the timeout.\<close>

definition shown_healthy :: "config \<Rightarrow> int \<Rightarrow> receiver_row \<Rightarrow> bool" where
  "shown_healthy cfg now r \<longleftrightarrow>
     rc_enabled r \<and>
     (case rc_lastHeartbeatAt r of None \<Rightarrow> False | Some t \<Rightarrow> now - t \<le> RECEIVER_HEARTBEAT_TIMEOUT_SECONDS cfg * 1000)"

definition listReceivers :: "config \<Rightarrow> int \<Rightarrow> string option \<Rightarrow> bool \<Rightarrow> db \<Rightarrow> receiver_record list" where
  "listReceivers cfg now appId includeDisabled d =
     (let joined = concat (map (\<lambda>r. map (Pair r) (filter (\<lambda>a. ap_id a = rc_appId r) (apps d))) (receivers d));
          rows = sort_key (\<lambda>(r, a). - rc_createdAt r)
            (filter (\<lambda>(r, a). (truthy appId \<longrightarrow> Some (rc_appId r) = appId) \<and> (includeDisabled \<or> rc_enabled r)) joined)
      in map (\<lambda>(r, a). \<lparr>rr_row = r, rr_appName = ap_name a,
           rr_lastHeartbeatAgoSeconds = map_option (\<lambda>t. (now - t) div 1000) (rc_lastHeartbeatAt r),
           rr_healthy = shown_healthy cfg now r\<rparr>) rows)"

record switch_result =
  sw_id :: string
  sw_changed :: bool
  sw_msisdn :: string

text \<open>
  \<open>disableReceiver\<close> and \<open>enableReceiver\<close> differ in the value they set; \<open>sw_changed\<close> is
  \<open>wasEnabled\<close> of the one and \<open>wasDisabled\<close> of the other.
\<close>

definition set_enabled :: "bool \<Rightarrow> string \<Rightarrow> world \<Rightarrow> (exn + switch_result) \<times> world" where
  "set_enabled on receiverId w =
     (if \<not> prefixed_id ''rcv_'' receiverId then
        (Inl (AdminError ''invalid_receiver_id'' (''receiver id must look like '' @ quoted ''rcv_<ulid>'')), w)
      else case select_one (\<lambda>r. rc_id r = receiverId) (receivers (w_db w)) of
        None \<Rightarrow> (Inl (AdminError ''receiver_not_found'' (''receiver '' @ receiverId @ '' not found'')), w)
      | Some row \<Rightarrow>
        if rc_enabled row = on then (Inr \<lparr>sw_id = rc_id row, sw_changed = False, sw_msisdn = rc_msisdn row\<rparr>, w)
        else (Inr \<lparr>sw_id = rc_id row, sw_changed = True, sw_msisdn = rc_msisdn row\<rparr>,
              w\<lparr>w_db := (w_db w)\<lparr>receivers := update_where (\<lambda>r. rc_id r = receiverId) (\<lambda>r. r\<lparr>rc_enabled := on\<rparr>) (receivers (w_db w))\<rparr>\<rparr>))"

definition disableReceiver :: "string \<Rightarrow> world \<Rightarrow> (exn + switch_result) \<times> world" where
  "disableReceiver receiverId w = set_enabled False receiverId w"

definition enableReceiver :: "string \<Rightarrow> world \<Rightarrow> (exn + switch_result) \<times> world" where
  "enableReceiver receiverId w = set_enabled True receiverId w"

section \<open>The probe\<close>

record probe_options =
  po_receiverId :: string
  po_signingKey :: string
  po_baseUrl :: string

text \<open>What the probe draws and reads: code, idempotency and nonce bytes, the clock and its ISO form.\<close>

record probe_draws =
  pd_code :: string
  pd_key :: string
  pd_nonce :: string
  pd_now :: int
  pd_iso :: string

definition sampleCode :: "string \<Rightarrow> string" where
  "sampleCode buf = draw CODE_ALPHABET (\<lambda>i. code_unit (buf ! i) mod length CODE_ALPHABET) 6"

text \<open>\<open>JSON.stringify\<close> of an object of strings without characters to escape.\<close>

definition dquoted :: "string \<Rightarrow> string" where
  "dquoted s = CHR 0x22 # s @ [CHR 0x22]"

definition stringify :: "(string \<times> string) list \<Rightarrow> string" where
  "stringify kvs = ''{'' @ join_with '','' (map (\<lambda>(k, v). dquoted k @ '':'' @ dquoted v) kvs) @ ''}''"

definition probe_fields :: "probe_draws \<Rightarrow> (string \<times> string) list" where
  "probe_fields p =
     [(''from'', ''+963999000000''), (''to'', ''self''), (''body'', ''VERIFY '' @ sampleCode (pd_code p)),
      (''received_at'', pd_iso p), (''idempotency_key'', ''probe_'' @ to_hex (pd_key p))]"

record probe_request =
  pq_url :: string
  pq_headers :: "(string \<times> string) list"
  pq_body :: string

definition probe_message :: "crypto_env \<Rightarrow> probe_options \<Rightarrow> probe_draws \<Rightarrow> probe_request" where
  "probe_message ce opts p =
     (let body = stringify (probe_fields p);
          ts = show_int (pd_now p div 1000);
          nonce = to_hex (pd_nonce p);
          sig = ce_hmac ce (po_signingKey opts) (ts @ ''.'' @ nonce @ ''.'' @ ce_sha256 ce body)
      in \<lparr>pq_url = strip_slashes (po_baseUrl opts) @ ''/v1/inbound/sms'',
          pq_headers = [(''Content-Type'', ''application/json''), (''X-SYROTP-Receiver'', po_receiverId opts),
            (''X-SYROTP-Timestamp'', ts), (''X-SYROTP-Nonce'', nonce), (''X-SYROTP-Signature'', sig),
            (''User-Agent'', ''syrotp-cli/0.2 (testReceiver)'')],
          pq_body = body\<rparr>)"

record probe_result =
  ps_status :: int
  ps_ok :: bool
  ps_matched :: bool
  ps_reason :: "json option"
  ps_body :: json

text \<open>
  Reading the answer: an empty text is an empty object, text that is no JSON is kept raw, and a
  body \<open>null\<close> makes the property access throw.
\<close>

definition probe_answer :: "(string \<Rightarrow> json option) \<Rightarrow> int \<Rightarrow> string \<Rightarrow> exn + probe_result" where
  "probe_answer parse status text =
     (let parsed = (if text = [] then JObj [] else case parse text of Some j \<Rightarrow> j | None \<Rightarrow> JObj [(''_raw'', JStr text)])
      in if parsed = JNull then Inl (JsError ''Cannot read properties of null'')
         else Inr \<lparr>ps_status = status, ps_ok = (200 \<le> status \<and> status < 300),
                   ps_matched = (field ''matched'' (Some parsed) = Some (JBool True)),
                   ps_reason = field ''reason'' (Some parsed), ps_body = parsed\<rparr>)"

text \<open>\<open>fetch\<close> answers or throws, the abort of the timer included.\<close>

definition testReceiver ::
  "crypto_env \<Rightarrow> (string \<Rightarrow> json option) \<Rightarrow> (probe_request \<Rightarrow> exn + int \<times> string) \<Rightarrow> probe_options \<Rightarrow> probe_draws \<Rightarrow> exn + probe_result" where
  "testReceiver ce parse fetch opts p =
     (case fetch (probe_message ce opts p) of
        Inl e \<Rightarrow> Inl e
      | Inr (status, text) \<Rightarrow> probe_answer parse status text)"

section \<open>A receiver's life\<close>

text \<open>What the server reads from the headers of the probe.\<close>

definition received :: "(string \<times> string) list \<Rightarrow> string \<Rightarrow> header_value option" where
  "received hs n = map_option HString (map_of (map (\<lambda>(k, v). (js_lower k, v)) hs) n)"

definition probe_input :: "probe_request \<Rightarrow> hmac_input" where
  "probe_input q =
     (let gh = readGatewayHeaders (received (pq_headers q)) in
      \<lparr>hi_receiverId = the (gh_receiverId gh), hi_timestampHeader = the (gh_timestamp gh), hi_nonceHeader = the (gh_nonce gh),
       hi_signatureHeader = the (gh_signature gh), hi_rawBody = pq_body q\<rparr>)"

lemma probe_headers_read:
  "probe_input (probe_message ce opts p) =
     \<lparr>hi_receiverId = po_receiverId opts, hi_timestampHeader = show_int (pd_now p div 1000), hi_nonceHeader = to_hex (pd_nonce p),
      hi_signatureHeader = ce_hmac ce (po_signingKey opts)
        (signed_payload ce (pd_now p div 1000) (to_hex (pd_nonce p)) (stringify (probe_fields p))),
      hi_rawBody = stringify (probe_fields p)\<rparr>"
proof -
  have l: "js_lower ''Content-Type'' = ''content-type''" "js_lower ''X-SYROTP-Receiver'' = ''x-syrotp-receiver''"
    "js_lower ''X-SYROTP-Timestamp'' = ''x-syrotp-timestamp''" "js_lower ''X-SYROTP-Nonce'' = ''x-syrotp-nonce''"
    "js_lower ''X-SYROTP-Signature'' = ''x-syrotp-signature''" "js_lower ''User-Agent'' = ''user-agent''"
    "js_lower ''x-syrotp-receiver'' = ''x-syrotp-receiver''" "js_lower ''x-syrotp-timestamp'' = ''x-syrotp-timestamp''"
    "js_lower ''x-syrotp-nonce'' = ''x-syrotp-nonce''" "js_lower ''x-syrotp-signature'' = ''x-syrotp-signature''"
    by code_simp+
  show ?thesis
    by (simp add: probe_input_def readGatewayHeaders_def header_get_def received_def probe_message_def l Let_def signed_payload_def)
qed

lemma addReceiver_Inr:
  assumes "addReceiver cfg ce pp u rb iv now dbnow opts w = (Inr res, w1)"
  obtains row where "receivers (w_db w1) = receivers (w_db w) @ [row]" and "w_redis w1 = w_redis w"
    and "rc_id row = newId ''rcv'' u" and "ad_receiverId res = newId ''rcv'' u" and "rc_enabled row"
    and "rc_appId row = ad_appId res" and "rc_msisdn row = ad_msisdn res"
    and "wrapGatewaySigningKey cfg ce iv (ad_signingKey res) (rc_id row) = Inr (rc_secretHash row)"
proof -
  obtain e164 wrapped where
    "receivers (w_db w1) = receivers (w_db w) @ [new_receiver opts (newId ''rcv'' u) e164 wrapped now dbnow]"
    "w_redis w1 = w_redis w" "ad_receiverId res = newId ''rcv'' u" "ad_appId res = ao_appId opts" "ad_msisdn res = e164"
    "wrapGatewaySigningKey cfg ce iv (ad_signingKey res) (newId ''rcv'' u) = Inr wrapped"
    using assms unfolding addReceiver_def Let_def by (auto split: if_splits sum.splits option.splits)
  then show thesis by (intro that [of "new_receiver opts (newId ''rcv'' u) e164 wrapped now dbnow"]) (simp_all add: new_receiver_def)
qed

lemma select_new:
  assumes "rc_id row \<notin> rc_id ` set rs"
  shows "select_one (\<lambda>r. rc_id r = rc_id row) (rs @ [row]) = Some row"
  using assms by (induction rs) auto

text \<open>The signature of the probe is checked against the row, and only the switch decides.\<close>

lemma probe_verified:
  assumes sel: "select_one (\<lambda>r. rc_id r = po_receiverId opts) (receivers (w_db w)) = Some row"
    and key: "unwrap (ce_gcm ce) (MASTER_ENCRYPTION_KEY cfg) (rc_secretHash row) (Some (receiver_aad (rc_id row))) = Inr (po_signingKey opts)"
    and hex: "\<And>k m. all_in_between is_hex 64 64 (ce_hmac ce k m)" and n: "length (pd_nonce p) = 16"
    and i: "prefixed_id ''rcv_'' (po_receiverId opts)"
    and skew: "\<bar>now div 1000 - pd_now p div 1000\<bar> \<le> INBOUND_TIMESTAMP_SKEW_SECONDS cfg"
    and fresh: "redis_get (w_redis w) now (nonce_key (po_receiverId opts) (to_hex (pd_nonce p))) = None"
  shows "fst (verifyGatewayHmac cfg ce now (probe_input (probe_message ce opts p)) w) =
     (if rc_enabled row then Inr (receiver_of row) else Inl ''unknown_receiver'')"
proof -
  have "list_all is_hex (to_hex (pd_nonce p))" by (rule to_hex_class)
  then have nonce: "all_in_between is_hex 32 128 (to_hex (pd_nonce p))" using n by (simp add: all_in_between_def)
  show ?thesis
  proof (cases "rc_enabled row")
    case True
    have "signed_by cfg ce now (probe_input (probe_message ce opts p)) (receivers (w_db w)) row"
      using True sel key hex nonce i skew
      by (auto simp: signed_by_def probe_headers_read parse_int_show_int)
    then have "fst (verifyGatewayHmac cfg ce now (probe_input (probe_message ce opts p)) w) = Inr (receiver_of row)"
      using fresh by (intro signed_request_accepted) (simp_all add: probe_headers_read)
    with True show ?thesis by simp
  next
    case False
    then show ?thesis
      using sel nonce i skew hex
      by (simp add: verifyGatewayHmac_def probe_headers_read parse_int_show_int Let_def)
  qed
qed

lemma set_enabled_effect:
  assumes "select_one (\<lambda>r. rc_id r = i) (receivers (w_db w)) = Some row" and "prefixed_id ''rcv_'' i"
  shows "select_one (\<lambda>r. rc_id r = i) (receivers (w_db (snd (set_enabled on i w)))) = Some (row\<lparr>rc_enabled := on\<rparr>)"
    and "w_redis (snd (set_enabled on i w)) = w_redis w"
proof -
  have "select_one (\<lambda>r. rc_id r = i) (update_where (\<lambda>r. rc_id r = i) f rs) = Some (f row)"
    if "select_one (\<lambda>r. rc_id r = i) rs = Some row" "\<And>r. rc_id (f r) = rc_id r" for f rs
    using that by (induction rs) (auto split: if_splits)
  then show "select_one (\<lambda>r. rc_id r = i) (receivers (w_db (snd (set_enabled on i w)))) = Some (row\<lparr>rc_enabled := on\<rparr>)"
    using assms by (auto simp: set_enabled_def)
  show "w_redis (snd (set_enabled on i w)) = w_redis w" using assms by (simp add: set_enabled_def)
qed

text \<open>
  The life of a receiver. Once \<open>addReceiver\<close> succeeds with a new id, the probe signed with the
  key it returned authenticates as that receiver; after \<open>disableReceiver\<close> the same
  request is refused as an unknown receiver, and after \<open>enableReceiver\<close> it is accepted again.
  Relied on: deciphering undoes enciphering, HMAC-SHA256 prints 64 hex digits, the nonce is 16 bytes and unused.
\<close>

theorem receiver_life:
  assumes add: "addReceiver cfg ce pp u rb iv now0 dbnow opts w = (Inr res, w1)"
    and new: "newId ''rcv'' u \<notin> rc_id ` set (receivers (w_db w))" and u: "all_in is_alnum u"
    and laws: "gcm_ok (ce_gcm ce)" "\<And>k m. all_in_between is_hex 64 64 (ce_hmac ce k m)" "length (pd_nonce p) = 16"
    and skew: "\<bar>now div 1000 - pd_now p div 1000\<bar> \<le> INBOUND_TIMESTAMP_SKEW_SECONDS cfg"
    and fresh: "redis_get (w_redis w) now (nonce_key (newId ''rcv'' u) (to_hex (pd_nonce p))) = None"
    and msg: "msg = probe_input (probe_message ce \<lparr>po_receiverId = ad_receiverId res, po_signingKey = ad_signingKey res, po_baseUrl = url\<rparr> p)"
    and w2: "w2 = snd (disableReceiver (ad_receiverId res) w1)" and w3: "w3 = snd (enableReceiver (ad_receiverId res) w2)"
  shows "(\<forall>v \<in> {w1, w3}. fst (verifyGatewayHmac cfg ce now msg v)
             = Inr \<lparr>ar_id = ad_receiverId res, ar_appId = ad_appId res, ar_msisdn = ad_msisdn res\<rparr>) \<and>
         fst (verifyGatewayHmac cfg ce now msg w2) = Inl ''unknown_receiver''"
proof -
  obtain row where row: "receivers (w_db w1) = receivers (w_db w) @ [row]" "w_redis w1 = w_redis w"
      "rc_id row = newId ''rcv'' u" "ad_receiverId res = newId ''rcv'' u" "rc_enabled row"
      "rc_appId row = ad_appId res" "rc_msisdn row = ad_msisdn res"
      "wrapGatewaySigningKey cfg ce iv (ad_signingKey res) (rc_id row) = Inr (rc_secretHash row)"
    using add by (rule addReceiver_Inr)
  let ?i = "ad_receiverId res"
  have i: "prefixed_id ''rcv_'' ?i" using newId_prefixed [OF u, of "''rcv''"] row(4) by simp
  have s1: "select_one (\<lambda>r. rc_id r = ?i) (receivers (w_db w1)) = Some row"
    using select_new [of row "receivers (w_db w)"] new row(1,3,4) by simp
  have s2: "select_one (\<lambda>r. rc_id r = ?i) (receivers (w_db w2)) = Some (row\<lparr>rc_enabled := False\<rparr>)" "w_redis w2 = w_redis w1"
    using set_enabled_effect [OF s1 i] w2 by (simp_all add: disableReceiver_def)
  have s3: "select_one (\<lambda>r. rc_id r = ?i) (receivers (w_db w3)) = Some (row\<lparr>rc_enabled := False, rc_enabled := True\<rparr>)" "w_redis w3 = w_redis w2"
    using set_enabled_effect [OF s2(1) i] w3 by (simp_all add: enableReceiver_def)
  have key: "unwrap (ce_gcm ce) (MASTER_ENCRYPTION_KEY cfg) (rc_secretHash row) (Some (receiver_aad (rc_id row))) = Inr (ad_signingKey res)"
    using unwrap_wrap [OF laws(1) row(8) [unfolded wrapGatewaySigningKey_def]] by (simp add: Let_def)
  note v = probe_verified [where opts = "\<lparr>po_receiverId = ?i, po_signingKey = ad_signingKey res, po_baseUrl = url\<rparr>" and p = p,
      OF _ _ laws(2,3) _ skew, simplified]
  show ?thesis
    using v [OF s1 key i] v [OF s2(1) _ i] v [OF s3(1) _ i] key fresh row(2-7) s2(2) s3(2)
    by (auto simp: msg receiver_of_def)
qed


definition hex_env :: crypto_env where
  "hex_env = \<lparr>ce_gcm = rev_gcm, ce_hmac = (\<lambda>k m. take 64 (to_hex (k @ m) @ replicate 64 CHR ''0'')), ce_sha256 = (\<lambda>m. to_hex m)\<rparr>"

definition added_demo :: "(exn + add_receiver_result) \<times> world" where
  "added_demo = addReceiver default_config hex_env (\<lambda>s region. Some \<lparr>pp_isValid = True, pp_type = OtherType, pp_number = s,
     pp_nationalNumber = s, pp_country = None\<rparr>) ''7'' ''secret'' ''123456789012'' 0 0
     \<lparr>ao_appId = ''app_1'', ao_name = '' gw '', ao_operator = Some '' '', ao_msisdn = ''+963900000000'', ao_simulateHeartbeat = False\<rparr>
     (empty_world\<lparr>w_db := empty_db\<lparr>apps := [\<lparr>ap_id = ''app_1'', ap_name = ''Acme'', ap_createdAt = 0, ap_disabled = False\<rparr>]\<rparr>\<rparr>)"

lemma added_demo_eval:
  "(case fst added_demo of Inr r \<Rightarrow> (ad_receiverId r, ad_operator r, ad_name r) = (''rcv_7'', None, ''gw'') | Inl _ \<Rightarrow> False)"
  by code_simp

theorem receiver_life_witness:
  "\<exists>res w1. added_demo = (Inr res, w1) \<and>
     fst (verifyGatewayHmac default_config hex_env 200000 (probe_input (probe_message hex_env
        \<lparr>po_receiverId = ad_receiverId res, po_signingKey = ad_signingKey res, po_baseUrl = ''http://x/''\<rparr>
        \<lparr>pd_code = ''abcdef'', pd_key = ''12345678'', pd_nonce = replicate 16 CHR ''n'', pd_now = 100000, pd_iso = ''t''\<rparr>))
        (snd (disableReceiver (ad_receiverId res) w1))) = Inl ''unknown_receiver''"
proof -
  obtain res w1 where r: "added_demo = (Inr res, w1)"
    using added_demo_eval by (metis (no_types, lifting) old.sum.exhaust old.sum.simps(5) prod.collapse)
  have hex: "all_in_between is_hex 64 64 (ce_hmac hex_env k m)" for k m
  proof -
    have "list_all is_hex (to_hex (k @ m) @ replicate 64 CHR ''0'')"
      using to_hex_class by (simp add: list_all_iff char_class_defs code_unit_def)
    then have "list_all is_hex (take 64 (to_hex (k @ m) @ replicate 64 CHR ''0''))" by (rule list_all_take)
    then show ?thesis by (simp add: all_in_between_def min_def hex_env_def)
  qed
  have u: "all_in is_alnum ''7''" by code_simp
  have g: "gcm_ok (ce_gcm hex_env)" using rev_gcm_ok by (simp add: hex_env_def)
  have f: "redis_get empty_redis 200000 k = None" for k by (simp add: redis_get_def empty_redis_def)
  show ?thesis
    using receiver_life [OF r [unfolded added_demo_def] _ u g hex, where now = 200000 and url = "''http://x/''"
        and p = "\<lparr>pd_code = ''abcdef'', pd_key = ''12345678'', pd_nonce = replicate 16 CHR ''n'', pd_now = 100000, pd_iso = ''t''\<rparr>",
        OF _ _ _ _ refl refl refl] r
    by (auto simp: empty_world_def empty_db_def default_config_def f)
qed

end
