(* ===== verification/CliCommands.thy ===== *)
theory CliCommands
  imports Cli AdminReceivers
begin

text \<open>
  The commands of the command line that act: \<open>syrotp bootstrap\<close> (\<open>commands/bootstrap.ts\<close>),
  \<open>syrotp receiver\<close> (\<open>commands/receiver.ts\<close>), \<open>syrotp smoke\<close> (\<open>commands/smoke.ts\<close>), \<open>syrotp loadtest\<close>
  (\<open>commands/loadtest.ts\<close>) and the dispatcher (\<open>index.ts\<close>). They call the modelled admin functions
  of the server. A command returns how it ended, what it wrote and the new state.
\<close>

section \<open>Environment and outcome\<close>

text \<open>
  The surroundings of one run. \<open>cv_config\<close> is what importing the server's configuration gives, \<open>None\<close>
  when that ends the process; \<open>cv_down1\<close> and \<open>cv_down2\<close> are the driver's errors at the first
  and second call of an admin function; \<open>cv_health\<close> answers the health probe with a reason or a version;
  \<open>cv_spawn\<close> is the exit code of a program. Identifiers, random bytes and clocks are as in the admin functions.
\<close>

record cli_env =
  cv_env :: "string \<rightharpoonup> string"
  cv_color :: bool
  cv_config :: "config option"
  cv_crypto :: crypto_env
  cv_parsePhone :: phone_parser
  cv_down1 :: "exn option"
  cv_down2 :: "exn option"
  cv_ulids :: "string \<times> string \<times> string"
  cv_rb1 :: string
  cv_rb2 :: string
  cv_rcvUlid :: string
  cv_keyBytes :: string
  cv_iv :: string
  cv_now :: int
  cv_dbnow :: int
  cv_iso :: "int \<Rightarrow> string"
  cv_post :: "probe_request \<Rightarrow> exn + int \<times> string"
  cv_parse :: "string \<Rightarrow> json option"
  cv_draws :: probe_draws
  cv_latency :: string
  cv_show :: "json \<Rightarrow> string"
  cv_health :: "string \<Rightarrow> string + string"
  cv_spawn :: "string \<Rightarrow> string list \<Rightarrow> int"
  cv_execPath :: string
  cv_doctor :: doctor_env
  cv_version :: string

datatype outcome = Returned exit_code | Thrown cli_error | Exited

type_synonym cli_run = "outcome \<times> written list \<times> world"

definition takes :: "string \<Rightarrow> string \<times> flag_def" where
  "takes name = (name, \<lparr>fd_value = True, fd_alias = None\<rparr>)"

definition switch :: "string \<Rightarrow> string \<times> flag_def" where
  "switch name = (name, \<lparr>fd_value = False, fd_alias = None\<rparr>)"

definition help_flag :: "string \<times> flag_def" where
  "help_flag = (''help'', \<lparr>fd_value = False, fd_alias = Some ''h''\<rparr>)"

definition strOrNull :: "flag_value option \<Rightarrow> string option" where
  "strOrNull v = (case v of Some (FStr s) \<Rightarrow> (if js_trim s \<noteq> [] then Some (js_trim s) else None) | _ \<Rightarrow> None)"

definition unknown_flag :: "string \<Rightarrow> string" where
  "unknown_flag tok = ''unknown flag: '' @ tok"

text \<open>The guard before the admin module is imported: \<open>Some\<close> is what is thrown.\<close>

definition requireDbEnv :: "(string \<rightharpoonup> string) \<Rightarrow> cli_error option" where
  "requireDbEnv env =
     (if \<not> truthy (env ''DATABASE_URL'') then
        Some (missingConfig ''DATABASE_URL is not set''
          (Some (''this command writes to Postgres directly '' @ DASH @ '' set DATABASE_URL in .env or your shell'')))
      else if \<not> truthy (env ''MASTER_ENCRYPTION_KEY'') then
        Some (missingConfig ''MASTER_ENCRYPTION_KEY is not set'' (Some ''needed to wrap/unwrap gateway signing keys at rest''))
      else None)"

text \<open>The message and the class of an error.\<close>

definition exn_message :: "exn \<Rightarrow> string" where
  "exn_message e =
     (case e of
        ApiError a \<Rightarrow> err_message a | PhoneError m \<Rightarrow> m | WebhookValidationError c m \<Rightarrow> m
      | UniqueViolation c \<Rightarrow> ''duplicate key value violates unique constraint '' @ dquoted c
      | AdminError c m \<Rightarrow> m | FastifyError f \<Rightarrow> fe_message f | JsError m \<Rightarrow> m)"

definition exn_class :: "exn \<Rightarrow> string" where
  "exn_class e =
     (case e of
        ApiError _ \<Rightarrow> ''ApiError'' | PhoneError _ \<Rightarrow> ''PhoneError'' | WebhookValidationError _ _ \<Rightarrow> ''WebhookValidationError''
      | UniqueViolation _ \<Rightarrow> ''PostgresError'' | AdminError _ _ \<Rightarrow> ''AdminError'' | FastifyError _ \<Rightarrow> ''FastifyError'' | JsError _ \<Rightarrow> ''Error'')"

text \<open>The two copies of the function differ in the words of one hint.\<close>

definition mapAdminError :: "string \<Rightarrow> exn \<Rightarrow> string \<Rightarrow> cli_error" where
  "mapAdminError postgres err pre =
     (case err of
        AdminError code message \<Rightarrow>
          (if code \<in> set [''invalid_msisdn'', ''invalid_app_id'', ''invalid_name'', ''invalid_receiver_id'']
           then usage (pre @ '': '' @ message) None
           else runtime (pre @ '': '' @ message) None)
      | _ \<Rightarrow>
          (if list_ex (contains_str (js_lower (exn_message err))) [''econn'', ''getaddrinfo'', ''etimedout'', ''enotfound'']
           then unreachable (pre @ '': cannot reach Postgres'') (Some (''check DATABASE_URL and that '' @ postgres @ '' is running''))
           else runtime (pre @ '': '' @ exn_class err) None))"

text \<open>A call of an admin function, which the driver may fail before it does anything.\<close>

definition admin_call :: "exn option \<Rightarrow> (world \<Rightarrow> (exn + 'a) \<times> world) \<Rightarrow> world \<Rightarrow> (exn + 'a) \<times> world" where
  "admin_call down f w = (case down of Some e \<Rightarrow> (Inl e, w) | None \<Rightarrow> f w)"

definition text_lines :: "string list \<Rightarrow> written" where
  "text_lines ls = Wrote (join_with [NEWLINE] ls @ [NEWLINE])"

section \<open>Bootstrap\<close>

definition bootstrap_flags :: flag_spec where
  "bootstrap_flags = [takes ''app-name'', takes ''receiver-name'', takes ''msisdn'', takes ''operator'', switch ''simulate-heartbeat'', help_flag]"

definition render_bootstrap :: "bool \<Rightarrow> bootstrap_result \<Rightarrow> add_receiver_result \<Rightarrow> bool \<Rightarrow> written" where
  "render_bootstrap col app rcv simulate = text_lines
     ([[], green col (CHECK @ '' '') @ bold col ''SYROTP bootstrap complete'', [],
       cyan col ''App'', ''  id      '' @ br_appId app, ''  name    '' @ br_appName app, [],
       cyan col ''API keys'' @ '' '' @ dimmed col (''(shown once '' @ DASH @ '' save them now)''),
       ''  public  '' @ br_publicKey app, ''  secret  '' @ br_secretKey app, [],
       cyan col ''Receiver'', ''  id      '' @ ad_receiverId rcv, ''  msisdn  '' @ ad_msisdn rcv, ''  name    '' @ ad_name rcv] @
      (if truthy (ad_operator rcv) then [''  operator '' @ the (ad_operator rcv)] else []) @
      [''  signing '' @ ad_signingKey rcv @ ''  '' @ dimmed col ''(paste into the Android gateway)'', []] @
      (if simulate then [yellow col ''note: '' @ dimmed col (''--simulate-heartbeat is set '' @ DASH @
         '' receiver shows healthy without a real gateway. Use only for tests.'')]
       else [dimmed col ''Pair a gateway and let it heartbeat before starting verifications.'']))"

definition bootstrap_missing :: "flag_values \<Rightarrow> string list" where
  "bootstrap_missing vs =
     (if strOrNull (vs ''app-name'') = None then [''--app-name''] else []) @
     (if strOrNull (vs ''msisdn'') = None then [''--msisdn''] else [])"

definition or_else :: "string option \<Rightarrow> string \<Rightarrow> string" where
  "or_else x d = (case x of Some s \<Rightarrow> s | None \<Rightarrow> d)"

definition add_rcv :: "cli_env \<Rightarrow> config \<Rightarrow> add_receiver_options \<Rightarrow> world \<Rightarrow> (exn + add_receiver_result) \<times> world" where
  "add_rcv ev cfg opts w =
     addReceiver cfg (cv_crypto ev) (cv_parsePhone ev) (cv_rcvUlid ev) (cv_keyBytes ev) (cv_iv ev) (cv_now ev) (cv_dbnow ev) opts w"

text \<open>The part behind the argument checks and the import of the admin module.\<close>

definition bootstrap_with :: "cli_env \<Rightarrow> config \<Rightarrow> flag_values \<Rightarrow> world \<Rightarrow> cli_run" where
  "bootstrap_with ev cfg vs w =
     (let simulate = (vs ''simulate-heartbeat'' = Some FTrue) in
      case admin_call (cv_down1 ev) (bootstrapApp cfg (ce_hmac (cv_crypto ev)) (cv_dbnow ev) (cv_ulids ev) (cv_rb1 ev) (cv_rb2 ev)
             (the (strOrNull (vs ''app-name'')))) w of
        (Inl e, w1) \<Rightarrow> (Thrown (mapAdminError ''the postgres container'' e ''bootstrapApp failed''), [], w1)
      | (Inr app, w1) \<Rightarrow>
        (case admin_call (cv_down2 ev) (add_rcv ev cfg
               \<lparr>ao_appId = br_appId app, ao_name = or_else (strOrNull (vs ''receiver-name'')) ''Receiver-1'',
                ao_operator = strOrNull (vs ''operator''), ao_msisdn = the (strOrNull (vs ''msisdn'')),
                ao_simulateHeartbeat = simulate\<rparr>) w1 of
           (Inl e, w2) \<Rightarrow>
             (Thrown (mapAdminError ''the postgres container'' e (''bootstrapApp succeeded (app='' @ br_appId app @ '') but addReceiver failed'')), [], w2)
         | (Inr rcv, w2) \<Rightarrow> (Returned OK, [render_bootstrap (cv_color ev) app rcv simulate], w2)))"

definition runBootstrap :: "cli_env \<Rightarrow> string list \<Rightarrow> world \<Rightarrow> cli_run" where
  "runBootstrap ev args w =
     (let flags = parseFlags bootstrap_flags args; vs = fp_values flags; missing = bootstrap_missing vs in
      case fp_unknown flags of
        Some tok \<Rightarrow> (Thrown (usage (unknown_flag tok) (Some (''run '' @ backquoted ''syrotp help bootstrap'' @ '' for usage''))), [], w)
      | None \<Rightarrow>
        if vs ''help'' \<noteq> None then (Returned OK, [HelpPage ''bootstrap''], w)
        else if missing \<noteq> [] then
          (Thrown (usage (''missing required arg'' @ (if length missing = 1 then [] else ''s'') @ '': '' @ join_with '', '' missing)
             (Some (''example: syrotp bootstrap --app-name '' @ dquoted ''My App'' @ '' --msisdn +963991234567''))), [], w)
        else if \<not> truthy (cv_env ev ''DATABASE_URL'') then
          (Thrown (missingConfig ''DATABASE_URL is not set''
             (Some (''bootstrap writes directly to Postgres '' @ DASH @ '' set DATABASE_URL in .env or your shell''))), [], w)
        else if \<not> truthy (cv_env ev ''MASTER_ENCRYPTION_KEY'') then
          (Thrown (missingConfig ''MASTER_ENCRYPTION_KEY is not set''
             (Some (''needed to wrap the gateway signing key at rest '' @ DASH @ '' see SECURITY.md''))), [], w)
        else case cv_config ev of
          None \<Rightarrow> (Exited, [], w)
        | Some cfg \<Rightarrow> bootstrap_with ev cfg vs w)"


section \<open>Receivers\<close>

text \<open>
  The beginning every subcommand has: parse, refuse an unknown flag, show the help; the rest of the
  command gets the parsed flags.
\<close>

definition with_flags :: "flag_spec \<Rightarrow> string list \<Rightarrow> string \<Rightarrow> world \<Rightarrow> (flag_result \<Rightarrow> cli_run) \<Rightarrow> cli_run" where
  "with_flags spec args topic w k =
     (let flags = parseFlags spec args in
      case fp_unknown flags of
        Some tok \<Rightarrow> (Thrown (usage (unknown_flag tok) None), [], w)
      | None \<Rightarrow> if fp_values flags ''help'' \<noteq> None then (Returned OK, [HelpPage topic], w) else k flags)"

text \<open>\<open>requireDbEnv\<close> and the import of the admin module.\<close>

definition with_admin :: "cli_env \<Rightarrow> world \<Rightarrow> (config \<Rightarrow> cli_run) \<Rightarrow> cli_run" where
  "with_admin ev w k =
     (case requireDbEnv (cv_env ev) of
        Some e \<Rightarrow> (Thrown e, [], w)
      | None \<Rightarrow> (case cv_config ev of None \<Rightarrow> (Exited, [], w) | Some cfg \<Rightarrow> k cfg))"

definition render_added :: "bool \<Rightarrow> add_receiver_result \<Rightarrow> written" where
  "render_added col rcv = text_lines
     ([[], green col (CHECK @ '' '') @ bold col ''Receiver added'', [],
       ''  id      '' @ ad_receiverId rcv, ''  app     '' @ ad_appId rcv @ ''  '' @ dimmed col (ad_appName rcv),
       ''  name    '' @ ad_name rcv, ''  msisdn  '' @ ad_msisdn rcv] @
      (if truthy (ad_operator rcv) then [''  operator '' @ the (ad_operator rcv)] else []) @
      [[], cyan col ''Signing key'' @ '' '' @ dimmed col (''(shown once '' @ DASH @ '' paste into the gateway)''),
       ''  '' @ ad_signingKey rcv, []])"

definition runAdd :: "cli_env \<Rightarrow> string list \<Rightarrow> world \<Rightarrow> cli_run" where
  "runAdd ev args w =
     with_flags [takes ''app-id'', takes ''name'', takes ''msisdn'', takes ''operator'', switch ''simulate-heartbeat'', help_flag]
       args ''receiver add'' w (\<lambda>flags.
       let vs = fp_values flags;
           missing = (if strOrNull (vs ''app-id'') = None then [''--app-id''] else []) @
             (if strOrNull (vs ''name'') = None then [''--name''] else []) @
             (if strOrNull (vs ''msisdn'') = None then [''--msisdn''] else [])
       in if missing \<noteq> [] then
            (Thrown (usage (''missing required arg'' @ (if length missing = 1 then [] else ''s'') @ '': '' @ join_with '', '' missing)
               (Some ''example: syrotp receiver add --app-id app_... --name syriatel-01 --msisdn +963998887777'')), [], w)
          else with_admin ev w (\<lambda>cfg.
            case admin_call (cv_down1 ev) (add_rcv ev cfg
                   \<lparr>ao_appId = the (strOrNull (vs ''app-id'')), ao_name = the (strOrNull (vs ''name'')),
                    ao_operator = strOrNull (vs ''operator''), ao_msisdn = the (strOrNull (vs ''msisdn'')),
                    ao_simulateHeartbeat = (vs ''simulate-heartbeat'' = Some FTrue)\<rparr>) w of
              (Inl e, w1) \<Rightarrow> (Thrown (mapAdminError ''postgres'' e ''addReceiver''), [], w1)
            | (Inr rcv, w1) \<Rightarrow> (Returned OK, [render_added (cv_color ev) rcv], w1)))"

definition null_or :: "('a \<Rightarrow> json) \<Rightarrow> 'a option \<Rightarrow> json" where
  "null_or f x = (case x of None \<Rightarrow> JNull | Some y \<Rightarrow> f y)"

definition serializeRecord :: "(int \<Rightarrow> string) \<Rightarrow> receiver_record \<Rightarrow> json" where
  "serializeRecord to_iso r =
     (let row = rr_row r in
      JObj [(''id'', JStr (rc_id row)), (''app_id'', JStr (rc_appId row)), (''app_name'', JStr (rr_appName r)),
        (''name'', JStr (rc_name row)), (''operator'', null_or JStr (rc_operator row)), (''msisdn'', JStr (rc_msisdn row)),
        (''enabled'', JBool (rc_enabled row)), (''healthy'', JBool (rr_healthy r)),
        (''last_heartbeat_at'', null_or (\<lambda>t. JStr (to_iso t)) (rc_lastHeartbeatAt row)),
        (''last_heartbeat_ago_seconds'', null_or (\<lambda>n. JNum (of_int n)) (rr_lastHeartbeatAgoSeconds r)),
        (''created_at'', JStr (to_iso (rc_createdAt row)))])"

text \<open>\<open>s.replace(/\x1b\[[0-9;]*m/g, "")\<close>.\<close>

function strip_ansi :: "string \<Rightarrow> string" where
  "strip_ansi s =
     (case s of
        [] \<Rightarrow> []
      | c # cs \<Rightarrow>
        let rest = dropWhile (\<lambda>x. is_digit x \<or> x = CHR '';'') (drop 1 cs) in
        if c = CHR 0x1B \<and> starts_with cs ''['' \<and> starts_with rest ''m'' then strip_ansi (drop 1 rest) else c # strip_ansi cs)"
  by pat_completeness auto
termination
proof (relation "measure length")
  fix s :: string and c cs and rest
  assume s: "s = c # cs" "rest = dropWhile (\<lambda>x. is_digit x \<or> x = CHR '';'') (drop 1 cs)"
  have "length rest \<le> length (drop 1 cs)" unfolding s(2) by (rule length_dropWhile_le)
  then show "(drop 1 rest, s) \<in> measure length" by (simp add: s(1))
qed simp_all

declare strip_ansi.simps [simp del]

definition pad_visible :: "string \<Rightarrow> nat \<Rightarrow> string" where
  "pad_visible s w = s @ replicate (w - js_length (strip_ansi s)) CHR '' ''"

definition RULE :: string where
  "RULE = [CHR 0xE2, CHR 0x94, CHR 0x80]"

definition table_headers :: "string list" where
  "table_headers = [''ID'', ''MSISDN'', ''NAME'', ''OPERATOR'', ''STATE'', ''HEARTBEAT'']"

definition table_row :: "bool \<Rightarrow> receiver_record \<Rightarrow> string list" where
  "table_row col r =
     (let row = rr_row r in
      [rc_id row, rc_msisdn row, rc_name row, or_else (rc_operator row) [],
       if rc_enabled row then (if rr_healthy r then green col ''healthy'' else yellow col ''stale'') else red col ''disabled'',
       case rr_lastHeartbeatAgoSeconds r of
         None \<Rightarrow> dimmed col ''never''
       | Some n \<Rightarrow> if n < 60 then show_int n @ ''s ago'' else show_int (n div 60) @ ''m ago''])"

definition column_width :: "string list list \<Rightarrow> nat \<Rightarrow> string \<Rightarrow> nat" where
  "column_width rows i h = fold max (map (\<lambda>row. js_length (strip_ansi (row ! i))) rows) (js_length h)"

definition renderTable :: "bool \<Rightarrow> receiver_record list \<Rightarrow> written list" where
  "renderTable col rows =
     (if rows = [] then [Wrote (dimmed col (''no receivers'' @ [NEWLINE]))]
      else
        let body = map (table_row col) rows;
            widths = map (\<lambda>(i, h). column_width body i h) (enumerate 0 table_headers);
            line = (\<lambda>cells. Wrote (join_with ''  '' cells @ [NEWLINE]))
        in line (map2 (\<lambda>h w. bold col (pad_visible h w)) table_headers widths) #
           line (map (\<lambda>w. concat (replicate w RULE)) widths) #
           map (\<lambda>row. line (map2 pad_visible row widths)) body)"

text \<open>\<open>flags.values["include-disabled"] === true || true\<close> is true.\<close>

definition runList :: "cli_env \<Rightarrow> string list \<Rightarrow> world \<Rightarrow> cli_run" where
  "runList ev args w =
     with_flags [takes ''app-id'', switch ''include-disabled'', switch ''json'', help_flag] args ''receiver list'' w (\<lambda>flags.
       with_admin ev w (\<lambda>cfg.
         case admin_call (cv_down1 ev) (\<lambda>w. (Inr (listReceivers cfg (cv_now ev) (strOrNull (fp_values flags ''app-id''))
                (fp_values flags ''include-disabled'' = Some FTrue \<or> True) (w_db w)), w)) w of
           (Inl e, w1) \<Rightarrow> (Thrown (mapAdminError ''postgres'' e ''listReceivers''), [], w1)
         | (Inr rows, w1) \<Rightarrow>
           (Returned OK,
            if fp_values flags ''json'' = Some FTrue then [WroteJson (JArr (map (serializeRecord (cv_iso ev)) rows))]
            else renderTable (cv_color ev) rows, w1)))"


text \<open>
  \<open>runDisable\<close> and \<open>runEnable\<close>: the identifier is the flag or the first positional argument.
\<close>

definition switch_receiver ::
  "string \<Rightarrow> string \<Rightarrow> (string \<Rightarrow> world \<Rightarrow> (exn + switch_result) \<times> world) \<Rightarrow> cli_env \<Rightarrow> string list \<Rightarrow> world \<Rightarrow> cli_run" where
  "switch_receiver verb operation act ev args w =
     with_flags [takes ''id'', help_flag] args (''receiver '' @ verb) w (\<lambda>flags.
       let i = or_else (strOrNull (fp_values flags ''id'')) (or_else (first_of (fp_positionals flags)) []); col = cv_color ev in
       if i = [] then
         (Thrown (usage ''missing receiver id''
            (Some (''example: syrotp receiver '' @ verb @ '' rcv_01H...  (or --id rcv_01H...)''))), [], w)
       else with_admin ev w (\<lambda>cfg.
         case admin_call (cv_down1 ev) (act i) w of
           (Inl e, w1) \<Rightarrow> (Thrown (mapAdminError ''postgres'' e operation), [], w1)
         | (Inr res, w1) \<Rightarrow>
           let number = dimmed col (''('' @ sw_msisdn res @ '')'') in
           (Returned OK,
            [Wrote (if sw_changed res then green col CHECK @ '' '' @ verb @ ''d '' @ sw_id res @ '' '' @ number @ [NEWLINE]
              else yellow col DOT @ '' '' @ sw_id res @ '' was already '' @ verb @ ''d '' @ number @ [NEWLINE])], w1)))"

definition runDisable :: "cli_env \<Rightarrow> string list \<Rightarrow> world \<Rightarrow> cli_run" where
  "runDisable = switch_receiver ''disable'' ''disableReceiver'' disableReceiver"

definition runEnable :: "cli_env \<Rightarrow> string list \<Rightarrow> world \<Rightarrow> cli_run" where
  "runEnable = switch_receiver ''enable'' ''enableReceiver'' enableReceiver"

text \<open>The value of a flag, else of a variable; \<open>!x\<close> holds of both \<open>null\<close> and the empty string.\<close>

definition flag_or_env :: "flag_value option \<Rightarrow> string option \<Rightarrow> string" where
  "flag_or_env v e = or_else (strOrNull v) (or_else e [])"

definition json_truthy :: "json option \<Rightarrow> bool" where
  "json_truthy j = (case j of None \<Rightarrow> False | Some v \<Rightarrow> v \<noteq> JNull \<and> v \<noteq> JBool False \<and> v \<noteq> JNum 0 \<and> v \<noteq> JStr [])"

definition render_probe :: "cli_env \<Rightarrow> probe_result \<Rightarrow> written list" where
  "render_probe ev res =
     (let col = cv_color ev in
      [Wrote (green col CHECK @ '' '' @ bold col ''receiver healthy'' @ ''  '' @ gray col (''('' @ cv_latency ev @ ''ms)'') @ [NEWLINE]),
       Wrote (''  status        '' @ show_int (ps_status res) @ [NEWLINE]),
       Wrote (''  matched       '' @ (if ps_matched res then ''true'' else ''false'') @ ''  '' @
         dimmed col (''(expected '' @ DASH @ '' probe code is random)'') @ [NEWLINE])] @
      (if json_truthy (ps_reason res) then [Wrote (''  reason        '' @ cv_show ev (the (ps_reason res)) @ [NEWLINE])] else []))"

definition test_verdict :: "cli_env \<Rightarrow> probe_result \<Rightarrow> world \<Rightarrow> cli_run" where
  "test_verdict ev res w =
     (if ps_ok res \<and> \<not> ps_matched res then (Returned OK, Wrote [] # render_probe ev res, w)
      else if ps_status res = 401 then
        (Thrown (runtime ''receiver rejected the probe (401)''
           (Some (''signing key likely wrong '' @ DASH @ '' re-issue with '' @ backquoted ''syrotp receiver add'' @
             '' or unwrap the original''))), [Wrote []], w)
      else if ps_status res \<ge> 500 then
        (Thrown (unreachable (''server error '' @ show_int (ps_status res) @ '' on inbound probe'')
           (Some (''check server logs and '' @ backquoted ''syrotp doctor''))), [Wrote []], w)
      else (Thrown (runtime (''unexpected response: '' @ show_int (ps_status res)) None), [Wrote []], w))"

text \<open>The probe with its limit of time; whatever it throws means that no answer came.\<close>

definition probe_verdict :: "cli_env \<Rightarrow> string \<Rightarrow> string \<Rightarrow> string \<Rightarrow> world \<Rightarrow> cli_run" where
  "probe_verdict ev i signingKey baseUrl w =
     (case testReceiver (cv_crypto ev) (cv_parse ev) (cv_post ev)
             \<lparr>po_receiverId = i, po_signingKey = signingKey, po_baseUrl = baseUrl\<rparr> (cv_draws ev) of
        Inl e \<Rightarrow>
          (Thrown (unreachable (''cannot reach '' @ baseUrl)
             (Some (''is the SYROTP server running? check '' @ backquoted ''syrotp doctor''))), [], w)
      | Inr res \<Rightarrow> test_verdict ev res w)"

definition runTest :: "cli_env \<Rightarrow> string list \<Rightarrow> world \<Rightarrow> cli_run" where
  "runTest ev args w =
     with_flags [takes ''id'', takes ''signing-key'', takes ''base-url'', takes ''timeout'', help_flag] args ''receiver test'' w (\<lambda>flags.
       let vs = fp_values flags;
           i = or_else (strOrNull (vs ''id'')) (or_else (first_of (fp_positionals flags)) []);
           signingKey = flag_or_env (vs ''signing-key'') (cv_env ev ''SYROTP_GATEWAY_KEY'');
           baseUrl = flag_or_env (vs ''base-url'') (cv_env ev ''SYROTP_BASE_URL'');
           missing = (if i = [] then [''receiver id (positional or --id)''] else []) @
             (if signingKey = [] then [''--signing-key (or SYROTP_GATEWAY_KEY env)''] else []) @
             (if baseUrl = [] then [''--base-url (or SYROTP_BASE_URL env)''] else []);
           bad = (\<lambda>t. case parse_int t of None \<Rightarrow> True | Some n \<Rightarrow> n \<le> 0)
       in if missing \<noteq> [] then
            (Thrown (usage (''missing required input: '' @ join_with '', '' missing)
               (Some ''example: syrotp receiver test rcv_01H... --signing-key <hex> --base-url http://localhost:3000'')), [], w)
          else case strOrNull (vs ''timeout'') of
            Some t \<Rightarrow>
              if bad t then (Thrown (usage (''--timeout must be a positive integer (got: '' @ t @ '')'') None), [], w)
              else probe_verdict ev i signingKey baseUrl w
          | None \<Rightarrow> probe_verdict ev i signingKey baseUrl w)"


definition receiver_subcommands :: "string list" where
  "receiver_subcommands = [''add'', ''list'', ''disable'', ''enable'', ''test'']"

definition runReceiver :: "cli_env \<Rightarrow> string list \<Rightarrow> world \<Rightarrow> cli_run" where
  "runReceiver ev args w =
     (case args of
        [] \<Rightarrow> (Returned OK, [HelpPage ''receiver''], w)
      | sub # rest \<Rightarrow>
        if sub \<in> set [[], ''--help'', ''-h''] then (Returned OK, [HelpPage ''receiver''], w)
        else if sub \<notin> set receiver_subcommands then
          (Thrown (usage (''unknown receiver subcommand: '' @ sub) (Some (''available: '' @ join_with '' | '' receiver_subcommands))), [], w)
        else if sub = ''add'' then runAdd ev rest w
        else if sub = ''list'' then runList ev rest w
        else if sub = ''disable'' then runDisable ev rest w
        else if sub = ''enable'' then runEnable ev rest w
        else runTest ev rest w)"

section \<open>Smoke and load test\<close>

definition APOS :: string where
  "APOS = [CHR 0x27]"

definition REQUIRED_ENV :: "string list" where
  "REQUIRED_ENV = [''SYROTP_BASE_URL'', ''SYROTP_PUBLIC_KEY'', ''SYROTP_SECRET_KEY'', ''SYROTP_RECEIVER_ID'', ''SYROTP_GATEWAY_KEY'', ''SYROTP_PHONE'']"

definition unreachable_server :: "string \<Rightarrow> string \<Rightarrow> cli_error" where
  "unreachable_server baseUrl reason =
     unreachable (''cannot reach '' @ baseUrl @ ''/v1/health: '' @ reason)
       (Some (''is the SYROTP server running? check '' @ backquoted ''syrotp doctor''))"

text \<open>The probe used when none is injected: the version shown, or the reason of the failure.\<close>

definition defaultHealthProbe :: "check_env \<Rightarrow> string \<Rightarrow> string + string" where
  "defaultHealthProbe ck baseUrl =
     (case ck_fetch ck (strip_slashes baseUrl @ ''/v1/health'') 3000 of
        Inl reason \<Rightarrow> Inl reason
      | Inr (status, body) \<Rightarrow>
        if \<not> (200 \<le> status \<and> status < 300) then Inl (''HTTP '' @ show_int status)
        else case body of
          Inl reason \<Rightarrow> Inl reason
        | Inr j \<Rightarrow> if j = JNull then Inl ''Cannot read properties of null''
                    else Inr (shown_or_question (ck_show ck) ''version'' j))"

definition runSmoke :: "cli_env \<Rightarrow> string list \<Rightarrow> outcome \<times> written list" where
  "runSmoke ev args =
     (let flags = parseFlags [help_flag] args; col = cv_color ev;
          missing = filter (\<lambda>k. \<not> truthy (cv_env ev k)) REQUIRED_ENV;
          baseUrl = or_else (cv_env ev ''SYROTP_BASE_URL'') []
      in case fp_unknown flags of
           Some tok \<Rightarrow> (Thrown (usage (unknown_flag tok) (Some (''run '' @ backquoted ''syrotp help smoke'' @ '' for usage''))), [])
         | None \<Rightarrow>
           if fp_values flags ''help'' \<noteq> None then (Returned OK, [HelpPage ''smoke''])
           else case fp_positionals flags of
             a # _ \<Rightarrow>
               (Thrown (usage (''unexpected argument: '' @ a)
                  (Some (''smoke takes no positional args; configure via env (see '' @ backquoted ''syrotp help smoke'' @ '')''))), [])
           | [] \<Rightarrow>
             if missing \<noteq> [] then
               (Thrown (missingConfig (''smoke needs env: '' @ join_with '', '' missing)
                  (Some (''run '' @ backquoted ''syrotp bootstrap'' @ '' to mint keys, then export them and SYROTP_PHONE''))), [])
             else case cv_health ev baseUrl of
               Inl reason \<Rightarrow> (Thrown (unreachable_server baseUrl reason), [])
             | Inr version \<Rightarrow>
               let start = Wrote (cyan col ''smoke'' @ '' '' @ ARROW @ '' target '' @ dimmed col baseUrl @ '' '' @
                     dimmed col (''(server ok, version='' @ version @ '')'') @ [NEWLINE]);
                   code = cv_spawn ev (cv_execPath ev) [''scripts/smoke.mjs''];
                   failed = Wrote (red col CROSS @ '' '' @ bold col (''smoke FAIL (script exit '' @ show_int code @ '')'') @ [NEWLINE])
               in if code = 0 then (Returned OK, [start, Wrote (green col CHECK @ '' '' @ bold col ''smoke PASS'' @ [NEWLINE])])
                  else if code = 3 then (Thrown (unreachable (''smoke probe said server didn'' @ APOS @ ''t respond'') None), [start, failed])
                  else if code = 2 then
                    (Thrown (missingConfig ''smoke reported missing env (CLI pre-check missed it)'' None), [start, failed])
                  else (Thrown (runtime (''smoke script exited '' @ show_int code) None), [start, failed]))"

definition preflightOrThrow :: "cli_env \<Rightarrow> cli_error + written" where
  "preflightOrThrow ev =
     (case cv_env ev ''SYROTP_BASE_URL'' of
        None \<Rightarrow> Inl (missingConfig ''SYROTP_BASE_URL is not set'' (Some (''loadtest needs to know where to drive traffic '' @ DASH @
          '' set SYROTP_BASE_URL or run '' @ backquoted ''syrotp doctor'')))
      | Some [] \<Rightarrow> Inl (missingConfig ''SYROTP_BASE_URL is not set'' (Some (''loadtest needs to know where to drive traffic '' @ DASH @
          '' set SYROTP_BASE_URL or run '' @ backquoted ''syrotp doctor'')))
      | Some baseUrl \<Rightarrow>
        (case cv_health ev baseUrl of
           Inl reason \<Rightarrow> Inl (unreachable_server baseUrl reason)
         | Inr version \<Rightarrow> Inr (Wrote (dimmed (cv_color ev) (''pre-flight: server reachable ('' @ baseUrl @ '', version='' @ version @ '')'') @ [NEWLINE]))))"

definition mapLoadtestExit :: "bool \<Rightarrow> int \<Rightarrow> string \<Rightarrow> outcome \<times> written list" where
  "mapLoadtestExit col code variant =
     (let failed = Wrote (red col CROSS @ '' '' @ bold col (''loadtest:'' @ variant @ '' FAIL (tool exit '' @ show_int code @ '')'') @ [NEWLINE])
      in if code = 0 then (Returned OK, [Wrote (green col CHECK @ '' '' @ bold col (''loadtest:'' @ variant @ '' PASS'') @ [NEWLINE])])
         else if code = 3 then (Thrown (unreachable ''loadtest tool reported server unreachable'' None), [failed])
         else if code = 2 then (Thrown (runtime ''loadtest tool reported bad arguments (CLI bug)'' None), [failed])
         else (Thrown (runtime (''loadtest:'' @ variant @ '' acceptance failed'') None), [failed]))"

definition loadtest_flags :: flag_spec where
  "loadtest_flags = [help_flag, switch ''continue-on-fail'', switch ''csv'']"

definition runQuick :: "cli_env \<Rightarrow> string list \<Rightarrow> outcome \<times> written list" where
  "runQuick ev args =
     (let flags = parseFlags loadtest_flags args; vs = fp_values flags; col = cv_color ev in
      case fp_unknown flags of
        Some tok \<Rightarrow> (Thrown (usage (unknown_flag tok) None), [])
      | None \<Rightarrow>
        if vs ''help'' \<noteq> None then (Returned OK, [HelpPage ''loadtest quick''])
        else if vs ''continue-on-fail'' \<noteq> None then
          (Thrown (usage (''--continue-on-fail is only valid for '' @ backquoted ''loadtest release-baseline'')
             (Some (''the quick path runs two scenarios via pnpm && '' @ DASH @ '' there'' @ APOS @ ''s no suite to continue''))), [])
        else if vs ''csv'' \<noteq> None then
          (Thrown (usage (''--csv is only valid for '' @ backquoted ''loadtest release-baseline'')
             (Some (''the quick path doesn'' @ APOS @ ''t pass flags through to its scenarios''))), [])
        else case fp_positionals flags of
          a # _ \<Rightarrow> (Thrown (usage (''unexpected argument: '' @ a) None), [])
        | [] \<Rightarrow>
          (case preflightOrThrow ev of
             Inl e \<Rightarrow> (Thrown e, [])
           | Inr ok \<Rightarrow>
             let start = Wrote (cyan col ''loadtest:quick'' @ '' '' @ ARROW @ '' '' @
                   dimmed col ''scenario-a (50 workers) + replay-storm'' @ [NEWLINE]);
                 (res, ws) = mapLoadtestExit col (cv_spawn ev ''pnpm'' [''loadtest:quick'']) ''quick''
             in (res, ok # start # ws)))"

definition runReleaseBaseline :: "cli_env \<Rightarrow> string list \<Rightarrow> outcome \<times> written list" where
  "runReleaseBaseline ev args =
     (let flags = parseFlags loadtest_flags args; vs = fp_values flags; col = cv_color ev;
          on = filter (\<lambda>f. vs f \<noteq> None) [''continue-on-fail'', ''csv'']
      in case fp_unknown flags of
           Some tok \<Rightarrow> (Thrown (usage (unknown_flag tok) None), [])
         | None \<Rightarrow>
           if vs ''help'' \<noteq> None then (Returned OK, [HelpPage ''loadtest release-baseline''])
           else case fp_positionals flags of
             a # _ \<Rightarrow> (Thrown (usage (''unexpected argument: '' @ a) None), [])
           | [] \<Rightarrow>
             (case preflightOrThrow ev of
                Inl e \<Rightarrow> (Thrown e, [])
              | Inr ok \<Rightarrow>
                let start = Wrote (cyan col ''loadtest:release-baseline'' @ '' '' @ ARROW @ '' 5-step suite '' @
                      (if on \<noteq> [] then dimmed col (''['' @ join_with '', '' on @ '']'') else []) @ [NEWLINE]);
                    code = cv_spawn ev ''pnpm'' ([''--filter'', ''@syrotp/loadtest'', ''start'', ''suite'', ''release-baseline''] @
                      map (\<lambda>f. ''--'' @ f) on);
                    reports = Wrote (dimmed col (''Reports: tools/loadtest/reports/<latest>-release-baseline/aggregate.json + summary.md'' @ [NEWLINE]));
                    (res, ws) = mapLoadtestExit col code ''release-baseline''
                in (res, ok # start # reports # ws)))"

definition runLoadtest :: "cli_env \<Rightarrow> string list \<Rightarrow> outcome \<times> written list" where
  "runLoadtest ev args =
     (case args of
        [] \<Rightarrow> (Returned OK, [HelpPage ''loadtest''])
      | sub # rest \<Rightarrow>
        if sub \<in> set [[], ''--help'', ''-h'', ''help''] then (Returned OK, [HelpPage ''loadtest''])
        else if sub = ''quick'' then runQuick ev rest
        else if sub = ''release-baseline'' then runReleaseBaseline ev rest
        else (Thrown (usage (''unknown loadtest subcommand: '' @ sub) (Some ''available: quick | release-baseline'')), []))"

section \<open>Dispatch\<close>

definition doctor_flags :: flag_spec where
  "doctor_flags = [takes ''env-file'', takes ''timeout'', help_flag]"

definition flag_text :: "flag_value option \<Rightarrow> string option" where
  "flag_text v = (case v of Some (FStr s) \<Rightarrow> Some s | _ \<Rightarrow> None)"

definition main_doctor :: "cli_env \<Rightarrow> string list \<Rightarrow> outcome \<times> written list" where
  "main_doctor ev args =
     (let flags = parseFlags doctor_flags args; vs = fp_values flags;
          run = (\<lambda>t. case runDoctor (cv_doctor ev) (flag_text (vs ''env-file'')) t of (code, ws) \<Rightarrow> (Returned code, ws))
      in case fp_unknown flags of
           Some tok \<Rightarrow> (Thrown (usage (unknown_flag tok) (Some (''run '' @ backquoted ''syrotp help doctor'' @ '' for usage''))), [])
         | None \<Rightarrow>
           if vs ''help'' \<noteq> None then (Returned OK, [HelpPage ''doctor''])
           else case flag_text (vs ''timeout'') of
             None \<Rightarrow> run None
           | Some raw \<Rightarrow>
             (case parse_int raw of
                Some t \<Rightarrow> if t > 0 then run (Some t) else
                  (Thrown (usage (''--timeout must be a positive integer (got: '' @ raw @ '')'') None), [])
              | None \<Rightarrow> (Thrown (usage (''--timeout must be a positive integer (got: '' @ raw @ '')'') None), [])))"

definition cli_main :: "cli_env \<Rightarrow> string list \<Rightarrow> world \<Rightarrow> cli_run" where
  "cli_main ev argv w =
     (let parsed = parseTopLevel argv; rest = pa_rest parsed; pure = (\<lambda>(res, ws). (res, ws, w)) in
      case pa_command parsed of
        CHelp \<Rightarrow> (Returned OK, [HelpPage (or_else (pa_helpTopic parsed) [])], w)
      | CVersion \<Rightarrow> (Returned OK, [Wrote (''syrotp '' @ cv_version ev @ [NEWLINE])], w)
      | CDoctor \<Rightarrow> pure (main_doctor ev rest)
      | CBootstrap \<Rightarrow> runBootstrap ev rest w
      | CReceiver \<Rightarrow> runReceiver ev rest w
      | CSmoke \<Rightarrow> pure (runSmoke ev rest)
      | CLoadtest \<Rightarrow> pure (runLoadtest ev rest)
      | CUnknown \<Rightarrow>
        (Thrown (usage (''unknown command: '' @ or_else (pa_unknownToken parsed) [])
           (Some (''run '' @ backquoted ''syrotp --help'' @ '' to see available commands''))), [], w))"

definition exit_status :: "outcome \<Rightarrow> int" where
  "exit_status res = (case res of Returned c \<Rightarrow> exit_value c | Thrown e \<Rightarrow> exit_value (cl_code e) | Exited \<Rightarrow> 1)"

end
