(* ===== verification/LoadRun.thy ===== *)
theory LoadRun
  imports LoadMetrics CliCommands "HOL-Library.Multiset"
begin

text \<open>
  The load generator of \<open>tools/loadtest/src\<close>: the worker pool (\<open>workers.ts\<close>), the test phones
  (\<open>phone.ts\<close>) and the scenarios (\<open>scenarios\<close>). The asynchronous function of a scenario is a tree of the
  calls it awaits, each with the bookkeeping done before the next one; a run of a scenario interleaves the
  trees of its workers in every order, against any answers.
\<close>

section \<open>Calls\<close>

record lt_receiver =
  lt_id :: string
  lt_msisdn :: string
  lt_signingKey :: string

record fixtures =
  fx_publicKey :: string
  fx_secretKey :: string
  fx_receivers :: "lt_receiver list"

text \<open>
  A call a scenario awaits. A field that the answer did not have is \<open>None\<close>: \<open>JSON.stringify\<close> leaves it
  out of a body, and \<open>encodeURIComponent\<close> prints it as \<open>undefined\<close>.
\<close>

datatype load_call =
    is_StartCall: StartCall string
  | is_StatusCall: StatusCall string
  | is_InboundCall: InboundCall lt_receiver string "string option" string "string option" "int list"
  | MidpointCall

primrec expected_codes :: "load_call \<Rightarrow> int list" where
  "expected_codes (StartCall _) = []"
| "expected_codes (StatusCall _) = []"
| "expected_codes (InboundCall _ _ _ _ _ codes) = codes"
| "expected_codes MidpointCall = []"

definition phoneFromIndex :: "nat \<Rightarrow> string" where
  "phoneFromIndex i = ''+96399'' @ show_nat (1000000 + i mod 9000000)"

definition lt_pickReceiver :: "fixtures \<Rightarrow> json option \<Rightarrow> lt_receiver option" where
  "lt_pickReceiver fx sendTo = find (\<lambda>r. Some (JStr (lt_msisdn r)) = sendTo) (fx_receivers fx)"

section \<open>Scenario state\<close>

record pending_start =
  pn_body :: json
  pn_phone :: string

record load_state =
  ld_metrics :: run_metrics
  ld_seedIds :: "json option list"
  ld_pending :: "pending_start list"
  ld_replay :: "(json \<times> lt_receiver) option"
  ld_midpointFired :: bool

text \<open>
  What a scenario is given; \<open>cx_show\<close> is \<open>String\<close> of a value that is no string, \<open>cx_random\<close> the six draws of
  \<open>Math.random\<close> of a unit, numbers from 0 up to 1.
\<close>

record load_ctx =
  cx_total :: nat
  cx_workers :: nat
  cx_fixtures :: fixtures
  cx_onMidpoint :: bool
  cx_show :: "json option \<Rightarrow> string"
  cx_random :: "nat \<Rightarrow> rat list"

text \<open>The rest of an asynchronous function: its next call and what it does with the outcome.\<close>

datatype 's prog =
    Finish
  | Raise
  | Await load_call "load_outcome \<Rightarrow> ('s \<Rightarrow> 's) \<times> 's prog"

type_synonym unit_work = "nat \<Rightarrow> load_state \<Rightarrow> load_state \<times> load_state prog"

definition upd_start :: "(op_metrics \<Rightarrow> op_metrics) \<Rightarrow> load_state \<Rightarrow> load_state" where
  "upd_start f s = s\<lparr>ld_metrics := (ld_metrics s)\<lparr>rm_start := f (rm_start (ld_metrics s))\<rparr>\<rparr>"

definition upd_inbound :: "(op_metrics \<Rightarrow> op_metrics) \<Rightarrow> load_state \<Rightarrow> load_state" where
  "upd_inbound f s = s\<lparr>ld_metrics := (ld_metrics s)\<lparr>rm_inbound := f (rm_inbound (ld_metrics s))\<rparr>\<rparr>"

definition upd_status :: "(op_metrics \<Rightarrow> op_metrics) \<Rightarrow> load_state \<Rightarrow> load_state" where
  "upd_status f s = s\<lparr>ld_metrics := (ld_metrics s)\<lparr>rm_status := f (rm_status (ld_metrics s))\<rparr>\<rparr>"

definition bump_exceptions :: "load_state \<Rightarrow> load_state" where
  "bump_exceptions s = s\<lparr>ld_metrics := (ld_metrics s)\<lparr>rm_unhandled_exceptions := rm_unhandled_exceptions (ld_metrics s) + 1\<rparr>\<rparr>"

text \<open>The body of an outcome that is \<open>ok\<close>; reading a field of \<open>null\<close> throws.\<close>

definition ok_body :: "load_outcome \<Rightarrow> json option" where
  "ok_body out = (case out of Answered AOk _ b _ \<Rightarrow> Some b | _ \<Rightarrow> None)"

definition js_get :: "string \<Rightarrow> json \<Rightarrow> json option" where
  "js_get k b = field k (Some b)"

definition as_text :: "json option \<Rightarrow> string option" where
  "as_text j = (case j of Some (JStr t) \<Rightarrow> Some t | _ \<Rightarrow> None)"

text \<open>\<open>String\<close> of a value that is a string; any other value prints as some text.\<close>

definition printed :: "load_ctx \<Rightarrow> json option \<Rightarrow> string" where
  "printed cx j = (case as_text j of Some t \<Rightarrow> t | None \<Rightarrow> cx_show cx j)"

section \<open>Scenarios\<close>

definition startOnly_unit :: unit_work where
  "startOnly_unit i s = (s, Await (StartCall (phoneFromIndex i)) (\<lambda>out. (upd_start (record_outcome out), Finish)))"

definition bump_matched :: "load_ctx \<Rightarrow> load_outcome \<Rightarrow> op_metrics \<Rightarrow> op_metrics" where
  "bump_matched cx out m =
     (case ok_body out of
        None \<Rightarrow> m
      | Some b \<Rightarrow>
        if json_truthy (js_get ''matched'' b) then bumpExtra ''matched'' m
        else bumpExtra (''no_match_'' @ (if js_get ''reason'' b \<in> {None, Some JNull} then ''unknown'' else printed cx (js_get ''reason'' b))) m)"

text \<open>The two requests after a start of the full flow; \<open>null\<close> as the answer to either throws.\<close>

definition fullFlow_status :: "load_ctx \<Rightarrow> json \<Rightarrow> load_state prog" where
  "fullFlow_status cx started =
     Await (StatusCall (printed cx (js_get ''id'' started)))
       (\<lambda>stat. (upd_status (\<lambda>m. case ok_body stat of
                   None \<Rightarrow> record_outcome stat m
                 | Some b \<Rightarrow> if b = JNull then record_outcome stat m
                     else bumpExtra (''status_'' @ printed cx (js_get ''status'' b)) (record_outcome stat m)),
               if ok_body stat = Some JNull then Raise else Finish))"

definition fullFlow_inbound :: "load_ctx \<Rightarrow> nat \<Rightarrow> lt_receiver \<Rightarrow> string \<Rightarrow> json \<Rightarrow> load_state prog" where
  "fullFlow_inbound cx i receiver phone started =
     Await (InboundCall receiver phone (as_text (js_get ''message'' started)) (''lt_full_'' @ show_nat i) None [])
       (\<lambda>inb. if ok_body inb = Some JNull then (upd_inbound (record_outcome inb), Raise)
              else (upd_inbound (\<lambda>m. bump_matched cx inb (record_outcome inb m)), fullFlow_status cx started))"

definition fullFlow_start :: "load_ctx \<Rightarrow> nat \<Rightarrow> load_state prog" where
  "fullFlow_start cx i =
     Await (StartCall (phoneFromIndex i))
       (\<lambda>out. case ok_body out of
          None \<Rightarrow> (upd_start (record_outcome out), Finish)
        | Some started \<Rightarrow>
          (case lt_pickReceiver (cx_fixtures cx) (js_get ''send_to'' started) of
             None \<Rightarrow> (\<lambda>s. bump_exceptions (upd_start (record_outcome out) s), Finish)
           | Some receiver \<Rightarrow> (upd_start (record_outcome out), fullFlow_inbound cx i receiver (phoneFromIndex i) started)))"

definition fullFlow_unit :: "load_ctx \<Rightarrow> unit_work" where
  "fullFlow_unit cx i s =
     (if \<not> ld_midpointFired s \<and> cx_onMidpoint cx \<and> i \<ge> cx_total cx div 2
      then (s\<lparr>ld_midpointFired := True\<rparr>, Await MidpointCall (\<lambda>_. (id, fullFlow_start cx i)))
      else (s, fullFlow_start cx i))"

definition bump_matched_only :: "load_outcome \<Rightarrow> op_metrics \<Rightarrow> op_metrics" where
  "bump_matched_only out m =
     (case ok_body out of
        None \<Rightarrow> m
      | Some b \<Rightarrow> if json_truthy (js_get ''matched'' b) then bumpExtra ''matched'' m else bumpExtra ''no_match'' m)"

definition inboundOnly_start :: unit_work where
  "inboundOnly_start i s =
     (s, Await (StartCall (phoneFromIndex i))
       (\<lambda>out. case ok_body out of
          None \<Rightarrow> (upd_start (record_outcome out), Finish)
        | Some b \<Rightarrow> (\<lambda>s. (upd_start (record_outcome out) s)
              \<lparr>ld_pending := ld_pending s @ [\<lparr>pn_body = b, pn_phone = phoneFromIndex i\<rparr>]\<rparr>, Finish)))"

definition inboundOnly_inbound :: "load_ctx \<Rightarrow> pending_start list \<Rightarrow> unit_work" where
  "inboundOnly_inbound cx pending i s =
     (s, let v = pending ! i in
       case lt_pickReceiver (cx_fixtures cx) (js_get ''send_to'' (pn_body v)) of
         None \<Rightarrow> Raise
       | Some receiver \<Rightarrow>
         Await (InboundCall receiver (pn_phone v) (as_text (js_get ''message'' (pn_body v))) (''lt_inbound_'' @ show_nat i) None [])
           (\<lambda>inb. if ok_body inb = Some JNull then (upd_inbound (record_outcome inb), Raise)
                  else (upd_inbound (\<lambda>m. bump_matched_only inb (record_outcome inb m)), Finish)))"

text \<open>The seeding loops: start a verification for each index and keep its id.\<close>

fun seed_prog :: "nat list \<Rightarrow> load_state prog" where
  "seed_prog [] = Finish"
| "seed_prog (i # is) =
     Await (StartCall (phoneFromIndex i))
       (\<lambda>out. case ok_body out of
          None \<Rightarrow> (upd_start (record_outcome out), seed_prog is)
        | Some b \<Rightarrow>
          if b = JNull then (upd_start (record_outcome out), Raise)
          else (\<lambda>s. (upd_start (record_outcome out) s)\<lparr>ld_seedIds := ld_seedIds s @ [js_get ''id'' b]\<rparr>, seed_prog is))"

definition status_prog :: "load_ctx \<Rightarrow> json option list \<Rightarrow> nat \<Rightarrow> (load_outcome \<Rightarrow> op_metrics \<Rightarrow> op_metrics) \<Rightarrow> load_state prog" where
  "status_prog cx seedIds i upd =
     Await (StatusCall (printed cx (seedIds ! (i mod length seedIds)))) (\<lambda>out. (upd_status (upd out), Finish))"

text \<open>A 429 counts as expected.\<close>

definition polled :: "load_outcome \<Rightarrow> op_metrics \<Rightarrow> op_metrics" where
  "polled out m =
     (case out of
        Answered AUnexpected4xx status b ms \<Rightarrow>
          if status = 429 then bumpExtra ''rate_limited'' (record_outcome (Answered AExpected4xx status b ms) m) else record_outcome out m
      | _ \<Rightarrow> record_outcome out m)"

definition statusPolling_unit :: "load_ctx \<Rightarrow> json option list \<Rightarrow> unit_work" where
  "statusPolling_unit cx seedIds i s = (s, status_prog cx seedIds i polled)"

definition mixed_flow :: "load_ctx \<Rightarrow> nat \<Rightarrow> load_state prog" where
  "mixed_flow cx i =
     Await (StartCall (phoneFromIndex i))
       (\<lambda>start. (upd_start (record_outcome start),
          case ok_body start of
            None \<Rightarrow> Finish
          | Some started \<Rightarrow>
            (case lt_pickReceiver (cx_fixtures cx) (js_get ''send_to'' started) of
               None \<Rightarrow> Raise
             | Some receiver \<Rightarrow>
               Await (InboundCall receiver (phoneFromIndex i) (as_text (js_get ''message'' started)) (''lt_mixed_'' @ show_nat i) None [])
                 (\<lambda>inb. (upd_inbound (record_outcome inb), Finish)))))"

definition mixed_unit :: "load_ctx \<Rightarrow> json option list \<Rightarrow> unit_work" where
  "mixed_unit cx seedIds i s =
     (let dice = i mod 10 in
      if dice < 6 then (s, mixed_flow cx i)
      else if dice < 9 then (s, if seedIds = [] then Finish else status_prog cx seedIds i record_outcome)
      else startOnly_unit i s)"

definition replay_seed :: "load_ctx \<Rightarrow> load_state prog" where
  "replay_seed cx =
     Await (StartCall (phoneFromIndex 0))
       (\<lambda>seed. (upd_start (record_outcome seed),
          case ok_body seed of
            None \<Rightarrow> Finish
          | Some seedBody \<Rightarrow>
            (case lt_pickReceiver (cx_fixtures cx) (js_get ''send_to'' seedBody) of
               None \<Rightarrow> Raise
             | Some receiver \<Rightarrow>
               Await (InboundCall receiver (phoneFromIndex 0) (as_text (js_get ''message'' seedBody)) ''lt_replay_seed'' None [])
                 (\<lambda>fresh. if ok_body fresh = Some JNull then (upd_inbound (record_outcome fresh), Raise)
                    else (\<lambda>s. (upd_inbound (\<lambda>m.
                        let m' = record_outcome fresh m in
                        case ok_body fresh of
                          None \<Rightarrow> m'
                        | Some b \<Rightarrow> if json_truthy (js_get ''matched'' b) then bumpExtra ''matched'' m' else m') s)
                      \<lparr>ld_replay := Some (seedBody, receiver)\<rparr>, Finish)))))"

definition replay_unit :: "lt_receiver \<Rightarrow> unit_work" where
  "replay_unit receiver i s =
     (s, Await (InboundCall receiver (phoneFromIndex 0) (Some ''VERIFY ZZZZZZ'') (''lt_replay_'' @ show_nat i) (Some (replicate 32 (CHR ''f''))) [401])
       (\<lambda>out. (upd_inbound (\<lambda>m.
            let m' = record_outcome out m in
            case out of Answered AExpected4xx _ _ _ \<Rightarrow> bumpExtra ''replay_rejected'' m' | _ \<Rightarrow> m'), Finish)))"

definition LT_ALPHA :: string where
  "LT_ALPHA = ''ABCDEFGHJKMNPQRSTUVWXYZ23456789''"

definition randomCode :: "rat list \<Rightarrow> string" where
  "randomCode draws = map (\<lambda>r. LT_ALPHA ! nat \<lfloor>r * of_nat (length LT_ALPHA)\<rfloor>) draws"

definition wrongCode_unit :: "load_ctx \<Rightarrow> unit_work" where
  "wrongCode_unit cx i s =
     (s, case fx_receivers (cx_fixtures cx) of
        [] \<Rightarrow> Raise
      | receiver # _ \<Rightarrow>
        Await (InboundCall receiver (phoneFromIndex i) (Some (''VERIFY '' @ randomCode (cx_random cx i))) (''lt_wrong_'' @ show_nat i) None [])
          (\<lambda>out. (upd_inbound (\<lambda>m.
               let m' = record_outcome out m in
               case ok_body out of
                 None \<Rightarrow> m'
               | Some b \<Rightarrow> if b = JNull then m'
                   else if \<not> json_truthy (js_get ''matched'' b) then bumpExtra ''no_match'' m'
                   else bumpExtra ''matched_unexpectedly'' m'),
             if ok_body out = Some JNull then Raise else Finish)))"

section \<open>Scenarios as pools\<close>

text \<open>
  A scenario is a sequence of pools, each chosen when the one before has ended: its number of units, its
  workers and the unit. A part that runs alone is one unit of one worker. \<open>None\<close> returns early.
\<close>

type_synonym phase = "load_state \<Rightarrow> (nat \<times> nat \<times> unit_work) option"

definition alone :: "load_state prog \<Rightarrow> phase" where
  "alone p s = Some (1, 1, \<lambda>_ s. (s, p))"

definition startOnly :: "load_ctx \<Rightarrow> phase list" where
  "startOnly cx = [\<lambda>_. Some (cx_total cx, cx_workers cx, startOnly_unit)]"

definition fullFlow :: "load_ctx \<Rightarrow> phase list" where
  "fullFlow cx = [\<lambda>_. Some (cx_total cx, cx_workers cx, fullFlow_unit cx)]"

definition inboundOnly :: "load_ctx \<Rightarrow> phase list" where
  "inboundOnly cx =
     [\<lambda>_. Some (cx_total cx, min (cx_workers cx) 50, inboundOnly_start),
      \<lambda>s. Some (length (ld_pending s), cx_workers cx, inboundOnly_inbound cx (ld_pending s))]"

definition statusPolling :: "load_ctx \<Rightarrow> phase list" where
  "statusPolling cx =
     [alone (seed_prog [0..<20]),
      \<lambda>s. if ld_seedIds s = [] then None else Some (cx_total cx, cx_workers cx, statusPolling_unit cx (ld_seedIds s))]"

definition mixed :: "load_ctx \<Rightarrow> phase list" where
  "mixed cx =
     [alone (seed_prog (map (\<lambda>i. i + 1000000) [0..<10])),
      \<lambda>s. Some (cx_total cx, cx_workers cx, mixed_unit cx (ld_seedIds s))]"

definition replayStorm :: "load_ctx \<Rightarrow> phase list" where
  "replayStorm cx =
     [alone (replay_seed cx),
      \<lambda>s. case ld_replay s of None \<Rightarrow> None | Some (_, receiver) \<Rightarrow> Some (cx_total cx, cx_workers cx, replay_unit receiver)]"

definition wrongCodeStorm :: "load_ctx \<Rightarrow> phase list" where
  "wrongCodeStorm cx = [\<lambda>_. Some (cx_total cx, cx_workers cx, wrongCode_unit cx)]"


record scenario_def =
  sd_name :: string
  sd_defaultTotal :: nat
  sd_defaultWorkers :: nat
  sd_receivers :: nat
  sd_run :: "load_ctx \<Rightarrow> phase list"

definition scenario :: "string \<Rightarrow> nat \<Rightarrow> nat \<Rightarrow> nat \<Rightarrow> (load_ctx \<Rightarrow> phase list) \<Rightarrow> scenario_def" where
  "scenario name n workers needed run =
     \<lparr>sd_name = name, sd_defaultTotal = n, sd_defaultWorkers = workers, sd_receivers = needed, sd_run = run\<rparr>"

definition SCENARIOS :: "scenario_def list" where
  "SCENARIOS =
     [scenario ''scenario-a'' 1000 50 1 fullFlow,
      scenario ''scenario-b'' 10000 100 1 fullFlow,
      scenario ''scenario-c'' 2000 50 2 fullFlow,
      scenario ''start-only'' 1000 50 1 startOnly,
      scenario ''inbound-only'' 1000 50 1 inboundOnly,
      scenario ''full-flow'' 1000 50 1 fullFlow,
      scenario ''status-polling'' 5000 50 1 statusPolling,
      scenario ''mixed'' 1000 50 1 mixed,
      scenario ''replay-storm'' 1000 50 1 replayStorm,
      scenario ''wrong-code-storm'' 1000 50 1 wrongCodeStorm,
      scenario ''receiver-disabled'' 1000 50 2 fullFlow,
      scenario ''soak'' 50000 100 1 fullFlow]"

section \<open>Runs\<close>

datatype lt_worker = Ready | Working "load_state prog" | is_Gone: Gone | Failed

datatype run_status = Running | Completed | Rejected

text \<open>
  A running scenario: the shared state, the counters \<open>next\<close> and \<open>done\<close> of \<open>runPool\<close>, its workers, the
  pools to come and whether the promise of the scenario is settled. \<open>lr_log\<close> lists the calls with
  what came over the wire; the code does not keep it.
\<close>

record load_run =
  lr_state :: load_state
  lr_log :: "(load_call \<times> wire) list"
  lr_workers :: "lt_worker list"
  lr_total :: nat
  lr_next :: nat
  lr_done :: nat
  lr_unit :: unit_work
  lr_rest :: "phase list"
  lr_status :: run_status

definition enter_pool :: "nat \<times> nat \<times> unit_work \<Rightarrow> phase list \<Rightarrow> load_run \<Rightarrow> load_run" where
  "enter_pool pl rest r =
     (case pl of (n, workers, unit) \<Rightarrow>
        r\<lparr>lr_workers := replicate (max 1 (min workers n)) Ready, lr_total := n, lr_next := 0, lr_done := 0, lr_unit := unit, lr_rest := rest\<rparr>)"

text \<open>What follows when every worker has returned: the next pool, or the end of the scenario.\<close>

definition continue_run :: "load_run \<Rightarrow> load_run" where
  "continue_run r =
     (case lr_rest r of
        [] \<Rightarrow> r\<lparr>lr_status := Completed\<rparr>
      | ph # rest \<Rightarrow>
        (case ph (lr_state r) of
           None \<Rightarrow> r\<lparr>lr_rest := [], lr_status := Completed\<rparr>
         | Some pl \<Rightarrow> enter_pool pl rest r))"

definition set_worker :: "nat \<Rightarrow> lt_worker \<Rightarrow> load_run \<Rightarrow> load_run" where
  "set_worker w x r = r\<lparr>lr_workers := (lr_workers r)[w := x]\<rparr>"

text \<open>
  The moments of a run. A worker takes the next index and runs its unit up to the first call, or returns
  when no index is left; a call is answered; a unit ends; a unit throws, which settles the promise of the pool
  while the other workers go on.
\<close>

inductive load_step :: "(string \<Rightarrow> json option) \<Rightarrow> load_run \<Rightarrow> load_run \<Rightarrow> bool" for parse where
  take_index: "w < length (lr_workers r) \<Longrightarrow> lr_workers r ! w = Ready \<Longrightarrow> lr_next r < lr_total r \<Longrightarrow>
      lr_unit r (lr_next r) (lr_state r) = (s, p) \<Longrightarrow>
      load_step parse r (set_worker w (Working p) (r\<lparr>lr_state := s, lr_next := lr_next r + 1\<rparr>))"
| leave: "w < length (lr_workers r) \<Longrightarrow> lr_workers r ! w = Ready \<Longrightarrow> lr_next r \<ge> lr_total r \<Longrightarrow>
      load_step parse r (set_worker w Gone (r\<lparr>lr_next := lr_next r + 1\<rparr>))"
| answer: "w < length (lr_workers r) \<Longrightarrow> lr_workers r ! w = Working (Await c k) \<Longrightarrow>
      k (client_outcome parse (expected_codes c) a) = (f, p) \<Longrightarrow>
      load_step parse r (set_worker w (Working p) (r\<lparr>lr_state := f (lr_state r), lr_log := lr_log r @ [(c, a)]\<rparr>))"
| unit_done: "w < length (lr_workers r) \<Longrightarrow> lr_workers r ! w = Working Finish \<Longrightarrow>
      load_step parse r (set_worker w Ready (r\<lparr>lr_done := lr_done r + 1\<rparr>))"
| unit_threw: "w < length (lr_workers r) \<Longrightarrow> lr_workers r ! w = Working Raise \<Longrightarrow>
      load_step parse r (set_worker w Failed (r\<lparr>lr_done := lr_done r + 1, lr_status := Rejected\<rparr>))"
| all_left: "lr_status r = Running \<Longrightarrow> list_all is_Gone (lr_workers r) \<Longrightarrow>
      load_step parse r (continue_run r)"

inductive_cases load_stepE: "load_step parse r r'"

definition no_load :: load_state where
  "no_load = \<lparr>ld_metrics = no_metrics, ld_seedIds = [], ld_pending = [], ld_replay = None, ld_midpointFired = False\<rparr>"

text \<open>The start of a scenario is an empty pool that is over.\<close>

definition load_init :: "phase list \<Rightarrow> load_run" where
  "load_init phases =
     continue_run \<lparr>lr_state = no_load, lr_log = [], lr_workers = [], lr_total = 0, lr_next = 0, lr_done = 0,
       lr_unit = (\<lambda>_ s. (s, Finish)), lr_rest = phases, lr_status = Running\<rparr>"

definition load_reachable :: "(string \<Rightarrow> json option) \<Rightarrow> phase list \<Rightarrow> load_run \<Rightarrow> bool" where
  "load_reachable parse phases r \<longleftrightarrow> (load_step parse)\<^sup>*\<^sup>* (load_init phases) r"

lemma load_reachable_induct [consumes 1, case_names init step]:
  assumes "load_reachable parse phases r" and "P (load_init phases)"
    and "\<And>r r'. load_reachable parse phases r \<Longrightarrow> P r \<Longrightarrow> load_step parse r r' \<Longrightarrow> P r'"
  shows "P r"
  using assms(1) unfolding load_reachable_def
  by (induction rule: rtranclp_induct) (auto simp: load_reachable_def intro: assms(2,3))

subsection \<open>Schedules\<close>

text \<open>A run under a schedule: which worker goes on, and what comes over the wire if it waits.\<close>

definition advance :: "(string \<Rightarrow> json option) \<Rightarrow> nat \<times> wire \<Rightarrow> load_run \<Rightarrow> load_run" where
  "advance parse m r =
     (case m of (w, a) \<Rightarrow>
        if lr_status r = Running \<and> list_all is_Gone (lr_workers r) then continue_run r
        else if w \<ge> length (lr_workers r) then r
        else case lr_workers r ! w of
          Ready \<Rightarrow>
            if lr_next r < lr_total r
            then (case lr_unit r (lr_next r) (lr_state r) of (s, p) \<Rightarrow> set_worker w (Working p) (r\<lparr>lr_state := s, lr_next := lr_next r + 1\<rparr>))
            else set_worker w Gone (r\<lparr>lr_next := lr_next r + 1\<rparr>)
        | Working Finish \<Rightarrow> set_worker w Ready (r\<lparr>lr_done := lr_done r + 1\<rparr>)
        | Working Raise \<Rightarrow> set_worker w Failed (r\<lparr>lr_done := lr_done r + 1, lr_status := Rejected\<rparr>)
        | Working (Await c k) \<Rightarrow>
            (case k (client_outcome parse (expected_codes c) a) of (f, p) \<Rightarrow>
               set_worker w (Working p) (r\<lparr>lr_state := f (lr_state r), lr_log := lr_log r @ [(c, a)]\<rparr>))
        | _ \<Rightarrow> r)"

lemma advance_step: "(load_step parse)\<^sup>*\<^sup>* r (advance parse m r)"
proof (cases m)
  case (Pair w a)
  show ?thesis
  proof (cases "lr_status r = Running \<and> list_all is_Gone (lr_workers r)")
    case True
    then show ?thesis by (auto simp: advance_def Pair intro: all_left)
  next
    case busy: False
    show ?thesis
    proof (cases "w < length (lr_workers r)")
      case True
      note i = load_step.intros(1-5) [OF True, simplified]
      show ?thesis
      proof (cases "lr_workers r ! w")
        case (Working p)
        then show ?thesis using busy True i(3,4,5) by (cases p) (auto simp: advance_def Pair split: prod.split)
      qed (use busy True i(1,2) in \<open>auto simp: advance_def Pair split: prod.split\<close>)
    qed (use busy in \<open>auto simp: advance_def Pair\<close>)
  qed
qed

lemma advance_reachable: "load_reachable parse phases (fold (advance parse) ms (load_init phases))"
proof -
  have "(load_step parse)\<^sup>*\<^sup>* r (fold (advance parse) ms r)" for r
    by (induction ms arbitrary: r) (auto intro: rtranclp_trans advance_step)
  then show ?thesis by (simp add: load_reachable_def)
qed

section \<open>Accounting\<close>

definition w_status :: "wire \<Rightarrow> int" where
  "w_status a = (case a of WAnswer status _ _ \<Rightarrow> status | _ \<Rightarrow> 0)"

definition w_ok :: "wire \<Rightarrow> bool" where
  "w_ok a \<longleftrightarrow> 200 \<le> w_status a \<and> w_status a < 300"

definition w_5xx :: "wire \<Rightarrow> bool" where
  "w_5xx a \<longleftrightarrow> w_status a \<ge> 500"

definition w_lost :: "wire \<Rightarrow> bool" where
  "w_lost a \<longleftrightarrow> (case a of WError _ _ \<Rightarrow> True | _ \<Rightarrow> False)"

definition w_aborted :: "wire \<Rightarrow> bool" where
  "w_aborted a \<longleftrightarrow> (case a of WAbort _ \<Rightarrow> True | _ \<Rightarrow> False)"

definition count_of :: "('a \<Rightarrow> bool) \<Rightarrow> 'a list \<Rightarrow> nat" where
  "count_of P xs = length (filter P xs)"

text \<open>The counters of an operation say what came over the wire for it.\<close>

definition op_account :: "wire list \<Rightarrow> op_metrics \<Rightarrow> bool" where
  "op_account as m \<longleftrightarrow>
     om_total m = length as \<and> om_ok m = count_of w_ok as \<and> om_err_5xx m = count_of w_5xx as \<and>
     om_network_err m = count_of w_lost as \<and> om_timeout m = count_of w_aborted as \<and>
     om_ok m + om_expected_4xx m + om_unexpected_4xx m + om_err_5xx m + om_network_err m + om_timeout m = om_total m"

definition wires :: "(load_call \<Rightarrow> bool) \<Rightarrow> (load_call \<times> wire) list \<Rightarrow> wire list" where
  "wires P calls = map snd (filter (\<lambda>(c, _). P c) calls)"

definition run_account :: "(load_call \<times> wire) list \<Rightarrow> run_metrics \<Rightarrow> bool" where
  "run_account calls m \<longleftrightarrow>
     op_account (wires is_StartCall calls) (rm_start m) \<and> op_account (wires is_InboundCall calls) (rm_inbound m) \<and>
     op_account (wires is_StatusCall calls) (rm_status m) \<and> rm_heartbeat m = no_ops \<and> rm_double_verifications m = 0"

lemma op_account_record:
  assumes "op_account as m"
  shows "op_account (as @ [a]) (record_outcome (client_outcome parse codes a) m)"
  using assms
  by (cases a) (auto simp: op_account_def record_outcome_def client_outcome_def classify_def count_of_def Let_def
      w_ok_def w_5xx_def w_lost_def w_aborted_def w_status_def)

lemma op_account_bump [simp]: "op_account as (bumpExtra k m) \<longleftrightarrow> op_account as m"
  by (simp add: op_account_def bumpExtra_def)


text \<open>A property of calls and state that every bookkeeping of a program keeps.\<close>

inductive booked :: "(string \<Rightarrow> json option) \<Rightarrow> ((load_call \<times> wire) list \<Rightarrow> load_state \<Rightarrow> bool) \<Rightarrow> load_state prog \<Rightarrow> bool"
  for parse good where
  booked_Finish [simp, intro]: "booked parse good Finish"
| booked_Raise [simp, intro]: "booked parse good Raise"
| booked_Await: "(\<And>a calls s. good calls s \<Longrightarrow> good (calls @ [(c, a)]) (fst (k (client_outcome parse (expected_codes c) a)) s)) \<Longrightarrow>
      (\<And>a. booked parse good (snd (k (client_outcome parse (expected_codes c) a)))) \<Longrightarrow> booked parse good (Await c k)"

inductive_cases booked_AwaitE: "booked parse good (Await c k)"

definition unit_booked :: "(string \<Rightarrow> json option) \<Rightarrow> ((load_call \<times> wire) list \<Rightarrow> load_state \<Rightarrow> bool) \<Rightarrow> unit_work \<Rightarrow> bool" where
  "unit_booked parse good unit \<longleftrightarrow>
     (\<forall>i s. (\<forall>calls. good calls s \<longrightarrow> good calls (fst (unit i s))) \<and> booked parse good (snd (unit i s)))"

definition phase_booked :: "(string \<Rightarrow> json option) \<Rightarrow> ((load_call \<times> wire) list \<Rightarrow> load_state \<Rightarrow> bool) \<Rightarrow> phase \<Rightarrow> bool" where
  "phase_booked parse good ph \<longleftrightarrow> (\<forall>s n w unit. ph s = Some (n, w, unit) \<longrightarrow> unit_booked parse good unit)"

text \<open>The contract between the pool and the scenarios, and what it gives for every run.\<close>

locale ledger =
  fixes parse :: "string \<Rightarrow> json option" and good :: "(load_call \<times> wire) list \<Rightarrow> load_state \<Rightarrow> bool" and phases :: "phase list"
  assumes start: "good [] no_load"
    and scenario: "ph \<in> set phases \<Longrightarrow> phase_booked parse good ph"
begin

definition inv :: "load_run \<Rightarrow> bool" where
  "inv r \<longleftrightarrow> good (lr_log r) (lr_state r) \<and> (\<forall>p. Working p \<in> set (lr_workers r) \<longrightarrow> booked parse good p) \<and>
     unit_booked parse good (lr_unit r) \<and> set (lr_rest r) \<subseteq> set phases"

lemma continue: "inv r \<Longrightarrow> inv (continue_run r)"
  using scenario
  by (auto simp: inv_def continue_run_def enter_pool_def phase_booked_def split: list.splits option.splits)

lemma set_worker_inv: "inv r \<Longrightarrow> (\<And>p. x = Working p \<Longrightarrow> booked parse good p) \<Longrightarrow> inv (set_worker w x r)"
  using set_update_subset_insert [of "lr_workers r" w x] by (auto simp: inv_def set_worker_def)

lemma steps: "load_step parse r r' \<Longrightarrow> inv r \<Longrightarrow> inv r'"
proof (induction rule: load_step.induct)
  case (take_index w r s p)
  then have "booked parse good p" "good (lr_log r) s" by (auto simp: inv_def unit_booked_def) (metis fst_conv snd_conv)+
  then show ?case using take_index by (intro set_worker_inv) (auto simp: inv_def)
next
  case (answer w r c k a f p)
  then have "booked parse good (Await c k)" using nth_mem by (fastforce simp: inv_def)
  then have "booked parse good p" "good (lr_log r @ [(c, a)]) (f (lr_state r))"
    using answer by (auto elim!: booked_AwaitE simp: inv_def) (metis fst_conv snd_conv)+
  then show ?case using answer by (intro set_worker_inv) (auto simp: inv_def)
next
  case (all_left r)
  then show ?case by (simp add: continue)
next
  case (leave w r)
  then show ?case by (intro set_worker_inv) (auto simp: inv_def)
next
  case (unit_done w r)
  then show ?case by (intro set_worker_inv) (auto simp: inv_def)
next
  case (unit_threw w r)
  then show ?case by (intro set_worker_inv) (auto simp: inv_def)
qed

lemma init: "inv (load_init phases)"
  unfolding load_init_def by (rule continue) (simp add: inv_def start unit_booked_def)

lemma always: "load_reachable parse phases r \<Longrightarrow> good (lr_log r) (lr_state r)"
proof -
  assume "load_reachable parse phases r"
  then have "inv r" by (induction rule: load_reachable_induct) (auto intro: init steps)
  then show ?thesis by (simp add: inv_def)
qed

end

subsection \<open>The counters\<close>

definition accounted :: "(load_call \<times> wire) list \<Rightarrow> load_state \<Rightarrow> bool" where
  "accounted calls s \<longleftrightarrow> run_account calls (ld_metrics s)"

lemma wires_append [simp]: "wires P (calls @ [(c, a)]) = wires P calls @ (if P c then [a] else [])"
  by (simp add: wires_def)

lemma accounted_start:
  "accounted calls s \<Longrightarrow> is_StartCall c \<Longrightarrow> (\<And>as m. op_account as m \<Longrightarrow> op_account (as @ [a]) (f m)) \<Longrightarrow> accounted (calls @ [(c, a)]) (upd_start f s)"
  by (cases c) (auto simp: accounted_def run_account_def upd_start_def)

lemma accounted_inbound:
  "accounted calls s \<Longrightarrow> is_InboundCall c \<Longrightarrow> (\<And>as m. op_account as m \<Longrightarrow> op_account (as @ [a]) (f m)) \<Longrightarrow> accounted (calls @ [(c, a)]) (upd_inbound f s)"
  by (cases c) (auto simp: accounted_def run_account_def upd_inbound_def)

lemma accounted_status:
  "accounted calls s \<Longrightarrow> is_StatusCall c \<Longrightarrow> (\<And>as m. op_account as m \<Longrightarrow> op_account (as @ [a]) (f m)) \<Longrightarrow> accounted (calls @ [(c, a)]) (upd_status f s)"
  by (cases c) (auto simp: accounted_def run_account_def upd_status_def)

lemma accounted_fields [simp]:
  "accounted calls (s\<lparr>ld_seedIds := x\<rparr>) = accounted calls s"
  "accounted calls (s\<lparr>ld_pending := y\<rparr>) = accounted calls s"
  "accounted calls (s\<lparr>ld_replay := z\<rparr>) = accounted calls s"
  "accounted calls (s\<lparr>ld_midpointFired := b\<rparr>) = accounted calls s"
  "accounted calls (bump_exceptions s) = accounted calls s"
  by (simp_all add: accounted_def run_account_def bump_exceptions_def)

lemma accounted_midpoint [simp]: "accounted (calls @ [(MidpointCall, a)]) s = accounted calls s"
  by (simp add: accounted_def run_account_def)

lemma op_account_matched [simp]: "op_account as (bump_matched cx out m) = op_account as m" "op_account as (bump_matched_only out m) = op_account as m"
  by (auto simp: bump_matched_def bump_matched_only_def split: option.splits)

lemma op_account_polled:
  assumes "op_account as m"
  shows "op_account (as @ [a]) (polled (client_outcome parse codes a) m)"
proof (cases "\<exists>b ms. client_outcome parse codes a = Answered AUnexpected4xx 429 b ms")
  case True
  then show ?thesis
    using op_account_record [OF assms, of a parse codes]
    by (auto simp: polled_def) (auto simp: op_account_def record_outcome_def Let_def)
next
  case False
  then have "polled (client_outcome parse codes a) m = record_outcome (client_outcome parse codes a) m"
    by (auto simp: polled_def split: load_outcome.splits answer_kind.splits)
  then show ?thesis using op_account_record [OF assms] by simp
qed

lemmas accounted_upd = accounted_start accounted_inbound accounted_status

lemma seed_booked: "booked parse accounted (seed_prog is)"
  by (induction "is") (auto intro!: booked_Await accounted_upd op_account_record split: option.splits)

lemma startOnly_booked: "unit_booked parse accounted startOnly_unit"
  by (auto simp: unit_booked_def startOnly_unit_def intro!: booked_Await accounted_upd op_account_record)

lemma fullFlow_booked: "unit_booked parse accounted (fullFlow_unit cx)"
  by (auto simp: unit_booked_def fullFlow_unit_def fullFlow_start_def fullFlow_inbound_def fullFlow_status_def
      intro!: booked_Await accounted_upd op_account_record split: option.splits)

lemma inboundOnly_booked: "unit_booked parse accounted inboundOnly_start" "unit_booked parse accounted (inboundOnly_inbound cx pending)"
  by (auto simp: unit_booked_def inboundOnly_start_def inboundOnly_inbound_def Let_def
      intro!: booked_Await accounted_upd op_account_record split: option.splits)

lemma status_booked:
  "(\<And>as m codes a. op_account as m \<Longrightarrow> op_account (as @ [a]) (upd (client_outcome parse codes a) m)) \<Longrightarrow>
   booked parse accounted (status_prog cx seedIds i upd)"
  by (auto simp: status_prog_def intro!: booked_Await accounted_upd)

lemma statusPolling_booked: "unit_booked parse accounted (statusPolling_unit cx seedIds)"
  by (auto simp: unit_booked_def statusPolling_unit_def intro!: status_booked op_account_polled)

lemma mixed_booked: "unit_booked parse accounted (mixed_unit cx seedIds)"
  using startOnly_booked
  by (auto simp: unit_booked_def mixed_unit_def mixed_flow_def Let_def
      intro!: booked_Await accounted_upd op_account_record status_booked split: option.splits)

lemma replay_booked: "booked parse accounted (replay_seed cx)" "unit_booked parse accounted (replay_unit receiver)"
  by (auto simp: unit_booked_def replay_seed_def replay_unit_def Let_def
      intro!: booked_Await accounted_upd op_account_record split: option.splits load_outcome.splits answer_kind.splits)
    (metis op_account_record)+

lemma wrongCode_booked: "unit_booked parse accounted (wrongCode_unit cx)"
  by (auto simp: unit_booked_def wrongCode_unit_def Let_def
      intro!: booked_Await accounted_upd op_account_record split: option.splits list.splits)

lemma accounted_init: "accounted [] no_load"
  by (simp add: accounted_def run_account_def no_load_def no_metrics_def no_ops_def op_account_def count_of_def wires_def)

lemma scenario_booked:
  assumes "d \<in> set SCENARIOS" and "ph \<in> set (sd_run d cx)"
  shows "phase_booked parse accounted ph"
proof -
  have "ph \<in> set (fullFlow cx) \<or> ph \<in> set (startOnly cx) \<or> ph \<in> set (inboundOnly cx) \<or> ph \<in> set (statusPolling cx) \<or>
      ph \<in> set (mixed cx) \<or> ph \<in> set (replayStorm cx) \<or> ph \<in> set (wrongCodeStorm cx)"
    using assms by (auto simp: SCENARIOS_def scenario_def)
  moreover have "unit_booked parse accounted (\<lambda>_ s. (s, p))" if "booked parse accounted p" for p
    using that by (simp add: unit_booked_def)
  ultimately show ?thesis
    by (auto simp: fullFlow_def startOnly_def inboundOnly_def statusPolling_def mixed_def replayStorm_def wrongCodeStorm_def
        phase_booked_def alone_def fullFlow_booked startOnly_booked inboundOnly_booked statusPolling_booked mixed_booked
        replay_booked wrongCode_booked seed_booked split: if_splits option.splits)
qed

interpretation books: ledger parse accounted "if d \<in> set SCENARIOS then sd_run d cx else []" for parse d cx
  by unfold_locales (auto simp: accounted_init intro: scenario_booked split: if_splits)

text \<open>
  C35: the counters of every scenario say what came over the wire, in every order of the workers and
  for every behaviour of the server: each operation counts its requests, its 2xx answers, its 5xx answers,
  its failed connections and its timeouts exactly, and the six classes add up to the total. The counter of
  double verifications is zero in every run: no scenario ever counts one.
\<close>

theorem load_accounting:
  assumes "d \<in> set SCENARIOS" and "load_reachable parse (sd_run d cx) r"
  shows "run_account (lr_log r) (ld_metrics (lr_state r))"
  using books.always [where d = d and parse = parse and cx = cx and r = r] assms by (simp add: accounted_def)

section \<open>Each index once\<close>

text \<open>
  What a program is certain to send, weighed by \<open>f\<close>, whatever is answered; nothing is promised of a
  path that throws.
\<close>

inductive sends :: "(load_call \<Rightarrow> 'a::comm_monoid_add) \<Rightarrow> load_state prog \<Rightarrow> 'a \<Rightarrow> bool" for f where
  sends_Finish: "sends f Finish 0"
| sends_Raise: "sends f Raise v"
| sends_Await: "(\<And>out. sends f (snd (k out)) v) \<Longrightarrow> u = f c + v \<Longrightarrow> sends f (Await c k) u"

inductive_cases sends_FinishE: "sends f Finish v"
inductive_cases sends_AwaitE: "sends f (Await c k) u"

definition owes :: "(load_call \<Rightarrow> 'a::comm_monoid_add) \<Rightarrow> lt_worker \<Rightarrow> 'a \<Rightarrow> bool" where
  "owes f x v \<longleftrightarrow> (case x of Working p \<Rightarrow> sends f p v | _ \<Rightarrow> v = 0)"

definition sent :: "(load_call \<Rightarrow> 'a::comm_monoid_add) \<Rightarrow> load_run \<Rightarrow> 'a" where
  "sent f r = sum_list (map (\<lambda>(c, _). f c) (lr_log r))"

locale pool =
  fixes f :: "load_call \<Rightarrow> 'a::comm_monoid_add" and g :: "nat \<Rightarrow> 'a" and n :: nat and workers :: nat and work :: unit_work
  assumes unit_sends: "sends f (snd (work i s)) (g i)"
begin

definition inv :: "load_run \<Rightarrow> bool" where
  "inv r \<longleftrightarrow> lr_unit r = work \<and> lr_total r = n \<and> lr_rest r = [] \<and> lr_workers r \<noteq> [] \<and>
     (Gone \<in> set (lr_workers r) \<longrightarrow> n \<le> lr_next r) \<and>
     (lr_status r = Completed \<longrightarrow> set (lr_workers r) \<subseteq> {Gone}) \<and>
     (lr_status r \<noteq> Rejected \<longrightarrow>
       (\<exists>vs. list_all2 (owes f) (lr_workers r) vs \<and> sent f r + sum_list vs = sum_list (map g [0..<min (lr_next r) n])))"

lemma sum_list_split:
  fixes vs :: "'a list"
  assumes "i < length vs"
  obtains rest where "sum_list vs = vs ! i + rest" and "\<And>x. sum_list (vs[i := x]) = x + rest"
proof -
  have "\<exists>rest. \<forall>x. sum_list (vs[i := x]) = x + rest"
    using assms
  proof (induction vs arbitrary: i)
    case (Cons v vs)
    show ?case
    proof (cases i)
      case (Suc j)
      with Cons obtain rest where "\<forall>x. sum_list (vs[j := x]) = x + rest" by force
      then show ?thesis using Suc by (intro exI [of _ "v + rest"]) (simp add: add.left_commute)
    qed auto
  qed simp
  then obtain rest where "\<And>x. sum_list (vs[i := x]) = x + rest" by blast
  then show thesis using that [of rest] by (metis list_update_id)
qed

text \<open>A worker that goes over to \<open>y\<close> while \<open>d\<close> is sent and \<open>e\<close> is newly taken.\<close>

lemma rebalanced:
  assumes "inv r" and "lr_status r \<noteq> Rejected" and w: "w < length (lr_workers r)"
    and trade: "\<And>v. owes f (lr_workers r ! w) v \<Longrightarrow> \<exists>x. owes f y x \<and> v + e = d + x"
  shows "\<exists>us. list_all2 (owes f) ((lr_workers r)[w := y]) us \<and>
     sent f r + d + sum_list us = sum_list (map g [0..<min (lr_next r) n]) + e"
proof -
  obtain vs where vs: "list_all2 (owes f) (lr_workers r) vs" "sent f r + sum_list vs = sum_list (map g [0..<min (lr_next r) n])"
    using assms(1,2) unfolding inv_def by blast
  have "w < length vs" using vs(1) w by (simp add: list_all2_lengthD)
  then obtain rest where rest: "sum_list vs = vs ! w + rest" "\<And>x. sum_list (vs[w := x]) = x + rest" by (rule sum_list_split) blast
  obtain x where x: "owes f y x" "vs ! w + e = d + x" using trade list_all2_nthD [OF vs(1) w] by blast
  have "sent f r + d + (x + rest) = sent f r + (d + x) + rest" by (simp add: add.assoc)
  also have "\<dots> = sent f r + sum_list vs + e" by (simp only: x(2) [symmetric] rest(1)) (simp add: ac_simps)
  finally have "sent f r + d + sum_list (vs[w := x]) = sum_list (map g [0..<min (lr_next r) n]) + e" by (simp only: rest(2) vs(2))
  then show ?thesis using vs(1) x(1) by (blast intro: list_all2_update_cong)
qed

lemma not_completed: "inv r \<Longrightarrow> w < length (lr_workers r) \<Longrightarrow> lr_workers r ! w \<noteq> Gone \<Longrightarrow> lr_status r \<noteq> Completed"
  by (auto simp: inv_def dest!: nth_mem)

text \<open>What the moment of a worker keeps, its balance aside.\<close>

lemma invI:
  assumes "inv r" and "w < length (lr_workers r)" and "lr_workers r ! w \<noteq> Gone"
    and "lr_unit r' = lr_unit r" "lr_total r' = lr_total r" "lr_rest r' = lr_rest r" "lr_workers r' = (lr_workers r)[w := y]"
    and "lr_next r \<le> lr_next r'" and "y = Gone \<Longrightarrow> lr_total r \<le> lr_next r'" and "lr_status r' \<in> {lr_status r, Rejected}"
    and "lr_status r' \<noteq> Rejected \<Longrightarrow>
       \<exists>vs. list_all2 (owes f) ((lr_workers r)[w := y]) vs \<and> sent f r' + sum_list vs = sum_list (map g [0..<min (lr_next r') n])"
  shows "inv r'"
proof -
  have "Gone \<in> set ((lr_workers r)[w := y]) \<longrightarrow> n \<le> lr_next r'"
    using set_update_subset_insert [of "lr_workers r" w y] assms(1,8,9) unfolding inv_def by fastforce
  then show ?thesis using assms not_completed [OF assms(1-3)] by (auto simp: inv_def)
qed

lemma inv_step:
  assumes "load_step parse r r'" and "inv r"
  shows "inv r'"
  using assms
proof (induction rule: load_step.induct)
  case (take_index w r s p)
  have own: "sends f p (g (lr_next r))"
    using take_index(4,5) unit_sends [of "lr_next r" "lr_state r"] by (auto simp: inv_def)
  have "min (lr_next r + 1) n = Suc (min (lr_next r) n)" "min (lr_next r) n = lr_next r" using take_index(3,5) by (auto simp: inv_def)
  then have sum: "sum_list (map g [0..<min (lr_next r + 1) n]) = sum_list (map g [0..<min (lr_next r) n]) + g (lr_next r)" by simp
  show ?case
    by (rule invI [OF take_index(5,1), where y = "Working p"])
      (use take_index(2) rebalanced [OF take_index(5) _ take_index(1), of "Working p" "g (lr_next r)" 0] own sum
        in \<open>auto simp: set_worker_def sent_def owes_def\<close>)
next
  case (answer w r c k a h p)
  have "\<exists>x. sends f p x \<and> v = f c + x" if "sends f (Await c k) v" for v
    using that answer(3) by (elim sends_AwaitE) (metis snd_conv)
  then show ?case
    by (intro invI [OF answer(4,1), where y = "Working p"])
      (use answer(2) rebalanced [OF answer(4) _ answer(1), of "Working p" 0 "f c"] in \<open>auto simp: set_worker_def sent_def owes_def\<close>)
next
  case (leave w r)
  then have "min (lr_next r + 1) n = min (lr_next r) n" by (auto simp: inv_def)
  then show ?case
    using leave by (intro invI [OF leave(4,1), where y = Gone])
      (use leave(2) rebalanced [OF leave(4) _ leave(1), of Gone 0 0] in \<open>auto simp: set_worker_def sent_def owes_def\<close>)
next
  case (unit_done w r)
  have "v = 0" if "sends f Finish v" for v using that by (rule sends_FinishE)
  then show ?case
    by (intro invI [OF unit_done(3,1), where y = Ready])
      (use unit_done(2) rebalanced [OF unit_done(3) _ unit_done(1), of Ready 0 0] in \<open>auto simp: set_worker_def sent_def owes_def\<close>)
next
  case (unit_threw w r)
  then show ?case by (intro invI [OF unit_threw(3,1), where y = Failed]) (auto simp: set_worker_def)
next
  case (all_left r)
  then show ?case by (auto simp: inv_def continue_run_def list_all_iff sent_def)
qed

lemma zeros: "set vs \<subseteq> {0} \<Longrightarrow> sum_list vs = 0" for vs :: "'a list"
  by (induction vs) auto

lemma at_end:
  assumes "load_reachable parse [\<lambda>_. Some (n, workers, work)] r" and "lr_status r = Completed"
  shows "sent f r = sum_list (map g [0..<n])"
proof -
  have init: "inv (load_init [\<lambda>_. Some (n, workers, work)])"
    by (auto simp: inv_def load_init_def continue_run_def enter_pool_def sent_def owes_def list_all2_conv_all_nth zeros
        intro!: exI [of _ "replicate (max 1 (min workers n)) 0"])
  have "inv r" using assms(1) by (induction rule: load_reachable_induct) (auto intro: inv_step init)
  then obtain vs where vs: "list_all2 (owes f) (lr_workers r) vs" "sent f r + sum_list vs = sum_list (map g [0..<min (lr_next r) n])"
    and gone: "set (lr_workers r) \<subseteq> {Gone}" "lr_workers r \<noteq> []" and n: "Gone \<in> set (lr_workers r) \<longrightarrow> n \<le> lr_next r"
    using assms(2) unfolding inv_def by auto
  have "v = 0" if v: "v \<in> set vs" for v
  proof -
    obtain j where j: "j < length vs" "vs ! j = v" using v by (auto simp: in_set_conv_nth)
    have "j < length (lr_workers r)" using list_all2_lengthD [OF vs(1)] j(1) by simp
    then have "lr_workers r ! j = Gone" using gone(1) nth_mem by blast
    then show ?thesis using list_all2_nthD2 [OF vs(1) j(1)] j(2) by (simp add: owes_def)
  qed
  then have "sum_list vs = 0" by (intro zeros) auto
  moreover have "n \<le> lr_next r" using gone n by (cases "lr_workers r") auto
  ultimately show ?thesis using vs(2) by (simp add: min_absorb2)
qed

end

definition start_of :: "load_call \<Rightarrow> load_call multiset" where
  "start_of c = (if is_StartCall c then {#c#} else {#})"

definition read_balance :: "load_call \<Rightarrow> int" where
  "read_balance c = (if is_InboundCall c then 1 else if is_StatusCall c then - 1 else 0)"

lemmas fullFlow_defs = fullFlow_unit_def fullFlow_start_def fullFlow_inbound_def fullFlow_status_def

lemma fullFlow_sends:
  assumes "\<And>i s r j. f (StatusCall s) + e = 0" and "\<And>r p b j n cs. f (InboundCall r p b j n cs) = e" and "f MidpointCall = 0"
  shows "sends f (snd (fullFlow_unit cx i s)) (f (StartCall (phoneFromIndex i)))"
proof -
  have status: "sends f (fullFlow_status cx b) (f (StatusCall (printed cx (js_get ''id'' b))))" for b
    unfolding fullFlow_status_def by (rule sends_Await [where v = 0]) (auto intro: sends_Finish sends_Raise)
  have inbound: "sends f (fullFlow_inbound cx i receiver phone b) 0" for receiver phone b
    unfolding fullFlow_inbound_def
    by (rule sends_Await [where v = "f (StatusCall (printed cx (js_get ''id'' b)))"])
      (auto intro: status sends_Raise simp: assms add.commute [of e])
  have start: "sends f (fullFlow_start cx i) (f (StartCall (phoneFromIndex i)))"
    unfolding fullFlow_start_def
    by (rule sends_Await [where v = 0]) (auto intro: inbound sends_Finish split: option.splits)
  then show ?thesis
    by (auto simp: fullFlow_unit_def assms(3) intro!: sends_Await [where v = "f (StartCall (phoneFromIndex i))"])
qed

interpretation starts: pool start_of "\<lambda>i. start_of (StartCall (phoneFromIndex i))" n workers "fullFlow_unit cx" for n workers cx
  by unfold_locales (rule fullFlow_sends [where e = "{#}"]; simp add: start_of_def)

interpretation reads: pool read_balance "\<lambda>i. read_balance (StartCall (phoneFromIndex i))" n workers "fullFlow_unit cx" for n workers cx
  by unfold_locales (rule fullFlow_sends [where e = 1]; simp add: read_balance_def)

lemma sent_starts: "sent start_of r = mset (filter is_StartCall (map fst (lr_log r)))"
proof -
  have "sum_list (map (\<lambda>(c, _). start_of c) calls) = mset (filter is_StartCall (map fst calls))" for calls :: "(load_call \<times> wire) list"
    by (induction calls) (auto simp: start_of_def)
  then show ?thesis by (simp add: sent_def)
qed

lemma sent_reads: "sent read_balance r = int (length (wires is_InboundCall (lr_log r))) - int (length (wires is_StatusCall (lr_log r)))"
proof -
  have "sum_list (map (\<lambda>(c, _). read_balance c) calls) = int (length (wires is_InboundCall calls)) - int (length (wires is_StatusCall calls))" for calls
  proof (induction calls)
    case (Cons x calls)
    then show ?case by (cases x; cases "fst x") (auto simp: wires_def read_balance_def)
  qed (simp add: wires_def)
  then show ?thesis by (simp add: sent_def)
qed

lemma sum_singles: "sum_list (map (\<lambda>x. {#h x#}) xs) = mset (map h xs)"
  by (induction xs) auto

text \<open>
  A full-flow run that ends without a throw has started a verification for each of its indices exactly
  once, whatever the interleaving of the workers, the answers and the number of workers; it has counted one start per index,
  and one status read for each SMS it posted.
\<close>

theorem full_flow_exact:
  assumes "load_reachable parse (fullFlow cx) r" and "lr_status r = Completed"
  shows "mset (filter is_StartCall (map fst (lr_log r))) = mset (map (\<lambda>i. StartCall (phoneFromIndex i)) [0..<cx_total cx]) \<and>
     om_total (rm_start (ld_metrics (lr_state r))) = cx_total cx \<and>
     om_total (rm_status (ld_metrics (lr_state r))) = om_total (rm_inbound (ld_metrics (lr_state r)))"
proof -
  have starts: "mset (filter is_StartCall (map fst (lr_log r))) = mset (map (\<lambda>i. StartCall (phoneFromIndex i)) [0..<cx_total cx])"
    using starts.at_end [OF assms [unfolded fullFlow_def]] by (simp add: sent_starts start_of_def sum_singles)
  have reads: "length (wires is_InboundCall (lr_log r)) = length (wires is_StatusCall (lr_log r))"
    using reads.at_end [OF assms [unfolded fullFlow_def]] by (simp add: sent_reads read_balance_def)
  have "sd_run (scenario ''full-flow'' 1000 50 1 fullFlow) = fullFlow" by (simp add: scenario_def)
  then have "accounted (lr_log r) (lr_state r)"
    using books.always [where d = "scenario ''full-flow'' 1000 50 1 fullFlow" and parse = parse and cx = cx and r = r] assms(1)
    by (simp add: SCENARIOS_def)
  moreover have "length (wires is_StartCall (lr_log r)) = cx_total cx"
    using mset_eq_length [OF starts] by (simp add: wires_def filter_map comp_def case_prod_unfold)
  ultimately show ?thesis using starts reads by (simp add: accounted_def run_account_def op_account_def)
qed


definition demo_parse :: "string \<Rightarrow> json option" where
  "demo_parse t = (if t = ''started'' then Some (JObj [(''id'', JStr ''ver_1''), (''message'', JStr ''VERIFY AAAAAA''), (''send_to'', JStr ''+963990000000'')])
     else Some (JObj []))"

definition demo_ctx :: load_ctx where
  "demo_ctx = \<lparr>cx_total = 1, cx_workers = 2,
     cx_fixtures = \<lparr>fx_publicKey = [], fx_secretKey = [], fx_receivers = [\<lparr>lt_id = ''rcv_1'', lt_msisdn = ''+963990000000'', lt_signingKey = []\<rparr>]\<rparr>,
     cx_onMidpoint = False, cx_show = (\<lambda>_. []), cx_random = (\<lambda>_. [])\<rparr>"

definition demo_load :: load_run where
  "demo_load = fold (advance demo_parse)
     [(0, WAbort None), (0, WAnswer 201 ''started'' None), (0, WAnswer 200 [] None), (0, WAbort None), (0, WAbort None), (0, WAbort None), (0, WAbort None)]
     (load_init (fullFlow demo_ctx))"

lemma demo_reachable: "load_reachable demo_parse (fullFlow demo_ctx) demo_load"
  unfolding demo_load_def by (rule advance_reachable)

lemma demo_facts:
  "lr_status demo_load = Completed" "om_total (rm_inbound (ld_metrics (lr_state demo_load))) = 1"
  by (simp_all add: demo_load_def load_init_def fullFlow_def continue_run_def enter_pool_def advance_def set_worker_def
      fullFlow_defs demo_ctx_def no_load_def demo_parse_def client_outcome_def classify_def ok_body_def js_get_def field_def lt_pickReceiver_def
     upd_start_def upd_inbound_def upd_status_def record_outcome_def bump_matched_def no_metrics_def no_ops_def Let_def bumpExtra_def)

theorem load_accounting_witness:
  "run_account (lr_log demo_load) (ld_metrics (lr_state demo_load)) \<and> om_total (rm_inbound (ld_metrics (lr_state demo_load))) = 1"
  using load_accounting [of "scenario ''full-flow'' 1000 50 1 fullFlow" demo_parse demo_ctx demo_load] demo_reachable demo_facts
  by (simp add: SCENARIOS_def) (simp add: scenario_def)

theorem full_flow_exact_witness:
  "om_total (rm_start (ld_metrics (lr_state demo_load))) = 1 \<and> lr_status demo_load = Completed"
  using full_flow_exact [OF demo_reachable demo_facts(1)] demo_facts(1) by (simp add: demo_ctx_def)

end
