(* ===== verification/LoadSuite.thy ===== *)
theory LoadSuite
  imports LoadRun "HOL-Library.Sublist"
begin

text \<open>
  Running scenarios and suites: the fixtures of the environment (\<open>env.ts\<close>), one scenario (\<open>runner.ts\<close>),
  the suites and their verdict (\<open>suites.ts\<close>), the command line of the tool (\<open>index.ts\<close>) and what the
  reports show of the environment (\<open>reporter.ts\<close>), all under \<open>tools/loadtest/src\<close>. What a scenario does while it
  runs is the theory \<open>LoadRun\<close>; here a run is what it left behind.
\<close>

section \<open>Fixtures\<close>

record tool_fixtures =
  tf_baseUrl :: string
  tf_fixtures :: fixtures
  tf_ephemeral :: bool

definition required_env :: "(string \<Rightarrow> string option) \<Rightarrow> string \<Rightarrow> string + string" where
  "required_env env name = (if truthy (env name) then Inr (the (env name)) else Inl (''missing env: '' @ name))"

definition byo_receiver :: "(string \<Rightarrow> string option) \<Rightarrow> nat \<Rightarrow> string + lt_receiver" where
  "byo_receiver env i =
     (let var = (\<lambda>what. env (''SYROTP_RECEIVER_'' @ show_nat i @ ''_'' @ what)) in
      if \<not> truthy (var ''ID'') \<or> \<not> truthy (var ''KEY'') \<or> \<not> truthy (var ''MSISDN'')
      then Inl (''BYO env mode missing SYROTP_RECEIVER_'' @ show_nat i @ ''_{ID,KEY,MSISDN}. '' @
        ''For multi-receiver scenarios, run bootstrap.js once per receiver and export each set.'')
      else Inr \<lparr>lt_id = the (var ''ID''), lt_msisdn = the (var ''MSISDN''), lt_signingKey = the (var ''KEY'')\<rparr>)"

fun byo_receivers :: "(string \<Rightarrow> string option) \<Rightarrow> nat list \<Rightarrow> string + lt_receiver list" where
  "byo_receivers env [] = Inr []"
| "byo_receivers env (i # is) =
     (case byo_receiver env i of
        Inl e \<Rightarrow> Inl e
      | Inr r \<Rightarrow> (case byo_receivers env is of Inl e \<Rightarrow> Inl e | Inr rs \<Rightarrow> Inr (r # rs)))"

definition loadByoFixtures :: "(string \<Rightarrow> string option) \<Rightarrow> string \<Rightarrow> nat \<Rightarrow> string + tool_fixtures" where
  "loadByoFixtures env baseUrl needed =
     (case byo_receivers env [1..<needed + 1] of
        Inl e \<Rightarrow> Inl e
      | Inr rs \<Rightarrow>
        (case required_env env ''SYROTP_PUBLIC_KEY'' of
           Inl e \<Rightarrow> Inl e
         | Inr pk \<Rightarrow>
           (case required_env env ''SYROTP_SECRET_KEY'' of
              Inl e \<Rightarrow> Inl e
            | Inr sk \<Rightarrow> Inr \<lparr>tf_baseUrl = baseUrl, tf_fixtures = \<lparr>fx_publicKey = pk, fx_secretKey = sk, fx_receivers = rs\<rparr>, tf_ephemeral = False\<rparr>)))"

text \<open>What preparing fixtures in the database, under a checked key, comes to.\<close>

definition prepFixtures :: "(string \<Rightarrow> string option) \<Rightarrow> (string \<Rightarrow> string \<Rightarrow> nat \<Rightarrow> string + fixtures) \<Rightarrow> string \<Rightarrow> nat \<Rightarrow> string + tool_fixtures" where
  "prepFixtures env insert_rows baseUrl needed =
     (case required_env env ''DATABASE_URL'' of
        Inl e \<Rightarrow> Inl e
      | Inr dbUrl \<Rightarrow>
        (case required_env env ''MASTER_ENCRYPTION_KEY'' of
           Inl e \<Rightarrow> Inl e
         | Inr key \<Rightarrow>
           if \<not> all_in_between is_hex 64 64 key then Inl ''MASTER_ENCRYPTION_KEY must be 64 hex chars (32 bytes)''
           else (case insert_rows dbUrl key needed of
                   Inl e \<Rightarrow> Inl e
                 | Inr fx \<Rightarrow> Inr \<lparr>tf_baseUrl = baseUrl, tf_fixtures = fx, tf_ephemeral = True\<rparr>)))"

definition loadFixtures :: "(string \<Rightarrow> string option) \<Rightarrow> (string \<Rightarrow> string \<Rightarrow> nat \<Rightarrow> string + fixtures) \<Rightarrow> nat \<Rightarrow> string + tool_fixtures" where
  "loadFixtures env insert_rows needed =
     (case required_env env ''SYROTP_BASE_URL'' of
        Inl e \<Rightarrow> Inl e
      | Inr baseUrl \<Rightarrow>
        if truthy (env ''SYROTP_PUBLIC_KEY'') \<and> truthy (env ''SYROTP_SECRET_KEY'') \<and> truthy (env ''SYROTP_RECEIVER_1_ID'')
        then loadByoFixtures env baseUrl needed
        else prepFixtures env insert_rows baseUrl needed)"

section \<open>One scenario\<close>

text \<open>
  The world around one run: the environment, the rows inserted for it, the answer of the health probe,
  whether seeding bindings and writing the report fail, and the metrics the scenario leaves, with
  whether its promise was rejected.
\<close>

record run_world =
  rw_env :: "string \<Rightarrow> string option"
  rw_insert :: "string \<Rightarrow> string \<Rightarrow> nat \<Rightarrow> string + fixtures"
  rw_health :: wire
  rw_seed :: "string list \<Rightarrow> string option"
  rw_run :: "scenario_def \<Rightarrow> fixtures \<Rightarrow> nat \<Rightarrow> nat \<Rightarrow> run_metrics \<times> bool"
  rw_write :: "string option"

record run_out =
  ro_metrics :: run_metrics
  ro_acceptance :: "bool \<times> acceptance_check list"
  ro_threw :: bool

definition find_scenario :: "string \<Rightarrow> scenario_def option" where
  "find_scenario name = find (\<lambda>d. sd_name d = name) SCENARIOS"

definition outcome_kind :: "load_outcome \<Rightarrow> string" where
  "outcome_kind out =
     (case out of
        Answered AOk _ _ _ \<Rightarrow> ''ok'' | Answered AExpected4xx _ _ _ \<Rightarrow> ''expected_4xx''
      | Answered AUnexpected4xx _ _ _ \<Rightarrow> ''unexpected_4xx'' | Answered AErr5xx _ _ _ \<Rightarrow> ''err_5xx''
      | NetworkErr _ _ \<Rightarrow> ''network_err'' | TimedOut _ \<Rightarrow> ''timeout'')"

definition seeded_phones :: "nat \<Rightarrow> string list" where
  "seeded_phones n = remdups (map phoneFromIndex [0..<n] @ map (\<lambda>i. phoneFromIndex (i + 1000000)) [0..<n])"

definition count_throw :: "run_metrics \<times> bool \<Rightarrow> run_metrics" where
  "count_throw mt = (case mt of (m, threw) \<Rightarrow> if threw then m\<lparr>rm_unhandled_exceptions := rm_unhandled_exceptions m + 1\<rparr> else m)"

definition runOne :: "run_world \<Rightarrow> string \<Rightarrow> nat \<Rightarrow> nat \<Rightarrow> acceptance_policy \<Rightarrow> string + run_out" where
  "runOne rw name n workers policy =
     (case find_scenario name of
        None \<Rightarrow> Inl (''unknown scenario: '' @ name)
      | Some d \<Rightarrow>
        (case loadFixtures (rw_env rw) (rw_insert rw) (sd_receivers d) of
           Inl e \<Rightarrow> Inl e
         | Inr tf \<Rightarrow>
           let health = client_outcome (\<lambda>_. None) [] (rw_health rw) in
           if outcome_kind health \<noteq> ''ok'' then Inl (''/v1/health probe failed ('' @ outcome_kind health @ '')'')
           else case (if tf_ephemeral tf then rw_seed rw (seeded_phones n) else None) of
             Some e \<Rightarrow> Inl e
           | None \<Rightarrow>
             let mt = rw_run rw d (tf_fixtures tf) n workers; m = count_throw mt in
             (case rw_write rw of
                Some e \<Rightarrow> Inl e
              | None \<Rightarrow> Inr \<lparr>ro_metrics = m, ro_acceptance = evaluate m policy, ro_threw = snd mt\<rparr>)))"

section \<open>Suites\<close>

record suite_step =
  ss_scenarioName :: string
  ss_workers :: "nat option"
  ss_total :: "nat option"

definition step_of :: "string \<Rightarrow> suite_step" where
  "step_of name = \<lparr>ss_scenarioName = name, ss_workers = None, ss_total = None\<rparr>"

definition SUITES :: "(string \<times> suite_step list) list" where
  "SUITES =
     [(''release-baseline'',
       [step_of ''scenario-a'', (step_of ''scenario-b'')\<lparr>ss_workers := Some 100\<rparr>, step_of ''replay-storm'',
        step_of ''wrong-code-storm'', step_of ''receiver-disabled'']),
      (''soak'', [step_of ''soak'', step_of ''replay-storm'', step_of ''wrong-code-storm'', step_of ''receiver-disabled''])]"

record policy_overrides =
  ov_p95StartMs :: "nat option"
  ov_p95InboundMs :: "nat option"
  ov_p95StatusMs :: "nat option"

definition override :: "nat option \<Rightarrow> rat option \<Rightarrow> rat option" where
  "override ov v = (case ov of None \<Rightarrow> v | Some n \<Rightarrow> Some (of_nat n))"

definition applyOverrides :: "acceptance_policy \<Rightarrow> policy_overrides \<Rightarrow> acceptance_policy" where
  "applyOverrides p ov =
     p\<lparr>po_p95StartMs := override (ov_p95StartMs ov) (po_p95StartMs p),
       po_p95InboundMs := override (ov_p95InboundMs ov) (po_p95InboundMs p),
       po_p95StatusMs := override (ov_p95StatusMs ov) (po_p95StatusMs p)\<rparr>"

datatype ran_to = StepCompleted | StepSkipped | StepErrored

record step_result =
  st_scenarioName :: string
  st_pass :: bool
  st_ranTo :: ran_to
  st_metrics :: "run_metrics option"
  st_error :: "string option"

record hard_safety =
  hs_double_verifications :: nat
  hs_unhandled_exceptions :: nat
  hs_err_5xx :: nat
  hs_network_err :: nat
  hs_timeout :: nat

definition ZERO_SAFETY :: hard_safety where
  "ZERO_SAFETY = \<lparr>hs_double_verifications = 0, hs_unhandled_exceptions = 0, hs_err_5xx = 0, hs_network_err = 0, hs_timeout = 0\<rparr>"

definition addToSafety :: "run_metrics \<Rightarrow> hard_safety \<Rightarrow> hard_safety" where
  "addToSafety m s =
     \<lparr>hs_double_verifications = hs_double_verifications s + rm_double_verifications m,
      hs_unhandled_exceptions = hs_unhandled_exceptions s + rm_unhandled_exceptions m,
      hs_err_5xx = hs_err_5xx s + sum_list (map om_err_5xx [rm_start m, rm_inbound m, rm_status m, rm_heartbeat m]),
      hs_network_err = hs_network_err s + sum_list (map om_network_err [rm_start m, rm_inbound m, rm_status m, rm_heartbeat m]),
      hs_timeout = hs_timeout s + sum_list (map om_timeout [rm_start m, rm_inbound m, rm_status m, rm_heartbeat m])\<rparr>"

definition step_run :: "policy_overrides \<Rightarrow> run_world \<Rightarrow> suite_step \<Rightarrow> scenario_def \<Rightarrow> string + run_out" where
  "step_run ov rw step d =
     runOne rw (ss_scenarioName step)
       (case ss_total step of Some n \<Rightarrow> n | None \<Rightarrow> sd_defaultTotal d)
       (case ss_workers step of Some n \<Rightarrow> n | None \<Rightarrow> sd_defaultWorkers d)
       (applyOverrides (defaultPolicy (ss_scenarioName step)) ov)"

definition errored :: "string \<Rightarrow> string \<Rightarrow> step_result" where
  "errored name e = \<lparr>st_scenarioName = name, st_pass = False, st_ranTo = StepErrored, st_metrics = None, st_error = Some e\<rparr>"

definition skipped :: "suite_step \<Rightarrow> step_result" where
  "skipped step = \<lparr>st_scenarioName = ss_scenarioName step, st_pass = False, st_ranTo = StepSkipped, st_metrics = None, st_error = None\<rparr>"

text \<open>The loop over the steps: results, totals and whether all were run. An unknown scenario does not stop it.\<close>

fun suite_loop :: "bool \<Rightarrow> policy_overrides \<Rightarrow> (run_world \<times> suite_step) list \<Rightarrow> hard_safety \<Rightarrow> step_result list \<times> hard_safety \<times> bool" where
  "suite_loop cont ov [] safety = ([], safety, True)"
| "suite_loop cont ov ((rw, step) # rest) safety =
     (case find_scenario (ss_scenarioName step) of
        None \<Rightarrow>
          (case suite_loop cont ov rest safety of
             (rs, s, ranAll) \<Rightarrow> (errored (ss_scenarioName step) (''unknown scenario: '' @ ss_scenarioName step) # rs, s, ranAll))
      | Some d \<Rightarrow>
        (let out = step_run ov rw step d;
             result = (case out of
                 Inl e \<Rightarrow> errored (ss_scenarioName step) e
               | Inr r \<Rightarrow> \<lparr>st_scenarioName = ss_scenarioName step, st_pass = (fst (ro_acceptance r) \<and> \<not> ro_threw r),
                   st_ranTo = StepCompleted, st_metrics = Some (ro_metrics r), st_error = None\<rparr>);
             safety' = (case out of Inl _ \<Rightarrow> safety | Inr r \<Rightarrow> addToSafety (ro_metrics r) safety)
         in if \<not> st_pass result \<and> \<not> cont then (result # map (\<lambda>(_, s). skipped s) rest, safety', False)
            else case suite_loop cont ov rest safety' of (rs, s, ranAll) \<Rightarrow> (result # rs, s, ranAll)))"

record suite_result =
  su_pass :: bool
  su_steps :: "step_result list"
  su_hardSafety :: hard_safety
  su_ranAll :: bool

definition suite_verdict :: "step_result list \<times> hard_safety \<times> bool \<Rightarrow> suite_result" where
  "suite_verdict x =
     (case x of (steps, safety, ranAll) \<Rightarrow>
        \<lparr>su_pass = (list_all st_pass steps \<and>
            (hs_double_verifications safety = 0 \<and> hs_unhandled_exceptions safety = 0 \<and> hs_err_5xx safety = 0 \<and>
             hs_network_err safety = 0 \<and> hs_timeout safety = 0)),
         su_steps = steps, su_hardSafety = safety, su_ranAll = ranAll\<rparr>)"

text \<open>The worlds are those of the steps in turn; \<open>None\<close> is a suite that is not there.\<close>

definition runSuite :: "string \<Rightarrow> bool \<Rightarrow> policy_overrides \<Rightarrow> (nat \<Rightarrow> run_world) \<Rightarrow> suite_result option" where
  "runSuite name cont ov worlds =
     map_option (\<lambda>steps. suite_verdict (suite_loop cont ov (zip (map worlds [0..<length steps]) steps) ZERO_SAFETY)) (map_of SUITES name)"

definition equivalentStandaloneCommand :: "suite_step \<Rightarrow> scenario_def \<Rightarrow> bool \<Rightarrow> policy_overrides \<Rightarrow> string" where
  "equivalentStandaloneCommand step d csv ov =
     join_with '' ''
       ([''pnpm'', ''loadtest'', ss_scenarioName step] @
        (case ss_total step of Some n \<Rightarrow> if n \<noteq> sd_defaultTotal d then [''--total'', show_nat n] else [] | None \<Rightarrow> []) @
        (case ss_workers step of Some n \<Rightarrow> if n \<noteq> sd_defaultWorkers d then [''--workers'', show_nat n] else [] | None \<Rightarrow> []) @
        (if csv then [''--csv''] else []) @
        (case ov_p95StartMs ov of Some n \<Rightarrow> if n \<noteq> 0 then [''--p95-start'', show_nat n] else [] | None \<Rightarrow> []) @
        (case ov_p95InboundMs ov of Some n \<Rightarrow> if n \<noteq> 0 then [''--p95-inbound'', show_nat n] else [] | None \<Rightarrow> []) @
        (case ov_p95StatusMs ov of Some n \<Rightarrow> if n \<noteq> 0 then [''--p95-status'', show_nat n] else [] | None \<Rightarrow> []))"

section \<open>Lines of the summary\<close>

text \<open>\<open>show_num\<close> prints a number as JavaScript does.\<close>

definition MARK_PASS :: string where
  "MARK_PASS = [CHR 0xE2, CHR 0x9C, CHR 0x85] @ '' PASS''"

definition MARK_FAIL :: string where
  "MARK_FAIL = [CHR 0xE2, CHR 0x9D, CHR 0x8C] @ '' FAIL''"

definition p95_part :: "(rat \<Rightarrow> string) \<Rightarrow> string \<Rightarrow> op_metrics \<Rightarrow> string" where
  "p95_part show_num name op = name @ ''='' @ show_num (ls_p95_ms (lat_snapshot (om_latency op))) @ ''ms''"

definition p99_text :: "(rat \<Rightarrow> string) \<Rightarrow> op_metrics \<Rightarrow> string" where
  "p99_text show_num op = show_num (ls_p99_ms (lat_snapshot (om_latency op))) @ ''ms''"

definition count_part :: "string \<Rightarrow> nat \<Rightarrow> string" where
  "count_part name n = name @ ''='' @ show_nat n"

definition extra_count :: "op_metrics \<Rightarrow> string \<Rightarrow> nat" where
  "extra_count op k = (case om_extras op k of None \<Rightarrow> 0 | Some n \<Rightarrow> n)"

definition three_5xx :: "run_metrics \<Rightarrow> nat" where
  "three_5xx m = om_err_5xx (rm_start m) + om_err_5xx (rm_inbound m) + om_err_5xx (rm_status m)"

definition shown_429 :: "op_metrics \<Rightarrow> nat" where
  "shown_429 op = om_expected_4xx op + extra_count op ''rate_limited''"

definition step_parts :: "(rat \<Rightarrow> string) \<Rightarrow> string \<Rightarrow> run_metrics \<Rightarrow> string list" where
  "step_parts sn name m =
     (let p95s = [p95_part sn ''p95 start'' (rm_start m), p95_part sn ''inbound'' (rm_inbound m), p95_part sn ''status'' (rm_status m)];
          all3 = [''success='' @ pct_text (combined_rate [rm_start m, rm_inbound m, rm_status m]), count_part ''5xx'' (three_5xx m)]
      in if name \<in> set [''scenario-a'', ''scenario-b'', ''scenario-c'', ''full-flow'', ''mixed''] then p95s @ all3
         else if name = ''soak'' then
           p95s @ [''p99 start='' @ p99_text sn (rm_start m) @ '' inbound='' @ p99_text sn (rm_inbound m) @ '' status='' @ p99_text sn (rm_status m)] @ all3
         else if name = ''start-only'' then
           [p95_part sn ''p95 start'' (rm_start m), ''success='' @ pct_text (combined_rate [rm_start m]), count_part ''5xx'' (om_err_5xx (rm_start m))]
         else if name = ''inbound-only'' then
           [p95_part sn ''p95 inbound'' (rm_inbound m), ''success='' @ pct_text (combined_rate [rm_inbound m]), count_part ''5xx'' (om_err_5xx (rm_inbound m))]
         else if name = ''status-polling'' then
           [p95_part sn ''p95 status'' (rm_status m), count_part ''200'' (om_ok (rm_status m)), count_part ''429'' (shown_429 (rm_status m)),
            count_part ''5xx'' (om_err_5xx (rm_status m))]
         else if name = ''replay-storm'' then
           [count_part ''replay_rejected'' (extra_count (rm_inbound m) ''replay_rejected''), count_part ''5xx'' (om_err_5xx (rm_inbound m))]
         else if name = ''wrong-code-storm'' then
           [count_part ''no_match'' (extra_count (rm_inbound m) ''no_match''),
            count_part ''matched_unexpectedly'' (extra_count (rm_inbound m) ''matched_unexpectedly''), count_part ''5xx'' (om_err_5xx (rm_inbound m))]
         else if name = ''receiver-disabled'' then
           [count_part ''start ok'' (om_ok (rm_start m)), count_part ''inbound ok'' (om_ok (rm_inbound m)), count_part ''5xx total'' (three_5xx m)]
         else [p95_part sn ''p95 start'' (rm_start m), count_part ''5xx'' (three_5xx m)])"

definition formatStep :: "(rat \<Rightarrow> string) \<Rightarrow> step_result \<Rightarrow> string" where
  "formatStep sn s =
     (let name = ''- **'' @ st_scenarioName s @ ''**: '' in
      if st_ranTo s = StepSkipped then name @ [CHR 0xE2, CHR 0x8F, CHR 0xAD, CHR 0xEF, CHR 0xB8, CHR 0x8F] @ '' skipped''
      else case (st_ranTo s, st_metrics s) of
        (StepCompleted, Some m) \<Rightarrow>
          name @ (if st_pass s then MARK_PASS else MARK_FAIL) @ '' '' @ DASH @ '' '' @ join_with '', '' (step_parts sn (st_scenarioName s) m)
      | _ \<Rightarrow> name @ [CHR 0xE2, CHR 0x9D, CHR 0x8C] @ '' ERROR'' @ (if truthy (st_error s) then '' '' @ DASH @ '' '' @ the (st_error s) else []))"

section \<open>The command line\<close>

text \<open>The options as \<open>parseArgs\<close> of \<open>node:util\<close> returns them.\<close>

record load_values =
  lv_total :: "string option"
  lv_workers :: "string option"
  lv_csv :: bool
  lv_no_acceptance :: bool
  lv_continue_on_fail :: bool
  lv_p95_start :: "string option"
  lv_p95_inbound :: "string option"
  lv_p95_status :: "string option"

text \<open>\<open>Inl\<close> is \<open>process.exit(2)\<close>.\<close>

definition parsePosInt :: "string \<Rightarrow> unit + nat" where
  "parsePosInt s = (case parse_int s of None \<Rightarrow> Inl () | Some n \<Rightarrow> if n \<le> 0 then Inl () else Inr (nat n))"

definition opt_pos_int :: "string option \<Rightarrow> unit + nat option" where
  "opt_pos_int v = (if truthy v then (case parsePosInt (the v) of Inl e \<Rightarrow> Inl e | Inr n \<Rightarrow> Inr (Some n)) else Inr None)"

definition policyOverrides :: "load_values \<Rightarrow> unit + policy_overrides" where
  "policyOverrides lv =
     (case (opt_pos_int (lv_p95_start lv), opt_pos_int (lv_p95_inbound lv), opt_pos_int (lv_p95_status lv)) of
        (Inr a, Inr b, Inr c) \<Rightarrow> Inr \<lparr>ov_p95StartMs = a, ov_p95InboundMs = b, ov_p95StatusMs = c\<rparr>
      | _ \<Rightarrow> Inl ())"

definition suite_main :: "load_values \<Rightarrow> string \<Rightarrow> (nat \<Rightarrow> run_world) \<Rightarrow> bool \<Rightarrow> int" where
  "suite_main lv name worlds written =
     (if map_of SUITES name = None then 2
      else if lv_total lv \<noteq> None \<or> lv_workers lv \<noteq> None then 2
      else case policyOverrides lv of
        Inl _ \<Rightarrow> 2
      | Inr ov \<Rightarrow>
        if \<not> written then 1
        else if \<not> lv_no_acceptance lv \<and> \<not> su_pass (the (runSuite name (lv_continue_on_fail lv) ov worlds)) then 1 else 0)"

definition scenario_main :: "load_values \<Rightarrow> string \<Rightarrow> run_world \<Rightarrow> int" where
  "scenario_main lv name rw =
     (case find_scenario name of
        None \<Rightarrow> 2
      | Some d \<Rightarrow>
        (case (opt_pos_int (lv_total lv), opt_pos_int (lv_workers lv), policyOverrides lv) of
           (Inr n, Inr k, Inr ov) \<Rightarrow>
             (case runOne rw name (case n of Some x \<Rightarrow> x | None \<Rightarrow> sd_defaultTotal d) (case k of Some x \<Rightarrow> x | None \<Rightarrow> sd_defaultWorkers d)
                     (applyOverrides (defaultPolicy name) ov) of
                Inl _ \<Rightarrow> 3
              | Inr r \<Rightarrow> if \<not> lv_no_acceptance lv \<and> (\<not> fst (ro_acceptance r) \<or> ro_threw r) then 1 else 0)
         | _ \<Rightarrow> 2))"

text \<open>The exit code of the tool; \<open>written\<close> is whether the aggregate report of a suite can be written.\<close>

definition load_main :: "(string list \<Rightarrow> load_values option) \<Rightarrow> (nat \<Rightarrow> run_world) \<Rightarrow> bool \<Rightarrow> string list \<Rightarrow> int" where
  "load_main parseArgs worlds written argv =
     (case argv of
        [] \<Rightarrow> 2
      | arg # rest \<Rightarrow>
        if arg \<in> {[], ''--help'', ''-h''} then 2
        else let isSuite = (arg = ''suite''); remaining = (if isSuite then drop 1 rest else rest);
                 targetName = (if isSuite then (case rest of [] \<Rightarrow> [] | t # _ \<Rightarrow> t) else arg)
             in if targetName = [] then 2
                else case parseArgs remaining of
                  None \<Rightarrow> 1
                | Some lv \<Rightarrow> if isSuite then suite_main lv targetName worlds written else scenario_main lv targetName (worlds 0))"

section \<open>The environment in a report\<close>

definition SECRET_WORDS :: "string list" where
  "SECRET_WORDS = [''SECRET'', ''TOKEN'', ''PASSWORD'', ''KEY'', ''HASH'']"

definition secret_var :: "string \<Rightarrow> bool" where
  "secret_var k \<longleftrightarrow> list_ex (\<lambda>w. sublist w (js_upper k)) SECRET_WORDS"

text \<open>\<open>/^postgres:..*:.*@/\<close> on a value of one line: after the scheme a colon and, behind it, an at sign.\<close>

definition postgres_login :: "string \<Rightarrow> bool" where
  "postgres_login v \<longleftrightarrow> starts_with v ''postgres://'' \<and>
     (case index_of (CHR '':'') (drop 11 v) of None \<Rightarrow> False | Some i \<Rightarrow> CHR ''@'' \<in> set (drop (i + 1) (drop 11 v)))"

definition SCHEME_SEP :: string where
  "SCHEME_SEP = '':'' @ ''//''"

text \<open>The first place where the separator is followed by characters other than at signs and slashes up to an at sign.\<close>

fun mask_login :: "string \<Rightarrow> string" where
  "mask_login [] = []"
| "mask_login (c # s) =
     (let run = takeWhile (\<lambda>x. x \<noteq> CHR ''@'' \<and> x \<noteq> CHR ''/'') (drop 2 s); after = drop (2 + length run) s in
      if starts_with (c # s) SCHEME_SEP \<and> run \<noteq> [] \<and> after \<noteq> [] \<and> hd after = CHR ''@'' then SCHEME_SEP @ ''***'' @ after
      else c # mask_login s)"

definition redactReported :: "string \<Rightarrow> string \<Rightarrow> string" where
  "redactReported key value =
     (if ends_with key ''URL'' \<and> sublist SCHEME_SEP value then mask_login value
      else if length value \<le> 8 then ''[REDACTED]''
      else take 4 value @ ''***'' @ drop (length value - 2) value)"

definition reported_var :: "string \<times> string \<Rightarrow> (string \<times> string) option" where
  "reported_var kv =
     (case kv of (k, v) \<Rightarrow>
        if v = [] then None
        else if starts_with k ''SYROTP_'' \<or> k = ''DATABASE_URL'' \<or> k = ''REDIS_URL'' \<or> k = ''NODE_ENV''
        then Some (k, if secret_var k \<or> postgres_login v then redactReported k v else v)
        else None)"

definition envSummary :: "(string \<times> string) list \<Rightarrow> (string \<times> string) list" where
  "envSummary env = List.map_filter reported_var env"

section \<open>The verdict of a suite\<close>

text \<open>A run without server error, lost or timed-out request, exception or double verification.\<close>

definition clean_op :: "op_metrics \<Rightarrow> bool" where
  "clean_op op \<longleftrightarrow> om_err_5xx op = 0 \<and> om_network_err op = 0 \<and> om_timeout op = 0"

definition clean_run :: "run_metrics \<Rightarrow> bool" where
  "clean_run m \<longleftrightarrow> rm_double_verifications m = 0 \<and> rm_unhandled_exceptions m = 0 \<and>
     clean_op (rm_start m) \<and> clean_op (rm_inbound m) \<and> clean_op (rm_status m) \<and> clean_op (rm_heartbeat m)"

definition quiet :: "hard_safety \<Rightarrow> bool" where
  "quiet s \<longleftrightarrow> hs_double_verifications s = 0 \<and> hs_unhandled_exceptions s = 0 \<and> hs_err_5xx s = 0 \<and> hs_network_err s = 0 \<and> hs_timeout s = 0"

lemma quiet_zero: "quiet ZERO_SAFETY"
  by (simp add: quiet_def ZERO_SAFETY_def)

lemma quiet_add: "quiet (addToSafety m s) \<longleftrightarrow> quiet s \<and> clean_run m"
  by (auto simp: quiet_def addToSafety_def clean_run_def clean_op_def)

lemma runOne_acceptance: "runOne rw name n workers policy = Inr r \<Longrightarrow> ro_acceptance r = evaluate (ro_metrics r) policy"
  by (auto simp: runOne_def Let_def split: option.splits sum.splits if_splits)

definition good_run :: "string + run_out \<Rightarrow> bool" where
  "good_run out = (case out of Inl _ \<Rightarrow> False | Inr r \<Rightarrow> fst (ro_acceptance r) \<and> \<not> ro_threw r \<and> clean_run (ro_metrics r))"

definition good_step :: "policy_overrides \<Rightarrow> run_world \<times> suite_step \<Rightarrow> bool" where
  "good_step ov x = (case x of (rw, step) \<Rightarrow>
     (case find_scenario (ss_scenarioName step) of None \<Rightarrow> False | Some d \<Rightarrow> good_run (step_run ov rw step d)))"

lemma suite_loop_pass:
  "suite_loop cont ov xs safety = (rs, s, ranAll) \<Longrightarrow> (list_all st_pass rs \<and> quiet s) \<longleftrightarrow> quiet safety \<and> list_all (good_step ov) xs"
proof (induction cont ov xs safety arbitrary: rs s ranAll rule: suite_loop.induct)
  case (2 cont ov rw step rest safety)
  show ?case
  proof (cases "find_scenario (ss_scenarioName step)")
    case None
    then show ?thesis using 2 by (auto simp: errored_def good_step_def split: prod.splits)
  next
    case (Some d)
    show ?thesis
    proof (cases "step_run ov rw step d")
      case (Inl e)
      then show ?thesis using 2 Some by (auto simp: errored_def good_step_def good_run_def Let_def split: prod.splits if_splits)
    next
      case (Inr r)
      let ?pass = "fst (ro_acceptance r) \<and> \<not> ro_threw r" and ?s = "addToSafety (ro_metrics r) safety"
      have g: "good_step ov (rw, step) \<longleftrightarrow> ?pass \<and> clean_run (ro_metrics r)" using Some Inr by (simp add: good_step_def good_run_def)
      obtain rs' s' ra where rest: "suite_loop cont ov rest ?s = (rs', s', ra)" by (cases "suite_loop cont ov rest ?s") auto
      have IH: "(list_all st_pass rs' \<and> quiet s') \<longleftrightarrow> quiet ?s \<and> list_all (good_step ov) rest" if "?pass \<or> cont"
        using 2(2) [OF Some refl refl refl, of rs' s' ra] Inr rest that by auto
      show ?thesis
      proof (cases "?pass \<or> cont")
        case True
        then have "s = s'" "\<exists>res. rs = res # rs' \<and> st_pass res = ?pass"
          using 2(3) Some Inr rest by (auto simp: Let_def)
        then show ?thesis using IH [OF True] g by (auto simp: quiet_add)
      next
        case False
        then show ?thesis using 2(3) Some Inr g by (auto simp: Let_def)
      qed
    qed
  qed
qed simp

lemma runSuite_pass:
  "map_of SUITES name = Some steps \<Longrightarrow>
   map_option su_pass (runSuite name cont ov worlds) = Some (list_all (good_step ov) (zip (map worlds [0..<length steps]) steps))"
  using suite_loop_pass [of cont ov "zip (map worlds [0..<length steps]) steps" ZERO_SAFETY]
  by (cases "suite_loop cont ov (zip (map worlds [0..<length steps]) steps) ZERO_SAFETY")
    (simp add: runSuite_def suite_verdict_def quiet_zero, simp add: quiet_def)

definition no_overrides :: policy_overrides where
  "no_overrides = \<lparr>ov_p95StartMs = None, ov_p95InboundMs = None, ov_p95StatusMs = None\<rparr>"

lemma applyOverrides_none [simp]: "applyOverrides p no_overrides = p"
  by (simp add: applyOverrides_def no_overrides_def override_def)

text \<open>What the gate asks of a storm, and of a flow besides: fast enough answers and few refusals.\<close>

definition calm :: "string + run_out \<Rightarrow> bool" where
  "calm out = (case out of Inl _ \<Rightarrow> False | Inr r \<Rightarrow> \<not> ro_threw r \<and> clean_run (ro_metrics r))"

definition few_refusals :: "run_metrics \<Rightarrow> bool" where
  "few_refusals m \<longleftrightarrow>
     (let ok = om_ok (rm_start m) + om_ok (rm_inbound m) + om_ok (rm_status m);
          refused = om_unexpected_4xx (rm_start m) + om_unexpected_4xx (rm_inbound m) + om_unexpected_4xx (rm_status m)
      in 999 * refused \<le> ok)"

definition fast_flow :: "string + run_out \<Rightarrow> bool" where
  "fast_flow out = (case out of Inl _ \<Rightarrow> False
     | Inr r \<Rightarrow> calm out \<and> few_refusals (ro_metrics r) \<and> list_all (meets 400) [rm_start (ro_metrics r), rm_inbound (ro_metrics r), rm_status (ro_metrics r)])"

lemma full_clean:
  assumes "clean_run m"
  shows "fst (evaluate m (full_policy 400)) \<longleftrightarrow> few_refusals m \<and> list_all (meets 400) [rm_start m, rm_inbound m, rm_status m]"
  using full_gate_exact [of m 400] assms
  by (auto simp: clean_run_def clean_op_def few_refusals_def Let_def success_denom_def)

lemma storm_policies:
  "fst (evaluate m ((policy_of [])\<lparr>po_noServerErrors := True\<rparr>)) \<longleftrightarrow>
     om_err_5xx (rm_start m) = 0 \<and> om_err_5xx (rm_inbound m) = 0 \<and> om_err_5xx (rm_status m) = 0 \<and> om_err_5xx (rm_heartbeat m) = 0 \<and>
     rm_unhandled_exceptions m = 0"
  "fst (evaluate m (policy_of [])) \<longleftrightarrow> rm_unhandled_exceptions m = 0"
  by (simp_all add: evaluate_def Let_def p95_check_def policy_of_def success_check_def zero_check_def all_ops_def)

lemma good_calm:
  assumes "\<And>m. clean_run m \<Longrightarrow> fst (evaluate m policy)"
  shows "good_run (runOne rw name n workers policy) = calm (runOne rw name n workers policy)"
  using assms by (auto simp: good_run_def calm_def runOne_acceptance split: sum.splits)

lemma good_fast: "good_run (runOne rw name n workers (full_policy 400)) = fast_flow (runOne rw name n workers (full_policy 400))"
  using full_clean by (auto simp: good_run_def calm_def fast_flow_def runOne_acceptance split: sum.splits)

text \<open>
  C34: what the release gate decides. The suite \<open>release-baseline\<close> passes exactly when its five
  scenarios all ran to their end without a server error, a lost or timed-out request, a double verification or an exception,
  and the two full flows also had at most one refusal for 999 answers of success and
  answered 95 of 100 requests of each kind within 400 ms. Nothing else counts: not whether a replay
  was refused, nor whether any SMS was sent at all, and a 503 after the receiver was disabled, which its policy lets pass, fails the suite.
\<close>

theorem release_gate_exact:
  "map_option su_pass (runSuite ''release-baseline'' cont no_overrides worlds) =
     Some (fast_flow (runOne (worlds 0) ''scenario-a'' 1000 50 (defaultPolicy ''scenario-a'')) \<and>
           fast_flow (runOne (worlds 1) ''scenario-b'' 10000 100 (defaultPolicy ''scenario-b'')) \<and>
           calm (runOne (worlds 2) ''replay-storm'' 1000 50 (defaultPolicy ''replay-storm'')) \<and>
           calm (runOne (worlds 3) ''wrong-code-storm'' 1000 50 (defaultPolicy ''wrong-code-storm'')) \<and>
           calm (runOne (worlds 4) ''receiver-disabled'' 1000 50 (defaultPolicy ''receiver-disabled'')))"
proof -
  have f: "find_scenario ''scenario-a'' = Some (scenario ''scenario-a'' 1000 50 1 fullFlow)"
    "find_scenario ''scenario-b'' = Some (scenario ''scenario-b'' 10000 100 1 fullFlow)"
    "find_scenario ''replay-storm'' = Some (scenario ''replay-storm'' 1000 50 1 replayStorm)"
    "find_scenario ''wrong-code-storm'' = Some (scenario ''wrong-code-storm'' 1000 50 1 wrongCodeStorm)"
    "find_scenario ''receiver-disabled'' = Some (scenario ''receiver-disabled'' 1000 50 2 fullFlow)"
    by (simp_all add: find_scenario_def SCENARIOS_def scenario_def)
  have p: "defaultPolicy ''scenario-a'' = full_policy 400" "defaultPolicy ''scenario-b'' = full_policy 400"
    "defaultPolicy ''replay-storm'' = (policy_of [])\<lparr>po_noServerErrors := True\<rparr>"
    "defaultPolicy ''wrong-code-storm'' = (policy_of [])\<lparr>po_noServerErrors := True\<rparr>"
    "defaultPolicy ''receiver-disabled'' = policy_of []"
    by (simp_all add: defaultPolicy_def)
  have storm: "clean_run m \<Longrightarrow> fst (evaluate m ((policy_of [])\<lparr>po_noServerErrors := True\<rparr>))" "clean_run m \<Longrightarrow> fst (evaluate m (policy_of []))" for m
    by (auto simp: storm_policies clean_run_def clean_op_def)
  have "map_of SUITES ''release-baseline'' =
      Some [step_of ''scenario-a'', (step_of ''scenario-b'')\<lparr>ss_workers := Some 100\<rparr>, step_of ''replay-storm'',
        step_of ''wrong-code-storm'', step_of ''receiver-disabled'']" by (simp add: SUITES_def)
  note runSuite_pass [OF this, of cont no_overrides worlds]
  moreover have "[0..<Suc (Suc (Suc (Suc (Suc 0))))] = [0, 1, 2, 3, 4]" by (simp add: upt_rec)
  ultimately show ?thesis
    by (simp del: upt_Suc add: good_step_def step_of_def step_run_def f scenario_def p good_fast good_calm storm)
qed

section \<open>Weak places\<close>

text \<open>A replay storm whose first request is refused passes without a single replay, and so does a storm of refused messages.\<close>

lemma storm_without_replays:
  "fst (evaluate (no_metrics\<lparr>rm_start := record_outcome (Answered AUnexpected4xx 403 (JObj []) None) no_ops\<rparr>) (defaultPolicy ''replay-storm''))"
  by (simp add: defaultPolicy_def storm_policies no_metrics_def record_outcome_def no_ops_def Let_def)

text \<open>The summary shows every 429 of the polling scenario twice.\<close>

definition only_429 :: "wire list \<Rightarrow> op_metrics \<Rightarrow> bool" where
  "only_429 as m \<longleftrightarrow> om_expected_4xx m = count_of (\<lambda>a. w_status a = 429) as \<and> extra_count m ''rate_limited'' = om_expected_4xx m"

definition with_429 :: "(load_call \<times> wire) list \<Rightarrow> load_state \<Rightarrow> bool" where
  "with_429 calls s \<longleftrightarrow> only_429 (wires is_StatusCall calls) (rm_status (ld_metrics s))"

lemma polled_429:
  assumes "only_429 as m"
  shows "only_429 (as @ [a]) (polled (client_outcome parse [] a) m)"
  using assms
  by (cases a) (auto simp: only_429_def polled_def client_outcome_def classify_def record_outcome_def Let_def bumpExtra_def extra_count_def
      count_of_def w_status_def split: option.splits)

lemma with_429_kept [simp]:
  "with_429 calls (upd_start f s) = with_429 calls s" "with_429 calls (s\<lparr>ld_seedIds := x\<rparr>) = with_429 calls s"
  "\<not> is_StatusCall c \<Longrightarrow> with_429 (calls @ [(c, a)]) s = with_429 calls s"
  by (simp_all add: with_429_def upd_start_def)

lemma seed_429: "booked parse with_429 (seed_prog is)"
  by (induction "is") (auto intro!: booked_Await split: option.splits)

interpretation polls: ledger parse with_429 "statusPolling cx" for parse cx
proof
  show "with_429 [] no_load"
    by (simp add: with_429_def only_429_def no_load_def no_metrics_def no_ops_def extra_count_def count_of_def wires_def)
  have "unit_booked parse with_429 (statusPolling_unit cx ids)" for ids
    by (auto simp: unit_booked_def statusPolling_unit_def status_prog_def with_429_def upd_status_def intro!: booked_Await polled_429)
  then show "phase_booked parse with_429 ph" if "ph \<in> set (statusPolling cx)" for ph
    using that by (auto simp: statusPolling_def phase_booked_def alone_def seed_429 unit_booked_def split: if_splits)
qed

lemma summary_429_doubled:
  "load_reachable parse (statusPolling cx) r \<Longrightarrow>
   shown_429 (rm_status (ld_metrics (lr_state r))) = 2 * count_of (\<lambda>a. w_status a = 429) (wires is_StatusCall (lr_log r))"
  using polls.always [where parse = parse and cx = cx and r = r] by (simp add: with_429_def only_429_def shown_429_def)

text \<open>A suite never ends with the exit code of an unreachable server or a missing variable.\<close>

lemma suite_exit_codes: "suite_main lv name worlds written \<in> {0, 1, 2}"
  by (auto simp: suite_main_def split: sum.splits)

text \<open>A report shows the login of a Redis URL, and that of a database URL with the longer scheme or a slash in the password.\<close>

lemma report_shows_logins:
  "envSummary [(''REDIS_URL'', ''redis:/'' @ ''/:secret@host'')] = [(''REDIS_URL'', ''redis:/'' @ ''/:secret@host'')]"
  "envSummary [(''DATABASE_URL'', ''postgresql:/'' @ ''/u:secret@host/db'')] = [(''DATABASE_URL'', ''postgresql:/'' @ ''/u:secret@host/db'')]"
  "envSummary [(''DATABASE_URL'', ''postgres:/'' @ ''/u:se/cret@host/db'')] = [(''DATABASE_URL'', ''postgres:/'' @ ''/u:se/cret@host/db'')]"
  "envSummary [(''DATABASE_URL'', ''postgres:/'' @ ''/u:secret@host/db'')] = [(''DATABASE_URL'', ''postgres:/'' @ ''/***@host/db'')]"
  by code_simp+

end
