(* ===== verification/CliProps.thy ===== *)
theory CliProps
  imports CliCommands
begin

text \<open>
  Properties of the command line. A command that does not succeed leaves no trace, except that
  \<open>syrotp bootstrap\<close> may leave an application without a receiver; a bootstrap that succeeds
  prints keys and a signing key the server accepts.
\<close>

section \<open>Failing commands\<close>

text \<open>A run that fails has changed nothing and printed nothing.\<close>

definition traceless :: "world \<Rightarrow> cli_run \<Rightarrow> bool" where
  "traceless w r \<longleftrightarrow> (case r of (res, ws, w') \<Rightarrow> res = Returned OK \<or> (w' = w \<and> set ws \<subseteq> {Wrote []}))"

lemma traceless_ok [simp]: "traceless w (Returned OK, ws, w')"
  by (simp add: traceless_def)

lemma traceless_none [simp]: "traceless w (res, [], w)"
  by (simp add: traceless_def)

lemma traceless_with_flags: "(\<And>flags. traceless w (k flags)) \<Longrightarrow> traceless w (with_flags spec args topic w k)"
  by (simp add: with_flags_def Let_def split: option.split)

lemma traceless_with_admin: "(\<And>cfg. traceless w (k cfg)) \<Longrightarrow> traceless w (with_admin ev w k)"
  by (simp add: with_admin_def split: option.split)

text \<open>An admin function that throws after its checks has written nothing either.\<close>

lemma addReceiver_Inl: "addReceiver cfg ce pp u rb iv now dbnow opts w = (Inl e, w') \<Longrightarrow> w' = w"
  by (auto simp: addReceiver_def Let_def split: if_splits sum.splits option.splits)

lemma set_enabled_Inl: "set_enabled on i w = (Inl e, w') \<Longrightarrow> w' = w"
  by (auto simp: set_enabled_def split: if_splits option.splits)

lemma admin_call_Inl: "admin_call down f w = (Inl e, w') \<Longrightarrow> (\<And>e w'. f w = (Inl e, w') \<Longrightarrow> w' = w) \<Longrightarrow> w' = w"
  by (auto simp: admin_call_def split: option.splits)

lemma traceless_admin_call:
  assumes "\<And>e w'. f w = (Inl e, w') \<Longrightarrow> w' = w" and "\<And>x w1. traceless w (ok x w1)"
  shows "traceless w (case admin_call down f w of (Inl e, w1) \<Rightarrow> (Thrown (h e), [], w1) | (Inr x, w1) \<Rightarrow> ok x w1)"
  using assms admin_call_Inl [of down f w] by (auto split: prod.split sum.split)

lemma traceless_runAdd: "traceless w (runAdd ev args w)"
  unfolding runAdd_def Let_def
  by (intro traceless_with_flags) (auto intro!: traceless_with_admin traceless_admin_call simp: add_rcv_def dest: addReceiver_Inl)

lemma traceless_runList: "traceless w (runList ev args w)"
  unfolding runList_def by (intro traceless_with_flags traceless_with_admin traceless_admin_call) auto

lemma traceless_switch:
  assumes "\<And>i w e w'. act i w = (Inl e, w') \<Longrightarrow> w' = w"
  shows "traceless w (switch_receiver verb operation act ev args w)"
  unfolding switch_receiver_def Let_def
  by (intro traceless_with_flags) (auto intro!: traceless_with_admin traceless_admin_call dest: assms)

lemma traceless_runTest: "traceless w (runTest ev args w)"
proof -
  have "traceless w (probe_verdict ev i k b w)" for i k b
    by (simp add: probe_verdict_def test_verdict_def traceless_def split: sum.split)
  then show ?thesis
    unfolding runTest_def Let_def by (intro traceless_with_flags) (auto split: option.split)
qed

lemma traceless_runDisable: "traceless w (runDisable ev args w)"
  unfolding runDisable_def by (rule traceless_switch) (simp add: disableReceiver_def set_enabled_Inl)

lemma traceless_runEnable: "traceless w (runEnable ev args w)"
  unfolding runEnable_def by (rule traceless_switch) (simp add: enableReceiver_def set_enabled_Inl)

lemma traceless_runReceiver: "traceless w (runReceiver ev args w)"
  unfolding runReceiver_def
  by (cases args) (simp_all only: list.case if_split traceless_ok traceless_none traceless_runAdd traceless_runList traceless_runTest
      traceless_runDisable traceless_runEnable simp_thms)

section \<open>Bootstrap\<close>

text \<open>The state with one more application and some keys, in the shape both branches of \<open>bootstrapApp\<close> give.\<close>

definition with_app :: "app_row \<Rightarrow> api_key_row list \<Rightarrow> world \<Rightarrow> world" where
  "with_app a ks w = w\<lparr>w_db := (w_db w)\<lparr>apps := apps (w_db w) @ [a], apiKeys := apiKeys (w_db w) @ ks\<rparr>\<rparr>"

lemma bootstrapApp_changes:
  assumes "bootstrapApp cfg hmac now uls rb1 rb2 name w = (r, w')"
  shows "w' = w \<and> isl r \<or> (\<exists>a ks. w' = with_app a ks w \<and> length ks \<in> {0, 2})"
proof -
  obtain u1 u2 u3 where u: "uls = (u1, u2, u3)" by (cases uls)
  let ?i = "newId ''app'' u1"
  let ?a = "\<lparr>ap_id = ?i, ap_name = js_trim name, ap_createdAt = now, ap_disabled = False\<rparr>"
  let ?ks = "[new_key cfg hmac now u2 ?i KPublic (generateApiKey rb1 ''pk_live'') ''default-public'',
    new_key cfg hmac now u3 ?i KSecret (generateApiKey rb2 ''sk_live'') ''default-secret'']"
  let ?x = "\<lparr>br_appId = ?i, br_appName = js_trim name, br_publicKey = generateApiKey rb1 ''pk_live'', br_secretKey = generateApiKey rb2 ''sk_live''\<rparr>"
  have eq: "bootstrapApp cfg hmac now uls rb1 rb2 name w =
      (if length (js_trim name) = 0 then (Inl (JsError ''bootstrapApp: name is required''), w)
       else if key_hash_uq (apiKeys (w_db w) @ ?ks) then (Inr ?x, with_app ?a ?ks w)
       else (Inl (UniqueViolation ''api_keys_key_hash_uq''), with_app ?a [] w))"
    unfolding bootstrapApp_def Let_def u prod.case with_app_def by simp
  have "snd B = w \<and> isl (fst B) \<or> snd B = with_app ?a [] w \<or> snd B = with_app ?a ?ks w"
    if "B = bootstrapApp cfg hmac now uls rb1 rb2 name w" for B
    unfolding that eq by (simp only: fst_conv snd_conv sum.disc simp_thms split: if_split)
  from this [OF assms [symmetric]] have "w' = w \<and> isl r \<or> w' = with_app ?a [] w \<or> w' = with_app ?a ?ks w"
    by (simp only: fst_conv snd_conv)
  moreover have "w' = with_app a ks w \<Longrightarrow> length ks \<in> {0, 2} \<Longrightarrow> ?thesis" for a ks by blast
  ultimately show ?thesis by (elim disjE) simp_all
qed

lemma bootstrap_with_traces:
  assumes "bootstrap_with ev cfg vs w = (res, ws, w')" and "res \<noteq> Returned OK"
  shows "ws = [] \<and> (w' = w \<or> (\<exists>a ks. w' = with_app a ks w \<and> length ks \<in> {0, 2}))"
proof -
  obtain r w1 where 1: "admin_call (cv_down1 ev) (bootstrapApp cfg (ce_hmac (cv_crypto ev)) (cv_dbnow ev) (cv_ulids ev) (cv_rb1 ev) (cv_rb2 ev)
      (the (strOrNull (vs ''app-name'')))) w = (r, w1)" by fastforce
  then have w1: "w1 = w \<or> (\<exists>a ks. w1 = with_app a ks w \<and> length ks \<in> {0, 2})"
    by (auto simp: admin_call_def dest: bootstrapApp_changes split: option.splits)
  have "ws = [] \<and> w' = w1"
    using assms unfolding bootstrap_with_def Let_def 1
    by (auto simp: add_rcv_def split: sum.splits prod.splits dest!: admin_call_Inl [OF _ addReceiver_Inl])
  with w1 show ?thesis by simp
qed

lemma runBootstrap_traces:
  assumes "runBootstrap ev args w = (res, ws, w')" and "res \<noteq> Returned OK"
  shows "ws = [] \<and> (w' = w \<or> (\<exists>a ks. w' = with_app a ks w \<and> length ks \<in> {0, 2}))"
  using assms bootstrap_with_traces unfolding runBootstrap_def Let_def
  by (simp split: option.splits if_split_asm)



text \<open>No exit code of the load-test tool becomes the code for missing configuration.\<close>

lemma loadtest_never_missing_config:
  "mapLoadtestExit col code variant = (Thrown e, ws) \<Longrightarrow> cl_code e \<noteq> MISSING_CONFIG"
  by (auto simp: mapLoadtestExit_def Let_def split: if_splits)

section \<open>A bootstrap that succeeds\<close>

lemma contains_str_iff: "contains_str s t \<longleftrightarrow> (\<exists>a b. s = a @ t @ b)"
proof (induction s)
  case (Cons c cs)
  have "(\<exists>a b. c # cs = a @ t @ b) \<longleftrightarrow> (\<exists>b. c # cs = t @ b) \<or> (\<exists>a b. cs = a @ t @ b)"
    by (metis append_Cons append_Nil neq_Nil_conv list.inject)
  moreover have "starts_with (c # cs) t \<longleftrightarrow> (\<exists>b. c # cs = t @ b)"
    unfolding starts_with_def by (metis append_eq_conv_conj)
  ultimately show ?case using Cons by simp
qed simp

lemma contains_str_parts:
  "contains_str (a @ t @ b) t"
  "contains_str s t \<Longrightarrow> contains_str (a @ s) t" "contains_str s t \<Longrightarrow> contains_str (s @ b) t"
  unfolding contains_str_iff by (auto, metis append.assoc, metis append.assoc)

lemma contains_str_join: "l \<in> set ls \<Longrightarrow> contains_str l t \<Longrightarrow> contains_str (join_with sep ls) t"
  by (induction sep ls rule: join_with.induct) (auto intro: contains_str_parts)

lemma bootstrap_prints:
  "\<exists>x. render_bootstrap col app rcv sim = Wrote x \<and>
     contains_str x (br_publicKey app) \<and> contains_str x (br_secretKey app) \<and> contains_str x (ad_signingKey rcv)"
proof -
  obtain ls where ls: "render_bootstrap col app rcv sim = text_lines ls" "''  public  '' @ br_publicKey app \<in> set ls"
      "''  secret  '' @ br_secretKey app \<in> set ls"
      "''  signing '' @ ad_signingKey rcv @ ''  '' @ dimmed col ''(paste into the Android gateway)'' \<in> set ls"
    unfolding render_bootstrap_def by (simp del: append_Cons append.simps)
  have c: "contains_str (''  public  '' @ k) k" "contains_str (''  signing '' @ k @ t) k" "contains_str (''  secret  '' @ k) k" for k t
    using contains_str_parts(1) [of _ k "[]"] contains_str_parts(1) by (simp_all del: append_Cons append.simps)
  show ?thesis
    using contains_str_join [OF ls(2) c(1)] contains_str_join [OF ls(3) c(3)] contains_str_join [OF ls(4) c(2)] ls(1)
    by (simp add: text_lines_def contains_str_parts(3))
qed


lemma addReceiver_keeps:
  assumes "addReceiver cfg ce pp u rb iv now dbnow opts w = (Inr res, w1)"
  shows "apps (w_db w1) = apps (w_db w) \<and> apiKeys (w_db w1) = apiKeys (w_db w) \<and> ad_appId res = ao_appId opts"
  using assms by (auto simp: addReceiver_def Let_def split: if_splits sum.splits option.splits)

lemma runBootstrap_ok:
  assumes "runBootstrap ev args w = (Returned OK, ws, w')" and "fp_values (parseFlags bootstrap_flags args) ''help'' = None"
  obtains cfg app rcv name w1 opts sim where "cv_config ev = Some cfg"
    and "bootstrapApp cfg (ce_hmac (cv_crypto ev)) (cv_dbnow ev) (cv_ulids ev) (cv_rb1 ev) (cv_rb2 ev) name w = (Inr app, w1)"
    and "add_rcv ev cfg opts w1 = (Inr rcv, w')" and "ao_appId opts = br_appId app"
    and "ws = [render_bootstrap (cv_color ev) app rcv sim]"
proof -
  let ?vs = "fp_values (parseFlags bootstrap_flags args)"
  obtain cfg where c: "cv_config ev = Some cfg" and b: "bootstrap_with ev cfg ?vs w = (Returned OK, ws, w')"
    using assms unfolding runBootstrap_def Let_def by (simp split: option.splits if_split_asm)
  obtain r w1 where 1: "admin_call (cv_down1 ev) (bootstrapApp cfg (ce_hmac (cv_crypto ev)) (cv_dbnow ev) (cv_ulids ev) (cv_rb1 ev) (cv_rb2 ev)
      (the (strOrNull (?vs ''app-name'')))) w = (r, w1)" by fastforce
  then obtain app where app: "r = Inr app"
    using b unfolding bootstrap_with_def Let_def by (cases r) simp_all
  let ?o = "\<lparr>ao_appId = br_appId app, ao_name = or_else (strOrNull (?vs ''receiver-name'')) ''Receiver-1'',
    ao_operator = strOrNull (?vs ''operator''), ao_msisdn = the (strOrNull (?vs ''msisdn'')),
    ao_simulateHeartbeat = (?vs ''simulate-heartbeat'' = Some FTrue)\<rparr>"
  obtain r2 w2 where 2: "admin_call (cv_down2 ev) (add_rcv ev cfg ?o) w1 = (r2, w2)" by fastforce
  then obtain rcv where "r2 = Inr rcv" and "w2 = w'" and "ws = [render_bootstrap (cv_color ev) app rcv (?vs ''simulate-heartbeat'' = Some FTrue)]"
    using b 1 app unfolding bootstrap_with_def Let_def by (cases r2) simp_all
  with 1 2 app c show thesis
    by (intro that [of cfg "the (strOrNull (?vs ''app-name''))" app w1 ?o rcv "?vs ''simulate-heartbeat'' = Some FTrue"])
       (simp_all add: admin_call_def split: option.splits)
qed

lemma bootstrapApp_frame:
  assumes "bootstrapApp cfg hmac now uls rb1 rb2 name w = (Inr app, w1)"
  shows "receivers (w_db w1) = receivers (w_db w) \<and> w_redis w1 = w_redis w \<and> br_appId app = newId ''app'' (fst uls)"
  using assms by (cases uls) (auto simp: bootstrapApp_def Let_def split: if_splits)

text \<open>A receiver just added is known by the key that was handed out.\<close>

lemma new_receiver_probe:
  assumes add: "addReceiver cfg ce pp u rb iv now0 dbnow opts w = (Inr res, w1)"
    and new: "newId ''rcv'' u \<notin> rc_id ` set (receivers (w_db w))" and u: "all_in is_alnum u"
    and laws: "gcm_ok (ce_gcm ce)" "\<And>k m. all_in_between is_hex 64 64 (ce_hmac ce k m)" "length (pd_nonce p) = 16"
    and skew: "\<bar>now div 1000 - pd_now p div 1000\<bar> \<le> INBOUND_TIMESTAMP_SKEW_SECONDS cfg"
    and fresh: "redis_get (w_redis w) now (nonce_key (newId ''rcv'' u) (to_hex (pd_nonce p))) = None"
  shows "fst (verifyGatewayHmac cfg ce now (probe_input (probe_message ce
       \<lparr>po_receiverId = newId ''rcv'' u, po_signingKey = ad_signingKey res, po_baseUrl = url\<rparr> p)) w1)
     = Inr \<lparr>ar_id = newId ''rcv'' u, ar_appId = ad_appId res, ar_msisdn = ad_msisdn res\<rparr>"
proof -
  obtain row where row: "receivers (w_db w1) = receivers (w_db w) @ [row]" "w_redis w1 = w_redis w"
      "rc_id row = newId ''rcv'' u" "ad_receiverId res = newId ''rcv'' u" "rc_enabled row"
      "rc_appId row = ad_appId res" "rc_msisdn row = ad_msisdn res"
      "wrapGatewaySigningKey cfg ce iv (ad_signingKey res) (rc_id row) = Inr (rc_secretHash row)"
    using add by (rule addReceiver_Inr)
  let ?o = "\<lparr>po_receiverId = newId ''rcv'' u, po_signingKey = ad_signingKey res, po_baseUrl = url\<rparr>"
  have s1: "select_one (\<lambda>r. rc_id r = po_receiverId ?o) (receivers (w_db w1)) = Some row"
    using select_new [of row "receivers (w_db w)"] new row(1,3) by simp
  have key: "unwrap (ce_gcm ce) (MASTER_ENCRYPTION_KEY cfg) (rc_secretHash row) (Some (receiver_aad (rc_id row))) = Inr (po_signingKey ?o)"
    using unwrap_wrap [OF laws(1) row(8) [unfolded wrapGatewaySigningKey_def]] by (simp add: Let_def)
  have i: "prefixed_id ''rcv_'' (po_receiverId ?o)" using newId_prefixed [OF u, of "''rcv''"] by simp
  have f: "redis_get (w_redis w1) now (nonce_key (po_receiverId ?o) (to_hex (pd_nonce p))) = None"
    using fresh row(2) by simp
  show ?thesis
    using probe_verified [where opts = ?o, OF s1 key laws(2,3) i skew f] row(3,5-7) by (simp add: receiver_of_def)
qed

text \<open>
  C40: what \<open>syrotp bootstrap\<close> prints works. When the command succeeds, with new identifiers, the one text it wrote
  contains a public key, a secret key and a signing key such that the server takes the two keys
  for keys of one application, each of its kind, and takes a probe signed with the third for the new
  receiver of that application. Relied on: the laws of the cipher and of the digests.
\<close>

theorem bootstrap_usable:
  assumes run: "runBootstrap ev args w = (Returned OK, ws, w')"
    and nohelp: "fp_values (parseFlags bootstrap_flags args) ''help'' = None" and cfg: "cv_config ev = Some cfg"
    and ids: "distinct (map ap_id (apps (w_db w)))" "newId ''app'' (fst (cv_ulids ev)) \<notin> ap_id ` set (apps (w_db w))"
      "newId ''rcv'' (cv_rcvUlid ev) \<notin> rc_id ` set (receivers (w_db w))" "all_in is_alnum (cv_rcvUlid ev)"
    and draws: "length (cv_rb1 ev) = 32" "length (cv_rb2 ev) = 32"
    and laws: "gcm_ok (ce_gcm (cv_crypto ev))" "\<And>k m. all_in_between is_hex 64 64 (ce_hmac (cv_crypto ev) k m)" "length (pd_nonce p) = 16"
    and skew: "\<bar>now div 1000 - pd_now p div 1000\<bar> \<le> INBOUND_TIMESTAMP_SKEW_SECONDS cfg"
    and fresh: "redis_get (w_redis w) now (nonce_key (newId ''rcv'' (cv_rcvUlid ev)) (to_hex (pd_nonce p))) = None"
  shows "\<exists>printed pk sk gk app i j number. ws = [Wrote printed] \<and>
     contains_str printed pk \<and> contains_str printed sk \<and> contains_str printed gk \<and>
     fst (requireKey cfg (ce_hmac (cv_crypto ev)) st now' (Some (''Bearer '' @ pk)) [KPublic] w') = Inr \<lparr>ay_id = i, ay_appId = app, ay_kind = KPublic\<rparr> \<and>
     fst (requireKey cfg (ce_hmac (cv_crypto ev)) st now' (Some (''Bearer '' @ sk)) [KSecret] w') = Inr \<lparr>ay_id = j, ay_appId = app, ay_kind = KSecret\<rparr> \<and>
     fst (verifyGatewayHmac cfg (cv_crypto ev) now
       (probe_input (probe_message (cv_crypto ev)
          \<lparr>po_receiverId = newId ''rcv'' (cv_rcvUlid ev), po_signingKey = gk, po_baseUrl = url\<rparr> p)) w')
       = Inr \<lparr>ar_id = newId ''rcv'' (cv_rcvUlid ev), ar_appId = app, ar_msisdn = number\<rparr>"
proof -
  let ?ce = "cv_crypto ev"
  obtain app rcv name w1 opts sim where
    b: "bootstrapApp cfg (ce_hmac ?ce) (cv_dbnow ev) (cv_ulids ev) (cv_rb1 ev) (cv_rb2 ev) name w = (Inr app, w1)"
    and a: "add_rcv ev cfg opts w1 = (Inr rcv, w')" and o: "ao_appId opts = br_appId app"
    and ws: "ws = [render_bootstrap (cv_color ev) app rcv sim]"
    using runBootstrap_ok [OF run nohelp] cfg by (metis option.inject)
  obtain u1 u2 u3 where u: "cv_ulids ev = (u1, u2, u3)" by (cases "cv_ulids ev")
  obtain kp ks ar where k:
      "kp = new_key cfg (ce_hmac ?ce) (cv_dbnow ev) u2 (br_appId app) KPublic (br_publicKey app) ''default-public''"
      "ks = new_key cfg (ce_hmac ?ce) (cv_dbnow ev) u3 (br_appId app) KSecret (br_secretKey app) ''default-secret''"
      "br_publicKey app = generateApiKey (cv_rb1 ev) ''pk_live''" "br_secretKey app = generateApiKey (cv_rb2 ev) ''sk_live''"
      "key_hash_uq (apiKeys (w_db w1))" "apiKeys (w_db w1) = apiKeys (w_db w) @ [kp, ks]"
      "apps (w_db w1) = apps (w_db w) @ [ar]" "ap_id ar = br_appId app" "\<not> ap_disabled ar"
    using bootstrapApp_ok [OF b [unfolded u]] by blast
  have w1: "receivers (w_db w1) = receivers (w_db w)" "w_redis w1 = w_redis w" "br_appId app = newId ''app'' u1"
    using bootstrapApp_frame [OF b] u by simp_all
  have keep: "apps (w_db w') = apps (w_db w1)" "apiKeys (w_db w') = apiKeys (w_db w1)" "ad_appId rcv = br_appId app"
    using addReceiver_keeps [OF a [unfolded add_rcv_def]] o by simp_all
  have d: "distinct (map ap_id (apps (w_db w')))" using ids(1,2) u w1(3) k(7,8) keep(1) by simp
  have in_k: "kp \<in> set (apiKeys (w_db w'))" "ks \<in> set (apiKeys (w_db w'))" "ar \<in> set (apps (w_db w'))"
    using k(6,7) keep by simp_all
  note uq = k(5) [folded keep(2)]
  have pf: "PREFIX_TO_KIND ''pk_live'' = Some KPublic" "PREFIX_TO_KIND ''sk_live'' = Some KSecret"
    by (simp_all add: PREFIX_TO_KIND_def)
  note pk = generated_key_authenticates [OF in_k(1) k(1) in_k(3) k(8,9) uq d k(3) draws(1) pf(1), of st now']
  note sk = generated_key_authenticates [OF in_k(2) k(2) in_k(3) k(8,9) uq d k(4) draws(2) pf(2), of st now']
  note gk = new_receiver_probe [OF a [unfolded add_rcv_def] _ ids(4) laws skew, of url, unfolded w1, OF ids(3) fresh]
  show ?thesis
    using bootstrap_prints [of "cv_color ev" app rcv sim] ws pk sk gk keep(3) by metis
qed


section \<open>Runs\<close>

definition demo_checks :: check_env where
  "demo_checks = \<lparr>ck_node = ''20.10.0'', ck_exec = (\<lambda>c a. Some ''1''), ck_url = (\<lambda>u. None), ck_tcp = (\<lambda>h p t. None),
     ck_fetch = (\<lambda>u t. Inl ''down''), ck_show = (\<lambda>j. [])\<rparr>"

text \<open>A digest that tells only public keys from the rest, which is enough here.\<close>

definition demo_crypto :: crypto_env where
  "demo_crypto = \<lparr>ce_gcm = rev_gcm, ce_hmac = (\<lambda>k m. replicate 64 (if take 9 m = ''api_key:p'' then CHR ''0'' else CHR ''1'')), ce_sha256 = to_hex\<rparr>"

definition demo_probe :: probe_draws where
  "demo_probe = \<lparr>pd_code = ''abcdef'', pd_key = ''12345678'', pd_nonce = replicate 16 CHR ''n'', pd_now = 100000, pd_iso = ''t''\<rparr>"

definition demo_phone :: phone_parser where
  "demo_phone s region = (if starts_with s ''+'' then Some \<lparr>pp_isValid = True, pp_type = OtherType, pp_number = s,
     pp_nationalNumber = s, pp_country = None\<rparr> else None)"

text \<open>A shell with both variables set, and a phone library that takes what begins with a plus sign.\<close>

definition demo_cli :: cli_env where
  "demo_cli =
     \<lparr>cv_env = [''DATABASE_URL'' \<mapsto> ''postgres://db'', ''MASTER_ENCRYPTION_KEY'' \<mapsto> ''00''], cv_color = False,
      cv_config = Some default_config, cv_crypto = demo_crypto, cv_parsePhone = demo_phone,
      cv_down1 = None, cv_down2 = None, cv_ulids = (''1'', ''2'', ''3''), cv_rb1 = replicate 32 CHR ''a'', cv_rb2 = replicate 32 CHR ''b'',
      cv_rcvUlid = ''7'', cv_keyBytes = ''secret'', cv_iv = ''123456789012'', cv_now = 0, cv_dbnow = 0, cv_iso = (\<lambda>t. []),
      cv_post = (\<lambda>q. Inl (JsError [])), cv_parse = (\<lambda>t. None), cv_draws = demo_probe,
      cv_latency = ''1.0'', cv_show = (\<lambda>j. []), cv_health = (\<lambda>u. Inl ''down''), cv_spawn = (\<lambda>c a. 0), cv_execPath = ''node'',
      cv_doctor = \<lparr>do_files = Map.empty, do_env = Map.empty, do_dotenv = ''.env'', do_checks = demo_checks, do_color = False\<rparr>,
      cv_version = ''0.2.0''\<rparr>"

definition args_for :: "string \<Rightarrow> string list" where
  "args_for number = [''--app-name'', ''Acme'', ''--msisdn='' @ number]"

lemma demo_flags:
  "fp_unknown (parseFlags bootstrap_flags (args_for ''12345'')) = None \<and>
   strOrNull (fp_values (parseFlags bootstrap_flags (args_for ''12345'')) ''app-name'') = Some ''Acme'' \<and>
   strOrNull (fp_values (parseFlags bootstrap_flags (args_for ''12345'')) ''msisdn'') = Some ''12345'' \<and>
   fp_values (parseFlags bootstrap_flags (args_for ''12345'')) ''help'' = None"
  "strOrNull (fp_values (parseFlags bootstrap_flags (args_for ''12345'')) ''receiver-name'') = None"
  "fp_unknown (parseFlags bootstrap_flags (args_for ''+963900000000'')) = None \<and>
   strOrNull (fp_values (parseFlags bootstrap_flags (args_for ''+963900000000'')) ''app-name'') = Some ''Acme'' \<and>
   strOrNull (fp_values (parseFlags bootstrap_flags (args_for ''+963900000000'')) ''msisdn'') = Some ''+963900000000'' \<and>
   fp_values (parseFlags bootstrap_flags (args_for ''+963900000000'')) ''help'' = None"
  "strOrNull (fp_values (parseFlags bootstrap_flags (args_for ''+963900000000'')) ''receiver-name'') = None"
  by code_simp+

lemma demo_boot:
  "\<exists>res a ks. bootstrapApp default_config (ce_hmac demo_crypto) 0 (''1'', ''2'', ''3'') (replicate 32 CHR ''a'') (replicate 32 CHR ''b'')
     ''Acme'' empty_world = (Inr res, with_app a ks empty_world) \<and> br_appId res = ''app_1'' \<and> ap_id a = ''app_1'' \<and> \<not> ap_disabled a \<and> length ks = 2"
proof -
  have t: "js_trim ''Acme'' = ''Acme''" by code_simp
  show ?thesis
    by (simp add: bootstrapApp_def t Let_def key_hash_uq_def unique_on_def new_key_def api_key_hash_def hashSecret_def generateApiKey_def
        empty_world_def empty_db_def newId_def demo_crypto_def with_app_def)
qed

lemma demo_numbers:
  "normalizePhone demo_phone ''12345'' ''SY'' = Inl (PhoneError ''invalid_phone'')"
  "\<not> isl (normalizePhone demo_phone ''+963900000000'' ''SY'')"
  "\<not> isl (wrapGatewaySigningKey default_config demo_crypto ''123456789012'' (generateNonceHex ''secret'') ''rcv_7'')"
  "prefixed_id ''app_'' ''app_1'' \<and> js_trim ''Receiver-1'' \<noteq> []"
  by code_simp+


lemma demo_region: "DEFAULT_PHONE_REGION default_config = ''SY''"
  by (simp add: default_config_def)

lemma demo_run:
  assumes "fp_unknown (parseFlags bootstrap_flags args) = None" and "fp_values (parseFlags bootstrap_flags args) ''help'' = None"
    and "strOrNull (fp_values (parseFlags bootstrap_flags args) ''app-name'') = Some ''Acme''"
    and "strOrNull (fp_values (parseFlags bootstrap_flags args) ''msisdn'') = Some number"
  shows "runBootstrap demo_cli args empty_world = bootstrap_with demo_cli default_config (fp_values (parseFlags bootstrap_flags args)) empty_world"
  using assms by (simp add: runBootstrap_def bootstrap_missing_def demo_cli_def truthy_def)

text \<open>A number the phone library refuses: exit code 2, and an application stays whose keys nobody was shown.\<close>

lemma orphan_app:
  "\<exists>e w'. runBootstrap demo_cli (args_for ''12345'') empty_world = (Thrown e, [], w') \<and> cl_code e = USAGE \<and>
     length (apps (w_db w')) = 1 \<and> length (apiKeys (w_db w')) = 2 \<and> receivers (w_db w') = []"
proof -
  obtain res a ks where b: "bootstrapApp default_config (ce_hmac demo_crypto) 0 (''1'', ''2'', ''3'') (replicate 32 CHR ''a'')
      (replicate 32 CHR ''b'') ''Acme'' empty_world = (Inr res, with_app a ks empty_world)" "br_appId res = ''app_1''" "length ks = 2"
    using demo_boot by blast
  note f = demo_flags(1)
  show ?thesis
    unfolding demo_run [OF f [THEN conjunct1] f [THEN conjunct2, THEN conjunct2, THEN conjunct2] f [THEN conjunct2, THEN conjunct1]
        f [THEN conjunct2, THEN conjunct2, THEN conjunct1]]
    using b f demo_flags(2) demo_numbers(1,4)
    by (simp add: bootstrap_with_def demo_cli_def admin_call_def add_rcv_def addReceiver_def demo_region with_app_def
        Let_def mapAdminError_def or_else_def empty_world_def empty_db_def split: option.split)
qed


lemma demo_success:
  "\<exists>ws w'. runBootstrap demo_cli (args_for ''+963900000000'') empty_world = (Returned OK, ws, w')"
proof -
  obtain res a ks where b: "bootstrapApp default_config (ce_hmac demo_crypto) 0 (''1'', ''2'', ''3'') (replicate 32 CHR ''a'')
      (replicate 32 CHR ''b'') ''Acme'' empty_world = (Inr res, with_app a ks empty_world)" "br_appId res = ''app_1''"
      "ap_id a = ''app_1''" "\<not> ap_disabled a"
    using demo_boot by blast
  obtain ph wr where "normalizePhone demo_phone ''+963900000000'' ''SY'' = Inr ph"
      "wrapGatewaySigningKey default_config demo_crypto ''123456789012'' (generateNonceHex ''secret'') ''rcv_7'' = Inr wr"
    using demo_numbers(2,3) by (metis isl_def sum.exhaust_sel)
  note f = demo_flags(3)
  show ?thesis
    unfolding demo_run [OF f [THEN conjunct1] f [THEN conjunct2, THEN conjunct2, THEN conjunct2] f [THEN conjunct2, THEN conjunct1]
        f [THEN conjunct2, THEN conjunct2, THEN conjunct1]]
    using b f demo_flags(4) demo_numbers(4) \<open>normalizePhone demo_phone ''+963900000000'' ''SY'' = Inr ph\<close>
      \<open>wrapGatewaySigningKey default_config demo_crypto ''123456789012'' (generateNonceHex ''secret'') ''rcv_7'' = Inr wr\<close>
    by (simp add: bootstrap_with_def demo_cli_def admin_call_def add_rcv_def addReceiver_def demo_region with_app_def newId_def
        Let_def or_else_def empty_world_def empty_db_def split: option.split)
qed

theorem bootstrap_usable_witness:
  "\<exists>printed w' sk app j. runBootstrap demo_cli (args_for ''+963900000000'') empty_world = (Returned OK, [Wrote printed], w') \<and>
     contains_str printed sk \<and>
     fst (requireKey default_config (ce_hmac demo_crypto) True 5 (Some (''Bearer '' @ sk)) [KSecret] w')
       = Inr \<lparr>ay_id = j, ay_appId = app, ay_kind = KSecret\<rparr>"
proof -
  obtain ws w' where r: "runBootstrap demo_cli (args_for ''+963900000000'') empty_world = (Returned OK, ws, w')"
    using demo_success by blast
  have hex: "all_in_between is_hex 64 64 (ce_hmac demo_crypto k m)" for k m
    by (simp add: demo_crypto_def all_in_between_def list_all_iff char_class_defs code_unit_def)
  have c: "cv_config demo_cli = Some default_config" "cv_crypto demo_cli = demo_crypto" "fst (cv_ulids demo_cli) = ''1''"
    "cv_rcvUlid demo_cli = ''7''" "length (cv_rb1 demo_cli) = 32" "length (cv_rb2 demo_cli) = 32"
    by (simp_all add: demo_cli_def)
  have e: "apps (w_db empty_world) = []" "receivers (w_db empty_world) = []" "redis_get (w_redis empty_world) n k = None"
    "gcm_ok (ce_gcm demo_crypto)" "length (pd_nonce demo_probe) = 16" "all_in is_alnum ''7''"
    "\<bar>100000 div 1000 - pd_now demo_probe div 1000\<bar> \<le> INBOUND_TIMESTAMP_SKEW_SECONDS default_config" for n k
    using rev_gcm_ok by (simp_all add: empty_world_def empty_db_def empty_redis_def redis_get_def demo_crypto_def demo_probe_def
        default_config_def all_in_def char_class_defs code_unit_def)
  show ?thesis
    using bootstrap_usable [OF r demo_flags(3) [THEN conjunct2, THEN conjunct2, THEN conjunct2] c(1), where p = demo_probe and now = 100000
        and st = True and now' = 5 and url = "''http://x''"] hex c e r by auto
qed

end
