(* ===== verification/LoadPrep.thy ===== *)
theory LoadPrep
  imports LoadSuite CliProps
begin

text \<open>
  The rows the load generator prepares in the database (\<open>prepFixtures\<close> of \<open>tools/loadtest/src/env.ts\<close>) and
  the requests it signs (\<open>client.ts\<close>), against the server they are meant for. The tool copies the
  server's key hash, cipher format and row shapes; the closing properties say that the copies agree
  and that the cleanup takes back what was prepared. Fresh ULIDs, random bytes and clocks are
  arguments; what the third-party driver sends is a statement of its own, not one transaction.
\<close>

section \<open>Copies of the server's primitives\<close>

definition KEY_CHARS :: string where
  "KEY_CHARS = ''abcdefghijklmnopqrstuvwxyz0123456789''"

text \<open>\<open>buf\<close> is \<open>randomBytes(n)\<close>.\<close>

definition randomChars :: "string \<Rightarrow> nat \<Rightarrow> string" where
  "randomChars buf n = draw KEY_CHARS (\<lambda>i. code_unit (buf ! i) mod length KEY_CHARS) n"

definition lt_hashApiKey :: "hmac_fn \<Rightarrow> string \<Rightarrow> string \<Rightarrow> string" where
  "lt_hashApiKey hmac masterKeyHex raw = hmac (from_hex masterKeyHex) (''api_key:'' @ raw)"

text \<open>\<open>createCipheriv\<close> throws on a key that is not 32 bytes long.\<close>

definition aesGcmWrap :: "gcm \<Rightarrow> string \<Rightarrow> string \<Rightarrow> string \<Rightarrow> string \<Rightarrow> exn + string" where
  "aesGcmWrap g iv masterKeyHex plaintext aad =
     (let key = from_hex masterKeyHex in
      if length key \<noteq> 32 then Inl (JsError ''Invalid key length'')
      else let ct = gcm_ctr g key iv plaintext; tag = gcm_tag g key iv aad ct
           in Inr (join_with ''.'' [''v1'', b64u iv, b64u tag, b64u ct]))"

section \<open>Preparing\<close>

record receiver_draws =
  rv_ulid :: string
  rv_keyBytes :: string
  rv_iv :: string
  rv_dbnow :: int

record prep_draws =
  pr_appUlid :: string
  pr_isoNow :: string
  pr_pkBytes :: string
  pr_skBytes :: string
  pr_pkUlid :: string
  pr_skUlid :: string
  pr_dbnow :: int
  pr_receiver :: "nat \<Rightarrow> receiver_draws"

definition lt_app :: "prep_draws \<Rightarrow> app_row" where
  "lt_app dr = \<lparr>ap_id = newId ''app'' (pr_appUlid dr), ap_name = ''loadtest-'' @ pr_isoNow dr, ap_createdAt = pr_dbnow dr, ap_disabled = False\<rparr>"

definition lt_publicKey :: "prep_draws \<Rightarrow> string" where
  "lt_publicKey dr = ''pk_live_'' @ randomChars (pr_pkBytes dr) 32"

definition lt_secretKey :: "prep_draws \<Rightarrow> string" where
  "lt_secretKey dr = ''sk_live_'' @ randomChars (pr_skBytes dr) 32"

text \<open>The columns the statement does not name have the defaults of the table.\<close>

definition lt_key_row :: "hmac_fn \<Rightarrow> string \<Rightarrow> prep_draws \<Rightarrow> string \<Rightarrow> api_key_kind \<Rightarrow> string \<Rightarrow> string \<Rightarrow> api_key_row" where
  "lt_key_row hmac masterKeyHex dr u kind raw label =
     \<lparr>ak_id = newId ''key'' u, ak_appId = ap_id (lt_app dr), ak_kind = kind, ak_keyHash = lt_hashApiKey hmac masterKeyHex raw,
      ak_keyPrefix = take 12 raw, ak_label = Some label, ak_createdAt = pr_dbnow dr, ak_lastUsedAt = None, ak_revokedAt = None\<rparr>"

definition lt_keys :: "hmac_fn \<Rightarrow> string \<Rightarrow> prep_draws \<Rightarrow> api_key_row list" where
  "lt_keys hmac masterKeyHex dr =
     [lt_key_row hmac masterKeyHex dr (pr_pkUlid dr) KPublic (lt_publicKey dr) ''lt-public'',
      lt_key_row hmac masterKeyHex dr (pr_skUlid dr) KSecret (lt_secretKey dr) ''lt-secret'']"

definition lt_operators :: "string list" where
  "lt_operators = [''syriatel'', ''mtn'', ''operator-c'', ''operator-d'']"

text \<open>\<open>String(8000000 + i).padStart(7, "0").slice(-7)\<close> behind the country code.\<close>

definition lt_msisdn_of :: "nat \<Rightarrow> string" where
  "lt_msisdn_of i =
     (let s = show_nat (8000000 + i); lastDigits = replicate (7 - length s) CHR ''0'' @ s
      in ''+96399'' @ drop (length lastDigits - 7) lastDigits)"

definition lt_receiver_of :: "nat \<Rightarrow> receiver_draws \<Rightarrow> lt_receiver" where
  "lt_receiver_of i d = \<lparr>lt_id = newId ''rcv'' (rv_ulid d), lt_msisdn = lt_msisdn_of i, lt_signingKey = to_hex (rv_keyBytes d)\<rparr>"

definition lt_receiver_row :: "string \<Rightarrow> nat \<Rightarrow> receiver_draws \<Rightarrow> string \<Rightarrow> receiver_row" where
  "lt_receiver_row appId i d wrapped =
     \<lparr>rc_id = newId ''rcv'' (rv_ulid d), rc_appId = appId, rc_name = ''lt-rcv-'' @ show_nat (i + 1),
      rc_operator = Some (lt_operators ! (i mod length lt_operators)), rc_msisdn = lt_msisdn_of i, rc_secretHash = wrapped,
      rc_enabled = True, rc_lastHeartbeatAt = Some (rv_dbnow d), rc_createdAt = rv_dbnow d\<rparr>"

text \<open>The loop over the receivers, one statement each; \<open>i\<close> counts them.\<close>

fun prep_receivers :: "gcm \<Rightarrow> string \<Rightarrow> string \<Rightarrow> nat \<Rightarrow> receiver_draws list \<Rightarrow> world \<Rightarrow> (exn + lt_receiver list) \<times> world" where
  "prep_receivers g masterKeyHex appId i [] w = (Inr [], w)"
| "prep_receivers g masterKeyHex appId i (d # ds) w =
     (case aesGcmWrap g (rv_iv d) masterKeyHex (to_hex (rv_keyBytes d)) (''receiver:'' @ newId ''rcv'' (rv_ulid d)) of
        Inl e \<Rightarrow> (Inl e, w)
      | Inr wrapped \<Rightarrow>
        (case prep_receivers g masterKeyHex appId (Suc i) ds
                (w\<lparr>w_db := (w_db w)\<lparr>receivers := receivers (w_db w) @ [lt_receiver_row appId i d wrapped]\<rparr>\<rparr>) of
           (Inl e, w') \<Rightarrow> (Inl e, w')
         | (Inr rs, w') \<Rightarrow> (Inr (lt_receiver_of i d # rs), w')))"

text \<open>A refused statement leaves the rows of the earlier ones behind.\<close>

definition insert_rows :: "crypto_env \<Rightarrow> prep_draws \<Rightarrow> string \<Rightarrow> nat \<Rightarrow> world \<Rightarrow> (exn + fixtures) \<times> world" where
  "insert_rows ce dr masterKeyHex needed w =
     (let w1 = w\<lparr>w_db := (w_db w)\<lparr>apps := apps (w_db w) @ [lt_app dr]\<rparr>\<rparr>;
          ks = apiKeys (w_db w1) @ lt_keys (ce_hmac ce) masterKeyHex dr
      in if \<not> key_hash_uq ks then (Inl (UniqueViolation ''api_keys_key_hash_uq''), w1)
         else case prep_receivers (ce_gcm ce) masterKeyHex (ap_id (lt_app dr)) 0 (map (pr_receiver dr) [0..<needed])
                     (w1\<lparr>w_db := (w_db w1)\<lparr>apiKeys := ks\<rparr>\<rparr>) of
           (Inl e, w2) \<Rightarrow> (Inl e, w2)
         | (Inr rs, w2) \<Rightarrow>
           (Inr \<lparr>fx_publicKey = lt_publicKey dr, fx_secretKey = lt_secretKey dr, fx_receivers = rs\<rparr>, w2))"

section \<open>Seeding bindings\<close>

record seed_draws =
  se_ulid :: string
  se_nonce :: string
  se_now :: int
  se_boundAt :: int
  se_dbnow :: int

definition seeded_row :: "string \<Rightarrow> string \<Rightarrow> seed_draws \<Rightarrow> string \<Rightarrow> binding_row" where
  "seeded_row appId recvId d phone =
     \<lparr>pb_id = newId ''pbn'' (se_ulid d), pb_appId = appId, pb_receiverId = recvId, pb_phoneE164 = phone, pb_status = BVerified,
      pb_nonce = ''lt-seed-'' @ to_hex (se_nonce d), pb_expiresAt = se_now d + 60 * 60 * 1000, pb_boundAt = Some (se_boundAt d),
      pb_revokedAt = None, pb_createdAt = se_dbnow d\<rparr>"

definition CHUNK :: nat where
  "CHUNK = 5000"

fun chunks_of :: "nat \<Rightarrow> 'a list \<Rightarrow> 'a list list" where
  "chunks_of n xs = (if n = 0 \<or> xs = [] then [] else take n xs # chunks_of n (drop n xs))"

declare chunks_of.simps [simp del]

fun insert_chunks :: "binding_row list list \<Rightarrow> world \<Rightarrow> (exn + unit) \<times> world" where
  "insert_chunks [] w = (Inr (), w)"
| "insert_chunks (rows # rest) w =
     (let bs = phoneBindings (w_db w) @ rows in
      if \<not> active_uq bs then (Inl (UniqueViolation ''phone_bindings_active_uq''), w)
      else insert_chunks rest (set_bindings bs w))"

definition seedBindings :: "string \<Rightarrow> lt_receiver list \<Rightarrow> (string \<Rightarrow> seed_draws) \<Rightarrow> string list \<Rightarrow> world \<Rightarrow> (exn + unit) \<times> world" where
  "seedBindings appId rs dr phones w =
     (if phones = [] then (Inr (), w)
      else case rs of
        [] \<Rightarrow> (Inl (JsError ''Cannot read properties of undefined''), w)
      | r # _ \<Rightarrow> insert_chunks (chunks_of CHUNK (map (\<lambda>p. seeded_row appId (lt_id r) (dr p) p) phones)) w)"

section \<open>Cleaning up\<close>

text \<open>
  \<open>DELETE FROM apps\<close> with the foreign keys of \<open>schema.ts\<close>: everything that names the application, its
  receivers or its webhook tables goes too, the audit log has no key. The key from a verification to
  its receiver is \<open>ON DELETE RESTRICT\<close>: a receiver that a verification still names cannot go.
  Whether the application's own verifications are gone by the time its receivers are deleted is
  the database's choice, \<open>verifications_first\<close>.
\<close>

definition app_receiver_ids :: "string \<Rightarrow> db \<Rightarrow> string set" where
  "app_receiver_ids appId d = rc_id ` set (filter (\<lambda>r. rc_appId r = appId) (receivers d))"

definition delete_app :: "bool \<Rightarrow> string \<Rightarrow> db \<Rightarrow> exn + db" where
  "delete_app verifications_first appId d =
     (let rids = app_receiver_ids appId d;
          eids = we_id ` set (filter (\<lambda>e. we_appId e = appId) (webhookEndpoints d));
          vids = ev_id ` set (filter (\<lambda>e. ev_appId e = appId) (webhookEvents d));
          gone = filter (\<lambda>v. vr_appId v \<noteq> appId) (verifications d)
      in if list_ex (\<lambda>v. vr_receiverId v \<in> rids) (if verifications_first then gone else verifications d)
         then Inl (JsError ''verifications_receiver_id_fkey'')
         else Inr (d\<lparr>apps := filter (\<lambda>a. ap_id a \<noteq> appId) (apps d),
              apiKeys := filter (\<lambda>k. ak_appId k \<noteq> appId) (apiKeys d),
              receivers := filter (\<lambda>r. rc_appId r \<noteq> appId) (receivers d),
              verifications := gone,
              inboundSms := filter (\<lambda>i. in_receiverId i \<notin> rids) (inboundSms d),
              webhookEndpoints := filter (\<lambda>e. we_appId e \<noteq> appId) (webhookEndpoints d),
              webhookEvents := filter (\<lambda>e. ev_appId e \<noteq> appId) (webhookEvents d),
              webhookDeliveries := filter (\<lambda>x. dl_endpointId x \<notin> eids \<and> dl_eventId x \<notin> vids) (webhookDeliveries d),
              webauthnCredentials := filter (\<lambda>c. wc_appId c \<noteq> appId) (webauthnCredentials d),
              webauthnChallenges := filter (\<lambda>c. ch_appId c \<noteq> appId) (webauthnChallenges d),
              phoneBindings := filter (\<lambda>b. pb_appId b \<noteq> appId \<and> pb_receiverId b \<notin> rids) (phoneBindings d)\<rparr>))"

definition lt_cleanup :: "bool \<Rightarrow> string \<Rightarrow> world \<Rightarrow> (exn + unit) \<times> world" where
  "lt_cleanup verifications_first appId w =
     (case delete_app verifications_first appId (w_db w) of
        Inl e \<Rightarrow> (Inl e, w)
      | Inr d \<Rightarrow> (Inr (), w\<lparr>w_db := d\<rparr>))"

section \<open>Signed requests\<close>

text \<open>The optional timestamp and nonce default to the clock and to 16 fresh bytes.\<close>

definition signGateway :: "crypto_env \<Rightarrow> int \<Rightarrow> string \<Rightarrow> string \<Rightarrow> string \<Rightarrow> string \<Rightarrow> int option \<Rightarrow> string option \<Rightarrow> (string \<times> string) list" where
  "signGateway ce now nonceBytes receiverId signingKey rawBody timestamp nonce_opt =
     (let ts = show_int (case timestamp of None \<Rightarrow> now div 1000 | Some t \<Rightarrow> t);
          nonce = (case nonce_opt of None \<Rightarrow> to_hex nonceBytes | Some n \<Rightarrow> n);
          sig = ce_hmac ce signingKey (ts @ ''.'' @ nonce @ ''.'' @ ce_sha256 ce rawBody)
      in [(''X-SYROTP-Receiver'', receiverId), (''X-SYROTP-Timestamp'', ts), (''X-SYROTP-Nonce'', nonce), (''X-SYROTP-Signature'', sig)])"

record inbound_payload =
  ip_from :: string
  ip_to :: string
  ip_body :: "string option"
  ip_receivedAt :: "int option"
  ip_idempotencyKey :: "string option"
  ip_simSlot :: "int option"

text \<open>A body that is \<open>undefined\<close> is left out by \<open>JSON.stringify\<close>, an unknown slot by the spread.\<close>

definition lt_inboundBody :: "(int \<Rightarrow> string) \<Rightarrow> int \<Rightarrow> string \<Rightarrow> inbound_payload \<Rightarrow> string" where
  "lt_inboundBody isoTime now keyBytes p =
     (let text_field = (\<lambda>(k, v). dquoted k @ '':'' @ dquoted v) in
      ''{'' @ join_with '',''
        (map text_field [(''from'', ip_from p), (''to'', ip_to p)] @
         (case ip_body p of None \<Rightarrow> [] | Some b \<Rightarrow> [text_field (''body'', b)]) @
         map text_field
           [(''received_at'', isoTime (case ip_receivedAt p of None \<Rightarrow> now | Some t \<Rightarrow> t)),
            (''idempotency_key'', case ip_idempotencyKey p of None \<Rightarrow> ''lt_'' @ to_hex keyBytes | Some k \<Rightarrow> k)] @
         (case ip_simSlot p of None \<Rightarrow> [] | Some n \<Rightarrow> [dquoted ''sim_slot'' @ '':'' @ show_int n])) @ ''}'')"

text \<open>\<open>Client.request\<close> puts its own headers behind those given; a request without a body has no content type.\<close>

definition client_message :: "string \<Rightarrow> string \<Rightarrow> (string \<times> string) list \<Rightarrow> string option \<Rightarrow> probe_request" where
  "client_message baseUrl path headers body =
     \<lparr>pq_url = strip_slashes baseUrl @ path,
      pq_headers = headers @ (if body = None then [] else [(''Content-Type'', ''application/json'')]) @ [(''User-Agent'', ''syrotp-loadtest/0.1.1'')],
      pq_body = or_else body []\<rparr>"

text \<open>What one call draws: the clock, the bytes of a key and of a nonce, and ISO time and URI encoding.\<close>

record call_draws =
  cd_now :: int
  cd_keyBytes :: string
  cd_nonceBytes :: string
  cd_iso :: "int \<Rightarrow> string"
  cd_encodeURI :: "string \<Rightarrow> string"

text \<open>The request of a call of a scenario; the midpoint is no request.\<close>

definition bearer :: "string \<Rightarrow> (string \<times> string) list" where
  "bearer key = [(''Authorization'', ''Bearer '' @ key)]"

primrec call_message :: "crypto_env \<Rightarrow> string \<Rightarrow> fixtures \<Rightarrow> call_draws \<Rightarrow> load_call \<Rightarrow> probe_request option" where
  "call_message ce baseUrl fx dr (StartCall phone) =
     Some (client_message baseUrl ''/v1/verifications'' (bearer (fx_publicKey fx)) (Some (stringify [(''phone'', phone), (''purpose'', ''loadtest'')])))"
| "call_message ce baseUrl fx dr (StatusCall i) =
     Some (client_message baseUrl (''/v1/verifications/'' @ cd_encodeURI dr i) (bearer (fx_secretKey fx)) None)"
| "call_message ce baseUrl fx dr (InboundCall r phone body key nonce codes) =
     (let raw = lt_inboundBody (cd_iso dr) (cd_now dr) (cd_keyBytes dr)
            \<lparr>ip_from = phone, ip_to = lt_msisdn r, ip_body = body, ip_receivedAt = None, ip_idempotencyKey = Some key, ip_simSlot = None\<rparr>
      in Some (client_message baseUrl ''/v1/inbound/sms''
            (signGateway ce (cd_now dr) (cd_nonceBytes dr) (lt_id r) (lt_signingKey r) raw None nonce) (Some raw)))"
| "call_message ce baseUrl fx dr MidpointCall = None"

section \<open>The copies agree with the server\<close>

lemma lt_hashApiKey_server: "MASTER_ENCRYPTION_KEY cfg = key \<Longrightarrow> lt_hashApiKey hmac key raw = api_key_hash cfg hmac raw"
  by (simp add: lt_hashApiKey_def api_key_hash_def hashSecret_def)

lemma aesGcmWrap_server: "aesGcmWrap g iv key pt aad = Inr c \<longleftrightarrow> wrap g iv key pt (Some aad) = Inr c"
  by (simp add: aesGcmWrap_def wrap_def Let_def aad_of_def)

lemma randomChars_shape:
  "length (randomChars buf n) = n" "list_all (\<lambda>c. is_alnum c \<and> c \<noteq> CHR ''_'') (randomChars buf n)"
proof -
  have idx: "code_unit (buf ! i) mod length KEY_CHARS < length KEY_CHARS" for i by (simp add: KEY_CHARS_def)
  have a: "list_all (\<lambda>c. is_alnum c \<and> c \<noteq> CHR ''_'') KEY_CHARS" by (simp add: KEY_CHARS_def char_class_defs code_unit_def)
  show "length (randomChars buf n) = n" unfolding randomChars_def by (rule length_draw [OF idx])
  show "list_all (\<lambda>c. is_alnum c \<and> c \<noteq> CHR ''_'') (randomChars buf n)" unfolding randomChars_def by (rule draw_class [OF idx a])
qed

text \<open>What the server reads from the headers of a signed call.\<close>

lemma signed_call_read:
  assumes "call_message ce baseUrl fx dr (InboundCall r phone body key nonce codes) = Some q"
  shows "\<exists>raw. probe_input q =
     \<lparr>hi_receiverId = lt_id r, hi_timestampHeader = show_int (cd_now dr div 1000), hi_nonceHeader = or_else nonce (to_hex (cd_nonceBytes dr)),
      hi_signatureHeader = ce_hmac ce (lt_signingKey r) (signed_payload ce (cd_now dr div 1000) (or_else nonce (to_hex (cd_nonceBytes dr))) raw),
      hi_rawBody = raw\<rparr>"
proof -
  have l: "js_lower ''X-SYROTP-Receiver'' = ''x-syrotp-receiver''" "js_lower ''X-SYROTP-Timestamp'' = ''x-syrotp-timestamp''"
    "js_lower ''X-SYROTP-Nonce'' = ''x-syrotp-nonce''" "js_lower ''X-SYROTP-Signature'' = ''x-syrotp-signature''"
    "js_lower ''x-syrotp-receiver'' = ''x-syrotp-receiver''" "js_lower ''x-syrotp-timestamp'' = ''x-syrotp-timestamp''"
    "js_lower ''x-syrotp-nonce'' = ''x-syrotp-nonce''" "js_lower ''x-syrotp-signature'' = ''x-syrotp-signature''"
    by code_simp+
  show ?thesis
    using assms by (cases nonce)
      (auto simp: probe_input_def readGatewayHeaders_def header_get_def received_def client_message_def signGateway_def l Let_def
        signed_payload_def or_else_def)
qed

section \<open>What preparing and seeding leave\<close>

lemma concat_chunks_of: "n \<noteq> 0 \<Longrightarrow> concat (chunks_of n xs) = xs"
proof (induction n xs rule: chunks_of.induct)
  case (1 n xs)
  then show ?case by (subst chunks_of.simps) simp
qed

lemma insert_chunks_ok:
  "insert_chunks rss w = (Inr (), w') \<Longrightarrow> w' = set_bindings (phoneBindings (w_db w) @ concat rss) w"
proof (induction rss arbitrary: w)
  case Nil
  then show ?case by (simp add: set_bindings_def)
next
  case (Cons rows rss)
  then have "insert_chunks rss (set_bindings (phoneBindings (w_db w) @ rows) w) = (Inr (), w')"
    by (simp add: Let_def split: if_splits)
  from Cons.IH [OF this] show ?case by (simp add: set_bindings_def)
qed

lemma seedBindings_ok:
  assumes "seedBindings appId rs sd phones w = (Inr (), w')"
  obtains bs where "w' = set_bindings (phoneBindings (w_db w) @ bs) w" and "\<forall>b \<in> set bs. pb_appId b = appId"
    and "\<forall>p \<in> set phones. \<exists>b \<in> set bs. pb_appId b = appId \<and> pb_phoneE164 b = p \<and> pb_status b = BVerified"
proof (cases "phones = []")
  case True
  with assms show ?thesis by (intro that [of "[]"]) (simp_all add: seedBindings_def set_bindings_def)
next
  case False
  with assms obtain r rs' where rs: "rs = r # rs'" by (cases rs) (simp_all add: seedBindings_def)
  let ?bs = "map (\<lambda>p. seeded_row appId (lt_id r) (sd p) p) phones"
  have "w' = set_bindings (phoneBindings (w_db w) @ ?bs) w"
    using assms False insert_chunks_ok [of "chunks_of CHUNK ?bs" w w'] concat_chunks_of [of CHUNK ?bs]
    by (simp add: seedBindings_def rs CHUNK_def)
  then show ?thesis by (rule that) (auto simp: seeded_row_def)
qed

text \<open>A receiver of the tool and the row it stands for.\<close>

definition prepared :: "gcm \<Rightarrow> string \<Rightarrow> string \<Rightarrow> receiver_draws set \<Rightarrow> lt_receiver \<Rightarrow> receiver_row \<Rightarrow> bool" where
  "prepared g key appId ds r row \<longleftrightarrow>
     rc_id row = lt_id r \<and> rc_appId row = appId \<and> rc_msisdn row = lt_msisdn r \<and> rc_enabled row \<and>
     (\<exists>d \<in> ds. lt_id r = newId ''rcv'' (rv_ulid d) \<and> rc_lastHeartbeatAt row = Some (rv_dbnow d) \<and>
        aesGcmWrap g (rv_iv d) key (lt_signingKey r) (receiver_aad (lt_id r)) = Inr (rc_secretHash row))"

lemma prepared_mono: "prepared g key appId ds r row \<Longrightarrow> ds \<subseteq> ds' \<Longrightarrow> prepared g key appId ds' r row"
  by (auto simp: prepared_def)

lemma prep_receivers_ok:
  assumes "prep_receivers g key appId i ds w = (Inr rs, w')"
  shows "\<exists>rows. w' = w\<lparr>w_db := (w_db w)\<lparr>receivers := receivers (w_db w) @ rows\<rparr>\<rparr> \<and>
     list_all2 (prepared g key appId (set ds)) rs rows \<and> map lt_id rs = map (\<lambda>d. newId ''rcv'' (rv_ulid d)) ds"
  using assms
proof (induction ds arbitrary: i w rs)
  case Nil
  then show ?case by (intro exI [of _ "[]"]) simp
next
  case (Cons d ds)
  obtain c where c: "aesGcmWrap g (rv_iv d) key (to_hex (rv_keyBytes d)) (''receiver:'' @ newId ''rcv'' (rv_ulid d)) = Inr c"
    using Cons.prems by (auto split: sum.splits)
  let ?w = "w\<lparr>w_db := (w_db w)\<lparr>receivers := receivers (w_db w) @ [lt_receiver_row appId i d c]\<rparr>\<rparr>"
  obtain rs' where rs: "prep_receivers g key appId (Suc i) ds ?w = (Inr rs', w')" "rs = lt_receiver_of i d # rs'"
    using Cons.prems c by (auto split: sum.splits prod.splits)
  obtain rows where rows: "w' = ?w\<lparr>w_db := (w_db ?w)\<lparr>receivers := receivers (w_db ?w) @ rows\<rparr>\<rparr>"
      "list_all2 (prepared g key appId (set ds)) rs' rows" "map lt_id rs' = map (\<lambda>d. newId ''rcv'' (rv_ulid d)) ds"
    using Cons.IH [OF rs(1)] by blast
  have "list_all2 (prepared g key appId (set (d # ds))) rs' rows"
    using rows(2) by (rule list_all2_mono) (auto intro: prepared_mono)
  moreover have "prepared g key appId (set (d # ds)) (lt_receiver_of i d) (lt_receiver_row appId i d c)"
    using c by (simp add: prepared_def lt_receiver_of_def lt_receiver_row_def receiver_aad_def)
  ultimately show ?case
    using rows(1,3) rs(2) by (intro exI [of _ "lt_receiver_row appId i d c # rows"]) (simp add: lt_receiver_of_def)
qed

lemma insert_rows_ok:
  assumes "insert_rows ce dr key needed w = (Inr fx, w1)"
  obtains rows where "w1 = w\<lparr>w_db := (w_db w)\<lparr>apps := apps (w_db w) @ [lt_app dr],
        apiKeys := apiKeys (w_db w) @ lt_keys (ce_hmac ce) key dr, receivers := receivers (w_db w) @ rows\<rparr>\<rparr>"
    and "key_hash_uq (apiKeys (w_db w1))" and "fx_publicKey fx = lt_publicKey dr" and "fx_secretKey fx = lt_secretKey dr"
    and "list_all2 (prepared (ce_gcm ce) key (ap_id (lt_app dr)) (pr_receiver dr ` {..<needed})) (fx_receivers fx) rows"
    and "map lt_id (fx_receivers fx) = map (\<lambda>i. newId ''rcv'' (rv_ulid (pr_receiver dr i))) [0..<needed]"
proof -
  let ?w = "w\<lparr>w_db := (w_db w)\<lparr>apps := apps (w_db w) @ [lt_app dr], apiKeys := apiKeys (w_db w) @ lt_keys (ce_hmac ce) key dr\<rparr>\<rparr>"
  obtain rs where uq: "key_hash_uq (apiKeys (w_db w) @ lt_keys (ce_hmac ce) key dr)"
    and run: "prep_receivers (ce_gcm ce) key (ap_id (lt_app dr)) 0 (map (pr_receiver dr) [0..<needed]) ?w = (Inr rs, w1)"
    and fx: "fx = \<lparr>fx_publicKey = lt_publicKey dr, fx_secretKey = lt_secretKey dr, fx_receivers = rs\<rparr>"
    using assms unfolding insert_rows_def Let_def by (auto split: if_splits sum.splits prod.splits)
  obtain rows where rows: "w1 = ?w\<lparr>w_db := (w_db ?w)\<lparr>receivers := receivers (w_db ?w) @ rows\<rparr>\<rparr>"
      "list_all2 (prepared (ce_gcm ce) key (ap_id (lt_app dr)) (pr_receiver dr ` {..<needed})) rs rows"
      "map lt_id rs = map (\<lambda>i. newId ''rcv'' (rv_ulid (pr_receiver dr i))) [0..<needed]"
    using prep_receivers_ok [OF run] by (auto simp: atLeast0LessThan comp_def)
  show ?thesis using rows uq by (intro that [of rows]) (simp_all add: fx)
qed

section \<open>Cleaning up takes back what was prepared\<close>

definition new_receiver_ids :: "prep_draws \<Rightarrow> nat \<Rightarrow> string set" where
  "new_receiver_ids dr needed = (\<lambda>i. newId ''rcv'' (rv_ulid (pr_receiver dr i))) ` {..<needed}"

text \<open>No row names the application or one of the receivers.\<close>

definition unreferenced :: "string \<Rightarrow> string set \<Rightarrow> db \<Rightarrow> bool" where
  "unreferenced appId rids d \<longleftrightarrow>
     appId \<notin> ap_id ` set (apps d) \<and> appId \<notin> ak_appId ` set (apiKeys d) \<and>
     appId \<notin> rc_appId ` set (receivers d) \<and> rids \<inter> rc_id ` set (receivers d) = {} \<and>
     appId \<notin> vr_appId ` set (verifications d) \<and> rids \<inter> vr_receiverId ` set (verifications d) = {} \<and>
     rids \<inter> in_receiverId ` set (inboundSms d) = {} \<and> appId \<notin> we_appId ` set (webhookEndpoints d) \<and>
     appId \<notin> ev_appId ` set (webhookEvents d) \<and> appId \<notin> wc_appId ` set (webauthnCredentials d) \<and>
     appId \<notin> ch_appId ` set (webauthnChallenges d) \<and> appId \<notin> pb_appId ` set (phoneBindings d) \<and>
     rids \<inter> pb_receiverId ` set (phoneBindings d) = {}"

lemma filter_other:
  "x \<notin> f ` set xs \<Longrightarrow> filter (\<lambda>a. f a \<noteq> x) xs = xs" "x \<notin> f ` set xs \<Longrightarrow> filter (\<lambda>a. f a = x) xs = []"
  "\<forall>a \<in> set xs. f a = x \<Longrightarrow> filter (\<lambda>a. f a \<noteq> x) xs = []" "\<forall>a \<in> set xs. f a = x \<Longrightarrow> filter (\<lambda>a. f a = x) xs = xs"
  by (auto simp: filter_id_conv filter_empty_conv)

lemma filter_other_set: "A \<inter> f ` set xs = {} \<Longrightarrow> filter (\<lambda>a. f a \<notin> A) xs = xs" "A \<inter> f ` set xs = {} \<Longrightarrow> \<not> list_ex (\<lambda>a. f a \<in> A) xs"
  by (auto simp: filter_id_conv list_ex_iff)

lemma delete_new_app:
  assumes U: "unreferenced appId (rc_id ` set rows) d" and a: "ap_id a = appId"
    and own: "\<forall>k \<in> set ks. ak_appId k = appId" "\<forall>r \<in> set rows. rc_appId r = appId" "\<forall>b \<in> set bs. pb_appId b = appId"
  shows "delete_app vf appId (d\<lparr>apps := apps d @ [a], apiKeys := apiKeys d @ ks, receivers := receivers d @ rows,
     phoneBindings := phoneBindings d @ bs\<rparr>) = Inr d"
proof -
  note U = U [unfolded unreferenced_def]
  let ?d = "d\<lparr>apps := apps d @ [a], apiKeys := apiKeys d @ ks, receivers := receivers d @ rows, phoneBindings := phoneBindings d @ bs\<rparr>"
  have rids: "app_receiver_ids appId ?d = rc_id ` set rows"
    using U own(2) unfolding app_receiver_ids_def by (simp add: filter_other)
  have b: "filter (\<lambda>b. pb_appId b \<noteq> appId \<and> pb_receiverId b \<notin> rc_id ` set rows) (phoneBindings d) = phoneBindings d"
      "filter (\<lambda>b. pb_appId b \<noteq> appId \<and> pb_receiverId b \<notin> rc_id ` set rows) bs = []"
    using U own(3) by (auto simp: filter_id_conv filter_empty_conv)
  have v: "filter (\<lambda>v. vr_appId v \<noteq> appId) (verifications d) = verifications d" "\<not> list_ex (\<lambda>v. vr_receiverId v \<in> rc_id ` set rows) (verifications d)"
    using U by (simp_all add: filter_other filter_other_set)
  show ?thesis
    unfolding delete_app_def Let_def rids
    using U own(1,2) a by (simp add: b v filter_other filter_other_set del: list_ex_iff)
qed

lemma prepared_rows:
  assumes "list_all2 (prepared g key appId ds) rs rows"
  shows "map rc_id rows = map lt_id rs" "map rc_msisdn rows = map lt_msisdn rs" "\<forall>r \<in> set rows. rc_appId r = appId"
proof -
  have *: "length rs = length rows" "\<And>i. i < length rs \<Longrightarrow> prepared g key appId ds (rs ! i) (rows ! i)"
    using assms by (simp_all add: list_all2_conv_all_nth)
  then show "map rc_id rows = map lt_id rs" "map rc_msisdn rows = map lt_msisdn rs"
    by (auto simp: list_eq_iff_nth_eq prepared_def)
  show "\<forall>r \<in> set rows. rc_appId r = appId" using * by (auto simp: in_set_conv_nth prepared_def)
qed

text \<open>
  C37: the cleanup takes back what was prepared. From a database where nothing names the new application and its
  receivers, preparing, seeding and cleaning up end in exactly the world they began with, whatever order
  the database deletes in, as long as nothing was done with the fixtures.
\<close>

theorem cleanup_takes_back:
  assumes prep: "insert_rows ce dr key needed w = (Inr fx, w1)"
    and seed: "seedBindings (ap_id (lt_app dr)) (fx_receivers fx) sd phones w1 = (Inr (), w2)"
    and fresh: "unreferenced (ap_id (lt_app dr)) (new_receiver_ids dr needed) (w_db w)"
  shows "lt_cleanup verifications_first (ap_id (lt_app dr)) w2 = (Inr (), w)"
proof -
  let ?a = "ap_id (lt_app dr)" and ?d = "w_db w"
  obtain rows where w1: "w1 = w\<lparr>w_db := ?d\<lparr>apps := apps ?d @ [lt_app dr],
        apiKeys := apiKeys ?d @ lt_keys (ce_hmac ce) key dr, receivers := receivers ?d @ rows\<rparr>\<rparr>"
    and rows: "list_all2 (prepared (ce_gcm ce) key ?a (pr_receiver dr ` {..<needed})) (fx_receivers fx) rows"
    and ids: "map lt_id (fx_receivers fx) = map (\<lambda>i. newId ''rcv'' (rv_ulid (pr_receiver dr i))) [0..<needed]"
    using insert_rows_ok [OF prep] by blast
  obtain bs where w2: "w2 = set_bindings (phoneBindings (w_db w1) @ bs) w1" and bs: "\<forall>b \<in> set bs. pb_appId b = ?a"
    using seedBindings_ok [OF seed] by blast
  have "rc_id ` set rows = new_receiver_ids dr needed"
    using arg_cong [OF prepared_rows(1) [OF rows, unfolded ids], of set] by (simp add: new_receiver_ids_def atLeast0LessThan)
  moreover have "w_db w2 = ?d\<lparr>apps := apps ?d @ [lt_app dr], apiKeys := apiKeys ?d @ lt_keys (ce_hmac ce) key dr,
        receivers := receivers ?d @ rows, phoneBindings := phoneBindings ?d @ bs\<rparr>"
    unfolding w2 w1 by (simp add: set_bindings_def)
  ultimately have "delete_app verifications_first ?a (w_db w2) = Inr ?d"
    using delete_new_app [where rows = rows and a = "lt_app dr" and bs = bs and ks = "lt_keys (ce_hmac ce) key dr"] fresh bs prepared_rows(3) [OF rows]
    by (simp add: lt_keys_def lt_key_row_def)
  then show ?thesis unfolding lt_cleanup_def by (simp add: w2 w1 set_bindings_def)
qed

text \<open>With one verification of the application, the deletion depends on the order the database chooses.\<close>

lemma cleanup_blocked:
  assumes "v \<in> set (verifications (w_db w))" and "r \<in> set (receivers (w_db w))" and "rc_appId r = appId" and "vr_receiverId v = rc_id r"
  shows "lt_cleanup False appId w = (Inl (JsError ''verifications_receiver_id_fkey''), w)"
proof -
  have "list_ex (\<lambda>v. vr_receiverId v \<in> app_receiver_ids appId (w_db w)) (verifications (w_db w))"
    using assms by (auto simp: list_ex_iff app_receiver_ids_def)
  then show ?thesis by (simp add: lt_cleanup_def delete_app_def Let_def)
qed

section \<open>The server takes what was prepared\<close>

lemma select_one_distinct:
  assumes "distinct (map f xs)" and "x \<in> set xs"
  shows "select_one (\<lambda>y. f y = f x) xs = Some x"
  using assms by (induction xs) (auto simp: image_iff)

lemma prepared_key:
  assumes "prepared (ce_gcm ce) (MASTER_ENCRYPTION_KEY cfg) appId ds r row" and "gcm_ok (ce_gcm ce)"
  shows "unwrap (ce_gcm ce) (MASTER_ENCRYPTION_KEY cfg) (rc_secretHash row) (Some (receiver_aad (rc_id row))) = Inr (lt_signingKey r)"
proof -
  obtain iv where "wrap (ce_gcm ce) iv (MASTER_ENCRYPTION_KEY cfg) (lt_signingKey r) (Some (receiver_aad (lt_id r))) = Inr (rc_secretHash row)"
    using assms(1) by (auto simp: prepared_def aesGcmWrap_server)
  then show ?thesis using unwrap_wrap [OF assms(2)] assms(1) by (simp add: Let_def prepared_def)
qed

text \<open>A call signed for a prepared receiver is accepted.\<close>

lemma prepared_call_accepted:
  assumes row: "prepared (ce_gcm ce) (MASTER_ENCRYPTION_KEY cfg) appId ds r row" "row \<in> set (receivers (w_db w))"
    and ids: "distinct (map rc_id (receivers (w_db w)))" "\<forall>d \<in> ds. all_in is_alnum (rv_ulid d)"
    and laws: "gcm_ok (ce_gcm ce)" "\<And>k m. all_in_between is_hex 64 64 (ce_hmac ce k m)"
    and q: "call_message ce url fx cd (InboundCall r phone body key nonce codes) = Some q"
    and n: "all_in_between is_hex 32 128 (or_else nonce (to_hex (cd_nonceBytes cd)))"
    and skew: "\<bar>now div 1000 - cd_now cd div 1000\<bar> \<le> INBOUND_TIMESTAMP_SKEW_SECONDS cfg"
    and unused: "redis_get (w_redis w) now (nonce_key (lt_id r) (or_else nonce (to_hex (cd_nonceBytes cd)))) = None"
  shows "fst (verifyGatewayHmac cfg ce now (probe_input q) w) = Inr \<lparr>ar_id = lt_id r, ar_appId = appId, ar_msisdn = lt_msisdn r\<rparr>"
proof -
  obtain raw where raw: "probe_input q =
     \<lparr>hi_receiverId = lt_id r, hi_timestampHeader = show_int (cd_now cd div 1000), hi_nonceHeader = or_else nonce (to_hex (cd_nonceBytes cd)),
      hi_signatureHeader = ce_hmac ce (lt_signingKey r) (signed_payload ce (cd_now cd div 1000) (or_else nonce (to_hex (cd_nonceBytes cd))) raw),
      hi_rawBody = raw\<rparr>"
    using signed_call_read [OF q] by blast
  have p: "rc_id row = lt_id r" "rc_appId row = appId" "rc_msisdn row = lt_msisdn r" "rc_enabled row"
    using row(1) by (simp_all add: prepared_def)
  have i: "prefixed_id ''rcv_'' (lt_id r)"
    using row(1) ids(2) newId_prefixed [where p = "''rcv''"] by (auto simp: prepared_def)
  have sel: "select_one (\<lambda>x. rc_id x = lt_id r) (receivers (w_db w)) = Some row"
    using select_one_distinct [OF ids(1) row(2)] p(1) by simp
  have "signed_by cfg ce now (probe_input q) (receivers (w_db w)) row"
    using i n laws(2) sel p(4) skew prepared_key [OF row(1) laws(1)] by (simp add: signed_by_def raw parse_int_show_int)
  then have "fst (verifyGatewayHmac cfg ce now (probe_input q) w) = Inr (receiver_of row)"
    using unused by (intro signed_request_accepted) (simp_all add: raw)
  then show ?thesis by (simp add: receiver_of_def p)
qed

text \<open>A phone seeded for a fresh application can start a verification, and the number it is sent to is one the tool knows.\<close>

lemma fresh_app_starts:
  assumes code: "code_length_ok cfg" "0 < MAX_PENDING_PER_PHONE cfg" and uniq: "pending_uniq (verifications (w_db w))"
    and bound: "is_bound (w_db w) appId phone" and new: "appId \<notin> vr_appId ` set (verifications (w_db w))"
      "\<forall>r \<in> set (receivers (w_db w)). rc_appId r = appId \<longrightarrow> rc_id r \<notin> vr_receiverId ` set (verifications (w_db w))"
    and row: "row \<in> set (receivers (w_db w))" "healthy_receiver cfg dbnow appId None row"
    and inp: "si_appId inp = appId" "si_phoneE164 inp = phone"
  shows "\<exists>pv w' r. startVerification cfg rnd u now dbnow inp w = (Inr pv, w') \<and> r \<in> set (receivers (w_db w)) \<and>
     rc_appId r = appId \<and> pv_send_to pv = Some (rc_msisdn r)"
proof -
  obtain p where p: "pickReceiver cfg dbnow (w_db w) appId (si_preferredOperator inp) = Some p"
    using pickReceiver_spec [where cfg = cfg and dbnow = dbnow and d = "w_db w" and appId = appId and op = "si_preferredOperator inp"] row by (auto split: option.splits)
  obtain r where r: "r \<in> set (receivers (w_db w))" "rc_appId r = appId" "pk_id p = rc_id r" "pk_msisdn p = rc_msisdn r"
    using pickReceiver_healthy [OF p] by (auto simp: healthy_receiver_def)
  have room: "phone_pending (w_db w) appId phone < MAX_PENDING_PER_PHONE cfg"
    using code(2) new(1) by (auto simp: phone_pending_def filter_empty_conv intro!: le_less_trans [of _ 0])
  have free: "\<not> collides (w_db w) (pk_id p) phone c" for c
  proof -
    have "rc_id r \<notin> vr_receiverId ` set (verifications (w_db w))" using new(2) r by blast
    then show ?thesis using r(3) by (force simp: collides_def pending_key_def)
  qed
  have first: "find (\<lambda>j. \<not> collides (w_db w) (pk_id p) phone (code_of cfg rnd j)) [0..<3] = Some 0"
    using free by (simp add: upt_rec)
  have run: "\<exists>w1. runWithCodeCollisionRetry cfg rnd (start_tx cfg inp (newId ''vrf'' u) now dbnow) w = (Inr (p, code_of cfg rnd 0), w1)"
    unfolding runWithCodeCollisionRetry_def MAX_CODE_COLLISION_RETRIES_def
    using collision_loop_outcome [OF uniq code(1), where i = 0 and n = 3 and inp = inp and r = p] room p first inp by simp
  show ?thesis
    using run bound r inp by (auto simp: startVerification_def Let_def)
qed

text \<open>What is asked of the draws: distinct identifiers that no row has, and byte strings of their lengths.\<close>

definition good_draws :: "prep_draws \<Rightarrow> nat \<Rightarrow> db \<Rightarrow> bool" where
  "good_draws dr needed d \<longleftrightarrow>
     unreferenced (ap_id (lt_app dr)) (new_receiver_ids dr needed) d \<and> distinct (map ap_id (apps d)) \<and> distinct (map rc_id (receivers d)) \<and>
     distinct (map (\<lambda>i. rv_ulid (pr_receiver dr i)) [0..<needed]) \<and> (\<forall>i < needed. all_in is_alnum (rv_ulid (pr_receiver dr i)))"

lemma newId_inj: "newId p u = newId p u' \<longleftrightarrow> u = u'"
  by (simp add: newId_def)

text \<open>The tables after preparing and seeding, as the server will read them.\<close>

lemma prepared_tables:
  assumes prep: "insert_rows ce dr key needed w = (Inr fx, w1)"
    and seed: "seedBindings (ap_id (lt_app dr)) (fx_receivers fx) sd phones w1 = (Inr (), w2)" and good: "good_draws dr needed (w_db w)"
  obtains rows where "list_all2 (prepared (ce_gcm ce) key (ap_id (lt_app dr)) (pr_receiver dr ` {..<needed})) (fx_receivers fx) rows"
    and "receivers (w_db w2) = receivers (w_db w) @ rows" and "distinct (map rc_id (receivers (w_db w2)))"
    and "verifications (w_db w2) = verifications (w_db w)" and "w_redis w2 = w_redis w" and "length rows = needed"
    and "apps (w_db w2) = apps (w_db w) @ [lt_app dr]" and "apiKeys (w_db w2) = apiKeys (w_db w) @ lt_keys (ce_hmac ce) key dr"
    and "distinct (map ap_id (apps (w_db w2)))" and "key_hash_uq (apiKeys (w_db w2))"
    and "\<forall>p \<in> set phones. is_bound (w_db w2) (ap_id (lt_app dr)) p"
    and "\<forall>x \<in> set (receivers (w_db w2)). rc_appId x = ap_id (lt_app dr) \<longrightarrow> x \<in> set rows"
    and "rc_id ` set rows \<inter> vr_receiverId ` set (verifications (w_db w)) = {}" and "ap_id (lt_app dr) \<notin> vr_appId ` set (verifications (w_db w))"
proof -
  let ?a = "ap_id (lt_app dr)" and ?d = "w_db w"
  obtain rows where w1: "w1 = w\<lparr>w_db := ?d\<lparr>apps := apps ?d @ [lt_app dr],
        apiKeys := apiKeys ?d @ lt_keys (ce_hmac ce) key dr, receivers := receivers ?d @ rows\<rparr>\<rparr>"
    and uq: "key_hash_uq (apiKeys (w_db w1))"
    and rows: "list_all2 (prepared (ce_gcm ce) key ?a (pr_receiver dr ` {..<needed})) (fx_receivers fx) rows"
    and ids: "map lt_id (fx_receivers fx) = map (\<lambda>i. newId ''rcv'' (rv_ulid (pr_receiver dr i))) [0..<needed]"
    using insert_rows_ok [OF prep] by blast
  obtain bs where w2: "w2 = set_bindings (phoneBindings (w_db w1) @ bs) w1"
    and bs: "\<forall>p \<in> set phones. \<exists>b \<in> set bs. pb_appId b = ?a \<and> pb_phoneE164 b = p \<and> pb_status b = BVerified"
    using seedBindings_ok [OF seed] by blast
  note G = good [unfolded good_draws_def unreferenced_def]
  have new: "map rc_id rows = map (\<lambda>i. newId ''rcv'' (rv_ulid (pr_receiver dr i))) [0..<needed]"
    using prepared_rows(1) [OF rows] ids by simp
  have i: "rc_id ` set rows = new_receiver_ids dr needed"
    using arg_cong [OF new, of set] by (simp add: new_receiver_ids_def atLeast0LessThan)
  have "distinct (map rc_id rows)" using G by (simp add: new distinct_map inj_on_def newId_inj)
  then have d: "distinct (map rc_id (receivers ?d @ rows))" using G i by auto
  have own: "\<forall>x \<in> set (receivers ?d @ rows). rc_appId x = ?a \<longrightarrow> x \<in> set rows" using G by (auto simp: image_iff)
  have e: "rc_id ` set rows \<inter> vr_receiverId ` set (verifications ?d) = {}" "?a \<notin> vr_appId ` set (verifications ?d)" using G i by simp_all
  have b: "\<forall>p \<in> set phones. is_bound (w_db w2) ?a p" using bs unfolding w2 w1 by (fastforce simp: is_bound_def list_ex_iff)
  moreover have "distinct (map ap_id (apps ?d @ [lt_app dr]))" using G by simp
  moreover have "length rows = needed" using arg_cong [OF new, of length] by simp
  moreover have T: "receivers (w_db w2) = receivers ?d @ rows" "verifications (w_db w2) = verifications ?d" "w_redis w2 = w_redis w"
      "apps (w_db w2) = apps ?d @ [lt_app dr]" "apiKeys (w_db w2) = apiKeys ?d @ lt_keys (ce_hmac ce) key dr" "apiKeys (w_db w1) = apiKeys (w_db w2)"
    by (simp_all add: w2 w1 set_bindings_def)
  ultimately show thesis
    using rows d own uq b e by (intro that [of rows]) (simp_all only: T simp_thms)
qed

text \<open>A key of the tool's alphabet authenticates like one the server drew.\<close>

lemma prepared_key_authenticates:
  assumes k: "lt_key_row hmac (MASTER_ENCRYPTION_KEY cfg) dr u kind raw label \<in> set (apiKeys (w_db w))"
    and a: "lt_app dr \<in> set (apps (w_db w))" "\<not> ap_disabled (lt_app dr)"
    and uq: "key_hash_uq (apiKeys (w_db w))" "distinct (map ap_id (apps (w_db w)))"
    and raw: "raw = p @ ''_'' @ randomChars buf 32" "PREFIX_TO_KIND p = Some kind"
  shows "fst (requireKey cfg hmac st now' (Some (''Bearer '' @ raw)) [kind] w)
           = Inr \<lparr>ay_id = newId ''key'' u, ay_appId = ap_id (lt_app dr), ay_kind = kind\<rparr>"
  using issued_key_authenticates [OF k _ _ _ _ a(1) refl a(2) uq raw(1) randomChars_shape raw(2), of cfg hmac st now']
  by (simp add: lt_key_row_def lt_hashApiKey_server)

text \<open>
  C36: the fixtures of the load test are taken by the server they are made for. After preparing and seeding,
  with fresh identifiers, the two keys authenticate as keys of the new application, each of its
  kind; an inbound call the tool signs for one of its receivers authenticates as that receiver; and
  while the heartbeats are fresh a seeded phone can start a verification, to be answered to a number
  under which the tool finds one of its receivers. Relied on: the laws of the cipher and of the digests.
\<close>

theorem fixtures_usable:
  assumes prep: "insert_rows ce dr (MASTER_ENCRYPTION_KEY cfg) needed w = (Inr fx, w1)"
    and seed: "seedBindings (ap_id (lt_app dr)) (fx_receivers fx) sd phones w1 = (Inr (), w2)"
    and good: "good_draws dr needed (w_db w)" and uniq: "pending_uniq (verifications (w_db w))"
    and laws: "gcm_ok (ce_gcm ce)" "\<And>k m. all_in_between is_hex 64 64 (ce_hmac ce k m)"
    and cfg: "code_length_ok cfg" "0 < MAX_PENDING_PER_PHONE cfg"
    and r: "r \<in> set (fx_receivers fx)" and call: "call_message ce url fx cd (InboundCall r from body key nonce codes) = Some q"
    and n: "all_in_between is_hex 32 128 (or_else nonce (to_hex (cd_nonceBytes cd)))"
    and skew: "\<bar>now div 1000 - cd_now cd div 1000\<bar> \<le> INBOUND_TIMESTAMP_SKEW_SECONDS cfg"
    and unused: "redis_get (w_redis w) now (nonce_key (lt_id r) (or_else nonce (to_hex (cd_nonceBytes cd)))) = None"
    and beats: "\<forall>i < needed. dbnow < rv_dbnow (pr_receiver dr i) + RECEIVER_HEARTBEAT_TIMEOUT_SECONDS cfg * 1000"
    and inp: "si_appId inp = ap_id (lt_app dr)" "si_phoneE164 inp \<in> set phones"
  shows "(\<exists>i. fst (requireKey cfg (ce_hmac ce) st now' (Some (''Bearer '' @ fx_publicKey fx)) [KPublic] w2) =
        Inr \<lparr>ay_id = i, ay_appId = ap_id (lt_app dr), ay_kind = KPublic\<rparr>) \<and>
     (\<exists>i. fst (requireKey cfg (ce_hmac ce) st now' (Some (''Bearer '' @ fx_secretKey fx)) [KSecret] w2) =
        Inr \<lparr>ay_id = i, ay_appId = ap_id (lt_app dr), ay_kind = KSecret\<rparr>) \<and>
     fst (verifyGatewayHmac cfg ce now (probe_input q) w2) = Inr \<lparr>ar_id = lt_id r, ar_appId = ap_id (lt_app dr), ar_msisdn = lt_msisdn r\<rparr> \<and>
     (\<exists>pv w3 to r'. startVerification cfg rnd u t dbnow inp w2 = (Inr pv, w3) \<and> pv_send_to pv = Some to \<and>
        lt_pickReceiver fx (Some (JStr to)) = Some r')"
proof -
  let ?a = "ap_id (lt_app dr)"
  obtain rows where rows: "list_all2 (prepared (ce_gcm ce) (MASTER_ENCRYPTION_KEY cfg) ?a (pr_receiver dr ` {..<needed})) (fx_receivers fx) rows"
    and tabs: "receivers (w_db w2) = receivers (w_db w) @ rows" "distinct (map rc_id (receivers (w_db w2)))"
      "verifications (w_db w2) = verifications (w_db w)" "w_redis w2 = w_redis w" "length rows = needed"
      "apps (w_db w2) = apps (w_db w) @ [lt_app dr]" "apiKeys (w_db w2) = apiKeys (w_db w) @ lt_keys (ce_hmac ce) (MASTER_ENCRYPTION_KEY cfg) dr"
      "distinct (map ap_id (apps (w_db w2)))" "key_hash_uq (apiKeys (w_db w2))" "\<forall>p \<in> set phones. is_bound (w_db w2) ?a p"
      "\<forall>x \<in> set (receivers (w_db w2)). rc_appId x = ?a \<longrightarrow> x \<in> set rows"
      "rc_id ` set rows \<inter> vr_receiverId ` set (verifications (w_db w)) = {}" "?a \<notin> vr_appId ` set (verifications (w_db w))"
    using prepared_tables [OF prep seed good] by metis
  have keys: "fx_publicKey fx = lt_publicKey dr" "fx_secretKey fx = lt_secretKey dr"
    using insert_rows_ok [OF prep] by metis+
  have app: "lt_app dr \<in> set (apps (w_db w2))" "\<not> ap_disabled (lt_app dr)" by (simp_all add: tabs lt_app_def)
  have pk: "\<exists>i. fst (requireKey cfg (ce_hmac ce) st now' (Some (''Bearer '' @ fx_publicKey fx)) [KPublic] w2) =
        Inr \<lparr>ay_id = i, ay_appId = ?a, ay_kind = KPublic\<rparr>"
    using prepared_key_authenticates [OF _ app tabs(9,8), where cfg = cfg and hmac = "ce_hmac ce" and u = "pr_pkUlid dr" and kind = KPublic and raw = "lt_publicKey dr" and p = "''pk_live''" and buf = "pr_pkBytes dr" and label = "''lt-public''"
        and st = st and now' = now']
    by (simp add: keys tabs(7) lt_keys_def lt_publicKey_def PREFIX_TO_KIND_def)
  have sk: "\<exists>i. fst (requireKey cfg (ce_hmac ce) st now' (Some (''Bearer '' @ fx_secretKey fx)) [KSecret] w2) =
        Inr \<lparr>ay_id = i, ay_appId = ?a, ay_kind = KSecret\<rparr>"
    using prepared_key_authenticates [OF _ app tabs(9,8), where cfg = cfg and hmac = "ce_hmac ce" and u = "pr_skUlid dr" and kind = KSecret and raw = "lt_secretKey dr" and p = "''sk_live''" and buf = "pr_skBytes dr" and label = "''lt-secret''"
        and st = st and now' = now']
    by (simp add: keys tabs(7) lt_keys_def lt_secretKey_def PREFIX_TO_KIND_def)
  obtain row where row: "prepared (ce_gcm ce) (MASTER_ENCRYPTION_KEY cfg) ?a (pr_receiver dr ` {..<needed}) r row" "row \<in> set rows"
    using rows r by (metis in_set_conv_nth list_all2_conv_all_nth)
  have gk: "fst (verifyGatewayHmac cfg ce now (probe_input q) w2) = Inr \<lparr>ar_id = lt_id r, ar_appId = ?a, ar_msisdn = lt_msisdn r\<rparr>"
    by (rule prepared_call_accepted [OF row(1) _ tabs(2) _ laws call n skew])
      (use row(2) good unused tabs(1,4) in \<open>auto simp: good_draws_def\<close>)
  have "healthy_receiver cfg dbnow ?a None row"
    using row(1) beats by (auto simp: prepared_def healthy_receiver_def truthy_def)
  moreover have own: "\<forall>x \<in> set (receivers (w_db w2)). rc_appId x = ?a \<longrightarrow> rc_id x \<notin> vr_receiverId ` set (verifications (w_db w2))"
    using tabs(11,12) unfolding tabs(3) by blast
  ultimately obtain pv w3 x where start: "startVerification cfg rnd u t dbnow inp w2 = (Inr pv, w3)" "x \<in> set (receivers (w_db w2))"
      "rc_appId x = ?a" "pv_send_to pv = Some (rc_msisdn x)"
    using fresh_app_starts [OF cfg uniq [folded tabs(3)], of ?a "si_phoneE164 inp" row dbnow inp rnd u t]
      tabs(1,10,11) inp row(2) own by (auto simp: tabs(3,13))
  have "lt_pickReceiver fx (Some (JStr (rc_msisdn x))) \<noteq> None"
  proof -
    have "rc_msisdn x \<in> rc_msisdn ` set rows" using start(2,3) tabs(11) by blast
    then have "rc_msisdn x \<in> lt_msisdn ` set (fx_receivers fx)" using prepared_rows(2) [OF rows] by (metis set_map)
    then show ?thesis by (auto simp: lt_pickReceiver_def find_None_iff)
  qed
  then show ?thesis using pk sk gk start by blast
qed

text \<open>What the tool gets from \<open>prepFixtures\<close>, with \<open>insert_rows\<close> for the statements; \<open>msg\<close> renders an error.\<close>

definition db_inserts :: "crypto_env \<Rightarrow> prep_draws \<Rightarrow> (exn \<Rightarrow> string) \<Rightarrow> world \<Rightarrow> string \<Rightarrow> string \<Rightarrow> nat \<Rightarrow> string + fixtures" where
  "db_inserts ce dr msg w dbUrl masterKeyHex needed =
     (case fst (insert_rows ce dr masterKeyHex needed w) of Inl e \<Rightarrow> Inl (msg e) | Inr fx \<Rightarrow> Inr fx)"

lemma prepFixtures_rows:
  assumes "prepFixtures env (db_inserts ce dr msg w) baseUrl needed = Inr tf"
  shows "\<exists>key w1. env ''MASTER_ENCRYPTION_KEY'' = Some key \<and> insert_rows ce dr key needed w = (Inr (tf_fixtures tf), w1) \<and> tf_ephemeral tf"
proof -
  obtain url key fx where k: "required_env env ''MASTER_ENCRYPTION_KEY'' = Inr key" "db_inserts ce dr msg w url key needed = Inr fx"
      "tf = \<lparr>tf_baseUrl = baseUrl, tf_fixtures = fx, tf_ephemeral = True\<rparr>"
    using assms by (auto simp: prepFixtures_def split: sum.splits if_splits)
  moreover have "env ''MASTER_ENCRYPTION_KEY'' = Some key"
    using k(1) by (auto simp: required_env_def truthy_def split: if_splits option.splits)
  ultimately show ?thesis
    by (cases "insert_rows ce dr key needed w") (auto simp: db_inserts_def split: sum.splits)
qed

text \<open>With a checked key only a taken key hash makes it fail; the application stays, and no cleanup is handed out.\<close>

lemma length_from_hex: "list_all is_hex s \<Longrightarrow> even (length s) \<Longrightarrow> length (from_hex s) = length s div 2"
  by (induction s rule: from_hex.induct) auto

lemma prep_receivers_total:
  "length (from_hex key) = 32 \<Longrightarrow> \<exists>rs w'. prep_receivers g key appId i ds w = (Inr rs, w')"
proof (induction ds arbitrary: i w)
  case Nil
  then show ?case by simp
next
  case (Cons d ds)
  obtain c where c: "aesGcmWrap g (rv_iv d) key (to_hex (rv_keyBytes d)) (''receiver:'' @ newId ''rcv'' (rv_ulid d)) = Inr c"
    using Cons.prems by (simp add: aesGcmWrap_def Let_def)
  obtain rs w' where "prep_receivers g key appId (Suc i) ds
      (w\<lparr>w_db := (w_db w)\<lparr>receivers := receivers (w_db w) @ [lt_receiver_row appId i d c]\<rparr>\<rparr>) = (Inr rs, w')"
    using Cons by blast
  with c show ?case by simp
qed

lemma prep_failure:
  assumes "all_in_between is_hex 64 64 key" and "insert_rows ce dr key needed w = (Inl e, w1)"
  shows "e = UniqueViolation ''api_keys_key_hash_uq'' \<and> w1 = w\<lparr>w_db := (w_db w)\<lparr>apps := apps (w_db w) @ [lt_app dr]\<rparr>\<rparr>"
proof -
  have "length key = 64" "list_all is_hex key" using assms(1) by (simp_all add: all_in_between_def)
  then have "length (from_hex key) = 32" by (simp add: length_from_hex)
  then have "\<exists>fx w'. insert_rows ce dr key needed w = (Inr fx, w')" if "key_hash_uq (apiKeys (w_db w) @ lt_keys (ce_hmac ce) key dr)"
    using that prep_receivers_total [of key "ce_gcm ce" "ap_id (lt_app dr)" 0 "map (pr_receiver dr) [0..<needed]"
        "w\<lparr>w_db := (w_db w)\<lparr>apps := apps (w_db w) @ [lt_app dr], apiKeys := apiKeys (w_db w) @ lt_keys (ce_hmac ce) key dr\<rparr>\<rparr>"]
    by (auto simp: insert_rows_def Let_def)
  then have "\<not> key_hash_uq (apiKeys (w_db w) @ lt_keys (ce_hmac ce) key dr)" using assms(2) by auto
  with assms(2) show ?thesis by (simp add: insert_rows_def Let_def)
qed

section \<open>A run\<close>

definition demo_prep :: prep_draws where
  "demo_prep = \<lparr>pr_appUlid = ''1'', pr_isoNow = ''t'', pr_pkBytes = replicate 32 CHR ''a'', pr_skBytes = replicate 32 CHR ''b'',
     pr_pkUlid = ''2'', pr_skUlid = ''3'', pr_dbnow = 0,
     pr_receiver = (\<lambda>i. \<lparr>rv_ulid = ''7'', rv_keyBytes = ''secret'', rv_iv = ''123456789012'', rv_dbnow = 0\<rparr>)\<rparr>"

definition demo_seed :: "string \<Rightarrow> seed_draws" where
  "demo_seed p = \<lparr>se_ulid = ''5'', se_nonce = ''12345678'', se_now = 0, se_boundAt = 0, se_dbnow = 0\<rparr>"

definition demo_call :: call_draws where
  "demo_call = \<lparr>cd_now = 100000, cd_keyBytes = ''abcdefghij'', cd_nonceBytes = replicate 16 CHR ''n'', cd_iso = (\<lambda>t. ''t''), cd_encodeURI = id\<rparr>"

lemma demo_good: "good_draws demo_prep 1 empty_db" "ap_id (lt_app demo_prep) = ''app_1''"
  by (simp_all add: good_draws_def unreferenced_def empty_db_def demo_prep_def all_in_def char_class_defs code_unit_def lt_app_def newId_def)

lemma demo_inserted:
  "\<exists>fx w1 r. insert_rows demo_crypto demo_prep (MASTER_ENCRYPTION_KEY default_config) 1 empty_world = (Inr fx, w1) \<and>
     fx_receivers fx = [r] \<and> lt_id r = ''rcv_7'' \<and> phoneBindings (w_db w1) = []"
proof -
  have k: "MASTER_ENCRYPTION_KEY default_config = replicate 64 CHR ''0''" by (simp add: default_config_def)
  have "key_hash_uq (lt_keys (ce_hmac demo_crypto) (replicate 64 CHR ''0'') demo_prep)"
    by (simp add: key_hash_uq_def unique_on_def lt_keys_def lt_key_row_def lt_hashApiKey_def lt_publicKey_def lt_secretKey_def demo_crypto_def)
  moreover obtain c where "aesGcmWrap (ce_gcm demo_crypto) ''123456789012'' (replicate 64 CHR ''0'') (to_hex ''secret'') ''receiver:rcv_7'' = Inr c"
    by (simp add: aesGcmWrap_def from_hex_zeros Let_def)
  ultimately show ?thesis
    unfolding k insert_rows_def by (simp add: Let_def demo_prep_def empty_world_def empty_db_def newId_def lt_receiver_of_def)
qed

lemma demo_seeded:
  assumes "fx_receivers fx = [r]" and "phoneBindings (w_db w1) = []"
  shows "\<exists>w2. seedBindings ''app_1'' (fx_receivers fx) demo_seed [phoneFromIndex 0] w1 = (Inr (), w2)"
  using assms by (simp add: seedBindings_def CHUNK_def chunks_of.simps [of _ "[_]"] chunks_of.simps [of _ "[]"] active_uq_def unique_on_def)

theorem cleanup_takes_back_witness:
  "\<exists>fx w1 w2. insert_rows demo_crypto demo_prep (MASTER_ENCRYPTION_KEY default_config) 1 empty_world = (Inr fx, w1) \<and>
     apps (w_db w1) \<noteq> [] \<and> seedBindings ''app_1'' (fx_receivers fx) demo_seed [phoneFromIndex 0] w1 = (Inr (), w2) \<and>
     lt_cleanup False ''app_1'' w2 = (Inr (), empty_world)"
proof -
  obtain fx w1 r where i: "insert_rows demo_crypto demo_prep (MASTER_ENCRYPTION_KEY default_config) 1 empty_world = (Inr fx, w1)"
    and r: "fx_receivers fx = [r]" "phoneBindings (w_db w1) = []" using demo_inserted by blast
  obtain w2 where s: "seedBindings ''app_1'' (fx_receivers fx) demo_seed [phoneFromIndex 0] w1 = (Inr (), w2)"
    using demo_seeded [OF r] by blast
  have "unreferenced ''app_1'' (new_receiver_ids demo_prep 1) (w_db empty_world)"
    using demo_good by (simp add: good_draws_def empty_world_def)
  moreover have "apps (w_db w1) \<noteq> []" by (rule insert_rows_ok [OF i]) simp
  ultimately show ?thesis using cleanup_takes_back [OF i, unfolded demo_good(2), OF s] i s by blast
qed

theorem fixtures_usable_witness:
  "\<exists>fx w1 w2 r q pv w3. insert_rows demo_crypto demo_prep (MASTER_ENCRYPTION_KEY default_config) 1 empty_world = (Inr fx, w1) \<and>
     seedBindings ''app_1'' (fx_receivers fx) demo_seed [phoneFromIndex 0] w1 = (Inr (), w2) \<and>
     call_message demo_crypto ''http://x'' fx demo_call (InboundCall r ''+1'' (Some ''VERIFY X'') ''k'' None []) = Some q \<and>
     fst (verifyGatewayHmac default_config demo_crypto 100000 (probe_input q) w2) = Inr \<lparr>ar_id = lt_id r, ar_appId = ''app_1'', ar_msisdn = lt_msisdn r\<rparr> \<and>
     startVerification default_config (\<lambda>_ i. i mod 31) ''9'' 1000 1000
       \<lparr>si_appId = ''app_1'', si_phoneE164 = phoneFromIndex 0, si_purpose = ''loadtest'', si_clientRef = None, si_locale = None,
          si_ip = None, si_preferredOperator = None\<rparr> w2 = (Inr pv, w3)"
proof -
  obtain fx w1 r where i: "insert_rows demo_crypto demo_prep (MASTER_ENCRYPTION_KEY default_config) 1 empty_world = (Inr fx, w1)"
    and r: "fx_receivers fx = [r]" "phoneBindings (w_db w1) = []" using demo_inserted by blast
  obtain w2 where s: "seedBindings ''app_1'' (fx_receivers fx) demo_seed [phoneFromIndex 0] w1 = (Inr (), w2)"
    using demo_seeded [OF r] by blast
  obtain q where q: "call_message demo_crypto ''http://x'' fx demo_call (InboundCall r ''+1'' (Some ''VERIFY X'') ''k'' None []) = Some q"
    by (simp add: Let_def)
  have hex: "all_in_between is_hex 64 64 (ce_hmac demo_crypto k m)" for k m
    by (simp add: demo_crypto_def all_in_between_def list_all_iff char_class_defs code_unit_def)
  have n: "all_in_between is_hex 32 128 (or_else None (to_hex (cd_nonceBytes demo_call)))"
    by (simp add: or_else_def demo_call_def all_in_between_def to_hex_class)
  have e: "w_db empty_world = empty_db" "verifications empty_db = []" "gcm_ok (ce_gcm demo_crypto)" "code_length_ok default_config"
      "0 < MAX_PENDING_PER_PHONE default_config" "cd_now demo_call = 100000" "\<And>i. rv_dbnow (pr_receiver demo_prep i) = 0"
      "RECEIVER_HEARTBEAT_TIMEOUT_SECONDS default_config > 1" "0 \<le> INBOUND_TIMESTAMP_SKEW_SECONDS default_config"
    using rev_gcm_ok by (simp_all add: empty_world_def empty_db_def demo_crypto_def code_length_ok_def default_config_def demo_call_def demo_prep_def)
  have g: "good_draws demo_prep 1 (w_db empty_world)" using demo_good(1) e(1) by simp
  have "w_redis w2 = w_redis empty_world"
    using prepared_tables [OF i, unfolded demo_good(2), OF s g] by metis
  then have u: "redis_get (w_redis w2) 100000 k = None" for k by (simp add: empty_world_def empty_redis_def redis_get_def)
  have mem: "r \<in> set (fx_receivers fx)" using r(1) by simp
  let ?inp = "\<lparr>si_appId = ''app_1'', si_phoneE164 = phoneFromIndex 0, si_purpose = ''loadtest'', si_clientRef = None, si_locale = None,
          si_ip = None, si_preferredOperator = None\<rparr>"
  note U = fixtures_usable [OF i, unfolded demo_good(2), OF s g _ e(3) hex e(4,5) mem q n, where now = 100000 and inp = ?inp and dbnow = 1000]
  show ?thesis
    using U e i s q u by (simp add: pending_uniq_def unique_on_def empty_world_def empty_redis_def redis_get_def) blast
qed

section \<open>Disabling a receiver in the middle of a run\<close>

definition disableReceiverMidpoint :: "(string \<Rightarrow> string option) \<Rightarrow> string \<Rightarrow> db \<Rightarrow> db" where
  "disableReceiverMidpoint env receiverId d =
     (if \<not> truthy (env ''DATABASE_URL'') then d
      else d\<lparr>receivers := update_where (\<lambda>r. rc_id r = receiverId) (\<lambda>r. r\<lparr>rc_enabled := False\<rparr>) (receivers d)\<rparr>)"

text \<open>From then on the receiver is not chosen for a verification, and nothing else has changed.\<close>

lemma midpoint_disabled:
  assumes "truthy (env ''DATABASE_URL'')"
  shows "filter (healthy_receiver cfg dbnow appId operator) (receivers (disableReceiverMidpoint env receiverId d)) =
     filter (\<lambda>r. rc_id r \<noteq> receiverId \<and> healthy_receiver cfg dbnow appId operator r) (receivers d)"
proof -
  have "filter (healthy_receiver cfg dbnow appId operator) (update_where (\<lambda>r. rc_id r = receiverId) (\<lambda>r. r\<lparr>rc_enabled := False\<rparr>) rs) =
      filter (\<lambda>r. rc_id r \<noteq> receiverId \<and> healthy_receiver cfg dbnow appId operator r) rs" for rs
    by (induction rs) (auto simp: update_where_def healthy_receiver_def)
  then show ?thesis using assms by (simp add: disableReceiverMidpoint_def)
qed

end
