(* ===== verification/SsrfGuard.thy ===== *)
theory SsrfGuard
  imports Errors "HOL-Library.Word"
begin

unbundle bit_operations_syntax

text \<open>
  \<open>lib/ssrfGuard.ts\<close>: the address filter for webhook targets, at registration time
  (\<open>assertWebhookUrlSafe\<close>) and at connect time (the \<open>lookup\<close> of \<open>buildSafeAgent\<close>).
  IPv4 addresses are 32-bit words and IPv6 groups 16-bit words, masked as the source masks them.
  \<open>net_env\<close> collects what lies outside: the URL parser, the IPv6 syntax check of \<open>node:net\<close>, the resolver
  (\<open>Inl\<close> the error code of a failing lookup) and the two environment variables of the test
  escape hatch.
\<close>

record parsed_url =
  url_protocol :: string
  url_hostname :: string
  url_username :: string
  url_password :: string

record net_env =
  ne_URL :: "string \<Rightarrow> parsed_url option"
  ne_isIPv6 :: "string \<Rightarrow> bool"
  ne_dnsLookup :: "string \<Rightarrow> string + string list"
  ne_NODE_ENV :: string
  ne_WEBHOOK_ALLOW_PRIVATE_FOR_TESTS :: string

section \<open>Host names\<close>

definition BLOCKED_HOSTNAME_SUFFIXES :: "string list" where
  "BLOCKED_HOSTNAME_SUFFIXES = [''.local'', ''.internal'']"

definition isBlockedHostname :: "string \<Rightarrow> bool" where
  "isBlockedHostname host =
     (let h = js_lower host in
      h \<in> set [''localhost''] \<or> list_ex (\<lambda>suffix. ends_with h suffix) BLOCKED_HOSTNAME_SUFFIXES)"

section \<open>IPv4\<close>

text \<open>
  \<open>Number(p)\<close> for a string of at most three characters, \<open>None\<close> where the result is no integer:
  blank is 0, then signed decimals, one-digit literals of the bases 16, 8 and 2, and \<open>1e2\<close>.
\<close>

definition hex_digit_val :: "char \<Rightarrow> nat" where
  "hex_digit_val c =
     (if is_digit c then code_unit c - 48 else if is_lower c then code_unit c - 87 else code_unit c - 55)"

definition js_Number3 :: "string \<Rightarrow> int option" where
  "js_Number3 s =
     (case js_trim s of
        [] \<Rightarrow> Some 0
      | c # t \<Rightarrow>
        if list_all is_digit (c # t) then Some (int (digits_val (c # t)))
        else if c = CHR ''+'' \<and> all_in is_digit t then Some (int (digits_val t))
        else if c = CHR ''-'' \<and> all_in is_digit t then Some (- int (digits_val t))
        else (case t of
            [x, y] \<Rightarrow>
              if c = CHR ''0'' \<and> x \<in> {CHR ''x'', CHR ''X''} \<and> is_hex y then Some (int (hex_digit_val y))
              else if c = CHR ''0'' \<and> x \<in> {CHR ''o'', CHR ''O''} \<and> is_digit y \<and> digit_val y < 8 then Some (int (digit_val y))
              else if c = CHR ''0'' \<and> x \<in> {CHR ''b'', CHR ''B''} \<and> is_digit y \<and> digit_val y < 2 then Some (int (digit_val y))
              else if is_digit c \<and> x \<in> {CHR ''e'', CHR ''E''} \<and> is_digit y
                then Some (int (digit_val c * 10 ^ digit_val y))
              else None
          | _ \<Rightarrow> None))"

fun octets_value :: "string list \<Rightarrow> nat \<Rightarrow> nat option" where
  "octets_value [] out = Some out"
| "octets_value (p # ps) out =
     (if length p = 0 \<or> length p > 3 then None
      else case js_Number3 p of
          None \<Rightarrow> None
        | Some n \<Rightarrow> if n < 0 \<or> n > 255 then None else octets_value ps (out * 256 + nat n))"

definition ipv4ToUint32 :: "string \<Rightarrow> 32 word option" where
  "ipv4ToUint32 ip =
     (let parts = split_on CHR ''.'' ip in
      if length parts \<noteq> 4 then None else map_option of_nat (octets_value parts 0))"

record v4_range =
  v4_network :: "32 word"
  v4_prefix :: nat

text \<open>\<open>v4("a.b.c.d/n")\<close> with the parsed parts as arguments.\<close>

definition v4 :: "string \<Rightarrow> nat \<Rightarrow> v4_range option" where
  "v4 addr n =
     (case ipv4ToUint32 addr of
        None \<Rightarrow> None
      | Some network \<Rightarrow> if n > 32 then None else Some \<lparr>v4_network = network, v4_prefix = n\<rparr>)"

definition BLOCKED_V4_RANGES :: "v4_range list" where
  "BLOCKED_V4_RANGES = List.map_filter (\<lambda>(a, n). v4 a n)
     [(''0.0.0.0'', 8), (''10.0.0.0'', 8), (''100.64.0.0'', 10), (''127.0.0.0'', 8),
      (''169.254.0.0'', 16), (''172.16.0.0'', 12), (''192.168.0.0'', 16)]"

definition v4InRange :: "32 word \<Rightarrow> v4_range \<Rightarrow> bool" where
  "v4InRange addr r =
     (if v4_prefix r = 0 then True
      else
        let mask32 = (if v4_prefix r = 32 then 0xffffffff else push_bit (32 - v4_prefix r) 0xffffffff)
        in addr AND mask32 = v4_network r AND mask32)"

definition isBlockedV4 :: "string \<Rightarrow> bool" where
  "isBlockedV4 ip =
     (case ipv4ToUint32 ip of
        None \<Rightarrow> False
      | Some n \<Rightarrow> list_ex (v4InRange n) BLOCKED_V4_RANGES)"

section \<open>IPv6\<close>

text \<open>\<open>\d{1,3}\.\d{1,3}\.\d{1,3}\.\d{1,3}\<close>, the whole string.\<close>

definition quad_pattern :: "string \<Rightarrow> bool" where
  "quad_pattern s =
     (let parts = split_on CHR ''.'' s in
      length parts = 4 \<and> list_all (all_in_between is_digit 1 3) parts)"

text \<open>The match of \<open>/(.*:)(quad)$/\<close>: everything up to the last colon, and the quad after it.\<close>

definition v4_tail :: "string \<Rightarrow> (string \<times> string) option" where
  "v4_tail ip =
     (case last_index_of CHR '':'' ip of
        None \<Rightarrow> None
      | Some i \<Rightarrow> if quad_pattern (drop (Suc i) ip) then Some (take (Suc i) ip, drop (Suc i) ip) else None)"

text \<open>\<open>s.indexOf("::")\<close>.\<close>

fun double_colon :: "string \<Rightarrow> nat option" where
  "double_colon (a # b # s) =
     (if a = CHR '':'' \<and> b = CHR '':'' then Some 0 else map_option Suc (double_colon (b # s)))"
| "double_colon _ = None"

definition hex_group :: "string \<Rightarrow> 16 word option" where
  "hex_group g =
     (if all_in_between is_hex 1 4 g
      then Some (of_nat (foldl (\<lambda>n c. 16 * n + hex_digit_val c) 0 g))
      else None)"

fun hex_groups :: "string list \<Rightarrow> 16 word list option" where
  "hex_groups [] = Some []"
| "hex_groups (g # gs) =
     (case hex_group g of None \<Rightarrow> None | Some n \<Rightarrow> map_option (Cons n) (hex_groups gs))"

definition ipv6Groups :: "string \<Rightarrow> 16 word list option" where
  "ipv6Groups ip =
     (let trailing = (case v4_tail ip of
            None \<Rightarrow> Some (ip, [])
          | Some (pre, quad) \<Rightarrow>
            let head = (if ends_with pre '':'' then butlast pre else pre);
                head' = (if head = [] then ''::'' else head)
            in (case ipv4ToUint32 quad of
                  None \<Rightarrow> None
                | Some v4n \<Rightarrow> Some (head', [ucast (drop_bit 16 v4n AND 0xffff), ucast (v4n AND 0xffff)])))
      in case trailing of
           None \<Rightarrow> None
         | Some (head, trailingGroups) \<Rightarrow>
           let doubleIdx = double_colon head;
               (leftRaw, rightRaw) =
                 (case doubleIdx of
                    None \<Rightarrow> (if head = [] then [] else split_on CHR '':'' head, [])
                  | Some i \<Rightarrow>
                    let left = take i head; right = drop (i + 2) head
                    in (if left = [] then [] else split_on CHR '':'' left,
                        if right = [] then [] else split_on CHR '':'' right));
               explicit = length leftRaw + length rightRaw + length trailingGroups
           in if explicit > 8 then None
              else
                let zeros = (if doubleIdx = None then 0 else 8 - explicit) in
                case (hex_groups leftRaw, hex_groups rightRaw) of
                  (Some l, Some r) \<Rightarrow>
                    let out = l @ replicate zeros 0 @ r @ trailingGroups
                    in if length out \<noteq> 8 then None else Some out
                | _ \<Rightarrow> None)"

text \<open>\<open>/^::ffff:(quad)$/i\<close>.\<close>

definition mapped_quad :: "string \<Rightarrow> string option" where
  "mapped_quad s =
     (if js_lower (take 7 s) = ''::ffff:'' \<and> quad_pattern (drop 7 s) then Some (drop 7 s) else None)"

definition dotted :: "nat \<Rightarrow> nat \<Rightarrow> nat \<Rightarrow> nat \<Rightarrow> string" where
  "dotted a b c d = show_nat a @ ''.'' @ show_nat b @ ''.'' @ show_nat c @ ''.'' @ show_nat d"

definition blocked_groups :: "16 word list \<Rightarrow> bool" where
  "blocked_groups groups =
     (if list_all (\<lambda>g. g = 0) groups then True
      else if list_all (\<lambda>g. g = 0) (take 7 groups) \<and> groups ! 7 = 1 then True
      else if groups ! 0 AND 0xffc0 = 0xfe80 then True
      else if groups ! 0 AND 0xfe00 = 0xfc00 then True
      else if groups ! 0 = 0 \<and> groups ! 1 = 0 \<and> groups ! 2 = 0 \<and> groups ! 3 = 0 \<and> groups ! 4 = 0 \<and>
              groups ! 5 = 0xffff then
        (let v4Num = (push_bit 16 (ucast (groups ! 6)) OR ucast (groups ! 7) :: 32 word);
             a = unat (drop_bit 24 v4Num AND 0xff);
             b = unat (drop_bit 16 v4Num AND 0xff);
             c = unat (drop_bit 8 v4Num AND 0xff);
             d = unat (v4Num AND 0xff)
         in isBlockedV4 (dotted a b c d))
      else False)"

definition isBlockedV6 :: "string \<Rightarrow> bool" where
  "isBlockedV6 ip =
     (let stripped = hd (split_on CHR ''%'' ip) in
      case mapped_quad stripped of
        Some quad \<Rightarrow> isBlockedV4 quad
      | None \<Rightarrow>
        (case ipv6Groups stripped of
           None \<Rightarrow> False
         | Some groups \<Rightarrow> blocked_groups groups))"

section \<open>Literals, registration and connection\<close>

text \<open>\<open>isIP\<close> of \<open>node:net\<close>: four decimal octets without leading zeros, or IPv6 syntax.\<close>

definition octet_text :: "string \<Rightarrow> bool" where
  "octet_text p = (list_all is_digit p \<and> digits_val p < 256 \<and> p = show_nat (digits_val p))"

definition isIP :: "net_env \<Rightarrow> string \<Rightarrow> nat" where
  "isIP ne s =
     (if length (split_on CHR ''.'' s) = 4 \<and> list_all octet_text (split_on CHR ''.'' s) then 4
      else if ne_isIPv6 ne s then 6 else 0)"

definition isBlockedIp :: "net_env \<Rightarrow> string \<Rightarrow> bool" where
  "isBlockedIp ne ip =
     (let fam = isIP ne ip in
      if fam = 4 then isBlockedV4 ip else if fam = 6 then isBlockedV6 ip else False)"

definition escapeHatchActive :: "net_env \<Rightarrow> bool" where
  "escapeHatchActive ne =
     (ne_NODE_ENV ne = ''test'' \<and> ne_WEBHOOK_ALLOW_PRIVATE_FOR_TESTS ne = ''true'')"

definition strip_brackets :: "string \<Rightarrow> string" where
  "strip_brackets rawHost =
     (if starts_with rawHost ''['' \<and> ends_with rawHost '']'' then butlast (tl rawHost) else rawHost)"

definition assertWebhookUrlSafe :: "net_env \<Rightarrow> parsed_url \<Rightarrow> exn + unit" where
  "assertWebhookUrlSafe ne parsed =
     (if escapeHatchActive ne then Inr ()
      else if url_hostname parsed = [] then
        Inl (WebhookValidationError ''webhook_url_invalid'' ''url has no host'')
      else
        let host = strip_brackets (url_hostname parsed) in
        if isIP ne host \<noteq> 0 then
          (if isBlockedIp ne host
           then Inl (WebhookValidationError ''webhook_url_blocked'' ''url targets a disallowed address range'')
           else Inr ())
        else if isBlockedHostname host then
          Inl (WebhookValidationError ''webhook_url_blocked'' ''url targets a disallowed hostname'')
        else case ne_dnsLookup ne host of
          Inl _ \<Rightarrow> Inl (WebhookValidationError ''webhook_url_blocked'' ''url host could not be resolved'')
        | Inr addrs \<Rightarrow>
          if length addrs = 0 then
            Inl (WebhookValidationError ''webhook_url_blocked'' ''url host could not be resolved'')
          else if list_ex (isBlockedIp ne) addrs then
            Inl (WebhookValidationError ''webhook_url_blocked'' ''url host resolves to a disallowed address'')
          else Inr ())"

text \<open>
  The \<open>lookup\<close> hook of the agent: the address to connect to, or the code of its error.
  \<open>allowAll\<close> is the escape hatch as read when the agent was built.
\<close>

definition agent_lookup :: "bool \<Rightarrow> net_env \<Rightarrow> string \<Rightarrow> string + string" where
  "agent_lookup allowAll ne hostname =
     (if allowAll then
        (case ne_dnsLookup ne hostname of
           Inl err \<Rightarrow> Inl err
         | Inr addrs \<Rightarrow> (case addrs of [] \<Rightarrow> Inl ''ENOTFOUND'' | a # _ \<Rightarrow> Inr a))
      else if isIP ne hostname \<noteq> 0 then
        (if isBlockedIp ne hostname then Inl ''EWEBHOOK_SSRF_BLOCKED'' else Inr hostname)
      else if isBlockedHostname hostname then Inl ''EWEBHOOK_SSRF_BLOCKED''
      else case ne_dnsLookup ne hostname of
        Inl err \<Rightarrow> Inl err
      | Inr addrs \<Rightarrow>
        (case find (\<lambda>a. \<not> isBlockedIp ne a) addrs of
           Some a \<Rightarrow> Inr a
         | None \<Rightarrow> Inl ''EWEBHOOK_SSRF_BLOCKED''))"

section \<open>The IPv4 block list\<close>

lemma and_high_mask: "(x :: 32 word) AND push_bit k (-1) = push_bit k (drop_bit k x)"
  by (rule bit_word_eqI) (auto simp: bit_simps)

lemma drop_push_drop: "drop_bit k (push_bit k (drop_bit k (x :: 32 word))) = drop_bit k x"
  by (rule bit_word_eqI) (auto simp: bit_simps dest: bit_imp_le_length)

lemma v4InRange_drop_bit:
  assumes "v4_prefix r \<le> 32"
  shows "v4InRange addr r \<longleftrightarrow> drop_bit (32 - v4_prefix r) addr = drop_bit (32 - v4_prefix r) (v4_network r)"
proof -
  let ?k = "32 - v4_prefix r"
  have m: "(0xffffffff :: 32 word) = -1" by simp
  have "(if v4_prefix r = 32 then (-1 :: 32 word) else push_bit ?k (-1)) = push_bit ?k (-1)" by simp
  moreover have "addr AND push_bit ?k (-1) = v4_network r AND push_bit ?k (-1) \<longleftrightarrow>
      drop_bit ?k addr = drop_bit ?k (v4_network r)"
    unfolding and_high_mask by (metis drop_push_drop)
  moreover have "drop_bit ?k addr = drop_bit ?k (v4_network r)" if "v4_prefix r = 0"
    using that by (intro bit_word_eqI) (auto simp: bit_simps dest: bit_imp_le_length)
  ultimately show ?thesis unfolding v4InRange_def Let_def m by auto
qed

lemma length_show_nat_octet: "n < 256 \<Longrightarrow> 1 \<le> length (show_nat n) \<and> length (show_nat n) \<le> 3"
  by (auto simp: show_nat.simps [of n] show_nat.simps [of "n div 10"] show_nat.simps [of "n div 10 div 10"])

lemma no_dot_show_nat: "CHR ''.'' \<notin> set (show_nat n)"
proof -
  have "\<not> is_digit CHR ''.''" by (simp add: is_digit_def code_unit_def)
  then show ?thesis using show_nat_chars by blast
qed

lemma split_dotted: "split_on CHR ''.'' (dotted a b c d) = [show_nat a, show_nat b, show_nat c, show_nat d]"
  by (simp add: dotted_def split_on_append split_on_no_sep no_dot_show_nat)

lemma js_Number3_show_nat: "js_Number3 (show_nat n) = Some (int n)"
proof -
  have "js_trim (show_nat n) = show_nat n"
    using show_nat_digits [of n] by (intro js_trim_id) (auto simp: list_all_iff digit_not_ws)
  then show ?thesis using show_nat_digits [of n]
    by (cases "show_nat n") (simp_all add: js_Number3_def, metis digits_val_show_nat)
qed

definition quad_val :: "nat \<Rightarrow> nat \<Rightarrow> nat \<Rightarrow> nat \<Rightarrow> nat" where
  "quad_val a b c d = ((a * 256 + b) * 256 + c) * 256 + d"

lemma ipv4ToUint32_dotted:
  assumes "a < 256" "b < 256" "c < 256" "d < 256"
  shows "ipv4ToUint32 (dotted a b c d) = Some (of_nat (quad_val a b c d))"
proof -
  have step: "octets_value (show_nat n # ps) out = octets_value ps (out * 256 + n)" if "n < 256" for n ps out
    using length_show_nat_octet [OF that] that by (auto simp: js_Number3_show_nat)
  show ?thesis unfolding ipv4ToUint32_def split_dotted Let_def
    using assms by (simp add: step quad_val_def del: octets_value.simps(2))
qed

lemma unat_of_nat32: "n < 2 ^ 32 \<Longrightarrow> unat (of_nat n :: 32 word) = n"
  by (simp add: unat_of_nat)

lemma quad_val_less:
  assumes "a < 256" "b < 256" "c < 256" "d < 256"
  shows "quad_val a b c d < 2 ^ 32"
  using assms unfolding quad_val_def by simp

lemma in_range_div:
  assumes "m < 2 ^ 32" and "p \<le> 32" and "n < 2 ^ 32"
  shows "v4InRange (of_nat m) \<lparr>v4_network = of_nat n, v4_prefix = p\<rparr> \<longleftrightarrow> m div 2 ^ (32 - p) = n div 2 ^ (32 - p)"
proof -
  have "v4InRange (of_nat m) \<lparr>v4_network = of_nat n, v4_prefix = p\<rparr> \<longleftrightarrow>
      unat (drop_bit (32 - p) (of_nat m :: 32 word)) = unat (drop_bit (32 - p) (of_nat n :: 32 word))"
    using assms(2) by (simp add: v4InRange_drop_bit word_unat_eq_iff)
  also have "\<dots> \<longleftrightarrow> m div 2 ^ (32 - p) = n div 2 ^ (32 - p)"
    by (simp only: unat_drop_bit_eq unat_of_nat32 [OF assms(1)] unat_of_nat32 [OF assms(3)]) (simp only: drop_bit_eq_div)
  finally show ?thesis .
qed

lemma range_literals:
  "''0.0.0.0'' = dotted 0 0 0 0" "''10.0.0.0'' = dotted 10 0 0 0" "''100.64.0.0'' = dotted 100 64 0 0"
  "''127.0.0.0'' = dotted 127 0 0 0" "''169.254.0.0'' = dotted 169 254 0 0" "''172.16.0.0'' = dotted 172 16 0 0"
  "''192.168.0.0'' = dotted 192 168 0 0"
  by code_simp+

lemma BLOCKED_V4_RANGES_eval:
  "BLOCKED_V4_RANGES =
     map (\<lambda>(a, b, p). \<lparr>v4_network = of_nat (quad_val a b 0 0), v4_prefix = p\<rparr>)
       [(0, 0, 8), (10, 0, 8), (100, 64, 10), (127, 0, 8), (169, 254, 16), (172, 16, 12), (192, 168, 16)]"
proof -
  have v: "v4 (dotted a b 0 0) n = Some \<lparr>v4_network = of_nat (quad_val a b 0 0), v4_prefix = n\<rparr>"
    if "a < 256" "b < 256" "n \<le> 32" for a b n
    using that by (simp add: v4_def ipv4ToUint32_dotted)
  show ?thesis
    unfolding BLOCKED_V4_RANGES_def
    using v [of 0 0 8] v [of 10 0 8] v [of 100 64 10] v [of 127 0 8] v [of 169 254 16] v [of 172 16 12] v [of 192 168 16]
    by (simp add: List.map_filter_simps range_literals [symmetric])
qed

lemma div_split: "x = q * m + r \<Longrightarrow> r < m \<Longrightarrow> x div m = (q :: nat)"
  by simp

lemma digits_unique: "x < k \<Longrightarrow> r < k \<Longrightarrow> a * k + x = q * k + r \<longleftrightarrow> a = q \<and> x = (r :: nat)"
  by (metis div_split add_left_cancel)

lemma quad_val_div:
  assumes "a < 256" "b < 256" "c < 256" "d < 256"
  shows "quad_val a b c d div 2 ^ 24 = a" "quad_val a b c d div 2 ^ 16 = a * 256 + b"
    "quad_val a b c d div 2 ^ 22 = a * 4 + b div 64" "quad_val a b c d div 2 ^ 20 = a * 16 + b div 16"
proof -
  show "quad_val a b c d div 2 ^ 24 = a"
    by (rule div_split [where r = "b * 65536 + c * 256 + d"]) (use assms in \<open>simp_all add: quad_val_def\<close>)
  show "quad_val a b c d div 2 ^ 16 = a * 256 + b"
    by (rule div_split [where r = "c * 256 + d"]) (use assms in \<open>simp_all add: quad_val_def\<close>)
  have b64: "65536 * b = b div 64 * 4194304 + b mod 64 * 65536" and b16: "65536 * b = b div 16 * 1048576 + b mod 16 * 65536"
    using div_mult_mod_eq [of b 64] div_mult_mod_eq [of b 16] by linarith+
  have "b mod 64 < 64" "b mod 16 < 16" by simp_all
  then show "quad_val a b c d div 2 ^ 22 = a * 4 + b div 64"
    using assms b64
    by (intro div_split [where r = "b mod 64 * 65536 + c * 256 + d"]) (simp_all add: quad_val_def)
  show "quad_val a b c d div 2 ^ 20 = a * 16 + b div 16"
    using assms b16 \<open>b mod 16 < 16\<close>
    by (intro div_split [where r = "b mod 16 * 65536 + c * 256 + d"]) (simp_all add: quad_val_def)
qed

text \<open>The private, loopback, link-local and shared ranges, octet by octet.\<close>

definition private_v4 :: "nat \<Rightarrow> nat \<Rightarrow> bool" where
  "private_v4 a b \<longleftrightarrow> a = 0 \<or> a = 10 \<or> (a = 100 \<and> 64 \<le> b \<and> b < 128) \<or> a = 127 \<or> (a = 169 \<and> b = 254) \<or>
     (a = 172 \<and> 16 \<le> b \<and> b < 32) \<or> (a = 192 \<and> b = 168)"

lemma isBlockedV4_dotted:
  assumes "a < 256" "b < 256" "c < 256" "d < 256"
  shows "isBlockedV4 (dotted a b c d) \<longleftrightarrow> private_v4 a b"
proof -
  have *: "v4InRange (of_nat (quad_val a b c d)) \<lparr>v4_network = of_nat (quad_val x y 0 0), v4_prefix = p\<rparr> \<longleftrightarrow>
      quad_val a b c d div 2 ^ (32 - p) = quad_val x y 0 0 div 2 ^ (32 - p)" if "p \<le> 32" "x < 256" "y < 256" for x y p
    using that by (intro in_range_div quad_val_less assms) simp_all
  note net = quad_val_div [of _ _ 0 0, simplified]
  have q: "b div 64 < 4" "b div 16 < 16" using assms(2) by (simp_all add: less_mult_imp_div_less)
  have d64: "b div 64 = 1 \<longleftrightarrow> 64 \<le> b \<and> b < 128" and d16: "b div 16 = 1 \<longleftrightarrow> 16 \<le> b \<and> b < 32"
    using div_mult_mod_eq [of b 64] mod_less_divisor [of 64 b] div_mult_mod_eq [of b 16] mod_less_divisor [of 16 b] by linarith+
  have 100: "a * 4 + b div 64 = 401 \<longleftrightarrow> a = 100 \<and> 64 \<le> b \<and> b < 128"
    using digits_unique [of "b div 64" 4 1 a 100] q(1) d64 by simp
  have 172: "a * 16 + b div 16 = 2753 \<longleftrightarrow> a = 172 \<and> 16 \<le> b \<and> b < 32"
    using digits_unique [of "b div 16" 16 1 a 172] q(2) d16 by simp
  have 169: "a * 256 + b = 43518 \<longleftrightarrow> a = 169 \<and> b = 254"
    using digits_unique [of b 256 254 a 169] assms(2) by simp
  have 192: "a * 256 + b = 49320 \<longleftrightarrow> a = 192 \<and> b = 168"
    using digits_unique [of b 256 168 a 192] assms(2) by simp
  have ranges: "list_ex (v4InRange (of_nat (quad_val a b c d))) BLOCKED_V4_RANGES \<longleftrightarrow>
      a = 0 \<or> a = 10 \<or> a * 4 + b div 64 = 401 \<or> a = 127 \<or> a * 256 + b = 43518 \<or> a * 16 + b div 16 = 2753 \<or>
      a * 256 + b = 49320"
    unfolding BLOCKED_V4_RANGES_eval by (simp add: * quad_val_div [simplified] assms)
  show ?thesis
    unfolding isBlockedV4_def ipv4ToUint32_dotted [OF assms] option.case ranges private_v4_def
    using 100 172 169 192 by blast
qed

section \<open>The IPv6 block list\<close>

lemma and_high_mask16: "(x :: 16 word) AND push_bit k (-1) = push_bit k (drop_bit k x)"
  by (rule bit_word_eqI) (auto simp: bit_simps)

lemma drop_push_drop16: "drop_bit k (push_bit k (drop_bit k (x :: 16 word))) = drop_bit k x"
  by (rule bit_word_eqI) (auto simp: bit_simps dest: bit_imp_le_length)

lemma prefix16_iff:
  "(g :: 16 word) AND push_bit k (-1) = push_bit k (drop_bit k n) \<longleftrightarrow> unat g div 2 ^ k = unat n div 2 ^ k"
proof -
  have "g AND push_bit k (-1) = push_bit k (drop_bit k n) \<longleftrightarrow> drop_bit k g = drop_bit k n"
    unfolding and_high_mask16 by (metis drop_push_drop16)
  also have "\<dots> \<longleftrightarrow> unat g div 2 ^ k = unat n div 2 ^ k"
    unfolding word_unat_eq_iff unat_drop_bit_eq by (simp only: drop_bit_eq_div)
  finally show ?thesis .
qed

text \<open>\<open>fe80::/10\<close> and \<open>fc00::/7\<close> as intervals of the first group.\<close>

lemma link_local_iff: "(g :: 16 word) AND 0xffc0 = 0xfe80 \<longleftrightarrow> 0xfe80 \<le> unat g \<and> unat g \<le> 0xfebf"
proof -
  have "(0xffc0 :: 16 word) = push_bit 6 (-1)" "(0xfe80 :: 16 word) = push_bit 6 (drop_bit 6 0xfe80)"
    by (simp_all add: mask_eq_exp_minus_1 push_bit_eq_mult drop_bit_eq_div)
  then have "g AND 0xffc0 = 0xfe80 \<longleftrightarrow> unat g div 64 = 0x3fa"
    using prefix16_iff [of g 6 "0xfe80"] by simp
  then show ?thesis by (auto simp: div_nat_eqI)
qed

lemma unique_local_iff: "(g :: 16 word) AND 0xfe00 = 0xfc00 \<longleftrightarrow> 0xfc00 \<le> unat g \<and> unat g \<le> 0xfdff"
proof -
  have "(0xfe00 :: 16 word) = push_bit 9 (-1)" "(0xfc00 :: 16 word) = push_bit 9 (drop_bit 9 0xfc00)"
    by (simp_all add: mask_eq_exp_minus_1 push_bit_eq_mult drop_bit_eq_div)
  then have "g AND 0xfe00 = 0xfc00 \<longleftrightarrow> unat g div 512 = 126"
    using prefix16_iff [of g 9 "0xfc00"] by simp
  then show ?thesis by (auto simp: div_nat_eqI)
qed

lemma mapped_value:
  "unat (push_bit 16 (ucast (g :: 16 word)) OR ucast (h :: 16 word) :: 32 word) = unat g * 2 ^ 16 + unat h"
proof -
  have u: "unat x < 65536" for x :: "16 word"
  proof -
    have "unat x < 2 ^ LENGTH(16)" by (rule unsigned_less)
    then show ?thesis by simp
  qed
  have "push_bit 16 (ucast g) OR ucast h = push_bit 16 (ucast g) + (ucast h :: 32 word)"
    by (rule disjunctive_add_eq_or [symmetric]) (rule bit_word_eqI, auto simp: bit_simps dest: bit_imp_le_length)
  moreover have "(push_bit 16 (ucast g) :: 32 word) = of_nat (unat g * 2 ^ 16)"
    by (simp add: push_bit_eq_mult)
  moreover have "(ucast h :: 32 word) = of_nat (unat h)" by simp
  moreover have "unat g * 2 ^ 16 + unat h < 2 ^ 32"
    using u [of g] u [of h] by simp
  ultimately show ?thesis by (metis of_nat_add unat_of_nat32)
qed

lemma byte_of: "unat (drop_bit k (x :: 32 word) AND 0xff) = unat x div 2 ^ k mod 256"
proof -
  have "(0xff :: 32 word) = mask 8" by (simp add: mask_eq_exp_minus_1)
  then have "drop_bit k x AND 0xff = take_bit 8 (drop_bit k x)" by (simp only: take_bit_eq_mask)
  then show ?thesis
    by (simp only: unsigned_take_bit_eq unat_drop_bit_eq) (simp only: take_bit_eq_mod drop_bit_eq_div, simp)
qed

lemma unat16_bytes: "unat (g :: 16 word) div 256 < 256"
proof -
  have "unat g < 2 ^ LENGTH(16)" by (rule unsigned_less)
  then show ?thesis by simp
qed

lemma mapped_octets:
  fixes g h :: "16 word"
  defines "x \<equiv> push_bit 16 (ucast g) OR ucast h :: 32 word"
  shows "unat (drop_bit 24 x AND 0xff) = unat g div 256" "unat (drop_bit 16 x AND 0xff) = unat g mod 256"
    "unat (drop_bit 8 x AND 0xff) < 256" "unat (x AND 0xff) < 256"
proof -
  have h: "unat h < 65536" using unsigned_less [of h, simplified] by simp
  have "unat x = unat g * 65536 + unat h" unfolding x_def using mapped_value [of g h] by simp
  then have v: "unat x div 65536 = unat g" using h by (simp add: div_split)
  have "unat x div 2 ^ 24 = unat x div 65536 div 256" by (simp add: div_mult2_eq [symmetric])
  then show "unat (drop_bit 24 x AND 0xff) = unat g div 256"
    using unat16_bytes [of g] unfolding byte_of v by simp
  show "unat (drop_bit 16 x AND 0xff) = unat g mod 256" unfolding byte_of using v by simp
  show "unat (drop_bit 8 x AND 0xff) < 256" unfolding byte_of by simp
  show "unat (x AND 0xff) < 256" using byte_of [of 0 x] by simp
qed

lemma blocked_groups_iff:
  assumes "length gs = 8"
  shows "blocked_groups gs \<longleftrightarrow>
     list_all (\<lambda>g. g = 0) gs \<or> (list_all (\<lambda>g. g = 0) (take 7 gs) \<and> gs ! 7 = 1) \<or>
     (0xfe80 \<le> unat (gs ! 0) \<and> unat (gs ! 0) \<le> 0xfebf) \<or> (0xfc00 \<le> unat (gs ! 0) \<and> unat (gs ! 0) \<le> 0xfdff) \<or>
     (take 6 gs = [0, 0, 0, 0, 0, 0xffff] \<and> private_v4 (unat (gs ! 6) div 256) (unat (gs ! 6) mod 256))"
proof -
  obtain a b c d e f g h where gs: "gs = [a, b, c, d, e, f, g, h]"
    using assms by (auto simp: numeral_eq_Suc length_Suc_conv)
  have mapped: "isBlockedV4 (dotted (unat (drop_bit 24 x AND 0xff)) (unat (drop_bit 16 x AND 0xff))
      (unat (drop_bit 8 x AND 0xff)) (unat (x AND 0xff))) = private_v4 (unat g div 256) (unat g mod 256)"
    if "x = (push_bit 16 (ucast g) OR ucast h :: 32 word)" for x
    using isBlockedV4_dotted unat16_bytes [of g] mapped_octets [of g h, folded that] by simp
  have n: "gs ! 6 = g" "gs ! 7 = h" by (simp_all add: gs)
  show ?thesis
    unfolding blocked_groups_def Let_def n mapped [OF refl] link_local_iff unique_local_iff
    by (simp add: gs) blast
qed

lemma ipv6Groups_length: "ipv6Groups s = Some gs \<Longrightarrow> length gs = 8"
  unfolding ipv6Groups_def Let_def by (auto split: option.splits prod.splits if_splits)

section \<open>What the filter decides\<close>

lemma octet_text_show: "n < 256 \<Longrightarrow> octet_text (show_nat n)"
  by (simp add: octet_text_def show_nat_digits)

lemma isIP_dotted: "a < 256 \<Longrightarrow> b < 256 \<Longrightarrow> c < 256 \<Longrightarrow> d < 256 \<Longrightarrow> isIP ne (dotted a b c d) = 4"
  by (simp add: isIP_def split_dotted octet_text_show)

lemma quad_pattern_dotted:
  "a < 256 \<Longrightarrow> b < 256 \<Longrightarrow> c < 256 \<Longrightarrow> d < 256 \<Longrightarrow> quad_pattern (dotted a b c d)"
  using length_show_nat_octet by (simp add: quad_pattern_def split_dotted all_in_between_def show_nat_digits)

lemma dotted_chars: "x \<in> set (dotted a b c d) \<Longrightarrow> is_digit x \<or> x = CHR ''.''"
  by (auto simp: dotted_def dest: show_nat_chars)

lemma mapped_dotted:
  assumes "a < 256" "b < 256" "c < 256" "d < 256"
  shows "isBlockedV6 (''::ffff:'' @ dotted a b c d) \<longleftrightarrow> private_v4 a b"
proof -
  have "CHR ''%'' \<notin> set (dotted a b c d)"
    using dotted_chars [of "CHR ''%''" a b c d] by (auto simp: is_digit_def code_unit_def)
  then have "hd (split_on CHR ''%'' (''::ffff:'' @ dotted a b c d)) = ''::ffff:'' @ dotted a b c d"
    by (subst split_on_no_sep) auto
  moreover have "mapped_quad (''::ffff:'' @ dotted a b c d) = Some (dotted a b c d)"
    using quad_pattern_dotted [OF assms]
    by (simp add: mapped_quad_def js_lower_def lower_char_def is_upper_def code_unit_def)
  ultimately show ?thesis using isBlockedV4_dotted [OF assms] by (simp add: isBlockedV6_def)
qed

lemma colon_not_octet: "CHR '':'' \<in> set p \<Longrightarrow> \<not> octet_text p"
proof -
  have "\<not> is_digit CHR '':''" by (simp add: is_digit_def code_unit_def)
  then show "CHR '':'' \<in> set p \<Longrightarrow> \<not> octet_text p" unfolding octet_text_def list_all_iff by blast
qed

lemma isIP_mapped:
  assumes "ne_isIPv6 ne (''::ffff:'' @ dotted a b c d)"
  shows "isIP ne (''::ffff:'' @ dotted a b c d) = 6"
proof -
  let ?h = "''::ffff:'' @ show_nat a" and ?t = "show_nat b @ ''.'' @ show_nat c @ ''.'' @ show_nat d"
  have h: "CHR ''.'' \<notin> set ?h" by (simp add: no_dot_show_nat)
  have "''::ffff:'' @ dotted a b c d = ?h @ CHR ''.'' # ?t" by (simp add: dotted_def)
  then have s: "split_on CHR ''.'' (''::ffff:'' @ dotted a b c d) = ?h # split_on CHR ''.'' ?t"
    by (simp only: split_on_append [OF h])
  have "\<not> octet_text ?h" by (rule colon_not_octet) simp
  then have "\<not> list_all octet_text (split_on CHR ''.'' (''::ffff:'' @ dotted a b c d))"
    unfolding s list.pred_inject by blast
  with assms show ?thesis unfolding isIP_def by presburger
qed

text \<open>
  C21: the address filter refuses an IPv4 literal exactly when it lies in one of the seven listed networks
  (0/8, 10/8, 100.64/10, 127/8, 169.254/16, 172.16/12, 192.168/16), whatever its last two octets,
  and decides its IPv4-mapped IPv6 spelling in the same way.
\<close>

theorem isBlockedIp_v4_exact:
  assumes "a < 256" "b < 256" "c < 256" "d < 256" and "ne_isIPv6 ne (''::ffff:'' @ dotted a b c d)"
  shows "(isBlockedIp ne (dotted a b c d) \<longleftrightarrow> private_v4 a b) \<and>
         (isBlockedIp ne (''::ffff:'' @ dotted a b c d) \<longleftrightarrow> private_v4 a b)"
  using isBlockedV4_dotted [OF assms(1-4)] mapped_dotted [OF assms(1-4)] isIP_dotted [OF assms(1-4)] isIP_mapped [OF assms(5)]
  by (simp add: isBlockedIp_def)

definition demo_net :: net_env where
  "demo_net = \<lparr>ne_URL = (\<lambda>u.
       if u = ''https://hooks.example/x'' then Some \<lparr>url_protocol = ''https:'', url_hostname = ''hooks.example'', url_username = [], url_password = []\<rparr>
       else if u = ''http://rebind.example/'' then Some \<lparr>url_protocol = ''http:'', url_hostname = ''rebind.example'', url_username = [], url_password = []\<rparr>
       else None),
     ne_isIPv6 = (\<lambda>s. CHR '':'' \<in> set s),
     ne_dnsLookup = (\<lambda>h. if h = ''hooks.example'' then Inr [''203.0.113.9''] else if h = ''rebind.example'' then Inr [''127.0.0.1''] else Inl ''ENOTFOUND''),
     ne_NODE_ENV = ''production'', ne_WEBHOOK_ALLOW_PRIVATE_FOR_TESTS = ''true''\<rparr>"

theorem isBlockedIp_v4_exact_witness:
  "isBlockedIp demo_net (dotted 172 31 0 9) \<and> isBlockedIp demo_net (''::ffff:'' @ dotted 172 31 0 9) \<and>
   \<not> isBlockedIp demo_net (dotted 172 32 0 9)"
  using isBlockedIp_v4_exact [of 172 31 0 9 demo_net] isBlockedIp_v4_exact [of 172 32 0 9 demo_net]
  by (simp add: demo_net_def private_v4_def)

text \<open>
  The filter refuses an IPv6 literal with groups \<open>g0..g7\<close> exactly when it is the unspecified or the
  loopback address, its first group lies in \<open>fe80..febf\<close> (link-local) or \<open>fc00..fdff\<close>
  (unique local), or it is an IPv4-mapped address of a refused network. The two mask tests of the
  source on 16-bit groups are these intervals.
\<close>

theorem isBlockedIp_v6_exact:
  assumes "isIP ne ip = 6" and "mapped_quad (hd (split_on CHR ''%'' ip)) = None"
    and "ipv6Groups (hd (split_on CHR ''%'' ip)) = Some gs"
  shows "isBlockedIp ne ip \<longleftrightarrow>
     list_all (\<lambda>g. g = 0) gs \<or> (list_all (\<lambda>g. g = 0) (take 7 gs) \<and> gs ! 7 = 1) \<or>
     (0xfe80 \<le> unat (gs ! 0) \<and> unat (gs ! 0) \<le> 0xfebf) \<or> (0xfc00 \<le> unat (gs ! 0) \<and> unat (gs ! 0) \<le> 0xfdff) \<or>
     (take 6 gs = [0, 0, 0, 0, 0, 0xffff] \<and> private_v4 (unat (gs ! 6) div 256) (unat (gs ! 6) mod 256))"
  using assms blocked_groups_iff [OF ipv6Groups_length [OF assms(3)]] by (simp add: isBlockedIp_def isBlockedV6_def)

lemma demo_febf:
  "split_on CHR ''%'' ''febf::1'' = [''febf::1'']" "mapped_quad ''febf::1'' = None"
  "ipv6Groups ''febf::1'' = Some [0xfebf, 0, 0, 0, 0, 0, 0, 1]" "isIP demo_net ''febf::1'' = 6"
  subgoal by simp
  subgoal by (simp add: mapped_quad_def js_lower_def lower_char_def is_upper_def code_unit_def)
  subgoal by (simp add: ipv6Groups_def v4_tail_def last_index_of_def quad_pattern_def all_in_between_def hex_group_def hex_digit_val_def
     is_hex_def is_lower_def is_digit_def code_unit_def) (simp add: numeral_eq_Suc)
  subgoal by (simp add: isIP_def demo_net_def)
  done

theorem isBlockedIp_v6_exact_witness: "isBlockedIp demo_net ''febf::1''"
  using isBlockedIp_v6_exact [of demo_net "''febf::1''"] by (simp add: demo_febf)

text \<open>
  A literal whose \<open>::\<close> stands directly before an embedded quad is not expanded, and is let through
  although it lies in \<open>fe80::/10\<close>.
\<close>

lemma embedded_quad_not_blocked: "\<not> isBlockedV6 ''fe80::1.2.3.4''"
proof -
  have 1: "v4_tail ''fe80::1.2.3.4'' = Some (''fe80::'', ''1.2.3.4'')"
    and 2: "mapped_quad ''fe80::1.2.3.4'' = None" "split_on CHR ''%'' ''fe80::1.2.3.4'' = [''fe80::1.2.3.4'']" by code_simp+
  have "ipv6Groups ''fe80::1.2.3.4'' = None"
    unfolding ipv6Groups_def Let_def 1 by (simp add: ends_with_def hex_group_def all_in_between_def split: option.splits)
  with 2 show ?thesis by (simp add: isBlockedV6_def)
qed

section \<open>Registration and connection\<close>

text \<open>A host no address of which is refused.\<close>

definition host_safe :: "net_env \<Rightarrow> string \<Rightarrow> bool" where
  "host_safe ne host \<longleftrightarrow>
     (if isIP ne host \<noteq> 0 then \<not> isBlockedIp ne host
      else \<not> isBlockedHostname host \<and>
        (\<exists>addrs. ne_dnsLookup ne host = Inr addrs \<and> addrs \<noteq> [] \<and> (\<forall>a \<in> set addrs. \<not> isBlockedIp ne a)))"

lemma assertWebhookUrlSafe_iff:
  "assertWebhookUrlSafe ne p = Inr () \<longleftrightarrow>
     escapeHatchActive ne \<or> url_hostname p \<noteq> [] \<and> host_safe ne (strip_brackets (url_hostname p))"
  by (auto simp: assertWebhookUrlSafe_def host_safe_def Let_def list_ex_iff split: sum.splits)

lemma agent_lookup_safe:
  "agent_lookup False ne h = Inr a \<Longrightarrow> \<not> isBlockedHostname h \<or> isIP ne h \<noteq> 0"
  "agent_lookup False ne h = Inr a \<Longrightarrow> \<not> isBlockedIp ne a"
  by (auto simp: agent_lookup_def find_Some_iff split: if_splits sum.splits option.splits)

end
