(* ===== verification/Webhooks.thy ===== *)
theory Webhooks
  imports Outbox Hmac SsrfGuard
begin

text \<open>
  \<open>services/webhooks.ts\<close>: registration, listing and removal of webhook endpoints, the signature
  of a delivery and the retry schedule. Event emission is in \<open>Outbox\<close>. The bytes of
  \<open>randomBytes\<close>, the IV of the wrapping and the fresh ULID are arguments; \<open>net_env\<close> gives the
  URL parser and the resolver.
\<close>

section \<open>Event types\<close>

definition event_name :: "event_type \<Rightarrow> string" where
  "event_name t = (case t of EvVerified \<Rightarrow> ''verification.verified'' | EvExpired \<Rightarrow> ''verification.expired''
     | EvCancelled \<Rightarrow> ''verification.cancelled'')"

definition VERIFICATION_EVENT_TYPES :: "event_type list" where
  "VERIFICATION_EVENT_TYPES = [EvVerified, EvExpired, EvCancelled]"

text \<open>The event type a name stands for; \<open>isValidEventType\<close> asks whether there is one.\<close>

definition event_of_name :: "string \<Rightarrow> event_type option" where
  "event_of_name s = find (\<lambda>t. event_name t = s) VERIFICATION_EVENT_TYPES"

definition isValidEventType :: "string \<Rightarrow> bool" where
  "isValidEventType s = (event_of_name s \<noteq> None)"

text \<open>The loop of \<open>uniqueValidatedEventTypes\<close>: \<open>out\<close> are the types seen so far, in order.\<close>

fun event_types_loop :: "string list \<Rightarrow> event_type list \<Rightarrow> exn + event_type list" where
  "event_types_loop [] out = Inr out"
| "event_types_loop (v # vs) out =
     (case event_of_name v of
        None \<Rightarrow> Inl (badRequest ''validation_error'' (''unknown event_type: '' @ take 64 v))
      | Some t \<Rightarrow> if t \<in> set out then event_types_loop vs out else event_types_loop vs (out @ [t]))"

definition uniqueValidatedEventTypes :: "string list \<Rightarrow> exn + event_type list" where
  "uniqueValidatedEventTypes input =
     (if input = [] then Inl (badRequest ''validation_error'' ''event_types must be a non-empty array'')
      else event_types_loop input [])"

section \<open>Endpoints\<close>

record endpoint_public =
  ep_id :: string
  ep_app_id :: string
  ep_url :: string
  ep_enabled :: bool
  ep_event_types :: "event_type list"
  ep_created_at :: int
  ep_updated_at :: int

record create_webhook_input =
  cw_appId :: string
  cw_url :: string
  cw_eventTypes :: "string list"

definition toPublic :: "endpoint_row \<Rightarrow> endpoint_public" where
  "toPublic row = \<lparr>ep_id = we_id row, ep_app_id = we_appId row, ep_url = we_url row, ep_enabled = we_enabled row,
     ep_event_types = we_eventTypes row, ep_created_at = we_createdAt row, ep_updated_at = we_updatedAt row\<rparr>"

definition generateWebhookSecret :: "string \<Rightarrow> string" where
  "generateWebhookSecret randomBytes = ''whsec_'' @ to_hex randomBytes"

definition aadFor :: "string \<Rightarrow> string" where
  "aadFor endpointId = ''webhook:'' @ endpointId"

definition MAX_ENDPOINTS_PER_APP :: nat where
  "MAX_ENDPOINTS_PER_APP = 10"

definition URL_MAX :: nat where
  "URL_MAX = 2048"

definition validateUrl :: "net_env \<Rightarrow> string \<Rightarrow> exn + unit" where
  "validateUrl ne value =
     (if length value = 0 then Inl (badRequest ''validation_error'' ''url is required'')
      else if length value > URL_MAX then
        Inl (badRequest ''validation_error'' (''url exceeds '' @ show_nat URL_MAX @ '' chars''))
      else case ne_URL ne value of
        None \<Rightarrow> Inl (badRequest ''validation_error'' ''url is not a valid URL'')
      | Some parsed \<Rightarrow>
        if url_protocol parsed \<noteq> ''http:'' \<and> url_protocol parsed \<noteq> ''https:'' then
          Inl (badRequest ''validation_error'' ''url must be http(s)'')
        else if url_username parsed \<noteq> [] \<or> url_password parsed \<noteq> [] then
          Inl (badRequest ''validation_error'' ''url must not include credentials'')
        else assertWebhookUrlSafe ne parsed)"

definition new_endpoint :: "string \<Rightarrow> create_webhook_input \<Rightarrow> string \<Rightarrow> event_type list \<Rightarrow> int \<Rightarrow> endpoint_row" where
  "new_endpoint i inp wrapped events now =
     \<lparr>we_id = i, we_appId = cw_appId inp, we_url = cw_url inp, we_secretCiphertext = wrapped,
      we_enabled = True, we_eventTypes = events, we_createdAt = now, we_updatedAt = now\<rparr>"

text \<open>The result is the public view and the secret, which is returned this once.\<close>

definition createWebhookEndpoint ::
  "config \<Rightarrow> crypto_env \<Rightarrow> net_env \<Rightarrow> string \<Rightarrow> string \<Rightarrow> string \<Rightarrow> int \<Rightarrow> create_webhook_input \<Rightarrow> world \<Rightarrow>
   (exn + endpoint_public \<times> string) \<times> world" where
  "createWebhookEndpoint cfg ce ne u randomBytes iv now inp w =
     (case validateUrl ne (cw_url inp) of
        Inl e \<Rightarrow> (Inl e, w)
      | Inr _ \<Rightarrow>
        (case uniqueValidatedEventTypes (cw_eventTypes inp) of
           Inl e \<Rightarrow> (Inl e, w)
         | Inr events \<Rightarrow>
           if length (filter (\<lambda>e. we_appId e = cw_appId inp) (webhookEndpoints (w_db w))) \<ge> MAX_ENDPOINTS_PER_APP then
             (Inl (conflict ''too_many_endpoints''
                (''app has reached the limit of '' @ show_nat MAX_ENDPOINTS_PER_APP @ '' webhook endpoints'')), w)
           else
             let id' = newId ''whk'' u;
                 secret = generateWebhookSecret randomBytes
             in (case wrap (ce_gcm ce) iv (MASTER_ENCRYPTION_KEY cfg) secret (Some (aadFor id')) of
                   Inl e \<Rightarrow> (Inl e, w)
                 | Inr wrapped \<Rightarrow>
                   let row = new_endpoint id' inp wrapped events now
                   in (Inr (toPublic row, secret),
                       w\<lparr>w_db := (w_db w)\<lparr>webhookEndpoints := webhookEndpoints (w_db w) @ [row]\<rparr>\<rparr>))))"

text \<open>\<open>ORDER BY created_at DESC\<close>.\<close>

definition listWebhookEndpoints :: "string \<Rightarrow> world \<Rightarrow> endpoint_public list" where
  "listWebhookEndpoints appId w =
     map toPublic (sort_key (\<lambda>r. - we_createdAt r) (filter (\<lambda>r. we_appId r = appId) (webhookEndpoints (w_db w))))"

definition getWebhookEndpoint :: "string \<Rightarrow> string \<Rightarrow> world \<Rightarrow> exn + endpoint_public" where
  "getWebhookEndpoint appId i w =
     (case select_one (\<lambda>r. we_appId r = appId \<and> we_id r = i) (webhookEndpoints (w_db w)) of
        None \<Rightarrow> Inl (notFound ''webhook_endpoint'')
      | Some row \<Rightarrow> Inr (toPublic row))"

text \<open>The delete cascades to the deliveries of the endpoint (\<open>on delete cascade\<close>); events stay.\<close>

definition deleteWebhookEndpoint :: "string \<Rightarrow> string \<Rightarrow> world \<Rightarrow> (exn + unit) \<times> world" where
  "deleteWebhookEndpoint appId i w =
     (let hit = (\<lambda>r. we_appId r = appId \<and> we_id r = i);
          result = filter hit (webhookEndpoints (w_db w));
          gone = map we_id result
      in if length result = 0 then (Inl (notFound ''webhook_endpoint''), w)
         else (Inr (), w\<lparr>w_db := (w_db w)\<lparr>
            webhookEndpoints := filter (\<lambda>r. \<not> hit r) (webhookEndpoints (w_db w)),
            webhookDeliveries := filter (\<lambda>d. dl_endpointId d \<notin> set gone) (webhookDeliveries (w_db w))\<rparr>\<rparr>))"

section \<open>Signature and retry schedule\<close>

definition signDeliveryBody :: "crypto_env \<Rightarrow> string \<Rightarrow> int \<Rightarrow> string \<Rightarrow> string" where
  "signDeliveryBody ce secret timestampSeconds bodyBytes =
     ce_hmac ce secret (show_int timestampSeconds @ ''.'' @ bodyBytes)"

definition RETRY_DELAY_SECONDS :: "int list" where
  "RETRY_DELAY_SECONDS = [30, 120, 600, 1800, 7200]"

definition MAX_DELIVERY_ATTEMPTS :: nat where
  "MAX_DELIVERY_ATTEMPTS = 6"

definition nextRetryDelaySeconds :: "nat \<Rightarrow> int option" where
  "nextRetryDelaySeconds failedAttempts =
     (if failedAttempts \<ge> MAX_DELIVERY_ATTEMPTS then None
      else if failedAttempts \<ge> 1 \<and> failedAttempts - 1 < length RETRY_DELAY_SECONDS
        then Some (RETRY_DELAY_SECONDS ! (failedAttempts - 1)) else None)"

section \<open>Registered endpoints\<close>

lemma validateUrl_ok:
  "validateUrl ne url = Inr () \<longleftrightarrow>
     0 < length url \<and> length url \<le> URL_MAX \<and>
     (\<exists>p. ne_URL ne url = Some p \<and> url_protocol p \<in> {''http:'', ''https:''} \<and> url_username p = [] \<and> url_password p = [] \<and>
       (escapeHatchActive ne \<or> url_hostname p \<noteq> [] \<and> host_safe ne (strip_brackets (url_hostname p))))"
  by (auto simp: validateUrl_def assertWebhookUrlSafe_iff split: option.splits)

lemma event_of_name_Some: "event_of_name s = Some t \<longleftrightarrow> event_name t = s"
  by (cases t) (auto simp: event_of_name_def VERIFICATION_EVENT_TYPES_def event_name_def)

lemma event_types_loop_ok:
  "event_types_loop vs out = Inr ts \<Longrightarrow> distinct out \<Longrightarrow>
     distinct ts \<and> event_name ` set ts = event_name ` set out \<union> set vs"
proof (induction vs out rule: event_types_loop.induct)
  case (2 v vs out)
  then show ?case by (auto split: option.splits if_splits simp: event_of_name_Some)
qed simp

lemma uniqueValidatedEventTypes_ok:
  assumes "uniqueValidatedEventTypes vs = Inr ts"
  shows "distinct ts" "event_name ` set ts = set vs" "ts \<noteq> []"
  using assms event_types_loop_ok [of vs "[]" ts] by (auto simp: uniqueValidatedEventTypes_def split: if_splits)

lemma createWebhookEndpoint_result:
  "createWebhookEndpoint cfg ce ne u rb iv now inp w = (Inr (pub, secret), w') \<Longrightarrow>
   \<exists>wrapped events. validateUrl ne (cw_url inp) = Inr () \<and> uniqueValidatedEventTypes (cw_eventTypes inp) = Inr events \<and>
     length (filter (\<lambda>e. we_appId e = cw_appId inp) (webhookEndpoints (w_db w))) < 10 \<and>
     wrap (ce_gcm ce) iv (MASTER_ENCRYPTION_KEY cfg) secret (Some (aadFor (newId ''whk'' u))) = Inr wrapped \<and>
     pub = toPublic (new_endpoint (newId ''whk'' u) inp wrapped events now) \<and>
     w' = w\<lparr>w_db := (w_db w)\<lparr>webhookEndpoints :=
            webhookEndpoints (w_db w) @ [new_endpoint (newId ''whk'' u) inp wrapped events now]\<rparr>\<rparr>"
  by (auto simp: createWebhookEndpoint_def MAX_ENDPOINTS_PER_APP_def Let_def split: sum.splits if_splits)

text \<open>
  Registering an endpoint. A successful call adds exactly one enabled endpoint with the requested
  application and URL; the URL is http(s), without credentials, and resolves only to addresses the
  filter admits (unless the test escape hatch is on); the event types are the requested ones, each
  once; the application had fewer than ten endpoints; and the stored ciphertext unwraps, for this
  endpoint id, to the secret that was returned. A failing call changes nothing.
\<close>

theorem createWebhookEndpoint_spec:
  assumes "gcm_ok (ce_gcm ce)"
    and "createWebhookEndpoint cfg ce ne u rb iv now inp w = (r, w')"
  shows "case r of
      Inl _ \<Rightarrow> w' = w
    | Inr (pub, secret) \<Rightarrow> (\<exists>row p.
        w' = w\<lparr>w_db := (w_db w)\<lparr>webhookEndpoints := webhookEndpoints (w_db w) @ [row]\<rparr>\<rparr> \<and>
        pub = toPublic row \<and> we_appId row = cw_appId inp \<and> we_url row = cw_url inp \<and> we_enabled row \<and>
        ne_URL ne (cw_url inp) = Some p \<and> url_protocol p \<in> {''http:'', ''https:''} \<and> url_username p = [] \<and>
        (escapeHatchActive ne \<or> host_safe ne (strip_brackets (url_hostname p))) \<and>
        distinct (we_eventTypes row) \<and> event_name ` set (we_eventTypes row) = set (cw_eventTypes inp) \<and>
        length (filter (\<lambda>e. we_appId e = cw_appId inp) (webhookEndpoints (w_db w'))) \<le> 10 \<and>
        unwrap (ce_gcm ce) (MASTER_ENCRYPTION_KEY cfg) (we_secretCiphertext row) (Some (''webhook:'' @ we_id row)) = Inr secret)"
proof (cases r)
  case (Inl e)
  then show ?thesis using assms(2)
    by (auto simp: createWebhookEndpoint_def Let_def split: sum.splits if_splits)
next
  case (Inr ps)
  obtain pub secret where ps: "ps = (pub, secret)" by (cases ps)
  obtain wrapped events where v: "validateUrl ne (cw_url inp) = Inr ()"
    and t: "uniqueValidatedEventTypes (cw_eventTypes inp) = Inr events"
    and n: "length (filter (\<lambda>e. we_appId e = cw_appId inp) (webhookEndpoints (w_db w))) < 10"
    and s: "wrap (ce_gcm ce) iv (MASTER_ENCRYPTION_KEY cfg) secret (Some (aadFor (newId ''whk'' u))) = Inr wrapped"
    and pub: "pub = toPublic (new_endpoint (newId ''whk'' u) inp wrapped events now)"
    and w': "w' = w\<lparr>w_db := (w_db w)\<lparr>webhookEndpoints :=
            webhookEndpoints (w_db w) @ [new_endpoint (newId ''whk'' u) inp wrapped events now]\<rparr>\<rparr>"
    using createWebhookEndpoint_result [of cfg ce ne u rb iv now inp w pub secret w'] assms(2) unfolding Inr ps by blast
  let ?row = "new_endpoint (newId ''whk'' u) inp wrapped events now"
  have "unwrap (ce_gcm ce) (MASTER_ENCRYPTION_KEY cfg) wrapped (Some (''webhook:'' @ we_id ?row)) = Inr secret"
    using unwrap_wrap [OF assms(1) s, of "Some (aadFor (newId ''whk'' u))"] by (simp add: aadFor_def Let_def new_endpoint_def)
  moreover obtain p where "ne_URL ne (cw_url inp) = Some p" "url_protocol p \<in> {''http:'', ''https:''}" "url_username p = []"
      "escapeHatchActive ne \<or> host_safe ne (strip_brackets (url_hostname p))"
    using v unfolding validateUrl_ok by blast
  ultimately show ?thesis
    unfolding Inr ps using pub w' n uniqueValidatedEventTypes_ok [OF t]
    by (simp, intro exI [of _ ?row] exI [of _ p]) (simp add: new_endpoint_def)
qed

definition demo_webhook_input :: create_webhook_input where
  "demo_webhook_input = \<lparr>cw_appId = ''app_1'', cw_url = ''https://hooks.example/x'',
     cw_eventTypes = [''verification.verified'', ''verification.expired'', ''verification.verified'']\<rparr>"

lemma demo_public_address: "\<not> isBlockedIp demo_net ''203.0.113.9''"
proof -
  have d: "''203.0.113.9'' = dotted 203 0 113 9" by code_simp
  show ?thesis unfolding d isBlockedIp_def by (simp add: isIP_dotted isBlockedV4_dotted private_v4_def)
qed

lemma demo_host_name: "isIP demo_net ''hooks.example'' = 0" "\<not> isBlockedHostname ''hooks.example''"
  by code_simp+

lemma demo_url_ok: "validateUrl demo_net ''https://hooks.example/x'' = Inr ()"
proof -
  have "host_safe demo_net ''hooks.example''"
    using demo_public_address by (auto simp: host_safe_def demo_host_name) (simp add: demo_net_def)
  then show ?thesis unfolding validateUrl_ok
    by (auto simp: URL_MAX_def demo_net_def strip_brackets_def starts_with_def)
qed

theorem createWebhookEndpoint_spec_witness:
  "\<exists>row secret w'. createWebhookEndpoint default_config demo_env demo_net ''01'' ''xy'' demo_iv 5 demo_webhook_input empty_world
       = (Inr (toPublic row, secret), w') \<and> we_eventTypes row = [EvVerified, EvExpired] \<and>
     unwrap (ce_gcm demo_env) (MASTER_ENCRYPTION_KEY default_config) (we_secretCiphertext row) (Some (''webhook:'' @ we_id row)) = Inr secret"
proof -
  have t: "uniqueValidatedEventTypes (cw_eventTypes demo_webhook_input) = Inr [EvVerified, EvExpired]" by code_simp
  have u: "validateUrl demo_net (cw_url demo_webhook_input) = Inr ()"
    using demo_url_ok by (simp add: demo_webhook_input_def)
  obtain r w' where c: "createWebhookEndpoint default_config demo_env demo_net ''01'' ''xy'' demo_iv 5 demo_webhook_input empty_world = (Inr r, w')"
    "ep_event_types (fst r) = [EvVerified, EvExpired]"
    by (auto simp: createWebhookEndpoint_def u t empty_world_def empty_db_def MAX_ENDPOINTS_PER_APP_def Let_def
        wrap_def default_config_def from_hex_zeros toPublic_def new_endpoint_def)
  have "gcm_ok (ce_gcm demo_env)" by (simp add: demo_env_def rev_gcm_ok)
  from createWebhookEndpoint_spec [OF this c(1)] c show ?thesis
    by (cases r) (fastforce simp: toPublic_def)
qed

end
