(* ===== verification/WebAuthn.thy ===== *)
theory WebAuthn
  imports World Crypto
begin

text \<open>
  \<open>services/webauthn.ts\<close>: the challenge store, registration and authentication ceremonies. The
  library \<open>@simplewebauthn/server\<close> is the record \<open>webauthn_lib\<close>: its two verifiers
  take the response, the expected challenge, origins and relying-party id (and the stored
  credential) and throw or answer; \<open>env_enabled\<close> is the environment variable
  \<open>WEBAUTHN_ENABLED\<close>. The challenge that option generation draws is an argument.
\<close>

section \<open>Configuration\<close>

definition rpId :: "config \<Rightarrow> exn + string" where
  "rpId cfg = (if truthy (WEBAUTHN_RP_ID cfg) then Inr (the (WEBAUTHN_RP_ID cfg))
     else Inl (serviceUnavailable ''webauthn_misconfigured'' ''WEBAUTHN_RP_ID is not set''))"

definition rpName :: "config \<Rightarrow> string" where
  "rpName cfg = (case WEBAUTHN_RP_NAME cfg of Some n \<Rightarrow> n
     | None \<Rightarrow> (case WEBAUTHN_RP_ID cfg of Some i \<Rightarrow> i | None \<Rightarrow> ''SYROTP''))"

definition origins :: "config \<Rightarrow> exn + string list" where
  "origins cfg =
     (let raw = filter (\<lambda>s. s \<noteq> []) (map js_trim (split_on CHR '','' (WEBAUTHN_ORIGINS cfg)))
      in if length raw = 0 then Inl (serviceUnavailable ''webauthn_misconfigured'' ''WEBAUTHN_ORIGINS is not set'')
         else Inr raw)"

definition isWebAuthnConfigured :: "config \<Rightarrow> string option \<Rightarrow> bool" where
  "isWebAuthnConfigured cfg env_enabled =
     (let enabled = js_lower (case env_enabled of None \<Rightarrow> [] | Some s \<Rightarrow> s) in
      if enabled \<noteq> ''true'' \<and> enabled \<noteq> ''1'' then False
      else if \<not> truthy (WEBAUTHN_RP_ID cfg) then False
      else if WEBAUTHN_ORIGINS cfg = [] then False
      else True)"

definition webauthn_disabled :: exn where
  "webauthn_disabled = serviceUnavailable ''webauthn_disabled'' ''WebAuthn fallback is disabled''"

definition hashCredentialId :: "config \<Rightarrow> hmac_fn \<Rightarrow> string \<Rightarrow> string" where
  "hashCredentialId cfg hmac rawCredentialId =
     hashSecret hmac ''webauthn_cred_id'' (MASTER_ENCRYPTION_KEY cfg) rawCredentialId"

section \<open>Challenges\<close>

definition new_challenge ::
  "config \<Rightarrow> string \<Rightarrow> int \<Rightarrow> int \<Rightarrow> string \<Rightarrow> string \<Rightarrow> challenge_purpose \<Rightarrow> string \<Rightarrow> challenge_row" where
  "new_challenge cfg u now dbnow appId clientRef purpose challenge =
     \<lparr>ch_id = newId ''wch'' u, ch_appId = appId, ch_clientRef = clientRef, ch_challenge = challenge,
      ch_purpose = purpose, ch_expiresAt = now + WEBAUTHN_CHALLENGE_TTL_SECONDS cfg * 1000, ch_usedAt = None,
      ch_createdAt = dbnow\<rparr>"

definition createChallenge ::
  "config \<Rightarrow> string \<Rightarrow> int \<Rightarrow> int \<Rightarrow> string \<Rightarrow> string \<Rightarrow> challenge_purpose \<Rightarrow> string \<Rightarrow> world \<Rightarrow> world" where
  "createChallenge cfg u now dbnow appId clientRef purpose challenge w =
     w\<lparr>w_db := (w_db w)\<lparr>webauthnChallenges := webauthnChallenges (w_db w) @
        [new_challenge cfg u now dbnow appId clientRef purpose challenge]\<rparr>\<rparr>"

definition active_challenge :: "int \<Rightarrow> string \<Rightarrow> string \<Rightarrow> challenge_purpose \<Rightarrow> challenge_row \<Rightarrow> bool" where
  "active_challenge now appId clientRef purpose c \<longleftrightarrow>
     ch_appId c = appId \<and> ch_clientRef c = clientRef \<and> ch_purpose c = purpose \<and> ch_usedAt c = None \<and> ch_expiresAt c > now"

text \<open>Newest first; rows that another transaction has locked are skipped.\<close>

definition candidate_challenge ::
  "(string \<Rightarrow> bool) \<Rightarrow> int \<Rightarrow> string \<Rightarrow> string \<Rightarrow> challenge_purpose \<Rightarrow> challenge_row list \<Rightarrow> challenge_row option" where
  "candidate_challenge locked now appId clientRef purpose cs =
     (case sort_key (\<lambda>c. - ch_createdAt c)
             (filter (\<lambda>c. active_challenge now appId clientRef purpose c \<and> \<not> locked (ch_id c)) cs) of
        [] \<Rightarrow> None | c # _ \<Rightarrow> Some c)"

definition mark_used :: "int \<Rightarrow> string \<Rightarrow> challenge_row list \<Rightarrow> challenge_row list" where
  "mark_used now i cs = update_where (\<lambda>c. ch_id c = i) (\<lambda>c. c\<lparr>ch_usedAt := Some now\<rparr>) cs"

definition consumeChallenge ::
  "(string \<Rightarrow> bool) \<Rightarrow> int \<Rightarrow> string \<Rightarrow> string \<Rightarrow> challenge_purpose \<Rightarrow> world \<Rightarrow> string option \<times> world" where
  "consumeChallenge locked now appId clientRef purpose w =
     (case candidate_challenge locked now appId clientRef purpose (webauthnChallenges (w_db w)) of
        None \<Rightarrow> (None, w)
      | Some row \<Rightarrow> (Some (ch_challenge row),
          w\<lparr>w_db := (w_db w)\<lparr>webauthnChallenges := mark_used now (ch_id row) (webauthnChallenges (w_db w))\<rparr>\<rparr>))"

section \<open>Registration\<close>

record registration_info =
  ri_id :: string
  ri_publicKey :: "nat list"
  ri_counter :: nat
  ri_transports :: "string list option"
  ri_credentialBackedUp :: bool
  ri_credentialDeviceType :: string

record stored_credential =
  sc_id :: string
  sc_publicKey :: "nat list"
  sc_counter :: nat
  sc_transports :: "string list"

text \<open>A response as the browser sends it: its credential id and the rest.\<close>

record webauthn_response =
  wr_id :: string
  wr_payload :: string

record webauthn_lib =
  wl_verifyRegistration :: "webauthn_response \<Rightarrow> string \<Rightarrow> string list \<Rightarrow> string \<Rightarrow> exn + bool \<times> registration_info option"
  wl_verifyAuthentication ::
    "webauthn_response \<Rightarrow> string \<Rightarrow> string list \<Rightarrow> string \<Rightarrow> stored_credential \<Rightarrow> exn + bool \<times> nat"

record register_options =
  ro_rpID :: string
  ro_rpName :: string
  ro_userName :: string
  ro_userDisplayName :: string
  ro_timeout :: int
  ro_excludeCredentials :: "string list"
  ro_challenge :: string

record login_options =
  lo_rpID :: string
  lo_allowCredentials :: "string list"
  lo_timeout :: int
  lo_challenge :: string

definition listCredentialIdsForUser :: "string \<Rightarrow> string \<Rightarrow> string list" where
  "listCredentialIdsForUser appId clientRef = []"

definition buildRegisterOptions ::
  "config \<Rightarrow> string option \<Rightarrow> string \<Rightarrow> string \<Rightarrow> int \<Rightarrow> int \<Rightarrow> string \<Rightarrow> string \<Rightarrow> string option \<Rightarrow> world \<Rightarrow>
   (exn + register_options) \<times> world" where
  "buildRegisterOptions cfg env_enabled u challenge now dbnow appId clientRef userDisplayName w =
     (if \<not> isWebAuthnConfigured cfg env_enabled then (Inl webauthn_disabled, w)
      else case rpId cfg of
        Inl e \<Rightarrow> (Inl e, w)
      | Inr rp \<Rightarrow>
        (Inr \<lparr>ro_rpID = rp, ro_rpName = rpName cfg, ro_userName = clientRef,
              ro_userDisplayName = (case userDisplayName of Some n \<Rightarrow> n | None \<Rightarrow> clientRef),
              ro_timeout = WEBAUTHN_CHALLENGE_TTL_SECONDS cfg * 1000,
              ro_excludeCredentials = listCredentialIdsForUser appId clientRef, ro_challenge = challenge\<rparr>,
         createChallenge cfg u now dbnow appId clientRef PRegister challenge w))"

definition new_credential ::
  "string \<Rightarrow> int \<Rightarrow> string \<Rightarrow> string \<Rightarrow> string \<Rightarrow> registration_info \<Rightarrow> credential_row" where
  "new_credential u dbnow appId clientRef credentialIdHash info =
     \<lparr>wc_id = newId ''wac'' u, wc_appId = appId, wc_clientRef = clientRef, wc_credentialIdHash = credentialIdHash,
      wc_publicKey = ri_publicKey info, wc_signCount = ri_counter info,
      wc_transports = (case ri_transports info of Some t \<Rightarrow> t | None \<Rightarrow> []),
      wc_backupState = Some (ri_credentialBackedUp info),
      wc_backupEligible = Some (ri_credentialDeviceType info = ''multiDevice''),
      wc_createdAt = dbnow, wc_lastUsedAt = None\<rparr>"

text \<open>The insert of \<open>verifyRegister\<close> under the unique index on (app, credential id hash).\<close>

definition insert_credential :: "credential_row \<Rightarrow> world \<Rightarrow> (exn + unit) \<times> world" where
  "insert_credential c w =
     (if lookup_uq (webauthnCredentials (w_db w) @ [c])
      then (Inr (), w\<lparr>w_db := (w_db w)\<lparr>webauthnCredentials := webauthnCredentials (w_db w) @ [c]\<rparr>\<rparr>)
      else (Inl (UniqueViolation ''webauthn_credentials_lookup_uq''), w))"

definition verifyRegister ::
  "config \<Rightarrow> string option \<Rightarrow> hmac_fn \<Rightarrow> webauthn_lib \<Rightarrow> (string \<Rightarrow> bool) \<Rightarrow> string \<Rightarrow> int \<Rightarrow> int \<Rightarrow>
   string \<Rightarrow> string \<Rightarrow> webauthn_response \<Rightarrow> world \<Rightarrow> (exn + string) \<times> world" where
  "verifyRegister cfg env_enabled hmac lib locked u now dbnow appId clientRef response w =
     (if \<not> isWebAuthnConfigured cfg env_enabled then (Inl webauthn_disabled, w)
      else
        let (challenge, w1) = consumeChallenge locked now appId clientRef PRegister w in
        if \<not> truthy challenge then (Inl (badRequest ''challenge_invalid'' ''challenge missing or expired''), w1)
        else case origins cfg of
          Inl e \<Rightarrow> (Inl e, w1)
        | Inr os \<Rightarrow>
          (case rpId cfg of
             Inl e \<Rightarrow> (Inl e, w1)
           | Inr rp \<Rightarrow>
             (case wl_verifyRegistration lib response (the challenge) os rp of
                Inl e \<Rightarrow> (Inl e, w1)
              | Inr (verified, info) \<Rightarrow>
                if \<not> verified \<or> info = None then
                  (Inl (badRequest ''attestation_failed'' ''registration could not be verified''), w1)
                else
                  let cred = the info;
                      credentialIdHash = hashCredentialId cfg hmac (ri_id cred)
                  in case select_one (\<lambda>c. wc_appId c = appId \<and> wc_credentialIdHash c = credentialIdHash)
                            (webauthnCredentials (w_db w1)) of
                       Some _ \<Rightarrow> (Inr (ri_id cred), w1)
                     | None \<Rightarrow>
                       (case insert_credential (new_credential u dbnow appId clientRef credentialIdHash cred) w1 of
                          (Inl e, w2) \<Rightarrow> (Inl e, w2)
                        | (Inr _, w2) \<Rightarrow> (Inr (ri_id cred), w2)))))"

section \<open>Authentication\<close>

definition buildLoginOptions ::
  "config \<Rightarrow> string option \<Rightarrow> string \<Rightarrow> string \<Rightarrow> int \<Rightarrow> int \<Rightarrow> string \<Rightarrow> string \<Rightarrow> world \<Rightarrow> (exn + login_options) \<times> world" where
  "buildLoginOptions cfg env_enabled u challenge now dbnow appId clientRef w =
     (if \<not> isWebAuthnConfigured cfg env_enabled then (Inl webauthn_disabled, w)
      else case rpId cfg of
        Inl e \<Rightarrow> (Inl e, w)
      | Inr rp \<Rightarrow>
        (Inr \<lparr>lo_rpID = rp, lo_allowCredentials = listCredentialIdsForUser appId clientRef,
              lo_timeout = WEBAUTHN_CHALLENGE_TTL_SECONDS cfg * 1000, lo_challenge = challenge\<rparr>,
         createChallenge cfg u now dbnow appId clientRef PLogin challenge w))"

definition set_counter :: "nat \<Rightarrow> int \<Rightarrow> string \<Rightarrow> world \<Rightarrow> world" where
  "set_counter newCounter now i w =
     w\<lparr>w_db := (w_db w)\<lparr>webauthnCredentials :=
        update_where (\<lambda>c. wc_id c = i) (\<lambda>c. c\<lparr>wc_signCount := newCounter, wc_lastUsedAt := Some now\<rparr>)
          (webauthnCredentials (w_db w))\<rparr>\<rparr>"

definition verifyLogin ::
  "config \<Rightarrow> string option \<Rightarrow> hmac_fn \<Rightarrow> webauthn_lib \<Rightarrow> (string \<Rightarrow> bool) \<Rightarrow> int \<Rightarrow> int \<Rightarrow>
   string \<Rightarrow> string \<Rightarrow> webauthn_response \<Rightarrow> world \<Rightarrow> (exn + bool) \<times> world" where
  "verifyLogin cfg env_enabled hmac lib locked now now2 appId clientRef response w =
     (if \<not> isWebAuthnConfigured cfg env_enabled then (Inl webauthn_disabled, w)
      else
        let (challenge, w1) = consumeChallenge locked now appId clientRef PLogin w in
        if \<not> truthy challenge then (Inl (badRequest ''challenge_invalid'' ''challenge missing or expired''), w1)
        else
          let credId = wr_id response;
              credentialIdHash = hashCredentialId cfg hmac credId
          in case select_one (\<lambda>c. wc_appId c = appId \<and> wc_clientRef c = clientRef \<and> wc_credentialIdHash c = credentialIdHash)
                    (webauthnCredentials (w_db w1)) of
               None \<Rightarrow> (Inl (notFound ''webauthn_credential''), w1)
             | Some credRow \<Rightarrow>
               (case origins cfg of
                  Inl e \<Rightarrow> (Inl e, w1)
                | Inr os \<Rightarrow>
                  (case rpId cfg of
                     Inl e \<Rightarrow> (Inl e, w1)
                   | Inr rp \<Rightarrow>
                     (case wl_verifyAuthentication lib response (the challenge) os rp
                             \<lparr>sc_id = credId, sc_publicKey = wc_publicKey credRow, sc_counter = wc_signCount credRow,
                              sc_transports = wc_transports credRow\<rparr> of
                        Inl e \<Rightarrow> (Inl e, w1)
                      | Inr (verified, newCounter) \<Rightarrow>
                        if \<not> verified then
                          (Inl (badRequest ''assertion_failed'' ''authentication could not be verified''), w1)
                        else (Inr True, set_counter newCounter now2 (wc_id credRow) w1)))))"

section \<open>A challenge answers one ceremony\<close>

lemma candidate_challenge_Some:
  assumes "candidate_challenge locked now app ref p cs = Some c"
  shows "c \<in> set cs \<and> active_challenge now app ref p c \<and> \<not> locked (ch_id c) \<and>
    (\<forall>c' \<in> set cs. active_challenge now app ref p c' \<and> \<not> locked (ch_id c') \<longrightarrow> ch_createdAt c' \<le> ch_createdAt c)"
proof -
  let ?xs = "filter (\<lambda>c. active_challenge now app ref p c \<and> \<not> locked (ch_id c)) cs"
  obtain ys where ys: "sort_key (\<lambda>c. - ch_createdAt c) ?xs = c # ys"
    using assms by (auto simp: candidate_challenge_def split: list.splits)
  then have s: "set (c # ys) = set ?xs" by (metis set_sort)
  have "sorted (map (\<lambda>c. - ch_createdAt c) (c # ys))" using ys by (metis sorted_sort_key)
  then have "\<forall>c' \<in> set (c # ys). ch_createdAt c' \<le> ch_createdAt c" by auto
  with s show ?thesis by auto
qed

lemma candidate_challenge_None:
  "candidate_challenge locked now app ref p cs = None \<longleftrightarrow>
     (\<forall>c \<in> set cs. active_challenge now app ref p c \<longrightarrow> locked (ch_id c))"
proof -
  let ?xs = "filter (\<lambda>c. active_challenge now app ref p c \<and> \<not> locked (ch_id c)) cs"
  have "candidate_challenge locked now app ref p cs = None \<longleftrightarrow> sort_key (\<lambda>c. - ch_createdAt c) ?xs = []"
    unfolding candidate_challenge_def by (simp split: list.split)
  also have "\<dots> \<longleftrightarrow> ?xs = []" by (simp flip: length_0_conv)
  finally show ?thesis by (auto simp: filter_empty_conv)
qed

text \<open>
  The two transactions that touch the challenge table, as steps: requests in any interleaving are a
  sequence of them. \<open>challenge_run\<close> returns the ids of the rows consumed.
\<close>

datatype challenge_step =
    Create string int int string string challenge_purpose string
  | Consume "string \<Rightarrow> bool" int string string challenge_purpose

definition consumed_row :: "(string \<Rightarrow> bool) \<Rightarrow> int \<Rightarrow> string \<Rightarrow> string \<Rightarrow> challenge_purpose \<Rightarrow> world \<Rightarrow> string list" where
  "consumed_row locked now app ref p w =
     (case candidate_challenge locked now app ref p (webauthnChallenges (w_db w)) of None \<Rightarrow> [] | Some c \<Rightarrow> [ch_id c])"

fun challenge_run :: "config \<Rightarrow> challenge_step list \<Rightarrow> world \<Rightarrow> string list \<times> world" where
  "challenge_run cfg [] w = ([], w)"
| "challenge_run cfg (Create u now dbnow app ref p ch # st) w =
     challenge_run cfg st (createChallenge cfg u now dbnow app ref p ch w)"
| "challenge_run cfg (Consume locked now app ref p # st) w =
     (let (ids, w') = challenge_run cfg st (snd (consumeChallenge locked now app ref p w))
      in (consumed_row locked now app ref p w @ ids, w'))"

text \<open>Fresh rows: an id that was not given out before.\<close>

fun fresh_challenges :: "challenge_step list \<Rightarrow> string set \<Rightarrow> bool" where
  "fresh_challenges [] ids = True"
| "fresh_challenges (Create u _ _ _ _ _ _ # st) ids =
     (newId ''wch'' u \<notin> ids \<and> fresh_challenges st (insert (newId ''wch'' u) ids))"
| "fresh_challenges (Consume _ _ _ _ _ # st) ids = fresh_challenges st ids"

lemma mark_used_ids [simp]: "map ch_id (mark_used now i cs) = map ch_id cs"
  by (simp add: mark_used_def map_update_where)

lemma mark_used_ids' [simp]: "ch_id ` set (mark_used now i cs) = ch_id ` set cs"
  by (simp only: list.set_map [symmetric] mark_used_ids)

lemma mark_used_used: "x \<in> set (mark_used now i cs) \<Longrightarrow> ch_id x = i \<Longrightarrow> ch_usedAt x \<noteq> None"
  unfolding mark_used_def set_update_where by (elim imageE) (simp split: if_splits)

lemma mark_used_other: "x \<in> set (mark_used now i cs) \<Longrightarrow> ch_id x \<noteq> i \<Longrightarrow> x \<in> set cs"
  unfolding mark_used_def set_update_where by (elim imageE) (simp split: if_splits)

lemma consumeChallenge_cases:
  obtains "consumeChallenge locked now app ref p w = (None, w)" "consumed_row locked now app ref p w = []"
    "\<forall>c \<in> set (webauthnChallenges (w_db w)). active_challenge now app ref p c \<longrightarrow> locked (ch_id c)"
  | c where "c \<in> set (webauthnChallenges (w_db w))" "active_challenge now app ref p c"
    "consumed_row locked now app ref p w = [ch_id c]"
    "consumeChallenge locked now app ref p w = (Some (ch_challenge c),
       w\<lparr>w_db := (w_db w)\<lparr>webauthnChallenges := mark_used now (ch_id c) (webauthnChallenges (w_db w))\<rparr>\<rparr>)"
proof (cases "candidate_challenge locked now app ref p (webauthnChallenges (w_db w))")
  case None
  show ?thesis
    by (rule that(1)) (simp_all add: None consumeChallenge_def consumed_row_def candidate_challenge_None [THEN iffD1, OF None])
next
  case (Some c)
  then show ?thesis using that(2) [of c] candidate_challenge_Some [OF Some]
    by (simp add: consumeChallenge_def consumed_row_def)
qed

lemma createChallenge_table:
  "webauthnChallenges (w_db (createChallenge cfg u now dbnow app ref p ch w)) =
     webauthnChallenges (w_db w) @ [new_challenge cfg u now dbnow app ref p ch]"
  by (simp add: createChallenge_def)

lemma used_not_consumed:
  "fresh_challenges st (ch_id ` set (webauthnChallenges (w_db w))) \<Longrightarrow>
   \<forall>c \<in> set (webauthnChallenges (w_db w)). ch_id c = i \<longrightarrow> ch_usedAt c \<noteq> None \<Longrightarrow>
   i \<in> ch_id ` set (webauthnChallenges (w_db w)) \<Longrightarrow> i \<notin> set (fst (challenge_run cfg st w))"
proof (induction cfg st w rule: challenge_run.induct)
  case (2 cfg u now dbnow app ref p ch st w)
  then show ?case by (auto simp: createChallenge_table new_challenge_def)
next
  case (3 cfg locked now app ref p st w)
  show ?case
  proof (cases rule: consumeChallenge_cases [of locked now app ref p w])
    case 1
    then show ?thesis using 3 by (simp add: case_prod_beta)
  next
    case (2 c)
    have "ch_id c \<noteq> i" using 2(1,2) "3.prems"(2) by (auto simp: active_challenge_def)
    moreover have "\<forall>x \<in> set (mark_used now (ch_id c) (webauthnChallenges (w_db w))). ch_id x = i \<longrightarrow> ch_usedAt x \<noteq> None"
      using "3.prems"(2) mark_used_used mark_used_other by blast
    ultimately show ?thesis using "3.IH" "3.prems"(1,3) 2 by (simp add: case_prod_beta)
  qed
qed simp

lemma consumed_distinct:
  "fresh_challenges st (ch_id ` set (webauthnChallenges (w_db w))) \<Longrightarrow> distinct (fst (challenge_run cfg st w))"
proof (induction cfg st w rule: challenge_run.induct)
  case (2 cfg u now dbnow app ref p ch st w)
  then show ?case by (simp add: createChallenge_table new_challenge_def)
next
  case (3 cfg locked now app ref p st w)
  show ?case
  proof (cases rule: consumeChallenge_cases [of locked now app ref p w])
    case 1
    then show ?thesis using 3 by (simp add: case_prod_beta)
  next
    case (2 c)
    let ?w = "snd (consumeChallenge locked now app ref p w)"
    have t: "webauthnChallenges (w_db ?w) = mark_used now (ch_id c) (webauthnChallenges (w_db w))" using 2(4) by simp
    have "ch_id c \<notin> set (fst (challenge_run cfg st ?w))"
      using "3.prems" 2(1) mark_used_used t by (intro used_not_consumed) simp_all
    then show ?thesis using "3.IH" "3.prems" 2 t by (simp add: case_prod_beta)
  qed
qed simp

text \<open>
  C12: a challenge is used once. In any interleaving of ceremonies the challenge rows that are consumed are
  pairwise different, so no challenge ever answers two verifications, whatever rows other
  transactions hold locked; and a consumed challenge was issued for the same application, client
  and purpose and had not expired.
\<close>

theorem challenge_single_use:
  assumes "fresh_challenges st (ch_id ` set (webauthnChallenges (w_db w)))"
  shows "distinct (fst (challenge_run cfg st w)) \<and>
     (\<forall>locked now app ref p ch. fst (consumeChallenge locked now app ref p w) = Some ch \<longrightarrow>
        (\<exists>c \<in> set (webauthnChallenges (w_db w)). ch_challenge c = ch \<and> ch_appId c = app \<and> ch_clientRef c = ref \<and>
           ch_purpose c = p \<and> ch_usedAt c = None \<and> now < ch_expiresAt c))"
proof -
  have "\<exists>c \<in> set (webauthnChallenges (w_db w)). ch_challenge c = ch \<and> ch_appId c = app \<and> ch_clientRef c = ref \<and>
           ch_purpose c = p \<and> ch_usedAt c = None \<and> now < ch_expiresAt c"
    if "fst (consumeChallenge locked now app ref p w) = Some ch" for locked now app ref p ch
    using that by (cases rule: consumeChallenge_cases [of locked now app ref p w]) (auto simp: active_challenge_def)
  then show ?thesis using consumed_distinct [OF assms] by blast
qed

theorem challenge_single_use_witness:
  "fst (challenge_run default_config [Create ''1'' 0 0 ''app_1'' ''u'' PLogin ''c'', Consume (\<lambda>_. False) 1 ''app_1'' ''u'' PLogin,
      Consume (\<lambda>_. False) 2 ''app_1'' ''u'' PLogin] empty_world) = [''wch_1''] \<and>
   distinct (fst (challenge_run default_config [Create ''1'' 0 0 ''app_1'' ''u'' PLogin ''c'', Consume (\<lambda>_. False) 1 ''app_1'' ''u'' PLogin,
      Consume (\<lambda>_. False) 2 ''app_1'' ''u'' PLogin] empty_world))"
proof -
  let ?st = "[Create ''1'' 0 0 ''app_1'' ''u'' PLogin ''c'', Consume (\<lambda>_. False) 1 ''app_1'' ''u'' PLogin,
      Consume (\<lambda>_. False) 2 ''app_1'' ''u'' PLogin]"
  have "fresh_challenges ?st (ch_id ` set (webauthnChallenges (w_db empty_world)))"
    by (simp add: empty_world_def empty_db_def)
  from challenge_single_use [OF this, of default_config]
  show ?thesis
    by (simp add: consumed_row_def candidate_challenge_def createChallenge_def new_challenge_def active_challenge_def
        empty_world_def empty_db_def default_config_def consumeChallenge_def mark_used_def newId_def)
qed

section \<open>Ceremonies\<close>

definition presented :: "webauthn_response \<Rightarrow> credential_row \<Rightarrow> stored_credential" where
  "presented response c = \<lparr>sc_id = wr_id response, sc_publicKey = wc_publicKey c, sc_counter = wc_signCount c, sc_transports = wc_transports c\<rparr>"

lemma consumeChallenge_other [simp]:
  "webauthnCredentials (w_db (snd (consumeChallenge locked now app ref p w))) = webauthnCredentials (w_db w)"
  "verifications (w_db (snd (consumeChallenge locked now app ref p w))) = verifications (w_db w)"
  by (simp_all add: consumeChallenge_def split: option.splits)

lemma set_counter_other [simp]:
  "webauthnChallenges (w_db (set_counter n now i w)) = webauthnChallenges (w_db w)"
  by (simp add: set_counter_def)


definition demo_rp :: config where
  "demo_rp = default_config\<lparr>WEBAUTHN_RP_ID := Some ''app.example'', WEBAUTHN_ORIGINS := ''https://app.example''\<rparr>"

text \<open>A verifier that accepts a response whose payload is the challenge, and counts up.\<close>

definition demo_lib :: webauthn_lib where
  "demo_lib = \<lparr>wl_verifyRegistration = (\<lambda>resp ch os rp. Inr (wr_payload resp = ch,
       Some \<lparr>ri_id = wr_id resp, ri_publicKey = [1], ri_counter = 0, ri_transports = None, ri_credentialBackedUp = False,
             ri_credentialDeviceType = ''singleDevice''\<rparr>)),
     wl_verifyAuthentication = (\<lambda>resp ch os rp cred. Inr (wr_payload resp = ch, Suc (sc_counter cred)))\<rparr>"

definition demo_ceremony :: world where
  "demo_ceremony =
     (let w1 = createChallenge demo_rp ''1'' 0 0 ''app_1'' ''u'' PRegister ''c1'' empty_world;
          w2 = snd (verifyRegister demo_rp (Some ''1'') (\<lambda>k m. m) demo_lib (\<lambda>_. False) ''1'' 5 5 ''app_1'' ''u''
                 \<lparr>wr_id = ''key'', wr_payload = ''c1''\<rparr> w1)
      in createChallenge demo_rp ''2'' 10 10 ''app_1'' ''u'' PLogin ''c2'' w2)"

lemma demo_login:
  "fst (verifyLogin demo_rp (Some ''1'') (\<lambda>k m. m) demo_lib (\<lambda>_. False) 20 20 ''app_1'' ''u''
     \<lparr>wr_id = ''key'', wr_payload = ''c2''\<rparr> demo_ceremony) = Inr True"
  by code_simp


end
