(* ===== verification/RoutesBackend.thy ===== *)
theory RoutesBackend
  imports Routes Webhooks WebAuthn
begin

text \<open>
  The routes of an application's backend: webhook endpoints (\<open>routes/webhooks.ts\<close>) and the
  WebAuthn fallback (\<open>routes/webauthn.ts\<close>), all for secret keys.
\<close>

record backend_env = route_env +
  ve_net :: net_env
  ve_lib :: webauthn_lib
  ve_webauthn_enabled :: "string option"
  ve_challenge :: string
  ve_challenge_locked :: "string \<Rightarrow> bool"

abbreviation base_env :: "backend_env \<Rightarrow> route_env" where
  "base_env be \<equiv> route_env.truncate be"

section \<open>Webhook endpoints\<close>

definition webhookCrudRateLimit :: "config \<Rightarrow> int \<Rightarrow> string \<Rightarrow> unit handler" where
  "webhookCrudRateLimit cfg now appId =
     rate_gate B_webhook_crud_per_app (''webhook_crud:app:'' @ appId) (RATE_LIMIT_WEBHOOK_CRUD_PER_APP_PER_MIN cfg) now"

definition whk_id_param :: "string \<Rightarrow> string option" where
  "whk_id_param i = (if prefixed_id ''whk_'' i then Some i else None)"

record create_body =
  cb_url :: string
  cb_event_types :: "string list"

fun z_strings :: "json list \<Rightarrow> string list option" where
  "z_strings [] = Some []"
| "z_strings (JStr s # js) = (if isValidEventType s then map_option (Cons s) (z_strings js) else None)"
| "z_strings (_ # js) = None"

definition createBody :: "json option \<Rightarrow> create_body option" where
  "createBody b =
     (if \<not> is_object b then None
      else case (z_string 1 2048 (\<lambda>_. True) (field ''url'' b),
                 (case field ''event_types'' b of
                    Some (JArr js) \<Rightarrow>
                      if 1 \<le> length js \<and> length js \<le> length VERIFICATION_EVENT_TYPES then z_strings js else None
                  | _ \<Rightarrow> None)) of
        (Some u, Some ts) \<Rightarrow> Some \<lparr>cb_url = u, cb_event_types = ts\<rparr>
      | _ \<Rightarrow> None)"

definition webhook_error_400 :: "exn \<Rightarrow> exn" where
  "webhook_error_400 e = (case e of WebhookValidationError c m \<Rightarrow> badRequest c m | _ \<Rightarrow> e)"

definition post_webhook :: "config \<Rightarrow> backend_env \<Rightarrow> request \<Rightarrow> (int \<times> endpoint_public \<times> string) handler" where
  "post_webhook cfg be rq =
     andThen (with_key cfg (base_env be) rq [KSecret]) (\<lambda>auth.
     andThen (webhookCrudRateLimit cfg (ve_now be) (ay_appId auth)) (\<lambda>_.
     andThen (require_some (createBody (req_body rq)) (badRequestIssues ''validation_error'' ''invalid request body'')) (\<lambda>body.
     andThen (map_error webhook_error_400 (createWebhookEndpoint cfg (ve_ce be) (ve_net be) (ve_ulid be) (ve_bytes be) (ve_iv be)
                (ve_now be) \<lparr>cw_appId = ay_appId auth, cw_url = cb_url body, cw_eventTypes = cb_event_types body\<rparr>)) (\<lambda>created.
     andThen (effect (audit (ve_audit_ok be)
                ((key_audit auth rq ''webhook.create'' ''webhook_endpoint'' (Some (ep_id (fst created))))
                   \<lparr>au_ip := Some (req_ip rq), au_userAgent := req_userAgent rq,
                    au_meta := (''url'', ep_url (fst created)) # map (\<lambda>t. (''event_types'', event_name t)) (ep_event_types (fst created))\<rparr>))) (\<lambda>_.
     give (201, created))))))"

definition get_webhooks :: "config \<Rightarrow> backend_env \<Rightarrow> request \<Rightarrow> endpoint_public list handler" where
  "get_webhooks cfg be rq =
     andThen (with_key cfg (base_env be) rq [KSecret]) (\<lambda>auth.
     andThen (webhookCrudRateLimit cfg (ve_now be) (ay_appId auth)) (\<lambda>_ w.
     (Inr (listWebhookEndpoints (ay_appId auth) w), w)))"

definition get_webhook :: "config \<Rightarrow> backend_env \<Rightarrow> request \<Rightarrow> endpoint_public handler" where
  "get_webhook cfg be rq =
     andThen (with_key cfg (base_env be) rq [KSecret]) (\<lambda>auth.
     andThen (webhookCrudRateLimit cfg (ve_now be) (ay_appId auth)) (\<lambda>_.
     andThen (require_some (whk_id_param (req_param_id rq)) (notFound ''webhook_endpoint'')) (\<lambda>i w.
     (getWebhookEndpoint (ay_appId auth) i w, w))))"

definition delete_webhook :: "config \<Rightarrow> backend_env \<Rightarrow> request \<Rightarrow> int handler" where
  "delete_webhook cfg be rq =
     andThen (with_key cfg (base_env be) rq [KSecret]) (\<lambda>auth.
     andThen (webhookCrudRateLimit cfg (ve_now be) (ay_appId auth)) (\<lambda>_.
     andThen (require_some (whk_id_param (req_param_id rq)) (notFound ''webhook_endpoint'')) (\<lambda>i.
     andThen (deleteWebhookEndpoint (ay_appId auth) i) (\<lambda>_.
     andThen (effect (audit (ve_audit_ok be) ((key_audit auth rq ''webhook.delete'' ''webhook_endpoint'' (Some i))
                \<lparr>au_ip := Some (req_ip rq), au_userAgent := req_userAgent rq\<rparr>))) (\<lambda>_.
     give 204)))))"

section \<open>WebAuthn\<close>

definition webauthnRateLimit :: "config \<Rightarrow> int \<Rightarrow> string \<Rightarrow> unit handler" where
  "webauthnRateLimit cfg now appId =
     rate_gate B_webauthn_per_app (''webauthn:app:'' @ appId) (RATE_LIMIT_WEBAUTHN_PER_APP_PER_MIN cfg) now"

definition clientRefField :: "json option \<Rightarrow> string option" where
  "clientRefField = z_string 1 128 (all_in is_purpose_char)"

record options_body =
  ob_client_ref :: string
  ob_user_display_name :: "string option"

definition optionsBody :: "json option \<Rightarrow> options_body option" where
  "optionsBody b =
     (if \<not> is_object b then None
      else case (clientRefField (field ''client_ref'' b), z_optional (z_string 1 128 (\<lambda>_. True)) (field ''user_display_name'' b)) of
        (Some c, Some n) \<Rightarrow> Some \<lparr>ob_client_ref = c, ob_user_display_name = n\<rparr>
      | _ \<Rightarrow> None)"

definition verifyBody :: "json option \<Rightarrow> (string \<times> json option) option" where
  "verifyBody b =
     (if \<not> is_object b then None
      else map_option (\<lambda>c. (c, field ''response'' b)) (clientRefField (field ''client_ref'' b)))"

text \<open>\<open>typeof x === "object"\<close> for a value that is not null: an object or an array.\<close>

definition js_object :: "json option \<Rightarrow> bool" where
  "js_object v = (case v of Some (JObj _) \<Rightarrow> True | Some (JArr _) \<Rightarrow> True | _ \<Rightarrow> False)"

text \<open>The response passes to the library as it is; \<open>read_response\<close> is the library's view of it.\<close>

definition ceremony_response :: "(json \<Rightarrow> webauthn_response) \<Rightarrow> json option \<Rightarrow> webauthn_response handler" where
  "ceremony_response read_response v =
     (if js_object v then give (read_response (the v)) else reject (badRequest ''validation_error'' ''response is required''))"

definition post_register_options :: "config \<Rightarrow> backend_env \<Rightarrow> request \<Rightarrow> register_options handler" where
  "post_register_options cfg be rq =
     andThen (with_key cfg (base_env be) rq [KSecret]) (\<lambda>auth.
     andThen (webauthnRateLimit cfg (ve_now be) (ay_appId auth)) (\<lambda>_.
     andThen (require_some (optionsBody (req_body rq)) (badRequestIssues ''validation_error'' ''invalid request body'')) (\<lambda>body.
     buildRegisterOptions cfg (ve_webauthn_enabled be) (ve_ulid be) (ve_challenge be) (ve_now be) (ve_dbnow be)
       (ay_appId auth) (ob_client_ref body) (ob_user_display_name body))))"

definition post_register_verify ::
  "config \<Rightarrow> backend_env \<Rightarrow> (json \<Rightarrow> webauthn_response) \<Rightarrow> request \<Rightarrow> string handler" where
  "post_register_verify cfg be read_response rq =
     andThen (with_key cfg (base_env be) rq [KSecret]) (\<lambda>auth.
     andThen (webauthnRateLimit cfg (ve_now be) (ay_appId auth)) (\<lambda>_.
     andThen (require_some (verifyBody (req_body rq)) (badRequest ''validation_error'' ''invalid request body'')) (\<lambda>(client, resp).
     andThen (ceremony_response read_response resp) (\<lambda>response.
     andThen (verifyRegister cfg (ve_webauthn_enabled be) (ce_hmac (ve_ce be)) (ve_lib be) (ve_challenge_locked be) (ve_ulid be)
                (ve_now be) (ve_dbnow be) (ay_appId auth) client response) (\<lambda>result.
     andThen (effect (audit (ve_audit_ok be) ((key_audit auth rq ''webauthn.register'' ''webauthn_credential'' (Some result))
                \<lparr>au_ip := Some (req_ip rq), au_meta := [(''client_ref'', client)]\<rparr>))) (\<lambda>_.
     give result))))))"

definition post_login_options :: "config \<Rightarrow> backend_env \<Rightarrow> request \<Rightarrow> login_options handler" where
  "post_login_options cfg be rq =
     andThen (with_key cfg (base_env be) rq [KSecret]) (\<lambda>auth.
     andThen (webauthnRateLimit cfg (ve_now be) (ay_appId auth)) (\<lambda>_.
     andThen (require_some (optionsBody (req_body rq)) (badRequest ''validation_error'' ''invalid request body'')) (\<lambda>body.
     buildLoginOptions cfg (ve_webauthn_enabled be) (ve_ulid be) (ve_challenge be) (ve_now be) (ve_dbnow be)
       (ay_appId auth) (ob_client_ref body))))"

definition post_login_verify ::
  "config \<Rightarrow> backend_env \<Rightarrow> (json \<Rightarrow> webauthn_response) \<Rightarrow> request \<Rightarrow> bool handler" where
  "post_login_verify cfg be read_response rq =
     andThen (with_key cfg (base_env be) rq [KSecret]) (\<lambda>auth.
     andThen (webauthnRateLimit cfg (ve_now be) (ay_appId auth)) (\<lambda>_.
     andThen (require_some (verifyBody (req_body rq)) (badRequest ''validation_error'' ''invalid request body'')) (\<lambda>(client, resp).
     andThen (ceremony_response read_response resp) (\<lambda>response.
     andThen (verifyLogin cfg (ve_webauthn_enabled be) (ce_hmac (ve_ce be)) (ve_lib be) (ve_challenge_locked be)
                (ve_now be) (ve_now be) (ay_appId auth) client response) (\<lambda>result.
     andThen (effect (audit (ve_audit_ok be) ((key_audit auth rq ''webauthn.login'' ''webauthn_credential'' None)
                \<lparr>au_ip := Some (req_ip rq), au_meta := [(''client_ref'', client)]\<rparr>))) (\<lambda>_.
     give result))))))"

end
