(* ===== verification/Transitions.thy ===== *)
theory Transitions
  imports Matching
begin

text \<open>
  Terminal transitions of a verification and rows with a life cycle, as interfaces.

  \<^item> \<open>terminal_update\<close>: what the three transactions that end a verification (expire, cancel, claim)
    have in common: one update of a pending row that fixes its identity and sets its final status,
    and the emission of one event of the matching type in the same transaction.
  \<^item> \<open>lifecycle\<close>: a table whose rows only move along a step relation with absorbing final states.
\<close>

section \<open>Ending a verification\<close>

definition transition ::
  "event_type \<Rightarrow> (verification_row \<Rightarrow> verification_row) \<Rightarrow> event_ids \<Rightarrow> int \<Rightarrow> verification_row \<Rightarrow> world \<Rightarrow> world" where
  "transition t f ids now v w =
     emit_for t ids now (f v)
       (set_verifications (update_where (\<lambda>x. vr_id x = vr_id v) f (verifications (w_db w))) w)"

lemma emit_for_simps [simp]:
  "verifications (w_db (emit_for t ids now r w)) = verifications (w_db w)"
  "inboundSms (w_db (emit_for t ids now r w)) = inboundSms (w_db w)"
  "phoneBindings (w_db (emit_for t ids now r w)) = phoneBindings (w_db w)"
  "receivers (w_db (emit_for t ids now r w)) = receivers (w_db w)"
  "apps (w_db (emit_for t ids now r w)) = apps (w_db w)"
  "webhookEndpoints (w_db (emit_for t ids now r w)) = webhookEndpoints (w_db w)"
  "w_redis (emit_for t ids now r w) = w_redis w"
  "w_metrics (emit_for t ids now r w) = w_metrics w @ [WebhookEventEmitted t]"
  by (simp_all add: emit_for_def)

lemma transition_simps [simp]:
  "verifications (w_db (transition t f ids now v w))
     = update_where (\<lambda>x. vr_id x = vr_id v) f (verifications (w_db w))"
  "inboundSms (w_db (transition t f ids now v w)) = inboundSms (w_db w)"
  "phoneBindings (w_db (transition t f ids now v w)) = phoneBindings (w_db w)"
  "receivers (w_db (transition t f ids now v w)) = receivers (w_db w)"
  "webhookEndpoints (w_db (transition t f ids now v w)) = webhookEndpoints (w_db w)"
  by (simp_all add: transition_def)

lemma buildVerificationEventData_id [simp]:
  "ed_verification_id (buildVerificationEventData row t) = vr_id row"
  by (simp add: buildVerificationEventData_def)

lemma update_where_id_unique:
  assumes "distinct (map vr_id vs)" and "v \<in> set vs" and "Q v"
  shows "update_where (\<lambda>x. vr_id x = vr_id v \<and> Q x) f vs = update_where (\<lambda>x. vr_id x = vr_id v) f vs"
    and "returning (\<lambda>x. vr_id x = vr_id v \<and> Q x) f vs = [f v]"
proof -
  have only: "x = v" if "x \<in> set vs" "vr_id x = vr_id v" for x
    using assms(1,2) that by (auto simp: distinct_map inj_on_def)
  show "update_where (\<lambda>x. vr_id x = vr_id v \<and> Q x) f vs = update_where (\<lambda>x. vr_id x = vr_id v) f vs"
    unfolding update_where_def by (rule map_cong [OF refl]) (use only assms(3) in auto)
  obtain xs ys where s: "vs = xs @ v # ys" using assms(2) by (meson split_list)
  have "filter (\<lambda>x. vr_id x = vr_id v \<and> Q x) xs = []" "filter (\<lambda>x. vr_id x = vr_id v \<and> Q x) ys = []"
    using assms(1) unfolding s by (auto simp: filter_empty_conv image_iff)
  then show "returning (\<lambda>x. vr_id x = vr_id v \<and> Q x) f vs = [f v]"
    using assms(3) by (simp add: returning_def s)
qed

text \<open>The three transactions are such transitions, or change nothing.\<close>

lemma lazyExpire_transition:
  assumes "distinct (map vr_id (verifications (w_db w)))"
  shows "lazyExpireAndEmit ok ids now vid w = w \<or>
    (\<exists>v \<in> set (verifications (w_db w)). vr_id v = vid \<and> vr_status v = Pending \<and>
       lazyExpireAndEmit ok ids now vid w = transition EvExpired expire_set ids now v w)"
proof (cases "ok \<and> (\<exists>v \<in> set (verifications (w_db w)). vr_id v = vid \<and> vr_status v = Pending)")
  case True
  then obtain v where v: "v \<in> set (verifications (w_db w))" "vr_id v = vid" "vr_status v = Pending" by blast
  note u = update_where_id_unique [OF assms v(1), where Q = "\<lambda>x. vr_status x = Pending", OF v(3), unfolded v(2)]
  have "lazyExpireAndEmit ok ids now vid w = transition EvExpired expire_set ids now v w"
    using True v(2) u by (simp add: lazyExpireAndEmit_def transition_def)
  with v show ?thesis by blast
next
  case False
  then have "returning (\<lambda>v. vr_id v = vid \<and> vr_status v = Pending) f (verifications (w_db w)) = []" if ok for f
    using that by (auto simp: returning_eq_Nil)
  then show ?thesis by (auto simp: lazyExpireAndEmit_def)
qed

lemma cancel_transition:
  assumes "distinct (map vr_id (verifications (w_db w)))"
  shows "(\<exists>e. cancel_tx ids now app vid w = (Inl e, w)) \<or>
    (\<exists>v \<in> set (verifications (w_db w)). vr_id v = vid \<and> vr_appId v = app \<and> vr_status v = Pending \<and>
       cancel_tx ids now app vid w = (Inr (), transition EvCancelled (cancel_set now) ids now v w))"
proof (cases "\<exists>v \<in> set (verifications (w_db w)). vr_id v = vid \<and> vr_appId v = app \<and> vr_status v = Pending")
  case True
  then obtain v where v: "v \<in> set (verifications (w_db w))" "vr_id v = vid" "vr_appId v = app \<and> vr_status v = Pending"
    by blast
  note u = update_where_id_unique [OF assms v(1),
      where Q = "\<lambda>x. vr_appId x = app \<and> vr_status x = Pending", OF v(3), unfolded v(2)]
  have "cancel_tx ids now app vid w = (Inr (), transition EvCancelled (cancel_set now) ids now v w)"
    using v(2) u by (simp add: cancel_tx_def transition_def Let_def)
  with v show ?thesis by blast
next
  case False
  then have "returning (\<lambda>v. vr_id v = vid \<and> vr_appId v = app \<and> vr_status v = Pending) f (verifications (w_db w)) = []" for f
    by (auto simp: returning_eq_Nil)
  then have "\<exists>e. cancel_tx ids now app vid w = (Inl e, w)"
    by (auto simp: cancel_tx_def Let_def split: option.splits)
  then show ?thesis by blast
qed

lemma claim_transition:
  assumes "distinct (map vr_id (verifications (w_db w)))"
  shows "claim_tx ids now locked rid from code iid w = (None, w) \<or>
    (\<exists>v \<in> set (verifications (w_db w)). claimable now rid from code locked v \<and>
       claim_tx ids now locked rid from code iid w = (Some (claim_set now iid v),
         set_matched iid (Some (vr_id v)) (transition EvVerified (claim_set now iid) ids now v w)))"
  using claim_tx_cases [OF assms, of ids now locked rid "from" code iid] by (auto simp: transition_def)

section \<open>The contract of a terminal update\<close>

text \<open>The event types a verification of a given status has emitted.\<close>

definition events_for :: "verification_status \<Rightarrow> event_type list" where
  "events_for s = (case s of Verified \<Rightarrow> [EvVerified] | Expired \<Rightarrow> [EvExpired] | Cancelled \<Rightarrow> [EvCancelled] | _ \<Rightarrow> [])"

lemma events_for_event_status [simp]: "events_for (event_status t) = [t]"
  by (cases t) (simp_all add: events_for_def event_status_def)

definition outbox_ok :: "db \<Rightarrow> bool" where
  "outbox_ok d \<longleftrightarrow>
     (\<forall>v \<in> set (verifications d). map ev_eventType (events_of d (vr_id v)) = events_for (vr_status v)) \<and>
     (\<forall>e \<in> set (webhookEvents d). \<exists>v \<in> set (verifications d). ev_verificationId e = Some (vr_id v))"

locale terminal_update =
  fixes t :: event_type and f :: "verification_row \<Rightarrow> verification_row"
  assumes keeps: "vr_id (f v) = vr_id v" "vr_appId (f v) = vr_appId v" "vr_phoneE164 (f v) = vr_phoneE164 v"
      "vr_receiverId (f v) = vr_receiverId v" "vr_code (f v) = vr_code v" "vr_expiresAt (f v) = vr_expiresAt v"
    and final: "vr_status (f v) = event_status t"
begin

lemma not_pending: "vr_status (f v) \<noteq> Pending" "vr_status (f v) \<noteq> Failed"
  by (simp_all add: final event_status_def split: event_type.splits)

lemma ids_kept: "map vr_id (verifications (w_db (transition t f ids now v w))) = map vr_id (verifications (w_db w))"
  by (simp add: tbl keeps)

lemma pending_uniq_kept:
  "pending_uniq (verifications (w_db w)) \<Longrightarrow> pending_uniq (verifications (w_db (transition t f ids now v w)))"
  unfolding pending_uniq_def by simp (rule unique_on_update_shrink, auto simp: not_pending)

lemma phone_pending_le:
  "phone_pending (w_db (transition t f ids now v w)) app phone \<le> phone_pending (w_db w) app phone"
  unfolding phone_pending_def by simp (rule filter_update_where_length_le, simp add: not_pending)

lemma rows_after:
  assumes "distinct (map vr_id (verifications (w_db w)))" and "v \<in> set (verifications (w_db w))"
  shows "x \<in> set (verifications (w_db (transition t f ids now v w))) \<longleftrightarrow>
           x = f v \<or> (x \<in> set (verifications (w_db w)) \<and> vr_id x \<noteq> vr_id v)"
proof -
  have only: "y = v" if "y \<in> set (verifications (w_db w))" "vr_id y = vr_id v" for y
    using assms that by (auto simp: distinct_map inj_on_def)
  show ?thesis
    using assms(2) only keeps(1) by (auto simp: set_update_where image_iff)
qed

lemma events_after:
  "events_of (w_db (transition t f ids now v w)) vid =
     events_of (w_db w) vid @
     (if vr_id v = vid then [emitted_event t (vr_appId v) (buildVerificationEventData (f v) t) (fst ids) now] else [])"
  by (simp add: transition_def emit_for_def events_of_emit keeps events_of_def emitted_event_def)

lemma outbox_kept:
  assumes "outbox_ok (w_db w)" and "distinct (map vr_id (verifications (w_db w)))"
    and "v \<in> set (verifications (w_db w))" and "vr_status v = Pending"
  shows "outbox_ok (w_db (transition t f ids now v w))"
  unfolding outbox_ok_def
proof (intro conjI ballI)
  fix x assume "x \<in> set (verifications (w_db (transition t f ids now v w)))"
  then consider "x = f v" | "x \<in> set (verifications (w_db w))" "vr_id x \<noteq> vr_id v"
    using rows_after [OF assms(2,3)] by blast
  then show "map ev_eventType (events_of (w_db (transition t f ids now v w)) (vr_id x)) = events_for (vr_status x)"
  proof cases
    case 1
    have "events_of (w_db w) (vr_id v) = []"
      using assms(1,3,4) by (auto simp: outbox_ok_def events_for_def)
    then show ?thesis
      using 1 by (simp add: events_after keeps final emitted_event_def)
  next
    case 2
    then show ?thesis using assms(1) by (simp add: events_after outbox_ok_def)
  qed
next
  fix e assume "e \<in> set (webhookEvents (w_db (transition t f ids now v w)))"
  then consider "e \<in> set (webhookEvents (w_db w))" | "ev_verificationId e = Some (vr_id (f v))"
    by (auto simp: transition_def emit_for_def emitted_event_def)
  then show "\<exists>x \<in> set (verifications (w_db (transition t f ids now v w))). ev_verificationId e = Some (vr_id x)"
  proof cases
    case 1
    then obtain x where x: "x \<in> set (verifications (w_db w))" "ev_verificationId e = Some (vr_id x)"
      using assms(1) by (auto simp: outbox_ok_def)
    have "vr_id x \<in> set (map vr_id (verifications (w_db (transition t f ids now v w))))"
      using x(1) by (simp only: ids_kept set_map) blast
    then show ?thesis using x(2) by (metis image_iff set_map)
  next
    case 2
    then show ?thesis using rows_after [OF assms(2,3)] by blast
  qed
qed

end

interpretation expire: terminal_update EvExpired expire_set
  by unfold_locales (simp_all add: expire_set_def event_status_def)

interpretation cancel: terminal_update EvCancelled "cancel_set now" for now
  by unfold_locales (simp_all add: cancel_set_def event_status_def)

interpretation claim: terminal_update EvVerified "claim_set now iid" for now iid
  by unfold_locales (simp_all add: claim_set_def event_status_def)

section \<open>Rows with a life cycle\<close>

locale lifecycle =
  fixes step :: "'r \<Rightarrow> 'r \<Rightarrow> bool" and key :: "'r \<Rightarrow> 'k" and final :: "'r \<Rightarrow> bool" and view :: "'r \<Rightarrow> 'v"
  assumes step_refl: "step r r"
    and step_key: "step a b \<Longrightarrow> key b = key a"
    and step_final: "step a b \<Longrightarrow> final a \<Longrightarrow> final b \<and> view b = view a"
begin

definition table_step :: "'r list \<Rightarrow> 'r list \<Rightarrow> bool" where
  "table_step rows rows' \<longleftrightarrow> (\<exists>old new. rows' = old @ new \<and> list_all2 step rows old)"

lemma table_refl: "table_step rows rows"
  unfolding table_step_def by (intro exI [of _ rows] exI [of _ "[]"]) (simp add: list.rel_refl step_refl)

lemma table_append: "table_step rows (rows @ new)"
  unfolding table_step_def by (intro exI [of _ rows] exI [of _ new]) (simp add: list.rel_refl step_refl)

lemma table_update: "(\<And>r. r \<in> set rows \<Longrightarrow> P r \<Longrightarrow> step r (f r)) \<Longrightarrow> table_step rows (update_where P f rows)"
  unfolding table_step_def update_where_def
  by (intro exI [of _ "map (\<lambda>r. if P r then f r else r) rows"] exI [of _ "[]"])
    (simp add: list_all2_conv_all_nth step_refl)

lemma final_kept_step:
  assumes "table_step rows rows'" and "r \<in> set rows" and "final r"
  shows "\<exists>r' \<in> set rows'. key r' = key r \<and> final r' \<and> view r' = view r"
proof -
  obtain old new where o: "rows' = old @ new" "list_all2 step rows old"
    using assms(1) by (auto simp: table_step_def)
  obtain i where i: "i < length rows" "rows ! i = r" using assms(2) by (auto simp: in_set_conv_nth)
  then have "step r (old ! i)" and "old ! i \<in> set rows'"
    using o by (auto simp: list_all2_conv_all_nth)
  then show ?thesis using step_key step_final assms(3) by blast
qed

lemma final_kept:
  assumes "table_step\<^sup>*\<^sup>* rows rows'" and "r \<in> set rows" and "final r"
  shows "\<exists>r' \<in> set rows'. key r' = key r \<and> final r' \<and> view r' = view r"
  using assms
proof (induction rule: rtranclp_induct)
  case base
  then show ?case by blast
next
  case (step a b)
  then obtain r1 where "r1 \<in> set a" "key r1 = key r" "final r1" "view r1 = view r" by blast
  with final_kept_step [OF step(2)] show ?case by metis
qed

end

inductive v_step :: "verification_row \<Rightarrow> verification_row \<Rightarrow> bool" where
  v_same: "v_step v v"
| v_expire: "vr_status v = Pending \<Longrightarrow> v_step v (expire_set v)"
| v_cancel: "vr_status v = Pending \<Longrightarrow> v_step v (cancel_set now v)"
| v_claim: "vr_status v = Pending \<Longrightarrow> now < vr_expiresAt v \<Longrightarrow> v_step v (claim_set now iid v)"

inductive b_step :: "binding_row \<Rightarrow> binding_row \<Rightarrow> bool" where
  b_same: "b_step b b"
| b_bind: "pb_status b = BPending \<Longrightarrow> now < pb_expiresAt b \<Longrightarrow> b_step b (bind_set now b)"
| b_revoke: "b_step b (b\<lparr>pb_status := BRevoked, pb_revokedAt := Some now\<rparr>)"

inductive_cases v_step_cases: "v_step a b"
inductive_cases b_step_cases: "b_step a b"

text \<open>A finished verification never changes again; a revoked binding stays revoked.\<close>

interpretation vlife: lifecycle v_step vr_id "\<lambda>v. vr_status v \<noteq> Pending" "\<lambda>v. v"
  by unfold_locales (auto intro: v_step.intros elim!: v_step_cases simp: expire_set_def cancel_set_def claim_set_def)

interpretation blife: lifecycle b_step pb_id "\<lambda>b. pb_status b = BRevoked" "\<lambda>b. (pb_boundAt b, active_key b)"
  by unfold_locales (auto intro: b_step.intros elim!: b_step_cases simp: bind_set_def active_key_def)

end
