(* ===== verification/Server.thy ===== *)
theory Server
  imports Transitions
begin

text \<open>
  The server as a state machine. A state is the world and the server clock; a step is one database
  transaction or statement of the services, so that requests running concurrently interleave at the
  granularity at which the database serialises them. The other components (webhook endpoints and
  worker, receivers, keys, rate limits, audit log) are covered by the rule \<open>frame\<close>, which leaves
  the four tables the invariants speak of unchanged.

  Fresh identifiers do not collide with stored ones. \<open>invariant\<close> collects what holds in every
  reachable state.
\<close>

type_synonym sys = "world \<times> int"

definition was_bound :: "db \<Rightarrow> string \<Rightarrow> string \<Rightarrow> bool" where
  "was_bound d app phone \<longleftrightarrow>
     (\<exists>b \<in> set (phoneBindings d). pb_appId b = app \<and> pb_phoneE164 b = phone \<and> pb_boundAt b \<noteq> None)"

definition same_core :: "db \<Rightarrow> db \<Rightarrow> bool" where
  "same_core d d' \<longleftrightarrow> verifications d' = verifications d \<and> inboundSms d' = inboundSms d \<and>
     phoneBindings d' = phoneBindings d \<and> webhookEvents d' = webhookEvents d"

inductive server_step :: "config \<Rightarrow> phone_parser \<Rightarrow> sys \<Rightarrow> sys \<Rightarrow> bool" for cfg pp where
  tick: "now \<le> now' \<Longrightarrow> server_step cfg pp (w, now) (w, now')"
| frame: "same_core (w_db w) (w_db w') \<Longrightarrow> server_step cfg pp (w, now) (w', now)"
| start: "vid \<notin> vr_id ` set (verifications (w_db w)) \<Longrightarrow>
     was_bound (w_db w) (si_appId inp) (si_phoneE164 inp) \<Longrightarrow>
     server_step cfg pp (w, now) (snd (start_tx cfg inp vid now dbnow code w), now)"
| expire: "v \<in> set (verifications (w_db w)) \<Longrightarrow> vr_expiresAt v \<le> now \<Longrightarrow>
     server_step cfg pp (w, now) (lazyExpireAndEmit ok ids now (vr_id v) w, now)"
| cancel: "server_step cfg pp (w, now) (snd (cancel_tx ids now app vid w), now)"
| inbound: "iid \<notin> in_id ` set (inboundSms (w_db w)) \<Longrightarrow>
     server_step cfg pp (w, now) (snd (insert_inbound inp iid (sender cfg pp (mi_from inp)) dbnow w), now)"
| verify: "i \<in> set (inboundSms (w_db w)) \<Longrightarrow> in_matchedVerificationId i = None \<Longrightarrow>
     in_body i = take 1600 body \<Longrightarrow> extractBindNonce body = None \<Longrightarrow> extractCode ''VERIFY'' body = Some code \<Longrightarrow>
     server_step cfg pp (w, now)
       (snd (verify_phase ids now locked (in_receiverId i) (in_fromE164 i) code (in_id i) w), now)"
| bind: "i \<in> set (inboundSms (w_db w)) \<Longrightarrow> in_matchedVerificationId i = None \<Longrightarrow>
     in_body i = take 1600 body \<Longrightarrow> extractBindNonce body = Some nonce \<Longrightarrow>
     server_step cfg pp (w, now)
       (snd (bind_phase now (in_receiverId i) (in_fromE164 i) nonce (in_id i) w), now)"
| start_binding: "server_step cfg pp (w, now) (snd (startBinding cfg pp u rb now dbnow inp w), now)"
| revoke: "server_step cfg pp (w, now) (snd (revokeBinding now app bid w), now)"

inductive_cases server_step_cases: "server_step cfg pp s s'"

definition initial :: "sys \<Rightarrow> bool" where
  "initial s \<longleftrightarrow> verifications (w_db (fst s)) = [] \<and> inboundSms (w_db (fst s)) = [] \<and>
     phoneBindings (w_db (fst s)) = [] \<and> webhookEvents (w_db (fst s)) = []"

inductive reachable :: "config \<Rightarrow> phone_parser \<Rightarrow> sys \<Rightarrow> bool" for cfg pp where
  reach_init: "initial s \<Longrightarrow> reachable cfg pp s"
| reach_step: "reachable cfg pp s \<Longrightarrow> server_step cfg pp s s' \<Longrightarrow> reachable cfg pp s'"

section \<open>The invariant\<close>

text \<open>The SMS that a verification rests on.\<close>

definition verified_by :: "verification_row \<Rightarrow> inbound_row \<Rightarrow> bool" where
  "verified_by v i \<longleftrightarrow>
     vr_matchedInboundId v = Some (in_id i) \<and> in_matchedVerificationId i = Some (vr_id v) \<and>
     in_receiverId i = vr_receiverId v \<and> in_fromE164 i = vr_phoneE164 v \<and>
     (\<exists>body. in_body i = take 1600 body \<and> extractCode ''VERIFY'' body = Some (vr_code v))"

definition evidence :: "int \<Rightarrow> db \<Rightarrow> bool" where
  "evidence now d \<longleftrightarrow>
     (\<forall>v \<in> set (verifications d). vr_status v = Verified \<longrightarrow>
        (\<exists>i \<in> set (inboundSms d). verified_by v i) \<and>
        (\<exists>t. vr_verifiedAt v = Some t \<and> t < vr_expiresAt v \<and> t \<le> now))"

definition bound_by :: "binding_row \<Rightarrow> inbound_row \<Rightarrow> bool" where
  "bound_by b i \<longleftrightarrow> in_receiverId i = pb_receiverId b \<and> in_fromE164 i = pb_phoneE164 b \<and>
     (\<exists>body. in_body i = take 1600 body \<and> extractBindNonce body = Some (pb_nonce b))"

definition bindings_ok :: "int \<Rightarrow> db \<Rightarrow> bool" where
  "bindings_ok now d \<longleftrightarrow>
     (\<forall>b \<in> set (phoneBindings d).
        (pb_status b = BVerified \<longrightarrow> pb_boundAt b \<noteq> None) \<and>
        (\<forall>t. pb_boundAt b = Some t \<longrightarrow> t < pb_expiresAt b \<and> t \<le> now \<and> (\<exists>i \<in> set (inboundSms d). bound_by b i)))"

definition status_ok :: "int \<Rightarrow> db \<Rightarrow> bool" where
  "status_ok now d \<longleftrightarrow>
     (\<forall>v \<in> set (verifications d). vr_status v \<noteq> Failed \<and>
        (vr_status v = Expired \<longrightarrow> vr_expiresAt v \<le> now) \<and> was_bound d (vr_appId v) (vr_phoneE164 v))"

definition cap_ok :: "config \<Rightarrow> db \<Rightarrow> bool" where
  "cap_ok cfg d \<longleftrightarrow> (\<forall>app phone. phone_pending d app phone \<le> MAX_PENDING_PER_PHONE cfg)"

definition keys_ok :: "db \<Rightarrow> bool" where
  "keys_ok d \<longleftrightarrow> distinct (map vr_id (verifications d)) \<and> distinct (map in_id (inboundSms d)) \<and>
     pending_uniq (verifications d) \<and> idem_uq (inboundSms d) \<and> active_uq (phoneBindings d)"

definition invariant :: "config \<Rightarrow> sys \<Rightarrow> bool" where
  "invariant cfg s \<longleftrightarrow> (let d = w_db (fst s); now = snd s in
     keys_ok d \<and> cap_ok cfg d \<and> outbox_ok d \<and> evidence now d \<and> bindings_ok now d \<and> status_ok now d)"

lemmas invariant_parts = keys_ok_def cap_ok_def outbox_ok_def evidence_def bindings_ok_def status_ok_def

lemma invariantI:
  "keys_ok (w_db w) \<Longrightarrow> cap_ok cfg (w_db w) \<Longrightarrow> outbox_ok (w_db w) \<Longrightarrow> evidence now (w_db w) \<Longrightarrow>
   bindings_ok now (w_db w) \<Longrightarrow> status_ok now (w_db w) \<Longrightarrow> invariant cfg (w, now)"
  by (simp add: invariant_def)

lemma invariantD:
  assumes "invariant cfg (w, now)"
  shows "keys_ok (w_db w)" "cap_ok cfg (w_db w)" "outbox_ok (w_db w)" "evidence now (w_db w)"
    "bindings_ok now (w_db w)" "status_ok now (w_db w)"
  using assms by (simp_all add: invariant_def Let_def)

lemma invariant_initial: "initial s \<Longrightarrow> invariant cfg s"
  by (cases s) (auto simp: initial_def invariant_def invariant_parts phone_pending_def pending_uniq_def
      idem_uq_def active_uq_def)

lemma invariant_tick: "invariant cfg (w, now) \<Longrightarrow> now \<le> now' \<Longrightarrow> invariant cfg (w, now')"
  by (fastforce simp: invariant_def Let_def evidence_def bindings_ok_def status_ok_def)

text \<open>The invariant speaks of four tables only.\<close>

lemma invariant_frame: "invariant cfg (w, now) \<Longrightarrow> same_core (w_db w) (w_db w') \<Longrightarrow> invariant cfg (w', now)"
  by (auto simp: invariant_def Let_def invariant_parts same_core_def phone_pending_def events_of_def was_bound_def)

section \<open>Preservation: verifications\<close>

context terminal_update
begin

text \<open>
  A terminal transition of a pending row keeps the invariant when the inbound table keeps its keys
  and its evidence and the new row has the evidence its status needs.
\<close>

lemma evidence_kept:
  assumes "distinct (map vr_id (verifications (w_db w)))" and "v \<in> set (verifications (w_db w))" and "evidence now (w_db w)"
    and w': "verifications d = verifications (w_db (transition t f ids now v w))"
    and keep: "\<And>x i. i \<in> set (inboundSms (w_db w)) \<Longrightarrow> verified_by x i \<Longrightarrow> \<exists>i' \<in> set (inboundSms d). verified_by x i'"
    and new: "t = EvVerified \<Longrightarrow> (\<exists>i \<in> set (inboundSms d). verified_by (f v) i) \<and> vr_verifiedAt (f v) = Some now \<and> now < vr_expiresAt v"
  shows "evidence now d"
  unfolding evidence_def
proof (intro ballI impI)
  fix x assume x: "x \<in> set (verifications d)" "vr_status x = Verified"
  then consider "x = f v" | "x \<in> set (verifications (w_db w))" using rows_after [OF assms(1,2), of _ ids now, folded w'] by blast
  then show "(\<exists>i \<in> set (inboundSms d). verified_by x i) \<and> (\<exists>t. vr_verifiedAt x = Some t \<and> t < vr_expiresAt x \<and> t \<le> now)"
  proof cases
    case 1
    with x(2) have "t = EvVerified" by (cases t) (simp_all add: final event_status_def)
    with new 1 keeps show ?thesis by auto
  next
    case 2
    with assms(3) x(2) keep show ?thesis unfolding evidence_def by blast
  qed
qed

lemma status_kept:
  assumes "distinct (map vr_id (verifications (w_db w)))" and v: "v \<in> set (verifications (w_db w))" "vr_status v = Pending"
    and "status_ok now (w_db w)"
    and w': "verifications d = verifications (w_db (transition t f ids now v w))" "phoneBindings d = phoneBindings (w_db w)"
    and new: "t = EvExpired \<Longrightarrow> vr_expiresAt v \<le> now"
  shows "status_ok now d"
  unfolding status_ok_def
proof (intro ballI)
  fix x assume x: "x \<in> set (verifications d)"
  have wb: "was_bound d a p = was_bound (w_db w) a p" for a p by (simp add: was_bound_def w'(2))
  from x consider "x = f v" | "x \<in> set (verifications (w_db w))" using rows_after [OF assms(1,2), of _ ids now, folded w'(1)] by blast
  then show "vr_status x \<noteq> Failed \<and> (vr_status x = Expired \<longrightarrow> vr_expiresAt x \<le> now) \<and> was_bound d (vr_appId x) (vr_phoneE164 x)"
  proof cases
    case 1
    with assms(4) v new show ?thesis by (cases t) (auto simp: status_ok_def wb keeps final event_status_def)
  next
    case 2
    with assms(4) show ?thesis by (simp add: status_ok_def wb)
  qed
qed

lemma transition_invariant:
  assumes inv: "invariant cfg (w, now)" and v: "v \<in> set (verifications (w_db w))" "vr_status v = Pending"
    and w': "verifications (w_db w') = verifications (w_db (transition t f ids now v w))"
      "webhookEvents (w_db w') = webhookEvents (w_db (transition t f ids now v w))"
      "phoneBindings (w_db w') = phoneBindings (w_db w)"
    and ins: "map in_id (inboundSms (w_db w')) = map in_id (inboundSms (w_db w))"
      "map idem_key (inboundSms (w_db w')) = map idem_key (inboundSms (w_db w))"
    and keep_v: "\<And>x i. i \<in> set (inboundSms (w_db w)) \<Longrightarrow> verified_by x i \<Longrightarrow> \<exists>i' \<in> set (inboundSms (w_db w')). verified_by x i'"
    and keep_b: "\<And>b i. i \<in> set (inboundSms (w_db w)) \<Longrightarrow> bound_by b i \<Longrightarrow> \<exists>i' \<in> set (inboundSms (w_db w')). bound_by b i'"
    and new: "t = EvVerified \<Longrightarrow> (\<exists>i \<in> set (inboundSms (w_db w')). verified_by (f v) i) \<and>
        vr_verifiedAt (f v) = Some now \<and> now < vr_expiresAt v"
      "t = EvExpired \<Longrightarrow> vr_expiresAt v \<le> now"
  shows "invariant cfg (w', now)"
proof (rule invariantI)
  note I = invariantD [OF inv]
  let ?d = "w_db (transition t f ids now v w)"
  have d: "distinct (map vr_id (verifications (w_db w)))" using I(1) by (simp add: keys_ok_def)
  show "keys_ok (w_db w')"
    unfolding keys_ok_def w' ids_kept ins(1)
  proof (intro conjI)
    show "pending_uniq (verifications ?d)"
      using I(1) by (intro pending_uniq_kept) (simp add: keys_ok_def)
    show "idem_uq (inboundSms (w_db w'))"
      using I(1) ins(2) by (simp add: keys_ok_def idem_uq_def unique_on_def)
  qed (use I(1) in \<open>simp_all add: keys_ok_def\<close>)
  show "cap_ok cfg (w_db w')"
  proof -
    have "phone_pending (w_db w') a p = phone_pending ?d a p" for a p
      by (simp add: phone_pending_def w'(1))
    then show ?thesis
      using I(2) phone_pending_le [of ids now v w] unfolding cap_ok_def by (metis le_trans)
  qed
  show "outbox_ok (w_db w')"
    using outbox_kept [OF I(3) d v] w'(1,2) by (simp add: outbox_ok_def events_of_def)
  show "evidence now (w_db w')"
    using evidence_kept [OF d v(1) I(4) w'(1) keep_v new(1)] .
  show "bindings_ok now (w_db w')"
    using I(5) keep_b unfolding bindings_ok_def w'(3) by blast
  show "status_ok now (w_db w')"
    using status_kept [OF d v I(6) w'(1,3) new(2)] .
qed

end

context terminal_update
begin

text \<open>The case in which the inbound table is left alone: no verification is marked verified.\<close>

lemma transition_invariant_plain:
  assumes "invariant cfg (w, now)" and "v \<in> set (verifications (w_db w))" "vr_status v = Pending"
    and "t \<noteq> EvVerified" and "t = EvExpired \<Longrightarrow> vr_expiresAt v \<le> now"
  shows "invariant cfg (transition t f ids now v w, now)"
proof (rule transition_invariant [OF assms(1-3) refl refl])
  show "\<exists>i' \<in> set (inboundSms (w_db (transition t f ids now v w))). verified_by x i'"
    if "i \<in> set (inboundSms (w_db w))" "verified_by x i" for x i
    using that by (simp only: transition_simps) blast
  show "\<exists>i' \<in> set (inboundSms (w_db (transition t f ids now v w))). bound_by x i'"
    if "i \<in> set (inboundSms (w_db w))" "bound_by x i" for x i
    using that by (simp only: transition_simps) blast
qed (use assms(4,5) in simp_all)

end

lemma invariant_expire:
  assumes "invariant cfg (w, now)" and "v \<in> set (verifications (w_db w))" and "vr_expiresAt v \<le> now"
  shows "invariant cfg (lazyExpireAndEmit ok ids now (vr_id v) w, now)"
proof -
  have d: "distinct (map vr_id (verifications (w_db w)))"
    using invariantD(1) [OF assms(1)] by (simp add: keys_ok_def)
  show ?thesis
  proof (cases "lazyExpireAndEmit ok ids now (vr_id v) w = w")
    case False
    then obtain u where u: "u \<in> set (verifications (w_db w))" "vr_id u = vr_id v" "vr_status u = Pending"
        "lazyExpireAndEmit ok ids now (vr_id v) w = transition EvExpired expire_set ids now u w"
      using lazyExpire_transition [OF d] by blast
    moreover have "u = v" using d u(1,2) assms(2) by (auto simp: distinct_map inj_on_def)
    ultimately show ?thesis
      using expire.transition_invariant_plain [OF assms(1,2)] assms(3) by simp
  qed (use assms(1) in simp)
qed

lemma invariant_cancel:
  assumes "invariant cfg (w, now)"
  shows "invariant cfg (snd (cancel_tx ids now app vid w), now)"
proof -
  have d: "distinct (map vr_id (verifications (w_db w)))"
    using invariantD(1) [OF assms(1)] by (simp add: keys_ok_def)
  consider e where "cancel_tx ids now app vid w = (Inl e, w)"
    | v where "v \<in> set (verifications (w_db w))" "vr_status v = Pending"
      "cancel_tx ids now app vid w = (Inr (), transition EvCancelled (cancel_set now) ids now v w)"
    using cancel_transition [OF d, of ids now app vid] by blast
  then show ?thesis
    by cases (use assms cancel.transition_invariant_plain [OF assms] in simp_all)
qed

lemma distinct_in_id: "invariant cfg (w, now) \<Longrightarrow> i \<in> set (inboundSms (w_db w)) \<Longrightarrow>
    j \<in> set (inboundSms (w_db w)) \<Longrightarrow> in_id i = in_id j \<Longrightarrow> i = j"
  by (auto dest!: invariantD(1) simp: keys_ok_def distinct_map inj_on_def)

text \<open>Linking an unmatched message keeps the evidence of all others.\<close>

lemma set_matched_evidence:
  assumes "invariant cfg (w, now)" and "i \<in> set (inboundSms (w_db w))" and "in_matchedVerificationId i = None"
    and "j \<in> set (inboundSms (w_db w))" and that: "inboundSms (w_db w') = inboundSms (w_db w)"
    and x: "verified_by x j"
  shows "\<exists>k \<in> set (inboundSms (w_db (set_matched (in_id i) m w'))). verified_by x k"
proof -
  have "j \<noteq> i" using assms(3) x by (auto simp: verified_by_def)
  then have "in_id j \<noteq> in_id i" using distinct_in_id [OF assms(1)] assms(2,4) by blast
  then have "j \<in> set (inboundSms (w_db (set_matched (in_id i) m w')))"
    using assms(4) that by (force simp: set_update_where)
  with x show ?thesis by blast
qed

lemma set_matched_bound:
  assumes "inboundSms (w_db w') = inboundSms (w_db w)" and "j \<in> set (inboundSms (w_db w))" and "bound_by b j"
  shows "\<exists>k \<in> set (inboundSms (w_db (set_matched iid m w'))). bound_by b k"
  using assms
  by (intro bexI [of _ "if in_id j = iid then j\<lparr>in_matchedVerificationId := m\<rparr> else j"])
    (auto simp: bound_by_def set_update_where)

lemma set_matched_keys:
  "map in_id (inboundSms (w_db (set_matched iid m w))) = map in_id (inboundSms (w_db w))"
  "map idem_key (inboundSms (w_db (set_matched iid m w))) = map idem_key (inboundSms (w_db w))"
  by (simp_all add: tbl idem_key_def)

lemma set_matched_none:
  assumes "invariant cfg (w, now)" and "i \<in> set (inboundSms (w_db w))" and "in_matchedVerificationId i = None"
  shows "set_matched (in_id i) None w = w"
proof -
  have "update_where (\<lambda>x. in_id x = in_id i) (\<lambda>x. x\<lparr>in_matchedVerificationId := None\<rparr>) (inboundSms (w_db w)) = inboundSms (w_db w)"
    unfolding update_where_def
  proof (rule map_idI)
    fix x assume "x \<in> set (inboundSms (w_db w))"
    then have "in_id x = in_id i \<Longrightarrow> x = i" using distinct_in_id [OF assms(1) _ assms(2)] by blast
    moreover have "i\<lparr>in_matchedVerificationId := None\<rparr> = i" using assms(3) by (cases i) simp
    ultimately show "(if in_id x = in_id i then x\<lparr>in_matchedVerificationId := None\<rparr> else x) = x" by auto
  qed
  then show ?thesis by (simp add: set_matched_def set_inbound_def)
qed

lemma invariant_verify:
  assumes inv: "invariant cfg (w, now)" and i: "i \<in> set (inboundSms (w_db w))" "in_matchedVerificationId i = None"
    and b: "in_body i = take 1600 body" "extractCode ''VERIFY'' body = Some code"
  shows "invariant cfg (snd (verify_phase ids now locked (in_receiverId i) (in_fromE164 i) code (in_id i) w), now)"
proof -
  have d: "distinct (map vr_id (verifications (w_db w)))"
    using invariantD(1) [OF inv] by (simp add: keys_ok_def)
  note none = set_matched_none [OF inv i]
  consider "claim_tx ids now locked (in_receiverId i) (in_fromE164 i) code (in_id i) w = (None, w)"
    | v where "v \<in> set (verifications (w_db w))"
      "claimable now (in_receiverId i) (in_fromE164 i) code locked v"
      "claim_tx ids now locked (in_receiverId i) (in_fromE164 i) code (in_id i) w = (Some (claim_set now (in_id i) v),
         set_matched (in_id i) (Some (vr_id v)) (transition EvVerified (claim_set now (in_id i)) ids now v w))"
    using claim_transition [OF d, of ids now locked "in_receiverId i" "in_fromE164 i" code "in_id i"] by blast
  then show ?thesis
  proof cases
    case 1
    then show ?thesis using inv none by (simp add: verify_phase_def)
  next
    case (2 v)
    let ?t = "transition EvVerified (claim_set now (in_id i)) ids now v w"
    let ?w = "set_matched (in_id i) (Some (vr_id v)) ?t"
    have "invariant cfg (?w, now)"
    proof (rule claim.transition_invariant [OF inv 2(1)])
      show "vr_status v = Pending" using 2(2) by (simp add: claimable_def)
      have "i\<lparr>in_matchedVerificationId := Some (vr_id v)\<rparr> \<in> set (inboundSms (w_db ?w))"
        using i(1) by (auto simp: set_update_where image_iff)
      moreover have "verified_by (claim_set now (in_id i) v) (i\<lparr>in_matchedVerificationId := Some (vr_id v)\<rparr>)"
        using 2(2) b by (auto simp: verified_by_def claim_set_def claimable_def)
      ultimately show "(\<exists>k \<in> set (inboundSms (w_db ?w)). verified_by (claim_set now (in_id i) v) k) \<and>
          vr_verifiedAt (claim_set now (in_id i) v) = Some now \<and> now < vr_expiresAt v"
        using 2(2) by (auto simp: claim_set_def claimable_def)
      show "\<exists>k \<in> set (inboundSms (w_db ?w)). verified_by x k"
        if "j \<in> set (inboundSms (w_db w))" "verified_by x j" for x j
        using set_matched_evidence [OF inv i that(1) _ that(2), of ?t] by simp
      show "\<exists>k \<in> set (inboundSms (w_db ?w)). bound_by x k"
        if "j \<in> set (inboundSms (w_db w))" "bound_by x j" for x j
        using set_matched_bound [OF _ that, of ?t] by simp
      show "map in_id (inboundSms (w_db ?w)) = map in_id (inboundSms (w_db w))"
        "map idem_key (inboundSms (w_db ?w)) = map idem_key (inboundSms (w_db w))"
        using set_matched_keys [of "in_id i" "Some (vr_id v)" ?t] by simp_all
    qed simp_all
    then show ?thesis using 2(3) by (simp add: verify_phase_def)
  qed
qed

section \<open>Preservation: starting, storing and binding\<close>

lemma was_bound_update:
  assumes "was_bound d a p" and "phoneBindings d' = update_where P f (phoneBindings d)"
    and "\<And>b. active_key (f b) = active_key b \<and> (pb_boundAt b \<noteq> None \<longrightarrow> pb_boundAt (f b) \<noteq> None)"
  shows "was_bound d' a p"
proof -
  obtain b where b: "b \<in> set (phoneBindings d)" "pb_appId b = a" "pb_phoneE164 b = p" "pb_boundAt b \<noteq> None"
    using assms(1) by (auto simp: was_bound_def)
  let ?b = "if P b then f b else b"
  have "?b \<in> set (phoneBindings d')" using b(1) by (auto simp: assms(2) set_update_where)
  moreover have "pb_appId ?b = a \<and> pb_phoneE164 ?b = p \<and> pb_boundAt ?b \<noteq> None"
    using assms(3) [of b] b by (auto simp: active_key_def)
  ultimately show ?thesis by (auto simp: was_bound_def)
qed

lemma invariant_start:
  assumes inv: "invariant cfg (w, now)" and fresh: "vid \<notin> vr_id ` set (verifications (w_db w))"
    and bound: "was_bound (w_db w) (si_appId inp) (si_phoneE164 inp)"
  shows "invariant cfg (snd (start_tx cfg inp vid now dbnow code w), now)"
proof (cases "start_tx cfg inp vid now dbnow code w")
  case (Pair res w')
  show ?thesis
  proof (cases res)
    case (Inl e)
    then show ?thesis using Pair start_tx_Inl inv by fastforce
  next
    case (Inr x)
    obtain r where room: "phone_pending (w_db w) (si_appId inp) (si_phoneE164 inp) < MAX_PENDING_PER_PHONE cfg"
      and w': "w' = set_verifications (verifications (w_db w) @ [new_verification cfg inp vid now dbnow code r]) w"
      and pu: "pending_uniq (verifications (w_db w'))"
      using start_tx_Inr Pair Inr by metis
    let ?v = "new_verification cfg inp vid now dbnow code r"
    have v: "vr_id ?v = vid" "vr_status ?v = Pending" "vr_appId ?v = si_appId inp" "vr_phoneE164 ?v = si_phoneE164 inp"
      by (simp_all add: new_verification_def)
    note I = invariantD [OF inv]
    have ev: "events_of (w_db w') y = events_of (w_db w) y" for y by (simp add: events_of_def w')
    have none: "events_of (w_db w) vid = []"
      using I(3) fresh by (fastforce simp: outbox_ok_def events_of_def filter_empty_conv)
    have "invariant cfg (w', now)"
    proof (rule invariantI)
      show "keys_ok (w_db w')" using I(1) fresh pu v(1) by (auto simp: keys_ok_def w')
      show "cap_ok cfg (w_db w')" using I(2) room v by (auto simp: cap_ok_def phone_pending_def w')
      show "outbox_ok (w_db w')"
        using I(3) none v(1,2) unfolding outbox_ok_def ev by (auto simp: w' events_for_def)
      show "evidence now (w_db w')" using I(4) v(2) by (auto simp: evidence_def w')
      show "bindings_ok now (w_db w')" using I(5) by (simp add: bindings_ok_def w')
      show "status_ok now (w_db w')" using I(6) bound v by (auto simp: status_ok_def was_bound_def w')
    qed
    then show ?thesis using Pair by simp
  qed
qed

lemma invariant_inbound:
  assumes inv: "invariant cfg (w, now)" and fresh: "iid \<notin> in_id ` set (inboundSms (w_db w))"
  shows "invariant cfg (snd (insert_inbound inp iid f dbnow w), now)"
proof -
  note I = invariantD [OF inv]
  consider "insert_inbound inp iid f dbnow w = (Inl (UniqueViolation ''inbound_sms_idem_uq''), w)"
    | "insert_inbound inp iid f dbnow w = (Inr (), set_inbound (inboundSms (w_db w) @ [new_inbound inp iid f dbnow]) w)"
      "idem_uq (inboundSms (w_db w) @ [new_inbound inp iid f dbnow])"
    using insert_inbound_cases by blast
  then show ?thesis
  proof cases
    case 2
    let ?w = "set_inbound (inboundSms (w_db w) @ [new_inbound inp iid f dbnow]) w"
    have "invariant cfg (?w, now)"
    proof (rule invariantI)
      show "keys_ok (w_db ?w)" using I(1) fresh 2(2) by (auto simp: keys_ok_def new_inbound_def)
      show "cap_ok cfg (w_db ?w)" using I(2) by (simp add: cap_ok_def phone_pending_def)
      show "outbox_ok (w_db ?w)" using I(3) by (simp add: outbox_ok_def events_of_def)
      show "evidence now (w_db ?w)" using I(4) by (fastforce simp: evidence_def)
      show "bindings_ok now (w_db ?w)" using I(5) by (fastforce simp: bindings_ok_def)
      show "status_ok now (w_db ?w)" using I(6) by (simp add: status_ok_def was_bound_def)
    qed
    then show ?thesis using 2(1) by simp
  qed (use inv in simp)
qed

text \<open>A change of the bindings that loses no binding time keeps the rest of the invariant.\<close>

lemma invariant_bindings:
  assumes inv: "invariant cfg (w, now)"
    and w': "verifications (w_db w') = verifications (w_db w)" "webhookEvents (w_db w') = webhookEvents (w_db w)"
      "map in_id (inboundSms (w_db w')) = map in_id (inboundSms (w_db w))"
      "map idem_key (inboundSms (w_db w')) = map idem_key (inboundSms (w_db w))"
    and keep_v: "\<And>x i. i \<in> set (inboundSms (w_db w)) \<Longrightarrow> verified_by x i \<Longrightarrow> \<exists>i' \<in> set (inboundSms (w_db w')). verified_by x i'"
    and b: "active_uq (phoneBindings (w_db w'))" "bindings_ok now (w_db w')"
    and keep: "\<And>a p. was_bound (w_db w) a p \<Longrightarrow> was_bound (w_db w') a p"
  shows "invariant cfg (w', now)"
proof (rule invariantI)
  note I = invariantD [OF inv]
  show "keys_ok (w_db w')" using I(1) b w' by (simp add: keys_ok_def idem_uq_def unique_on_def)
  show "cap_ok cfg (w_db w')" using I(2) w'(1) by (simp add: cap_ok_def phone_pending_def)
  show "outbox_ok (w_db w')" using I(3) w'(1,2) by (simp add: outbox_ok_def events_of_def)
  show "evidence now (w_db w')" using I(4) keep_v unfolding evidence_def w'(1) by blast
  show "bindings_ok now (w_db w')" by (rule b)
  show "status_ok now (w_db w')" using I(6) keep unfolding status_ok_def w'(1) by blast
qed

lemma invariant_start_binding:
  assumes inv: "invariant cfg (w, now)"
  shows "invariant cfg (snd (startBinding cfg' pp u rb now dbnow inp w), now)"
proof (cases "startBinding cfg' pp u rb now dbnow inp w")
  case (Pair res w')
  show ?thesis
  proof (cases res)
    case (Inl e)
    then show ?thesis using Pair startBinding_error inv by fastforce
  next
    case (Inr r)
    then obtain row where w': "w' = set_bindings (phoneBindings (w_db w) @ [row]) w"
      and row: "pb_status row = BPending" "pb_boundAt row = None"
      using startBinding_ok [of cfg' pp u rb now dbnow inp w r w'] Pair by blast
    note I = invariantD [OF inv]
    have "invariant cfg (w', now)"
    proof (rule invariant_bindings [OF inv])
      show "active_uq (phoneBindings (w_db w'))"
        using I(1) row by (simp add: w' keys_ok_def active_uq_pending_snoc)
      show "bindings_ok now (w_db w')" using I(5) row by (auto simp: bindings_ok_def w')
      show "\<exists>i' \<in> set (inboundSms (w_db w')). verified_by x i'"
        if "i \<in> set (inboundSms (w_db w))" "verified_by x i" for x i
        using that by (auto simp: w')
      show "was_bound (w_db w') a p" if "was_bound (w_db w) a p" for a p
        using that by (auto simp: was_bound_def w')
    qed (simp_all add: w')
    then show ?thesis using Pair by simp
  qed
qed

lemma revokeBinding_other [simp]:
  "verifications (w_db (snd (revokeBinding now app bid w))) = verifications (w_db w)"
  "inboundSms (w_db (snd (revokeBinding now app bid w))) = inboundSms (w_db w)"
  "webhookEvents (w_db (snd (revokeBinding now app bid w))) = webhookEvents (w_db w)"
  by (auto simp: revokeBinding_def Let_def split: list.splits)

lemma invariant_revoke:
  assumes inv: "invariant cfg (w, now)"
  shows "invariant cfg (snd (revokeBinding now app bid w), now)"
proof (rule invariant_bindings [OF inv])
  note I = invariantD [OF inv]
  show "active_uq (phoneBindings (w_db (snd (revokeBinding now app bid w))))"
    using I(1) by (simp add: revokeBinding_bindings active_uq_revoke keys_ok_def)
  show "bindings_ok now (w_db (snd (revokeBinding now app bid w)))"
    using I(5) by (auto simp: bindings_ok_def revokeBinding_bindings set_update_where bound_by_def)
  show "was_bound (w_db (snd (revokeBinding now app bid w))) a p" if "was_bound (w_db w) a p" for a p
    using that by (rule was_bound_update [OF _ revokeBinding_bindings]) (simp add: active_key_def)
qed auto

lemma invariant_bind:
  assumes inv: "invariant cfg (w, now)" and i: "i \<in> set (inboundSms (w_db w))" "in_matchedVerificationId i = None"
    and b: "in_body i = take 1600 body" "extractBindNonce body = Some nonce"
  shows "invariant cfg (snd (bind_phase now (in_receiverId i) (in_fromE164 i) nonce (in_id i) w), now)"
proof -
  let ?c = "consumeBindNonce now (in_receiverId i) (in_fromE164 i) nonce w"
  let ?P = "bind_matches now (in_receiverId i) (in_fromE164 i) nonce"
  note I = invariantD [OF inv]
  have "phoneBindings (w_db (snd ?c)) = phoneBindings (w_db w) \<or>
     phoneBindings (w_db (snd ?c)) = update_where ?P (bind_set now) (phoneBindings (w_db w))"
    and uq: "active_uq (phoneBindings (w_db (snd ?c)))"
    using consumeBindNonce_bindings [of now "in_receiverId i" "in_fromE164 i" nonce w] I(1)
    by (auto simp: keys_ok_def)
  moreover have "bound_by (bind_set now x) i" if "?P x" for x
    using that b by (auto simp: bind_matches_def bound_by_def bind_set_def)
  ultimately have rows: "y \<in> set (phoneBindings (w_db w)) \<or>
      pb_boundAt y = Some now \<and> now < pb_expiresAt y \<and> bound_by y i" if "y \<in> set (phoneBindings (w_db (snd ?c)))" for y
    using that by (auto simp: set_update_where bind_set_def bind_matches_def)
  have ok: "bindings_ok now (w_db (snd ?c))"
    unfolding bindings_ok_def
  proof (intro ballI)
    fix y assume "y \<in> set (phoneBindings (w_db (snd ?c)))"
    from rows [OF this] show "(pb_status y = BVerified \<longrightarrow> pb_boundAt y \<noteq> None) \<and>
        (\<forall>t. pb_boundAt y = Some t \<longrightarrow> t < pb_expiresAt y \<and> t \<le> now \<and>
           (\<exists>i \<in> set (inboundSms (w_db (snd ?c))). bound_by y i))"
      using I(5) i(1) by (auto simp: bindings_ok_def)
  qed
  have keep: "was_bound (w_db (snd ?c)) a p" if "was_bound (w_db w) a p" for a p
    using consumeBindNonce_bindings [of now "in_receiverId i" "in_fromE164 i" nonce w]
  proof
    assume "phoneBindings (w_db (snd ?c)) = phoneBindings (w_db w)"
    then show ?thesis using that by (simp add: was_bound_def)
  next
    assume "phoneBindings (w_db (snd ?c)) = update_where ?P (bind_set now) (phoneBindings (w_db w)) \<and>
      active_uq (phoneBindings (w_db (snd ?c)))"
    then show ?thesis
      using that by (intro was_bound_update [where d' = "w_db (snd ?c)"]) (auto simp: active_key_def bind_set_def)
  qed
  have c: "invariant cfg (snd ?c, now)"
    by (rule invariant_bindings [OF inv]) (use ok uq keep in auto)
  have m: "invariant cfg (set_matched (in_id i) (Some bid) (snd ?c), now)" for bid
  proof (rule invariant_bindings [OF c])
    show "\<exists>i' \<in> set (inboundSms (w_db (set_matched (in_id i) (Some bid) (snd ?c)))). verified_by x i'"
      if "j \<in> set (inboundSms (w_db (snd ?c)))" "verified_by x j" for x j
      using set_matched_evidence [OF inv i, of j "snd ?c" x "Some bid"] that by simp
    show "bindings_ok now (w_db (set_matched (in_id i) (Some bid) (snd ?c)))"
      using ok set_matched_bound [of "snd ?c" "snd ?c"] by (fastforce simp: bindings_ok_def)
  qed (use uq in \<open>simp_all add: tbl idem_key_def was_bound_def\<close>)
  show ?thesis
    using c m by (cases ?c) (auto simp: bind_phase_def split: sum.splits consume_outcome.splits)
qed

lemma server_invariant: "reachable cfg pp s \<Longrightarrow> invariant cfg s"
proof (induction rule: reachable.induct)
  case (reach_init s)
  then show ?case by (rule invariant_initial)
next
  case (reach_step s s')
  from reach_step(2,3) show ?case
    by (cases rule: server_step.cases)
      (auto intro: invariant_tick invariant_frame invariant_start invariant_expire invariant_cancel
        invariant_inbound invariant_verify invariant_bind invariant_start_binding invariant_revoke)
qed

end
