(* ===== verification/DemoRun.thy ===== *)
theory DemoRun
  imports Server
begin

text \<open>
  A run of the state machine of \<open>Server\<close> that evaluates: a receiver, a binding ceremony, a started
  verification and the SMS that completes it. It shows that the hypotheses of the properties about
  reachable states can hold.
\<close>

section \<open>A run that evaluates\<close>

definition any_phone :: phone_parser where
  "any_phone s region =
     Some \<lparr>pp_isValid = True, pp_type = OtherType, pp_number = s, pp_nationalNumber = s, pp_country = None\<rparr>"

definition run_receiver :: receiver_row where
  "run_receiver = \<lparr>rc_id = ''rcv_1'', rc_appId = ''app_1'', rc_name = ''r'', rc_operator = None,
     rc_msisdn = ''+963900000000'', rc_secretHash = [], rc_enabled = True, rc_lastHeartbeatAt = Some 0,
     rc_createdAt = 0\<rparr>"

definition run_phone :: string where
  "run_phone = ''+963991234567''"

definition run_sms :: "string \<Rightarrow> string \<Rightarrow> match_input" where
  "run_sms body key = \<lparr>mi_receiverId = ''rcv_1'', mi_from = run_phone, mi_to = ''+963900000000'',
     mi_body = body, mi_receivedAt = 0, mi_idempotencyKey = key\<rparr>"

definition run_start :: start_input where
  "run_start = \<lparr>si_appId = ''app_1'', si_phoneE164 = run_phone, si_purpose = ''login'', si_clientRef = None,
     si_locale = None, si_ip = None, si_preferredOperator = None\<rparr>"

definition run_ids :: "string \<Rightarrow> event_ids" where
  "run_ids u = (u, \<lambda>_. u)"

definition run0 :: world where
  "run0 = empty_world\<lparr>w_db := empty_db\<lparr>receivers := [run_receiver]\<rparr>\<rparr>"

definition run1 :: world where
  "run1 = snd (startBinding default_config any_phone ''1'' zero_bytes 1000 1000
     \<lparr>sb_appId = ''app_1'', sb_receiverId = ''rcv_1'', sb_phone = run_phone\<rparr> run0)"

definition bind_text :: string where
  "bind_text = ''BIND AAAAAAAAAAAAAAAAAAAAAAAA''"

definition run2 :: world where
  "run2 = snd (insert_inbound (run_sms bind_text ''k1'') ''in_2'' (sender default_config any_phone run_phone) 1000 run1)"

definition run3 :: world where
  "run3 = snd (bind_phase 1000 ''rcv_1'' run_phone ''AAAAAAAAAAAAAAAAAAAAAAAA'' ''in_2'' run2)"

definition run4 :: world where
  "run4 = snd (start_tx default_config run_start ''vrf_3'' 1000 1000 ''A7K9P2'' run3)"

definition run5 :: world where
  "run5 = snd (insert_inbound (run_sms ''verify a7k9p2'' ''k2'') ''in_4'' (sender default_config any_phone run_phone) 1000 run4)"

definition run6 :: world where
  "run6 = snd (verify_phase (run_ids ''5'') 1000 [] ''rcv_1'' run_phone ''A7K9P2'' ''in_4'' run5)"

lemma run_facts:
  "map in_id (inboundSms (w_db run1)) = []"
  "map (\<lambda>i. (in_id i, in_receiverId i, in_fromE164 i, in_body i, in_matchedVerificationId i)) (inboundSms (w_db run2))
     = [(''in_2'', ''rcv_1'', run_phone, bind_text, None)]"
  "map (\<lambda>b. (pb_appId b, pb_phoneE164 b, pb_status b, pb_boundAt b)) (phoneBindings (w_db run3))
     = [(''app_1'', run_phone, BVerified, Some 1000)]"
  "map vr_id (verifications (w_db run3)) = []"
  "map in_id (inboundSms (w_db run4)) = [''in_2'']"
  by code_simp+

lemma run_facts5:
  "map (\<lambda>i. (in_id i, in_receiverId i, in_fromE164 i, in_body i, in_matchedVerificationId i)) (inboundSms (w_db run5))
     = [(''in_2'', ''rcv_1'', run_phone, bind_text, Some ''pbn_1''), (''in_4'', ''rcv_1'', run_phone, ''verify a7k9p2'', None)]"
  by code_simp

lemma run_facts6:
  "map (\<lambda>v. (vr_id v, vr_status v, vr_code v, vr_matchedInboundId v)) (verifications (w_db run6))
     = [(''vrf_3'', Verified, ''A7K9P2'', Some ''in_4'')]"
  by code_simp


lemma bind_text_nonce: "extractBindNonce bind_text = Some ''AAAAAAAAAAAAAAAAAAAAAAAA''"
  by code_simp

lemma verify_text_code:
  "extractBindNonce ''verify a7k9p2'' = None" "extractCode ''VERIFY'' ''verify a7k9p2'' = Some ''A7K9P2''"
  by code_simp+

lemma run3_reachable: "reachable default_config any_phone (run3, 1000)"
proof -
  have r0: "reachable default_config any_phone (run0, 1000)"
    by (rule reach_init) (simp add: initial_def run0_def empty_world_def empty_db_def)
  have r1: "reachable default_config any_phone (run1, 1000)"
    unfolding run1_def by (rule reach_step [OF r0 server_step.start_binding])
  have r2: "reachable default_config any_phone (run2, 1000)"
  proof -
    have "''in_2'' \<notin> in_id ` set (inboundSms (w_db run1))" using run_facts(1) by simp
    from server_step.inbound [OF this, of default_config any_phone 1000 "run_sms bind_text ''k1''" 1000]
    show ?thesis unfolding run2_def by (intro reach_step [OF r1]) (simp add: run_sms_def)
  qed
  show "reachable default_config any_phone (run3, 1000)"
  proof -
    obtain i where i: "i \<in> set (inboundSms (w_db run2))" "in_id i = ''in_2''" "in_receiverId i = ''rcv_1''"
        "in_fromE164 i = run_phone" "in_body i = bind_text" "in_matchedVerificationId i = None"
      using run_facts(2) by auto
    have "in_body i = take 1600 bind_text" using i(5) by (simp add: bind_text_def)
    from server_step.bind [OF i(1) i(6) this bind_text_nonce, of default_config any_phone 1000]
    show ?thesis unfolding run3_def i(2-4) by (rule reach_step [OF r2])
  qed
qed

lemma run_reachable: "reachable default_config any_phone (run6, 1000)"
proof -
  have r4: "reachable default_config any_phone (run4, 1000)"
  proof -
    have "''vrf_3'' \<notin> vr_id ` set (verifications (w_db run3))" using run_facts(4) by simp
    moreover have "was_bound (w_db run3) (si_appId run_start) (si_phoneE164 run_start)"
      using run_facts(3) by (auto simp: was_bound_def run_start_def)
    ultimately show ?thesis unfolding run4_def by (intro reach_step [OF run3_reachable] server_step.start)
  qed
  have r5: "reachable default_config any_phone (run5, 1000)"
  proof -
    have "''in_4'' \<notin> in_id ` set (inboundSms (w_db run4))" using run_facts(5) by (auto simp: map_eq_Cons_conv)
    from server_step.inbound [OF this, of default_config any_phone 1000 "run_sms ''verify a7k9p2'' ''k2''" 1000]
    show ?thesis unfolding run5_def by (intro reach_step [OF r4]) (simp add: run_sms_def)
  qed
  obtain i where i: "i \<in> set (inboundSms (w_db run5))" "in_id i = ''in_4''" "in_receiverId i = ''rcv_1''"
      "in_fromE164 i = run_phone" "in_body i = ''verify a7k9p2''" "in_matchedVerificationId i = None"
  proof -
    obtain z i where "inboundSms (w_db run5) = [z, i]" "in_id i = ''in_4''" "in_receiverId i = ''rcv_1''"
      "in_fromE164 i = run_phone" "in_body i = ''verify a7k9p2''" "in_matchedVerificationId i = None"
      using run_facts5 by (auto simp: map_eq_Cons_conv)
    then show ?thesis by (intro that [of i]) simp_all
  qed
  have "in_body i = take 1600 ''verify a7k9p2''" using i(5) by simp
  from server_step.verify [OF i(1) i(6) this verify_text_code, of default_config any_phone 1000 "run_ids ''5''" "[]"]
  show ?thesis unfolding run6_def i(2-4) by (rule reach_step [OF r5])
qed

lemma run6_verified: "\<exists>v. verifications (w_db run6) = [v] \<and> vr_id v = ''vrf_3'' \<and> vr_status v = Verified"
  using run_facts6 by (auto simp: map_eq_Cons_conv)

text \<open>Starting a verification in the state after the binding ceremony.\<close>

definition run_started :: "(exn + public_verification) \<times> world" where
  "run_started = startVerification default_config (\<lambda>_ i. i mod 31) ''9'' 1000 1000 run_start run3"

lemma run_started_eval:
  "(case fst run_started of Inr pv \<Rightarrow>
      (pv_id pv, pv_message pv, pv_expires_at pv) = (''vrf_9'', Some ''VERIFY ABCDEF'', 601000) | Inl _ \<Rightarrow> False)"
  "map vr_receiverId (verifications (w_db (snd run_started))) = [''rcv_1'']"
  "map in_idempotencyKey (inboundSms (w_db run3)) = [''k1'']"
  by code_simp+

end
