(* ===== verification/ServerProps.thy ===== *)
theory ServerProps
  imports DemoRun
begin

text \<open>
  What the state machine of \<open>Server\<close> gives: safety of verified rows, the pending cap, the outbox,
  absorbing terminal states, the operations of the services as runs of steps, and the end-to-end
  behaviour of a verification.
\<close>

section \<open>Safety\<close>







text \<open>
  C4: the outbox is exact. In every reachable state a verification has emitted exactly one webhook
  event when it is verified, expired or cancelled, of the type of its status, and none while it is
  pending; and every event belongs to a stored verification.
\<close>

theorem outbox_exactly_one:
  assumes "reachable cfg pp (w, now)"
  shows "(\<forall>v \<in> set (verifications (w_db w)).
            map ev_eventType (filter (\<lambda>e. ev_verificationId e = Some (vr_id v)) (webhookEvents (w_db w))) =
            (case vr_status v of Pending \<Rightarrow> [] | Verified \<Rightarrow> [EvVerified] | Expired \<Rightarrow> [EvExpired]
               | Cancelled \<Rightarrow> [EvCancelled] | Failed \<Rightarrow> [])) \<and>
         (\<forall>e \<in> set (webhookEvents (w_db w)). \<exists>v \<in> set (verifications (w_db w)). ev_verificationId e = Some (vr_id v))"
  using invariantD(3) [OF server_invariant [OF assms]]
  by (auto simp: outbox_ok_def events_of_def events_for_def split: verification_status.splits)

theorem outbox_exactly_one_witness:
  "\<exists>v \<in> set (verifications (w_db run6)). map ev_eventType
     (filter (\<lambda>e. ev_verificationId e = Some (vr_id v)) (webhookEvents (w_db run6))) = [EvVerified]"
proof -
  obtain v where v: "v \<in> set (verifications (w_db run6))" "vr_status v = Verified"
    using run6_verified by auto
  then show ?thesis using outbox_exactly_one [OF run_reachable] by (intro bexI [of _ v]) auto
qed

section \<open>Terminal states\<close>

lemma transition_table:
  assumes "distinct (map vr_id (verifications (w_db w)))" and "v \<in> set (verifications (w_db w))" and "v_step v (f v)"
  shows "vlife.table_step (verifications (w_db w)) (verifications (w_db (transition t f ids now v w)))"
proof -
  have "r = v" if "r \<in> set (verifications (w_db w))" "vr_id r = vr_id v" for r
    using assms(1,2) that by (auto simp: distinct_map inj_on_def)
  then show ?thesis using assms(3) by (auto intro!: vlife.table_update)
qed

lemma lazyExpire_table:
  assumes "distinct (map vr_id (verifications (w_db w)))"
  shows "vlife.table_step (verifications (w_db w)) (verifications (w_db (lazyExpireAndEmit ok ids now vid w)))"
  using lazyExpire_transition [OF assms, of ok ids now vid]
proof (elim disjE bexE conjE)
  assume "lazyExpireAndEmit ok ids now vid w = w"
  then show ?thesis by (simp add: vlife.table_refl)
next
  fix v assume v: "v \<in> set (verifications (w_db w))" "vr_status v = Pending"
    and e: "lazyExpireAndEmit ok ids now vid w = transition EvExpired expire_set ids now v w"
  show ?thesis unfolding e by (rule transition_table [where f = expire_set, OF assms v(1) v_step.v_expire [OF v(2)]])
qed

lemma cancel_table:
  assumes "distinct (map vr_id (verifications (w_db w)))"
  shows "vlife.table_step (verifications (w_db w)) (verifications (w_db (snd (cancel_tx ids now app vid w))))"
  using cancel_transition [OF assms, of ids now app vid]
proof (elim disjE bexE conjE exE)
  fix e assume "cancel_tx ids now app vid w = (Inl e, w)"
  then show ?thesis by (simp add: vlife.table_refl)
next
  fix v assume v: "v \<in> set (verifications (w_db w))" "vr_status v = Pending"
    and e: "cancel_tx ids now app vid w = (Inr (), transition EvCancelled (cancel_set now) ids now v w)"
  show ?thesis unfolding e snd_conv by (rule transition_table [where f = "cancel_set now", OF assms v(1) v_step.v_cancel [OF v(2)]])
qed

lemma verify_table:
  assumes "distinct (map vr_id (verifications (w_db w)))"
  shows "vlife.table_step (verifications (w_db w))
     (verifications (w_db (snd (verify_phase ids now locked rid f code iid w))))"
  using claim_transition [OF assms, of ids now locked rid f code iid]
proof (elim disjE bexE conjE)
  assume "claim_tx ids now locked rid f code iid w = (None, w)"
  then show ?thesis by (simp add: verify_phase_def vlife.table_refl)
next
  fix v assume v: "v \<in> set (verifications (w_db w))" "claimable now rid f code locked v"
    and e: "claim_tx ids now locked rid f code iid w = (Some (claim_set now iid v),
         set_matched iid (Some (vr_id v)) (transition EvVerified (claim_set now iid) ids now v w))"
  have "verifications (w_db (snd (verify_phase ids now locked rid f code iid w)))
      = verifications (w_db (transition EvVerified (claim_set now iid) ids now v w))"
    by (simp add: verify_phase_def e)
  moreover have "v_step v (claim_set now iid v)" using v(2) by (auto simp: claimable_def intro: v_step.v_claim)
  ultimately show ?thesis using transition_table [OF assms v(1)] by (simp only:)
qed

lemma server_step_verifications:
  assumes "invariant cfg s" and "server_step cfg pp s s'"
  shows "vlife.table_step (verifications (w_db (fst s))) (verifications (w_db (fst s')))"
proof -
  obtain w now where s: "s = (w, now)" by (cases s)
  have d: "distinct (map vr_id (verifications (w_db w)))"
    using invariantD(1) [OF assms(1) [unfolded s]] by (simp add: keys_ok_def)
  have same: "vlife.table_step (verifications (w_db w)) vs" if "vs = verifications (w_db w)" for vs
    using that vlife.table_refl by simp
  from assms(2) have "vlife.table_step (verifications (w_db w)) (verifications (w_db (fst s')))"
    unfolding s
  proof (cases rule: server_step.cases)
    case (start vid inp dbnow code)
    obtain res w' where r: "start_tx cfg inp vid now dbnow code w = (res, w')" by fastforce
    have "vlife.table_step (verifications (w_db w)) (verifications (w_db w'))"
    proof (cases res)
      case (Inl e)
      then show ?thesis using r start_tx_Inl by (fastforce intro!: same)
    next
      case (Inr x)
      then obtain r' where "w' = set_verifications (verifications (w_db w) @ [r']) w"
        using r start_tx_Inr by blast
      then show ?thesis using vlife.table_append by simp
    qed
    with start r show ?thesis by simp
  next
    case (expire v ok ids)
    then show ?thesis using lazyExpire_table [OF d] by simp
  next
    case (cancel ids app vid)
    then show ?thesis using cancel_table [OF d] by simp
  next
    case (verify i body code ids locked)
    then show ?thesis using verify_table [OF d] by simp
  next
    case (bind i body nonce)
    have "verifications (w_db (snd (bind_phase now rid f n iid w))) = verifications (w_db w)" for rid f n iid
      using consumeBindNonce_other(1) [of now rid f n w]
      by (cases "consumeBindNonce now rid f n w")
        (auto simp: bind_phase_def split: sum.splits consume_outcome.splits)
    with bind show ?thesis by (auto intro!: same)
  next
    case (start_binding u rb dbnow inp)
    have "verifications (w_db (snd (startBinding cfg pp u rb now dbnow inp w))) = verifications (w_db w)"
      by (auto simp: startBinding_def Let_def split: sum.splits option.splits)
    with start_binding show ?thesis by (auto intro!: same)
  next
    case (inbound iid inp dbnow)
    then show ?thesis
      by (auto intro!: same simp: insert_inbound_def Let_def)
  qed (auto intro!: same simp: same_core_def)
  then show ?thesis by (simp add: s)
qed

lemma run_table:
  assumes "(server_step cfg pp)\<^sup>*\<^sup>* s s'" and "reachable cfg pp s"
  shows "reachable cfg pp s' \<and>
     (vlife.table_step)\<^sup>*\<^sup>* (verifications (w_db (fst s))) (verifications (w_db (fst s')))"
  using assms
proof (induction rule: rtranclp_induct)
  case (step a b)
  then have "reachable cfg pp a" by simp
  then show ?case
    using step server_step_verifications [OF server_invariant] reach_step by (metis rtranclp.rtrancl_into_rtrancl)
qed simp

text \<open>
  C3: terminal states absorb. Once a verification of a reachable state is verified, expired or cancelled, its row is
  the same in every state that any sequence of steps reaches from there: it cannot be revived,
  verified twice, or have its code, phone, times or link rewritten.
\<close>

theorem terminal_absorbing:
  assumes "reachable cfg pp s" and "(server_step cfg pp)\<^sup>*\<^sup>* s s'"
    and "v \<in> set (verifications (w_db (fst s)))" and "vr_status v \<noteq> Pending"
  shows "v \<in> set (verifications (w_db (fst s')))"
  using vlife.final_kept [OF conjunct2 [OF run_table [OF assms(2,1)]] assms(3,4)] by simp

theorem terminal_absorbing_witness:
  "\<exists>v. vr_status v = Verified \<and> v \<in> set (verifications (w_db (snd (cancel_tx (run_ids ''9'') 2000 ''app_1'' ''vrf_3'' run6))))"
proof -
  obtain v where v: "v \<in> set (verifications (w_db run6))" "vr_status v = Verified" using run6_verified by auto
  have "server_step default_config any_phone (run6, 1000) (run6, 2000)" by (rule server_step.tick) simp
  moreover have "server_step default_config any_phone (run6, 2000)
      (snd (cancel_tx (run_ids ''9'') 2000 ''app_1'' ''vrf_3'' run6), 2000)" by (rule server_step.cancel)
  ultimately have "(server_step default_config any_phone)\<^sup>*\<^sup>* (run6, 1000)
      (snd (cancel_tx (run_ids ''9'') 2000 ''app_1'' ''vrf_3'' run6), 2000)"
    by (meson rtranclp.rtrancl_into_rtrancl rtranclp.rtrancl_refl)
  then show ?thesis using terminal_absorbing [OF run_reachable, of _ v] v by auto
qed

section \<open>The operations are runs of steps\<close>

lemma frame_metric: "reachable cfg pp (w, now) \<Longrightarrow> reachable cfg pp (metric m w, now)"
  by (erule reach_step) (rule server_step.frame, simp add: same_core_def)

lemma is_bound_was_bound:
  "reachable cfg pp (w, now) \<Longrightarrow> is_bound (w_db w) a p \<Longrightarrow> was_bound (w_db w) a p"
  using invariantD(5) [OF server_invariant, of cfg pp w now]
  by (auto simp: is_bound_def was_bound_def bindings_ok_def list_ex_iff)

lemma collision_loop_reachable:
  assumes "reachable cfg pp (w, now)" and "vid \<notin> vr_id ` set (verifications (w_db w))"
    and "was_bound (w_db w) (si_appId inp) (si_phoneE164 inp)"
  shows "reachable cfg pp (snd (collision_loop cfg rnd (start_tx cfg inp vid now dbnow) i n w), now)"
  using assms
proof (induction n arbitrary: i w)
  case 0
  then show ?case by (simp add: frame_metric)
next
  case (Suc n)
  show ?case
  proof (cases "generateCode (rnd i) (VERIFICATION_CODE_LENGTH cfg)")
    case (Inl e)
    then show ?thesis using Suc.prems by simp
  next
    case (Inr code)
    obtain res w1 where r: "start_tx cfg inp vid now dbnow code w = (res, w1)" by fastforce
    have w1: "reachable cfg pp (w1, now)"
      using reach_step [OF Suc.prems(1) server_step.start [OF Suc.prems(2,3), of cfg pp now dbnow code]] r by simp
    show ?thesis
    proof (cases res)
      case (Inl e)
      then have "w1 = w" using r start_tx_Inl by blast
      then have "reachable cfg pp (snd (collision_loop cfg rnd (start_tx cfg inp vid now dbnow) (Suc i) n
          (metric (VerificationCodeCollision C_retried) w1)), now)"
        using Suc.prems by (intro Suc.IH) (simp_all add: frame_metric)
      with w1 show ?thesis using Inr Inl r by simp
    qed (use w1 Inr r in simp)
  qed
qed

lemma startVerification_reachable:
  assumes "reachable cfg pp (w, now)" and "newId ''vrf'' u \<notin> vr_id ` set (verifications (w_db w))"
  shows "reachable cfg pp (snd (startVerification cfg rnd u now dbnow inp w), now)"
proof (cases "is_bound (w_db w) (si_appId inp) (si_phoneE164 inp)")
  case True
  note b = is_bound_was_bound [OF assms(1) True]
  obtain res w1 where r: "runWithCodeCollisionRetry cfg rnd (start_tx cfg inp (newId ''vrf'' u) now dbnow) w = (res, w1)"
    by fastforce
  have "reachable cfg pp (w1, now)"
    using collision_loop_reachable [OF assms b, of rnd dbnow 0 3] r
    by (simp add: runWithCodeCollisionRetry_def MAX_CODE_COLLISION_RETRIES_def)
  then show ?thesis using True r frame_metric
    by (auto simp: startVerification_def Let_def split: sum.splits)
qed (use assms in \<open>simp add: startVerification_def\<close>)

lemma after_read_reachable:
  "reachable cfg pp (w, now) \<Longrightarrow> v \<in> set (verifications (w_db w)) \<Longrightarrow> reachable cfg pp (after_read ok ids now v w, now)"
  unfolding after_read_def past_ttl_def by (auto intro: reach_step server_step.expire)

lemma getVerification_reachable:
  assumes "reachable cfg pp (w, now)"
  shows "reachable cfg pp (snd (getVerification ok ids now app vid w), now)"
proof (cases "select_one (\<lambda>v. vr_id v = vid \<and> vr_appId v = app) (verifications (w_db w))")
  case (Some v)
  then show ?thesis using select_one_Some [OF Some] after_read_reachable [OF assms] by (simp add: getVerification_def)
qed (use assms in \<open>simp add: getVerification_def\<close>)

lemma getHosted_reachable:
  assumes "reachable cfg pp (w, now)"
  shows "reachable cfg pp (snd (getHostedVerification ok ids now vid w), now)"
proof (cases "select_one (\<lambda>v. vr_id v = vid) (verifications (w_db w))")
  case (Some v)
  then show ?thesis
    using select_one_Some [OF Some] after_read_reachable [OF assms] by (simp add: getHostedVerification_def Let_def)
qed (use assms in \<open>simp add: getHostedVerification_def\<close>)

lemma getHostedStatus_reachable:
  assumes "reachable cfg pp (w, now)"
  shows "reachable cfg pp (snd (getHostedVerificationStatus ok ids now vid w), now)"
proof (cases "select_one (\<lambda>v. vr_id v = vid) (verifications (w_db w))")
  case (Some v)
  then show ?thesis
    using select_one_Some [OF Some] after_read_reachable [OF assms] by (simp add: getHostedVerificationStatus_def)
qed (use assms in \<open>simp add: getHostedVerificationStatus_def\<close>)

lemma cancelVerification_reachable:
  assumes "reachable cfg pp (w, now)"
  shows "reachable cfg pp (snd (cancelVerification ok ids ids2 now app vid w), now)"
proof -
  have "reachable cfg pp (snd (cancel_tx ids now app vid w), now)"
    by (rule reach_step [OF assms server_step.cancel])
  then show ?thesis
    using getVerification_reachable
    by (cases "cancel_tx ids now app vid w") (auto simp: cancelVerification_def split: sum.splits)
qed

lemma processInbound_reachable:
  assumes "reachable cfg pp (w, now)" and "newId ''in'' u \<notin> in_id ` set (inboundSms (w_db w))"
  shows "reachable cfg pp (snd (processInbound cfg pp u ids now dbnow locked inp w), now)"
proof -
  let ?iid = "newId ''in'' u" and ?from = "sender cfg pp (mi_from inp)"
  let ?row = "new_inbound inp ?iid ?from dbnow"
  consider "insert_inbound inp ?iid ?from dbnow w = (Inl (UniqueViolation ''inbound_sms_idem_uq''), w)"
    | "insert_inbound inp ?iid ?from dbnow w = (Inr (), set_inbound (inboundSms (w_db w) @ [?row]) w)"
    using insert_inbound_cases by blast
  then show ?thesis
  proof cases
    case 1
    then show ?thesis using assms by (auto simp: processInbound_def Let_def split: option.splits)
  next
    case 2
    let ?w = "set_inbound (inboundSms (w_db w) @ [?row]) w"
    have r: "reachable cfg pp (?w, now)"
      using reach_step [OF assms(1) server_step.inbound [OF assms(2), of cfg pp now inp dbnow]] 2 by simp
    have row: "?row \<in> set (inboundSms (w_db ?w))" "in_matchedVerificationId ?row = None"
        "in_body ?row = take 1600 (mi_body inp)" "in_receiverId ?row = mi_receiverId inp"
        "in_fromE164 ?row = ?from" "in_id ?row = ?iid"
      by (simp_all add: new_inbound_def)
    have b: "reachable cfg pp (snd (bind_phase now (mi_receiverId inp) ?from nonce ?iid ?w), now)"
      if "extractBindNonce (mi_body inp) = Some nonce" for nonce
      using reach_step [OF r server_step.bind [OF row(1-3) that]] by (simp only: row(4-6))
    have v: "reachable cfg pp (snd (verify_phase ids now locked (mi_receiverId inp) ?from code ?iid ?w), now)"
      if "extractBindNonce (mi_body inp) = None" "extractCode ''VERIFY'' (mi_body inp) = Some code" for code
      using reach_step [OF r server_step.verify [OF row(1-3) that]] by (simp only: row(4-6))
    show ?thesis
      unfolding processInbound_def Let_def 2
      using r b v by (cases "extractBindNonce (mi_body inp)"; cases "extractCode ''VERIFY'' (mi_body inp)") simp_all
  qed
qed

text \<open>
  The operations refine the state machine. From a reachable state, each operation of the verification,
  binding and matching services, run to completion with fresh identifiers, ends in a reachable
  state, whatever its arguments and its outcome: every composed operation is a sequence of the
  steps over which the invariants are proved.
\<close>

theorem operations_refine_steps:
  assumes "reachable cfg pp (w, now)"
    and "newId ''vrf'' u \<notin> vr_id ` set (verifications (w_db w))"
    and "newId ''in'' u' \<notin> in_id ` set (inboundSms (w_db w))"
  shows "reachable cfg pp (snd (startVerification cfg rnd u now dbnow inp w), now) \<and>
         reachable cfg pp (snd (getVerification ok ids now app vid w), now) \<and>
         reachable cfg pp (snd (cancelVerification ok ids ids2 now app vid w), now) \<and>
         reachable cfg pp (snd (getHostedVerification ok ids now vid w), now) \<and>
         reachable cfg pp (snd (getHostedVerificationStatus ok ids now vid w), now) \<and>
         reachable cfg pp (snd (processInbound cfg pp u' ids now dbnow locked msg w), now) \<and>
         reachable cfg pp (snd (startBinding cfg pp u'' rb now dbnow binp w), now) \<and>
         reachable cfg pp (snd (revokeBinding now app bid w), now)"
  by (intro conjI startVerification_reachable [OF assms(1,2)] getVerification_reachable [OF assms(1)]
      cancelVerification_reachable [OF assms(1)] getHosted_reachable [OF assms(1)]
      getHostedStatus_reachable [OF assms(1)] processInbound_reachable [OF assms(1,3)]
      reach_step [OF assms(1) server_step.start_binding] reach_step [OF assms(1) server_step.revoke])

theorem operations_refine_steps_witness:
  "reachable default_config any_phone
     (snd (cancelVerification True (run_ids ''7'') (run_ids ''8'') 1000 ''app_1'' ''vrf_3'' run6), 1000)"
proof -
  have "newId ''vrf'' ''9'' \<notin> vr_id ` set (verifications (w_db run6))"
    using run6_verified by (auto simp: newId_def)
  moreover obtain u where "newId ''in'' u \<notin> in_id ` set (inboundSms (w_db run6))"
  proof -
    have "finite (newId ''in'' -` (in_id ` set (inboundSms (w_db run6))))"
      by (rule finite_vimageI) (simp_all add: inj_on_def newId_def)
    from ex_new_if_finite [OF infinite_UNIV_listI this] that show ?thesis by auto
  qed
  ultimately show ?thesis using operations_refine_steps [OF run_reachable] by blast
qed

section \<open>End to end\<close>

lemma collision_loop_Inr:
  assumes "collision_loop cfg rnd (start_tx cfg inp vid now dbnow) i n w = (Inr x, w')"
  shows "\<exists>r code j. x = (r, code) \<and> generateCode (rnd j) (VERIFICATION_CODE_LENGTH cfg) = Inr code \<and>
     w_db w' = w_db (set_verifications (verifications (w_db w) @ [new_verification cfg inp vid now dbnow code r]) w) \<and>
     pending_uniq (verifications (w_db w'))"
  using assms
proof (induction n arbitrary: i w)
  case (Suc n)
  show ?case
  proof (cases "generateCode (rnd i) (VERIFICATION_CODE_LENGTH cfg)")
    case (Inr code)
    obtain res w1 where r: "start_tx cfg inp vid now dbnow code w = (res, w1)" by fastforce
    show ?thesis
    proof (cases res)
      case (Inl e)
      then have "w1 = w" using r start_tx_Inl by blast
      moreover have "collision_loop cfg rnd (start_tx cfg inp vid now dbnow) (Suc i) n
          (metric (VerificationCodeCollision C_retried) w1) = (Inr x, w')"
        using Suc.prems Inr Inl r by (simp split: if_splits)
      ultimately show ?thesis using Suc.IH by (fastforce simp: set_verifications_def)
    next
      case (Inr y)
      then show ?thesis
        using Suc.prems r \<open>generateCode _ _ = Inr code\<close> start_tx_Inr [of cfg inp vid now dbnow code w y w1] by auto
    qed
  qed (use Suc.prems in simp)
qed simp

lemma startVerification_Inr:
  assumes "startVerification cfg rnd u now dbnow inp w = (Inr pv, w')"
  shows "\<exists>r code j. generateCode (rnd j) (VERIFICATION_CODE_LENGTH cfg) = Inr code \<and>
     verifications (w_db w') = verifications (w_db w) @ [new_verification cfg inp (newId ''vrf'' u) now dbnow code r] \<and>
     inboundSms (w_db w') = inboundSms (w_db w) \<and> pending_uniq (verifications (w_db w')) \<and>
     pv_id pv = newId ''vrf'' u \<and> pv_message pv = Some (''VERIFY '' @ code) \<and> pv_send_to pv = Some (pk_msisdn r) \<and>
     pv_expires_at pv = now + VERIFICATION_TTL_SECONDS cfg * 1000 \<and> is_bound (w_db w) (si_appId inp) (si_phoneE164 inp)"
proof -
  obtain x w1 where run: "runWithCodeCollisionRetry cfg rnd (start_tx cfg inp (newId ''vrf'' u) now dbnow) w = (Inr x, w1)"
    and pv: "(Inr pv, w') = (case x of (receiver, code) \<Rightarrow>
          (Inr \<lparr>pv_id = newId ''vrf'' u, pv_status = Pending, pv_phone_masked = maskPhone (si_phoneE164 inp),
                pv_send_to = Some (pk_msisdn receiver), pv_message = Some (''VERIFY'' @ '' '' @ code),
                pv_client_ref = si_clientRef inp, pv_purpose = si_purpose inp, pv_verified_at = None,
                pv_expires_at = now + VERIFICATION_TTL_SECONDS cfg * 1000, pv_created_at = now,
                pv_attempts = 0\<rparr> :: exn + public_verification,
           metric (ReceiverSelected (pk_match receiver)) w1))"
    and b: "is_bound (w_db w) (si_appId inp) (si_phoneE164 inp)"
    using assms by (auto simp: startVerification_def Let_def split: if_splits sum.splits prod.splits)
  obtain r code j where "x = (r, code)" "generateCode (rnd j) (VERIFICATION_CODE_LENGTH cfg) = Inr code"
     "w_db w1 = w_db (set_verifications (verifications (w_db w) @ [new_verification cfg inp (newId ''vrf'' u) now dbnow code r]) w)"
     "pending_uniq (verifications (w_db w1))"
    using collision_loop_Inr [OF run [unfolded runWithCodeCollisionRetry_def]] by blast
  with pv b show ?thesis by (intro exI [of _ r] exI [of _ code] exI [of _ j]) simp
qed

lemma claim_selects:
  assumes "pending_uniq vs" and "v \<in> set vs" and "claimable t rid f code locked v"
  shows "select_one (claimable t rid f code locked) vs = Some v"
proof -
  have "select_one (claimable t rid f code locked) vs \<noteq> None" using assms by (auto simp: select_one_None)
  then obtain u where u: "select_one (claimable t rid f code locked) vs = Some u" by auto
  have u': "u \<in> set vs" "claimable t rid f code locked u" using select_one_Some [OF u] by auto
  have "vr_status u = Pending" "vr_status v = Pending" "pending_key u = pending_key v"
    using u'(2) assms(3) by (simp_all add: claimable_def pending_key_def)
  then have "u = v" by (rule unique_onD [OF assms(1) [unfolded pending_uniq_def] u'(1) assms(2)])
  with u show ?thesis by simp
qed

text \<open>A fresh \<open>VERIFY\<close> message for a claimable row claims exactly that row.\<close>

lemma processInbound_claims:
  assumes "pending_uniq (verifications (w_db w))" and "distinct (map vr_id (verifications (w_db w)))"
    and "v \<in> set (verifications (w_db w))"
    and "claimable t (mi_receiverId msg) (sender cfg pp (mi_from msg)) code locked v"
    and "extractBindNonce (mi_body msg) = None" and "extractCode ''VERIFY'' (mi_body msg) = Some code"
    and "idem_uq (inboundSms (w_db w) @ [new_inbound msg (newId ''in'' u) (sender cfg pp (mi_from msg)) dbnow])"
  shows "\<exists>w2. processInbound cfg pp u ids t dbnow locked msg w = (Inr (MatchedVerification (vr_id v) (newId ''in'' u)), w2) \<and>
     verifications (w_db w2) = update_where (\<lambda>x. vr_id x = vr_id v) (claim_set t (newId ''in'' u)) (verifications (w_db w))"
proof -
  let ?iid = "newId ''in'' u" and ?from = "sender cfg pp (mi_from msg)"
  let ?w = "set_inbound (inboundSms (w_db w) @ [new_inbound msg ?iid ?from dbnow]) w"
  have sel: "select_one (claimable t (mi_receiverId msg) ?from code locked) (verifications (w_db ?w)) = Some v"
    using claim_selects [OF assms(1,3,4)] by simp
  have ret: "returning (\<lambda>x. vr_id x = vr_id v) (claim_set t ?iid) (verifications (w_db ?w)) = [claim_set t ?iid v]"
    using update_where_id_unique(2) [OF assms(2,3), of "\<lambda>_. True"] by simp
  have "claim_tx ids t locked (mi_receiverId msg) ?from code ?iid ?w =
      (Some (claim_set t ?iid v), set_matched ?iid (Some (vr_id v)) (emit_for EvVerified ids t (claim_set t ?iid v)
         (set_verifications (update_where (\<lambda>x. vr_id x = vr_id v) (claim_set t ?iid) (verifications (w_db ?w))) ?w)))"
    unfolding claim_tx_def Let_def sel option.case ret list.case by (simp add: claim_set_def)
  moreover have "insert_inbound msg ?iid ?from dbnow w = (Inr (), ?w)"
    using assms(7) by (simp add: insert_inbound_def)
  ultimately show ?thesis
    using assms(5,6) by (simp add: processInbound_def Let_def verify_phase_def claim_set_def)
qed

lemma getVerification_row:
  assumes "distinct (map vr_id (verifications (w_db w)))" and "x \<in> set (verifications (w_db w))"
  shows "\<exists>view. fst (getVerification ok ids t (vr_appId x) (vr_id x) w) = Inr view \<and>
     pv_status view = effective_status t x \<and> pv_verified_at view = vr_verifiedAt x"
proof -
  let ?P = "\<lambda>v. vr_id v = vr_id x \<and> vr_appId v = vr_appId x"
  have "select_one ?P (verifications (w_db w)) \<noteq> None" using assms(2) by (auto simp: select_one_None)
  then obtain y where y: "select_one ?P (verifications (w_db w)) = Some y" by auto
  then have "y \<in> set (verifications (w_db w))" "vr_id y = vr_id x" using select_one_Some [OF y] by auto
  then have "y = x" using assms by (auto simp: distinct_map inj_on_def)
  with y show ?thesis by (simp add: getVerification_def)
qed

lemma issued_text_reads:
  assumes "generateCode rnd len = Inr code" and "\<And>i. rnd i < 31"
  shows "extractCode ''VERIFY'' (''VERIFY '' @ code) = Some code" "extractBindNonce (''VERIFY '' @ code) = None"
proof -
  have "4 \<le> len \<and> len \<le> 32" using assms(1) by (auto simp: generateCode_def split: if_splits)
  then have tok: "verify_cmd.token code"
    using generateCode_ok [of rnd len] assms by (auto simp: verify_cmd.token_def)
  then show v: "extractCode ''VERIFY'' (''VERIFY '' @ code) = Some code"
    using verify_cmd.roundtrip [OF tok] by simp
  have "\<not> starts_with (js_upper (js_trim (''VERIFY '' @ code))) ''BIND''"
    using verify_cmd.reads_prefix [OF v] by (auto simp: starts_with_decomp)
  then show "extractBindNonce (''VERIFY '' @ code) = None"
    using bind_cmd.reads_prefix by (cases "extractBindNonce (''VERIFY '' @ code)") auto
qed

text \<open>
  C2: a verification completes. Start a verification; then let the phone send the message it was told
  to send, to the receiver of the verification, before the expiry time and with a new idempotency
  key. The message is answered as matched to this verification, and every later read of it reports
  "verified".
\<close>

theorem start_then_sms_verifies:
  assumes "reachable cfg pp (w, now)" and "newId ''vrf'' u \<notin> vr_id ` set (verifications (w_db w))"
    and "startVerification cfg rnd u now dbnow inp w = (Inr pv, w1)" and "\<And>i j. rnd i j < 31"
    and "verifications (w_db w1) = vs @ [v]" and "mi_receiverId msg = vr_receiverId v"
    and "pv_message pv = Some (mi_body msg)" and "sender cfg pp (mi_from msg) = si_phoneE164 inp"
    and "\<forall>i \<in> set (inboundSms (w_db w)). in_receiverId i = mi_receiverId msg \<longrightarrow> in_idempotencyKey i \<noteq> mi_idempotencyKey msg"
    and "t < pv_expires_at pv" and "pv_id pv \<notin> set locked"
  shows "\<exists>w2. processInbound cfg pp u2 ids t dbnow2 locked msg w1 = (Inr (MatchedVerification (pv_id pv) (newId ''in'' u2)), w2) \<and>
     (\<forall>ok ids2 t2. \<exists>view. fst (getVerification ok ids2 t2 (si_appId inp) (pv_id pv) w2) = Inr view \<and>
         pv_status view = Verified \<and> pv_verified_at view = Some t)"
proof -
  obtain r code j where g: "generateCode (rnd j) (VERIFICATION_CODE_LENGTH cfg) = Inr code"
    and vs: "verifications (w_db w1) = verifications (w_db w) @ [new_verification cfg inp (newId ''vrf'' u) now dbnow code r]"
    and ins: "inboundSms (w_db w1) = inboundSms (w_db w)" and pu: "pending_uniq (verifications (w_db w1))"
    and pv: "pv_id pv = newId ''vrf'' u" "pv_message pv = Some (''VERIFY '' @ code)"
      "pv_expires_at pv = now + VERIFICATION_TTL_SECONDS cfg * 1000"
    using startVerification_Inr [OF assms(3)] by blast
  note K = invariantD(1) [OF server_invariant [OF assms(1)], unfolded keys_ok_def]
  have v: "v = new_verification cfg inp (newId ''vrf'' u) now dbnow code r" "v \<in> set (verifications (w_db w1))"
    "vr_id v = pv_id pv" "vr_appId v = si_appId inp"
    using vs assms(5) pv(1) by (simp_all add: new_verification_def)
  have d: "distinct (map vr_id (verifications (w_db w1)))"
    using K assms(2) by (simp add: vs new_verification_def)
  have body: "mi_body msg = ''VERIFY '' @ code" using assms(7) pv(2) by simp
  have cl: "claimable t (mi_receiverId msg) (sender cfg pp (mi_from msg)) code locked v"
    using assms(6,8,10,11) pv by (simp add: claimable_def v(1) new_verification_def)
  have idem: "idem_uq (inboundSms (w_db w1) @ [new_inbound msg (newId ''in'' u2) (sender cfg pp (mi_from msg)) dbnow2])"
    using K assms(9) by (auto simp: ins idem_uq_def unique_on_snoc idem_key_def new_inbound_def)
  obtain w2 where w2: "processInbound cfg pp u2 ids t dbnow2 locked msg w1
        = (Inr (MatchedVerification (vr_id v) (newId ''in'' u2)), w2)"
      "verifications (w_db w2) = update_where (\<lambda>x. vr_id x = vr_id v) (claim_set t (newId ''in'' u2)) (verifications (w_db w1))"
    using processInbound_claims [OF pu d v(2) cl _ _ idem, of ids]
      issued_text_reads [OF g assms(4)] body by auto
  let ?x = "claim_set t (newId ''in'' u2) v"
  have "?x \<in> set (verifications (w_db w2))" using v(2) by (auto simp: w2(2) set_update_where)
  moreover have "distinct (map vr_id (verifications (w_db w2)))"
    using d unfolding w2(2) by (subst map_update_where) (simp_all add: claim_set_def)
  ultimately have "\<exists>view. fst (getVerification ok ids2 t2 (vr_appId ?x) (vr_id ?x) w2) = Inr view \<and>
     pv_status view = effective_status t2 ?x \<and> pv_verified_at view = vr_verifiedAt ?x" for ok ids2 t2
    by (intro getVerification_row)
  then have "\<exists>view. fst (getVerification ok ids2 t2 (si_appId inp) (pv_id pv) w2) = Inr view \<and>
     pv_status view = Verified \<and> pv_verified_at view = Some t" for ok ids2 t2
    using v(3,4) by (simp add: claim_set_def effective_status_def past_ttl_def)
  with w2(1) v(3) show ?thesis by auto
qed

theorem start_then_sms_verifies_witness:
  "\<exists>pv w1 w2. startVerification default_config (\<lambda>_ i. i mod 31) ''9'' 1000 1000 run_start run3 = (Inr pv, w1) \<and>
     processInbound default_config any_phone ''5'' (run_ids ''6'') 2000 2000 [] (run_sms ''VERIFY ABCDEF'' ''k2'') w1
       = (Inr (MatchedVerification ''vrf_9'' ''in_5''), w2)"
proof -
  obtain pv w1 where r: "run_started = (Inr pv, w1)"
    and pv: "pv_id pv = ''vrf_9''" "pv_message pv = Some ''VERIFY ABCDEF''" "pv_expires_at pv = 601000"
  proof (cases run_started)
    case (Pair res w1)
    note e = run_started_eval(1) [unfolded Pair fst_conv]
    then obtain pv where pv: "res = Inr pv" by (cases res) auto
    from e show ?thesis unfolding pv by (intro that [of pv w1]) (simp_all add: Pair pv)
  qed
  obtain v where v: "verifications (w_db w1) = [] @ [v]" "vr_receiverId v = ''rcv_1''"
    using run_started_eval(2) [unfolded r snd_conv] by (auto simp: map_eq_Cons_conv)
  have p: "sender default_config any_phone run_phone = run_phone" by code_simp
  have fresh: "newId ''vrf'' ''9'' \<notin> vr_id ` set (verifications (w_db run3))" using run_facts(4) by simp
  have k: "\<forall>i \<in> set (inboundSms (w_db run3)). in_idempotencyKey i \<noteq> ''k2''"
    using run_started_eval(3) by (auto simp: map_eq_Cons_conv)
  have "startVerification default_config (\<lambda>_ i. i mod 31) ''9'' 1000 1000 run_start run3 = (Inr pv, w1)"
    using r by (simp add: run_started_def)
  moreover have "\<exists>w2. processInbound default_config any_phone ''5'' (run_ids ''6'') 2000 2000 []
      (run_sms ''VERIFY ABCDEF'' ''k2'') w1 = (Inr (MatchedVerification (pv_id pv) (newId ''in'' ''5'')), w2)"
    using start_then_sms_verifies [where msg = "run_sms ''VERIFY ABCDEF'' ''k2''" and t = 2000 and locked = "[]"
        and ?u2.0 = "''5''" and ids = "run_ids ''6''" and ?dbnow2.0 = 2000, OF run3_reachable fresh calculation _ v(1)]
      v(2) pv p k by (simp add: run_sms_def run_start_def) blast
  ultimately show ?thesis using pv(1) by (auto simp: newId_def)
qed

end
