(* ===== verification/RouteProps.thy ===== *)
theory RouteProps
  imports RoutesGateway RoutesBackend ServerProps
begin

text \<open>
  What holds of whole requests: the routes run the state machine of \<open>Server\<close> and so keep its
  invariants, are closed to requests without a key or a valid signature, and show an application
  nothing of another one.
\<close>

section \<open>Handlers that leave the core tables alone\<close>

definition core_frame :: "world \<Rightarrow> world \<Rightarrow> bool" where
  "core_frame w w' \<longleftrightarrow> same_core (w_db w) (w_db w')"

lemma core_frame_refl: "core_frame w w" and core_frame_trans: "core_frame a b \<Longrightarrow> core_frame b c \<Longrightarrow> core_frame a c"
  by (simp_all add: core_frame_def same_core_def)

lemmas core_pure [framing] = frames_pure [of core_frame, OF core_frame_refl]
lemmas core_andThen [framing] = frames_andThen [of core_frame, OF core_frame_trans]

lemma core_metric [framing]: "frames core_frame (effect (metric m))"
  by (rule frames_effect) (simp add: core_frame_def same_core_def)

lemma core_audit [framing]: "frames core_frame (effect (audit ok e))"
  by (rule frames_effect) (simp add: core_frame_def same_core_def)

lemma core_rate_gate [framing]: "frames core_frame (rate_gate bk key limit now)"
  by (simp add: frames_def core_frame_def same_core_def)

lemma core_requireKey [framing]: "frames core_frame (requireKey cfg hmac st now au kinds)"
proof -
  have "same_core (w_db w) (w_db (snd (lookupApiKey cfg hmac st now tok w)))" for tok w
    by (simp add: same_core_def)
  then show ?thesis
    by (auto simp: frames_def core_frame_def requireKey_def split: option.splits prod.splits)
       (metis snd_conv same_core_def)+
qed

lemma core_with_key [framing]: "frames core_frame (with_key cfg ve rq kinds)"
  by (simp add: with_key_def framing)

lemma gateway_check_db [simp]: "w_db (snd (gateway_check cfg ve inp w)) = w_db w"
proof (cases "verifyGatewayHmac cfg (ve_ce ve) (ve_now ve) inp w")
  case (Pair r w1)
  have "w_db w1 = w_db w" using verifyGatewayHmac_db [of cfg "ve_ce ve" "ve_now ve" inp w, unfolded Pair] by simp
  then show ?thesis by (simp add: gateway_check_def Pair split: sum.splits)
qed

lemma core_gateway_check [framing]: "frames core_frame (gateway_check cfg ve inp)"
  by (simp add: frames_def core_frame_def same_core_def)

lemma core_outcome_metrics [framing]: "frames core_frame (effect (outcome_metrics rcv oc))"
  by (rule frames_effect) (simp add: core_frame_def same_core_def outcome_metrics_def Let_def)

lemma core_heartbeat [framing]: "frames core_frame (effect (record_heartbeat cfg now i))"
  by (rule frames_effect) (simp add: core_frame_def same_core_def record_heartbeat_def Let_def)

lemma core_createWebhook [framing]: "frames core_frame (createWebhookEndpoint cfg ce ne u rb iv now inp)"
  by (auto simp: frames_def core_frame_def same_core_def createWebhookEndpoint_def Let_def split: sum.splits)

lemma core_map_error [framing]: "frames core_frame m \<Longrightarrow> frames core_frame (map_error f m)"
  by (rule frames_map_error)

lemma core_deleteWebhook [framing]: "frames core_frame (deleteWebhookEndpoint app i)"
  by (auto simp: frames_def core_frame_def same_core_def deleteWebhookEndpoint_def Let_def)

lemma core_read [framing]: "frames core_frame (\<lambda>w. (f w, w))"
  by (simp add: frames_def core_frame_refl)

lemma core_consumeChallenge: "core_frame w (snd (consumeChallenge locked now app ref p w))"
  by (simp add: core_frame_def same_core_def consumeChallenge_def split: option.splits)


lemma core_verifyRegister [framing]: "frames core_frame (verifyRegister cfg en hmac lib locked u now dbnow app ref resp)"
proof -
  have "core_frame w (snd (insert_credential c w))" for c w
    by (simp add: core_frame_def same_core_def insert_credential_def)
  note ins = this core_consumeChallenge core_frame_trans core_frame_refl
  have "core_frame w (snd (verifyRegister cfg en hmac lib locked u now dbnow app ref resp w))" for w
  proof -
    obtain ch w1 where c: "consumeChallenge locked now app ref PRegister w = (ch, w1)" by (cases "consumeChallenge locked now app ref PRegister w")
    have w1: "core_frame w w1" using core_consumeChallenge [of w locked now app ref PRegister] c by simp
    moreover have "core_frame w w2" if "insert_credential cr w1 = (r, w2)" for cr r w2
      using ins(1) [of w1 cr] that w1 core_frame_trans by (metis snd_conv)
    ultimately show ?thesis
      by (auto simp: verifyRegister_def Let_def c core_frame_refl split: sum.splits option.splits prod.splits)
  qed
  then show ?thesis by (simp add: frames_def)
qed

lemma core_verifyLogin [framing]: "frames core_frame (verifyLogin cfg en hmac lib locked now now2 app ref resp)"
proof -
  have "core_frame w (snd (verifyLogin cfg en hmac lib locked now now2 app ref resp w))" for w
  proof -
    obtain ch w1 where c: "consumeChallenge locked now app ref PLogin w = (ch, w1)" by (cases "consumeChallenge locked now app ref PLogin w")
    have w1: "core_frame w w1" using core_consumeChallenge [of w locked now app ref PLogin] c by simp
    then have "core_frame w (set_counter n t i w1)" for n t i
      by (simp add: core_frame_def same_core_def set_counter_def)
    with w1 show ?thesis
      by (auto simp: verifyLogin_def Let_def c core_frame_refl split: sum.splits option.splits prod.splits)
  qed
  then show ?thesis by (simp add: frames_def)
qed

lemma core_options [framing]:
  "frames core_frame (buildRegisterOptions cfg en u ch now dbnow app ref name)"
  "frames core_frame (buildLoginOptions cfg en u ch now dbnow app ref)"
  by (auto simp: frames_def core_frame_def same_core_def buildRegisterOptions_def buildLoginOptions_def createChallenge_def split: sum.splits)

lemma core_ceremony_response [framing]: "frames core_frame (ceremony_response rd v)"
  by (simp add: ceremony_response_def framing)

lemma core_case_prod [framing]: "(\<And>a b. frames core_frame (f a b)) \<Longrightarrow> frames core_frame (case p of (a, b) \<Rightarrow> f a b)"
  by (cases p) simp

section \<open>Requests run the state machine\<close>

definition at_rest :: "config \<Rightarrow> route_env \<Rightarrow> world \<Rightarrow> bool" where
  "at_rest cfg ve w \<longleftrightarrow> reachable cfg (ve_parse ve) (w, ve_now ve)"

text \<open>The state machine has been run to this state, and the identifier the request will use is new.\<close>

definition ready :: "config \<Rightarrow> route_env \<Rightarrow> world \<Rightarrow> bool" where
  "ready cfg ve w \<longleftrightarrow> at_rest cfg ve w \<and> newId ''vrf'' (ve_ulid ve) \<notin> vr_id ` set (verifications (w_db w)) \<and>
     newId ''in'' (ve_ulid ve) \<notin> in_id ` set (inboundSms (w_db w))"

lemma at_rest_frame: "core_frame w w' \<Longrightarrow> at_rest cfg ve w \<Longrightarrow> at_rest cfg ve w'"
  unfolding at_rest_def core_frame_def by (erule reach_step) (rule server_step.frame)

lemma ready_frame: "core_frame w w' \<Longrightarrow> ready cfg ve w \<Longrightarrow> ready cfg ve w'"
  using at_rest_frame unfolding ready_def by (auto simp: core_frame_def same_core_def)

lemma frames_ready: "frames core_frame m \<Longrightarrow> ends (ready cfg ve) m (ready cfg ve)"
  unfolding frames_def ends_def by (blast intro: ready_frame)

lemma frames_at_rest: "frames core_frame m \<Longrightarrow> ends (at_rest cfg ve) m (at_rest cfg ve)"
  unfolding frames_def ends_def by (blast intro: at_rest_frame)

lemma frames_ready_rest: "frames core_frame m \<Longrightarrow> ends (ready cfg ve) m (at_rest cfg ve)"
  unfolding frames_def ends_def ready_def by (blast intro: at_rest_frame)

text \<open>A guard that frames the core tables, then the rest of the handler.\<close>

lemma guard_then:
  assumes "frames core_frame m" and "\<And>a. ends (ready cfg ve) (k a) (at_rest cfg ve)"
  shows "ends (ready cfg ve) (andThen m k) (at_rest cfg ve)"
  by (rule ends_andThen [OF frames_ready [OF assms(1)] assms(2)]) (simp add: ready_def)

text \<open>The operation itself, then the bookkeeping.\<close>

lemma op_then:
  assumes "ends (ready cfg ve) m (at_rest cfg ve)" and "\<And>a. frames core_frame (k a)"
  shows "ends (ready cfg ve) (andThen m k) (at_rest cfg ve)"
  by (rule ends_andThen [OF assms(1) frames_at_rest [OF assms(2)]]) simp

lemma op_rest:
  "ends (ready cfg ve) (startVerification cfg rnd (ve_ulid ve) (ve_now ve) dbnow inp) (at_rest cfg ve)"
  "ends (ready cfg ve) (getVerification ok ids (ve_now ve) app i) (at_rest cfg ve)"
  "ends (ready cfg ve) (cancelVerification ok ids ids2 (ve_now ve) app i) (at_rest cfg ve)"
  "ends (ready cfg ve) (processInbound cfg (ve_parse ve) (ve_ulid ve) ids (ve_now ve) dbnow locked minp) (at_rest cfg ve)"
  "ends (ready cfg ve) (startBinding cfg (ve_parse ve) u rb (ve_now ve) dbnow binp) (at_rest cfg ve)"
  "ends (ready cfg ve) (revokeBinding (ve_now ve) app i) (at_rest cfg ve)"
  using startVerification_reachable getVerification_reachable cancelVerification_reachable processInbound_reachable
    reach_step [OF _ server_step.start_binding] reach_step [OF _ server_step.revoke]
  by (auto simp: ends_def ready_def at_rest_def)

lemma hosted_rest:
  "ends (ready cfg ve) (\<lambda>w. let (v, w1) = getHostedVerification ok ids (ve_now ve) i w in (Inr v, w1)) (at_rest cfg ve)"
  "ends (ready cfg ve) (\<lambda>w. let (v, w1) = getHostedVerificationStatus ok ids (ve_now ve) i w in (Inr v, w1)) (at_rest cfg ve)"
  using getHosted_reachable getHostedStatus_reachable
  by (auto simp: ends_def ready_def at_rest_def case_prod_beta)

lemma route_rest:
  "ends (ready cfg ve) (post_verifications cfg ve rq) (at_rest cfg ve)"
  "ends (ready cfg ve) (get_verification cfg ve rq) (at_rest cfg ve)"
  "ends (ready cfg ve) (post_verification_cancel cfg ve rq) (at_rest cfg ve)"
  "ends (ready cfg ve) (post_binding_start cfg ve rq) (at_rest cfg ve)"
  "ends (ready cfg ve) (post_binding_revoke cfg ve rq) (at_rest cfg ve)"
  "ends (ready cfg ve) (get_hosted_page ve rq) (at_rest cfg ve)"
  "ends (ready cfg ve) (get_hosted_status cfg ve rq) (at_rest cfg ve)"
  "ends (ready cfg ve) (post_inbound_sms cfg ve gh rq) (at_rest cfg ve)"
  unfolding post_verifications_def get_verification_def post_verification_cancel_def post_binding_start_def
    post_binding_revoke_def get_hosted_page_def get_hosted_status_def post_inbound_sms_def
  by (intro guard_then op_then op_rest hosted_rest; simp add: framing Let_def)+

lemma route_frames:
  "frames core_frame (get_binding cfg ve rq)"
  "frames core_frame (post_heartbeat cfg ve gh rq)"
  "frames core_frame (post_webhook cfg be rq)"
  "frames core_frame (get_webhooks cfg be rq)"
  "frames core_frame (get_webhook cfg be rq)"
  "frames core_frame (delete_webhook cfg be rq)"
  "frames core_frame (post_register_options cfg be rq)"
  "frames core_frame (post_register_verify cfg be rd rq)"
  "frames core_frame (post_login_options cfg be rq)"
  "frames core_frame (post_login_verify cfg be rd rq)"
  by (simp_all add: get_binding_def post_heartbeat_def post_webhook_def get_webhooks_def get_webhook_def
      delete_webhook_def post_register_options_def post_register_verify_def post_login_options_def
      post_login_verify_def webhookCrudRateLimit_def webauthnRateLimit_def framing)

lemmas route_all = route_rest route_frames [THEN frames_ready_rest]

text \<open>
  C7: requests refine the state machine. From a reachable state in which the identifiers the
  request will take are new, every one of the 18 routes of the API, with whatever headers, body, key
  and outcome, ends in a reachable state of the transaction-level state machine; so all invariants
  of reachable states hold after any sequence of requests.
\<close>

theorem routes_refine_steps:
  assumes "reachable cfg (ve_parse be) (w, ve_now be)"
    and "newId ''vrf'' (ve_ulid be) \<notin> vr_id ` set (verifications (w_db w))"
    and "newId ''in'' (ve_ulid be) \<notin> in_id ` set (inboundSms (w_db w))"
    and "w' \<in> {snd (post_verifications cfg (base_env be) rq w), snd (get_verification cfg (base_env be) rq w),
       snd (post_verification_cancel cfg (base_env be) rq w), snd (post_binding_start cfg (base_env be) rq w),
       snd (get_binding cfg (base_env be) rq w), snd (post_binding_revoke cfg (base_env be) rq w),
       snd (get_hosted_page (base_env be) rq w), snd (get_hosted_status cfg (base_env be) rq w),
       snd (post_inbound_sms cfg (base_env be) gh rq w), snd (post_heartbeat cfg (base_env be) gh rq w),
       snd (post_webhook cfg be rq w), snd (get_webhooks cfg be rq w), snd (get_webhook cfg be rq w),
       snd (delete_webhook cfg be rq w), snd (post_register_options cfg be rq w),
       snd (post_register_verify cfg be rd rq w), snd (post_login_options cfg be rq w), snd (post_login_verify cfg be rd rq w)}"
  shows "reachable cfg (ve_parse be) (w', ve_now be)"
proof -
  have r: "ready cfg (base_env be) w"
    using assms(1-3) by (simp add: ready_def at_rest_def route_env.defs)
  have "at_rest cfg (base_env be) w'"
    using assms(4) r route_all [where cfg = cfg and ve = "base_env be", unfolded ends_def]
    by (elim insertE emptyE) (simp_all only:)
  then show ?thesis by (simp add: at_rest_def route_env.defs)
qed


lemma unused_id:
  obtains u where "newId p u \<notin> f ` set xs" and "newId q u \<notin> g ` set ys"
proof -
  have "finite (newId p -` (f ` set xs) \<union> newId q -` (g ` set ys))"
    by (intro finite_UnI finite_vimageI) (simp_all add: inj_on_def newId_def)
  from ex_new_if_finite [OF infinite_UNIV_listI this] that show ?thesis by auto
qed

definition route_demo :: "string \<Rightarrow> backend_env" where
  "route_demo u = \<lparr>ve_ce = demo_env, ve_parse = any_phone, ve_now = 1000, ve_dbnow = 1000, ve_stamped = True, ve_audit_ok = True,
     ve_expire_ok = True, ve_ulid = u, ve_ids = run_ids ''7'', ve_ids2 = run_ids ''8'', ve_rnd = (\<lambda>_ i. i mod 31),
     ve_bytes = zero_bytes, ve_iv = demo_iv, ve_locked = [], ve_isDatetime = (\<lambda>_. True), ve_date = (\<lambda>_. 0),
     ve_net = \<lparr>ne_URL = (\<lambda>_. None), ne_isIPv6 = (\<lambda>_. False), ne_dnsLookup = (\<lambda>_. Inr []), ne_NODE_ENV = ''production'',
       ne_WEBHOOK_ALLOW_PRIVATE_FOR_TESTS = []\<rparr>,
     ve_lib = demo_lib, ve_webauthn_enabled = None, ve_challenge = ''c'', ve_challenge_locked = (\<lambda>_. False)\<rparr>"

definition request_demo :: request where
  "request_demo = \<lparr>req_authorization = None, req_ip = ''10.0.0.1'', req_id = ''r'', req_userAgent = None,
     req_param_id = ''vrf_3'', req_body = None, req_rawBody = None\<rparr>"

theorem routes_refine_steps_witness:
  "\<exists>u. reachable default_config any_phone (snd (get_hosted_page (base_env (route_demo u)) request_demo run6), 1000)"
proof -
  obtain u where u: "newId ''vrf'' u \<notin> vr_id ` set (verifications (w_db run6))" "newId ''in'' u \<notin> in_id ` set (inboundSms (w_db run6))"
    by (rule unused_id)
  have d: "ve_parse (route_demo u) = any_phone" "ve_now (route_demo u) = 1000" "ve_ulid (route_demo u) = u"
    by (simp_all add: route_demo_def)
  show ?thesis
  proof (rule exI [of _ u], rule routes_refine_steps [where be = "route_demo u" and w = run6 and cfg = default_config
        and rq = request_demo and gh = gh and rd = rd, unfolded d])
  qed (rule run_reachable, rule u, rule u, blast)
qed


section \<open>Requests without a key\<close>

text \<open>The authorization header carries a stored, live key of one of the kinds.\<close>

definition holds_key :: "config \<Rightarrow> hmac_fn \<Rightarrow> api_key_kind list \<Rightarrow> string option \<Rightarrow> db \<Rightarrow> bool" where
  "holds_key cfg hmac kinds authorization d \<longleftrightarrow>
     (\<exists>tok. extractBearer authorization = Some tok \<and>
       (\<exists>k \<in> set (apiKeys d). \<exists>a \<in> set (apps d). ak_appId k = ap_id a \<and> ak_keyHash k = api_key_hash cfg hmac tok \<and>
          ak_revokedAt k = None \<and> \<not> ap_disabled a \<and> ak_kind k \<in> set kinds))"

text \<open>401 or 403, and nothing changed but the time a key was last used and the counters.\<close>

definition turned_away :: "'a handler \<Rightarrow> world \<Rightarrow> bool" where
  "turned_away m w \<longleftrightarrow>
     (\<exists>e w'. m w = (Inl e, w') \<and> (e = unauthorized_default \<or> e = forbidden ''key kind not permitted for this endpoint'') \<and>
        (\<exists>ks. map (ak_lastUsedAt_update (\<lambda>_. None)) ks = map (ak_lastUsedAt_update (\<lambda>_. None)) (apiKeys (w_db w)) \<and>
           w_db w' = (w_db w)\<lparr>apiKeys := ks\<rparr>) \<and> w_redis w' = w_redis w)"

lemma lookupApiKey_touch:
  "\<exists>ks. map (ak_lastUsedAt_update (\<lambda>_. None)) ks = map (ak_lastUsedAt_update (\<lambda>_. None)) (apiKeys (w_db w)) \<and>
     w_db (snd (lookupApiKey cfg hmac st now raw w)) = (w_db w)\<lparr>apiKeys := ks\<rparr>"
proof -
  have touch: "map (ak_lastUsedAt_update (\<lambda>_. None)) (update_where P (ak_lastUsedAt_update (\<lambda>_. Some now)) ks)
      = map (ak_lastUsedAt_update (\<lambda>_. None)) ks" for P and ks :: "api_key_row list"
    by (induction ks) simp_all
  then have keep: "\<exists>ks'. map (ak_lastUsedAt_update (\<lambda>_. None)) ks' = map (ak_lastUsedAt_update (\<lambda>_. None)) (apiKeys (w_db w)) \<and>
      (w_db w)\<lparr>apiKeys := update_where P (ak_lastUsedAt_update (\<lambda>_. Some now)) (apiKeys (w_db w))\<rparr> = (w_db w)\<lparr>apiKeys := ks'\<rparr>" for P
    by blast
  have "\<exists>ks'. map (ak_lastUsedAt_update (\<lambda>_. None)) ks' = map (ak_lastUsedAt_update (\<lambda>_. None)) (apiKeys (w_db w)) \<and>
      w_db w = (w_db w)\<lparr>apiKeys := ks'\<rparr>"
    by (rule exI [of _ "apiKeys (w_db w)"]) simp
  with keep show ?thesis
    unfolding lookupApiKey_def Let_def by (simp split: option.splits)
qed

lemma requireKey_refused:
  assumes "\<not> holds_key cfg hmac kinds au (w_db w)"
  shows "turned_away (requireKey cfg hmac st now au kinds) w"
proof (cases "extractBearer au")
  case None
  then show ?thesis by (auto simp: turned_away_def requireKey_def intro: exI [of _ "apiKeys (w_db w)"])
next
  case (Some tok)
  obtain res w1 where l: "lookupApiKey cfg hmac st now tok w = (res, w1)" by fastforce
  obtain ks where ks: "map (ak_lastUsedAt_update (\<lambda>_. None)) ks = map (ak_lastUsedAt_update (\<lambda>_. None)) (apiKeys (w_db w))"
      "w_db w1 = (w_db w)\<lparr>apiKeys := ks\<rparr>"
    using lookupApiKey_touch [of w cfg hmac st now tok, unfolded l] by auto
  have rs: "w_redis w1 = w_redis w" using lookupApiKey_other(1) [of cfg hmac st now tok w, unfolded l] by simp
  have "ay_kind key \<notin> set kinds" if "res = Some key" for key
    using lookupApiKey_Some [OF l [unfolded that]] assms Some by (auto simp: holds_key_def)
  then show ?thesis
    using Some l ks rs by (cases res) (auto simp: turned_away_def requireKey_def)
qed

text \<open>A route that asks for a key before anything else.\<close>

locale key_route =
  fixes cfg :: config and ve :: route_env and rq :: request and kinds :: "api_key_kind list" and handle :: "'a handler"
  assumes key_first: "\<exists>inner. handle = andThen (with_key cfg ve rq kinds) inner"
begin

lemma closed:
  assumes "\<not> holds_key cfg (ce_hmac (ve_ce ve)) kinds (req_authorization rq) (w_db w)"
  shows "turned_away handle w"
proof -
  obtain inner where h: "handle = andThen (with_key cfg ve rq kinds) inner" using key_first by blast
  have "turned_away (with_key cfg ve rq kinds) w"
    unfolding with_key_def by (rule requireKey_refused [OF assms])
  then show ?thesis unfolding h turned_away_def by (auto simp: andThen_def)
qed

end

interpretation start_route: key_route cfg ve rq "[KPublic, KSecret]" "post_verifications cfg ve rq" for cfg ve rq
  by unfold_locales (rule exI, rule post_verifications_def)

interpretation status_route: key_route cfg ve rq "[KPublic, KSecret]" "get_verification cfg ve rq" for cfg ve rq
  by unfold_locales (rule exI, rule get_verification_def)

interpretation cancel_route: key_route cfg ve rq "[KSecret]" "post_verification_cancel cfg ve rq" for cfg ve rq
  by unfold_locales (rule exI, rule post_verification_cancel_def)

interpretation bind_route: key_route cfg ve rq "[KSecret]" "post_binding_start cfg ve rq" for cfg ve rq
  by unfold_locales (rule exI, rule post_binding_start_def)

interpretation binding_route: key_route cfg ve rq "[KSecret]" "get_binding cfg ve rq" for cfg ve rq
  by unfold_locales (rule exI, rule get_binding_def)

interpretation revoke_route: key_route cfg ve rq "[KSecret]" "post_binding_revoke cfg ve rq" for cfg ve rq
  by unfold_locales (rule exI, rule post_binding_revoke_def)

interpretation hook_route: key_route cfg "base_env be" rq "[KSecret]" "post_webhook cfg be rq" for cfg be rq
  by unfold_locales (rule exI, rule post_webhook_def)

interpretation hooks_route: key_route cfg "base_env be" rq "[KSecret]" "get_webhooks cfg be rq" for cfg be rq
  by unfold_locales (rule exI, rule get_webhooks_def)

interpretation one_hook_route: key_route cfg "base_env be" rq "[KSecret]" "get_webhook cfg be rq" for cfg be rq
  by unfold_locales (rule exI, rule get_webhook_def)

interpretation unhook_route: key_route cfg "base_env be" rq "[KSecret]" "delete_webhook cfg be rq" for cfg be rq
  by unfold_locales (rule exI, rule delete_webhook_def)

interpretation register_options_route: key_route cfg "base_env be" rq "[KSecret]" "post_register_options cfg be rq" for cfg be rq
  by unfold_locales (rule exI, rule post_register_options_def)

interpretation register_route: key_route cfg "base_env be" rq "[KSecret]" "post_register_verify cfg be rd rq" for cfg be rd rq
  by unfold_locales (rule exI, rule post_register_verify_def)

interpretation login_options_route: key_route cfg "base_env be" rq "[KSecret]" "post_login_options cfg be rq" for cfg be rq
  by unfold_locales (rule exI, rule post_login_options_def)

interpretation login_route: key_route cfg "base_env be" rq "[KSecret]" "post_login_verify cfg be rd rq" for cfg be rd rq
  by unfold_locales (rule exI, rule post_login_verify_def)

text \<open>
  C8: the API is closed. A request without a stored, unrevoked key of an enabled application of the
  kind the route allows (public or secret for starting and reading a verification, secret for the
  other twelve routes) is answered 401 or 403, and changes nothing but the last-used time of a key.
\<close>

theorem api_closed:
  assumes "\<not> holds_key cfg (ce_hmac (ve_ce be)) [KSecret] (req_authorization rq) (w_db w)"
  shows "(\<not> holds_key cfg (ce_hmac (ve_ce be)) [KPublic] (req_authorization rq) (w_db w) \<longrightarrow>
           turned_away (post_verifications cfg (base_env be) rq) w \<and> turned_away (get_verification cfg (base_env be) rq) w) \<and>
         turned_away (post_verification_cancel cfg (base_env be) rq) w \<and>
         turned_away (post_binding_start cfg (base_env be) rq) w \<and> turned_away (get_binding cfg (base_env be) rq) w \<and>
         turned_away (post_binding_revoke cfg (base_env be) rq) w \<and>
         turned_away (post_webhook cfg be rq) w \<and> turned_away (get_webhooks cfg be rq) w \<and>
         turned_away (get_webhook cfg be rq) w \<and> turned_away (delete_webhook cfg be rq) w \<and>
         turned_away (post_register_options cfg be rq) w \<and> turned_away (post_register_verify cfg be rd rq) w \<and>
         turned_away (post_login_options cfg be rq) w \<and> turned_away (post_login_verify cfg be rd rq) w"
proof -
  have s: "\<not> holds_key cfg (ce_hmac (ve_ce (base_env be))) [KSecret] (req_authorization rq) (w_db w)"
    using assms by (simp add: route_env.defs)
  have p: "\<not> holds_key cfg (ce_hmac (ve_ce (base_env be))) [KPublic, KSecret] (req_authorization rq) (w_db w)"
    if "\<not> holds_key cfg (ce_hmac (ve_ce be)) [KPublic] (req_authorization rq) (w_db w)"
    using that assms unfolding holds_key_def by (simp add: route_env.defs) blast
  show ?thesis
    using start_route.closed [OF p] status_route.closed [OF p] cancel_route.closed [OF s] bind_route.closed [OF s]
      binding_route.closed [OF s] revoke_route.closed [OF s] hook_route.closed [OF s] hooks_route.closed [OF s]
      one_hook_route.closed [OF s] unhook_route.closed [OF s] register_options_route.closed [OF s]
      register_route.closed [OF s] login_options_route.closed [OF s] login_route.closed [OF s]
    by blast
qed

theorem api_closed_witness:
  "turned_away (post_binding_start default_config (base_env (route_demo ''1'')) request_demo) run6"
proof -
  have "\<not> holds_key default_config (ce_hmac (ve_ce (route_demo ''1''))) [KSecret] (req_authorization request_demo) (w_db run6)"
    by (simp add: holds_key_def request_demo_def extractBearer_def)
  from api_closed [OF this] show ?thesis by blast
qed

section \<open>Applications do not see each other\<close>

text \<open>Two runs of a handler from related states answer alike and end in related states.\<close>

definition lockstep :: "(world \<Rightarrow> world \<Rightarrow> bool) \<Rightarrow> 'a handler \<Rightarrow> bool" where
  "lockstep R m \<longleftrightarrow> (\<forall>w v. R w v \<longrightarrow> fst (m w) = fst (m v) \<and> R (snd (m w)) (snd (m v)))"

lemma lockstep_andThen:
  assumes "R w v" and "lockstep R m" and "\<And>a w1 v1. m w = (Inr a, w1) \<Longrightarrow> R w1 v1 \<Longrightarrow> fst (k a w1) = fst (k a v1)"
  shows "fst (andThen m k w) = fst (andThen m k v)"
proof -
  have "fst (m w) = fst (m v)" and "R (snd (m w)) (snd (m v))" using assms(1,2) by (auto simp: lockstep_def)
  with assms(3) show ?thesis
    by (cases "m w"; cases "m v"; cases "fst (m w)") (auto simp: andThen_def)
qed

text \<open>Same keys, same counters, and the same rows of one application.\<close>

definition same_tenant :: "string \<Rightarrow> world \<Rightarrow> world \<Rightarrow> bool" where
  "same_tenant app w v \<longleftrightarrow>
     apps (w_db w) = apps (w_db v) \<and> apiKeys (w_db w) = apiKeys (w_db v) \<and> w_redis w = w_redis v \<and>
     filter (\<lambda>r. vr_appId r = app) (verifications (w_db w)) = filter (\<lambda>r. vr_appId r = app) (verifications (w_db v)) \<and>
     filter (\<lambda>r. pb_appId r = app) (phoneBindings (w_db w)) = filter (\<lambda>r. pb_appId r = app) (phoneBindings (w_db v)) \<and>
     filter (\<lambda>r. we_appId r = app) (webhookEndpoints (w_db w)) = filter (\<lambda>r. we_appId r = app) (webhookEndpoints (w_db v))"

lemma select_one_filter: "(\<And>r. P r \<Longrightarrow> Q r) \<Longrightarrow> select_one P (filter Q rows) = select_one P rows"
  by (induction rows) auto

lemma select_one_alike:
  assumes "filter Q rows = filter Q rows'" and "\<And>r. P r \<Longrightarrow> Q r"
  shows "select_one P rows = select_one P rows'"
  using assms select_one_filter [of P Q] by metis

lemma lookupApiKey_keys:
  assumes "apps (w_db w) = apps (w_db v)" and "apiKeys (w_db w) = apiKeys (w_db v)"
  shows "fst (lookupApiKey cfg hmac st now raw w) = fst (lookupApiKey cfg hmac st now raw v)"
    and "apiKeys (w_db (snd (lookupApiKey cfg hmac st now raw w))) = apiKeys (w_db (snd (lookupApiKey cfg hmac st now raw v)))"
  using assms unfolding lookupApiKey_def Let_def keys_with_apps_def by (simp_all split: option.splits)

lemma same_tenant_requireKey: "lockstep (same_tenant app) (requireKey cfg hmac st now au kinds)"
  unfolding lockstep_def
proof (intro allI impI)
  fix w v assume s: "same_tenant app w v"
  then have k: "apps (w_db w) = apps (w_db v)" "apiKeys (w_db w) = apiKeys (w_db v)" by (simp_all add: same_tenant_def)
  show "fst (requireKey cfg hmac st now au kinds w) = fst (requireKey cfg hmac st now au kinds v) \<and>
      same_tenant app (snd (requireKey cfg hmac st now au kinds w)) (snd (requireKey cfg hmac st now au kinds v))"
  proof (cases "extractBearer au")
    case None
    then show ?thesis using s by (simp add: requireKey_def same_tenant_def)
  next
    case (Some tok)
    have t: "same_tenant app (snd (lookupApiKey cfg hmac st now tok w)) (snd (lookupApiKey cfg hmac st now tok v))"
      using s lookupApiKey_keys(2) [OF k] by (simp add: same_tenant_def)
    with lookupApiKey_keys(1) [OF k, of cfg hmac st now tok] Some show ?thesis
      by (cases "lookupApiKey cfg hmac st now tok w"; cases "lookupApiKey cfg hmac st now tok v")
         (auto simp: requireKey_def same_tenant_def split: option.splits)
  qed
qed

lemma same_tenant_rate_gate: "lockstep (same_tenant app) (rate_gate bk key limit now)"
  unfolding lockstep_def
  by (auto simp: rate_gate_def Let_def same_tenant_def split: prod.splits)

lemma same_tenant_require: "lockstep (same_tenant app) (require_some p e)"
  by (cases p) (simp_all add: lockstep_def)

lemma same_tenant_reads:
  assumes "same_tenant app w v"
  shows "fst (getVerification ok ids now app i w) = fst (getVerification ok ids now app i v)"
    and "getBinding app i w = getBinding app i v"
    and "listWebhookEndpoints app w = listWebhookEndpoints app v"
    and "getWebhookEndpoint app i w = getWebhookEndpoint app i v"
proof -
  have "select_one (\<lambda>r. vr_id r = i \<and> vr_appId r = app) (verifications (w_db w))
      = select_one (\<lambda>r. vr_id r = i \<and> vr_appId r = app) (verifications (w_db v))"
    by (rule select_one_alike [where Q = "\<lambda>r. vr_appId r = app"]) (use assms in \<open>simp_all add: same_tenant_def\<close>)
  then show "fst (getVerification ok ids now app i w) = fst (getVerification ok ids now app i v)"
    by (simp add: getVerification_def split: option.splits)
  have "select_one (\<lambda>r. pb_id r = i \<and> pb_appId r = app) (phoneBindings (w_db w))
      = select_one (\<lambda>r. pb_id r = i \<and> pb_appId r = app) (phoneBindings (w_db v))"
    by (rule select_one_alike [where Q = "\<lambda>r. pb_appId r = app"]) (use assms in \<open>simp_all add: same_tenant_def\<close>)
  then show "getBinding app i w = getBinding app i v" by (simp add: getBinding_def)
  show "listWebhookEndpoints app w = listWebhookEndpoints app v"
    using assms by (simp add: listWebhookEndpoints_def same_tenant_def)
  have "select_one (\<lambda>r. we_appId r = app \<and> we_id r = i) (webhookEndpoints (w_db w))
      = select_one (\<lambda>r. we_appId r = app \<and> we_id r = i) (webhookEndpoints (w_db v))"
    by (rule select_one_alike [where Q = "\<lambda>r. we_appId r = app"]) (use assms in \<open>simp_all add: same_tenant_def\<close>)
  then show "getWebhookEndpoint app i w = getWebhookEndpoint app i v" by (simp add: getWebhookEndpoint_def)
qed

text \<open>
  C9: applications are isolated. Take two states with the same API keys and counters and the same
  rows of one application, whatever the other applications have stored. A request with a key of that
  application gets the same answer in both from the four reading routes, so its reader learns nothing of
  other applications, not even that an identifier exists.
\<close>

theorem tenant_isolation:
  assumes "same_tenant app w v"
    and "\<And>kinds key w'. with_key cfg (base_env be) rq kinds w = (Inr key, w') \<Longrightarrow> ay_appId key = app"
  shows "fst (get_verification cfg (base_env be) rq w) = fst (get_verification cfg (base_env be) rq v) \<and>
         fst (get_binding cfg (base_env be) rq w) = fst (get_binding cfg (base_env be) rq v) \<and>
         fst (get_webhooks cfg be rq w) = fst (get_webhooks cfg be rq v) \<and>
         fst (get_webhook cfg be rq w) = fst (get_webhook cfg be rq v)"
  unfolding get_verification_def get_binding_def get_webhooks_def get_webhook_def webhookCrudRateLimit_def
  by (intro conjI;
      (rule lockstep_andThen [where R = "same_tenant app"],
        rule assms(1), simp add: with_key_def same_tenant_requireKey, drule assms(2)))
     (auto intro!: lockstep_andThen [where R = "same_tenant app"] same_tenant_rate_gate same_tenant_require
      dest: same_tenant_reads simp: same_tenant_reads)

lemma bootstrap_demo:
  obtains res w' where "bootstrapApp default_config (\<lambda>k m. m) 0 (''2'', ''2'', ''3'') (replicate 32 CHR ''a'')
      (replicate 32 CHR ''b'') ''Acme'' empty_world = (Inr res, w')" and "br_appId res = ''app_2''"
    and "w' = empty_world\<lparr>w_db := empty_db\<lparr>apps := apps (w_db w'), apiKeys := apiKeys (w_db w')\<rparr>\<rparr>"
proof -
  have t: "js_trim ''Acme'' = ''Acme''"
    by (simp add: js_trim_id char_class_defs code_unit_def)
  have "\<exists>res w'. bootstrapApp default_config (\<lambda>k m. m) 0 (''2'', ''2'', ''3'') (replicate 32 CHR ''a'')
      (replicate 32 CHR ''b'') ''Acme'' empty_world = (Inr res, w') \<and> br_appId res = ''app_2'' \<and>
      w' = empty_world\<lparr>w_db := empty_db\<lparr>apps := apps (w_db w'), apiKeys := apiKeys (w_db w')\<rparr>\<rparr>"
    by (simp add: bootstrapApp_def t Let_def key_hash_uq_def unique_on_def new_key_def api_key_hash_def
        hashSecret_def generateApiKey_def empty_world_def empty_db_def newId_def)
  then show thesis using that by blast
qed

theorem tenant_isolation_witness:
  "\<exists>res w' be rq. bootstrapApp default_config (\<lambda>k m. m) 0 (''2'', ''2'', ''3'') (replicate 32 CHR ''a'')
       (replicate 32 CHR ''b'') ''Acme'' empty_world = (Inr res, w') \<and>
     req_authorization rq = Some (''Bearer '' @ br_secretKey res) \<and> ce_hmac (ve_ce be) = (\<lambda>k m. m) \<and>
     fst (get_binding default_config (base_env be) rq w')
       = fst (get_binding default_config (base_env be) rq
           (w'\<lparr>w_db := (w_db w')\<lparr>phoneBindings := phoneBindings (w_db run3)\<rparr>\<rparr>))"
proof -
  obtain res w' where b: "bootstrapApp default_config (\<lambda>k m. m) 0 (''2'', ''2'', ''3'') (replicate 32 CHR ''a'')
      (replicate 32 CHR ''b'') ''Acme'' empty_world = (Inr res, w')" and a: "br_appId res = ''app_2''"
    and w': "w' = empty_world\<lparr>w_db := empty_db\<lparr>apps := apps (w_db w'), apiKeys := apiKeys (w_db w')\<rparr>\<rparr>"
    by (rule bootstrap_demo)
  let ?rq = "request_demo\<lparr>req_authorization := Some (''Bearer '' @ br_secretKey res)\<rparr>"
  let ?be = "(route_demo ''1'')\<lparr>ve_ce := demo_env\<lparr>ce_hmac := \<lambda>k m. m\<rparr>\<rparr>"
  let ?v = "w'\<lparr>w_db := (w_db w')\<lparr>phoneBindings := phoneBindings (w_db run3)\<rparr>\<rparr>"
  have keys: "\<forall>k \<in> set (apiKeys (w_db w')). ak_appId k = ''app_2''"
    using bootstrapApp_ok [OF b] a by (auto simp: empty_world_def empty_db_def new_key_def)
  have "filter (\<lambda>r. pb_appId r = ''app_2'') (phoneBindings (w_db run3)) = []"
    using run_facts(3) by (auto simp: map_eq_Cons_conv)
  moreover have "phoneBindings (w_db w') = []" by (subst w') (simp add: empty_world_def empty_db_def)
  ultimately have s: "same_tenant ''app_2'' w' ?v" by (simp add: same_tenant_def)
  have "ay_appId key = ''app_2''" if "with_key default_config (base_env ?be) ?rq kinds w' = (Inr key, w1)" for kinds key w1
    using that keys unfolding with_key_def requireKey_def
    by (auto split: option.splits prod.splits if_splits dest!: lookupApiKey_Some)
  from tenant_isolation [OF s, of default_config ?be ?rq, OF this] b show ?thesis
    by (intro exI [of _ res] exI [of _ w'] exI [of _ ?be] exI [of _ ?rq] conjI) simp_all
qed

section \<open>Gateways\<close>

lemma gateway_check_ok:
  assumes "gateway_check cfg ve inp w = (Inr rcv, w')"
  shows "\<exists>r. signed_by cfg (ve_ce ve) (ve_now ve) inp (receivers (w_db w)) r \<and> rcv = receiver_of r"
  using assms by (auto simp: gateway_check_def verifyGatewayHmac_ok_iff split: prod.splits sum.splits)

lemma rate_gate_ok_db: "rate_gate bk key limit now w = (Inr u, w') \<Longrightarrow> w_db w' = w_db w"
  using rate_gate_db [of bk key limit now w] by simp

lemma gateway_check_ok_db: "gateway_check cfg ve inp w = (r, w') \<Longrightarrow> w_db w' = w_db w"
  using gateway_check_db [of cfg ve inp w] by simp

text \<open>A guard that leaves the database alone, then the rest.\<close>

lemma changed_past_guard:
  assumes "w_db (snd (andThen m k w)) \<noteq> w_db w" and "\<And>w. w_db (snd (m w)) = w_db w"
  obtains a w1 where "m w = (Inr a, w1)" and "w_db w1 = w_db w" and "w_db (snd (k a w1)) \<noteq> w_db w1"
  using assms(1) assms(2) [of w]
  by (cases "m w"; cases "fst (m w)") (auto simp: andThen_def intro: that)

lemma guards_db [simp]:
  "w_db (snd (ensure c e w)) = w_db w" "w_db (snd (require_some p e w)) = w_db w"
  by (simp_all add: handler_defs split: option.splits)

lemma changed_past_signature:
  assumes "w_db (snd (andThen (require_some raw e) (\<lambda>b. andThen (rate_gate bk key limit now)
      (\<lambda>_. andThen (gateway_check cfg ve (inp b)) k)) w)) \<noteq> w_db w"
  obtains b a w1 w2 where "raw = Some b" and "w_db w1 = w_db w" and "gateway_check cfg ve (inp b) w1 = (Inr a, w2)"
proof -
  obtain b w1 where b: "require_some raw e w = (Inr b, w1)" "w_db w1 = w_db w"
      "w_db (snd (andThen (rate_gate bk key limit now) (\<lambda>_. andThen (gateway_check cfg ve (inp b)) k) w1)) \<noteq> w_db w1"
    using assms by (rule changed_past_guard) simp
  obtain w2 where w2: "w_db w2 = w_db w1" "w_db (snd (andThen (gateway_check cfg ve (inp b)) k w2)) \<noteq> w_db w2"
    using b(3) by (rule changed_past_guard) simp_all
  obtain a w3 where "gateway_check cfg ve (inp b) w2 = (Inr a, w3)"
    using w2(2) by (rule changed_past_guard) simp_all
  moreover have "raw = Some b" using b(1) by (cases raw) simp_all
  ultimately show thesis using that b(2) w2(1) by simp
qed

text \<open>The receiver and the raw body a gateway request is checked with.\<close>

definition gateway_input :: "gateway_headers \<Rightarrow> string \<Rightarrow> string \<Rightarrow> hmac_input" where
  "gateway_input gh rid raw = \<lparr>hi_receiverId = rid, hi_timestampHeader = the (gh_timestamp gh),
     hi_nonceHeader = the (gh_nonce gh), hi_signatureHeader = the (gh_signature gh), hi_rawBody = raw\<rparr>"

text \<open>
  C10: only signed gateway requests have an effect. If an inbound request or a heartbeat changes the
  database, then its raw body was signed, within the skew window, under the key of the enabled receiver it
  names.
\<close>

theorem gateway_routes_closed:
  assumes "w_db (snd (post_inbound_sms cfg ve gh rq w)) \<noteq> w_db w \<and> rid = the (gh_receiverId gh) \<or>
           w_db (snd (post_heartbeat cfg ve gh rq w)) \<noteq> w_db w \<and> rid = req_param_id rq"
  shows "\<exists>raw r. req_rawBody rq = Some raw \<and> signed_by cfg (ve_ce ve) (ve_now ve) (gateway_input gh rid raw) (receivers (w_db w)) r \<and>
           rc_id r = rid \<and> rc_enabled r"
proof -
  have "\<exists>raw a w1 w2. req_rawBody rq = Some raw \<and> w_db w1 = w_db w \<and>
      gateway_check cfg ve (gateway_input gh rid raw) w1 = (Inr a, w2)"
    using assms
  proof (elim disjE conjE)
    assume c: "w_db (snd (post_inbound_sms cfg ve gh rq w)) \<noteq> w_db w" and rid: "rid = the (gh_receiverId gh)"
    from c show ?thesis
      unfolding post_inbound_sms_def gateway_input_def rid
      by (rule changed_past_guard, simp) (erule changed_past_guard, simp, erule changed_past_signature, auto)
  next
    assume c: "w_db (snd (post_heartbeat cfg ve gh rq w)) \<noteq> w_db w" and rid: "rid = req_param_id rq"
    from c show ?thesis
      unfolding post_heartbeat_def gateway_input_def rid
      by (rule changed_past_guard, simp) (erule changed_past_guard, simp, erule changed_past_signature, auto)
  qed
  then obtain raw a w1 w2 where raw: "req_rawBody rq = Some raw" and w1: "w_db w1 = w_db w"
    and "gateway_check cfg ve (gateway_input gh rid raw) w1 = (Inr a, w2)" by blast
  from gateway_check_ok [OF this(3)] w1 obtain r where
    r: "signed_by cfg (ve_ce ve) (ve_now ve) (gateway_input gh rid raw) (receivers (w_db w)) r" by auto
  then have "rc_id r = rid" "rc_enabled r"
    using select_one_Some by (fastforce simp: signed_by_def gateway_input_def)+
  with raw r show ?thesis by blast
qed

text \<open>A signed heartbeat, in a state where the rate limiter's transaction answers \<open>null\<close>.\<close>

definition heartbeat_env :: route_env where
  "heartbeat_env = (base_env (route_demo ''1''))\<lparr>ve_now := 1000000\<rparr>"

definition heartbeat_headers :: gateway_headers where
  "heartbeat_headers = \<lparr>gh_receiverId = None, gh_timestamp = Some (show_int 1000), gh_nonce = Some demo_nonce,
     gh_signature = Some (ce_hmac demo_env ''k'' (signed_payload demo_env 1000 demo_nonce ''{}''))\<rparr>"

definition heartbeat_request :: request where
  "heartbeat_request = request_demo\<lparr>req_param_id := ''rcv_1'', req_body := Some (JObj [(''received_at'', JStr ''t'')]),
     req_rawBody := Some ''{}''\<rparr>"

definition heartbeat_world :: world where
  "heartbeat_world = demo_world\<lparr>w_redis := empty_redis\<lparr>rs_exec_null := True\<rparr>\<rparr>"

lemma heartbeat_accepted:
  obtains reply w' where "post_heartbeat default_config heartbeat_env heartbeat_headers heartbeat_request heartbeat_world = (Inr reply, w')"
    and "receivers (w_db w') = [demo_receiver\<lparr>rc_lastHeartbeatAt := Some 1000000\<rparr>]" and "hr_next_heartbeat_seconds reply = 60"
proof -
  let ?rs = "redis_put (empty_redis\<lparr>rs_exec_null := True\<rparr>) (nonce_key ''rcv_1'' demo_nonce) (1, Some 1300000)"
  have t: "truthy (Some (show_int 1000))" "truthy (Some demo_nonce)"
    by (simp_all add: truthy_def demo_nonce_def show_int_def)
  have s: "truthy (Some (ce_hmac demo_env ''k'' (signed_payload demo_env 1000 demo_nonce ''{}'')))"
    by (simp add: truthy_def demo_env_def)
  have g: "gateway_check default_config heartbeat_env (demo_request 1000) heartbeat_world
      = (Inr (receiver_of demo_receiver), heartbeat_world\<lparr>w_redis := ?rs\<rparr>)"
  proof -
    have "verifyGatewayHmac default_config demo_env 1000000 (demo_request 1000) heartbeat_world
        = (Inr (receiver_of demo_receiver), heartbeat_world\<lparr>w_redis := ?rs\<rparr>)"
      unfolding verifyGatewayHmac_ok_iff
      using demo_signed [of 1000000 1000]
      by (auto simp: heartbeat_world_def demo_world_def redis_set_nx_def redis_get_def empty_redis_def default_config_def demo_request_def)
    then show ?thesis by (simp add: gateway_check_def heartbeat_env_def route_demo_def route_env.defs)
  qed
  have p: "prefixed_id ''rcv_'' ''rcv_1''"
    by (simp add: prefixed_id_def starts_with_def all_in_def char_class_defs code_unit_def)
  have i: "\<lparr>hi_receiverId = ''rcv_1'', hi_timestampHeader = show_int 1000, hi_nonceHeader = demo_nonce,
      hi_signatureHeader = ce_hmac demo_env ''k'' (signed_payload demo_env 1000 demo_nonce ''{}''), hi_rawBody = ''{}''\<rparr> = demo_request 1000"
    by (simp add: demo_request_def)
  have rate: "rate_gate bk key limit now heartbeat_world = (Inr (), heartbeat_world)"
    "rate_gate bk key limit now (heartbeat_world\<lparr>w_redis := ?rs\<rparr>) = (Inr (), heartbeat_world\<lparr>w_redis := ?rs\<rparr>)" for bk key limit now
    by (simp_all add: rate_gate_def rateCheck_def heartbeat_world_def)
  have body: "heartbeatBody isDatetime (req_body heartbeat_request) = isDatetime ''t''" for isDatetime
    by (simp add: heartbeatBody_def heartbeat_request_def is_object_def field_def z_optional_def)
  have fields: "req_param_id heartbeat_request = ''rcv_1''" "req_rawBody heartbeat_request = Some ''{}''"
      "gh_timestamp heartbeat_headers = Some (show_int 1000)" "gh_nonce heartbeat_headers = Some demo_nonce"
      "gh_signature heartbeat_headers = Some (ce_hmac demo_env ''k'' (signed_payload demo_env 1000 demo_nonce ''{}''))"
      "ve_now heartbeat_env = 1000000" "ve_isDatetime heartbeat_env = (\<lambda>_. True)"
      "RECEIVER_HEARTBEAT_TIMEOUT_SECONDS default_config = 120" "rc_id demo_receiver = ''rcv_1''"
    by (simp_all add: heartbeat_request_def heartbeat_headers_def heartbeat_env_def route_demo_def route_env.defs
        default_config_def demo_receiver_def)
  have "post_heartbeat default_config heartbeat_env heartbeat_headers heartbeat_request heartbeat_world
      = (Inr \<lparr>hr_server_time = 1000000, hr_next_heartbeat_seconds = 60\<rparr>,
         record_heartbeat default_config 1000000 ''rcv_1'' (heartbeat_world\<lparr>w_redis := ?rs\<rparr>))"
    using g p t s
    by (simp add: post_heartbeat_def andThen_def rate body i fields receiver_of_def)
  moreover have "receivers (w_db (record_heartbeat default_config 1000000 ''rcv_1'' (heartbeat_world\<lparr>w_redis := rs\<rparr>)))
      = [demo_receiver\<lparr>rc_lastHeartbeatAt := Some 1000000\<rparr>]" for rs
    by (simp add: record_heartbeat_def heartbeat_world_def demo_world_def demo_receiver_def default_config_def)
  ultimately show thesis using that by simp
qed


theorem gateway_routes_closed_witness:
  "\<exists>raw r. req_rawBody heartbeat_request = Some raw \<and> r \<in> set (receivers (w_db heartbeat_world)) \<and>
     signed_by default_config demo_env 1000000 (gateway_input heartbeat_headers ''rcv_1'' raw) (receivers (w_db heartbeat_world)) r"
proof -
  obtain reply w' where "post_heartbeat default_config heartbeat_env heartbeat_headers heartbeat_request heartbeat_world = (Inr reply, w')"
    and "receivers (w_db w') = [demo_receiver\<lparr>rc_lastHeartbeatAt := Some 1000000\<rparr>]" by (rule heartbeat_accepted)
  moreover have "receivers (w_db heartbeat_world) = [demo_receiver]" "rc_lastHeartbeatAt demo_receiver = Some 0"
    by (simp_all add: heartbeat_world_def demo_world_def demo_receiver_def)
  ultimately have "rc_lastHeartbeatAt (hd (receivers (w_db (snd (post_heartbeat default_config heartbeat_env heartbeat_headers
      heartbeat_request heartbeat_world))))) \<noteq> rc_lastHeartbeatAt (hd (receivers (w_db heartbeat_world)))"
    by simp
  then have "w_db (snd (post_heartbeat default_config heartbeat_env heartbeat_headers heartbeat_request heartbeat_world)) \<noteq> w_db heartbeat_world"
    by auto
  then have c: "w_db (snd (post_inbound_sms default_config heartbeat_env heartbeat_headers heartbeat_request heartbeat_world)) \<noteq> w_db heartbeat_world
      \<and> ''rcv_1'' = the (gh_receiverId heartbeat_headers) \<or>
      w_db (snd (post_heartbeat default_config heartbeat_env heartbeat_headers heartbeat_request heartbeat_world)) \<noteq> w_db heartbeat_world
      \<and> ''rcv_1'' = req_param_id heartbeat_request"
    by (simp add: heartbeat_request_def)
  have "ve_ce heartbeat_env = demo_env" "ve_now heartbeat_env = 1000000"
    by (simp_all add: heartbeat_env_def route_demo_def route_env.defs)
  with gateway_routes_closed [OF c] show ?thesis using select_one_Some by (fastforce simp: signed_by_def)
qed

lemma select_one_update_where:
  assumes "select_one P rows = Some r" and "\<And>x. P x \<Longrightarrow> P (f x)"
  shows "select_one P (update_where P f rows) = Some (f r)"
  using assms by (induction rows) (auto split: if_splits)

lemma record_heartbeat_recent:
  assumes "select_one (\<lambda>r. rc_id r = i) (receivers (w_db w)) = Some r" and "rc_enabled r"
    and "0 < RECEIVER_HEARTBEAT_TIMEOUT_SECONDS cfg"
  shows "\<exists>r' h. select_one (\<lambda>r. rc_id r = i) (receivers (w_db (record_heartbeat cfg now i w))) = Some r' \<and> rc_enabled r' \<and>
           rc_lastHeartbeatAt r' = Some h \<and> now - RECEIVER_HEARTBEAT_TIMEOUT_SECONDS cfg div 4 * 1000 \<le> h"
proof -
  have "select_one (\<lambda>r. rc_id r = i) (update_where (\<lambda>r. rc_id r = i) (\<lambda>r. r\<lparr>rc_lastHeartbeatAt := Some now\<rparr>) (receivers (w_db w)))
      = Some (r\<lparr>rc_lastHeartbeatAt := Some now\<rparr>)"
    by (rule select_one_update_where [OF assms(1)]) simp
  then show ?thesis
    using assms by (auto simp: record_heartbeat_def Let_def split: option.splits)
qed

text \<open>
  C11: a gateway that keeps the beat stays eligible. When a heartbeat is answered, the receiver is healthy
  for the picker at every later instant up to the moment the answer asks for the next
  heartbeat (and at that moment too), although fresh heartbeats are not written to the database.
\<close>

theorem heartbeat_keeps_healthy:
  assumes "post_heartbeat cfg ve gh rq w = (Inr reply, w')" and "0 < RECEIVER_HEARTBEAT_TIMEOUT_SECONDS cfg"
    and "ve_now ve \<le> t" and "t \<le> ve_now ve + hr_next_heartbeat_seconds reply * 1000"
  shows "\<exists>r. select_one (\<lambda>r. rc_id r = req_param_id rq) (receivers (w_db w')) = Some r \<and>
           healthy_receiver cfg t (rc_appId r) None r"
proof -
  obtain raw w1 rcv w2 w3 where
    g: "gateway_check cfg ve (gateway_input gh (req_param_id rq) raw) w1 = (Inr rcv, w2)" and w3: "w_db w3 = w_db w2"
    and w': "w' = record_heartbeat cfg (ve_now ve) (ar_id rcv) w3"
    and rep: "hr_next_heartbeat_seconds reply = RECEIVER_HEARTBEAT_TIMEOUT_SECONDS cfg div 2"
    using assms(1) unfolding post_heartbeat_def andThen_Inr_iff gateway_input_def
    by (auto dest!: rate_gate_ok_db simp: ensure_def split: if_splits)
  obtain r where r: "signed_by cfg (ve_ce ve) (ve_now ve) (gateway_input gh (req_param_id rq) raw) (receivers (w_db w1)) r"
    and i: "ar_id rcv = rc_id r" using gateway_check_ok [OF g] by (auto simp: receiver_of_def)
  then have sel: "select_one (\<lambda>r. rc_id r = req_param_id rq) (receivers (w_db w3)) = Some r" and en: "rc_enabled r"
    using gateway_check_ok_db [OF g] w3 by (simp_all add: signed_by_def gateway_input_def)
  then have "rc_id r = req_param_id rq" using select_one_Some by fastforce
  then obtain r' h where r': "select_one (\<lambda>r. rc_id r = req_param_id rq) (receivers (w_db w')) = Some r'" "rc_enabled r'"
      "rc_lastHeartbeatAt r' = Some h" "ve_now ve - RECEIVER_HEARTBEAT_TIMEOUT_SECONDS cfg div 4 * 1000 \<le> h"
    using record_heartbeat_recent [OF sel en assms(2), of "ve_now ve"] w' i by auto
  have "t < h + RECEIVER_HEARTBEAT_TIMEOUT_SECONDS cfg * 1000"
    using r'(4) assms(2,4) rep by auto
  with r' show ?thesis by (auto simp: healthy_receiver_def truthy_def)
qed

theorem heartbeat_keeps_healthy_witness:
  "\<exists>r reply w'. post_heartbeat default_config heartbeat_env heartbeat_headers heartbeat_request heartbeat_world = (Inr reply, w') \<and>
     select_one (\<lambda>r. rc_id r = ''rcv_1'') (receivers (w_db w')) = Some r \<and> healthy_receiver default_config 1060000 (rc_appId r) None r"
proof -
  obtain reply w' where p: "post_heartbeat default_config heartbeat_env heartbeat_headers heartbeat_request heartbeat_world = (Inr reply, w')"
    and n: "hr_next_heartbeat_seconds reply = 60" by (rule heartbeat_accepted)
  have f: "0 < RECEIVER_HEARTBEAT_TIMEOUT_SECONDS default_config" "ve_now heartbeat_env = 1000000" "req_param_id heartbeat_request = ''rcv_1''"
    by (simp_all add: default_config_def heartbeat_env_def route_demo_def route_env.defs heartbeat_request_def)
  show ?thesis using heartbeat_keeps_healthy [OF p f(1), of 1060000] p n f by auto
qed

end
