(* ===== verification/WebhookWorker.thy ===== *)
theory WebhookWorker
  imports Webhooks
begin

text \<open>
  \<open>services/webhookWorker.ts\<close>: claiming due deliveries, the outbound request and the update of the
  delivery row. The result of the one call of \<open>fetchImpl\<close> of an attempt is an argument
  (\<open>fetch_result\<close>), as are the clock readings; \<open>render\<close> gives the stored text of an
  event envelope (\<open>payload_json\<close>). A worker process is a claimed batch being worked off; any
  number of them run against one database.
\<close>

section \<open>The URL gate\<close>

definition isUrlAllowedForDelivery :: "net_env \<Rightarrow> string \<Rightarrow> bool" where
  "isUrlAllowedForDelivery ne rawUrl =
     (case ne_URL ne rawUrl of
        None \<Rightarrow> False
      | Some parsed \<Rightarrow>
        if url_protocol parsed \<noteq> ''http:'' \<and> url_protocol parsed \<noteq> ''https:'' then False
        else
          let allowPrivate = (ne_NODE_ENV ne = ''test'' \<and> ne_WEBHOOK_ALLOW_PRIVATE_FOR_TESTS ne = ''true'') in
          if allowPrivate then True
          else if url_hostname parsed = [] then False
          else
            let host = strip_brackets (url_hostname parsed) in
            if isBlockedIp ne host then False else True)"

section \<open>Claiming\<close>

definition IN_FLIGHT_LEASE_SECONDS :: int where
  "IN_FLIGHT_LEASE_SECONDS = 60"

definition BATCH_SIZE :: nat where
  "BATCH_SIZE = 25"

definition HTTP_TIMEOUT_MS :: int where
  "HTTP_TIMEOUT_MS = 5000"

record due_row =
  dr_delivery_id :: string
  dr_endpoint_id :: string
  dr_event_id :: string
  dr_event_type :: event_type
  dr_attempt_count :: nat
  dr_url :: string
  dr_enabled :: bool
  dr_secret_ciphertext :: string
  dr_payload :: event_envelope

text \<open>The two inner joins of the query.\<close>

definition join_row :: "db \<Rightarrow> delivery_row \<Rightarrow> due_row option" where
  "join_row d x =
     (case (select_one (\<lambda>e. we_id e = dl_endpointId x) (webhookEndpoints d),
            select_one (\<lambda>ev. ev_id ev = dl_eventId x) (webhookEvents d)) of
        (Some e, Some ev) \<Rightarrow>
          Some \<lparr>dr_delivery_id = dl_id x, dr_endpoint_id = dl_endpointId x, dr_event_id = dl_eventId x,
                dr_event_type = dl_eventType x, dr_attempt_count = dl_attemptCount x, dr_url = we_url e,
                dr_enabled = we_enabled e, dr_secret_ciphertext = we_secretCiphertext e, dr_payload = ev_payload ev\<rparr>
      | _ \<Rightarrow> None)"

text \<open>\<open>locked\<close> are the ids of rows locked by other transactions, which the query skips.\<close>

definition due_delivery :: "(string \<Rightarrow> bool) \<Rightarrow> int \<Rightarrow> delivery_row \<Rightarrow> bool" where
  "due_delivery locked dbnow x \<longleftrightarrow> dl_status x = DPending \<and> dl_nextAttemptAt x \<le> dbnow \<and> \<not> locked (dl_id x)"

definition due_rows :: "(string \<Rightarrow> bool) \<Rightarrow> int \<Rightarrow> db \<Rightarrow> due_row list" where
  "due_rows locked dbnow d =
     take BATCH_SIZE (List.map_filter (join_row d)
       (sort_key dl_nextAttemptAt (filter (due_delivery locked dbnow) (webhookDeliveries d))))"

definition set_lease :: "int \<Rightarrow> delivery_row \<Rightarrow> delivery_row" where
  "set_lease now x = x\<lparr>dl_nextAttemptAt := now + IN_FLIGHT_LEASE_SECONDS * 1000, dl_updatedAt := now\<rparr>"

definition claimBatch :: "(string \<Rightarrow> bool) \<Rightarrow> int \<Rightarrow> int \<Rightarrow> world \<Rightarrow> due_row list \<times> world" where
  "claimBatch locked now dbnow w =
     (let rows = due_rows locked dbnow (w_db w) in
      if length rows = 0 then ([], w)
      else
        let ids = map dr_delivery_id rows in
        (rows, w\<lparr>w_db := (w_db w)\<lparr>webhookDeliveries :=
           update_where (\<lambda>x. dl_id x \<in> set ids) (set_lease now) (webhookDeliveries (w_db w))\<rparr>\<rparr>))"

section \<open>Delivering\<close>

datatype delivery_outcome =
    Delivered int
  | Retry fail_reason "int option" string
  | Permanent fail_reason int string
  | EndpointDisabled

datatype js_thrown = DOMException string string | AnError string | NonError string

datatype fetch_result = Status int | Throws js_thrown

record webhook_request =
  rq_url :: string
  rq_method :: string
  rq_headers :: "(string \<times> string) list"
  rq_body :: string
  rq_timeout :: int
  rq_redirect :: string

text \<open>\<open>/timed?\s?out|abort/i\<close>, anywhere in the message.\<close>

definition timeout_at :: "string \<Rightarrow> bool" where
  "timeout_at t =
     (starts_with t ''abort'' \<or>
      (starts_with t ''time'' \<and>
        (let t1 = drop 4 t;
             t2 = (if starts_with t1 ''d'' then tl t1 else t1);
             t3 = (if t2 \<noteq> [] \<and> is_ws (hd t2) then tl t2 else t2)
         in starts_with t3 ''out'')))"

definition timeout_message :: "string \<Rightarrow> bool" where
  "timeout_message m = list_ex (\<lambda>i. timeout_at (drop i (js_lower m))) [0..<length m]"

definition is_timeout :: "js_thrown \<Rightarrow> bool" where
  "is_timeout err = (case err of DOMException name _ \<Rightarrow> name = ''TimeoutError'' | AnError m \<Rightarrow> timeout_message m
     | NonError _ \<Rightarrow> False)"

definition thrown_message :: "js_thrown \<Rightarrow> string" where
  "thrown_message err = (case err of DOMException _ m \<Rightarrow> m | AnError m \<Rightarrow> m | NonError s \<Rightarrow> s)"

text \<open>The outcome of a response or a thrown error, with the metric hooks called.\<close>

definition classify_thrown :: "js_thrown \<Rightarrow> delivery_outcome \<times> metric list" where
  "classify_thrown err =
     (let reason = (if is_timeout err then F_timeout else F_network_error)
      in (Retry reason None (take 500 (thrown_message err)),
          [WebhookDeliveryFailure reason, WebhookDeliveryObserved (if is_timeout err then L_timeout else L_network)]))"

definition classify_status :: "int \<Rightarrow> delivery_outcome \<times> metric list" where
  "classify_status status =
     (if status \<ge> 200 \<and> status < 300 then (Delivered status, [WebhookDeliveryObserved L_2xx])
      else if status = 429 then
        (Retry F_rate_limited (Some status) ''429 from receiver'',
         [WebhookDeliveryFailure F_rate_limited, WebhookDeliveryObserved L_4xx])
      else if status \<ge> 400 \<and> status < 500 then
        (Permanent F_client_4xx status (show_int status @ '' from receiver''),
         [WebhookDeliveryFailure F_client_4xx, WebhookDeliveryObserved L_4xx])
      else if status \<ge> 500 \<and> status < 600 then
        (Retry F_server_5xx (Some status) (show_int status @ '' from receiver''),
         [WebhookDeliveryFailure F_server_5xx, WebhookDeliveryObserved L_5xx])
      else
        (Permanent F_bad_response status (''unexpected status '' @ show_int status),
         [WebhookDeliveryFailure F_bad_response, WebhookDeliveryObserved L_4xx]))"

definition classify_result :: "fetch_result \<Rightarrow> delivery_outcome \<times> metric list" where
  "classify_result res = (case res of Throws err \<Rightarrow> classify_thrown err | Status s \<Rightarrow> classify_status s)"

definition delivery_request :: "crypto_env \<Rightarrow> string \<Rightarrow> int \<Rightarrow> string \<Rightarrow> due_row \<Rightarrow> nat \<Rightarrow> webhook_request" where
  "delivery_request ce secret timestampSec body row attempt =
     \<lparr>rq_url = dr_url row, rq_method = ''POST'',
      rq_headers = [(''content-type'', ''application/json''), (''user-agent'', ''syrotp-webhook/1.0''),
        (''X-SYROTP-Webhook-Id'', dr_delivery_id row), (''X-SYROTP-Webhook-Timestamp'', show_int timestampSec),
        (''X-SYROTP-Webhook-Signature'', signDeliveryBody ce secret timestampSec body),
        (''X-SYROTP-Webhook-Event'', event_name (dr_event_type row)), (''X-SYROTP-Webhook-Attempt'', show_nat attempt)],
      rq_body = body, rq_timeout = HTTP_TIMEOUT_MS, rq_redirect = ''manual''\<rparr>"

definition add_metrics :: "metric list \<Rightarrow> world \<Rightarrow> world" where
  "add_metrics ms w = fold metric ms w"

text \<open>The outcome, the request that went out (if one did) and the state with the metrics.\<close>

definition deliver ::
  "config \<Rightarrow> crypto_env \<Rightarrow> net_env \<Rightarrow> (event_envelope \<Rightarrow> string) \<Rightarrow> int \<Rightarrow> fetch_result \<Rightarrow> due_row \<Rightarrow> nat \<Rightarrow> world \<Rightarrow>
   delivery_outcome \<times> webhook_request option \<times> world" where
  "deliver cfg ce ne render now res row attempt w =
     (if \<not> dr_enabled row then (EndpointDisabled, None, metric (WebhookDeliveryFailure F_endpoint_disabled) w)
      else if \<not> isUrlAllowedForDelivery ne (dr_url row) then
        (Permanent F_bad_response 0 ''url_blocked_by_ssrf_guard'', None, metric (WebhookDeliveryFailure F_bad_response) w)
      else case unwrap (ce_gcm ce) (MASTER_ENCRYPTION_KEY cfg) (dr_secret_ciphertext row)
                  (Some (''webhook:'' @ dr_endpoint_id row)) of
        Inl _ \<Rightarrow>
          (Permanent F_bad_response 0 ''secret_unwrap_failed'', None, metric (WebhookDeliveryFailure F_bad_response) w)
      | Inr secret \<Rightarrow>
          let timestampSec = now div 1000;
              request = delivery_request ce secret timestampSec (render (dr_payload row)) row attempt;
              (outcome, ms) = classify_result res
          in (outcome, Some request, add_metrics ms w))"

section \<open>Recording the outcome\<close>

definition apply_row :: "delivery_outcome \<Rightarrow> nat \<Rightarrow> int \<Rightarrow> delivery_row \<Rightarrow> delivery_row" where
  "apply_row outcome attempt now x =
     (case outcome of
        Delivered s \<Rightarrow> x\<lparr>dl_status := DDelivered, dl_attemptCount := attempt, dl_lastStatusCode := Some s,
                         dl_lastError := None, dl_updatedAt := now\<rparr>
      | EndpointDisabled \<Rightarrow> x\<lparr>dl_status := DAbandoned, dl_attemptCount := attempt,
                               dl_lastError := Some ''endpoint_disabled'', dl_updatedAt := now\<rparr>
      | Permanent _ s m \<Rightarrow> x\<lparr>dl_status := DFailed, dl_attemptCount := attempt, dl_lastStatusCode := Some s,
                             dl_lastError := Some (take 500 m), dl_updatedAt := now\<rparr>
      | Retry _ s m \<Rightarrow>
          (case nextRetryDelaySeconds attempt of
             Some delay \<Rightarrow>
               if attempt \<ge> MAX_DELIVERY_ATTEMPTS then
                 x\<lparr>dl_status := DAbandoned, dl_attemptCount := attempt, dl_lastStatusCode := s,
                   dl_lastError := Some (take 500 m), dl_updatedAt := now\<rparr>
               else
                 x\<lparr>dl_status := DPending, dl_attemptCount := attempt, dl_lastStatusCode := s,
                   dl_lastError := Some (take 500 m), dl_nextAttemptAt := now + delay * 1000, dl_updatedAt := now\<rparr>
           | None \<Rightarrow>
               x\<lparr>dl_status := DAbandoned, dl_attemptCount := attempt, dl_lastStatusCode := s,
                 dl_lastError := Some (take 500 m), dl_updatedAt := now\<rparr>))"

definition terminal_metric :: "delivery_outcome \<Rightarrow> nat \<Rightarrow> delivery_terminal" where
  "terminal_metric outcome attempt =
     (case outcome of Delivered _ \<Rightarrow> T_delivered | EndpointDisabled \<Rightarrow> T_abandoned | Permanent _ _ _ \<Rightarrow> T_failed
      | Retry _ _ _ \<Rightarrow> if nextRetryDelaySeconds attempt = None \<or> attempt \<ge> MAX_DELIVERY_ATTEMPTS
                        then T_abandoned else T_retried)"

definition applyOutcome :: "int \<Rightarrow> due_row \<Rightarrow> nat \<Rightarrow> delivery_outcome \<Rightarrow> world \<Rightarrow> world" where
  "applyOutcome now row attempt outcome w =
     metric (WebhookDeliveryTerminal (terminal_metric outcome attempt))
       (w\<lparr>w_db := (w_db w)\<lparr>webhookDeliveries :=
          update_where (\<lambda>x. dl_id x = dr_delivery_id row) (apply_row outcome attempt now) (webhookDeliveries (w_db w))\<rparr>\<rparr>)"

text \<open>What the outside contributes to one attempt.\<close>

record attempt_env =
  ae_now :: int
  ae_result :: fetch_result
  ae_applied :: int

definition processOne ::
  "config \<Rightarrow> crypto_env \<Rightarrow> net_env \<Rightarrow> (event_envelope \<Rightarrow> string) \<Rightarrow> attempt_env \<Rightarrow> due_row \<Rightarrow> world \<Rightarrow>
   webhook_request option \<times> world" where
  "processOne cfg ce ne render ae row w =
     (let attempt = dr_attempt_count row + 1;
          (outcome, request, w1) = deliver cfg ce ne render (ae_now ae) (ae_result ae) row attempt w
      in (request, applyOutcome (ae_applied ae) row attempt outcome w1))"

text \<open>The loop of \<open>tick\<close> over the claimed rows, one environment per row.\<close>

fun process_all ::
  "config \<Rightarrow> crypto_env \<Rightarrow> net_env \<Rightarrow> (event_envelope \<Rightarrow> string) \<Rightarrow> (nat \<Rightarrow> attempt_env) \<Rightarrow> due_row list \<Rightarrow> world \<Rightarrow>
   webhook_request list \<times> world" where
  "process_all cfg ce ne render aes [] w = ([], w)"
| "process_all cfg ce ne render aes (row # rows) w =
     (let (request, w1) = processOne cfg ce ne render (aes 0) row w;
          (requests, w2) = process_all cfg ce ne render (\<lambda>i. aes (Suc i)) rows w1
      in (case request of None \<Rightarrow> requests | Some rq \<Rightarrow> rq # requests, w2))"

definition tick ::
  "config \<Rightarrow> crypto_env \<Rightarrow> net_env \<Rightarrow> (event_envelope \<Rightarrow> string) \<Rightarrow> (string \<Rightarrow> bool) \<Rightarrow> int \<Rightarrow> int \<Rightarrow>
   (nat \<Rightarrow> attempt_env) \<Rightarrow> world \<Rightarrow> webhook_request list \<times> world" where
  "tick cfg ce ne render locked now dbnow aes w =
     (let (claimed, w1) = claimBatch locked now dbnow w
      in process_all cfg ce ne render aes claimed w1)"

section \<open>One attempt\<close>

lemma add_metrics_db [simp]: "w_db (add_metrics ms w) = w_db w"
  unfolding add_metrics_def by (induction ms arbitrary: w) simp_all

lemma applyOutcome_deliveries [simp]:
  "webhookDeliveries (w_db (applyOutcome now row a oc w)) =
     update_where (\<lambda>x. dl_id x = dr_delivery_id row) (apply_row oc a now) (webhookDeliveries (w_db w))"
  by (simp add: applyOutcome_def)

lemma apply_row_id [simp]: "dl_id (apply_row oc a now x) = dl_id x"
  by (simp add: apply_row_def split: delivery_outcome.splits option.splits)

lemma apply_row_attempts [simp]: "dl_attemptCount (apply_row oc a now x) = a"
  by (simp add: apply_row_def split: delivery_outcome.splits option.splits)

lemma set_lease_simps [simp]:
  "dl_id (set_lease now x) = dl_id x" "dl_status (set_lease now x) = dl_status x"
  "dl_attemptCount (set_lease now x) = dl_attemptCount x" "dl_lastStatusCode (set_lease now x) = dl_lastStatusCode x"
  "dl_lastError (set_lease now x) = dl_lastError x" "dl_nextAttemptAt (set_lease now x) = now + 60000"
  by (simp_all add: set_lease_def IN_FLIGHT_LEASE_SECONDS_def)

lemma deliver_db [simp]: "w_db (snd (snd (deliver cfg ce ne render now res row a w))) = w_db w"
  by (simp add: deliver_def Let_def split: sum.splits prod.splits)

text \<open>A retry is scheduled exactly while attempts are left.\<close>

lemma nextRetryDelaySeconds_iff: "nextRetryDelaySeconds a \<noteq> None \<longleftrightarrow> 1 \<le> a \<and> a < 6"
  by (auto simp: nextRetryDelaySeconds_def MAX_DELIVERY_ATTEMPTS_def RETRY_DELAY_SECONDS_def)

definition is_2xx :: "int \<Rightarrow> bool" where
  "is_2xx s \<longleftrightarrow> 200 \<le> s \<and> s < 300"

text \<open>
  A well-formed delivery: at most six attempts, fewer while pending, and delivered only on a response
  of class 2xx.
\<close>

definition delivery_ok :: "delivery_row \<Rightarrow> bool" where
  "delivery_ok x \<longleftrightarrow> dl_attemptCount x \<le> 6 \<and> (dl_status x = DPending \<longrightarrow> dl_attemptCount x < 6) \<and>
     (dl_attemptCount x = 0 \<longrightarrow> dl_status x = DPending) \<and>
     (dl_status x = DDelivered \<longrightarrow> (\<exists>c. dl_lastStatusCode x = Some c \<and> is_2xx c) \<and> dl_lastError x = None)"

definition outcome_ok :: "delivery_outcome \<Rightarrow> bool" where
  "outcome_ok oc \<longleftrightarrow> (\<forall>s. oc = Delivered s \<longrightarrow> is_2xx s)"

lemma classify_ok: "outcome_ok (fst (classify_result res))"
  by (auto simp: outcome_ok_def classify_result_def classify_thrown_def classify_status_def is_2xx_def Let_def
      split: fetch_result.splits if_splits)

lemma deliver_ok: "outcome_ok (fst (deliver cfg ce ne render now res row a w))"
  using classify_ok [of res] by (auto simp: deliver_def outcome_ok_def Let_def split: sum.splits prod.splits)

lemma apply_row_ok:
  assumes "outcome_ok oc" and "1 \<le> a" and "a \<le> 6"
  shows "delivery_ok (apply_row oc a now x)"
proof (cases oc)
  case (Retry r s m)
  show ?thesis
    using assms(2,3) nextRetryDelaySeconds_iff [of a]
    by (cases "nextRetryDelaySeconds a") (auto simp: Retry apply_row_def delivery_ok_def MAX_DELIVERY_ATTEMPTS_def)
qed (use assms in \<open>auto simp: apply_row_def delivery_ok_def outcome_ok_def\<close>)

lemma processOne_deliveries:
  assumes "processOne cfg ce ne render ae r w = (rq, w')"
  obtains oc where "outcome_ok oc" and
    "webhookDeliveries (w_db w') = update_where (\<lambda>x. dl_id x = dr_delivery_id r)
        (apply_row oc (dr_attempt_count r + 1) (ae_applied ae)) (webhookDeliveries (w_db w))"
proof -
  obtain oc q w1 where d: "deliver cfg ce ne render (ae_now ae) (ae_result ae) r (dr_attempt_count r + 1) w = (oc, q, w1)"
    by (metis prod_cases3)
  have "outcome_ok oc" and "w_db w1 = w_db w"
    using deliver_ok [of cfg ce ne render "ae_now ae" "ae_result ae" r "dr_attempt_count r + 1" w, unfolded d]
      deliver_db [of cfg ce ne render "ae_now ae" "ae_result ae" r "dr_attempt_count r + 1" w, unfolded d] by simp_all
  moreover have "w' = applyOutcome (ae_applied ae) r (dr_attempt_count r + 1) oc w1"
    using assms d by (simp add: processOne_def)
  ultimately show ?thesis using that [of oc] by simp
qed

lemma due_rows_in:
  "r \<in> set (due_rows locked dbnow d) \<Longrightarrow>
     \<exists>x \<in> set (webhookDeliveries d). due_delivery locked dbnow x \<and> join_row d x = Some r"
  unfolding due_rows_def List.map_filter_def
  by (drule in_set_takeD) (auto intro!: bexI)

lemma join_row_simps:
  "join_row d x = Some r \<Longrightarrow> dr_delivery_id r = dl_id x \<and> dr_attempt_count r = dl_attemptCount x"
  by (auto simp: join_row_def split: option.splits)

lemma claimBatch_eq:
  "claimBatch locked now dbnow w = (due_rows locked dbnow (w_db w),
     w\<lparr>w_db := (w_db w)\<lparr>webhookDeliveries :=
        update_where (\<lambda>x. dl_id x \<in> dr_delivery_id ` set (due_rows locked dbnow (w_db w))) (set_lease now)
          (webhookDeliveries (w_db w))\<rparr>\<rparr>)"
  by (auto simp: claimBatch_def Let_def update_where_def)

section \<open>A tick, delivery by delivery\<close>

definition row_of :: "string \<Rightarrow> world \<Rightarrow> delivery_row option" where
  "row_of i w = select_one (\<lambda>x. dl_id x = i) (webhookDeliveries (w_db w))"

lemma select_update_id:
  "(\<And>x. dl_id (f x) = dl_id x) \<Longrightarrow>
   select_one (\<lambda>x. dl_id x = i) (update_where P f xs) =
     map_option (\<lambda>x. if P x then f x else x) (select_one (\<lambda>x. dl_id x = i) xs)"
  by (induction xs) auto

text \<open>The outcome of an attempt at a claimed row, whatever the state.\<close>

definition outcome_of :: "config \<Rightarrow> crypto_env \<Rightarrow> net_env \<Rightarrow> fetch_result \<Rightarrow> due_row \<Rightarrow> delivery_outcome" where
  "outcome_of cfg ce ne res row =
     (if \<not> dr_enabled row then EndpointDisabled
      else if \<not> isUrlAllowedForDelivery ne (dr_url row) then Permanent F_bad_response 0 ''url_blocked_by_ssrf_guard''
      else if is_ok (unwrap (ce_gcm ce) (MASTER_ENCRYPTION_KEY cfg) (dr_secret_ciphertext row) (Some (''webhook:'' @ dr_endpoint_id row)))
        then fst (classify_result res)
      else Permanent F_bad_response 0 ''secret_unwrap_failed'')"

lemma deliver_outcome: "fst (deliver cfg ce ne render now res row a w) = outcome_of cfg ce ne res row"
  by (simp add: deliver_def outcome_of_def Let_def is_ok_def split: sum.splits prod.splits)

lemma processOne_row:
  assumes "processOne cfg ce ne render ae r w = (rq, w')"
  shows "row_of i w' = map_option (\<lambda>x. if dl_id x = dr_delivery_id r
      then apply_row (outcome_of cfg ce ne (ae_result ae) r) (Suc (dr_attempt_count r)) (ae_applied ae) x else x) (row_of i w)"
proof -
  let ?D = "deliver cfg ce ne render (ae_now ae) (ae_result ae) r (dr_attempt_count r + 1) w"
  have "w' = applyOutcome (ae_applied ae) r (dr_attempt_count r + 1) (fst ?D) (snd (snd ?D))"
    using assms by (simp add: processOne_def case_prod_beta Let_def)
  then show ?thesis by (simp add: row_of_def select_update_id deliver_outcome)
qed

lemma row_of_id: "row_of i w = Some x \<Longrightarrow> dl_id x = i"
  by (auto simp: row_of_def dest: select_one_Some)

lemma process_all_other:
  "i \<notin> dr_delivery_id ` set rows \<Longrightarrow> row_of i (snd (process_all cfg ce ne render aes rows w)) = row_of i w"
proof (induction rows arbitrary: aes w)
  case (Cons r rows)
  obtain rq w1 where p: "processOne cfg ce ne render (aes 0) r w = (rq, w1)" by (cases "processOne cfg ce ne render (aes 0) r w")
  have "row_of i w1 = row_of i w"
    using processOne_row [OF p, of i] Cons.prems row_of_id [of i w] by (cases "row_of i w") auto
  then show ?case using Cons by (simp add: p case_prod_beta)
qed simp

lemma process_all_row:
  "distinct (map dr_delivery_id rows) \<Longrightarrow> k < length rows \<Longrightarrow> i = dr_delivery_id (rows ! k) \<Longrightarrow>
   row_of i (snd (process_all cfg ce ne render aes rows w)) =
     map_option (apply_row (outcome_of cfg ce ne (ae_result (aes k)) (rows ! k)) (Suc (dr_attempt_count (rows ! k))) (ae_applied (aes k)))
       (row_of i w)"
proof (induction rows arbitrary: aes w k)
  case (Cons r rows)
  obtain rq w1 where p: "processOne cfg ce ne render (aes 0) r w = (rq, w1)" by (cases "processOne cfg ce ne render (aes 0) r w")
  show ?case
  proof (cases k)
    case 0
    then have "i \<notin> dr_delivery_id ` set rows" using Cons.prems by simp
    then show ?thesis using 0 Cons.prems processOne_row [OF p, of i] row_of_id [of i w]
      by (cases "row_of i w") (simp_all add: p case_prod_beta process_all_other)
  next
    case (Suc k')
    then have "i \<noteq> dr_delivery_id r" using Cons.prems by (metis distinct.simps(2) length_Cons list.simps(9) nth_Cons_Suc nth_map nth_mem Suc_less_eq length_map)
    then have "row_of i w1 = row_of i w"
      using processOne_row [OF p, of i] row_of_id [of i w] by (cases "row_of i w") auto
    then show ?thesis using Suc Cons.IH [of k' "\<lambda>n. aes (Suc n)" w1] Cons.prems by (simp add: p case_prod_beta)
  qed
qed simp

lemma claimBatch_row:
  assumes "claimBatch locked now dbnow w = (rows, w')"
  shows "row_of i w' = map_option (\<lambda>x. if i \<in> dr_delivery_id ` set rows then set_lease now x else x) (row_of i w)"
proof -
  have rows: "rows = due_rows locked dbnow (w_db w)" and w': "webhookDeliveries (w_db w') =
      update_where (\<lambda>x. dl_id x \<in> dr_delivery_id ` set rows) (set_lease now) (webhookDeliveries (w_db w))"
    using assms by (auto simp: claimBatch_eq)
  have "row_of i w' = map_option (\<lambda>x. if dl_id x \<in> dr_delivery_id ` set rows then set_lease now x else x) (row_of i w)"
    unfolding row_of_def w' by (rule select_update_id) simp
  then show ?thesis using row_of_id [of i w] by (cases "row_of i w") auto
qed

lemma map_filter_keys:
  "(\<And>x y. f x = Some y \<Longrightarrow> k y = h x) \<Longrightarrow> map k (List.map_filter f xs) = map h (filter (\<lambda>x. f x \<noteq> None) xs)"
  by (induction xs) (auto simp: List.map_filter_simps split: option.splits)

lemma distinct_due_rows:
  assumes "distinct (map dl_id (webhookDeliveries d))"
  shows "distinct (map dr_delivery_id (due_rows locked dbnow d))"
proof -
  let ?xs = "sort_key dl_nextAttemptAt (filter (due_delivery locked dbnow) (webhookDeliveries d))"
  have "distinct (map dl_id ?xs)"
    using assms by (auto simp: distinct_map intro: inj_on_subset)
  then have "distinct (map dl_id (filter (\<lambda>x. join_row d x \<noteq> None) ?xs))" by (rule distinct_map_filter)
  moreover have "map dr_delivery_id (List.map_filter (join_row d) ?xs) = map dl_id (filter (\<lambda>x. join_row d x \<noteq> None) ?xs)"
    by (rule map_filter_keys) (simp add: join_row_simps)
  ultimately show ?thesis unfolding due_rows_def by (metis distinct_take take_map)
qed

text \<open>
  What one tick does to a delivery. A claimed delivery was due, and its row becomes the one with its
  outcome recorded at the next attempt number; a delivery that was not claimed is untouched; and
  with at most a batch of due deliveries every one of them is claimed.
\<close>

theorem tick_effect:
  assumes "distinct (map dl_id (webhookDeliveries (w_db w)))" and "row_of i w = Some x"
    and "rows = due_rows locked dbnow (w_db w)"
  shows "(\<forall>k < length rows. dr_delivery_id (rows ! k) = i \<longrightarrow>
           due_delivery locked dbnow x \<and>
           row_of i (snd (tick cfg ce ne render locked now dbnow aes w)) =
             Some (apply_row (outcome_of cfg ce ne (ae_result (aes k)) (rows ! k)) (Suc (dl_attemptCount x))
               (ae_applied (aes k)) (set_lease now x))) \<and>
         (i \<notin> dr_delivery_id ` set rows \<longrightarrow> row_of i (snd (tick cfg ce ne render locked now dbnow aes w)) = Some x) \<and>
         (due_delivery locked dbnow x \<and> join_row (w_db w) x \<noteq> None \<and>
          length (filter (due_delivery locked dbnow) (webhookDeliveries (w_db w))) \<le> 25 \<longrightarrow> i \<in> dr_delivery_id ` set rows)"
proof -
  obtain w1 where c: "claimBatch locked now dbnow w = (rows, w1)" using assms(3) by (simp add: claimBatch_eq)
  have x: "x \<in> set (webhookDeliveries (w_db w))" "dl_id x = i" using assms(2) by (auto simp: row_of_def dest: select_one_Some)
  have t: "snd (tick cfg ce ne render locked now dbnow aes w) = snd (process_all cfg ce ne render aes rows w1)"
    by (simp add: tick_def c)
  have d: "distinct (map dr_delivery_id rows)" using distinct_due_rows [OF assms(1)] assms(3) by simp
  have claimed: "due_delivery locked dbnow x \<and> dr_attempt_count (rows ! k) = dl_attemptCount x"
    if k: "k < length rows" "dr_delivery_id (rows ! k) = i" for k
  proof -
    obtain y where y: "y \<in> set (webhookDeliveries (w_db w))" "due_delivery locked dbnow y" "join_row (w_db w) y = Some (rows ! k)"
      using due_rows_in [of "rows ! k" locked dbnow "w_db w"] k(1) assms(3) nth_mem by blast
    then have "y = x" using join_row_simps [OF y(3)] x k(2) assms(1) by (metis distinct_map inj_onD)
    with y show ?thesis using join_row_simps [OF y(3)] by simp
  qed
  have "i \<in> dr_delivery_id ` set rows"
    if j: "due_delivery locked dbnow x" "join_row (w_db w) x = Some r"
      and n: "length (filter (due_delivery locked dbnow) (webhookDeliveries (w_db w))) \<le> 25" for r
  proof -
    let ?xs = "sort_key dl_nextAttemptAt (filter (due_delivery locked dbnow) (webhookDeliveries (w_db w)))"
    have "length (List.map_filter (join_row (w_db w)) ?xs) \<le> BATCH_SIZE"
      using n by (simp add: List.map_filter_def BATCH_SIZE_def order.trans [OF length_filter_le])
    moreover have "r \<in> set (List.map_filter (join_row (w_db w)) ?xs)"
      using x(1) j by (force simp: List.map_filter_def)
    ultimately have "r \<in> set rows" using assms(3) by (simp add: due_rows_def)
    then show ?thesis using join_row_simps [OF j(2)] x(2) by force
  qed
  then show ?thesis
    using claimed process_all_row [OF d] process_all_other claimBatch_row [OF c, of i] assms(2) nth_mem unfolding t by force
qed

definition demo_wrapped :: string where
  "demo_wrapped = (case wrap rev_gcm demo_iv (MASTER_ENCRYPTION_KEY default_config) ''whsec_7879'' (Some ''webhook:whk_01'') of
     Inr s \<Rightarrow> s | Inl _ \<Rightarrow> [])"

definition demo_endpoint :: endpoint_row where
  "demo_endpoint = new_endpoint ''whk_01'' demo_webhook_input demo_wrapped [EvVerified, EvExpired] 5"

definition demo_hooked :: world where
  "demo_hooked = empty_world\<lparr>w_db := empty_db\<lparr>webhookEndpoints := [demo_endpoint]\<rparr>\<rparr>"

definition demo_event :: event_data where
  "demo_event = buildVerificationEventData demo_verification EvExpired"

definition demo_queue :: world where
  "demo_queue = emitVerificationEventInTx EvExpired ''app_1'' demo_event ''e1'' (\<lambda>i. ''d1'') 1000 demo_hooked"

definition demo_delivery :: delivery_row where
  "demo_delivery = new_delivery EvExpired ''evt_e1'' 1000 ''d1'' demo_endpoint"

definition demo_attempt :: "int \<Rightarrow> attempt_env" where
  "demo_attempt status = \<lparr>ae_now = 2000, ae_result = Status status, ae_applied = 2500\<rparr>"

lemma demo_queue_tables:
  "webhookDeliveries (w_db demo_queue) = [demo_delivery]" "webhookEndpoints (w_db demo_queue) = [demo_endpoint]"
  "webhookEvents (w_db demo_queue) = [emitted_event EvExpired ''app_1'' demo_event ''e1'' 1000]"
  by (simp_all add: demo_queue_def emitVerificationEventInTx_def demo_hooked_def empty_world_def empty_db_def Let_def
      subscribed_def demo_endpoint_def new_endpoint_def demo_webhook_input_def demo_delivery_def newId_def emitted_event_def)

definition demo_due :: due_row where
  "demo_due = \<lparr>dr_delivery_id = ''wd_d1'', dr_endpoint_id = ''whk_01'', dr_event_id = ''evt_e1'', dr_event_type = EvExpired,
     dr_attempt_count = 0, dr_url = ''https://hooks.example/x'', dr_enabled = True, dr_secret_ciphertext = demo_wrapped,
     dr_payload = \<lparr>en_id = ''evt_e1'', en_type = EvExpired, en_created_at = 1000, en_data = demo_event\<rparr>\<rparr>"

lemma demo_join: "join_row (w_db demo_queue) demo_delivery = Some demo_due"
  by (simp add: join_row_def demo_queue_tables demo_delivery_def new_delivery_def demo_endpoint_def new_endpoint_def
      demo_webhook_input_def emitted_event_def newId_def demo_due_def)

lemma demo_due_rows: "due_rows (\<lambda>_. False) 2000 (w_db demo_queue) = [demo_due]"
proof -
  have "due_delivery (\<lambda>_. False) 2000 demo_delivery" by (simp add: due_delivery_def demo_delivery_def new_delivery_def)
  then show ?thesis by (simp add: due_rows_def demo_queue_tables BATCH_SIZE_def List.map_filter_simps demo_join)
qed

lemma demo_url_allowed: "isUrlAllowedForDelivery demo_net ''https://hooks.example/x''"
proof -
  have "\<not> isBlockedIp demo_net ''hooks.example''" by (simp add: isBlockedIp_def demo_host_name)
  then show ?thesis by (simp add: isUrlAllowedForDelivery_def demo_net_def strip_brackets_def starts_with_def Let_def)
qed

lemma demo_endpoint_secret:
  "unwrap rev_gcm (MASTER_ENCRYPTION_KEY default_config) demo_wrapped (Some ''webhook:whk_01'') = Inr ''whsec_7879''"
proof -
  obtain v where v: "wrap rev_gcm demo_iv (MASTER_ENCRYPTION_KEY default_config) ''whsec_7879'' (Some ''webhook:whk_01'') = Inr v"
    by (simp add: wrap_def Let_def default_config_def from_hex_zeros)
  then have "demo_wrapped = v" by (simp add: demo_wrapped_def)
  with unwrap_wrap [OF rev_gcm_ok v] show ?thesis by (simp add: Let_def)
qed

lemma demo_outcome: "outcome_of default_config demo_env demo_net res demo_due = fst (classify_result res)"
  using demo_endpoint_secret demo_url_allowed by (simp add: outcome_of_def demo_due_def demo_env_def)

theorem tick_effect_witness:
  "\<exists>y. row_of ''wd_d1'' (snd (tick default_config demo_env demo_net (\<lambda>_. ''{}'') (\<lambda>_. False) 2000 2000 (\<lambda>_. demo_attempt 503) demo_queue)) = Some y \<and>
       dl_status y = DPending \<and> dl_attemptCount y = 1 \<and> dl_nextAttemptAt y = 32500"
proof -
  have x: "row_of ''wd_d1'' demo_queue = Some demo_delivery"
    by (simp add: row_of_def demo_queue_tables demo_delivery_def new_delivery_def newId_def)
  have "dr_delivery_id demo_due = ''wd_d1''" by (simp add: demo_due_def)
  then have "row_of ''wd_d1'' (snd (tick default_config demo_env demo_net (\<lambda>_. ''{}'') (\<lambda>_. False) 2000 2000 (\<lambda>_. demo_attempt 503) demo_queue))
     = Some (apply_row (fst (classify_result (Status 503))) (Suc 0) 2500 (set_lease 2000 demo_delivery))"
    using tick_effect [OF _ x demo_due_rows [symmetric], where cfg = default_config and ce = demo_env and ne = demo_net
        and render = "\<lambda>_. ''{}''" and now = 2000 and aes = "\<lambda>_. demo_attempt 503"]
    by (simp add: demo_queue_tables demo_outcome demo_attempt_def demo_delivery_def new_delivery_def)
  then show ?thesis
    by (simp add: classify_result_def classify_status_def apply_row_def nextRetryDelaySeconds_def MAX_DELIVERY_ATTEMPTS_def RETRY_DELAY_SECONDS_def)
qed

section \<open>The retry budget\<close>

text \<open>The verdict on a delivery: the first outcome that is final, or abandonment at the sixth attempt.\<close>

fun delivery_verdict :: "delivery_outcome list \<Rightarrow> nat \<Rightarrow> webhook_delivery_status \<times> nat" where
  "delivery_verdict [] a = (DPending, a)"
| "delivery_verdict (oc # ocs) a =
     (case oc of
        Delivered _ \<Rightarrow> (DDelivered, Suc a)
      | Permanent _ _ _ \<Rightarrow> (DFailed, Suc a)
      | EndpointDisabled \<Rightarrow> (DAbandoned, Suc a)
      | Retry _ _ _ \<Rightarrow> if Suc a \<ge> 6 then (DAbandoned, Suc a) else delivery_verdict ocs (Suc a))"

text \<open>The attempts at one delivery in turn, each at its time, until the row is not pending any more.\<close>

fun attempts :: "(delivery_outcome \<times> int) list \<Rightarrow> delivery_row \<Rightarrow> delivery_row" where
  "attempts [] x = x"
| "attempts ((oc, now) # ocs) x =
     (if dl_status x = DPending then attempts ocs (apply_row oc (Suc (dl_attemptCount x)) now x) else x)"

lemma attempts_final: "dl_status x \<noteq> DPending \<Longrightarrow> attempts ocs x = x"
  by (cases "(ocs, x)" rule: attempts.cases) auto

lemma apply_row_status:
  assumes "a < 6"
  shows "dl_status (apply_row oc (Suc a) now x) =
    (case oc of Delivered _ \<Rightarrow> DDelivered | Permanent _ _ _ \<Rightarrow> DFailed | EndpointDisabled \<Rightarrow> DAbandoned
     | Retry _ _ _ \<Rightarrow> if Suc a \<ge> 6 then DAbandoned else DPending)"
  using assms nextRetryDelaySeconds_iff [of "Suc a"]
  by (auto simp: apply_row_def MAX_DELIVERY_ATTEMPTS_def split: delivery_outcome.splits option.splits)

lemma delivery_verdict_ends: "6 \<le> a + length ocs \<Longrightarrow> a < 6 \<Longrightarrow> fst (delivery_verdict ocs a) \<noteq> DPending \<and> snd (delivery_verdict ocs a) \<le> 6"
  by (induction ocs arbitrary: a) (auto split: delivery_outcome.splits)

text \<open>
  C18: retries end, with the right verdict. The attempts at a pending delivery leave it delivered at the first
  2xx response, failed at the first permanent error, and abandoned when the sixth attempt is still
  answered by a retriable error; once six attempts have been possible it is no longer pending. A
  retriable failure at attempt \<open>n < 6\<close> schedules the next attempt 30 s, 2 min, 10 min, 30 min
  or 2 h later.
\<close>

theorem retries_end:
  assumes "dl_status x = DPending" and "dl_attemptCount x < 6"
  shows "(dl_status (attempts ocs x), dl_attemptCount (attempts ocs x)) = delivery_verdict (map fst ocs) (dl_attemptCount x) \<and>
    (6 \<le> dl_attemptCount x + length ocs \<longrightarrow> dl_status (attempts ocs x) \<noteq> DPending \<and> dl_attemptCount (attempts ocs x) \<le> 6) \<and>
    (\<forall>r s m now. dl_attemptCount x < 5 \<longrightarrow>
       dl_nextAttemptAt (attempts [(Retry r s m, now)] x) = now + [30, 120, 600, 1800, 7200] ! dl_attemptCount x * 1000)"
proof -
  have v: "(dl_status (attempts ocs x), dl_attemptCount (attempts ocs x)) = delivery_verdict (map fst ocs) (dl_attemptCount x)"
    using assms
  proof (induction ocs x rule: attempts.induct)
    case (2 oc now ocs x)
    show ?case
      using 2 apply_row_status [OF 2(3), of oc now x]
      by (cases oc) (auto simp: attempts_final)
  qed simp
  moreover have "6 \<le> dl_attemptCount x + length ocs \<longrightarrow> dl_status (attempts ocs x) \<noteq> DPending \<and> dl_attemptCount (attempts ocs x) \<le> 6"
    using delivery_verdict_ends [of "dl_attemptCount x" "map fst ocs"] assms(2) unfolding v [symmetric] by simp
  moreover have "dl_nextAttemptAt (attempts [(Retry r s m, now)] x) = now + [30, 120, 600, 1800, 7200] ! dl_attemptCount x * 1000"
    if "dl_attemptCount x < 5" for r s m now
    using assms(1) that by (simp add: apply_row_def nextRetryDelaySeconds_def MAX_DELIVERY_ATTEMPTS_def RETRY_DELAY_SECONDS_def)
  ultimately show ?thesis by blast
qed

theorem retries_end_witness:
  "dl_status (attempts (replicate 6 (Retry F_server_5xx (Some 503) [], 0)) demo_delivery) = DAbandoned"
  using retries_end [of demo_delivery "replicate 6 (Retry F_server_5xx (Some 503) [], 0)"]
  by (simp add: demo_delivery_def new_delivery_def numeral_eq_Suc)

section \<open>Where requests go and what they carry\<close>

text \<open>
  C19: no delivery reaches a refused address. Outside the test escape hatch, whatever the resolver answers at
  delivery time, the address a delivery request connects to is not one the filter refuses. The
  connection goes to the host of the URL when that is an IP literal, which \<open>net.connect\<close> does
  not pass to the \<open>lookup\<close> hook, and otherwise to the address the hook of the agent returned.
\<close>

theorem delivery_address_allowed:
  assumes "fst (snd (deliver cfg ce ne render now res row a w)) = Some rq"
    and "\<not> escapeHatchActive ne"
    and "ne_URL ne (rq_url rq) = Some p"
    and "isIP ne (strip_brackets (url_hostname p)) \<noteq> 0 \<and> addr = strip_brackets (url_hostname p) \<or>
         isIP ne (strip_brackets (url_hostname p)) = 0 \<and>
         agent_lookup (escapeHatchActive ne) ne (strip_brackets (url_hostname p)) = Inr addr"
  shows "\<not> isBlockedIp ne addr \<and> url_protocol p \<in> {''http:'', ''https:''}"
proof -
  have "isUrlAllowedForDelivery ne (dr_url row)" and "rq_url rq = dr_url row"
    using assms(1) by (auto simp: deliver_def delivery_request_def Let_def split: if_splits sum.splits prod.splits)
  then show ?thesis
    using assms(2-4) agent_lookup_safe(2)
    by (auto simp: isUrlAllowedForDelivery_def escapeHatchActive_def Let_def split: if_splits)
qed

lemma demo_deliver:
  "fst (snd (deliver default_config demo_env demo_net render now res demo_due a w)) =
     Some (delivery_request demo_env ''whsec_7879'' (now div 1000) (render (dr_payload demo_due)) demo_due a)"
  using demo_endpoint_secret demo_url_allowed
  by (simp add: deliver_def demo_due_def demo_env_def Let_def case_prod_beta)

theorem delivery_address_allowed_witness:
  "\<not> isBlockedIp demo_net ''203.0.113.9'' \<and>
   agent_lookup False demo_net ''rebind.example'' = Inl ''EWEBHOOK_SSRF_BLOCKED''"
proof -
  have "''127.0.0.1'' = dotted 127 0 0 1" by code_simp
  then have b: "isBlockedIp demo_net ''127.0.0.1''"
    by (simp add: isBlockedIp_def isIP_dotted isBlockedV4_dotted private_v4_def)
  have n: "isIP demo_net ''rebind.example'' = 0" "\<not> isBlockedHostname ''rebind.example''" by code_simp+
  have "ne_dnsLookup demo_net ''rebind.example'' = Inr [''127.0.0.1'']" by (simp add: demo_net_def)
  with b n have 1: "agent_lookup False demo_net ''rebind.example'' = Inl ''EWEBHOOK_SSRF_BLOCKED''"
    by (simp add: agent_lookup_def)
  have hatch: "\<not> escapeHatchActive demo_net" by (simp add: escapeHatchActive_def demo_net_def)
  have u: "ne_URL demo_net ''https://hooks.example/x'' =
      Some \<lparr>url_protocol = ''https:'', url_hostname = ''hooks.example'', url_username = [], url_password = []\<rparr>"
    by (simp add: demo_net_def)
  have "ne_dnsLookup demo_net ''hooks.example'' = Inr [''203.0.113.9'']" by (simp add: demo_net_def)
  then have "agent_lookup (escapeHatchActive demo_net) demo_net ''hooks.example'' = Inr ''203.0.113.9''"
    using demo_public_address hatch by (simp add: agent_lookup_def demo_host_name)
  with 1 show ?thesis
    using delivery_address_allowed [OF demo_deliver hatch, where addr = "''203.0.113.9''"] u demo_host_name
    by (simp add: delivery_request_def demo_due_def strip_brackets_def starts_with_def)
qed

text \<open>
  C20: what a delivery request carries. A delivery to an endpoint that was registered with a secret, whose row is
  unchanged since, sends (when the URL passes the gate) one POST with the stored payload as its
  body, redirects not followed, and the HMAC of "timestamp.body" under exactly that secret as its
  signature header.
\<close>

theorem delivery_signed:
  assumes "gcm_ok (ce_gcm ce)"
    and "createWebhookEndpoint cfg ce ne0 u rb iv t0 inp w0 = (Inr (pub, secret), w1)"
    and "select_one (\<lambda>e. we_id e = ep_id pub) (webhookEndpoints d) = Some (last (webhookEndpoints (w_db w1)))"
    and "join_row d x = Some row" and "dl_endpointId x = ep_id pub"
    and "isUrlAllowedForDelivery ne (cw_url inp)"
  shows "\<exists>rq. fst (snd (deliver cfg ce ne render now res row a w)) = Some rq \<and>
     rq_url rq = cw_url inp \<and> rq_method rq = ''POST'' \<and> rq_redirect rq = ''manual'' \<and> rq_body rq = render (dr_payload row) \<and>
     map_of (rq_headers rq) ''X-SYROTP-Webhook-Timestamp'' = Some (show_int (now div 1000)) \<and>
     map_of (rq_headers rq) ''X-SYROTP-Webhook-Signature'' =
       Some (ce_hmac ce secret (show_int (now div 1000) @ ''.'' @ rq_body rq))"
proof -
  obtain wrapped events where s: "wrap (ce_gcm ce) iv (MASTER_ENCRYPTION_KEY cfg) secret (Some (aadFor (newId ''whk'' u))) = Inr wrapped"
    and pub: "pub = toPublic (new_endpoint (newId ''whk'' u) inp wrapped events t0)"
    and w1: "webhookEndpoints (w_db w1) = webhookEndpoints (w_db w0) @ [new_endpoint (newId ''whk'' u) inp wrapped events t0]"
    using createWebhookEndpoint_result [OF assms(2)] by auto
  let ?e = "new_endpoint (newId ''whk'' u) inp wrapped events t0"
  have i: "ep_id pub = newId ''whk'' u" by (simp add: pub toPublic_def new_endpoint_def)
  have row: "dr_enabled row" "dr_url row = cw_url inp" "dr_secret_ciphertext row = wrapped" "dr_endpoint_id row = newId ''whk'' u"
    using assms(3-5) w1 i by (auto simp: join_row_def new_endpoint_def split: option.splits)
  have "unwrap (ce_gcm ce) (MASTER_ENCRYPTION_KEY cfg) wrapped (Some (''webhook:'' @ newId ''whk'' u)) = Inr secret"
    using unwrap_wrap [OF assms(1) s, of "Some (aadFor (newId ''whk'' u))"] by (simp add: aadFor_def Let_def)
  then have "fst (snd (deliver cfg ce ne render now res row a w)) =
      Some (delivery_request ce secret (now div 1000) (render (dr_payload row)) row a)"
    using row assms(6) by (simp add: deliver_def Let_def case_prod_beta)
  then show ?thesis using row by (simp add: delivery_request_def signDeliveryBody_def)
qed

lemma demo_created:
  "createWebhookEndpoint default_config demo_env demo_net ''01'' ''xy'' demo_iv 5 demo_webhook_input empty_world =
     (Inr (toPublic demo_endpoint, ''whsec_7879''), demo_hooked)"
proof -
  have t: "uniqueValidatedEventTypes (cw_eventTypes demo_webhook_input) = Inr [EvVerified, EvExpired]"
    and s: "generateWebhookSecret ''xy'' = ''whsec_7879''" and a: "aadFor (newId ''whk'' ''01'') = ''webhook:whk_01''"
    and i: "newId ''whk'' ''01'' = ''whk_01''" by code_simp+
  have u: "validateUrl demo_net (cw_url demo_webhook_input) = Inr ()" using demo_url_ok by (simp add: demo_webhook_input_def)
  have "wrap (ce_gcm demo_env) demo_iv (MASTER_ENCRYPTION_KEY default_config) ''whsec_7879'' (Some ''webhook:whk_01'') = Inr demo_wrapped"
    unfolding demo_wrapped_def demo_env_def by (simp add: wrap_def Let_def default_config_def from_hex_zeros)
  with t u s a i show ?thesis
    by (simp add: createWebhookEndpoint_def empty_world_def empty_db_def MAX_ENDPOINTS_PER_APP_def Let_def
        demo_hooked_def demo_endpoint_def)
qed

theorem delivery_signed_witness:
  "\<exists>rq. fst (snd (deliver default_config demo_env demo_net (\<lambda>_. ''{}'') 2000 (Status 200) demo_due 1 demo_queue)) = Some rq \<and>
     map_of (rq_headers rq) ''X-SYROTP-Webhook-Signature'' = Some (ce_hmac demo_env ''whsec_7879'' ''2.{}'')"
proof -
  have g: "gcm_ok (ce_gcm demo_env)" by (simp add: demo_env_def rev_gcm_ok)
  have e: "select_one (\<lambda>e. we_id e = ep_id (toPublic demo_endpoint)) (webhookEndpoints (w_db demo_queue)) =
      Some (last (webhookEndpoints (w_db demo_hooked)))" "dl_endpointId demo_delivery = ep_id (toPublic demo_endpoint)"
    by (simp_all add: demo_queue_tables toPublic_def demo_hooked_def demo_delivery_def new_delivery_def)
  have u: "isUrlAllowedForDelivery demo_net (cw_url demo_webhook_input)" using demo_url_allowed by (simp add: demo_webhook_input_def)
  have n: "show_int (2000 div 1000) @ ''.'' @ ''{}'' = ''2.{}''" by code_simp
  from delivery_signed [OF g demo_created e(1) demo_join e(2) u, of "\<lambda>_. ''{}''" 2000 "Status 200" 1 demo_queue]
  obtain rq where "fst (snd (deliver default_config demo_env demo_net (\<lambda>_. ''{}'') 2000 (Status 200) demo_due 1 demo_queue)) = Some rq"
    "rq_body rq = ''{}''" "map_of (rq_headers rq) ''X-SYROTP-Webhook-Signature'' =
       Some (ce_hmac demo_env ''whsec_7879'' (show_int (2000 div 1000) @ ''.'' @ rq_body rq))" by blast
  with n show ?thesis by auto
qed

end
