(* ===== verification/WebhookFleet.thy ===== *)
theory WebhookFleet
  imports WebhookWorker
begin

text \<open>
  Delivery workers at work: any number of processes claim batches of one table, send requests and
  record outcomes in any order, crash at any point, while events are emitted and endpoints are
  removed. Invariants of the delivery rows in all interleavings, and in those where every batch is
  worked off before its leases run out.
\<close>

section \<open>Any number of workers\<close>

record fleet =
  fl_world :: world
  fl_inflight :: "due_row list"
  fl_sent :: "(string \<times> bool) list"

text \<open>
  A claimed row stays in flight until its worker records the outcome or crashes. \<open>fl_sent\<close> lists
  the requests that went out, with whether their outcome was recorded. With \<open>timely\<close> set, a claim
  happens only while no row in flight has outlived its lease.
\<close>

definition lease_held :: "int \<Rightarrow> fleet \<Rightarrow> bool" where
  "lease_held dbnow s \<longleftrightarrow> (\<forall>r \<in> set (fl_inflight s). \<forall>x \<in> set (webhookDeliveries (w_db (fl_world s))).
     dl_id x = dr_delivery_id r \<longrightarrow> dbnow < dl_nextAttemptAt x)"

abbreviation deliveries_of :: "fleet \<Rightarrow> delivery_row list" where
  "deliveries_of s \<equiv> webhookDeliveries (w_db (fl_world s))"

definition fresh_ids :: "fleet \<Rightarrow> delivery_row list \<Rightarrow> bool" where
  "fresh_ids s ds \<longleftrightarrow> distinct (map dl_id ds) \<and>
     (\<forall>x \<in> set ds. dl_id x \<notin> dl_id ` set (deliveries_of s) \<and> dl_id x \<notin> dr_delivery_id ` set (fl_inflight s) \<and>
        dl_id x \<notin> fst ` set (fl_sent s))"

inductive fleet_step ::
  "bool \<Rightarrow> config \<Rightarrow> crypto_env \<Rightarrow> (event_envelope \<Rightarrow> string) \<Rightarrow> fleet \<Rightarrow> fleet \<Rightarrow> bool" for timely cfg ce render where
  claim: "(timely \<Longrightarrow> lease_held dbnow s) \<Longrightarrow> claimBatch locked now dbnow (fl_world s) = (rows, w') \<Longrightarrow>
     fleet_step timely cfg ce render s (s\<lparr>fl_world := w', fl_inflight := fl_inflight s @ rows\<rparr>)"
| finish: "fl_inflight s = xs @ r # ys \<Longrightarrow> processOne cfg ce ne render ae r (fl_world s) = (rq, w') \<Longrightarrow>
     fleet_step timely cfg ce render s (s\<lparr>fl_world := w', fl_inflight := xs @ ys,
        fl_sent := fl_sent s @ (if rq = None then [] else [(dr_delivery_id r, True)])\<rparr>)"
| crash: "fl_inflight s = xs @ r # ys \<Longrightarrow>
     fleet_step timely cfg ce render s (s\<lparr>fl_inflight := xs @ ys,
        fl_sent := fl_sent s @ (if out then [(dr_delivery_id r, False)] else [])\<rparr>)"
| emit: "webhookDeliveries (w_db (emitVerificationEventInTx t a d u us now (fl_world s))) = deliveries_of s @ ds \<Longrightarrow>
     fresh_ids s ds \<Longrightarrow>
     fleet_step timely cfg ce render s (s\<lparr>fl_world := emitVerificationEventInTx t a d u us now (fl_world s)\<rparr>)"
| remove: "fleet_step timely cfg ce render s (s\<lparr>fl_world := snd (deleteWebhookEndpoint app i (fl_world s))\<rparr>)"
| other: "webhookDeliveries (w_db w') = deliveries_of s \<Longrightarrow> fleet_step timely cfg ce render s (s\<lparr>fl_world := w'\<rparr>)"

inductive fleet_reach ::
  "bool \<Rightarrow> config \<Rightarrow> crypto_env \<Rightarrow> (event_envelope \<Rightarrow> string) \<Rightarrow> fleet \<Rightarrow> bool" for timely cfg ce render where
  fleet_init: "deliveries_of s = [] \<Longrightarrow> fl_inflight s = [] \<Longrightarrow> fl_sent s = [] \<Longrightarrow> fleet_reach timely cfg ce render s"
| fleet_next: "fleet_reach timely cfg ce render s \<Longrightarrow> fleet_step timely cfg ce render s s' \<Longrightarrow> fleet_reach timely cfg ce render s'"

inductive_cases fleet_step_cases: "fleet_step timely cfg ce render s s'"

section \<open>Rows stay well formed\<close>

lemma delivery_ok_new: "x \<in> set ds \<Longrightarrow> \<forall>x \<in> set ds. dl_status x = DPending \<and> dl_attemptCount x = 0 \<Longrightarrow> delivery_ok x"
  by (auto simp: delivery_ok_def)

lemma emitted_rows:
  assumes "webhookDeliveries (w_db (emitVerificationEventInTx t a d u us now w)) = webhookDeliveries (w_db w) @ ds"
  shows "\<forall>x \<in> set ds. dl_status x = DPending \<and> dl_attemptCount x = 0"
  using emit_deliveries [of t a d u us now w] assms by auto

lemma removed_rows:
  "set (webhookDeliveries (w_db (snd (deleteWebhookEndpoint app i w)))) \<subseteq> set (webhookDeliveries (w_db w))"
  "distinct (map dl_id (webhookDeliveries (w_db w))) \<Longrightarrow>
   distinct (map dl_id (webhookDeliveries (w_db (snd (deleteWebhookEndpoint app i w)))))"
  by (auto simp: deleteWebhookEndpoint_def Let_def distinct_map intro: inj_on_subset)

definition rows_ok :: "fleet \<Rightarrow> bool" where
  "rows_ok s \<longleftrightarrow> (\<forall>x \<in> set (deliveries_of s). delivery_ok x) \<and> (\<forall>r \<in> set (fl_inflight s). dr_attempt_count r < 6)"

lemma rows_ok_step: "fleet_step timely cfg ce render s s' \<Longrightarrow> rows_ok s \<Longrightarrow> rows_ok s'"
proof (induction rule: fleet_step.induct)
  case (claim dbnow s locked now rows w')
  have "dr_attempt_count r < 6" if "r \<in> set rows" for r
    using due_rows_in [of r locked dbnow "w_db (fl_world s)"] that claim.hyps(2) claim.prems join_row_simps
    by (auto simp: claimBatch_eq rows_ok_def delivery_ok_def due_delivery_def)
  moreover have "delivery_ok x" if "x \<in> set (webhookDeliveries (w_db w'))" for x
    using that claim.hyps(2) claim.prems by (auto simp: claimBatch_eq rows_ok_def set_update_where delivery_ok_def)
  ultimately show ?case using claim.prems by (auto simp: rows_ok_def)
next
  case (finish s xs r ys ne ae rq w')
  obtain oc where oc: "outcome_ok oc" and w': "webhookDeliveries (w_db w') = update_where (\<lambda>x. dl_id x = dr_delivery_id r)
        (apply_row oc (dr_attempt_count r + 1) (ae_applied ae)) (deliveries_of s)"
    using processOne_deliveries [OF finish.hyps(2)] .
  have "dr_attempt_count r < 6" using finish.hyps(1) finish.prems by (simp add: rows_ok_def)
  with oc have "delivery_ok (apply_row oc (dr_attempt_count r + 1) (ae_applied ae) x)" for x
    by (intro apply_row_ok) simp_all
  with w' finish.prems finish.hyps(1) show ?case by (auto simp: rows_ok_def set_update_where)
next
  case (emit t a d u us now s ds)
  then show ?case using emitted_rows [OF emit.hyps(1)] by (auto simp: rows_ok_def delivery_ok_new)
next
  case (remove s app i)
  then show ?case using removed_rows(1) [of app i "fl_world s"] by (auto simp: rows_ok_def)
qed (auto simp: rows_ok_def)

lemma rows_ok_reach: "fleet_reach timely cfg ce render s \<Longrightarrow> rows_ok s"
proof (induction rule: fleet_reach.induct)
  case (fleet_next s s')
  then show ?case by (blast intro: rows_ok_step)
qed (simp add: rows_ok_def)

section \<open>Timely workers\<close>

definition recorded :: "string \<Rightarrow> fleet \<Rightarrow> nat" where
  "recorded i s = count_list (fl_sent s) (i, True)"

definition exclusive :: "fleet \<Rightarrow> bool" where
  "exclusive s \<longleftrightarrow> distinct (map dl_id (deliveries_of s)) \<and> distinct (map dr_delivery_id (fl_inflight s)) \<and>
     (\<forall>r \<in> set (fl_inflight s). \<forall>x \<in> set (deliveries_of s). dl_id x = dr_delivery_id r \<longrightarrow>
        dl_status x = DPending \<and> dl_attemptCount x = dr_attempt_count r)"

definition counted :: "fleet \<Rightarrow> bool" where
  "counted s \<longleftrightarrow> (\<forall>x \<in> set (deliveries_of s). recorded (dl_id x) s \<le> dl_attemptCount x) \<and>
     (\<forall>r \<in> set (fl_inflight s). recorded (dr_delivery_id r) s \<le> dr_attempt_count r) \<and>
     (\<forall>i. recorded i s \<le> 6)"

text \<open>Rows claimed while every lease holds are not in flight yet.\<close>

lemma claimed_not_in_flight:
  assumes "lease_held dbnow s" and "r \<in> set (due_rows locked dbnow (w_db (fl_world s)))" and "r' \<in> set (fl_inflight s)"
  shows "dr_delivery_id r \<noteq> dr_delivery_id r'"
  using due_rows_in [OF assms(2)] assms(1,3) join_row_simps unfolding lease_held_def due_delivery_def
  by (metis less_le_not_le)

lemma update_where_distinct_id:
  "(\<And>x. dl_id (f x) = dl_id x) \<Longrightarrow> distinct (map dl_id (update_where P f xs)) = distinct (map dl_id xs)"
  by (simp add: map_update_where)

lemma exclusive_claim:
  assumes "exclusive s" and "lease_held dbnow s" and "claimBatch locked now dbnow (fl_world s) = (rows, w')"
  shows "exclusive (s\<lparr>fl_world := w', fl_inflight := fl_inflight s @ rows\<rparr>)"
proof -
  let ?d = "w_db (fl_world s)"
  have rows: "rows = due_rows locked dbnow ?d" and w': "webhookDeliveries (w_db w') =
      update_where (\<lambda>x. dl_id x \<in> dr_delivery_id ` set rows) (set_lease now) (webhookDeliveries ?d)"
    using assms(3) by (auto simp: claimBatch_eq)
  have dist: "distinct (map dl_id (webhookDeliveries ?d))" using assms(1) by (simp add: exclusive_def)
  have "distinct (map dr_delivery_id (fl_inflight s @ rows))"
    using assms(1) distinct_due_rows [OF dist, of locked dbnow] claimed_not_in_flight [OF assms(2)] rows
    by (fastforce simp: exclusive_def)
  moreover have "dl_status x = DPending \<and> dl_attemptCount x = dr_attempt_count r"
    if r: "r \<in> set (fl_inflight s @ rows)" and x: "x \<in> set (webhookDeliveries (w_db w'))" and i: "dl_id x = dr_delivery_id r" for r x
  proof -
    obtain y where y: "y \<in> set (webhookDeliveries ?d)" "dl_id y = dl_id x" "dl_status x = dl_status y" "dl_attemptCount x = dl_attemptCount y"
      using x w' by (auto simp: set_update_where split: if_splits)
    show ?thesis
    proof (cases "r \<in> set (fl_inflight s)")
      case True
      then show ?thesis using assms(1) y i by (simp add: exclusive_def)
    next
      case False
      then obtain z where z: "z \<in> set (webhookDeliveries ?d)" "due_delivery locked dbnow z" "join_row ?d z = Some r"
        using r rows due_rows_in by fastforce
      then have "z = y" using dist y i join_row_simps by (metis distinct_map inj_onD)
      then show ?thesis using z y join_row_simps by (auto simp: due_delivery_def)
    qed
  qed
  ultimately show ?thesis
    using dist by (auto simp: exclusive_def w' update_where_distinct_id)
qed

lemma exclusive_finish:
  assumes "exclusive s" and "fl_inflight s = xs @ r # ys"
    and "webhookDeliveries (w_db w') = update_where (\<lambda>x. dl_id x = dr_delivery_id r) (apply_row oc a now) (deliveries_of s)"
  shows "exclusive (s\<lparr>fl_world := w', fl_inflight := xs @ ys, fl_sent := sent\<rparr>)"
  using assms by (auto simp: exclusive_def set_update_where update_where_distinct_id)

lemma exclusive_step:
  assumes "fleet_step True cfg ce render s s'" and "exclusive s"
  shows "exclusive s'"
  using assms(1)
proof cases
  case (claim dbnow locked now rows w')
  then show ?thesis using exclusive_claim assms(2) by blast
next
  case (finish xs r ys ne ae rq w')
  then show ?thesis using exclusive_finish [OF assms(2)] processOne_deliveries by metis
next
  case (crash xs r ys out)
  then show ?thesis using assms(2) by (auto simp: exclusive_def)
next
  case (emit t a d u us now ds)
  then have "dl_id x \<noteq> dr_delivery_id r" if "x \<in> set ds" "r \<in> set (fl_inflight s)" for x r
    using that by (auto simp: fresh_ids_def)
  moreover have "dl_id ` set (deliveries_of s) \<inter> dl_id ` set ds = {}"
    using emit(3) by (auto simp: fresh_ids_def) (metis image_eqI)
  ultimately show ?thesis using assms(2) emit by (auto simp: exclusive_def fresh_ids_def)
next
  case (remove app i)
  then show ?thesis using assms(2) removed_rows [where app = app and i = i and w = "fl_world s"] by (auto simp: exclusive_def)
next
  case (other w')
  then show ?thesis using assms(2) by (simp add: exclusive_def)
qed

lemma recorded_append: "recorded i (s\<lparr>fl_world := w', fl_inflight := f, fl_sent := fl_sent s @ zs\<rparr>) = recorded i s + count_list zs (i, True)"
  by (simp add: recorded_def)

lemma counted_step:
  assumes "fleet_step True cfg ce render s s'" and "exclusive s" and "rows_ok s" and "counted s"
  shows "counted s'"
  using assms(1)
proof cases
  case (claim dbnow locked now rows w')
  have "recorded (dr_delivery_id r) s \<le> dr_attempt_count r" if "r \<in> set rows" for r
    using due_rows_in [of r locked dbnow "w_db (fl_world s)"] that claim assms(4) join_row_simps
    by (fastforce simp: claimBatch_eq counted_def)
  moreover have "recorded (dl_id x) s \<le> dl_attemptCount x" if x: "x \<in> set (webhookDeliveries (w_db w'))" for x
  proof -
    obtain y where "y \<in> set (deliveries_of s)" "dl_id x = dl_id y" "dl_attemptCount x = dl_attemptCount y"
      using x claim(3) by (auto simp: claimBatch_eq set_update_where split: if_splits)
    then show ?thesis using assms(4) by (simp add: counted_def)
  qed
  ultimately show ?thesis using assms(4) claim(1) by (auto simp: counted_def recorded_def)
next
  case (finish xs r ys ne ae rq w')
  obtain oc where w': "webhookDeliveries (w_db w') = update_where (\<lambda>x. dl_id x = dr_delivery_id r)
        (apply_row oc (dr_attempt_count r + 1) (ae_applied ae)) (deliveries_of s)"
    using processOne_deliveries [OF finish(3)] .
  let ?n = "if rq = None then 0 else 1 :: nat"
  have rec: "recorded i s' = recorded i s + (if i = dr_delivery_id r then ?n else 0)" for i
    unfolding finish(1) recorded_append by simp
  have r: "recorded (dr_delivery_id r) s \<le> dr_attempt_count r" "dr_attempt_count r < 6"
    using assms(3,4) finish(2) by (auto simp: counted_def rows_ok_def)
  have "recorded (dl_id x) s' \<le> dl_attemptCount x" if "x \<in> set (deliveries_of s')" for x
    using that assms(4) r unfolding rec by (auto simp: finish(1) w' set_update_where counted_def)
  moreover have "recorded (dr_delivery_id q) s' \<le> dr_attempt_count q" if "q \<in> set (fl_inflight s')" for q
  proof -
    have "q \<in> set (xs @ ys)" using that finish(1) by simp
    moreover from this have "dr_delivery_id q \<noteq> dr_delivery_id r"
      using assms(2) finish(2) by (auto simp: exclusive_def) (metis image_eqI)+
    ultimately show ?thesis using assms(4) finish(2) unfolding rec by (auto simp: counted_def)
  qed
  moreover have "recorded i s' \<le> 6" for i using r assms(4) unfolding rec counted_def by simp
  ultimately show ?thesis by (simp add: counted_def)
next
  case (emit t a d u us now ds)
  have "recorded (dl_id x) s = 0" if "x \<in> set ds" for x
    using emit(3) that by (force simp: fresh_ids_def recorded_def count_list_0_iff)
  then show ?thesis using assms(4) emit by (auto simp: counted_def recorded_def)
next
  case (remove app i)
  then show ?thesis using assms(4) removed_rows(1) [of app i "fl_world s"] by (auto simp: counted_def recorded_def)
qed (use assms(4) in \<open>auto simp: counted_def recorded_def\<close>)

lemma timely_reach: "fleet_reach True cfg ce render s \<Longrightarrow> exclusive s \<and> counted s"
proof (induction rule: fleet_reach.induct)
  case (fleet_next s s')
  then show ?case using rows_ok_reach [OF fleet_next.hyps(1)] by (blast intro: exclusive_step counted_step)
qed (auto simp: exclusive_def counted_def recorded_def)

section \<open>Properties of the fleet\<close>

text \<open>
  C16: delivery rows under any number of workers. However claims, requests, crashes, event emissions and endpoint
  removals interleave, and even when leases run out, a delivery has at most six attempts, fewer
  while it is pending, is marked delivered only with a recorded 2xx status and no error, and a row
  that was never attempted is pending.
\<close>

theorem delivery_rows_wf:
  assumes "fleet_reach timely cfg ce render s" and "x \<in> set (deliveries_of s)"
  shows "dl_attemptCount x \<le> 6 \<and> (dl_status x = DPending \<longrightarrow> dl_attemptCount x < 6) \<and>
     (dl_attemptCount x = 0 \<longrightarrow> dl_status x = DPending) \<and>
     (dl_status x = DDelivered \<longrightarrow> (\<exists>c. dl_lastStatusCode x = Some c \<and> 200 \<le> c \<and> c < 300) \<and> dl_lastError x = None)"
  using rows_ok_reach [OF assms(1)] assms(2) by (auto simp: rows_ok_def delivery_ok_def is_2xx_def)

text \<open>A run: one endpoint, one event, one claim, then the attempt.\<close>

definition demo_fleet0 :: fleet where
  "demo_fleet0 = \<lparr>fl_world = demo_hooked, fl_inflight = [], fl_sent = []\<rparr>"

definition demo_fleet1 :: fleet where
  "demo_fleet1 = demo_fleet0\<lparr>fl_world := demo_queue\<rparr>"

definition demo_fleet2 :: fleet where
  "demo_fleet2 = demo_fleet1\<lparr>fl_world := snd (claimBatch (\<lambda>_. False) 2000 2000 demo_queue), fl_inflight := [demo_due]\<rparr>"

definition demo_finish :: "int \<Rightarrow> webhook_request option \<times> world" where
  "demo_finish status = processOne default_config demo_env demo_net (\<lambda>_. ''{}'') (demo_attempt status) demo_due (fl_world demo_fleet2)"

definition demo_fleet3 :: fleet where
  "demo_fleet3 = demo_fleet2\<lparr>fl_world := snd (demo_finish 200), fl_inflight := [], fl_sent := [(''wd_d1'', True)]\<rparr>"

lemma demo_fleet1_reach: "fleet_reach timely cfg ce render demo_fleet1"
proof -
  have d: "deliveries_of demo_fleet0 = []" by (simp add: demo_fleet0_def demo_hooked_def empty_db_def)
  then have 0: "fleet_reach timely cfg ce render demo_fleet0"
    by (intro fleet_init) (simp_all add: demo_fleet0_def)
  have "fresh_ids demo_fleet0 [demo_delivery]" using d by (simp add: fresh_ids_def demo_fleet0_def)
  moreover have "webhookDeliveries (w_db (emitVerificationEventInTx EvExpired ''app_1'' demo_event ''e1'' (\<lambda>i. ''d1'') 1000 (fl_world demo_fleet0)))
      = deliveries_of demo_fleet0 @ [demo_delivery]"
    using d demo_queue_tables(1) by (simp add: demo_queue_def demo_fleet0_def)
  ultimately have "fleet_step timely cfg ce render demo_fleet0
      (demo_fleet0\<lparr>fl_world := emitVerificationEventInTx EvExpired ''app_1'' demo_event ''e1'' (\<lambda>i. ''d1'') 1000 (fl_world demo_fleet0)\<rparr>)"
    by (intro emit)
  then have "fleet_step timely cfg ce render demo_fleet0 demo_fleet1"
    by (simp add: demo_fleet1_def demo_queue_def demo_fleet0_def)
  with 0 show ?thesis by (rule fleet_next)
qed

lemma demo_fleet2_reach: "fleet_reach timely cfg ce render demo_fleet2"
proof -
  have c: "claimBatch (\<lambda>_. False) 2000 2000 (fl_world demo_fleet1) = ([demo_due], snd (claimBatch (\<lambda>_. False) 2000 2000 demo_queue))"
    by (simp add: demo_fleet1_def claimBatch_eq demo_due_rows)
  have l: "lease_held 2000 demo_fleet1" by (simp add: lease_held_def demo_fleet1_def demo_fleet0_def)
  have "fleet_step timely cfg ce render demo_fleet1
      (demo_fleet1\<lparr>fl_world := snd (claimBatch (\<lambda>_. False) 2000 2000 demo_queue), fl_inflight := fl_inflight demo_fleet1 @ [demo_due]\<rparr>)"
    by (rule claim [OF l c])
  then have "fleet_step timely cfg ce render demo_fleet1 demo_fleet2"
    by (simp add: demo_fleet2_def demo_fleet1_def demo_fleet0_def)
  with demo_fleet1_reach show ?thesis by (rule fleet_next)
qed

lemma demo_sent: "fst (demo_finish status) \<noteq> None"
  using demo_deliver [where render = "\<lambda>_. ''{}''"] by (simp add: demo_finish_def processOne_def case_prod_beta Let_def)

lemma demo_fleet3_reach: "fleet_reach timely default_config demo_env (\<lambda>_. ''{}'') demo_fleet3"
proof -
  have "fl_inflight demo_fleet2 = [] @ demo_due # []" by (simp add: demo_fleet2_def)
  moreover have "processOne default_config demo_env demo_net (\<lambda>_. ''{}'') (demo_attempt 200) demo_due (fl_world demo_fleet2) =
      (fst (demo_finish 200), snd (demo_finish 200))" by (simp add: demo_finish_def)
  ultimately have "fleet_step timely default_config demo_env (\<lambda>_. ''{}'') demo_fleet2
      (demo_fleet2\<lparr>fl_world := snd (demo_finish 200), fl_inflight := [] @ [],
        fl_sent := fl_sent demo_fleet2 @ (if fst (demo_finish 200) = None then [] else [(dr_delivery_id demo_due, True)])\<rparr>)"
    by (rule finish)
  then have "fleet_step timely default_config demo_env (\<lambda>_. ''{}'') demo_fleet2 demo_fleet3"
    using demo_sent [of 200] by (simp add: demo_fleet3_def demo_fleet2_def demo_fleet1_def demo_fleet0_def demo_due_def)
  with demo_fleet2_reach show ?thesis by (rule fleet_next)
qed

lemma demo_fleet3_rows: "deliveries_of demo_fleet3 = [apply_row (Delivered 200) 1 2500 (set_lease 2000 demo_delivery)]"
proof -
  have "fst (deliver default_config demo_env demo_net (\<lambda>_. ''{}'') 2000 (Status 200) demo_due 1 w) = Delivered 200" for w
    by (simp add: deliver_outcome demo_outcome classify_result_def classify_status_def)
  then show ?thesis
    by (simp add: demo_fleet3_def demo_finish_def processOne_def case_prod_beta Let_def demo_attempt_def demo_fleet2_def
        claimBatch_eq demo_due_rows demo_queue_tables demo_due_def demo_delivery_def new_delivery_def newId_def)
qed

theorem delivery_rows_wf_witness:
  "\<exists>x. x \<in> set (deliveries_of demo_fleet3) \<and> dl_status x = DDelivered \<and> (\<exists>c. dl_lastStatusCode x = Some c \<and> 200 \<le> c \<and> c < 300)"
proof -
  let ?x = "apply_row (Delivered 200) 1 2500 (set_lease 2000 demo_delivery)"
  have x: "?x \<in> set (deliveries_of demo_fleet3)" by (simp add: demo_fleet3_rows)
  have "dl_status ?x = DDelivered" by (simp add: apply_row_def)
  with delivery_rows_wf [OF demo_fleet3_reach x] x show ?thesis by blast
qed



lemma row_kept:
  assumes "x \<in> set xs" and "\<not> P x"
  shows "x \<in> set (update_where P f xs)"
  using assms by (force simp: set_update_where)

text \<open>
  Final means final, while leases hold. A step of timely workers leaves the row of a delivery that is
  delivered, failed or abandoned exactly as it is, unless its endpoint is removed, which removes
  the row.
\<close>

theorem timely_final_rows_kept:
  assumes "fleet_reach True cfg ce render s" and "fleet_step True cfg ce render s s'"
    and "x \<in> set (deliveries_of s)" and "dl_status x \<noteq> DPending"
  shows "x \<in> set (deliveries_of s') \<or> (\<exists>e. we_id e = dl_endpointId x \<and> e \<in> set (webhookEndpoints (w_db (fl_world s))) \<and>
           e \<notin> set (webhookEndpoints (w_db (fl_world s'))))"
  using assms(2)
proof cases
  case (claim dbnow locked now rows w')
  have "dl_id x \<noteq> dr_delivery_id r" if r: "r \<in> set rows" for r
  proof -
    obtain y where y: "y \<in> set (deliveries_of s)" "due_delivery locked dbnow y" "join_row (w_db (fl_world s)) y = Some r"
      using due_rows_in [of r locked dbnow "w_db (fl_world s)"] r claim(3) unfolding claimBatch_eq by blast
    then have "dl_id x \<noteq> dl_id y"
      using timely_reach [OF assms(1)] assms(3,4) by (auto simp: exclusive_def due_delivery_def distinct_map inj_on_def)
    then show ?thesis using join_row_simps [OF y(3)] by simp
  qed
  then have "dl_id x \<notin> dr_delivery_id ` set rows" by blast
  then show ?thesis using claim assms(3) by (auto simp: claimBatch_eq intro!: row_kept)
next
  case (finish xs r ys ne ae rq w')
  have "dl_id x \<noteq> dr_delivery_id r"
    using timely_reach [OF assms(1)] finish(2) assms(3,4) by (auto simp: exclusive_def)
  moreover obtain oc where "webhookDeliveries (w_db w') = update_where (\<lambda>x. dl_id x = dr_delivery_id r)
        (apply_row oc (dr_attempt_count r + 1) (ae_applied ae)) (deliveries_of s)"
    using processOne_deliveries [OF finish(3)] .
  ultimately show ?thesis using finish(1) assms(3) by (auto intro!: row_kept)
next
  case (remove app i)
  then show ?thesis using assms(3) by (auto simp: deleteWebhookEndpoint_def Let_def split: if_splits)
qed (use assms(3) in auto)

theorem timely_final_rows_kept_witness:
  "\<exists>x. x \<in> set (deliveries_of (demo_fleet3\<lparr>fl_world := metric MatchingInvariantViolated (fl_world demo_fleet3)\<rparr>)) \<and> dl_status x = DDelivered"
proof -
  let ?x = "apply_row (Delivered 200) 1 2500 (set_lease 2000 demo_delivery)"
  let ?s = "demo_fleet3\<lparr>fl_world := metric MatchingInvariantViolated (fl_world demo_fleet3)\<rparr>"
  have step: "fleet_step True default_config demo_env (\<lambda>_. ''{}'') demo_fleet3 ?s" by (rule other) simp
  have x: "?x \<in> set (deliveries_of demo_fleet3)" "dl_status ?x = DDelivered" by (simp_all add: demo_fleet3_rows) (simp add: apply_row_def)
  then have "?x \<in> set (deliveries_of ?s)" using timely_final_rows_kept [OF demo_fleet3_reach step x(1)] by auto
  with x show ?thesis by blast
qed

text \<open>
  An expired lease lets a delivered event be sent again. A batch of 25 requests of up to five seconds each can
  outlast the 60-second lease of its rows. Once the lease is over, a second worker claims the same
  pending delivery; when the first worker has recorded success, the outcome of the second one
  overwrites it without looking at the status, and after a retriable failure the delivered row is
  pending again, due for a third request.
\<close>

theorem expired_lease_undoes_delivery:
  assumes "distinct (map dl_id (webhookDeliveries (w_db w)))" and "row_of i w = Some x"
    and "dl_status x = DPending" and "dl_attemptCount x < 5" and "join_row (w_db w) x = Some r"
    and "claimBatch (\<lambda>_. False) now dbnow w = ([r], w1)"
    and "now + 60000 \<le> dbnow'"
  shows "due_rows (\<lambda>_. False) dbnow' (w_db w1) \<noteq> [] \<and>
    (\<exists>y. row_of i (applyOutcome t2 r (Suc (dl_attemptCount x)) (Retry f c m)
             (applyOutcome t1 r (Suc (dl_attemptCount x)) (Delivered 200) w1)) = Some y \<and>
         dl_status y = DPending \<and> dl_lastError y = Some (take 500 m))"
proof -
  have x: "x \<in> set (webhookDeliveries (w_db w))" "dl_id x = i" using assms(2) by (auto simp: row_of_def dest: select_one_Some)
  have r: "dr_delivery_id r = i" using join_row_simps [OF assms(5)] x(2) by simp
  have row1: "row_of i w1 = Some (set_lease now x)" using claimBatch_row [OF assms(6), of i] assms(2) r by simp
  then have x1: "set_lease now x \<in> set (webhookDeliveries (w_db w1))" by (auto simp: row_of_def dest: select_one_Some)
  have tables: "webhookEndpoints (w_db w1) = webhookEndpoints (w_db w)" "webhookEvents (w_db w1) = webhookEvents (w_db w)"
    using assms(6) by (auto simp: claimBatch_eq)
  have "join_row (w_db w1) (set_lease now x) = join_row (w_db w) x"
    unfolding join_row_def tables set_lease_def by (simp split: option.split)
  then have j: "join_row (w_db w1) (set_lease now x) = Some r" using assms(5) by simp
  have "due_delivery (\<lambda>_. False) dbnow' (set_lease now x)" using assms(3,7) by (simp add: due_delivery_def)
  with x1 j have "r \<in> set (List.map_filter (join_row (w_db w1))
      (sort_key dl_nextAttemptAt (filter (due_delivery (\<lambda>_. False) dbnow') (webhookDeliveries (w_db w1)))))"
    by (force simp: List.map_filter_def)
  then have "due_rows (\<lambda>_. False) dbnow' (w_db w1) \<noteq> []" by (auto simp: due_rows_def BATCH_SIZE_def)
  moreover obtain delay where "nextRetryDelaySeconds (Suc (dl_attemptCount x)) = Some delay"
    using nextRetryDelaySeconds_iff [of "Suc (dl_attemptCount x)"] assms(4) by fastforce
  ultimately show ?thesis
    using row1 r x(2) assms(4)
    by (auto simp: row_of_def select_update_id apply_row_def MAX_DELIVERY_ATTEMPTS_def split: option.splits)
qed

theorem expired_lease_undoes_delivery_witness:
  "\<exists>w1 y. claimBatch (\<lambda>_. False) 2000 2000 demo_queue = ([demo_due], w1) \<and>
     row_of ''wd_d1'' (applyOutcome 70000 demo_due 1 (Retry F_timeout None [])
        (applyOutcome 65000 demo_due 1 (Delivered 200) w1)) = Some y \<and> dl_status y = DPending"
proof -
  obtain w1 where c: "claimBatch (\<lambda>_. False) 2000 2000 demo_queue = ([demo_due], w1)" by (simp add: claimBatch_eq demo_due_rows)
  have d: "distinct (map dl_id (webhookDeliveries (w_db demo_queue)))" "row_of ''wd_d1'' demo_queue = Some demo_delivery"
    "dl_status demo_delivery = DPending" "dl_attemptCount demo_delivery < 5" "dl_attemptCount demo_delivery = 0"
    by (simp_all add: row_of_def demo_queue_tables demo_delivery_def new_delivery_def newId_def)
  show ?thesis
    using expired_lease_undoes_delivery [OF d(1-4) demo_join c, of 62000 70000 F_timeout None "[]" 65000] c d(5)
    by auto
qed

end
