(* ===== verification/Monitoring.thy ===== *)
theory Monitoring
  imports ServerProps
begin

text \<open>
  The read-only observers: \<open>services/abuseSignals.ts\<close> (rates and health scores per application over
  the last hour) and \<open>services/receiverGauges.ts\<close>. Rates are rationals where the source divides
  doubles. The order of \<open>localeCompare\<close> is given by its collation key, an argument.
\<close>

section \<open>Abuse signals\<close>

record app_health_row =
  ah_app_id :: string
  ah_total_verifications :: nat
  ah_failed_verifications :: nat
  ah_failed_rate :: rat
  ah_total_inbounds :: nat
  ah_unmatched_inbounds :: nat
  ah_unmatched_rate :: rat
  ah_total_bindings :: nat
  ah_expired_bindings :: nat
  ah_binding_failure_rate :: rat
  ah_health_score :: int

record receiver_health_row =
  rh_receiver_id :: string
  rh_app_id :: string
  rh_total_inbounds :: nat
  rh_unmatched_inbounds :: nat
  rh_unmatched_rate :: rat

record abuse_signals =
  as_apps :: "app_health_row list"
  as_receivers :: "receiver_health_row list"

text \<open>\<open>Math.round\<close> rounds a half up.\<close>

definition js_round :: "rat \<Rightarrow> int" where
  "js_round x = \<lfloor>x + 1 / 2\<rfloor>"

definition calcHealthScore :: "rat \<Rightarrow> rat \<Rightarrow> rat \<Rightarrow> int" where
  "calcHealthScore failed_rate unmatched_rate binding_failure_rate =
     max 0 (min 100 (js_round (100 - failed_rate * 30 - unmatched_rate * 40 - binding_failure_rate * 10)))"

definition ratio :: "nat \<Rightarrow> nat \<Rightarrow> rat" where
  "ratio part whole = (if whole > 0 then of_nat part / of_nat whole else 0)"

definition WINDOW_MS :: int where
  "WINDOW_MS = 3600000"

text \<open>\<open>SELECT key, count(*), count(*) FILTER (..) .. GROUP BY key\<close>.\<close>

definition group_counts :: "('r \<Rightarrow> 'k) \<Rightarrow> ('r \<Rightarrow> bool) \<Rightarrow> 'r list \<Rightarrow> ('k \<times> nat \<times> nat) list" where
  "group_counts key hit rows =
     map (\<lambda>k. (k, length (filter (\<lambda>r. key r = k) rows), length (filter (\<lambda>r. key r = k \<and> hit r) rows))) (remdups (map key rows))"

definition verify_rows :: "int \<Rightarrow> db \<Rightarrow> verification_row list" where
  "verify_rows dbnow d = filter (\<lambda>v. vr_createdAt v > dbnow - WINDOW_MS) (verifications d)"

definition inbound_rows :: "int \<Rightarrow> db \<Rightarrow> (inbound_row \<times> receiver_row) list" where
  "inbound_rows dbnow d =
     filter (\<lambda>(i, r). in_receivedAt i > dbnow - WINDOW_MS)
       (concat (map (\<lambda>i. map (Pair i) (filter (\<lambda>r. rc_id r = in_receiverId i) (receivers d))) (inboundSms d)))"

definition binding_rows :: "int \<Rightarrow> db \<Rightarrow> binding_row list" where
  "binding_rows dbnow d = filter (\<lambda>b. pb_createdAt b > dbnow - WINDOW_MS) (phoneBindings d)"

definition expired_binding :: "int \<Rightarrow> binding_row \<Rightarrow> bool" where
  "expired_binding dbnow b \<longleftrightarrow> pb_status b = BPending \<and> pb_expiresAt b < dbnow"

definition blank_row :: "string \<Rightarrow> app_health_row" where
  "blank_row app = \<lparr>ah_app_id = app, ah_total_verifications = 0, ah_failed_verifications = 0, ah_failed_rate = 0,
     ah_total_inbounds = 0, ah_unmatched_inbounds = 0, ah_unmatched_rate = 0, ah_total_bindings = 0,
     ah_expired_bindings = 0, ah_binding_failure_rate = 0, ah_health_score = 100\<rparr>"

text \<open>\<open>ensure(appId)\<close> followed by assignments to the row; the map keeps its insertion order.\<close>

fun upsert :: "string \<Rightarrow> (app_health_row \<Rightarrow> app_health_row) \<Rightarrow> app_health_row list \<Rightarrow> app_health_row list" where
  "upsert app f [] = [f (blank_row app)]"
| "upsert app f (r # rs) = (if ah_app_id r = app then f r # rs else r # upsert app f rs)"

definition add_verify :: "string \<times> nat \<times> nat \<Rightarrow> app_health_row list \<Rightarrow> app_health_row list" where
  "add_verify v = (case v of (app, cnt, failed) \<Rightarrow>
     upsert app (\<lambda>r. r\<lparr>ah_total_verifications := cnt, ah_failed_verifications := failed, ah_failed_rate := ratio failed cnt\<rparr>))"

definition add_inbound :: "(string \<times> string) \<times> nat \<times> nat \<Rightarrow> app_health_row list \<Rightarrow> app_health_row list" where
  "add_inbound v = (case v of ((app, rid), cnt, unmatched) \<Rightarrow>
     upsert app (\<lambda>r. r\<lparr>ah_total_inbounds := ah_total_inbounds r + cnt, ah_unmatched_inbounds := ah_unmatched_inbounds r + unmatched\<rparr>))"

definition add_binding :: "string \<times> nat \<times> nat \<Rightarrow> app_health_row list \<Rightarrow> app_health_row list" where
  "add_binding v = (case v of (app, cnt, expired) \<Rightarrow>
     upsert app (\<lambda>r. r\<lparr>ah_total_bindings := cnt, ah_expired_bindings := expired, ah_binding_failure_rate := ratio expired cnt\<rparr>))"

definition set_unmatched_rate :: "app_health_row \<Rightarrow> app_health_row" where
  "set_unmatched_rate r = r\<lparr>ah_unmatched_rate := ratio (ah_unmatched_inbounds r) (ah_total_inbounds r)\<rparr>"

definition set_score :: "app_health_row \<Rightarrow> app_health_row" where
  "set_score r = r\<lparr>ah_health_score := calcHealthScore (ah_failed_rate r) (ah_unmatched_rate r) (ah_binding_failure_rate r)\<rparr>"

definition receiver_health :: "(string \<times> string) \<times> nat \<times> nat \<Rightarrow> receiver_health_row" where
  "receiver_health v = (case v of ((app, rid), cnt, unmatched) \<Rightarrow>
     \<lparr>rh_receiver_id = rid, rh_app_id = app, rh_total_inbounds = cnt, rh_unmatched_inbounds = unmatched,
      rh_unmatched_rate = ratio unmatched cnt\<rparr>)"

definition computeSignals :: "(string \<Rightarrow> int) \<Rightarrow> int \<Rightarrow> db \<Rightarrow> abuse_signals" where
  "computeSignals collate dbnow d =
     (let verifyAgg = group_counts vr_appId (\<lambda>v. vr_status v = Failed) (verify_rows dbnow d);
          inboundAgg = group_counts (\<lambda>(i, r). (rc_appId r, in_receiverId i)) (\<lambda>(i, r). in_matchedVerificationId i = None) (inbound_rows dbnow d);
          bindingAgg = group_counts pb_appId (expired_binding dbnow) (binding_rows dbnow d);
          rows1 = fold add_verify verifyAgg [];
          rows2 = map set_unmatched_rate (fold add_inbound inboundAgg rows1);
          rows3 = map set_score (fold add_binding bindingAgg rows2)
      in \<lparr>as_apps = sort_key (\<lambda>r. collate (ah_app_id r)) rows3,
          as_receivers = sort_key (\<lambda>r. collate (rh_receiver_id r)) (map receiver_health inboundAgg)\<rparr>)"

definition pushToGauges :: "abuse_signals \<Rightarrow> world \<Rightarrow> world" where
  "pushToGauges s w =
     (let sum_of = (\<lambda>f. sum_list (map f (as_apps s)));
          minScore = foldl (\<lambda>m a. if ah_health_score a < m then ah_health_score a else m) 100 (as_apps s)
      in metric (SetAbuseSignals
           \<lparr>ag_failed_verification_rate = ratio (sum_of ah_failed_verifications) (sum_of ah_total_verifications),
            ag_unmatched_inbound_rate = ratio (sum_of ah_unmatched_inbounds) (sum_of ah_total_inbounds),
            ag_binding_failure_rate = ratio (sum_of ah_expired_bindings) (sum_of ah_total_bindings),
            ag_min_app_health_score = (if as_apps s \<noteq> [] then minScore else 100)\<rparr>) w)"

section \<open>Receiver gauges\<close>

text \<open>The age shown for a receiver without a heartbeat is a year.\<close>

definition heartbeat_age :: "int \<Rightarrow> receiver_row \<Rightarrow> int" where
  "heartbeat_age now r = (case rc_lastHeartbeatAt r of None \<Rightarrow> 365 * 24 * 3600 | Some t \<Rightarrow> max 0 ((now - t) div 1000))"

definition gauge_healthy :: "config \<Rightarrow> int \<Rightarrow> receiver_row \<Rightarrow> bool" where
  "gauge_healthy cfg now r \<longleftrightarrow> rc_enabled r \<and>
     (case rc_lastHeartbeatAt r of None \<Rightarrow> False | Some t \<Rightarrow> now - t \<le> RECEIVER_HEARTBEAT_TIMEOUT_SECONDS cfg * 1000)"

text \<open>One pass over the rows, as the loop counts them.\<close>

definition count_receiver :: "config \<Rightarrow> int \<Rightarrow> receiver_row \<Rightarrow> receiver_gauges \<Rightarrow> receiver_gauges" where
  "count_receiver cfg now r g =
     (let g1 = (if rc_enabled r then g\<lparr>rg_enabledTotal := rg_enabledTotal g + 1\<rparr> else g\<lparr>rg_disabledTotal := rg_disabledTotal g + 1\<rparr>);
          g2 = (if gauge_healthy cfg now r then g1\<lparr>rg_healthyTotal := rg_healthyTotal g1 + 1\<rparr> else g1)
      in g2\<lparr>rg_perReceiverHeartbeatAge := rg_perReceiverHeartbeatAge g2 @ [(rc_id r, heartbeat_age now r)]\<rparr>)"

definition receiver_gauges_run :: "config \<Rightarrow> int \<Rightarrow> world \<Rightarrow> world" where
  "receiver_gauges_run cfg now w =
     metric (SetReceiverGauges (fold (count_receiver cfg now) (receivers (w_db w))
       \<lparr>rg_enabledTotal = 0, rg_disabledTotal = 0, rg_healthyTotal = 0, rg_perReceiverHeartbeatAge = []\<rparr>)) w"

section \<open>The rows are the counts\<close>

text \<open>The row of an application, blank when there is none.\<close>

definition row_at :: "string \<Rightarrow> app_health_row list \<Rightarrow> app_health_row" where
  "row_at app rows = (case find (\<lambda>r. ah_app_id r = app) rows of Some r \<Rightarrow> r | None \<Rightarrow> blank_row app)"

definition keeps_id :: "(app_health_row \<Rightarrow> app_health_row) \<Rightarrow> bool" where
  "keeps_id f \<longleftrightarrow> (\<forall>r. ah_app_id (f r) = ah_app_id r)"

lemma row_at_upsert:
  "keeps_id f \<Longrightarrow> row_at a (upsert app f rows) = (if a = app then f (row_at app rows) else row_at a rows)"
  by (induction rows) (auto simp: row_at_def keeps_id_def blank_row_def)

lemma upsert_ids:
  "keeps_id f \<Longrightarrow> map ah_app_id (upsert app f rows) =
     (if app \<in> ah_app_id ` set rows then map ah_app_id rows else map ah_app_id rows @ [app])"
  by (induction rows) (auto simp: keeps_id_def blank_row_def)

lemma row_at_map:
  assumes "keeps_id g" and "\<And>app. g (blank_row app) = blank_row app"
  shows "row_at a (map g rows) = g (row_at a rows)"
  using assms by (induction rows) (auto simp: row_at_def keeps_id_def)

lemma row_at_member: "distinct (map ah_app_id rows) \<Longrightarrow> r \<in> set rows \<Longrightarrow> row_at (ah_app_id r) rows = r"
  by (induction rows) (auto simp: row_at_def)

lemma fold_upsert:
  assumes "distinct (map fst agg)" and "\<And>v. keeps_id (F v)"
  shows "row_at a (fold (\<lambda>v. upsert (fst v) (F (snd v))) agg rows)
     = (case map_of agg a of None \<Rightarrow> row_at a rows | Some v \<Rightarrow> F v (row_at a rows))"
  using assms
proof (induction agg arbitrary: rows)
  case (Cons kv agg)
  then have "row_at a (fold (\<lambda>v. upsert (fst v) (F (snd v))) agg (upsert (fst kv) (F (snd kv)) rows))
      = (case map_of agg a of None \<Rightarrow> row_at a (upsert (fst kv) (F (snd kv)) rows) | Some v \<Rightarrow> F v (row_at a (upsert (fst kv) (F (snd kv)) rows)))"
    by simp
  moreover have "map_of agg (fst kv) = None" using Cons.prems by (simp add: map_of_eq_None_iff)
  ultimately show ?case using Cons.prems by (auto simp: row_at_upsert split: option.splits)
qed simp

lemma fold_upsert_ids:
  assumes "\<And>v. keeps_id (F v)"
  shows "set (map ah_app_id (fold (\<lambda>v. upsert (K v) (F v)) agg rows)) = ah_app_id ` set rows \<union> K ` set agg \<and>
     (distinct (map ah_app_id rows) \<longrightarrow> distinct (map ah_app_id (fold (\<lambda>v. upsert (K v) (F v)) agg rows)))"
proof (induction agg arbitrary: rows)
  case (Cons v agg)
  have ids: "map ah_app_id (upsert (K v) (F v) rows)
      = (if K v \<in> ah_app_id ` set rows then map ah_app_id rows else map ah_app_id rows @ [K v])"
    by (rule upsert_ids [OF assms])
  then have "ah_app_id ` set (upsert (K v) (F v) rows) = insert (K v) (ah_app_id ` set rows)"
    by (metis (no_types, lifting) Un_insert_right insert_absorb list.set(1,2) list.set_map set_append sup_bot.right_neutral)
  moreover have "distinct (map ah_app_id rows) \<Longrightarrow> distinct (map ah_app_id (upsert (K v) (F v) rows))"
    unfolding ids by auto
  ultimately show ?case using Cons.IH [of "upsert (K v) (F v) rows"] by auto
qed simp

lemma count_by_key:
  "distinct ks \<Longrightarrow> sum_list (map (\<lambda>k. length (filter (\<lambda>r. key r = k \<and> h r) rows)) ks)
     = length (filter (\<lambda>r. key r \<in> set ks \<and> h r) rows)"
proof (induction ks)
  case (Cons k ks)
  have "length (filter (\<lambda>r. key r \<in> set (k # ks) \<and> h r) rs)
      = length (filter (\<lambda>r. key r = k \<and> h r) rs) + length (filter (\<lambda>r. key r \<in> set ks \<and> h r) rs)" for rs
    using Cons.prems by (induction rs) auto
  then show ?case using Cons by simp
qed simp

lemma fold_add_inbound:
  "row_at a (fold add_inbound agg rows) = (row_at a rows)
     \<lparr>ah_total_inbounds := ah_total_inbounds (row_at a rows) + sum_list (map (\<lambda>v. fst (snd v)) (filter (\<lambda>v. fst (fst v) = a) agg)),
      ah_unmatched_inbounds := ah_unmatched_inbounds (row_at a rows) + sum_list (map (\<lambda>v. snd (snd v)) (filter (\<lambda>v. fst (fst v) = a) agg))\<rparr>"
  by (induction agg arbitrary: rows) (auto simp: add_inbound_def row_at_upsert keeps_id_def case_prod_beta)

text \<open>The direct reading of the documentation: counts over the window, their ratios, the clamped score.\<close>

definition app_health :: "int \<Rightarrow> db \<Rightarrow> string \<Rightarrow> app_health_row" where
  "app_health dbnow d app =
     (let vs = filter (\<lambda>v. vr_appId v = app) (verify_rows dbnow d);
          ins = filter (\<lambda>(i, r). rc_appId r = app) (inbound_rows dbnow d);
          bs = filter (\<lambda>b. pb_appId b = app) (binding_rows dbnow d);
          failed = length (filter (\<lambda>v. vr_status v = Failed) vs);
          unmatched = length (filter (\<lambda>(i, r). in_matchedVerificationId i = None) ins);
          expired = length (filter (expired_binding dbnow) bs)
      in \<lparr>ah_app_id = app, ah_total_verifications = length vs, ah_failed_verifications = failed, ah_failed_rate = ratio failed (length vs),
          ah_total_inbounds = length ins, ah_unmatched_inbounds = unmatched, ah_unmatched_rate = ratio unmatched (length ins),
          ah_total_bindings = length bs, ah_expired_bindings = expired, ah_binding_failure_rate = ratio expired (length bs),
          ah_health_score = calcHealthScore (ratio failed (length vs)) (ratio unmatched (length ins)) (ratio expired (length bs))\<rparr>)"


definition verify_update :: "nat \<times> nat \<Rightarrow> app_health_row \<Rightarrow> app_health_row" where
  "verify_update v r = r\<lparr>ah_total_verifications := fst v, ah_failed_verifications := snd v, ah_failed_rate := ratio (snd v) (fst v)\<rparr>"

definition binding_update :: "nat \<times> nat \<Rightarrow> app_health_row \<Rightarrow> app_health_row" where
  "binding_update v r = r\<lparr>ah_total_bindings := fst v, ah_expired_bindings := snd v, ah_binding_failure_rate := ratio (snd v) (fst v)\<rparr>"

definition inbound_update :: "nat \<times> nat \<Rightarrow> app_health_row \<Rightarrow> app_health_row" where
  "inbound_update v r = r\<lparr>ah_total_inbounds := ah_total_inbounds r + fst v, ah_unmatched_inbounds := ah_unmatched_inbounds r + snd v\<rparr>"

lemma add_as_update:
  "add_verify = (\<lambda>v. upsert (fst v) (verify_update (snd v)))"
  "add_binding = (\<lambda>v. upsert (fst v) (binding_update (snd v)))"
  "add_inbound = (\<lambda>v. upsert (fst (fst v)) (inbound_update (snd v)))"
  by (simp_all add: fun_eq_iff add_verify_def add_binding_def add_inbound_def verify_update_def [abs_def]
      binding_update_def [abs_def] inbound_update_def [abs_def] case_prod_beta)

lemma updates_keep_id [simp]:
  "keeps_id (verify_update v)" "keeps_id (binding_update v)" "keeps_id (inbound_update v)"
  "keeps_id set_unmatched_rate" "keeps_id set_score"
  by (simp_all add: keeps_id_def verify_update_def binding_update_def inbound_update_def set_unmatched_rate_def set_score_def)

lemma blank_fixed [simp]: "set_unmatched_rate (blank_row app) = blank_row app" "set_score (blank_row app) = blank_row app"
  by (simp_all add: set_unmatched_rate_def set_score_def blank_row_def ratio_def calcHealthScore_def js_round_def)

lemma group_counts_keys: "distinct (map fst (group_counts key hit rows))" "fst ` set (group_counts key hit rows) = key ` set rows"
  by (simp_all add: group_counts_def comp_def image_image)

lemma group_counts_at:
  "map_of (group_counts key hit rows) k = (if k \<in> key ` set rows
     then Some (length (filter (\<lambda>r. key r = k) rows), length (filter (\<lambda>r. key r = k \<and> hit r) rows)) else None)"
  by (simp add: group_counts_def map_of_map_restrict restrict_map_def)

lemma group_sums:
  "sum_list (map (\<lambda>v. fst (snd v)) (filter (\<lambda>v. fst (fst v) = a) (group_counts key hit rows))) = length (filter (\<lambda>r. fst (key r) = a) rows)"
  "sum_list (map (\<lambda>v. snd (snd v)) (filter (\<lambda>v. fst (fst v) = a) (group_counts key hit rows)))
     = length (filter (\<lambda>r. fst (key r) = a \<and> hit r) rows)"
proof -
  let ?ks = "filter (\<lambda>k. fst k = a) (remdups (map key rows))"
  have f: "filter (\<lambda>v. fst (fst v) = a) (group_counts key hit rows)
      = map (\<lambda>k. (k, length (filter (\<lambda>r. key r = k) rows), length (filter (\<lambda>r. key r = k \<and> hit r) rows))) ?ks"
    by (simp add: group_counts_def filter_map comp_def)
  have k: "filter (\<lambda>r. key r \<in> set ?ks \<and> h r) rows = filter (\<lambda>r. fst (key r) = a \<and> h r) rows" for h
    by (rule filter_cong) auto
  have d: "distinct ?ks" by simp
  show "sum_list (map (\<lambda>v. fst (snd v)) (filter (\<lambda>v. fst (fst v) = a) (group_counts key hit rows))) = length (filter (\<lambda>r. fst (key r) = a) rows)"
    unfolding f using count_by_key [OF d, of key "\<lambda>_. True" rows] k [of "\<lambda>_. True"] by (simp add: comp_def)
  show "sum_list (map (\<lambda>v. snd (snd v)) (filter (\<lambda>v. fst (fst v) = a) (group_counts key hit rows)))
     = length (filter (\<lambda>r. fst (key r) = a \<and> hit r) rows)"
    unfolding f using count_by_key [OF d, of key hit rows] k [of hit] by (simp add: comp_def)
qed

lemma no_rows: "k \<notin> key ` set rows \<Longrightarrow> filter (\<lambda>r. key r = k) rows = []" "k \<notin> key ` set rows \<Longrightarrow> filter (\<lambda>r. key r = k \<and> hit r) rows = []"
  by (auto simp: filter_empty_conv)

lemma fold_verify_at:
  "row_at a (fold add_verify (group_counts vr_appId hit rows) []) =
     verify_update (length (filter (\<lambda>r. vr_appId r = a) rows), length (filter (\<lambda>r. vr_appId r = a \<and> hit r) rows)) (blank_row a)"
  unfolding add_as_update
  by (subst fold_upsert [OF group_counts_keys(1)])
     (auto simp: group_counts_at no_rows row_at_def verify_update_def ratio_def blank_row_def)

lemma fold_binding_at:
  assumes "ah_total_bindings (row_at a rs) = 0" "ah_expired_bindings (row_at a rs) = 0" "ah_binding_failure_rate (row_at a rs) = 0"
  shows "row_at a (fold add_binding (group_counts pb_appId hit rows) rs) =
     binding_update (length (filter (\<lambda>r. pb_appId r = a) rows), length (filter (\<lambda>r. pb_appId r = a \<and> hit r) rows)) (row_at a rs)"
  unfolding add_as_update using assms
  by (subst fold_upsert [OF group_counts_keys(1)])
     (auto simp: group_counts_at no_rows binding_update_def ratio_def)

text \<open>The rows before sorting.\<close>

definition signal_rows :: "int \<Rightarrow> db \<Rightarrow> app_health_row list" where
  "signal_rows dbnow d =
     map set_score (fold add_binding (group_counts pb_appId (expired_binding dbnow) (binding_rows dbnow d))
       (map set_unmatched_rate (fold add_inbound
          (group_counts (\<lambda>(i, r). (rc_appId r, in_receiverId i)) (\<lambda>(i, r). in_matchedVerificationId i = None) (inbound_rows dbnow d))
          (fold add_verify (group_counts vr_appId (\<lambda>v. vr_status v = Failed) (verify_rows dbnow d)) []))))"

lemma as_apps_rows: "as_apps (computeSignals collate dbnow d) = sort_key (\<lambda>r. collate (ah_app_id r)) (signal_rows dbnow d)"
  by (simp add: computeSignals_def signal_rows_def Let_def)

lemma signal_rows_at: "row_at a (signal_rows dbnow d) = app_health dbnow d a"
proof -
  let ?ins = "inbound_rows dbnow d"
  have key: "(\<lambda>r. fst ((\<lambda>(i, r). (rc_appId r, in_receiverId i)) r) = a) = (\<lambda>(i, r). rc_appId r = a)"
    "(\<lambda>r. fst ((\<lambda>(i, r). (rc_appId r, in_receiverId i)) r) = a \<and> (\<lambda>(i, r). in_matchedVerificationId i = None) r)
       = (\<lambda>r. (\<lambda>(i, r). rc_appId r = a) r \<and> (\<lambda>(i, r). in_matchedVerificationId i = None) r)"
    by (auto simp: fun_eq_iff)
  define rows1 where "rows1 = fold add_verify (group_counts vr_appId (\<lambda>v. vr_status v = Failed) (verify_rows dbnow d)) []"
  define rows2 where "rows2 = map set_unmatched_rate (fold add_inbound
      (group_counts (\<lambda>(i, r). (rc_appId r, in_receiverId i)) (\<lambda>(i, r). in_matchedVerificationId i = None) ?ins) rows1)"
  have r2: "row_at a rows2 = set_unmatched_rate ((row_at a rows1)
      \<lparr>ah_total_inbounds := ah_total_inbounds (row_at a rows1) + length (filter (\<lambda>(i, r). rc_appId r = a) ?ins),
       ah_unmatched_inbounds := ah_unmatched_inbounds (row_at a rows1) +
         length (filter (\<lambda>r. (\<lambda>(i, r). rc_appId r = a) r \<and> (\<lambda>(i, r). in_matchedVerificationId i = None) r) ?ins)\<rparr>)"
    unfolding rows2_def by (simp only: row_at_map [OF updates_keep_id(4) blank_fixed(1)] fold_add_inbound group_sums key)
  have z: "ah_total_bindings (row_at a rows2) = 0" "ah_expired_bindings (row_at a rows2) = 0" "ah_binding_failure_rate (row_at a rows2) = 0"
    by (simp_all add: r2 rows1_def fold_verify_at set_unmatched_rate_def verify_update_def blank_row_def)
  have "row_at a (signal_rows dbnow d) = set_score (binding_update (length (filter (\<lambda>r. pb_appId r = a) (binding_rows dbnow d)),
      length (filter (\<lambda>r. pb_appId r = a \<and> expired_binding dbnow r) (binding_rows dbnow d))) (row_at a rows2))"
    unfolding signal_rows_def rows1_def [symmetric] rows2_def [symmetric]
    by (simp only: row_at_map [OF updates_keep_id(5) blank_fixed(2)] fold_binding_at [OF z])
  then show ?thesis
    by (simp add: r2 rows1_def fold_verify_at app_health_def Let_def set_score_def set_unmatched_rate_def binding_update_def
        verify_update_def blank_row_def conj_commute case_prod_beta)
qed

lemma signal_rows_ids:
  "distinct (map ah_app_id (signal_rows dbnow d))"
  "ah_app_id ` set (signal_rows dbnow d) =
     vr_appId ` set (verify_rows dbnow d) \<union> (\<lambda>(i, r). rc_appId r) ` set (inbound_rows dbnow d) \<union> pb_appId ` set (binding_rows dbnow d)"
proof -
  have m: "map ah_app_id (map set_score rs) = map ah_app_id rs" "map ah_app_id (map set_unmatched_rate rs) = map ah_app_id rs" for rs
    by (simp_all add: set_score_def set_unmatched_rate_def)
  have ims: "ah_app_id ` set (map set_score rs) = ah_app_id ` set rs" "ah_app_id ` set (map set_unmatched_rate rs) = ah_app_id ` set rs" for rs
    by (metis list.set_map m)+
  have k: "(\<lambda>v. fst (fst v)) ` set (group_counts (\<lambda>(i, r). (rc_appId r, in_receiverId i)) hit rows) = (\<lambda>(i, r). rc_appId r) ` set rows" for hit rows
  proof -
    have "(\<lambda>v. fst (fst v)) ` S = fst ` (fst ` S)" for S :: "((string \<times> string) \<times> nat \<times> nat) set" by (simp add: image_image)
    then show ?thesis by (simp only: group_counts_keys(2)) (simp add: image_image case_prod_beta)
  qed
  note f = fold_upsert_ids [where F = "\<lambda>v. binding_update (snd v)" and K = fst, simplified, folded add_as_update]
     fold_upsert_ids [where F = "\<lambda>v. inbound_update (snd v)" and K = "\<lambda>v :: (string \<times> string) \<times> nat \<times> nat. fst (fst v)", simplified, folded add_as_update]
     fold_upsert_ids [where F = "\<lambda>v. verify_update (snd v)" and K = fst, simplified, folded add_as_update]
  note g = f [THEN conjunct2, rule_format]
  show "distinct (map ah_app_id (signal_rows dbnow d))"
    unfolding signal_rows_def m(1) by (rule g(1), unfold m(2), rule g(2), rule g(3), simp)
  show "ah_app_id ` set (signal_rows dbnow d) =
     vr_appId ` set (verify_rows dbnow d) \<union> (\<lambda>(i, r). rc_appId r) ` set (inbound_rows dbnow d) \<union> pb_appId ` set (binding_rows dbnow d)"
    unfolding signal_rows_def ims f [THEN conjunct1] group_counts_keys(2) k by simp
qed


lemma ratio_filter: "0 \<le> ratio (length (filter P xs)) (length xs)" "ratio (length (filter P xs)) (length xs) \<le> 1"
  by (simp_all add: ratio_def divide_le_eq_1)

lemma calcHealthScore_bounds:
  assumes "0 \<le> f" "f \<le> 1" "0 \<le> u" "u \<le> 1" "0 \<le> b" "b \<le> 1"
  shows "20 \<le> calcHealthScore f u b" "calcHealthScore f u b \<le> 100" "f = 0 \<Longrightarrow> 50 \<le> calcHealthScore f u b"
proof -
  have "(20 :: int) \<le> js_round (100 - f * 30 - u * 40 - b * 10)" unfolding js_round_def using assms by (simp add: le_floor_iff)
  then show "20 \<le> calcHealthScore f u b" by (simp add: calcHealthScore_def)
  show "calcHealthScore f u b \<le> 100" by (simp add: calcHealthScore_def)
  show "50 \<le> calcHealthScore f u b" if "f = 0"
  proof -
    have "(50 :: int) \<le> js_round (100 - f * 30 - u * 40 - b * 10)" unfolding js_round_def using assms that by (simp add: le_floor_iff)
    then show ?thesis by (simp add: calcHealthScore_def)
  qed
qed

lemma app_health_bounds: "20 \<le> ah_health_score (app_health dbnow d a) \<and> ah_health_score (app_health dbnow d a) \<le> 100"
  by (simp add: app_health_def Let_def calcHealthScore_bounds ratio_filter del: filter_filter)



lemma run6_created: "map vr_createdAt (verifications (w_db run6)) = [1000]"
  by code_simp


section \<open>Gauges\<close>

lemma fold_count_receiver:
  "fold (count_receiver cfg now) rs g = g
     \<lparr>rg_enabledTotal := rg_enabledTotal g + length (filter rc_enabled rs),
      rg_disabledTotal := rg_disabledTotal g + length (filter (\<lambda>r. \<not> rc_enabled r) rs),
      rg_healthyTotal := rg_healthyTotal g + length (filter (gauge_healthy cfg now) rs),
      rg_perReceiverHeartbeatAge := rg_perReceiverHeartbeatAge g @ map (\<lambda>r. (rc_id r, heartbeat_age now r)) rs\<rparr>"
  by (induction rs arbitrary: g) (simp_all add: count_receiver_def Let_def)

text \<open>
  The healthy gauge counts at least the receivers the router may choose at that instant, and it counts one more
  kind: an enabled receiver whose last heartbeat is exactly as old as the timeout.
\<close>

lemma gauge_healthy_router:
  "gauge_healthy cfg now r \<longleftrightarrow> healthy_receiver cfg now (rc_appId r) None r \<or>
     rc_enabled r \<and> rc_lastHeartbeatAt r = Some (now - RECEIVER_HEARTBEAT_TIMEOUT_SECONDS cfg * 1000)"
  by (auto simp: gauge_healthy_def healthy_receiver_def truthy_def split: option.splits)

lemma receiver_gauges_run_metrics:
  "\<exists>g. w_metrics (receiver_gauges_run cfg now w) = w_metrics w @ [SetReceiverGauges g] \<and>
     rg_enabledTotal g + rg_disabledTotal g = length (receivers (w_db w)) \<and>
     rg_healthyTotal g = length (filter (gauge_healthy cfg now) (receivers (w_db w))) \<and> rg_healthyTotal g \<le> rg_enabledTotal g"
proof -
  have "length (filter (gauge_healthy cfg now) rs) \<le> length (filter rc_enabled rs)" for rs
    by (induction rs) (auto simp: gauge_healthy_def)
  then show ?thesis
    by (simp add: receiver_gauges_run_def fold_count_receiver sum_length_filter_compl)
qed

text \<open>What the project-wide gauges show: ratios of the sums over all rows of the window.\<close>

lemma pushToGauges_min:
  assumes "as_apps s \<noteq> []" and "\<forall>a \<in> set (as_apps s). ah_health_score a \<le> 100"
  shows "\<exists>g. w_metrics (pushToGauges s w) = w_metrics w @ [SetAbuseSignals g] \<and> ag_min_app_health_score g = Min (ah_health_score ` set (as_apps s))"
proof -
  have fm: "foldl (\<lambda>m a. if ah_health_score a < m then ah_health_score a else m) m xs = Min (insert m (ah_health_score ` set xs))" for m and xs :: "app_health_row list"
  proof (induction xs arbitrary: m)
    case (Cons a xs)
    have "Min (insert (min x y) A) = Min (insert x (insert y A))" if "finite A" for x y :: int and A
      using that by (cases "A = {}") (simp_all add: min.assoc)
    moreover have "(if ah_health_score a < m then ah_health_score a else m) = min m (ah_health_score a)" by simp
    ultimately show ?case using Cons by (simp only: foldl_Cons list.set image_insert) simp
  qed simp
  have "Min (insert 100 (ah_health_score ` set (as_apps s))) = Min (ah_health_score ` set (as_apps s))"
  proof -
    have "Min (ah_health_score ` set (as_apps s)) \<in> ah_health_score ` set (as_apps s)" using assms(1) by (intro Min_in) simp_all
    then have "Min (ah_health_score ` set (as_apps s)) \<le> 100" using assms(2) by auto
    then show ?thesis using assms(1) by simp
  qed
  with assms(1) fm show ?thesis by (simp add: pushToGauges_def Let_def)
qed

end
