(* ===== verification/AdminWeb.thy ===== *)
theory AdminWeb
  imports RateLimit Crypto Http SmsCommands
begin

text \<open>
  The operator dashboard: password hashing (\<open>admin/web/passwords.ts\<close>), the guard in front of every
  \<open>/admin\<close> route (\<open>admin/web/plugin.ts\<close>), the redaction helpers (\<open>admin/web/masks.ts\<close>) and the
  queries behind the pages (\<open>admin/web/queries.ts\<close>). The scrypt derivation and the decoding of the basic
  authentication header are arguments. Literals outside ASCII are written as their UTF-8 bytes.
\<close>

section \<open>Passwords\<close>

text \<open>\<open>scrypt password salt keylen\<close>, \<open>None\<close> when it throws.\<close>

type_synonym scrypt_fn = "string \<Rightarrow> string \<Rightarrow> nat \<Rightarrow> string option"

definition SCRYPT_KEYLEN :: nat where
  "SCRYPT_KEYLEN = 64"

definition hashAdminPassword :: "scrypt_fn \<Rightarrow> string \<Rightarrow> string option \<Rightarrow> string \<Rightarrow> exn + string" where
  "hashAdminPassword scrypt randomSalt saltHex password =
     (if password = [] then Inl (JsError ''password must be a non-empty string'')
      else
        let salt = (if truthy saltHex then from_hex (the saltHex) else randomSalt) in
        case scrypt password salt SCRYPT_KEYLEN of
          None \<Rightarrow> Inl (JsError ''scrypt failed'')
        | Some key \<Rightarrow> Inr (''scrypt$'' @ to_hex salt @ ''$'' @ to_hex key))"

definition safeHexToBuffer :: "string \<Rightarrow> string option" where
  "safeHexToBuffer hex = (if \<not> all_in is_hex hex \<or> length hex mod 2 \<noteq> 0 then None else Some (from_hex hex))"

definition verifyAdminPassword :: "scrypt_fn \<Rightarrow> string \<Rightarrow> string \<Rightarrow> bool" where
  "verifyAdminPassword scrypt stored candidate =
     (case split_on CHR ''$'' stored of
        [p0, p1, p2] \<Rightarrow>
          if p0 \<noteq> ''scrypt'' then False
          else (case (safeHexToBuffer p1, safeHexToBuffer p2) of
             (Some salt, Some expected) \<Rightarrow>
               if expected = [] then False
               else (case scrypt candidate salt (length expected) of
                  None \<Rightarrow> False
                | Some derived \<Rightarrow> timingSafeEqual derived expected = Some True)
           | _ \<Rightarrow> False)
      | _ \<Rightarrow> False)"

text \<open>The derived key has the length asked for.\<close>

definition scrypt_ok :: "scrypt_fn \<Rightarrow> bool" where
  "scrypt_ok scrypt \<longleftrightarrow> (\<forall>p s n k. scrypt p s n = Some k \<longrightarrow> length k = n)"

lemma timingSafeEqual_True [simp]: "timingSafeEqual a b = Some True \<longleftrightarrow> a = b"
  by (auto simp: timingSafeEqual_def list.rel_eq)

lemma to_hex_all_in: "bs \<noteq> [] \<Longrightarrow> all_in is_hex (to_hex bs)"
  using to_hex_class [of bs] length_to_hex [of bs] by (cases bs) (auto simp: all_in_def)

lemma safeHexToBuffer_to_hex: "bs \<noteq> [] \<Longrightarrow> safeHexToBuffer (to_hex bs) = Some bs"
  by (simp add: safeHexToBuffer_def to_hex_all_in)

lemma hex_no_dollar: "CHR ''$'' \<notin> set (to_hex bs)"
proof
  assume "CHR ''$'' \<in> set (to_hex bs)"
  then have "is_hex CHR ''$''" using to_hex_class [of bs] by (auto simp: list_all_iff)
  then show False by (simp add: char_class_defs code_unit_def)
qed

lemma split_stored: "split_on CHR ''$'' (''scrypt$'' @ to_hex salt @ ''$'' @ to_hex key) = [''scrypt'', to_hex salt, to_hex key]"
proof -
  have "split_on CHR ''$'' (''scrypt'' @ CHR ''$'' # (to_hex salt @ CHR ''$'' # to_hex key)) = [''scrypt'', to_hex salt, to_hex key]"
    by (subst split_on_append, simp, subst split_on_append, rule hex_no_dollar) (simp add: split_on_no_sep hex_no_dollar)
  then show ?thesis by simp
qed

lemma verify_stored:
  assumes "salt \<noteq> []" and "key \<noteq> []"
  shows "verifyAdminPassword scrypt (''scrypt$'' @ to_hex salt @ ''$'' @ to_hex key) candidate
     \<longleftrightarrow> scrypt candidate salt (length key) = Some key"
  using assms split_stored [of salt key] by (simp add: verifyAdminPassword_def safeHexToBuffer_to_hex split: option.splits)

section \<open>The guard\<close>

definition HASH_RE :: "string \<Rightarrow> bool" where
  "HASH_RE hash \<longleftrightarrow>
     (case split_on CHR ''$'' hash of
        [p0, p1, p2] \<Rightarrow> p0 = ''scrypt'' \<and> all_in_between is_hex 16 128 p1 \<and> all_in_between is_hex 32 256 p2
      | _ \<Rightarrow> False)"

definition ADMIN_RL_WINDOW_SECONDS :: int where
  "ADMIN_RL_WINDOW_SECONDS = 5 * 60"

text \<open>Whether the routes are mounted at all.\<close>

definition admin_mounted :: "string \<Rightarrow> string \<Rightarrow> bool" where
  "admin_mounted user hash \<longleftrightarrow> user \<noteq> [] \<and> hash \<noteq> [] \<and> HASH_RE hash"

definition compareUser :: "string \<Rightarrow> string \<Rightarrow> bool" where
  "compareUser user candidate =
     (if length candidate \<noteq> length user then False else timingSafeEqual candidate user = Some True)"

definition admin_validate :: "scrypt_fn \<Rightarrow> string \<Rightarrow> string \<Rightarrow> string \<Rightarrow> string \<Rightarrow> bool" where
  "admin_validate scrypt user hash username password =
     (let userOk = compareUser user username; passOk = verifyAdminPassword scrypt hash password in userOk \<and> passOk)"

datatype admin_answer = AdminNotFound | AdminRateLimited int | AdminUnauthorized | AdminPage

text \<open>
  The two hooks in the order they are registered: the rate limit, then the password. A header that
  does not decode to a user and a password is answered 401 by the library.
\<close>

definition admin_gate ::
  "scrypt_fn \<Rightarrow> (string option \<Rightarrow> (string \<times> string) option) \<Rightarrow> string \<Rightarrow> string \<Rightarrow> int \<Rightarrow> int \<Rightarrow> string \<Rightarrow> string option \<Rightarrow> redis_store
     \<Rightarrow> admin_answer \<times> redis_store" where
  "admin_gate scrypt decode user hash limit now ip authorization rs =
     (if \<not> admin_mounted user hash then (AdminNotFound, rs)
      else
        let (rl, rs1) = rateCheck rs now (''admin:ip:'' @ ip) limit ADMIN_RL_WINDOW_SECONDS in
        if \<not> rk_allowed rl then (AdminRateLimited (rk_resetSeconds rl), rs1)
        else case decode authorization of
          None \<Rightarrow> (AdminUnauthorized, rs1)
        | Some (username, password) \<Rightarrow>
          (if admin_validate scrypt user hash username password then AdminPage else AdminUnauthorized, rs1))"

record admin_request =
  aq_ip :: string
  aq_at :: int
  aq_authorization :: "string option"

primrec admin_run ::
  "scrypt_fn \<Rightarrow> (string option \<Rightarrow> (string \<times> string) option) \<Rightarrow> string \<Rightarrow> string \<Rightarrow> int \<Rightarrow> redis_store \<Rightarrow> admin_request list \<Rightarrow> admin_answer list" where
  "admin_run scrypt decode user hash limit rs [] = []"
| "admin_run scrypt decode user hash limit rs (q # qs) =
     (let (a, rs1) = admin_gate scrypt decode user hash limit (aq_at q) (aq_ip q) (aq_authorization q) rs
      in a # admin_run scrypt decode user hash limit rs1 qs)"

text \<open>The requests whose password is compared.\<close>

definition tried :: "admin_answer \<Rightarrow> bool" where
  "tried a \<longleftrightarrow> a = AdminPage \<or> a = AdminUnauthorized"

lemma admin_run_rate:
  assumes "admin_mounted user hash"
  shows "map tried (admin_run scrypt decode user hash limit rs qs)
     = rate_run limit ADMIN_RL_WINDOW_SECONDS rs (map (\<lambda>q. (''admin:ip:'' @ aq_ip q, aq_at q)) qs)"
  using assms
  by (induction qs arbitrary: rs)
     (auto simp: admin_gate_def tried_def Let_def split: prod.splits option.splits)

lemma admin_page_sound:
  assumes "fst (admin_gate scrypt decode user hash limit now ip au rs) = AdminPage"
  shows "admin_mounted user hash \<and> (\<exists>password. decode au = Some (user, password) \<and> verifyAdminPassword scrypt hash password)"
  using assms by (auto simp: admin_gate_def Let_def admin_validate_def compareUser_def split: if_splits prod.splits option.splits)

lemma admin_run_pages:
  "(q, AdminPage) \<in> set (zip qs (admin_run scrypt decode user hash limit rs qs)) \<Longrightarrow>
     \<exists>password. decode (aq_authorization q) = Some (user, password) \<and> verifyAdminPassword scrypt hash password"
proof (induction qs arbitrary: rs)
  case (Cons q' qs)
  obtain a rs1 where a: "admin_gate scrypt decode user hash limit (aq_at q') (aq_ip q') (aq_authorization q') rs = (a, rs1)" by fastforce
  show ?case
  proof (cases "q = q' \<and> a = AdminPage")
    case True
    then have "fst (admin_gate scrypt decode user hash limit (aq_at q') (aq_ip q') (aq_authorization q') rs) = AdminPage" using a by simp
    from admin_page_sound [OF this] True show ?thesis by simp
  next
    case False
    with Cons a show ?thesis by auto
  qed
qed simp

text \<open>
  C26: the dashboard is guarded. For any sequence of requests to \<open>/admin\<close> within one five-minute window,
  from any mix of addresses, each address gets at most what its limit leaves over earlier requests of password comparisons,
  whether they succeed or fail; and a page is shown only for the configured user with a password
  whose derived key is the stored one.
\<close>

theorem admin_guarded:
  assumes "rl_good ADMIN_RL_WINDOW_SECONDS rs t" and "successively (same_window ADMIN_RL_WINDOW_SECONDS) (t # map aq_at qs)"
    and "answers = admin_run scrypt decode user (''scrypt$'' @ to_hex salt @ ''$'' @ to_hex key) limit rs qs"
    and "admin_mounted user (''scrypt$'' @ to_hex salt @ ''$'' @ to_hex key)"
  shows "int (length (filter (\<lambda>(q, a). aq_ip q = ip \<and> tried a) (zip qs answers))) \<le> max 0 (limit - rl_level ADMIN_RL_WINDOW_SECONDS rs (''admin:ip:'' @ ip) t) \<and>
     (\<forall>q. (q, AdminPage) \<in> set (zip qs answers) \<longrightarrow>
        (\<exists>password. decode (aq_authorization q) = Some (user, password) \<and> scrypt password salt (length key) = Some key))"
proof -
  let ?hash = "''scrypt$'' @ to_hex salt @ ''$'' @ to_hex key"
  let ?cs = "map (\<lambda>q. (''admin:ip:'' @ aq_ip q, aq_at q)) qs"
  have ne: "\<not> rs_exec_null rs" using assms(1) by (simp add: rl_good_def)
  have "length (filter (\<lambda>(q, a). aq_ip q = ip \<and> tried a) (zip qs answers))
      = length (filter (\<lambda>(c, ok). fst c = ''admin:ip:'' @ ip \<and> ok) (zip ?cs (map tried answers)))"
    by (simp add: zip_map_map filter_map comp_def case_prod_beta split_def)
  also have "\<dots> = rl.admitted limit ADMIN_RL_WINDOW_SECONDS limit (''admin:ip:'' @ ip) rs ?cs"
    unfolding assms(3) admin_run_rate [OF assms(4)] by (rule rate_run_admitted [OF ne])
  finally have n: "int (length (filter (\<lambda>(q, a). aq_ip q = ip \<and> tried a) (zip qs answers)))
      \<le> max 0 (limit - rl_level ADMIN_RL_WINDOW_SECONDS rs (''admin:ip:'' @ ip) t)"
    using rl.admitted_exact [OF assms(1), of ?cs limit limit "''admin:ip:'' @ ip"] assms(2) by (simp add: comp_def)
  have "salt \<noteq> []" "key \<noteq> []"
    using assms(4) split_stored [of salt key] by (auto simp: admin_mounted_def HASH_RE_def all_in_between_def)
  from n admin_run_pages verify_stored [OF this] assms(3) show ?thesis by blast
qed

definition demo_tries :: "admin_request list" where
  "demo_tries = [\<lparr>aq_ip = ''1'', aq_at = 10, aq_authorization = Some ''no''\<rparr>, \<lparr>aq_ip = ''1'', aq_at = 20, aq_authorization = Some ''pw''\<rparr>]"

definition demo_answers :: "admin_answer list" where
  "demo_answers = admin_run (\<lambda>p s n. Some (take n (p @ s @ replicate n CHR ''k''))) (map_option (\<lambda>h. (''root'', h))) ''root''
     (''scrypt$'' @ to_hex (replicate 16 CHR ''s'') @ ''$'' @ to_hex (replicate 64 CHR ''k'')) 1 empty_redis demo_tries"

theorem admin_guarded_witness:
  "length demo_tries = 2 \<and> length (filter (\<lambda>(q, a). aq_ip q = ''1'' \<and> tried a) (zip demo_tries demo_answers)) \<le> 1"
proof -
  have m: "admin_mounted ''root'' (''scrypt$'' @ to_hex (replicate 16 CHR ''s'') @ ''$'' @ to_hex (replicate 64 CHR ''k''))"
    using split_stored [of "replicate 16 CHR ''s''" "replicate 64 CHR ''k''"] to_hex_class
    by (simp add: admin_mounted_def HASH_RE_def all_in_between_def)
  have g: "rl_good ADMIN_RL_WINDOW_SECONDS empty_redis 0" by (rule empty_redis_good) (simp add: ADMIN_RL_WINDOW_SECONDS_def)
  have s: "successively (same_window ADMIN_RL_WINDOW_SECONDS) (0 # map aq_at demo_tries)"
    by (simp add: same_window_def window_no_def ADMIN_RL_WINDOW_SECONDS_def demo_tries_def)
  have "int (length (filter (\<lambda>(q, a). aq_ip q = ''1'' \<and> tried a) (zip demo_tries demo_answers))) \<le> 1"
    using admin_guarded [OF g s demo_answers_def m, where ip = "''1''", THEN conjunct1] by simp
  then show ?thesis by (simp add: demo_tries_def)
qed

text \<open>A hash made for a password verifies exactly the candidates with the same derived key.\<close>

lemma password_roundtrip:
  assumes "scrypt_ok scrypt" and "hashAdminPassword scrypt randomSalt None password = Inr stored" and "randomSalt \<noteq> []"
  shows "verifyAdminPassword scrypt stored candidate \<longleftrightarrow> scrypt candidate randomSalt SCRYPT_KEYLEN = scrypt password randomSalt SCRYPT_KEYLEN"
proof -
  obtain key where k: "scrypt password randomSalt SCRYPT_KEYLEN = Some key" "stored = ''scrypt$'' @ to_hex randomSalt @ ''$'' @ to_hex key"
    using assms(2) by (auto simp: hashAdminPassword_def truthy_def split: if_splits option.splits)
  have "length key = SCRYPT_KEYLEN" using assms(1) k(1) by (auto simp: scrypt_ok_def)
  then have "key \<noteq> []" "length key = SCRYPT_KEYLEN" by (auto simp: SCRYPT_KEYLEN_def)
  then show ?thesis using verify_stored [OF assms(3)] k by auto
qed

section \<open>Redaction\<close>

definition EM_DASH :: string where
  "EM_DASH = [CHR 0xE2, CHR 0x80, CHR 0x94]"

definition ELLIPSIS :: string where
  "ELLIPSIS = [CHR 0xE2, CHR 0x80, CHR 0xA6]"

definition shortId :: "string \<Rightarrow> string" where
  "shortId i =
     (if i = [] then EM_DASH
      else case index_of CHR ''_'' i of
        None \<Rightarrow> take 8 i @ ELLIPSIS
      | Some underscore \<Rightarrow>
        let p = take (underscore + 1) i; t = drop (underscore + 1) i in
        if length t \<le> 4 then p @ t else p @ take 4 t @ ELLIPSIS)"

definition is_alpha :: "char \<Rightarrow> bool" where
  "is_alpha c \<longleftrightarrow> is_upper c \<or> is_lower c"

text \<open>The match of \<open>/^[A-Za-z][A-Za-z0-9]{0,15}/\<close>, empty when there is none.\<close>

definition leading_verb :: "string \<Rightarrow> string" where
  "leading_verb s = (case s of [] \<Rightarrow> [] | c # cs \<Rightarrow> if is_alpha c then c # take 15 (takeWhile is_alnum cs) else [])"

definition maskInboundBody :: "string \<Rightarrow> string" where
  "maskInboundBody body =
     (if body = [] then ''(empty)''
      else js_trim (leading_verb (js_trim body) @ '' *** ('' @ show_nat (length body) @ '' bytes)''))"

definition relativeTime :: "int option \<Rightarrow> int \<Rightarrow> string" where
  "relativeTime d now =
     (case d of
        None \<Rightarrow> EM_DASH
      | Some ts \<Rightarrow>
        let diff = ts - now; abs_ms = \<bar>diff\<bar>;
            u = (if abs_ms < 60000 then show_int (abs_ms div 1000) @ ''s''
                 else if abs_ms < 3600000 then show_int (abs_ms div 60000) @ ''m''
                 else if abs_ms < 86400000 then show_int (abs_ms div 3600000) @ ''h''
                 else show_int (abs_ms div 86400000) @ ''d'')
        in if diff > 0 then ''in '' @ u else u @ '' ago'')"

text \<open>
  The mask hides the code after a space, as its comment shows, but a message without the space, which
  the matcher accepts as well, is shown with its code.
\<close>

lemma maskInboundBody_examples:
  "maskInboundBody ''VERIFY A7K9P2'' = ''VERIFY *** (13 bytes)''"
  "maskInboundBody ''noise text'' = ''noise *** (10 bytes)''"
  "extractCode ''VERIFY'' ''VERIFYA7K9P2'' = Some ''A7K9P2'' \<and> maskInboundBody ''VERIFYA7K9P2'' = ''VERIFYA7K9P2 *** (12 bytes)''"
  by code_simp+

lemma relativeTime_units:
  "0 < t - now \<Longrightarrow> t - now < 60000 \<Longrightarrow> relativeTime (Some t) now = ''in '' @ show_int ((t - now) div 1000) @ ''s''"
  "86400000 \<le> now - t \<Longrightarrow> relativeTime (Some t) now = show_int ((now - t) div 86400000) @ ''d ago''"
  by (simp_all add: relativeTime_def Let_def)

section \<open>Pages\<close>

definition PAGE_LIMIT :: nat where
  "PAGE_LIMIT = 100"

record dashboard_overview =
  ov_total :: nat
  ov_enabled :: nat
  ov_healthy :: nat
  ov_pendingVerifications :: nat
  ov_verifiedLast24h :: nat
  ov_inboundLast24h :: nat
  ov_unmatchedLast24h :: int

text \<open>The queries compare with the database clock, strictly.\<close>

definition query_healthy :: "config \<Rightarrow> int \<Rightarrow> receiver_row \<Rightarrow> bool" where
  "query_healthy cfg dbnow r \<longleftrightarrow> rc_enabled r \<and>
     (case rc_lastHeartbeatAt r of None \<Rightarrow> False | Some t \<Rightarrow> t > dbnow - RECEIVER_HEARTBEAT_TIMEOUT_SECONDS cfg * 1000)"

definition fetchOverview :: "config \<Rightarrow> int \<Rightarrow> int \<Rightarrow> db \<Rightarrow> dashboard_overview" where
  "fetchOverview cfg now dbnow d =
     (let since = now - 24 * 60 * 60 * 1000;
          recent = filter (\<lambda>i. in_receivedAt i \<ge> since) (inboundSms d);
          matched = length (filter (\<lambda>i. in_matchedVerificationId i \<noteq> None) recent)
      in \<lparr>ov_total = length (receivers d), ov_enabled = length (filter rc_enabled (receivers d)),
          ov_healthy = length (filter (query_healthy cfg dbnow) (receivers d)),
          ov_pendingVerifications = length (filter (\<lambda>v. vr_status v = Pending) (verifications d)),
          ov_verifiedLast24h = length (filter (\<lambda>v. vr_status v = Verified \<and> (case vr_verifiedAt v of None \<Rightarrow> False | Some t \<Rightarrow> t \<ge> since)) (verifications d)),
          ov_inboundLast24h = length recent, ov_unmatchedLast24h = int (length recent) - int matched\<rparr>)"

definition fetchReceivers :: "config \<Rightarrow> int \<Rightarrow> db \<Rightarrow> (receiver_row \<times> string \<times> bool) list" where
  "fetchReceivers cfg now d =
     (let joined = concat (map (\<lambda>r. map (Pair r) (filter (\<lambda>a. ap_id a = rc_appId r) (apps d))) (receivers d));
          rows = take PAGE_LIMIT (sort_key (\<lambda>(r, a). - rc_createdAt r) joined)
      in map (\<lambda>(r, a). (r, ap_name a, rc_enabled r \<and>
           (case rc_lastHeartbeatAt r of None \<Rightarrow> False | Some t \<Rightarrow> now - t \<le> RECEIVER_HEARTBEAT_TIMEOUT_SECONDS cfg * 1000))) rows)"

record admin_verification_row =
  av_id :: string
  av_appId :: string
  av_phoneE164 :: string
  av_purpose :: string
  av_status :: verification_status
  av_createdAt :: int
  av_expiresAt :: int
  av_verifiedAt :: "int option"

definition fetchVerifications :: "db \<Rightarrow> admin_verification_row list" where
  "fetchVerifications d =
     map (\<lambda>v. \<lparr>av_id = vr_id v, av_appId = vr_appId v, av_phoneE164 = vr_phoneE164 v, av_purpose = vr_purpose v,
          av_status = vr_status v, av_createdAt = vr_createdAt v, av_expiresAt = vr_expiresAt v, av_verifiedAt = vr_verifiedAt v\<rparr>)
       (take PAGE_LIMIT (sort_key (\<lambda>v. - vr_createdAt v) (verifications d)))"

record admin_inbound_row =
  ai_id :: string
  ai_receiverId :: string
  ai_fromE164 :: string
  ai_body :: string
  ai_receivedAt :: int
  ai_matchedVerificationId :: "string option"

definition fetchInbound :: "db \<Rightarrow> admin_inbound_row list" where
  "fetchInbound d =
     map (\<lambda>i. \<lparr>ai_id = in_id i, ai_receiverId = in_receiverId i, ai_fromE164 = in_fromE164 i, ai_body = in_body i,
          ai_receivedAt = in_receivedAt i, ai_matchedVerificationId = in_matchedVerificationId i\<rparr>)
       (take PAGE_LIMIT (sort_key (\<lambda>i. - in_receivedAt i) (inboundSms d)))"

record receiver_states =
  rs_healthy :: nat
  rs_stale :: nat
  rs_disabled :: nat

definition health_receivers :: "config \<Rightarrow> int \<Rightarrow> db \<Rightarrow> receiver_states" where
  "health_receivers cfg dbnow d =
     \<lparr>rs_healthy = length (filter (query_healthy cfg dbnow) (receivers d)),
      rs_stale = length (filter (\<lambda>r. rc_enabled r \<and> (case rc_lastHeartbeatAt r of None \<Rightarrow> True
         | Some t \<Rightarrow> t \<le> dbnow - RECEIVER_HEARTBEAT_TIMEOUT_SECONDS cfg * 1000)) (receivers d)),
      rs_disabled = length (filter (\<lambda>r. \<not> rc_enabled r) (receivers d))\<rparr>"

lemma health_partition:
  "rs_healthy (health_receivers cfg dbnow d) + rs_stale (health_receivers cfg dbnow d) + rs_disabled (health_receivers cfg dbnow d)
     = length (receivers d)"
proof -
  have "length (filter (query_healthy cfg dbnow) rs) + length (filter (\<lambda>r. rc_enabled r \<and> (case rc_lastHeartbeatAt r of None \<Rightarrow> True
         | Some t \<Rightarrow> t \<le> dbnow - RECEIVER_HEARTBEAT_TIMEOUT_SECONDS cfg * 1000)) rs) + length (filter (\<lambda>r. \<not> rc_enabled r) rs) = length rs" for rs
    by (induction rs) (auto simp: query_healthy_def split: option.splits)
  then show ?thesis by (simp add: health_receivers_def)
qed

lemma pages_bounded:
  "length (fetchReceivers cfg now d) \<le> 100" "length (fetchVerifications d) \<le> 100" "length (fetchInbound d) \<le> 100"
  by (simp_all add: fetchReceivers_def fetchVerifications_def fetchInbound_def PAGE_LIMIT_def Let_def)

text \<open>A page shows the newest rows: what it leaves out is not newer than what it shows.\<close>

lemma fetchInbound_newest:
  assumes "i \<in> set (fetchInbound d)" and "j \<in> set (inboundSms d)" and "in_receivedAt j > ai_receivedAt i"
  shows "in_id j \<in> ai_id ` set (fetchInbound d)"
proof -
  let ?s = "sort_key (\<lambda>i. - in_receivedAt i) (inboundSms d)"
  obtain i' where i': "i' \<in> set (take PAGE_LIMIT ?s)" "ai_receivedAt i = in_receivedAt i'"
    using assms(1) by (auto simp: fetchInbound_def)
  have "sorted (map (\<lambda>i. - in_receivedAt i) (take PAGE_LIMIT ?s @ drop PAGE_LIMIT ?s))" by simp
  then have "j \<notin> set (drop PAGE_LIMIT ?s)"
    using i' assms(3) unfolding map_append sorted_append by force
  moreover have "j \<in> set (take PAGE_LIMIT ?s @ drop PAGE_LIMIT ?s)" using assms(2) by simp
  ultimately have "j \<in> set (take PAGE_LIMIT ?s)" by (metis Un_iff set_append)
  then show ?thesis by (force simp: fetchInbound_def)
qed

end
