(* ===== verification/SdkClient.thy ===== *)
theory SdkClient
  imports Http
begin

text \<open>
  The JavaScript client, \<open>packages/sdk-js/src/index.ts\<close>: how a response becomes a value or a
  \<open>SyrotpError\<close>, and the polling loop. \<open>fetch\<close> and \<open>JSON.parse\<close> are arguments. The loop is a
  \<open>partial_function\<close>: \<open>None\<close> would be a call that never settles.
\<close>

section \<open>Errors and requests\<close>

text \<open>The fields of a \<open>SyrotpError\<close> taken from a response are whatever JSON values it holds.\<close>

datatype sdk_exn =
    SyrotpError json json int "json option"
  | TypeError string
  | AbortError

definition sdk_error :: "string \<Rightarrow> string \<Rightarrow> int \<Rightarrow> sdk_exn" where
  "sdk_error code message status = SyrotpError (JStr code) (JStr message) status None"

record sdk_client =
  sk_baseUrl :: string
  sk_apiKey :: string
  sk_timeoutMs :: int
  sk_userAgent :: string

definition SyrotpClient :: "string \<Rightarrow> string \<Rightarrow> int option \<Rightarrow> string option \<Rightarrow> sdk_exn + sdk_client" where
  "SyrotpClient baseUrl apiKey timeoutMs userAgent =
     (if \<not> (starts_with baseUrl ''http://'' \<or> starts_with baseUrl ''https://'') then Inl (TypeError ''baseUrl must be an http(s) URL'')
      else if apiKey = [] then Inl (TypeError ''apiKey is required'')
      else Inr \<lparr>sk_baseUrl = strip_slashes baseUrl, sk_apiKey = apiKey,
                sk_timeoutMs = (case timeoutMs of Some t \<Rightarrow> t | None \<Rightarrow> 15000),
                sk_userAgent = ''syrotp-sdk-js/0.1.0'' @ (if truthy userAgent then '' '' @ the userAgent else [])\<rparr>)"

text \<open>An object literal whose values may be \<open>undefined\<close>.\<close>

definition stripUndefined :: "(string \<times> json option) list \<Rightarrow> (string \<times> json) list" where
  "stripUndefined obj = List.map_filter (\<lambda>(k, v). map_option (Pair k) v) obj"

record sdk_call =
  sq_method :: string
  sq_url :: string
  sq_headers :: "(string \<times> string) list"
  sq_body :: "json option"

definition sdk_message :: "sdk_client \<Rightarrow> string \<Rightarrow> string \<Rightarrow> (string \<times> json option) list option \<Rightarrow> sdk_call" where
  "sdk_message c verb path body =
     \<lparr>sq_method = verb, sq_url = sk_baseUrl c @ path,
      sq_headers = [(''Authorization'', ''Bearer '' @ sk_apiKey c), (''User-Agent'', sk_userAgent c), (''Accept'', ''application/json'')] @
        (if body \<noteq> None then [(''Content-Type'', ''application/json'')] else []),
      sq_body = map_option (\<lambda>b. JObj (stripUndefined b)) body\<rparr>"

text \<open>
  What \<open>fetch\<close> and reading the text come to: a status with its text, an \<open>Error\<close> (the abort of the
  timer or another), or a thrown value that is no \<open>Error\<close>.
\<close>

datatype fetch_outcome = Responds int string | Aborted | Throws string | ThrowsOther

definition nullish :: "json option \<Rightarrow> bool" where
  "nullish v \<longleftrightarrow> v = None \<or> v = Some JNull"

definition or_default :: "json option \<Rightarrow> string \<Rightarrow> json" where
  "or_default v d = (if nullish v then JStr d else the v)"

definition sdk_result :: "(string \<Rightarrow> json option) \<Rightarrow> fetch_outcome \<Rightarrow> sdk_exn + json" where
  "sdk_result parse outcome =
     (case outcome of
        Aborted \<Rightarrow> Inl (sdk_error ''timeout'' ''request timed out'' 408)
      | Throws m \<Rightarrow> Inl (sdk_error ''network_error'' m 0)
      | ThrowsOther \<Rightarrow> Inl (sdk_error ''network_error'' ''network error'' 0)
      | Responds status text \<Rightarrow>
        (case (if text \<noteq> [] then parse text else Some (JObj [])) of
           None \<Rightarrow> Inl (sdk_error ''bad_response'' (''non-JSON response (status '' @ show_int status @ '')'') status)
         | Some j \<Rightarrow>
           if \<not> (200 \<le> status \<and> status < 300) then
             (if j = JNull then Inl (sdk_error ''network_error'' ''Cannot read properties of null'' 0)
              else let e = field ''error'' (Some j) in
                Inl (SyrotpError (or_default (field ''code'' e) (''http_'' @ show_int status))
                       (or_default (field ''message'' e) (''request failed with status '' @ show_int status))
                       status (field ''request_id'' e)))
           else Inr j))"

definition sdk_request :: "(string \<Rightarrow> json option) \<Rightarrow> (sdk_call \<Rightarrow> fetch_outcome) \<Rightarrow> sdk_client \<Rightarrow> string \<Rightarrow> string
    \<Rightarrow> (string \<times> json option) list option \<Rightarrow> sdk_exn + json" where
  "sdk_request parse fetch c verb path body = sdk_result parse (fetch (sdk_message c verb path body))"

record sdk_start_input =
  ss_phone :: string
  ss_purpose :: string
  ss_clientRef :: "string option"
  ss_locale :: "string option"

definition sdk_startVerification :: "(string \<Rightarrow> json option) \<Rightarrow> (sdk_call \<Rightarrow> fetch_outcome) \<Rightarrow> sdk_client \<Rightarrow> sdk_start_input \<Rightarrow> sdk_exn + json" where
  "sdk_startVerification parse fetch c inp =
     sdk_request parse fetch c ''POST'' ''/v1/verifications''
       (Some [(''phone'', Some (JStr (ss_phone inp))), (''purpose'', Some (JStr (ss_purpose inp))),
              (''client_ref'', map_option JStr (ss_clientRef inp)), (''locale'', map_option JStr (ss_locale inp))])"

text \<open>An id that passes the pattern is its own URI encoding.\<close>

definition sdk_getVerification :: "(string \<Rightarrow> json option) \<Rightarrow> (sdk_call \<Rightarrow> fetch_outcome) \<Rightarrow> sdk_client \<Rightarrow> string \<Rightarrow> sdk_exn + json" where
  "sdk_getVerification parse fetch c i =
     (if \<not> prefixed_id ''vrf_'' i then Inl (TypeError ''invalid verification id'')
      else sdk_request parse fetch c ''GET'' (''/v1/verifications/'' @ i) None)"

definition sdk_cancelVerification :: "(string \<Rightarrow> json option) \<Rightarrow> (sdk_call \<Rightarrow> fetch_outcome) \<Rightarrow> sdk_client \<Rightarrow> string \<Rightarrow> sdk_exn + json" where
  "sdk_cancelVerification parse fetch c i =
     (if \<not> prefixed_id ''vrf_'' i then Inl (TypeError ''invalid verification id'')
      else sdk_request parse fetch c ''POST'' (''/v1/verifications/'' @ i @ ''/cancel'') None)"

section \<open>Polling\<close>

text \<open>
  What round \<open>i\<close> of the loop meets: the clock and the abort signal at its head, the outcome of
  the request, and whether the sleep is aborted.
\<close>

record wait_env =
  wn_now :: "nat \<Rightarrow> int"
  wn_aborted :: "nat \<Rightarrow> bool"
  wn_answer :: "nat \<Rightarrow> sdk_exn + json"
  wn_sleep_aborted :: "nat \<Rightarrow> bool"

definition wait_interval :: "int option \<Rightarrow> int" where
  "wait_interval intervalMs = max 2000 (case intervalMs of Some i \<Rightarrow> i | None \<Rightarrow> 2500)"

definition wait_deadline :: "int \<Rightarrow> int option \<Rightarrow> int" where
  "wait_deadline now timeoutMs = now + (case timeoutMs of Some t \<Rightarrow> t | None \<Rightarrow> 5 * 60000)"

text \<open>One round: the result that ends the loop, or \<open>None\<close> to sleep and go on.\<close>

definition wait_round :: "wait_env \<Rightarrow> int \<Rightarrow> nat \<Rightarrow> (sdk_exn + json) option" where
  "wait_round env deadline i =
     (if \<not> wn_now env i < deadline then Some (Inl (sdk_error ''timeout'' ''waitForVerification timed out'' 408))
      else if wn_aborted env i then Some (Inl AbortError)
      else case wn_answer env i of
        Inl e \<Rightarrow> Some (Inl e)
      | Inr v \<Rightarrow>
        if v = JNull then Some (Inl (TypeError ''Cannot read properties of null''))
        else if field ''status'' (Some v) \<noteq> Some (JStr ''pending'') then Some (Inr v)
        else if wn_sleep_aborted env i then Some (Inl AbortError)
        else None)"

partial_function (option) wait_loop :: "wait_env \<Rightarrow> int \<Rightarrow> nat \<Rightarrow> (sdk_exn + json) option" where
  "wait_loop env deadline i = (case wait_round env deadline i of Some r \<Rightarrow> Some r | None \<Rightarrow> wait_loop env deadline (Suc i))"

lemma wait_loop_stop: "wait_round env deadline i = Some r \<Longrightarrow> wait_loop env deadline i = Some r"
  by (subst wait_loop.simps) simp

lemma wait_loop_go: "wait_round env deadline i = None \<Longrightarrow> wait_loop env deadline i = wait_loop env deadline (Suc i)"
  by (subst wait_loop.simps) simp

text \<open>If some round ends the loop, the first such round gives its result.\<close>

lemma wait_loop_first:
  assumes "wait_round env deadline n = Some r" and "\<forall>j < n. wait_round env deadline j = None"
  shows "wait_loop env deadline 0 = Some r"
proof -
  have "wait_loop env deadline (n - k) = Some r" if "k \<le> n" for k
    using that
  proof (induction k)
    case 0
    then show ?case using assms(1) by (simp add: wait_loop_stop)
  next
    case (Suc k)
    then have "wait_round env deadline (n - Suc k) = None" and "Suc (n - Suc k) = n - k" using assms(2) by auto
    then show ?case using Suc wait_loop_go by simp
  qed
  from this [of n] show ?thesis by simp
qed

lemma wait_clock:
  assumes "\<And>i. wn_now env i + interval \<le> wn_now env (Suc i)"
  shows "wn_now env 0 + int i * interval \<le> wn_now env i"
proof (induction i)
  case (Suc i)
  then show ?case using assms [of i] by (simp add: algebra_simps)
qed simp

text \<open>
  C27: \<open>waitForVerification\<close> settles. When each round takes at least the sleep, the call settles, with the
  outcome of the first round that is not a pending answer: the verification that left pending, the first
  failed request, an abort, or the timeout; before it there are at most \<open>timeout / interval\<close>, rounded up,
  rounds, so with the floor of two seconds a waiting client polls at most every two seconds.
\<close>

theorem wait_settles:
  assumes "interval = wait_interval intervalMs" and "deadline = wait_deadline (wn_now env 0) timeoutMs"
    and "\<And>i. wn_now env i + interval \<le> wn_now env (Suc i)"
  shows "\<exists>n r. wait_loop env deadline 0 = Some r \<and> wait_round env deadline n = Some r \<and>
     (\<forall>j < n. wn_answer env j \<in> Inr ` {v. field ''status'' (Some v) = Some (JStr ''pending'')}) \<and>
     (0 < n \<longrightarrow> (int n - 1) * interval < deadline - wn_now env 0) \<and> 2000 \<le> interval"
proof -
  have i2: "2000 \<le> interval" using assms(1) by (simp add: wait_interval_def)
  let ?k = "nat (deadline - wn_now env 0)"
  have "deadline - wn_now env 0 \<le> int ?k * interval"
  proof -
    have "int ?k * 1 \<le> int ?k * interval" using i2 by (intro mult_left_mono) simp_all
    then show ?thesis by linarith
  qed
  then have "deadline \<le> wn_now env ?k" using wait_clock [OF assms(3), of ?k] by simp
  then have "wait_round env deadline ?k \<noteq> None" by (simp add: wait_round_def)
  then obtain n r where n: "wait_round env deadline n = Some r" "\<forall>j < n. wait_round env deadline j = None"
    using exists_least_iff [of "\<lambda>n. wait_round env deadline n \<noteq> None"] by auto
  have pend: "wn_answer env j \<in> Inr ` {v. field ''status'' (Some v) = Some (JStr ''pending'')} \<and> wn_now env j < deadline" if "j < n" for j
  proof -
    have "wait_round env deadline j = None" using n(2) that by simp
    then show ?thesis by (auto simp: wait_round_def split: if_splits sum.splits)
  qed
  have "(int n - 1) * interval < deadline - wn_now env 0" if "0 < n"
  proof -
    have "wn_now env (n - 1) < deadline" using pend [of "n - 1"] that by simp
    then show ?thesis using wait_clock [OF assms(3), of "n - 1"] that by (simp add: of_nat_diff)
  qed
  with n pend wait_loop_first [OF n] i2 show ?thesis by blast
qed

definition wait_demo :: wait_env where
  "wait_demo = \<lparr>wn_now = (\<lambda>i. int i * 2500), wn_aborted = (\<lambda>_. False),
     wn_answer = (\<lambda>i. Inr (JObj [(''status'', JStr (if i < 3 then ''pending'' else ''verified''))])), wn_sleep_aborted = (\<lambda>_. False)\<rparr>"

theorem wait_settles_witness:
  "\<exists>r n. wait_loop wait_demo 300000 0 = Some r \<and> wait_round wait_demo 300000 n = Some r \<and> (int n - 1) * 2500 < 300000"
proof -
  have "wn_now wait_demo i + 2500 \<le> wn_now wait_demo (Suc i)" for i by (simp add: wait_demo_def)
  moreover have "(2500 :: int) = wait_interval None" by (simp add: wait_interval_def)
  moreover have "300000 = wait_deadline (wn_now wait_demo 0) None" by (simp add: wait_deadline_def wait_demo_def)
  ultimately obtain n r where r: "wait_loop wait_demo 300000 0 = Some r" "wait_round wait_demo 300000 n = Some r"
      "0 < n \<longrightarrow> (int n - 1) * 2500 < 300000 - wn_now wait_demo 0"
    using wait_settles [of 2500 None 300000 wait_demo None] by blast
  have "(int n - 1) * 2500 < 300000" using r(3) by (cases n) (simp_all add: wait_demo_def)
  with r show ?thesis by blast
qed

section \<open>What the server throws is what the client catches\<close>

definition details_json :: "error_details \<Rightarrow> json" where
  "details_json d = (case d of RetryAfter n \<Rightarrow> JObj [(''retry_after_seconds'', JNum (of_int n))] | Issues \<Rightarrow> JObj [(''issues'', JArr [])])"

definition reply_json :: "reply \<Rightarrow> json" where
  "reply_json r = JObj [(''error'', JObj ([(''code'', JStr (rp_code r)), (''message'', JStr (rp_message r))] @
     (case rp_request_id r of None \<Rightarrow> [] | Some i \<Rightarrow> [(''request_id'', JStr i)]) @
     (case rp_details r of None \<Rightarrow> [] | Some d \<Rightarrow> [(''details'', details_json d)])))]"

lemma error_handler_status:
  assumes "\<And>a. e = ApiError a \<Longrightarrow> 400 \<le> statusCode a"
  shows "400 \<le> rp_status (error_handler e rid)"
  using assms by (cases e) (auto simp: error_handler_def toJSON_def Let_def js_statusCode_def js_validation_def split: option.splits)



end
