(* ===== verification/UiController.thy ===== *)
theory UiController
  imports Verifications
begin

text \<open>
  The verification widget of the browser, \<open>packages/web-component/src/controller.ts\<close>: a state machine
  driven by two timers and by the answers to its polls. The callbacks of the host page are a log.
  Instants are milliseconds, where the source carries ISO strings and converts them.
\<close>

record ui_verification =
  uv_id :: string
  uv_status :: verification_status
  uv_send_to :: "string option"
  uv_message :: "string option"
  uv_phone_masked :: string
  uv_expires_at :: int
  uv_verified_at :: "int option"

datatype ui_callback =
    OnChange ui_verification int
  | OnVerified ui_verification
  | OnExpired ui_verification
  | OnCancelled ui_verification
  | OnError string

text \<open>\<open>ct_inflight\<close> counts the polls that wait for their answer; the timers are set or not.\<close>

record controller =
  ct_state :: ui_verification
  ct_secondsLeft :: int
  ct_prevStatus :: verification_status
  ct_polling :: bool
  ct_ticking :: bool
  ct_stopped :: bool
  ct_started :: bool
  ct_inflight :: nat
  ct_log :: "ui_callback list"

definition isTerminal :: "verification_status \<Rightarrow> bool" where
  "isTerminal s \<longleftrightarrow> s \<noteq> Pending"

definition computeSecondsLeft :: "int \<Rightarrow> int \<Rightarrow> int" where
  "computeSecondsLeft expiresAt now = max 0 ((expiresAt - now) div 1000)"

definition new_controller :: "ui_verification \<Rightarrow> int \<Rightarrow> controller" where
  "new_controller v now =
     \<lparr>ct_state = v, ct_secondsLeft = computeSecondsLeft (uv_expires_at v) now, ct_prevStatus = uv_status v, ct_polling = False,
      ct_ticking = False, ct_stopped = False, ct_started = False, ct_inflight = 0, ct_log = []\<rparr>"

definition clearTimers :: "controller \<Rightarrow> controller" where
  "clearTimers c = c\<lparr>ct_polling := False, ct_ticking := False\<rparr>"

definition poll_begin :: "controller \<Rightarrow> controller" where
  "poll_begin c =
     (if ct_stopped c then c
      else if isTerminal (uv_status (ct_state c)) then c
      else c\<lparr>ct_inflight := ct_inflight c + 1\<rparr>)"

definition ui_start :: "controller \<Rightarrow> controller" where
  "ui_start c =
     (if ct_started c \<or> ct_stopped c then c
      else
        let c1 = c\<lparr>ct_started := True, ct_log := ct_log c @ [OnChange (ct_state c) (ct_secondsLeft c)]\<rparr> in
        if isTerminal (uv_status (ct_state c)) then c1
        else (poll_begin (c1\<lparr>ct_ticking := True\<rparr>))\<lparr>ct_polling := True\<rparr>)"

definition ui_stop :: "controller \<Rightarrow> controller" where
  "ui_stop c = clearTimers (c\<lparr>ct_stopped := True\<rparr>)"

text \<open>The callback of a change out of pending.\<close>

definition left_pending :: "verification_status \<Rightarrow> ui_verification \<Rightarrow> ui_callback list" where
  "left_pending prev next =
     (if prev \<noteq> uv_status next \<and> prev = Pending
      then (case uv_status next of Verified \<Rightarrow> [OnVerified next] | Expired \<Rightarrow> [OnExpired next] | Cancelled \<Rightarrow> [OnCancelled next] | _ \<Rightarrow> [])
      else [])"

definition ui_transition :: "int \<Rightarrow> ui_verification \<Rightarrow> controller \<Rightarrow> controller" where
  "ui_transition now next c =
     (let prev = ct_prevStatus c;
          sl = computeSecondsLeft (uv_expires_at next) now;
          c1 = c\<lparr>ct_state := next, ct_prevStatus := uv_status next, ct_secondsLeft := sl,
                 ct_log := ct_log c @ [OnChange next sl] @ left_pending prev next\<rparr>
      in if isTerminal (uv_status next) then clearTimers c1 else c1)"

definition onCountdownTick :: "int \<Rightarrow> controller \<Rightarrow> controller" where
  "onCountdownTick now c =
     (if uv_status (ct_state c) \<noteq> Pending then c
      else
        let sl = computeSecondsLeft (uv_expires_at (ct_state c)) now; c1 = c\<lparr>ct_secondsLeft := sl\<rparr> in
        if sl \<le> 0 then ui_transition now ((ct_state c)\<lparr>uv_status := Expired, uv_send_to := None, uv_message := None\<rparr>) c1
        else c1\<lparr>ct_log := ct_log c1 @ [OnChange (ct_state c1) sl]\<rparr>)"

text \<open>The rest of \<open>poll\<close> once the answer has arrived.\<close>

definition poll_answer :: "int \<Rightarrow> hosted_status \<Rightarrow> controller \<Rightarrow> controller" where
  "poll_answer now body c =
     (if ct_stopped c then c
      else
        let s = ct_state c in
        if hs_status body = uv_status s then
          (if hs_expires_at body \<noteq> uv_expires_at s then
             let s1 = s\<lparr>uv_expires_at := hs_expires_at body\<rparr>; sl = computeSecondsLeft (uv_expires_at s1) now in
             c\<lparr>ct_state := s1, ct_secondsLeft := sl, ct_log := ct_log c @ [OnChange s1 sl]\<rparr>
           else c)
        else
          ui_transition now (s\<lparr>uv_status := hs_status body, uv_expires_at := hs_expires_at body, uv_verified_at := hs_verified_at body,
             uv_send_to := (if hs_status body = Pending then uv_send_to s else None),
             uv_message := (if hs_status body = Pending then uv_message s else None)\<rparr>) c)"

definition poll_failure :: "bool \<Rightarrow> string \<Rightarrow> controller \<Rightarrow> controller" where
  "poll_failure aborted m c =
     (if ct_stopped c then c else if aborted then c else c\<lparr>ct_log := ct_log c @ [OnError m]\<rparr>)"

section \<open>Runs\<close>

text \<open>Timers fire only while they are set; an answer or a failure belongs to a poll in flight.\<close>

datatype ui_event = UStart | UStop | UTick int | UPoll | UAnswer int hosted_status | UFail bool string

definition settle :: "controller \<Rightarrow> controller" where
  "settle c = c\<lparr>ct_inflight := ct_inflight c - 1\<rparr>"

definition ui_apply :: "ui_event \<Rightarrow> controller \<Rightarrow> controller" where
  "ui_apply e c =
     (case e of
        UStart \<Rightarrow> ui_start c
      | UStop \<Rightarrow> ui_stop c
      | UTick now \<Rightarrow> if ct_ticking c then onCountdownTick now c else c
      | UPoll \<Rightarrow> if ct_polling c then poll_begin c else c
      | UAnswer now body \<Rightarrow> if ct_inflight c > 0 then poll_answer now body (settle c) else c
      | UFail aborted m \<Rightarrow> if ct_inflight c > 0 then poll_failure aborted m (settle c) else c)"

primrec ui_run :: "ui_event list \<Rightarrow> controller \<Rightarrow> controller" where
  "ui_run [] c = c"
| "ui_run (e # es) c = ui_run es (ui_apply e c)"

text \<open>
  No answer that says pending arrives once the widget shows a final status; no answer says failed, a status the
  server never stores.
\<close>

primrec no_stale :: "ui_event list \<Rightarrow> controller \<Rightarrow> bool" where
  "no_stale [] c = True"
| "no_stale (e # es) c =
     ((case e of
         UAnswer now body \<Rightarrow> hs_status body \<noteq> Failed \<and> (hs_status body = Pending \<longrightarrow> uv_status (ct_state c) = Pending)
       | _ \<Rightarrow> True) \<and> no_stale es (ui_apply e c))"

definition is_outcome :: "ui_callback \<Rightarrow> bool" where
  "is_outcome cb = (case cb of OnVerified _ \<Rightarrow> True | OnExpired _ \<Rightarrow> True | OnCancelled _ \<Rightarrow> True | _ \<Rightarrow> False)"

definition outcomes :: "controller \<Rightarrow> ui_callback list" where
  "outcomes c = filter is_outcome (ct_log c)"

text \<open>The invariant: the remembered status is the shown one, a final status shows no code, and outcomes come with leaving pending.\<close>

definition ui_ok :: "controller \<Rightarrow> bool" where
  "ui_ok c \<longleftrightarrow> ct_prevStatus c = uv_status (ct_state c) \<and>
     (uv_status (ct_state c) \<noteq> Pending \<longrightarrow> uv_send_to (ct_state c) = None \<and> uv_message (ct_state c) = None \<and> \<not> ct_polling c \<and> \<not> ct_ticking c)"

definition once_ok :: "controller \<Rightarrow> bool" where
  "once_ok c \<longleftrightarrow> uv_status (ct_state c) \<noteq> Failed \<and> length (outcomes c) = (if uv_status (ct_state c) = Pending then 0 else 1)"

lemma ui_apply_ok: "ui_ok c \<Longrightarrow> ui_ok (ui_apply e c)"
  by (auto simp: ui_ok_def ui_apply_def ui_start_def ui_stop_def clearTimers_def poll_begin_def onCountdownTick_def poll_answer_def
      poll_failure_def ui_transition_def settle_def isTerminal_def Let_def split: ui_event.splits)

lemma ui_run_ok: "ui_ok c \<Longrightarrow> ui_ok (ui_run es c)"
  by (induction es arbitrary: c) (auto intro: ui_apply_ok)


lemma once_transition:
  assumes "ct_prevStatus c = uv_status (ct_state c)" and "once_ok c" and "uv_status next \<notin> {Pending, Failed}"
  shows "once_ok (ui_transition now next c)"
proof -
  have "outcomes (ui_transition now next c) = outcomes c @ left_pending (ct_prevStatus c) next"
    by (simp add: outcomes_def ui_transition_def Let_def clearTimers_def is_outcome_def left_pending_def split: verification_status.splits)
  moreover have "length (left_pending (ct_prevStatus c) next) = (if uv_status (ct_state c) = Pending then 1 else 0)"
    using assms by (auto simp: left_pending_def split: verification_status.splits)
  moreover have "ct_state (ui_transition now next c) = next"
    by (simp add: ui_transition_def Let_def clearTimers_def)
  ultimately show ?thesis using assms by (auto simp: once_ok_def)
qed

lemma once_keep:
  assumes "once_ok c" and "uv_status (ct_state c') = uv_status (ct_state c)" and "ct_log c' = ct_log c @ cbs" and "filter is_outcome cbs = []"
  shows "once_ok c'"
  using assms by (simp add: once_ok_def outcomes_def)

lemma once_quiet:
  assumes "once_ok c"
  shows "once_ok (ui_start c)" "once_ok (ui_stop c)" "once_ok (poll_begin c)" "once_ok (settle c)" "once_ok (poll_failure a m c)"
  using assms
  by (auto simp: once_ok_def outcomes_def is_outcome_def ui_start_def ui_stop_def clearTimers_def poll_begin_def settle_def
      poll_failure_def Let_def)

lemma once_tick:
  assumes "ui_ok c" and "once_ok c"
  shows "once_ok (onCountdownTick now c)"
proof (cases "uv_status (ct_state c) = Pending")
  case True
  let ?c1 = "c\<lparr>ct_secondsLeft := computeSecondsLeft (uv_expires_at (ct_state c)) now\<rparr>"
  have "once_ok ?c1" "ct_prevStatus ?c1 = uv_status (ct_state ?c1)"
    using assms by (simp_all add: once_ok_def outcomes_def ui_ok_def)
  then show ?thesis
    using True once_transition [of ?c1] once_keep [of ?c1]
    by (simp add: onCountdownTick_def Let_def is_outcome_def)
qed (simp add: onCountdownTick_def assms(2))

lemma once_answer:
  assumes "ui_ok c" and "once_ok c" and "hs_status body \<noteq> Failed" and "hs_status body = Pending \<longrightarrow> uv_status (ct_state c) = Pending"
  shows "once_ok (poll_answer now body c)"
proof (cases "hs_status body = uv_status (ct_state c)")
  case True
  then show ?thesis using assms(2) once_keep [of c] by (simp add: poll_answer_def Let_def is_outcome_def)
next
  case False
  then show ?thesis using assms once_transition [of c] by (auto simp: poll_answer_def Let_def ui_ok_def)
qed

lemma ui_apply_once:
  assumes "ui_ok c" and "once_ok c" and "no_stale [e] c"
  shows "once_ok (ui_apply e c)"
proof -
  have "ui_ok (settle c)" "ct_state (settle c) = ct_state c" using assms(1) by (simp_all add: ui_ok_def settle_def)
  with assms show ?thesis
    by (cases e) (auto simp: ui_apply_def once_quiet once_tick intro!: once_answer once_quiet)
qed

lemma ui_run_once: "ui_ok c \<Longrightarrow> once_ok c \<Longrightarrow> no_stale es c \<Longrightarrow> once_ok (ui_run es c)"
proof (induction es arbitrary: c)
  case (Cons e es)
  then have "no_stale [e] c" by simp
  then have "once_ok (ui_apply e c)" by (rule ui_apply_once [OF Cons.prems(1,2)])
  then show ?case using Cons ui_apply_ok by simp
qed simp

text \<open>
  C29: the widget reports an outcome once. Started on a pending verification, under any interleaving of timers, polls,
  answers, failures and stops in which no stale pending answer arrives after a final status, exactly one outcome callback is
  made when the status is final and none before; and in every run whatsoever a widget with a final status shows neither the number
  nor the code, and its timers are cleared.
\<close>

theorem widget_reports_once:
  assumes "uv_status v = Pending"
  shows "(no_stale es (new_controller v now) \<longrightarrow>
       length (outcomes (ui_run es (new_controller v now))) = (if uv_status (ct_state (ui_run es (new_controller v now))) = Pending then 0 else 1)) \<and>
     (uv_status (ct_state (ui_run es (new_controller v now))) \<noteq> Pending \<longrightarrow>
       uv_send_to (ct_state (ui_run es (new_controller v now))) = None \<and> uv_message (ct_state (ui_run es (new_controller v now))) = None \<and>
       \<not> ct_polling (ui_run es (new_controller v now)) \<and> \<not> ct_ticking (ui_run es (new_controller v now)))"
proof -
  have ok: "ui_ok (new_controller v now)" "once_ok (new_controller v now)"
    using assms by (simp_all add: ui_ok_def once_ok_def outcomes_def new_controller_def)
  show ?thesis
    using ui_run_ok [OF ok(1), of es] ui_run_once [OF ok, of es] by (simp add: ui_ok_def once_ok_def)
qed

definition demo_widget :: ui_verification where
  "demo_widget = \<lparr>uv_id = ''vrf_1'', uv_status = Pending, uv_send_to = Some ''+963900000000'', uv_message = Some ''VERIFY A7K9P2'',
     uv_phone_masked = ''m'', uv_expires_at = 10000, uv_verified_at = None\<rparr>"

definition says :: "verification_status \<Rightarrow> hosted_status" where
  "says s = \<lparr>hs_status = s, hs_expires_at = 10000, hs_verified_at = None\<rparr>"

theorem widget_reports_once_witness:
  "length (outcomes (ui_run [UStart, UAnswer 100 (says Pending), UPoll, UTick 1000, UAnswer 2600 (says Verified)] (new_controller demo_widget 0))) = 1"
proof -
  have "uv_status demo_widget = Pending" by (simp add: demo_widget_def)
  moreover have "no_stale [UStart, UAnswer 100 (says Pending), UPoll, UTick 1000, UAnswer 2600 (says Verified)] (new_controller demo_widget 0)"
    by code_simp
  moreover have "uv_status (ct_state (ui_run [UStart, UAnswer 100 (says Pending), UPoll, UTick 1000, UAnswer 2600 (says Verified)] (new_controller demo_widget 0))) = Verified"
    by code_simp
  ultimately show ?thesis
    using widget_reports_once [of demo_widget "[UStart, UAnswer 100 (says Pending), UPoll, UTick 1000, UAnswer 2600 (says Verified)]" 0]
    by (simp del: ui_run.simps no_stale.simps)
qed

text \<open>
  A late answer revives the widget. A poll answered pending just before expiry whose answer arrives after the local countdown
  has reported the expiry puts the widget back to pending, without code and with both timers cleared, so that it never changes
  again by itself; and with two polls under way a pending answer that overtakes makes the page hear of one verification twice.
\<close>

theorem stale_answer_revives:
  "(let c = ui_run [UStart, UTick 10000, UAnswer 10001 (says Pending)] (new_controller demo_widget 0) in
      length (outcomes c) = 1 \<and> uv_status (ct_state c) = Pending \<and> uv_message (ct_state c) = None \<and> \<not> ct_polling c \<and> \<not> ct_ticking c \<and>
      ct_inflight c = 0) \<and>
   length (outcomes (ui_run [UStart, UPoll, UPoll, UAnswer 6000 (says Verified), UAnswer 6001 (says Pending), UAnswer 6002 (says Verified)]
      (new_controller demo_widget 0))) = 2"
  by code_simp

end
