(* ===== verification/ServerConfig.thy ===== *)
theory ServerConfig
  imports World
begin

text \<open>
  How the server reads its settings: \<open>apps/server/src/config.ts\<close>. The schema with its defaults and
  bounds, the proxy list, the booleans written as text and the refusals in production. What the process
  starts with is \<open>load_config\<close>; \<open>new URL\<close> is the argument \<open>is_url\<close>.
\<close>

section \<open>Numbers\<close>

text \<open>\<open>Number\<close> of a string; \<open>None\<close> when the result is not finite. The rounding of doubles is not modelled.\<close>

definition radix_digit :: "nat \<Rightarrow> char \<Rightarrow> nat option" where
  "radix_digit b c =
     (let u = code_unit c;
          v = (if is_digit c then u - 48 else if 97 \<le> u \<and> u \<le> 102 then u - 87 else if 65 \<le> u \<and> u \<le> 70 then u - 55 else 16)
      in if v < b then Some v else None)"

definition radix_value :: "nat \<Rightarrow> string \<Rightarrow> rat option" where
  "radix_value b s =
     (if s = [] \<or> list_ex (\<lambda>c. radix_digit b c = None) s then None
      else Some (of_nat (foldl (\<lambda>a c. a * b + the (radix_digit b c)) 0 s)))"

definition signed_part :: "string \<Rightarrow> int \<times> string" where
  "signed_part s = (case s of c # t \<Rightarrow> if c = CHR ''-'' then (- 1, t) else if c = CHR ''+'' then (1, t) else (1, s) | [] \<Rightarrow> (1, []))"

definition power_of_ten :: "int \<Rightarrow> rat" where
  "power_of_ten e = (if e \<ge> 0 then 10 ^ nat e else 1 / 10 ^ nat (- e))"

definition decimal_value :: "string \<Rightarrow> rat option" where
  "decimal_value s =
     (let (sgn, body) = signed_part s;
          mant = takeWhile (\<lambda>c. c \<noteq> CHR ''e'' \<and> c \<noteq> CHR ''E'') body;
          expo = drop (length mant) body;
          ip = takeWhile (\<lambda>c. c \<noteq> CHR ''.'') mant;
          fp = drop (length ip + 1) mant;
          (esgn, edigits) = signed_part (drop 1 expo)
      in if ip @ fp \<noteq> [] \<and> list_all is_digit (ip @ fp) \<and> (expo = [] \<or> edigits \<noteq> [] \<and> list_all is_digit edigits)
         then Some (of_int (sgn * int (digits_val (ip @ fp))) * power_of_ten ((if expo = [] then 0 else esgn * int (digits_val edigits)) - int (length fp)))
         else None)"

definition js_number :: "string \<Rightarrow> rat option" where
  "js_number s =
     (let t = js_trim s; p = js_lower (take 2 t) in
      if t = [] then Some 0
      else if p = ''0x'' then radix_value 16 (drop 2 t)
      else if p = ''0o'' then radix_value 8 (drop 2 t)
      else if p = ''0b'' then radix_value 2 (drop 2 t)
      else decimal_value t)"

definition js_integer :: "string \<Rightarrow> int option" where
  "js_integer s = (case js_number s of None \<Rightarrow> None | Some r \<Rightarrow> if of_int \<lfloor>r\<rfloor> = r then Some \<lfloor>r\<rfloor> else None)"

section \<open>Trusted proxies\<close>

definition ipv4_octet :: "string \<Rightarrow> bool" where
  "ipv4_octet s =
     (case s of
        [a] \<Rightarrow> is_digit a
      | [a, b] \<Rightarrow> is_digit a \<and> is_digit b
      | [a, b, c] \<Rightarrow>
          a = CHR ''2'' \<and> b = CHR ''5'' \<and> c \<in> set ''012345'' \<or>
          a = CHR ''2'' \<and> b \<in> set ''01234'' \<and> is_digit c \<or>
          a \<in> set ''01'' \<and> is_digit b \<and> is_digit c
      | _ \<Rightarrow> False)"

definition ipv4_re :: "string \<Rightarrow> bool" where
  "ipv4_re host \<longleftrightarrow> length (split_on (CHR ''.'') host) = 4 \<and> list_all ipv4_octet (split_on (CHR ''.'') host)"

definition ipv6_re :: "string \<Rightarrow> bool" where
  "ipv6_re host =
     (case split_on (CHR ''.'') host of
        [] \<Rightarrow> False
      | h # quads \<Rightarrow> h \<noteq> [] \<and> list_all (\<lambda>c. is_hex c \<or> c = CHR '':'') h \<and> length quads \<le> 3 \<and> list_all (all_in_between is_digit 1 3) quads)"

definition mask_ok :: "int \<Rightarrow> string option \<Rightarrow> bool" where
  "mask_ok most bits = (case bits of None \<Rightarrow> True | Some m \<Rightarrow> (case js_integer m of None \<Rightarrow> False | Some n \<Rightarrow> 0 \<le> n \<and> n \<le> most))"

definition isValidProxyEntry :: "string \<Rightarrow> bool" where
  "isValidProxyEntry raw =
     (let valid = (\<lambda>host bits.
        if host = [] then False
        else if ipv4_re host then mask_ok 32 bits
        else if ipv6_re host \<and> CHR '':'' \<in> set host then mask_ok 128 bits
        else False)
      in case split_on (CHR ''/'') raw of
           [host] \<Rightarrow> valid host None
         | [host, bits] \<Rightarrow> valid host (Some bits)
         | _ \<Rightarrow> False)"

definition parseTrustedProxies :: "string \<Rightarrow> string list" where
  "parseTrustedProxies raw = filter (\<lambda>s. s \<noteq> []) (map js_trim (split_on (CHR '','') raw))"

section \<open>The schema\<close>

record num_setting =
  ns_name :: string
  ns_min :: int
  ns_max :: "int option"
  ns_default :: int

definition num :: "string \<Rightarrow> int \<Rightarrow> int option \<Rightarrow> int \<Rightarrow> num_setting" where
  "num name lo hi d = \<lparr>ns_name = name, ns_min = lo, ns_max = hi, ns_default = d\<rparr>"

definition NUM_SETTINGS :: "num_setting list" where
  "NUM_SETTINGS =
     [num ''PORT'' 1 (Some 65535) 3000,
      num ''VERIFICATION_TTL_SECONDS'' 60 (Some 3600) 600,
      num ''VERIFICATION_CODE_LENGTH'' 4 (Some 12) 6,
      num ''MAX_PENDING_PER_PHONE'' 1 (Some 20) 3,
      num ''MAX_PENDING_PER_IP'' 1 (Some 100) 10,
      num ''RATE_LIMIT_START_PER_IP_PER_MIN'' 1 None 10,
      num ''RATE_LIMIT_STATUS_PER_IP_PER_MIN'' 1 None 60,
      num ''RATE_LIMIT_INBOUND_PER_RECEIVER_PER_MIN'' 1 None 120,
      num ''RATE_LIMIT_INBOUND_PER_IP_PER_MIN'' 1 None 600,
      num ''RATE_LIMIT_HEARTBEAT_PER_RECEIVER_PER_MIN'' 1 None 6,
      num ''RATE_LIMIT_VERIFICATIONS_PER_APP_PER_MIN'' 1 None 500,
      num ''RATE_LIMIT_INBOUND_PER_APP_PER_MIN'' 1 None 1000,
      num ''RATE_LIMIT_BINDINGS_PER_APP_PER_MIN'' 1 None 60,
      num ''RATE_LIMIT_SK_LIVE_PER_APP_PER_MIN'' 1 None 60,
      num ''RATE_LIMIT_CANCEL_PER_APP_PER_MIN'' 1 None 60,
      num ''RATE_LIMIT_WEBHOOK_CRUD_PER_APP_PER_MIN'' 1 None 30,
      num ''RATE_LIMIT_BINDING_READ_PER_APP_PER_MIN'' 1 None 60,
      num ''RATE_LIMIT_BINDING_REVOKE_PER_APP_PER_MIN'' 1 None 30,
      num ''RATE_LIMIT_WEBAUTHN_PER_APP_PER_MIN'' 1 None 30,
      num ''RECEIVER_HEARTBEAT_TIMEOUT_SECONDS'' 30 None 120,
      num ''INBOUND_TIMESTAMP_SKEW_SECONDS'' 30 (Some 900) 300,
      num ''RATE_LIMIT_ADMIN_PER_IP_PER_5MIN'' 1 None 10,
      num ''WEBHOOK_WORKER_INTERVAL_MS'' 100 (Some 60000) 5000,
      num ''WEBAUTHN_CHALLENGE_TTL_SECONDS'' 30 (Some 900) 300,
      num ''PHONE_BINDING_TTL_SECONDS'' 60 (Some 900) 300]"

type_synonym environment = "string \<Rightarrow> string option"

text \<open>A setting that is not set takes its default; one that is set to nothing is the number 0.\<close>

definition read_num :: "environment \<Rightarrow> num_setting \<Rightarrow> int option" where
  "read_num env ns =
     (case env (ns_name ns) of
        None \<Rightarrow> Some (ns_default ns)
      | Some v \<Rightarrow>
        (case js_integer v of
           None \<Rightarrow> None
         | Some n \<Rightarrow> if ns_min ns \<le> n \<and> (case ns_max ns of None \<Rightarrow> True | Some hi \<Rightarrow> n \<le> hi) then Some n else None))"

definition default_to :: "string \<Rightarrow> string option \<Rightarrow> string" where
  "default_to d v = (case v of None \<Rightarrow> d | Some s \<Rightarrow> s)"

definition bool_text :: "string \<Rightarrow> string option \<Rightarrow> bool" where
  "bool_text d v = (default_to d v \<in> {''true'', ''1''})"

definition hex64 :: "string \<Rightarrow> bool" where
  "hex64 s \<longleftrightarrow> all_in_between is_hex 64 64 s"

definition admin_hash_format :: "string \<Rightarrow> bool" where
  "admin_hash_format s =
     (case split_on (CHR ''$'') s of
        [scheme, salt, key] \<Rightarrow> scheme = ''scrypt'' \<and> all_in_between is_hex 16 128 salt \<and> all_in_between is_hex 32 256 key
      | _ \<Rightarrow> False)"

definition optional :: "(string \<Rightarrow> bool) \<Rightarrow> string option \<Rightarrow> bool" where
  "optional P v = (case v of None \<Rightarrow> True | Some s \<Rightarrow> P s)"

definition required :: "(string \<Rightarrow> bool) \<Rightarrow> string option \<Rightarrow> bool" where
  "required P v = (case v of None \<Rightarrow> False | Some s \<Rightarrow> P s)"

text \<open>The settings that are text, each with whether it is acceptable.\<close>

definition text_settings :: "(string \<Rightarrow> bool) \<Rightarrow> environment \<Rightarrow> (string \<times> bool) list" where
  "text_settings is_url env =
     [(''NODE_ENV'', default_to ''development'' (env ''NODE_ENV'') \<in> {''development'', ''test'', ''production''}),
      (''LOG_LEVEL'', default_to ''info'' (env ''LOG_LEVEL'') \<in> {''fatal'', ''error'', ''warn'', ''info'', ''debug'', ''trace''}),
      (''PUBLIC_BASE_URL'', optional is_url (env ''PUBLIC_BASE_URL'')),
      (''DATABASE_URL'', required is_url (env ''DATABASE_URL'')),
      (''REDIS_URL'', required is_url (env ''REDIS_URL'')),
      (''MASTER_ENCRYPTION_KEY'', required hex64 (env ''MASTER_ENCRYPTION_KEY'')),
      (''COOKIE_SECRET'', required hex64 (env ''COOKIE_SECRET'')),
      (''TRUSTED_PROXIES'', list_all isValidProxyEntry (parseTrustedProxies (default_to [] (env ''TRUSTED_PROXIES'')))),
      (''ADMIN_USER'', optional (\<lambda>s. s \<noteq> []) (env ''ADMIN_USER'')),
      (''ADMIN_PASSWORD_HASH'', optional admin_hash_format (env ''ADMIN_PASSWORD_HASH'')),
      (''WEBAUTHN_RP_ID'', optional (\<lambda>s. 1 \<le> length s \<and> length s \<le> 253) (env ''WEBAUTHN_RP_ID'')),
      (''WEBAUTHN_RP_NAME'', optional (\<lambda>s. 1 \<le> length s \<and> length s \<le> 64) (env ''WEBAUTHN_RP_NAME'')),
      (''WEBAUTHN_FALLBACK_URL'', optional is_url (env ''WEBAUTHN_FALLBACK_URL''))]"

text \<open>The settings \<open>safeParse\<close> complains about.\<close>

definition config_issues :: "(string \<Rightarrow> bool) \<Rightarrow> environment \<Rightarrow> string list" where
  "config_issues is_url env =
     map fst (filter (\<lambda>(_, ok). \<not> ok) (text_settings is_url env)) @
     map ns_name (filter (\<lambda>ns. read_num env ns = None) NUM_SETTINGS)"

record boot_config =
  bc_NODE_ENV :: string
  bc_HOST :: string
  bc_LOG_LEVEL :: string
  bc_PUBLIC_BASE_URL :: string
  bc_DATABASE_URL :: string
  bc_REDIS_URL :: string
  bc_COOKIE_SECRET :: string
  bc_PORT :: int
  bc_RATE_LIMIT_ADMIN_PER_IP_PER_5MIN :: int
  bc_WEBHOOK_WORKER_INTERVAL_MS :: int
  bc_CORS_ORIGINS :: string
  bc_TRUST_PROXY :: bool
  bc_trustedProxies :: "string list"
  bc_ADMIN_USER :: "string option"
  bc_ADMIN_PASSWORD_HASH :: "string option"
  bc_HOSTED_PAGE_ENABLED :: bool
  bc_WEBHOOK_WORKER_ENABLED :: bool
  bc_WEBHOOK_ALLOW_PRIVATE_FOR_TESTS :: bool
  bc_WEBAUTHN_ENABLED :: bool
  bc_WEBAUTHN_FALLBACK_URL :: "string option"
  bc_config :: config

definition num_of :: "environment \<Rightarrow> string \<Rightarrow> int" where
  "num_of env name = (case find (\<lambda>ns. ns_name ns = name) NUM_SETTINGS of None \<Rightarrow> 0 | Some ns \<Rightarrow> the (read_num env ns))"

definition operations_config :: "environment \<Rightarrow> config" where
  "operations_config env =
     \<lparr>MASTER_ENCRYPTION_KEY = the (env ''MASTER_ENCRYPTION_KEY''),
      VERIFICATION_TTL_SECONDS = num_of env ''VERIFICATION_TTL_SECONDS'',
      VERIFICATION_CODE_LENGTH = nat (num_of env ''VERIFICATION_CODE_LENGTH''),
      MAX_PENDING_PER_PHONE = nat (num_of env ''MAX_PENDING_PER_PHONE''),
      RATE_LIMIT_START_PER_IP_PER_MIN = num_of env ''RATE_LIMIT_START_PER_IP_PER_MIN'',
      RATE_LIMIT_STATUS_PER_IP_PER_MIN = num_of env ''RATE_LIMIT_STATUS_PER_IP_PER_MIN'',
      RATE_LIMIT_INBOUND_PER_RECEIVER_PER_MIN = num_of env ''RATE_LIMIT_INBOUND_PER_RECEIVER_PER_MIN'',
      RATE_LIMIT_INBOUND_PER_IP_PER_MIN = num_of env ''RATE_LIMIT_INBOUND_PER_IP_PER_MIN'',
      RATE_LIMIT_HEARTBEAT_PER_RECEIVER_PER_MIN = num_of env ''RATE_LIMIT_HEARTBEAT_PER_RECEIVER_PER_MIN'',
      RATE_LIMIT_VERIFICATIONS_PER_APP_PER_MIN = num_of env ''RATE_LIMIT_VERIFICATIONS_PER_APP_PER_MIN'',
      RATE_LIMIT_INBOUND_PER_APP_PER_MIN = num_of env ''RATE_LIMIT_INBOUND_PER_APP_PER_MIN'',
      RATE_LIMIT_BINDINGS_PER_APP_PER_MIN = num_of env ''RATE_LIMIT_BINDINGS_PER_APP_PER_MIN'',
      RATE_LIMIT_CANCEL_PER_APP_PER_MIN = num_of env ''RATE_LIMIT_CANCEL_PER_APP_PER_MIN'',
      RATE_LIMIT_WEBHOOK_CRUD_PER_APP_PER_MIN = num_of env ''RATE_LIMIT_WEBHOOK_CRUD_PER_APP_PER_MIN'',
      RATE_LIMIT_BINDING_READ_PER_APP_PER_MIN = num_of env ''RATE_LIMIT_BINDING_READ_PER_APP_PER_MIN'',
      RATE_LIMIT_BINDING_REVOKE_PER_APP_PER_MIN = num_of env ''RATE_LIMIT_BINDING_REVOKE_PER_APP_PER_MIN'',
      RATE_LIMIT_WEBAUTHN_PER_APP_PER_MIN = num_of env ''RATE_LIMIT_WEBAUTHN_PER_APP_PER_MIN'',
      RECEIVER_HEARTBEAT_TIMEOUT_SECONDS = num_of env ''RECEIVER_HEARTBEAT_TIMEOUT_SECONDS'',
      INBOUND_TIMESTAMP_SKEW_SECONDS = num_of env ''INBOUND_TIMESTAMP_SKEW_SECONDS'',
      DEFAULT_PHONE_REGION = default_to ''SY'' (env ''DEFAULT_PHONE_REGION''),
      WEBAUTHN_RP_ID = env ''WEBAUTHN_RP_ID'',
      WEBAUTHN_RP_NAME = env ''WEBAUTHN_RP_NAME'',
      WEBAUTHN_ORIGINS = default_to [] (env ''WEBAUTHN_ORIGINS''),
      WEBAUTHN_CHALLENGE_TTL_SECONDS = num_of env ''WEBAUTHN_CHALLENGE_TTL_SECONDS'',
      PHONE_BINDING_TTL_SECONDS = num_of env ''PHONE_BINDING_TTL_SECONDS''\<rparr>"

definition parsed_config :: "environment \<Rightarrow> boot_config" where
  "parsed_config env =
     \<lparr>bc_NODE_ENV = default_to ''development'' (env ''NODE_ENV''),
      bc_HOST = default_to ''0.0.0.0'' (env ''HOST''),
      bc_LOG_LEVEL = default_to ''info'' (env ''LOG_LEVEL''),
      bc_PUBLIC_BASE_URL = default_to (''http:'' @ ''//localhost:3000'') (env ''PUBLIC_BASE_URL''),
      bc_DATABASE_URL = the (env ''DATABASE_URL''),
      bc_REDIS_URL = the (env ''REDIS_URL''),
      bc_COOKIE_SECRET = the (env ''COOKIE_SECRET''),
      bc_PORT = num_of env ''PORT'',
      bc_RATE_LIMIT_ADMIN_PER_IP_PER_5MIN = num_of env ''RATE_LIMIT_ADMIN_PER_IP_PER_5MIN'',
      bc_WEBHOOK_WORKER_INTERVAL_MS = num_of env ''WEBHOOK_WORKER_INTERVAL_MS'',
      bc_CORS_ORIGINS = default_to [] (env ''CORS_ORIGINS''),
      bc_TRUST_PROXY = bool_text ''false'' (env ''TRUST_PROXY''),
      bc_trustedProxies = parseTrustedProxies (default_to [] (env ''TRUSTED_PROXIES'')),
      bc_ADMIN_USER = env ''ADMIN_USER'',
      bc_ADMIN_PASSWORD_HASH = env ''ADMIN_PASSWORD_HASH'',
      bc_HOSTED_PAGE_ENABLED = bool_text ''true'' (env ''HOSTED_PAGE_ENABLED''),
      bc_WEBHOOK_WORKER_ENABLED = bool_text ''true'' (env ''WEBHOOK_WORKER_ENABLED''),
      bc_WEBHOOK_ALLOW_PRIVATE_FOR_TESTS = bool_text ''false'' (env ''WEBHOOK_ALLOW_PRIVATE_FOR_TESTS''),
      bc_WEBAUTHN_ENABLED = bool_text ''false'' (env ''WEBAUTHN_ENABLED''),
      bc_WEBAUTHN_FALLBACK_URL = env ''WEBAUTHN_FALLBACK_URL'',
      bc_config = operations_config env\<rparr>"

datatype boot_refusal = InvalidConfiguration "string list" | DefaultSecrets | EscapeHatchArmed | OpenProxyTrust

definition PLACEHOLDER :: string where
  "PLACEHOLDER = ''replace_me_with_64_hex_chars_dev_only_do_not_use_in_production00''"

definition load_config :: "(string \<Rightarrow> bool) \<Rightarrow> environment \<Rightarrow> boot_refusal + boot_config" where
  "load_config is_url env =
     (if config_issues is_url env \<noteq> [] then Inl (InvalidConfiguration (config_issues is_url env))
      else let c = parsed_config env in
        if bc_NODE_ENV c = ''production'' then
          (if MASTER_ENCRYPTION_KEY (bc_config c) = PLACEHOLDER \<or> bc_COOKIE_SECRET c = PLACEHOLDER then Inl DefaultSecrets
           else if bc_WEBHOOK_ALLOW_PRIVATE_FOR_TESTS c then Inl EscapeHatchArmed
           else if bc_TRUST_PROXY c \<and> bc_trustedProxies c = [] then Inl OpenProxyTrust
           else Inr c)
        else Inr c)"

section \<open>What an accepted configuration is\<close>

definition in_range :: "num_setting \<Rightarrow> int \<Rightarrow> bool" where
  "in_range ns n \<longleftrightarrow> ns_min ns \<le> n \<and> (case ns_max ns of None \<Rightarrow> True | Some hi \<Rightarrow> n \<le> hi)"

lemma defaults_in_range: "list_all (\<lambda>ns. in_range ns (ns_default ns)) NUM_SETTINGS"
  by (simp add: NUM_SETTINGS_def num_def in_range_def)

lemma read_num_in_range: "ns \<in> set NUM_SETTINGS \<Longrightarrow> read_num env ns = Some n \<Longrightarrow> in_range ns n"
  using defaults_in_range by (auto simp: read_num_def list_all_iff in_range_def split: option.splits if_splits)

lemma num_of_in_range:
  assumes "config_issues is_url env = []" and "find (\<lambda>ns. ns_name ns = name) NUM_SETTINGS = Some ns"
  shows "in_range ns (num_of env name)"
proof -
  have ns: "ns \<in> set NUM_SETTINGS" using assms(2) by (auto simp: find_Some_iff)
  then obtain n where "read_num env ns = Some n"
    using assms(1) by (cases "read_num env ns") (auto simp: config_issues_def filter_empty_conv)
  then show ?thesis using read_num_in_range [OF ns] assms(2) by (simp add: num_of_def)
qed

lemma num_bounds:
  assumes "config_issues is_url env = []" and "find (\<lambda>ns. ns_name ns = name) NUM_SETTINGS = Some (num name lo hi d)"
  shows "lo \<le> num_of env name" and "hi = Some h \<Longrightarrow> num_of env name \<le> h"
  using num_of_in_range [OF assms] by (auto simp: in_range_def num_def)

lemma text_ok: "config_issues is_url env = [] \<Longrightarrow> (name, ok) \<in> set (text_settings is_url env) \<Longrightarrow> ok"
  by (auto simp: config_issues_def filter_empty_conv)


text \<open>An environment with nothing but the two addresses and the two secrets.\<close>

definition plain_env :: "string \<Rightarrow> environment" where
  "plain_env key = [''DATABASE_URL'' \<mapsto> ''postgres:/'' @ ''/db'', ''REDIS_URL'' \<mapsto> ''redis:/'' @ ''/r'', ''MASTER_ENCRYPTION_KEY'' \<mapsto> key, ''COOKIE_SECRET'' \<mapsto> key]"

lemma plain_nums: "list_all (\<lambda>ns. read_num (plain_env key) ns = Some (ns_default ns)) NUM_SETTINGS"
  by (simp add: NUM_SETTINGS_def num_def read_num_def plain_env_def)

lemma plain_accepted:
  assumes "hex64 key"
  shows "load_config (\<lambda>_. True) (plain_env key) = Inr (parsed_config (plain_env key))"
proof -
  have "filter (\<lambda>ns. read_num (plain_env key) ns = None) NUM_SETTINGS = []"
    using plain_nums [of key] by (auto simp: filter_empty_conv list_all_iff)
  moreover have "filter (\<lambda>(_, ok). \<not> ok) (text_settings (\<lambda>_. True) (plain_env key)) = []"
    using assms by (simp add: text_settings_def plain_env_def optional_def required_def default_to_def parseTrustedProxies_def js_trim_def)
  ultimately show ?thesis
    by (simp add: load_config_def config_issues_def parsed_config_def Let_def) (simp add: plain_env_def default_to_def)
qed

lemma plain_defaults: "bc_config (parsed_config (plain_env key)) = default_config\<lparr>MASTER_ENCRYPTION_KEY := key\<rparr>"
proof -
  have n: "num_of (plain_env key) name = ns_default ns" if "find (\<lambda>x. ns_name x = name) NUM_SETTINGS = Some ns" for name ns
  proof -
    have "ns \<in> set NUM_SETTINGS" using that by (auto simp: find_Some_iff)
    then show ?thesis using that plain_nums [of key] by (simp add: num_of_def list_all_iff)
  qed
  show ?thesis
    by (simp add: parsed_config_def operations_config_def default_config_def n NUM_SETTINGS_def num_def)
      (simp add: plain_env_def default_to_def)
qed


text \<open>The check for placeholder secrets never fires: the placeholder is no hexadecimal number.\<close>

lemma default_secrets_unreachable: "load_config is_url env \<noteq> Inl DefaultSecrets"
proof -
  have p: "\<not> hex64 PLACEHOLDER" by code_simp
  show ?thesis
  proof (cases "config_issues is_url env = []")
    case True
    note t = text_ok [OF True, unfolded text_settings_def]
    have "required hex64 (env ''MASTER_ENCRYPTION_KEY'')" "required hex64 (env ''COOKIE_SECRET'')"
      by (rule t [of "''MASTER_ENCRYPTION_KEY''"], simp) (rule t [of "''COOKIE_SECRET''"], simp)
    then show ?thesis using p
      by (auto simp: load_config_def Let_def parsed_config_def operations_config_def required_def split: option.splits)
  qed (simp add: load_config_def)
qed

text \<open>A mask that is missing behind its slash counts as 0, and one in another notation is accepted.\<close>

lemma proxy_masks: "isValidProxyEntry ''10.0.0.0/''" "isValidProxyEntry ''10.0.0.0/0x8''" "isValidProxyEntry ''10.0.0.0/1e1''"
  "\<not> isValidProxyEntry ''10.0.0.0/33''" "\<not> isValidProxyEntry ''10.0.0.256''"
  by code_simp+

end
