(* ===== verification/Lifecycle.thy ===== *)
theory Lifecycle
  imports ServerConfig Http
begin

text \<open>
  The frame around the routes: what \<open>app.ts\<close> derives from the configuration, the raw-body parser
  (\<open>plugins/rawBody.ts\<close>), the timer loop of the delivery worker (\<open>services/webhookWorker.ts\<close>) as a state machine, and
  start and end of the two processes (\<open>index.ts\<close>, \<open>workers/webhook.ts\<close>), all under \<open>apps/server/src\<close>.
\<close>

section \<open>The application\<close>

text \<open>\<open>None\<close> is \<open>false\<close>: no forwarded address is believed.\<close>

definition resolvedTrustProxy :: "boot_config \<Rightarrow> string list option" where
  "resolvedTrustProxy c = (if bc_trustedProxies c \<noteq> [] then Some (bc_trustedProxies c) else None)"

definition trust_warning :: "boot_config \<Rightarrow> bool" where
  "trust_warning c \<longleftrightarrow> bc_trustedProxies c = [] \<and> bc_TRUST_PROXY c \<and> bc_NODE_ENV c \<noteq> ''production''"

definition clientRequestId :: "string option \<Rightarrow> string option" where
  "clientRequestId h =
     (case h of
        None \<Rightarrow> None
      | Some s \<Rightarrow>
        if s \<noteq> [] \<and> length s \<le> 128 \<and> list_all (\<lambda>c. is_alnum c \<or> c \<in> set ''._-'') s then Some s else None)"

datatype cors_origin = NoOrigin | AnyOrigin | Origins "string list"

definition cors_origins :: "boot_config \<Rightarrow> cors_origin" where
  "cors_origins c =
     (let origins = filter (\<lambda>s. s \<noteq> []) (map js_trim (split_on (CHR '','') (bc_CORS_ORIGINS c)))
      in if origins = [] then NoOrigin else if ''*'' \<in> set origins then AnyOrigin else Origins origins)"

text \<open>The parser keeps the bytes for the signature check; \<open>Inl 400\<close> is the error for what is not JSON.\<close>

definition raw_body_parser :: "(string \<Rightarrow> json option) \<Rightarrow> string \<Rightarrow> string \<times> (int + json option)" where
  "raw_body_parser parse buf =
     (buf, if buf = [] then Inr None else (case parse buf of Some j \<Rightarrow> Inr (Some j) | None \<Rightarrow> Inl 400))"

text \<open>With a list of proxies the legacy flag changes nothing; without one, nobody is trusted.\<close>

lemma trust_flag_ignored: "resolvedTrustProxy (c\<lparr>bc_TRUST_PROXY := b\<rparr>) = resolvedTrustProxy c"
  by (simp add: resolvedTrustProxy_def)

section \<open>The timer of the delivery worker\<close>

text \<open>
  Timeouts that are pending, by number; \<open>wl_timer\<close> is the field \<open>timer\<close>, which keeps a timeout that has fired.
  \<open>wl_ticks\<close> are the ticks being worked on, each with whether a timeout began it.
\<close>

record worker_loop =
  wl_pending :: "nat list"
  wl_next :: nat
  wl_timer :: "nat option"
  wl_running :: bool
  wl_stopped :: bool
  wl_ticks :: "bool list"

definition new_loop :: worker_loop where
  "new_loop = \<lparr>wl_pending = [], wl_next = 0, wl_timer = None, wl_running = False, wl_stopped = False, wl_ticks = []\<rparr>"

definition scheduleNext :: "worker_loop \<Rightarrow> worker_loop" where
  "scheduleNext w =
     (if wl_stopped w then w
      else w\<lparr>wl_pending := wl_next w # wl_pending w, wl_timer := Some (wl_next w), wl_next := wl_next w + 1\<rparr>)"

definition loop_start :: "bool \<Rightarrow> worker_loop \<Rightarrow> worker_loop" where
  "loop_start enabled w = (if \<not> enabled then w else scheduleNext (w\<lparr>wl_stopped := False\<rparr>))"

text \<open>The first part of \<open>stop\<close>; it then waits until no tick runs.\<close>

definition loop_stop :: "worker_loop \<Rightarrow> worker_loop" where
  "loop_stop w =
     w\<lparr>wl_stopped := True, wl_timer := None,
       wl_pending := (case wl_timer w of None \<Rightarrow> wl_pending w | Some t \<Rightarrow> removeAll t (wl_pending w))\<rparr>"

definition run_begin :: "bool \<Rightarrow> worker_loop \<Rightarrow> worker_loop" where
  "run_begin timed w = w\<lparr>wl_running := True, wl_ticks := timed # wl_ticks w\<rparr>"

text \<open>A timeout fires: \<open>runOnce\<close> starts a tick, or finds one running and goes on at once to the next timeout.\<close>

definition loop_fire :: "nat \<Rightarrow> worker_loop \<Rightarrow> worker_loop" where
  "loop_fire t w =
     (let w' = w\<lparr>wl_pending := removeAll t (wl_pending w)\<rparr> in
      if wl_running w' then (if \<not> wl_stopped w' then scheduleNext w' else w') else run_begin True w')"

definition loop_run_once :: "worker_loop \<Rightarrow> worker_loop" where
  "loop_run_once w = (if wl_running w then w else run_begin False w)"

text \<open>The tick at the head of the list ends, with or without an error.\<close>

definition loop_tick_end :: "worker_loop \<Rightarrow> worker_loop" where
  "loop_tick_end w =
     (case wl_ticks w of
        [] \<Rightarrow> w
      | timed # rest \<Rightarrow>
        let w' = w\<lparr>wl_ticks := rest, wl_running := False\<rparr> in
        if timed \<and> \<not> wl_stopped w' then scheduleNext w' else w')"

text \<open>The life of a worker that is started once: the timer, direct runs, and the stop when the application closes.\<close>

inductive loop_reach :: "bool \<Rightarrow> worker_loop \<Rightarrow> bool" for enabled where
  started: "loop_reach enabled (loop_start enabled new_loop)"
| fires: "loop_reach enabled w \<Longrightarrow> t \<in> set (wl_pending w) \<Longrightarrow> loop_reach enabled (loop_fire t w)"
| runs: "loop_reach enabled w \<Longrightarrow> loop_reach enabled (loop_run_once w)"
| ends: "loop_reach enabled w \<Longrightarrow> wl_ticks w \<noteq> [] \<Longrightarrow> loop_reach enabled (loop_tick_end w)"
| stops: "loop_reach enabled w \<Longrightarrow> loop_reach enabled (loop_stop w)"

definition loop_ok :: "worker_loop \<Rightarrow> bool" where
  "loop_ok w \<longleftrightarrow> length (wl_ticks w) = (if wl_running w then 1 else 0) \<and>
     (wl_stopped w \<longrightarrow> wl_pending w = []) \<and>
     (wl_pending w = [] \<or> (\<exists>t. wl_pending w = [t] \<and> wl_timer w = Some t \<and> True \<notin> set (wl_ticks w)))"

lemma loop_ok_reach: "loop_reach enabled w \<Longrightarrow> loop_ok w"
proof (induction rule: loop_reach.induct)
  case started
  then show ?case by (simp add: loop_ok_def loop_start_def new_loop_def scheduleNext_def)
next
  case (fires w t)
  then show ?case
    by (auto simp: loop_ok_def loop_fire_def scheduleNext_def run_begin_def Let_def)
next
  case (runs w)
  then show ?case by (auto simp: loop_ok_def loop_run_once_def run_begin_def)
next
  case (ends w)
  then show ?case
    by (cases "wl_ticks w") (auto simp: loop_ok_def loop_tick_end_def scheduleNext_def Let_def split: if_splits)
next
  case (stops w)
  then show ?case by (auto simp: loop_ok_def loop_stop_def split: option.splits)
qed

text \<open>Ticks never overlap, and once stopped no timeout is left that could begin another.\<close>

lemma worker_loop_quiet:
  assumes "loop_reach enabled w"
  shows "length (wl_ticks w) \<le> 1" and "wl_stopped w \<Longrightarrow> wl_pending w = []"
  using loop_ok_reach [OF assms] by (auto simp: loop_ok_def split: if_splits)

section \<open>The processes\<close>

datatype process_event = Signal | UncaughtException | UnhandledRejection

text \<open>\<open>ps_exit\<close> is the exit code once the shutdown has closed everything, or failed to.\<close>

record process_state =
  ps_shuttingDown :: bool
  ps_exit :: "int option"

definition shutdown :: "bool \<Rightarrow> process_state \<Rightarrow> process_state" where
  "shutdown closes s =
     (if ps_shuttingDown s then s else \<lparr>ps_shuttingDown = True, ps_exit = Some (if closes then 0 else 1)\<rparr>)"

definition process_event_step :: "bool \<Rightarrow> process_event \<Rightarrow> process_state \<Rightarrow> process_state" where
  "process_event_step closes e s =
     (case e of Signal \<Rightarrow> shutdown closes s | UncaughtException \<Rightarrow> shutdown closes s | UnhandledRejection \<Rightarrow> s)"

definition server_process :: "bool \<Rightarrow> bool \<Rightarrow> process_event list \<Rightarrow> int option" where
  "server_process listens closes events =
     (if \<not> listens then Some 1
      else ps_exit (fold (process_event_step closes) events \<lparr>ps_shuttingDown = False, ps_exit = None\<rparr>))"

definition worker_process :: "boot_config \<Rightarrow> bool \<Rightarrow> process_event list \<Rightarrow> int option" where
  "worker_process c closes events =
     (if \<not> bc_WEBHOOK_WORKER_ENABLED c then Some 2
      else ps_exit (fold (process_event_step closes) events \<lparr>ps_shuttingDown = False, ps_exit = None\<rparr>))"

text \<open>
  An uncaught exception ends both processes with exit code 0, like a signal, and an unhandled rejection does not
  end them.
\<close>

lemma crash_exits_zero:
  "server_process True True [UncaughtException] = Some 0"
  "bc_WEBHOOK_WORKER_ENABLED c \<Longrightarrow> worker_process c True [UncaughtException] = Some 0"
  "bc_WEBHOOK_WORKER_ENABLED c \<Longrightarrow> worker_process c True [UnhandledRejection] = None"
  by (simp_all add: server_process_def worker_process_def process_event_step_def shutdown_def)

end
