(* ===== verification/ReactHook.thy ===== *)
theory ReactHook
  imports UiController
begin

text \<open>
  The verification hook of the React package, \<open>packages/react/src/useSyrotpVerification.ts\<close>: state updates are
  queued, a commit shows the queued state and runs the effects whose dependencies changed. Every poll belongs to a
  generation of the polling effect; the clean-up of the effect makes the answers of its generation void.
\<close>

record hook =
  hk_state :: ui_verification
  hk_secondsLeft :: int
  hk_shown :: ui_verification
  hk_shownSeconds :: int
  hk_prevStatus :: verification_status
  hk_generation :: nat
  hk_polling :: bool
  hk_counting :: bool
  hk_inflight :: "nat list"
  hk_unmounted :: bool
  hk_log :: "ui_callback list"

text \<open>The last effect: at zero seconds a pending verification is expired locally.\<close>

definition expire_locally :: "hook \<Rightarrow> hook" where
  "expire_locally h =
     (if uv_status (hk_shown h) = Pending \<and> hk_shownSeconds h \<le> 0 \<and> uv_status (hk_state h) = Pending
      then h\<lparr>hk_state := (hk_state h)\<lparr>uv_status := Expired, uv_send_to := None, uv_message := None\<rparr>\<rparr> else h)"

definition poll_effect :: "hook \<Rightarrow> hook" where
  "poll_effect h =
     (let h1 = h\<lparr>hk_generation := hk_generation h + 1, hk_polling := False\<rparr> in
      if isTerminal (uv_status (hk_shown h)) then h1
      else h1\<lparr>hk_polling := True, hk_inflight := hk_generation h1 # hk_inflight h1\<rparr>)"

definition hook_mount :: "ui_verification \<Rightarrow> int \<Rightarrow> hook" where
  "hook_mount v now =
     (let s = computeSecondsLeft (uv_expires_at v) now in
      expire_locally (poll_effect
        \<lparr>hk_state = v, hk_secondsLeft = s, hk_shown = v, hk_shownSeconds = s, hk_prevStatus = uv_status v, hk_generation = 0,
         hk_polling = False, hk_counting = (\<not> isTerminal (uv_status v)), hk_inflight = [], hk_unmounted = False, hk_log = []\<rparr>))"

text \<open>What a commit shows and the effects on the status: the callback, the countdown and the polling.\<close>

definition committed :: "hook \<Rightarrow> hook" where
  "committed h =
     (let next = hk_state h;
          h1 = h\<lparr>hk_shown := next, hk_shownSeconds := hk_secondsLeft h, hk_prevStatus := uv_status next,
                 hk_log := hk_log h @ left_pending (hk_prevStatus h) next, hk_counting := (\<not> isTerminal (uv_status next))\<rparr>
      in if uv_status next \<noteq> uv_status (hk_shown h) then poll_effect h1 else h1)"

definition hook_commit :: "hook \<Rightarrow> hook" where
  "hook_commit h =
     (if hk_unmounted h then h
      else if uv_status (hk_state h) \<noteq> uv_status (hk_shown h) \<or> hk_secondsLeft h \<noteq> hk_shownSeconds h
        then expire_locally (committed h) else committed h)"

definition answered_state :: "hosted_status \<Rightarrow> ui_verification \<Rightarrow> ui_verification" where
  "answered_state body prev =
     (if hs_status body = uv_status prev
      then (if hs_expires_at body \<noteq> uv_expires_at prev then prev\<lparr>uv_expires_at := hs_expires_at body\<rparr> else prev)
      else prev\<lparr>uv_status := hs_status body, uv_expires_at := hs_expires_at body, uv_verified_at := hs_verified_at body,
                uv_send_to := (if hs_status body = Pending then uv_send_to prev else None),
                uv_message := (if hs_status body = Pending then uv_message prev else None)\<rparr>)"

text \<open>Timers while they are set, the answer to a poll of a generation, a commit, and the end of the component.\<close>

datatype hook_event = HTick int | HPoll | HAnswer nat hosted_status | HFail nat bool string | HCommit | HUnmount

definition hook_apply :: "hook_event \<Rightarrow> hook \<Rightarrow> hook" where
  "hook_apply e h =
     (case e of
        HTick now \<Rightarrow> if hk_counting h then h\<lparr>hk_secondsLeft := computeSecondsLeft (uv_expires_at (hk_shown h)) now\<rparr> else h
      | HPoll \<Rightarrow> if hk_polling h then h\<lparr>hk_inflight := hk_generation h # hk_inflight h\<rparr> else h
      | HAnswer g body \<Rightarrow>
          if g \<in> set (hk_inflight h) then
            (let h1 = h\<lparr>hk_inflight := remove1 g (hk_inflight h)\<rparr> in
             if g \<noteq> hk_generation h then h1 else h1\<lparr>hk_state := answered_state body (hk_state h)\<rparr>)
          else h
      | HFail g aborted m \<Rightarrow>
          if g \<in> set (hk_inflight h) then
            (let h1 = h\<lparr>hk_inflight := remove1 g (hk_inflight h)\<rparr> in
             if g \<noteq> hk_generation h \<or> aborted then h1 else h1\<lparr>hk_log := hk_log h @ [OnError m]\<rparr>)
          else h
      | HCommit \<Rightarrow> hook_commit h
      | HUnmount \<Rightarrow> h\<lparr>hk_unmounted := True, hk_generation := hk_generation h + 1, hk_polling := False, hk_counting := False\<rparr>)"

primrec hook_run :: "hook_event list \<Rightarrow> hook \<Rightarrow> hook" where
  "hook_run [] h = h"
| "hook_run (e # es) h = hook_run es (hook_apply e h)"

section \<open>One outcome\<close>

definition hook_outcomes :: "hook \<Rightarrow> ui_callback list" where
  "hook_outcomes h = filter is_outcome (hk_log h)"

definition says_failed :: "hook_event \<Rightarrow> bool" where
  "says_failed e = (case e of HAnswer _ body \<Rightarrow> hs_status body = Failed | _ \<Rightarrow> False)"

text \<open>What holds before and after a commit: \<open>hook_base\<close>; and when nothing is queued: \<open>hook_ok\<close>.\<close>

definition hook_base :: "hook \<Rightarrow> bool" where
  "hook_base h \<longleftrightarrow>
     hk_prevStatus h = uv_status (hk_shown h) \<and> uv_status (hk_shown h) \<noteq> Failed \<and>
     length (hook_outcomes h) = (if uv_status (hk_shown h) = Pending then 0 else 1) \<and>
     (\<forall>g \<in> set (hk_inflight h). g \<le> hk_generation h) \<and>
     (uv_status (hk_shown h) \<noteq> Pending \<longrightarrow> hk_state h = hk_shown h \<and> hk_generation h \<notin> set (hk_inflight h) \<and>
        \<not> hk_polling h \<and> \<not> hk_counting h \<and> uv_send_to (hk_shown h) = None \<and> uv_message (hk_shown h) = None)"

definition queued_ok :: "hook \<Rightarrow> bool" where
  "queued_ok h \<longleftrightarrow> uv_status (hk_state h) \<noteq> Failed \<and>
     (uv_status (hk_state h) \<noteq> Pending \<longrightarrow> uv_send_to (hk_state h) = None \<and> uv_message (hk_state h) = None)"

lemma expire_locally_ok:
  "hook_base h \<Longrightarrow> queued_ok h \<Longrightarrow> hook_base (expire_locally h) \<and> queued_ok (expire_locally h)"
  by (auto simp: hook_base_def queued_ok_def expire_locally_def hook_outcomes_def)

lemma length_left_pending:
  "uv_status next \<noteq> Failed \<Longrightarrow>
   length (filter is_outcome (left_pending prev next)) = (if prev = Pending \<and> uv_status next \<noteq> Pending then 1 else 0)"
  by (cases "uv_status next") (auto simp: left_pending_def is_outcome_def)

lemma committed_ok:
  assumes "hook_base h" and "queued_ok h"
  shows "hook_base (committed h) \<and> queued_ok (committed h)"
proof -
  have "length (hook_outcomes (committed h)) = (if uv_status (hk_state h) = Pending then 0 else 1)"
    using assms length_left_pending [of "hk_state h" "hk_prevStatus h"]
    by (auto simp: hook_base_def queued_ok_def hook_outcomes_def committed_def poll_effect_def Let_def)
  then show ?thesis
    using assms by (auto simp: hook_base_def queued_ok_def committed_def poll_effect_def isTerminal_def Let_def)
qed

lemma hook_commit_ok: "hook_base h \<Longrightarrow> queued_ok h \<Longrightarrow> hook_base (hook_commit h) \<and> queued_ok (hook_commit h)"
  using committed_ok expire_locally_ok [of "committed h"] by (simp add: hook_commit_def)

lemma answered_ok:
  assumes "uv_status v \<noteq> Failed" and "hs_status body \<noteq> Failed"
    and "uv_status v \<noteq> Pending \<longrightarrow> uv_send_to v = None \<and> uv_message v = None"
  shows "uv_status (answered_state body v) \<noteq> Failed \<and>
    (uv_status (answered_state body v) \<noteq> Pending \<longrightarrow> uv_send_to (answered_state body v) = None \<and> uv_message (answered_state body v) = None)"
  using assms by (simp add: answered_state_def)

lemma hook_apply_ok:
  assumes "hook_base h" and "queued_ok h" and "\<not> says_failed e"
  shows "hook_base (hook_apply e h) \<and> queued_ok (hook_apply e h)"
proof (cases e)
  case (HAnswer g body)
  have sub: "\<forall>x \<in> set (remove1 g (hk_inflight h)). x \<in> set (hk_inflight h)" using set_remove1_subset by fast
  have q: "queued_ok (hook_apply e h)"
    using assms(2,3) answered_ok [of "hk_state h" body] by (simp add: HAnswer hook_apply_def queued_ok_def says_failed_def Let_def)
  have "hook_base (hook_apply e h)"
    using assms(1) sub by (auto simp: HAnswer hook_apply_def hook_base_def hook_outcomes_def Let_def)
  with q show ?thesis by simp
next
  case (HFail g aborted m)
  have "\<forall>x \<in> set (remove1 g (hk_inflight h)). x \<in> set (hk_inflight h)" using set_remove1_subset by fast
  then show ?thesis
    using assms HFail by (auto simp: hook_apply_def hook_base_def queued_ok_def hook_outcomes_def is_outcome_def Let_def)
next
  case HCommit
  then show ?thesis using hook_commit_ok assms by (simp add: hook_apply_def)
qed (use assms in \<open>auto simp: hook_apply_def hook_base_def queued_ok_def hook_outcomes_def\<close>)

lemma hook_mount_ok: "uv_status v = Pending \<Longrightarrow> hook_base (hook_mount v now) \<and> queued_ok (hook_mount v now)"
  unfolding hook_mount_def Let_def
  by (rule expire_locally_ok) (simp_all add: hook_base_def queued_ok_def hook_outcomes_def poll_effect_def isTerminal_def Let_def)

lemma hook_run_ok:
  "hook_base h \<Longrightarrow> queued_ok h \<Longrightarrow> list_all (\<lambda>e. \<not> says_failed e) es \<Longrightarrow> hook_base (hook_run es h) \<and> queued_ok (hook_run es h)"
  by (induction es arbitrary: h) (auto dest: hook_apply_ok)

lemma shown_kept:
  assumes "hook_base h" and "uv_status (hk_shown h) \<noteq> Pending"
  shows "hk_shown (hook_apply e h) = hk_shown h"
  using assms by (auto simp: hook_apply_def hook_base_def hook_commit_def committed_def expire_locally_def Let_def split: hook_event.splits)

lemma shown_absorbing:
  "hook_base h \<Longrightarrow> queued_ok h \<Longrightarrow> uv_status (hk_shown h) \<noteq> Pending \<Longrightarrow> list_all (\<lambda>e. \<not> says_failed e) es \<Longrightarrow> hk_shown (hook_run es h) = hk_shown h"
proof (induction es arbitrary: h)
  case (Cons e es)
  then have "hook_base (hook_apply e h) \<and> queued_ok (hook_apply e h)" by (simp add: hook_apply_ok)
  then show ?case using Cons shown_kept [of h e] by simp
qed simp

lemma hook_run_append: "hook_run (es @ fs) h = hook_run fs (hook_run es h)"
  by (induction es arbitrary: h) auto



end
