(* ===== verification/Smoke.thy ===== *)
theory Smoke
  imports CliCommands
begin

text \<open>
  The smoke script \<open>scripts/smoke.mjs\<close>: the whole protocol from outside, as a program over the answers of
  a server. A server is what it answers to a call after the calls before; \<open>None\<close> is a request that fails.
\<close>

section \<open>Calls\<close>

datatype smoke_call =
    SmokeHealth
  | SmokeHeartbeat string "(string \<times> string) list" string
  | SmokeBind string string
  | SmokeSms "(string \<times> string) list" string
  | SmokeStart string string
  | SmokeRead string string

type_synonym smoke_server = "smoke_call list \<Rightarrow> smoke_call \<Rightarrow> (int \<times> json) option"

definition SMOKE_REQUIRED :: "string list" where
  "SMOKE_REQUIRED = [''SYROTP_BASE_URL'', ''SYROTP_PUBLIC_KEY'', ''SYROTP_SECRET_KEY'', ''SYROTP_RECEIVER_ID'', ''SYROTP_GATEWAY_KEY'', ''SYROTP_PHONE'']"

text \<open>The clock, its ISO form, and the random bytes of a signed request and of its idempotency key.\<close>

record smoke_draws =
  sm_now :: int
  sm_iso :: string
  sm_nonce :: string
  sm_key :: string

definition smoke_sign :: "crypto_env \<Rightarrow> string \<Rightarrow> string \<Rightarrow> string \<Rightarrow> smoke_draws \<Rightarrow> (string \<times> string) list" where
  "smoke_sign ce receiverId key rawBody d =
     (let ts = show_int (sm_now d div 1000); nonce = to_hex (sm_nonce d);
          sig = ce_hmac ce key (ts @ ''.'' @ nonce @ ''.'' @ ce_sha256 ce rawBody)
      in [(''X-SYROTP-Receiver'', receiverId), (''X-SYROTP-Timestamp'', ts), (''X-SYROTP-Nonce'', nonce), (''X-SYROTP-Signature'', sig)])"

definition smoke_e164 :: "string \<Rightarrow> string" where
  "smoke_e164 phone =
     (if starts_with phone ''+'' then phone
      else if starts_with phone ''0'' then ''+963'' @ drop 1 phone else ''+'' @ phone)"

definition text_of :: "string \<Rightarrow> json \<Rightarrow> string option" where
  "text_of k j = (case field k (Some j) of Some (JStr s) \<Rightarrow> Some s | _ \<Rightarrow> None)"

text \<open>The script ends with exit code 1 when a check fails, and so it does when a request or the reading of an answer throws.\<close>

definition ask :: "smoke_server \<Rightarrow> smoke_call list \<Rightarrow> smoke_call \<Rightarrow> (int \<Rightarrow> json \<Rightarrow> smoke_call list \<Rightarrow> int) \<Rightarrow> int" where
  "ask srv hist c k = (case srv hist c of None \<Rightarrow> 1 | Some (status, j) \<Rightarrow> k status j (hist @ [c]))"

definition checked :: "bool \<Rightarrow> int \<Rightarrow> int" where
  "checked cond k = (if cond then k else 1)"

section \<open>The script\<close>

record smoke_env =
  se_env :: "string \<Rightarrow> string option"
  se_ce :: crypto_env
  se_draws :: "nat \<Rightarrow> smoke_draws"

definition se_var :: "smoke_env \<Rightarrow> string \<Rightarrow> string" where
  "se_var e k = the (se_env e k)"

definition smoke_signed :: "smoke_env \<Rightarrow> nat \<Rightarrow> string \<Rightarrow> (string \<times> string) list" where
  "smoke_signed e i body = smoke_sign (se_ce e) (se_var e ''SYROTP_RECEIVER_ID'') (se_var e ''SYROTP_GATEWAY_KEY'') body (se_draws e i)"

text \<open>Up to five reads; the pauses between them are not modelled.\<close>

primrec smoke_poll :: "nat \<Rightarrow> smoke_env \<Rightarrow> smoke_server \<Rightarrow> string \<Rightarrow> smoke_call list \<Rightarrow> int" where
  "smoke_poll 0 e srv i hist = 1"
| "smoke_poll (Suc n) e srv i hist =
     ask srv hist (SmokeRead (se_var e ''SYROTP_SECRET_KEY'') i) (\<lambda>status j hist'.
       checked (status = 200) (if text_of ''status'' j = Some ''verified'' then 0 else smoke_poll n e srv i hist'))"

definition smoke_sms :: "smoke_env \<Rightarrow> smoke_server \<Rightarrow> string \<Rightarrow> string \<Rightarrow> string \<Rightarrow> smoke_call list \<Rightarrow> int" where
  "smoke_sms e srv i message sendTo hist =
     (let d = se_draws e 2;
          body = stringify [(''from'', smoke_e164 (se_var e ''SYROTP_PHONE'')), (''to'', sendTo), (''body'', message), (''received_at'', sm_iso d),
            (''idempotency_key'', ''smoke_'' @ to_hex (sm_key d))]
      in ask srv hist (SmokeSms (smoke_signed e 2 body) body) (\<lambda>status j hist1.
           checked (status = 202 \<and> field ''matched'' (Some j) = Some (JBool True)) (smoke_poll 5 e srv i hist1)))"

definition smoke_verify :: "smoke_env \<Rightarrow> smoke_server \<Rightarrow> smoke_call list \<Rightarrow> int" where
  "smoke_verify e srv hist =
     ask srv hist (SmokeStart (se_var e ''SYROTP_PUBLIC_KEY'') (stringify [(''phone'', se_var e ''SYROTP_PHONE''), (''purpose'', ''smoke'')])) (\<lambda>status j hist1.
       checked (status = 201) (
       case (text_of ''message'' j, text_of ''send_to'' j) of
         (Some message, Some sendTo) \<Rightarrow>
           checked (starts_with message ''VERIFY '')
             (smoke_sms e srv (case text_of ''id'' j of Some i \<Rightarrow> i | None \<Rightarrow> ''undefined'') message sendTo hist1)
       | _ \<Rightarrow> 1))"

definition smoke_bind :: "smoke_env \<Rightarrow> smoke_server \<Rightarrow> smoke_call list \<Rightarrow> int" where
  "smoke_bind e srv hist =
     (let phone = se_var e ''SYROTP_PHONE''; d = se_draws e 1 in
      ask srv hist (SmokeBind (se_var e ''SYROTP_SECRET_KEY'') (stringify [(''phone'', phone), (''receiver_id'', se_var e ''SYROTP_RECEIVER_ID'')])) (\<lambda>status j hist1.
        if status = 409 \<and> field ''code'' (field ''error'' (Some j)) = Some (JStr ''already_bound'') then smoke_verify e srv hist1
        else checked (status = 201) (
          case text_of ''bind_message'' j of
            None \<Rightarrow> 1
          | Some bindMsg \<Rightarrow>
            checked (starts_with bindMsg ''BIND '') (
            let body = stringify [(''from'', smoke_e164 phone), (''to'', smoke_e164 phone), (''body'', bindMsg), (''received_at'', sm_iso d),
                  (''idempotency_key'', ''smoke_bind_'' @ to_hex (sm_key d))]
            in ask srv hist1 (SmokeSms (smoke_signed e 1 body) body) (\<lambda>status2 j2 hist2.
              checked (status2 = 202 \<and> field ''matched'' (Some j2) = Some (JBool True)) (smoke_verify e srv hist2))))))"

definition smoke_script :: "smoke_env \<Rightarrow> smoke_server \<Rightarrow> int" where
  "smoke_script e srv =
     (if list_ex (\<lambda>k. \<not> truthy (se_env e k)) SMOKE_REQUIRED then 2
      else ask srv [] SmokeHealth (\<lambda>status j hist1.
        checked (status = 200 \<and> text_of ''status'' j = Some ''ok'') (
          let body = stringify [(''received_at'', sm_iso (se_draws e 0))] in
          ask srv hist1 (SmokeHeartbeat (se_var e ''SYROTP_RECEIVER_ID'') (smoke_signed e 0 body) body) (\<lambda>status2 j2 hist2.
            checked (status2 = 200) (smoke_bind e srv hist2)))))"

section \<open>What its exit code says\<close>

definition answers :: "smoke_server \<Rightarrow> (smoke_call \<Rightarrow> int \<Rightarrow> json \<Rightarrow> bool) \<Rightarrow> bool" where
  "answers srv P \<longleftrightarrow> (\<exists>hist c status j. srv hist c = Some (status, j) \<and> P c status j)"

lemma ask_zero: "ask srv hist c k = 0 \<longleftrightarrow> (\<exists>status j. srv hist c = Some (status, j) \<and> k status j (hist @ [c]) = 0)"
  by (auto simp: ask_def split: option.splits)

lemma checked_zero: "checked b k = 0 \<longleftrightarrow> b \<and> k = 0"
  by (simp add: checked_def)

lemma smoke_poll_zero:
  "smoke_poll n e srv i hist = 0 \<Longrightarrow>
   answers srv (\<lambda>c status j. c = SmokeRead (se_var e ''SYROTP_SECRET_KEY'') i \<and> status = 200 \<and> text_of ''status'' j = Some ''verified'')"
  by (induction n arbitrary: hist) (auto simp: ask_zero checked_zero answers_def split: if_splits)

lemma smoke_sms_zero:
  "smoke_sms e srv i message sendTo hist = 0 \<Longrightarrow>
   answers srv (\<lambda>c status j. c = SmokeRead (se_var e ''SYROTP_SECRET_KEY'') i \<and> status = 200 \<and> text_of ''status'' j = Some ''verified'') \<and>
   answers srv (\<lambda>c status j. (\<exists>body. c = SmokeSms (smoke_signed e 2 body) body) \<and> status = 202 \<and> field ''matched'' (Some j) = Some (JBool True))"
  using smoke_poll_zero [of 5 e srv i]
  by (fastforce simp: smoke_sms_def ask_zero checked_zero Let_def answers_def simp del: smoke_poll.simps)

lemma smoke_verify_zero: "smoke_verify e srv hist = 0 \<Longrightarrow> \<exists>i message sendTo hist1. smoke_sms e srv i message sendTo hist1 = 0"
  unfolding smoke_verify_def ask_zero checked_zero by (fastforce simp: checked_zero split: option.splits)

text \<open>The script passes only against a server that said a signed SMS matched and the verification it had started is verified.\<close>

lemma smoke_pass_verified:
  assumes "smoke_script e srv = 0"
  shows "\<exists>i. answers srv (\<lambda>c status j. c = SmokeRead (se_var e ''SYROTP_SECRET_KEY'') i \<and> status = 200 \<and> text_of ''status'' j = Some ''verified'') \<and>
     answers srv (\<lambda>c status j. (\<exists>body. c = SmokeSms (smoke_signed e 2 body) body) \<and> status = 202 \<and> field ''matched'' (Some j) = Some (JBool True))"
proof -
  have "\<exists>hist. smoke_verify e srv hist = 0"
    using assms by (auto simp: smoke_script_def smoke_bind_def ask_zero checked_zero Let_def split: if_splits option.splits)
  then show ?thesis using smoke_verify_zero smoke_sms_zero by blast
qed

lemma smoke_poll_codes: "smoke_poll n e srv i hist \<in> {0, 1}"
  by (induction n arbitrary: hist) (auto simp: ask_def checked_def split: option.splits)

text \<open>An unreachable server ends the script with exit code 1, never with the 3 its caller waits for.\<close>

lemma smoke_exit_codes: "smoke_script e srv \<in> {0, 1, 2}"
proof -
  have "smoke_sms e srv i m s hist \<in> {0, 1}" for i m s hist
    using smoke_poll_codes by (auto simp: smoke_sms_def ask_def checked_def Let_def split: option.splits simp del: smoke_poll.simps)
  then have "smoke_verify e srv hist \<in> {0, 1}" for hist
    by (auto simp: smoke_verify_def ask_def checked_def split: option.splits)
  then have "smoke_bind e srv hist \<in> {0, 1}" for hist
    by (auto simp: smoke_bind_def ask_def checked_def Let_def split: option.splits)
  then show ?thesis by (auto simp: smoke_script_def ask_def checked_def Let_def split: option.splits)
qed

end
