(* ===== verification/Registry.thy ===== *)
theory Registry
  imports Webhooks Hmac
begin

text \<open>
  The metric families of \<open>apps/server/src/services/metrics.ts\<close> with their declared labels, and what every
  hook does to them. Prom-client throws on a label that was not declared; the duration that a histogram observes
  and the help texts are not modelled.
\<close>

section \<open>Families\<close>

datatype family_kind = Counter | Gauge | Histogram "rat list"

record family =
  fa_name :: string
  fa_kind :: family_kind
  fa_labels :: "string list"

definition family :: "string \<Rightarrow> family_kind \<Rightarrow> string list \<Rightarrow> family" where
  "family name kind labels = \<lparr>fa_name = ''syrotp_'' @ name, fa_kind = kind, fa_labels = labels\<rparr>"

definition REQUEST_BUCKETS :: "rat list" where
  "REQUEST_BUCKETS = [1 / 100, 25 / 1000, 5 / 100, 1 / 10, 2 / 10, 4 / 10, 8 / 10, 16 / 10, 32 / 10]"

definition DELIVERY_BUCKETS :: "rat list" where
  "DELIVERY_BUCKETS = [5 / 100, 1 / 10, 2 / 10, 5 / 10, 1, 2, 5, 10]"

definition FAMILIES :: "family list" where
  "FAMILIES =
     [family ''verifications_started_total'' Counter [''app_id''],
      family ''verifications_terminal_total'' Counter [''app_id'', ''status''],
      family ''verification_start_duration_seconds'' (Histogram REQUEST_BUCKETS) [''status''],
      family ''inbound_received_total'' Counter [''receiver_id'', ''matched'', ''reason''],
      family ''inbound_match_duration_seconds'' (Histogram REQUEST_BUCKETS) [''matched''],
      family ''hmac_rejected_total'' Counter [''reason''],
      family ''api_key_rejected_total'' Counter [''reason''],
      family ''rate_limited_total'' Counter [''bucket''],
      family ''receivers_total'' Gauge [''enabled''],
      family ''receivers_healthy_total'' Gauge [],
      family ''receiver_heartbeat_age_seconds'' Gauge [''receiver_id''],
      family ''receiver_heartbeat_db_updates_total'' Counter [''outcome''],
      family ''abuse_failed_verification_rate'' Gauge [],
      family ''abuse_unmatched_inbound_rate'' Gauge [],
      family ''abuse_binding_failure_rate'' Gauge [],
      family ''abuse_min_app_health_score'' Gauge [],
      family ''matching_invariant_violations_total'' Counter [],
      family ''verification_code_collisions_total'' Counter [''outcome''],
      family ''receiver_selected_total'' Counter [''match''],
      family ''webhook_events_total'' Counter [''event_type''],
      family ''webhook_deliveries_total'' Counter [''status''],
      family ''webhook_delivery_failures_total'' Counter [''reason''],
      family ''webhook_delivery_duration_seconds'' (Histogram DELIVERY_BUCKETS) [''status'']]"

section \<open>Label values\<close>

definition bool_label :: "bool \<Rightarrow> string" where
  "bool_label b = (if b then ''true'' else ''false'')"

definition terminal_label :: "verification_status \<Rightarrow> string" where
  "terminal_label s = (case s of Pending \<Rightarrow> ''pending'' | Verified \<Rightarrow> ''verified'' | Expired \<Rightarrow> ''expired'' | Cancelled \<Rightarrow> ''cancelled'' | Failed \<Rightarrow> ''failed'')"

definition class_label :: "latency_class \<Rightarrow> string" where
  "class_label c = (case c of L_2xx \<Rightarrow> ''2xx'' | L_4xx \<Rightarrow> ''4xx'' | L_5xx \<Rightarrow> ''5xx'' | L_network \<Rightarrow> ''network'' | L_timeout \<Rightarrow> ''timeout'' | L_other \<Rightarrow> ''other'')"

definition inbound_label :: "inbound_reason \<Rightarrow> string" where
  "inbound_label r = (case r of R_matched \<Rightarrow> ''matched'' | R_no_match \<Rightarrow> ''no_match'' | R_duplicate \<Rightarrow> ''duplicate'' | R_expired \<Rightarrow> ''expired'')"

definition key_label :: "key_reject \<Rightarrow> string" where
  "key_label r = (case r of K_missing \<Rightarrow> ''missing'' | K_malformed \<Rightarrow> ''malformed'' | K_unknown \<Rightarrow> ''unknown'' | K_revoked \<Rightarrow> ''revoked''
     | K_wrong_kind \<Rightarrow> ''wrong_kind'' | K_app_disabled \<Rightarrow> ''app_disabled'')"

definition bucket_label :: "start_bucket \<Rightarrow> string" where
  "bucket_label b =
     (case b of B_start \<Rightarrow> ''start'' | B_status \<Rightarrow> ''status'' | B_inbound \<Rightarrow> ''inbound''
      | B_verification_start_per_app \<Rightarrow> ''verification_start_per_app'' | B_inbound_sms_per_app \<Rightarrow> ''inbound_sms_per_app''
      | B_phone_binding_start_per_app \<Rightarrow> ''phone_binding_start_per_app'' | B_inbound_per_ip \<Rightarrow> ''inbound_per_ip''
      | B_heartbeat_per_ip \<Rightarrow> ''heartbeat_per_ip'' | B_heartbeat_per_receiver \<Rightarrow> ''heartbeat_per_receiver''
      | B_verification_cancel_per_app \<Rightarrow> ''verification_cancel_per_app'' | B_webhook_crud_per_app \<Rightarrow> ''webhook_crud_per_app''
      | B_phone_binding_read_per_app \<Rightarrow> ''phone_binding_read_per_app'' | B_phone_binding_revoke_per_app \<Rightarrow> ''phone_binding_revoke_per_app''
      | B_webauthn_per_app \<Rightarrow> ''webauthn_per_app'')"

definition match_label :: "receiver_match \<Rightarrow> string" where
  "match_label m = (case m of M_preferred \<Rightarrow> ''preferred'' | M_fallback \<Rightarrow> ''fallback'' | M_none \<Rightarrow> ''none'')"

definition collision_label :: "collision_outcome \<Rightarrow> string" where
  "collision_label c = (case c of C_retried \<Rightarrow> ''retried'' | C_exhausted \<Rightarrow> ''exhausted'')"

definition delivery_label :: "delivery_terminal \<Rightarrow> string" where
  "delivery_label t = (case t of T_delivered \<Rightarrow> ''delivered'' | T_failed \<Rightarrow> ''failed'' | T_abandoned \<Rightarrow> ''abandoned'' | T_retried \<Rightarrow> ''retried'')"

definition failure_label :: "fail_reason \<Rightarrow> string" where
  "failure_label r =
     (case r of F_network_error \<Rightarrow> ''network_error'' | F_timeout \<Rightarrow> ''timeout'' | F_client_4xx \<Rightarrow> ''client_4xx'' | F_server_5xx \<Rightarrow> ''server_5xx''
      | F_rate_limited \<Rightarrow> ''rate_limited'' | F_endpoint_disabled \<Rightarrow> ''endpoint_disabled'' | F_bad_response \<Rightarrow> ''bad_response'')"

section \<open>What a hook does\<close>

type_synonym labels = "(string \<times> string) list"

datatype registry_op = Inc string labels | Observe string labels | Set_to string labels rat | Reset string

definition hook_ops :: "metric \<Rightarrow> registry_op list" where
  "hook_ops m =
     (case m of
        VerificationStarted a \<Rightarrow> [Inc ''verifications_started_total'' [(''app_id'', a)]]
      | VerificationTerminal a s \<Rightarrow> [Inc ''verifications_terminal_total'' [(''app_id'', a), (''status'', terminal_label s)]]
      | VerificationStartObserved c \<Rightarrow> [Observe ''verification_start_duration_seconds'' [(''status'', class_label c)]]
      | InboundReceived r b reason \<Rightarrow>
          [Inc ''inbound_received_total'' [(''receiver_id'', r), (''matched'', bool_label b), (''reason'', inbound_label reason)]]
      | InboundMatchObserved b \<Rightarrow> [Observe ''inbound_match_duration_seconds'' [(''matched'', bool_label b)]]
      | HmacRejected reason \<Rightarrow> [Inc ''hmac_rejected_total'' [(''reason'', reason)]]
      | ApiKeyRejected reason \<Rightarrow> [Inc ''api_key_rejected_total'' [(''reason'', key_label reason)]]
      | RateLimited b \<Rightarrow> [Inc ''rate_limited_total'' [(''bucket'', bucket_label b)]]
      | HeartbeatDbUpdate applied \<Rightarrow>
          [Inc ''receiver_heartbeat_db_updates_total'' [(''outcome'', if applied then ''applied'' else ''skipped'')]]
      | ReceiverSelected x \<Rightarrow> [Inc ''receiver_selected_total'' [(''match'', match_label x)]]
      | MatchingInvariantViolated \<Rightarrow> [Inc ''matching_invariant_violations_total'' []]
      | VerificationCodeCollision c \<Rightarrow> [Inc ''verification_code_collisions_total'' [(''outcome'', collision_label c)]]
      | SetAbuseSignals g \<Rightarrow>
          [Set_to ''abuse_failed_verification_rate'' [] (ag_failed_verification_rate g), Set_to ''abuse_unmatched_inbound_rate'' [] (ag_unmatched_inbound_rate g),
           Set_to ''abuse_binding_failure_rate'' [] (ag_binding_failure_rate g), Set_to ''abuse_min_app_health_score'' [] (of_int (ag_min_app_health_score g))]
      | WebhookEventEmitted t \<Rightarrow> [Inc ''webhook_events_total'' [(''event_type'', event_name t)]]
      | WebhookDeliveryTerminal t \<Rightarrow> [Inc ''webhook_deliveries_total'' [(''status'', delivery_label t)]]
      | WebhookDeliveryFailure r \<Rightarrow> [Inc ''webhook_delivery_failures_total'' [(''reason'', failure_label r)]]
      | WebhookDeliveryObserved c \<Rightarrow> [Observe ''webhook_delivery_duration_seconds'' [(''status'', class_label c)]]
      | SetReceiverGauges g \<Rightarrow>
          [Set_to ''receivers_total'' [(''enabled'', ''true'')] (of_nat (rg_enabledTotal g)), Set_to ''receivers_total'' [(''enabled'', ''false'')] (of_nat (rg_disabledTotal g)),
           Set_to ''receivers_healthy_total'' [] (of_nat (rg_healthyTotal g)), Reset ''receiver_heartbeat_age_seconds''] @
          map (\<lambda>(r, age). Set_to ''receiver_heartbeat_age_seconds'' [(''receiver_id'', r)] (of_int age)) (rg_perReceiverHeartbeatAge g))"

section \<open>Every hook fits its family\<close>

definition family_of :: "string \<Rightarrow> family option" where
  "family_of name = find (\<lambda>f. fa_name f = ''syrotp_'' @ name) FAMILIES"

definition op_declared :: "registry_op \<Rightarrow> bool" where
  "op_declared x =
     (case x of
        Inc name ls \<Rightarrow> (case family_of name of Some f \<Rightarrow> fa_kind f = Counter \<and> fa_labels f = map fst ls | None \<Rightarrow> False)
      | Observe name ls \<Rightarrow> (case family_of name of Some f \<Rightarrow> fa_kind f \<notin> {Counter, Gauge} \<and> fa_labels f = map fst ls | None \<Rightarrow> False)
      | Set_to name ls _ \<Rightarrow> (case family_of name of Some f \<Rightarrow> fa_kind f = Gauge \<and> fa_labels f = map fst ls | None \<Rightarrow> False)
      | Reset name \<Rightarrow> (case family_of name of Some f \<Rightarrow> fa_kind f = Gauge | None \<Rightarrow> False))"

lemma families_distinct: "distinct (map fa_name FAMILIES)"
  by code_simp

text \<open>No hook uses a family that is missing or of another kind, or a label that was not declared.\<close>

lemma hooks_declared: "list_all op_declared (hook_ops m)"
  by (cases m) (auto simp: hook_ops_def op_declared_def family_of_def FAMILIES_def family_def list_all_iff)

text \<open>The reasons a rejected gateway request is counted under: the nine of the comment.\<close>

lemma hmac_reasons:
  assumes "fst (verifyGatewayHmac cfg ce now inp w) = Inl reason"
  shows "reason \<in> {''bad_receiver_id'', ''bad_nonce'', ''bad_signature_format'', ''bad_timestamp'', ''timestamp_skew'', ''unknown_receiver'',
     ''key_unavailable'', ''bad_signature'', ''replay''}"
  using assms by (auto simp: verifyGatewayHmac_def Let_def split: if_splits option.splits sum.splits prod.splits)

end
