(* ===== verification/Migrate.thy ===== *)
theory Migrate
  imports Crypto Outbox "HOL-Library.Word" "HOL-Library.List_Lexorder" "HOL-Library.Char_ord"
begin

text \<open>
  The migration runner, \<open>db/migrate.ts\<close>. What the statements of a file do to the rest of the database is
  the parameter \<open>execute\<close>, \<open>None\<close> where a statement fails; the directory is a list of names and a
  reading function. Several runners may work on one database at a time, one process each: every
  query and every transaction is one step.
\<close>

section \<open>The checksum\<close>

definition fnv_step :: "32 word \<Rightarrow> char \<Rightarrow> 32 word" where
  "fnv_step h c = xor h (word_of_nat (code_unit c)) * 0x01000193"

definition fnv :: "string \<Rightarrow> 32 word" where
  "fnv s = foldl fnv_step 0x811c9dc5 s"

text \<open>\<open>Number.prototype.toString(16)\<close>.\<close>

fun show_hex :: "nat \<Rightarrow> string" where
  "show_hex n = (if n < 16 then [hex_digit n] else show_hex (n div 16) @ [hex_digit (n mod 16)])"

declare show_hex.simps [simp del]

definition simpleHash :: "string \<Rightarrow> string" where
  "simpleHash s = show_hex (unat (fnv s))"

section \<open>One file\<close>

record 'd migrated =
  mg_log :: "(string \<times> string) list"
  mg_data :: 'd

definition mg_names :: "'d migrated \<Rightarrow> string list" where
  "mg_names m = map fst (mg_log m)"

text \<open>The transaction: the statements of the file, then the row, whose name is the primary key.\<close>

definition mg_apply :: "(string \<Rightarrow> 'd \<Rightarrow> 'd option) \<Rightarrow> string \<Rightarrow> string \<Rightarrow> 'd migrated \<Rightarrow> exn + 'd migrated" where
  "mg_apply execute file body m =
     (case execute body (mg_data m) of
        None \<Rightarrow> Inl (JsError ''statement failed'')
      | Some d \<Rightarrow>
        if file \<in> set (mg_names m) then Inl (UniqueViolation ''_syrotp_migrations_pkey'')
        else Inr \<lparr>mg_log = mg_log m @ [(file, simpleHash body)], mg_data = d\<rparr>)"

section \<open>One run\<close>

definition migration_files :: "string list \<Rightarrow> string list" where
  "migration_files dir = sort (filter (\<lambda>f. ends_with f ''.sql'') dir)"

fun migrate_loop :: "(string \<Rightarrow> 'd \<Rightarrow> 'd option) \<Rightarrow> (string \<Rightarrow> string option) \<Rightarrow> string list \<Rightarrow> 'd migrated \<Rightarrow> (exn + unit) \<times> string list \<times> 'd migrated" where
  "migrate_loop execute readFile [] m = (Inr (), [''[migrate] done''], m)"
| "migrate_loop execute readFile (file # files) m =
     (if file \<in> set (mg_names m) then
        (case migrate_loop execute readFile files m of (r, out, m') \<Rightarrow> (r, (''[migrate] skip '' @ file @ '' (already applied)'') # out, m'))
      else case readFile file of
        None \<Rightarrow> (Inl (JsError ''ENOENT''), [], m)
      | Some body \<Rightarrow>
        (case mg_apply execute file body m of
           Inl e \<Rightarrow> (Inl e, [], m)
         | Inr m1 \<Rightarrow>
           (case migrate_loop execute readFile files m1 of (r, out, m') \<Rightarrow> (r, (''[migrate] applied '' @ file) # out, m'))))"

text \<open>The exit code of the process; the table is created first if it is missing.\<close>

definition migrate_main :: "(string \<Rightarrow> 'd \<Rightarrow> 'd option) \<Rightarrow> (string \<Rightarrow> string option) \<Rightarrow> string list \<Rightarrow> 'd migrated \<Rightarrow> int \<times> string list \<times> 'd migrated" where
  "migrate_main execute readFile dir m =
     (case migrate_loop execute readFile (migration_files dir) m of
        (Inl e, out, m') \<Rightarrow> (1, out, m')
      | (Inr _, out, m') \<Rightarrow> (0, out, m'))"

section \<open>Several runs at once\<close>

datatype mg_runner =
    Looking "string list"
  | Applying string "string list"
  | Migrated
  | Broken

type_synonym 'd mg_system = "'d migrated \<times> mg_runner list"

text \<open>
  A runner looks a file up, and applies it when it was not there at that moment; it may also die at any time.
  A transaction that fails, be it for the primary key, rolls back and ends the process.
\<close>

inductive mg_step :: "(string \<Rightarrow> 'd \<Rightarrow> 'd option) \<Rightarrow> (string \<Rightarrow> string option) \<Rightarrow> string list \<Rightarrow> 'd mg_system \<Rightarrow> 'd mg_system \<Rightarrow> bool"
  for execute readFile dir where
  launch: "mg_step execute readFile dir (m, rs) (m, rs @ [Looking (migration_files dir)])"
| skip: "i < length rs \<Longrightarrow> rs ! i = Looking (f # fs) \<Longrightarrow> f \<in> set (mg_names m) \<Longrightarrow>
     mg_step execute readFile dir (m, rs) (m, rs[i := Looking fs])"
| choose: "i < length rs \<Longrightarrow> rs ! i = Looking (f # fs) \<Longrightarrow> f \<notin> set (mg_names m) \<Longrightarrow>
     mg_step execute readFile dir (m, rs) (m, rs[i := Applying f fs])"
| commit: "i < length rs \<Longrightarrow> rs ! i = Applying f fs \<Longrightarrow> readFile f = Some body \<Longrightarrow> mg_apply execute f body m = Inr m' \<Longrightarrow>
     mg_step execute readFile dir (m, rs) (m', rs[i := Looking fs])"
| finish: "i < length rs \<Longrightarrow> rs ! i = Looking [] \<Longrightarrow> mg_step execute readFile dir (m, rs) (m, rs[i := Migrated])"
| die: "i < length rs \<Longrightarrow> mg_step execute readFile dir (m, rs) (m, rs[i := Broken])"

inductive mg_reach :: "(string \<Rightarrow> 'd \<Rightarrow> 'd option) \<Rightarrow> (string \<Rightarrow> string option) \<Rightarrow> string list \<Rightarrow> 'd \<Rightarrow> 'd mg_system \<Rightarrow> bool"
  for execute readFile dir d0 where
  fresh: "mg_reach execute readFile dir d0 (\<lparr>mg_log = [], mg_data = d0\<rparr>, [])"
| more: "mg_reach execute readFile dir d0 s \<Longrightarrow> mg_step execute readFile dir s s' \<Longrightarrow> mg_reach execute readFile dir d0 s'"

section \<open>The checksum tells a changed character\<close>

lemma fnv_prime_cancel: "x * 0x01000193 = y * 0x01000193 \<longleftrightarrow> x = y" for x y :: "32 word"
proof -
  have inv: "0x01000193 * 0x359c449b = (1 :: 32 word)" by (simp add: word_unat_eq_iff)
  have "x = y" if "x * 0x01000193 = y * 0x01000193"
  proof -
    have "x * (0x01000193 * 0x359c449b) = y * (0x01000193 * 0x359c449b)"
      using arg_cong [OF that, of "\<lambda>z. z * 0x359c449b"] by (simp only: mult.assoc)
    then show ?thesis by (simp only: inv mult_1_right)
  qed
  then show ?thesis by blast
qed

lemma fnv_step_inj: "fnv_step h c = fnv_step h' c \<longleftrightarrow> h = h'"
  unfolding fnv_step_def fnv_prime_cancel by (metis xor.assoc xor_self_eq xor.right_neutral)

lemma fnv_step_char: "fnv_step h a = fnv_step h b \<longleftrightarrow> a = b"
proof
  assume "fnv_step h a = fnv_step h b"
  then have "(word_of_nat (code_unit a) :: 32 word) = word_of_nat (code_unit b)"
    unfolding fnv_step_def fnv_prime_cancel by (metis xor.assoc xor_self_eq xor.left_neutral)
  then have "unat (word_of_nat (code_unit a) :: 32 word) = unat (word_of_nat (code_unit b) :: 32 word)" by simp
  then show "a = b" using code_unit_less [of a] code_unit_less [of b] by (simp add: unat_of_nat code_unit_eq_iff)
qed simp

lemma foldl_fnv_inj: "foldl fnv_step h ys = foldl fnv_step h' ys \<longleftrightarrow> h = h'"
  by (induction ys arbitrary: h h') (simp_all add: fnv_step_inj)

lemma show_hex_value: "foldl (\<lambda>n c. 16 * n + hex_val c) 0 (show_hex n) = n"
proof (induction n rule: show_hex.induct)
  case (1 n)
  then show ?case by (subst show_hex.simps) (simp add: hex_digit_props)
qed

lemma show_hex_inj: "show_hex m = show_hex n \<longleftrightarrow> m = n"
  using show_hex_value by metis

theorem checksum_tells_change: "simpleHash (xs @ a # ys) = simpleHash (xs @ b # ys) \<longleftrightarrow> a = b"
  unfolding simpleHash_def show_hex_inj word_unat_eq_iff [symmetric] by (simp add: fnv_def foldl_fnv_inj fnv_step_char)

lemma fnv_vectors: "fnv [] = 0x811c9dc5" "fnv ''a'' = 0xe40c292c" "fnv ''foobar'' = 0xbf9cf968"
  by (simp_all add: fnv_def fnv_step_def code_unit_def word_unat_eq_iff)

section \<open>Each migration once, in order\<close>

primrec mg_replay :: "(string \<Rightarrow> 'd \<Rightarrow> 'd option) \<Rightarrow> (string \<Rightarrow> string option) \<Rightarrow> string list \<Rightarrow> 'd \<Rightarrow> 'd option" where
  "mg_replay execute readFile [] d = Some d"
| "mg_replay execute readFile (f # fs) d =
     (case readFile f of None \<Rightarrow> None | Some b \<Rightarrow> (case execute b d of None \<Rightarrow> None | Some d' \<Rightarrow> mg_replay execute readFile fs d'))"

lemma mg_replay_snoc:
  "mg_replay execute readFile fs d = Some d1 \<Longrightarrow> readFile f = Some b \<Longrightarrow> execute b d1 = Some d2 \<Longrightarrow>
     mg_replay execute readFile (fs @ [f]) d = Some d2"
  by (induction fs arbitrary: d) (auto split: option.splits)

text \<open>What a runner knows: the files it has passed are recorded.\<close>

definition passed :: "string list \<Rightarrow> 'd migrated \<Rightarrow> string list \<Rightarrow> bool" where
  "passed all m rest \<longleftrightarrow> (\<exists>seen. all = seen @ rest \<and> set seen \<subseteq> set (mg_names m))"

primrec runner_ok :: "string list \<Rightarrow> 'd migrated \<Rightarrow> mg_runner \<Rightarrow> bool" where
  "runner_ok all m (Looking fs) \<longleftrightarrow> passed all m fs"
| "runner_ok all m (Applying f fs) \<longleftrightarrow> passed all m (f # fs)"
| "runner_ok all m Migrated \<longleftrightarrow> passed all m []"
| "runner_ok all m Broken \<longleftrightarrow> True"

lemma passed_skip:
  assumes "passed all m (f # fs)" and "f \<in> set (mg_names m)"
  shows "passed all m fs"
proof -
  obtain seen where "all = seen @ f # fs" "set seen \<subseteq> set (mg_names m)" using assms(1) by (auto simp: passed_def)
  then show ?thesis unfolding passed_def using assms(2) by (intro exI [of _ "seen @ [f]"]) simp
qed

lemma passed_all: "passed all m all"
  by (simp add: passed_def)

definition recorded_in_order :: "(string \<Rightarrow> 'd \<Rightarrow> 'd option) \<Rightarrow> (string \<Rightarrow> string option) \<Rightarrow> string list \<Rightarrow> 'd \<Rightarrow> 'd migrated \<Rightarrow> bool" where
  "recorded_in_order execute readFile all d0 m \<longleftrightarrow>
     mg_names m = take (length (mg_log m)) all \<and> mg_replay execute readFile (mg_names m) d0 = Some (mg_data m) \<and>
     (\<forall>(f, c) \<in> set (mg_log m). \<exists>b. readFile f = Some b \<and> c = simpleHash b)"

lemma mg_apply_Inr:
  assumes "mg_apply execute f b m = Inr m'"
  shows "execute b (mg_data m) = Some (mg_data m')" "f \<notin> set (mg_names m)" "mg_log m' = mg_log m @ [(f, simpleHash b)]"
    "mg_names m' = mg_names m @ [f]"
  using assms by (auto simp: mg_apply_def mg_names_def split: option.splits if_splits)

text \<open>A file is committed only when exactly the files before it are recorded.\<close>

lemma commit_in_order:
  assumes ok: "recorded_in_order execute readFile all d0 m" and all: "distinct all" and p: "passed all m (f # fs)"
    and b: "readFile f = Some b" and c: "mg_apply execute f b m = Inr m'"
  shows "recorded_in_order execute readFile all d0 m'" and "passed all m' fs"
proof -
  note C = mg_apply_Inr [OF c]
  let ?n = "length (mg_log m)"
  obtain before where before: "all = before @ f # fs" "set before \<subseteq> set (mg_names m)" using p by (auto simp: passed_def)
  have names: "mg_names m = take ?n all" using ok by (simp add: recorded_in_order_def)
  have len: "length (mg_names m) = ?n" by (simp add: mg_names_def)
  have "?n = length before"
  proof (rule antisym)
    show "?n \<le> length before"
    proof (rule ccontr)
      assume "\<not> ?n \<le> length before"
      then have "f \<in> set (take ?n all)" unfolding before(1) by (simp add: take_Cons')
      then show False using C(2) names by simp
    qed
    show "length before \<le> ?n"
      using before(2) all len card_mono [of "set (mg_names m)" "set before"] distinct_card [of before] card_length [of "mg_names m"]
      unfolding before(1) by simp
  qed
  then have "mg_names m' = take (length (mg_log m')) all" using C(3,4) names before(1) by simp
  then show "recorded_in_order execute readFile all d0 m'"
    using ok b C mg_replay_snoc [of execute readFile "mg_names m" d0 "mg_data m" f b] by (auto simp: recorded_in_order_def)
  show "passed all m' fs" using before C(4) by (auto simp: passed_def intro!: exI [of _ "before @ [f]"])
qed

lemma passed_grows: "passed all m fs \<Longrightarrow> set (mg_names m) \<subseteq> set (mg_names m') \<Longrightarrow> passed all m' fs"
  by (auto simp: passed_def)

lemma runner_ok_grows: "runner_ok all m r \<Longrightarrow> set (mg_names m) \<subseteq> set (mg_names m') \<Longrightarrow> runner_ok all m' r"
  by (cases r) (auto intro: passed_grows)

definition migrating_ok :: "(string \<Rightarrow> 'd \<Rightarrow> 'd option) \<Rightarrow> (string \<Rightarrow> string option) \<Rightarrow> string list \<Rightarrow> 'd \<Rightarrow> 'd mg_system \<Rightarrow> bool" where
  "migrating_ok execute readFile all d0 s \<longleftrightarrow>
     recorded_in_order execute readFile all d0 (fst s) \<and> (\<forall>r \<in> set (snd s). runner_ok all (fst s) r)"

lemma migrating_ok_at:
  assumes "migrating_ok execute readFile all d0 (m, rs)" and "i < length rs" and "rs ! i = r"
  shows "runner_ok all m r" and "recorded_in_order execute readFile all d0 m"
  using assms nth_mem [of i rs] by (simp_all add: migrating_ok_def)

lemma migrating_ok_update:
  assumes "migrating_ok execute readFile all d0 (m, rs)" and "runner_ok all m x"
  shows "migrating_ok execute readFile all d0 (m, rs[i := x])"
  using assms set_update_subset_insert [of rs i x] by (auto simp: migrating_ok_def)

lemma migrating_ok_step:
  assumes "mg_step execute readFile dir s s'" and "distinct (migration_files dir)"
    and "migrating_ok execute readFile (migration_files dir) d0 s"
  shows "migrating_ok execute readFile (migration_files dir) d0 s'"
  using assms(1)
proof (cases rule: mg_step.cases)
  case (launch m rs)
  then show ?thesis using assms(3) by (auto simp: migrating_ok_def passed_all)
next
  case (skip i rs f fs m)
  note ok = assms(3) [unfolded skip(1)]
  have "runner_ok (migration_files dir) m (Looking fs)" using migrating_ok_at(1) [OF ok skip(3,4)] skip(5) by (simp add: passed_skip)
  with ok show ?thesis unfolding skip(2) by (rule migrating_ok_update)
next
  case (choose i rs f fs m)
  note ok = assms(3) [unfolded choose(1)]
  have "runner_ok (migration_files dir) m (Applying f fs)" using migrating_ok_at(1) [OF ok choose(3,4)] by simp
  with ok show ?thesis unfolding choose(2) by (rule migrating_ok_update)
next
  case (commit i rs f fs body m m')
  note ok = assms(3) [unfolded commit(1)]
  have p: "passed (migration_files dir) m (f # fs)" using migrating_ok_at(1) [OF ok commit(3,4)] by simp
  note C = commit_in_order [OF migrating_ok_at(2) [OF ok commit(3,4)] assms(2) p commit(5,6)]
  have sub: "set (mg_names m) \<subseteq> set (mg_names m')" using mg_apply_Inr(4) [OF commit(6)] by auto
  have "\<forall>r \<in> set rs. runner_ok (migration_files dir) m' r"
    using ok runner_ok_grows [OF _ sub] by (simp add: migrating_ok_def)
  then have "migrating_ok execute readFile (migration_files dir) d0 (m', rs)" using C(1) by (simp add: migrating_ok_def)
  moreover have "runner_ok (migration_files dir) m' (Looking fs)" using C(2) by simp
  ultimately show ?thesis unfolding commit(2) by (rule migrating_ok_update)
next
  case (finish i rs m)
  note ok = assms(3) [unfolded finish(1)]
  have "runner_ok (migration_files dir) m Migrated" using migrating_ok_at(1) [OF ok finish(3,4)] by simp
  with ok show ?thesis unfolding finish(2) by (rule migrating_ok_update)
next
  case (die i rs m)
  note ok = assms(3) [unfolded die(1)]
  then show ?thesis unfolding die(2) by (rule migrating_ok_update) simp
qed

lemma distinct_files: "distinct dir \<Longrightarrow> distinct (migration_files dir)"
  by (simp add: migration_files_def)

lemma migrating_ok_reach:
  assumes "mg_reach execute readFile dir d0 s" and "distinct dir"
  shows "migrating_ok execute readFile (migration_files dir) d0 s"
  using assms(1)
proof induction
  case fresh
  then show ?case by (simp add: migrating_ok_def recorded_in_order_def mg_names_def)
next
  case (more s s')
  show ?case by (rule migrating_ok_step [OF more(2) distinct_files [OF assms(2)] more(3)])
qed

lemma all_recorded:
  assumes "recorded_in_order execute readFile all d0 m" and "distinct all" and "set all \<subseteq> set (mg_names m)"
  shows "mg_names m = all"
proof -
  have "card (set all) \<le> length (mg_names m)" using assms(3) by (meson card_length card_mono finite_set le_trans)
  then have "length all \<le> length (mg_log m)" using assms(2) by (simp add: distinct_card mg_names_def)
  then show ?thesis using assms(1) by (simp add: recorded_in_order_def)
qed

text \<open>
  C33: migrations run once and in order. However many runners work on one database at a time, and wherever they
  die, the recorded migrations are a prefix of the sorted files, each recorded with the
  checksum of its text; the data is what running exactly these files in this order makes of the
  database before the first; and once any runner has finished, that is all of them.
\<close>

theorem migrations_in_order:
  assumes "mg_reach execute readFile dir d0 (m, rs)" and "distinct dir"
  shows "map fst (mg_log m) = take (length (mg_log m)) (migration_files dir) \<and>
     mg_replay execute readFile (map fst (mg_log m)) d0 = Some (mg_data m) \<and>
     (\<forall>(f, c) \<in> set (mg_log m). \<exists>b. readFile f = Some b \<and> c = simpleHash b) \<and>
     (Migrated \<in> set rs \<longrightarrow> map fst (mg_log m) = migration_files dir)"
proof -
  note ok = migrating_ok_reach [OF assms, unfolded migrating_ok_def fst_conv snd_conv]
  have "mg_names m = migration_files dir" if "Migrated \<in> set rs"
    using all_recorded [OF _ distinct_files [OF assms(2)]] ok that by (force simp: passed_def)
  then show ?thesis using ok unfolding recorded_in_order_def mg_names_def by blast
qed

text \<open>A single process is a run of one runner, to its end or to its first failure.\<close>

lemma mg_moves:
  assumes "mg_reach execute readFile dir d0 (m, rs)" and "i < length rs"
  shows "rs ! i = Looking (f # fs) \<Longrightarrow> f \<in> set (mg_names m) \<Longrightarrow> mg_reach execute readFile dir d0 (m, rs[i := Looking fs])"
    and "rs ! i = Looking (f # fs) \<Longrightarrow> f \<notin> set (mg_names m) \<Longrightarrow> readFile f = Some b \<Longrightarrow> mg_apply execute f b m = Inr m' \<Longrightarrow>
      mg_reach execute readFile dir d0 (m', rs[i := Looking fs])"
    and "rs ! i = Looking [] \<Longrightarrow> mg_reach execute readFile dir d0 (m, rs[i := Migrated])"
    and "mg_reach execute readFile dir d0 (m, rs[i := Broken])"
proof -
  show "rs ! i = Looking (f # fs) \<Longrightarrow> f \<in> set (mg_names m) \<Longrightarrow> mg_reach execute readFile dir d0 (m, rs[i := Looking fs])"
    using mg_reach.more [OF assms(1) mg_step.skip [OF assms(2)]] .
  show "mg_reach execute readFile dir d0 (m', rs[i := Looking fs])"
    if c: "rs ! i = Looking (f # fs)" "f \<notin> set (mg_names m)" "readFile f = Some b" "mg_apply execute f b m = Inr m'"
  proof -
    have "mg_reach execute readFile dir d0 (m, rs[i := Applying f fs])"
      by (rule mg_reach.more [OF assms(1) mg_step.choose [OF assms(2) c(1,2)]])
    then have "mg_reach execute readFile dir d0 (m', (rs[i := Applying f fs])[i := Looking fs])"
      by (rule mg_reach.more) (use assms(2) c in \<open>intro mg_step.commit [where f = f], auto\<close>)
    then show ?thesis by simp
  qed
  show "rs ! i = Looking [] \<Longrightarrow> mg_reach execute readFile dir d0 (m, rs[i := Migrated])"
    using mg_reach.more [OF assms(1) mg_step.finish [OF assms(2)]] .
  show "mg_reach execute readFile dir d0 (m, rs[i := Broken])"
    by (rule mg_reach.more [OF assms(1) mg_step.die [OF assms(2)]])
qed

lemma migrate_loop_reach:
  assumes "mg_reach execute readFile dir d0 (m, rs)" and "i < length rs" and "rs ! i = Looking fs"
    and "migrate_loop execute readFile fs m = (r, out, m')"
  shows "mg_reach execute readFile dir d0 (m', rs[i := if r = Inr () then Migrated else Broken])"
  using assms
proof (induction fs arbitrary: m rs out)
  case Nil
  then show ?case using mg_moves(3) [OF Nil.prems(1,2)] by auto
next
  case (Cons f fs)
  show ?case
  proof (cases "f \<in> set (mg_names m)")
    case True
    obtain out1 where rest: "migrate_loop execute readFile fs m = (r, out1, m')" using Cons.prems(4) True by (auto split: prod.splits)
    show ?thesis
      using Cons.IH [OF mg_moves(1) [OF Cons.prems(1-3) True] _ _ rest] Cons.prems(2) by simp
  next
    case False
    show ?thesis
    proof (cases "\<exists>b m1. readFile f = Some b \<and> mg_apply execute f b m = Inr m1")
      case True
      then obtain b m1 where b: "readFile f = Some b" "mg_apply execute f b m = Inr m1" by blast
      obtain out1 where rest: "migrate_loop execute readFile fs m1 = (r, out1, m')" using Cons.prems(4) False b by (auto split: prod.splits)
      show ?thesis
        using Cons.IH [OF mg_moves(2) [OF Cons.prems(1-3) False b] _ _ rest] Cons.prems(2) by simp
    next
      case stuck: False
      then have "m' = m \<and> r \<noteq> Inr ()" using Cons.prems(4) False by (auto split: option.splits sum.splits)
      then show ?thesis using mg_moves(4) [OF Cons.prems(1,2)] by simp
    qed
  qed
qed

text \<open>A process that ends with 0 has brought the database up to date, and running it again changes nothing.\<close>

lemma migrate_loop_noop: "set fs \<subseteq> set (mg_names m) \<Longrightarrow> \<exists>out. migrate_loop execute readFile fs m = (Inr (), out, m)"
  by (induction fs) auto

lemma migrate_main_complete:
  assumes "mg_reach execute readFile dir d0 (m, rs)" and "distinct dir" and "migrate_main execute readFile dir m = (0, out, m')"
  shows "map fst (mg_log m') = migration_files dir" and "\<exists>out'. migrate_main execute readFile dir m' = (0, out', m')"
proof -
  have run: "migrate_loop execute readFile (migration_files dir) m = (Inr (), out, m')"
    using assms(3) by (auto simp: migrate_main_def split: prod.splits sum.splits)
  have "mg_reach execute readFile dir d0 (m, rs @ [Looking (migration_files dir)])"
    by (rule mg_reach.more [OF assms(1) mg_step.launch])
  then have "mg_reach execute readFile dir d0 (m', rs @ [Migrated])"
    using migrate_loop_reach [where i = "length rs", OF _ _ _ run] by fastforce
  from migrating_ok_reach [OF this assms(2)]
  have ok: "recorded_in_order execute readFile (migration_files dir) d0 m'" and all: "set (migration_files dir) \<subseteq> set (mg_names m')"
    by (auto simp: migrating_ok_def passed_def)
  show "map fst (mg_log m') = migration_files dir"
    using all_recorded [OF ok distinct_files [OF assms(2)] all] by (simp add: mg_names_def)
  show "\<exists>out'. migrate_main execute readFile dir m' = (0, out', m')"
    using migrate_loop_noop [OF all, of execute readFile] by (auto simp: migrate_main_def)
qed

section \<open>A run\<close>

definition two_files :: "string list" where
  "two_files = [''0002.sql'', ''README.md'', ''0001.sql'']"

definition add_text :: "string \<Rightarrow> string list \<Rightarrow> string list option" where
  "add_text b d = Some (d @ [b])"

lemma two_files_sorted: "migration_files two_files = [''0001.sql'', ''0002.sql'']"
  by (simp add: migration_files_def two_files_def ends_with_def)

text \<open>Two runners find the first file missing; one applies it and goes on, the other dies of the primary key.\<close>

theorem migrations_in_order_witness:
  "\<exists>m rs. mg_reach add_text (\<lambda>f. Some f) two_files [] (m, rs) \<and> rs = [Migrated, Broken] \<and> mg_data m = [''0001.sql'', ''0002.sql''] \<and>
     map fst (mg_log m) = [''0001.sql'', ''0002.sql'']"
proof -
  let ?R = "mg_reach add_text (\<lambda>f. Some f) two_files []" and ?m0 = "\<lparr>mg_log = [], mg_data = []\<rparr> :: string list migrated"
    and ?f = "''0001.sql''" and ?g = "''0002.sql''"
  have "?R (?m0, [Looking [?f, ?g]])"
    using mg_reach.more [OF mg_reach.fresh mg_step.launch, of add_text Some two_files "[]"] by (simp add: two_files_sorted)
  from mg_reach.more [OF this mg_step.launch] have "?R (?m0, [Looking [?f, ?g], Looking [?f, ?g]])" by (simp add: two_files_sorted)
  from mg_reach.more [OF this mg_step.choose [of 1]] have "?R (?m0, [Looking [?f, ?g], Applying ?f [?g]])" by (simp add: mg_names_def)
  from migrate_loop_reach [OF this, of 0 "[?f, ?g]"] obtain m where m: "?R (m, [Migrated, Applying ?f [?g]])" "mg_data m = [?f, ?g]"
    by (auto simp: mg_names_def mg_apply_def add_text_def)
  have r: "?R (m, [Migrated, Broken])" using mg_reach.more [OF m(1) mg_step.die [of 1]] by simp
  show ?thesis
    using migrations_in_order [OF r] r m(2) by (auto simp: two_files_sorted) (auto simp: two_files_def)
qed

text \<open>The checksums are never compared: whatever the files say now, a recorded file is skipped.\<close>

lemma changed_file_skipped:
  assumes "set (migration_files dir) \<subseteq> set (mg_names m)"
  shows "\<exists>out. migrate_main execute readFile dir m = (0, out, m)"
  using migrate_loop_noop [OF assms, of execute readFile] by (auto simp: migrate_main_def)

end
