(* ===== verification/WidgetView.thy ===== *)
theory WidgetView
  imports AdminReceivers ReactHook "HOL-Library.Sublist"
begin

text \<open>
  What the two verification widgets show: the web component, \<open>render.ts\<close> and the \<open>render\<close> method of
  \<open>element.ts\<close> in \<open>packages/web-component/src\<close>, which writes HTML text, and the React component,
  \<open>packages/react/src/SyrotpVerification.tsx\<close>, which builds a tree. A template literal is the concatenation of its
  lines; \<open>attr\<close> writes one attribute.
\<close>

section \<open>Text\<close>

text \<open>Any of the five characters becomes an entity.\<close>

definition escape_char :: "char \<Rightarrow> string" where
  "escape_char c =
     (if c = CHR ''&'' then ''&amp;'' else if c = CHR ''<'' then ''&lt;'' else if c = CHR ''>'' then ''&gt;''
      else if c = CHR 0x22 then ''&quot;'' else if c = CHR 0x27 then ''&#39;'' else [c])"

definition escapeHtml :: "string \<Rightarrow> string" where
  "escapeHtml s = concat (map escape_char s)"

text \<open>\<open>secs % 60\<close> has the sign of \<open>secs\<close>.\<close>

definition formatCountdown :: "int \<Rightarrow> string" where
  "formatCountdown secs =
     (let m = secs div 60; s = (if 0 \<le> secs then secs mod 60 else - (- secs mod 60)); shown = show_int s
      in show_int m @ '':'' @ replicate (2 - length shown) CHR ''0'' @ shown)"

text \<open>\<open>encodeURIComponent\<close> of the standard library on characters of at most eight bits: the bytes of UTF-8 in hex.\<close>

definition upper_hex :: "nat \<Rightarrow> char" where
  "upper_hex n = (if n < 10 then char_of (48 + n) else char_of (55 + n))"

definition percent :: "nat \<Rightarrow> string" where
  "percent n = [CHR ''%'', upper_hex (n div 16), upper_hex (n mod 16)]"

definition uri_unreserved :: "char \<Rightarrow> bool" where
  "uri_unreserved c \<longleftrightarrow> is_alnum c \<or> c \<in> set ''-_.!~*()'' \<or> c = CHR 0x27"

definition encode_char :: "char \<Rightarrow> string" where
  "encode_char c =
     (let n = code_unit c in
      if uri_unreserved c then [c] else if n < 128 then percent n else percent (192 + n div 64) @ percent (128 + n mod 64))"

definition encodeURIComponent :: "string \<Rightarrow> string" where
  "encodeURIComponent s = concat (map encode_char s)"

definition buildSmsLink :: "string \<Rightarrow> string \<Rightarrow> string" where
  "buildSmsLink sendTo body = ''sms:'' @ sendTo @ ''?body='' @ encodeURIComponent body"

section \<open>The web component\<close>

definition newline :: string where
  "newline = [CHR 0x0A]"

definition STYLES :: string where
  "STYLES = join_with newline
     [[],
      ''  :host { display: block; }'',
      ''  .container {'',
      ''    font-family: system-ui, -apple-system, '' @ dquoted ''Segoe UI'' @ '', sans-serif;'',
      ''    max-width: 420px;'',
      ''    padding: 16px;'',
      ''    border: 1px solid #e5e7eb;'',
      ''    border-radius: 8px;'',
      ''    display: flex;'',
      ''    flex-direction: column;'',
      ''    gap: 12px;'',
      ''  }'',
      ''  .muted { font-size: 14px; color: #4b5563; }'',
      ''  .small { font-size: 13px; color: #6b7280; }'',
      ''  .msg {'',
      ''    font-family: ui-monospace, SFMono-Regular, Menlo, monospace;'',
      ''    font-size: 18px;'',
      ''    padding: 10px 12px;'',
      ''    background: #f3f4f6;'',
      ''    border-radius: 6px;'',
      ''    border: 1px solid #e5e7eb;'',
      ''    user-select: all;'',
      ''  }'',
      ''  .actions { display: flex; gap: 8px; flex-wrap: wrap; }'',
      ''  button, a.btn {'',
      ''    padding: 8px 12px;'',
      ''    border: 1px solid #d1d5db;'',
      ''    border-radius: 6px;'',
      ''    background: #ffffff;'',
      ''    cursor: pointer;'',
      ''    font-size: 14px;'',
      ''    color: #111827;'',
      ''    text-decoration: none;'',
      ''    display: inline-block;'',
      ''  }'',
      ''  a.btn { color: #1d4ed8; }'',
      ''  .status { font-size: 14px; font-weight: 500; }'',
      ''  .status.ok { color: #15803d; }'',
      ''  .status.warn { color: #b45309; }'',
      ''  .status.error { color: #b91c1c; }'',
      ''  .status.muted { color: #6b7280; }'',
      []]"

definition attr :: "string \<Rightarrow> string \<Rightarrow> string" where
  "attr n v = '' '' @ n @ ''='' @ dquoted v"

definition region_tag :: string where
  "region_tag = ''<div'' @ attr ''class'' ''container'' @ attr ''data-syrotp'' ''container'' @ attr ''role'' ''region'' @
     attr ''aria-label'' ''Phone verification'' @ ''>''"

definition pending_html :: "string \<Rightarrow> string \<Rightarrow> string \<Rightarrow> string \<Rightarrow> int \<Rightarrow> string" where
  "pending_html instruction phone_masked send_to message secsLeft =
     join_with newline
       [[],
        ''        <style>'' @ STYLES @ ''</style>'',
        ''        '' @ region_tag,
        ''          <div'' @ attr ''data-syrotp'' ''instruction'' @ ''>'' @ escapeHtml instruction @ ''</div>'',
        ''          <div'' @ attr ''data-syrotp'' ''phone-masked'' @ attr ''class'' ''muted'' @ ''>From: <span>'' @ escapeHtml phone_masked @ ''</span></div>'',
        ''          <div'' @ attr ''data-syrotp'' ''send-to'' @ attr ''class'' ''muted'' @ ''>To: <code>'' @ escapeHtml send_to @ ''</code></div>'',
        ''          <div'' @ attr ''data-syrotp'' ''message'' @ attr ''class'' ''msg'' @ attr ''aria-label'' ''SMS message body'' @ ''>'' @
          escapeHtml message @ ''</div>'',
        ''          <div'' @ attr ''class'' ''actions'' @ ''>'',
        ''            <button'' @ attr ''type'' ''button'' @ attr ''data-syrotp'' ''copy'' @ attr ''aria-label'' ''Copy SMS body to clipboard'' @ ''>Copy</button>'',
        ''            <a'' @ attr ''class'' ''btn'' @ attr ''data-syrotp'' ''sms-link'' @ attr ''href'' (escapeHtml (buildSmsLink send_to message)) @
          ''>Open SMS app</a>'',
        ''          </div>'',
        ''          <div'' @ attr ''data-syrotp'' ''countdown'' @ attr ''role'' ''timer'' @ attr ''aria-label'' ''Time remaining'' @ attr ''class'' ''small'' @ ''>'',
        ''            Expires in <span>'' @ formatCountdown secsLeft @ ''</span>'',
        ''          </div>'',
        ''        </div>'',
        ''      '']"

definition statusBlock :: "string \<Rightarrow> string \<Rightarrow> string" where
  "statusBlock cls body =
     join_with newline
       [[],
        ''      <style>'' @ STYLES @ ''</style>'',
        ''      '' @ region_tag,
        ''        <div'' @ attr ''data-syrotp'' ''status'' @ attr ''class'' (''status '' @ cls) @ attr ''role'' ''status'' @ attr ''aria-live'' ''polite'' @ ''>'' @
          escapeHtml body @ ''</div>'',
        ''      </div>'',
        ''    '']"

definition DEFAULT_INSTRUCTION :: string where
  "DEFAULT_INSTRUCTION = ''Send this SMS to verify your phone.''"

text \<open>\<open>instruction\<close> is the attribute, if it is there.\<close>

definition element_html :: "string option \<Rightarrow> ui_verification \<Rightarrow> int \<Rightarrow> string" where
  "element_html instruction v secsLeft =
     (if uv_status v = Pending \<and> truthy (uv_send_to v) \<and> truthy (uv_message v)
      then pending_html (case instruction of None \<Rightarrow> DEFAULT_INSTRUCTION | Some t \<Rightarrow> t) (uv_phone_masked v) (the (uv_send_to v)) (the (uv_message v)) secsLeft
      else case uv_status v of
        Verified \<Rightarrow> statusBlock ''ok'' ''Phone verified.''
      | Expired \<Rightarrow> statusBlock ''warn'' ''Verification expired. Start a new one to continue.''
      | Cancelled \<Rightarrow> statusBlock ''muted'' ''Verification cancelled.''
      | Failed \<Rightarrow> statusBlock ''error'' ''Verification failed.''
      | Pending \<Rightarrow> [])"

section \<open>The React component\<close>

text \<open>The children of the container that are rendered: each with its slot, the text in front of the value, and the value.\<close>

record react_child =
  rx_slot :: string
  rx_label :: string
  rx_text :: string
  rx_href :: "string option"

definition react_text :: "string \<Rightarrow> string \<Rightarrow> string \<Rightarrow> react_child" where
  "react_text slot label t = \<lparr>rx_slot = slot, rx_label = label, rx_text = t, rx_href = None\<rparr>"

definition react_isPending :: "ui_verification \<Rightarrow> bool" where
  "react_isPending v \<longleftrightarrow> uv_status v = Pending \<and> uv_send_to v \<noteq> None \<and> uv_message v \<noteq> None"

definition react_children :: "string option \<Rightarrow> bool \<Rightarrow> ui_verification \<Rightarrow> int \<Rightarrow> react_child list" where
  "react_children initialInstruction copied v secondsLeft =
     (if react_isPending v \<and> truthy (uv_send_to v) \<and> truthy (uv_message v) then
        [react_text ''instruction'' [] (case initialInstruction of None \<Rightarrow> ''Send this SMS to verify your phone.'' | Some t \<Rightarrow> t),
         react_text ''phone-masked'' ''From: '' (uv_phone_masked v),
         react_text ''send-to'' ''To: '' (the (uv_send_to v)),
         react_text ''message'' [] (the (uv_message v)),
         react_text ''copy'' [] (if copied then ''Copied!'' else ''Copy''),
         \<lparr>rx_slot = ''sms-link'', rx_label = [], rx_text = ''Open SMS app'', rx_href = Some (buildSmsLink (the (uv_send_to v)) (the (uv_message v)))\<rparr>,
         react_text ''countdown'' ''Expires in '' (formatCountdown secondsLeft)]
      else []) @
     (if uv_status v = Verified then [react_text ''status'' [] ''Phone verified.''] else []) @
     (if uv_status v = Expired then [react_text ''status'' [] ''Verification expired. Start a new one to continue.''] else []) @
     (if uv_status v = Cancelled then [react_text ''status'' [] ''Verification cancelled.''] else []) @
     (if uv_status v = Failed then [react_text ''status'' [] ''Verification failed.''] else [])"

text \<open>
  The copy button: whether it now says so, the texts copied, and the error handed to \<open>onError\<close>; \<open>write\<close> is the
  clipboard, or the text area, with the error it throws, if it throws. The button says \<open>Copy\<close> again 1.5 seconds later.
\<close>

definition react_handleCopy :: "(string \<Rightarrow> string option) \<Rightarrow> ui_verification \<Rightarrow> bool \<Rightarrow> bool \<times> string list \<times> string option" where
  "react_handleCopy write v copied =
     (if \<not> truthy (uv_message v) then (copied, [], None)
      else case write (the (uv_message v)) of
        Some err \<Rightarrow> (copied, [], Some err)
      | None \<Rightarrow> (True, [the (uv_message v)], None))"

section \<open>What is inserted is text\<close>

text \<open>A reference reader of the five entities.\<close>

fun unescape :: "string \<Rightarrow> string" where
  "unescape [] = []"
| "unescape (c # s) =
     (if starts_with (c # s) ''&amp;'' then CHR ''&'' # unescape (drop 4 s)
      else if starts_with (c # s) ''&lt;'' then CHR ''<'' # unescape (drop 3 s)
      else if starts_with (c # s) ''&gt;'' then CHR ''>'' # unescape (drop 3 s)
      else if starts_with (c # s) ''&quot;'' then CHR 0x22 # unescape (drop 5 s)
      else if starts_with (c # s) ''&#39;'' then CHR 0x27 # unescape (drop 4 s)
      else c # unescape s)"

lemma unescape_char: "unescape (escape_char c @ s) = c # unescape s"
  by (auto simp: escape_char_def starts_with_def)

lemma unescape_escape: "unescape (escapeHtml s) = s"
  by (induction s) (simp_all add: escapeHtml_def unescape_char)

definition is_markup :: "char \<Rightarrow> bool" where
  "is_markup c \<longleftrightarrow> c = CHR ''<'' \<or> c = CHR ''>'' \<or> c = CHR 0x22 \<or> c = CHR 0x27"

definition markup :: "string \<Rightarrow> string" where
  "markup s = filter is_markup s"

lemma markup_append: "markup (a @ b) = markup a @ markup b"
  by (simp add: markup_def)

lemma markup_escape: "markup (escapeHtml s) = []"
  by (induction s) (simp_all add: escapeHtml_def markup_def escape_char_def is_markup_def)

lemma markup_digits: "list_all is_digit s \<Longrightarrow> markup s = []"
  by (auto simp: markup_def filter_empty_conv is_markup_def list_all_iff char_class_defs code_unit_def)

lemma markup_countdown: "markup (formatCountdown secs) = []"
proof -
  have i: "markup (show_int n) = []" for n
    using markup_digits [OF show_nat_digits] by (auto simp: show_int_def) (simp add: markup_def is_markup_def)
  have r: "markup (replicate n CHR ''0'') = []" for n by (simp add: markup_def is_markup_def)
  have c: "markup '':'' = []" by (simp add: markup_def is_markup_def)
  show ?thesis unfolding formatCountdown_def Let_def markup_append i r c by simp
qed

lemma markup_attr: "markup (attr n (escapeHtml v)) = markup (attr n [])"
  unfolding attr_def dquoted_def markup_append by (simp add: markup_def) (metis markup_def markup_escape)

lemma markup_join: "markup (join_with newline ls) = concat (map markup ls)"
  by (induction newline ls rule: join_with.induct) (simp_all add: markup_def newline_def is_markup_def)

lemmas markup_simps = markup_append markup_escape markup_countdown markup_attr markup_join

lemma pending_markup: "markup (pending_html i p t m s) = markup (pending_html i' p' t' m' s')"
  unfolding pending_html_def by (simp only: markup_simps list.map append_Nil)

text \<open>
  C31: the web component never writes markup it was given. The tag and quote characters of what it shows are the
  same for any two verifications of one status that both have or both lack a message to send, whatever
  instruction, phone, message and countdown are inserted; and what was inserted reads back unchanged.
\<close>

theorem widget_markup_fixed:
  assumes "uv_status v = uv_status v'"
    and "(truthy (uv_send_to v) \<and> truthy (uv_message v)) = (truthy (uv_send_to v') \<and> truthy (uv_message v'))"
  shows "filter is_markup (element_html i v s) = filter is_markup (element_html i' v' s') \<and> unescape (escapeHtml t) = t"
proof -
  have "markup (element_html i v s) = markup (element_html i' v' s')"
    using assms pending_markup by (auto simp: element_html_def)
  then show ?thesis by (simp add: markup_def unescape_escape)
qed

definition demo_pending :: ui_verification where
  "demo_pending = \<lparr>uv_id = ''vrf_1'', uv_status = Pending, uv_send_to = Some ''+963900000000'', uv_message = Some ''VERIFY ABCDEF'',
     uv_phone_masked = ''+963*****567'', uv_expires_at = 60000, uv_verified_at = None\<rparr>"

theorem widget_markup_fixed_witness:
  "filter is_markup (element_html (Some ''<script>'') demo_pending 60) = filter is_markup (element_html None (demo_pending\<lparr>uv_message := Some ''x''\<rparr>) 5) \<and>
     unescape (escapeHtml ''<script>'') = ''<script>''"
  by (rule widget_markup_fixed) (simp_all add: demo_pending_def truthy_def)

section \<open>Both widgets show the same\<close>

lemma sublist_front: "sublist x a \<Longrightarrow> sublist x (a @ b)" and sublist_back: "sublist x b \<Longrightarrow> sublist x (a @ b)"
  by (auto simp: sublist_append)

lemma sublist_join: "l \<in> set ls \<Longrightarrow> sublist x l \<Longrightarrow> sublist x (join_with sep ls)"
  by (induction sep ls rule: join_with.induct) (auto intro: sublist_front sublist_back)

definition shown_in :: "string \<Rightarrow> react_child \<Rightarrow> bool" where
  "shown_in html c \<longleftrightarrow> sublist (attr ''data-syrotp'' (rx_slot c)) html \<and> sublist (escapeHtml (rx_text c)) html \<and>
     (\<forall>h. rx_href c = Some h \<longrightarrow> sublist (attr ''href'' (escapeHtml h)) html)"

lemma shown_line:
  assumes "k < length ls" and "k' < length ls" and "sublist (attr ''data-syrotp'' slot) (ls ! k)" and "sublist (escapeHtml t) (ls ! k')"
  shows "shown_in (join_with newline ls) (react_text slot label t)"
  using assms(3,4) sublist_join [OF nth_mem [OF assms(1)]] sublist_join [OF nth_mem [OF assms(2)]] by (simp add: shown_in_def react_text_def)

lemmas line_intros = sublist_front sublist_back sublist_order.order.refl
lemmas line_simps = eval_nat_numeral BitM.simps One_nat_def nth_Cons_Suc nth_Cons_0

lemma escape_plain: "list_all (\<lambda>c. escape_char c = [c]) s \<Longrightarrow> escapeHtml s = s"
  by (induction s) (simp_all add: escapeHtml_def)

lemma escape_countdown: "escapeHtml (formatCountdown secs) = formatCountdown secs"
proof -
  have d: "is_digit c \<Longrightarrow> escape_char c = [c]" for c by (auto simp: escape_char_def char_class_defs code_unit_def)
  have p: "escape_char CHR '':'' = [CHR '':'']" "escape_char CHR ''-'' = [CHR ''-'']" "escape_char CHR ''0'' = [CHR ''0'']"
    by (simp_all add: escape_char_def)
  have "escape_char c = [c]" if "c \<in> set (show_int n)" for c n
    using that show_nat_chars d p by (auto simp: show_int_def split: if_splits)
  then show ?thesis by (intro escape_plain) (auto simp: formatCountdown_def Let_def p list_all_iff)
qed

lemma shown_instruction: "shown_in (pending_html i p t m s) (react_text ''instruction'' l i)"
  unfolding pending_html_def
  by (rule shown_line [where k = 3 and k' = 3], simp, simp, (simp only: line_simps, blast intro: line_intros)+)

lemma shown_phone_masked: "shown_in (pending_html i p t m s) (react_text ''phone-masked'' l p)"
  unfolding pending_html_def
  by (rule shown_line [where k = 4 and k' = 4], simp, simp, (simp only: line_simps, blast intro: line_intros)+)

lemma shown_send_to: "shown_in (pending_html i p t m s) (react_text ''send-to'' l t)"
  unfolding pending_html_def
  by (rule shown_line [where k = 5 and k' = 5], simp, simp, (simp only: line_simps, blast intro: line_intros)+)

lemma shown_message: "shown_in (pending_html i p t m s) (react_text ''message'' l m)"
  unfolding pending_html_def
  by (rule shown_line [where k = 6 and k' = 6], simp, simp, (simp only: line_simps, blast intro: line_intros)+)

lemma shown_copy: "shown_in (pending_html i p t m s) (react_text ''copy'' l ''Copy'')"
proof -
  have c: "escapeHtml ''Copy'' = ''Copy''" "sublist ''Copy'' ''>Copy</button>''"
    using sublist_appendI [of "''Copy''" "''>''" "''</button>''"] by (simp_all add: escapeHtml_def escape_char_def)
  show ?thesis
    unfolding pending_html_def
    by (rule shown_line [where k = 8 and k' = 8], simp, simp, simp only: line_simps, blast intro: line_intros,
        simp only: line_simps c(1), (rule sublist_back)+, rule c(2))
qed

lemma shown_countdown: "shown_in (pending_html i p t m s) (react_text ''countdown'' l (formatCountdown s))"
  unfolding pending_html_def
  by (rule shown_line [where k = 11 and k' = 12], simp, simp, 
      (simp only: line_simps escape_countdown, rule sublist_back, rule sublist_front, rule sublist_order.order.refl)+)

lemma shown_link:
  "shown_in (pending_html i p t m s) \<lparr>rx_slot = ''sms-link'', rx_label = l, rx_text = ''Open SMS app'', rx_href = Some (buildSmsLink t m)\<rparr>"
proof -
  have c: "escapeHtml ''Open SMS app'' = ''Open SMS app''" "sublist ''Open SMS app'' ''>Open SMS app</a>''"
    using sublist_appendI [of "''Open SMS app''" "''>''" "''</a>''"] by (simp_all add: escapeHtml_def escape_char_def)
  have "shown_in (pending_html i p t m s) (react_text ''sms-link'' l ''Open SMS app'')"
    unfolding pending_html_def
    by (rule shown_line [where k = 9 and k' = 9], simp, simp, simp only: line_simps, blast intro: line_intros,
        simp only: line_simps c(1), (rule sublist_back)+, rule c(2))
  moreover have "sublist (attr ''href'' (escapeHtml (buildSmsLink t m))) (pending_html i p t m s)"
    unfolding pending_html_def
    by (rule sublist_join [OF nth_mem [where n = 9]], simp, simp only: line_simps, blast intro: line_intros)
  ultimately show ?thesis by (simp add: shown_in_def react_text_def)
qed

lemma shown_status: "shown_in (statusBlock cls t) (react_text ''status'' l t)"
  unfolding statusBlock_def
  by (rule shown_line [where k = 3 and k' = 3], simp, simp, (simp only: line_simps, blast intro: line_intros)+)

lemma html_nonempty: "pending_html i p t m s \<noteq> []" "statusBlock cls t \<noteq> []"
  by (simp_all add: pending_html_def statusBlock_def newline_def)

text \<open>
  The two widgets agree. For every verification, instruction and countdown the web component shows something
  exactly when the React component does, and each slot the React component fills is in the HTML
  of the web component under the same name, with the same text and the same link.
\<close>

theorem widgets_agree:
  "(element_html i v s = [] \<longleftrightarrow> react_children i copied v s = []) \<and>
     (\<forall>c \<in> set (react_children i False v s). shown_in (element_html i v s) c)"
proof (cases "uv_status v = Pending \<and> truthy (uv_send_to v) \<and> truthy (uv_message v)")
  case True
  then have "react_isPending v" by (auto simp: react_isPending_def truthy_def)
  then show ?thesis
    using True by (cases i) (simp_all add: element_html_def react_children_def DEFAULT_INSTRUCTION_def html_nonempty shown_instruction
        shown_phone_masked shown_send_to shown_message shown_copy shown_countdown shown_link)
next
  case False
  then show ?thesis by (cases "uv_status v") (auto simp: element_html_def react_children_def react_isPending_def shown_status html_nonempty)
qed

theorem widgets_agree_witness:
  "react_children None False demo_pending 75 \<noteq> [] \<and> element_html None demo_pending 75 \<noteq> [] \<and>
     shown_in (element_html None demo_pending 75) (react_text ''countdown'' ''Expires in '' ''1:15'')"
proof -
  have c: "formatCountdown 75 = ''1:15''" by code_simp
  have "react_text ''countdown'' ''Expires in '' ''1:15'' \<in> set (react_children None False demo_pending 75)"
    by (simp add: react_children_def react_isPending_def demo_pending_def truthy_def c)
  moreover from this have "react_children None False demo_pending 75 \<noteq> []" by auto
  ultimately show ?thesis using widgets_agree [of None demo_pending 75 False] by blast
qed

text \<open>The link of an issued message.\<close>

lemma link_of_code: "all_in is_alnum code \<Longrightarrow> buildSmsLink to (''VERIFY '' @ code) = ''sms:'' @ to @ ''?body=VERIFY%20'' @ code"
proof -
  assume "all_in is_alnum code"
  then have "list_all is_alnum code" by (simp add: all_in_def)
  then have "encodeURIComponent code = code"
    by (induction code) (simp_all add: encodeURIComponent_def encode_char_def uri_unreserved_def Let_def)
  moreover have "encodeURIComponent ''VERIFY '' = ''VERIFY%20''" by code_simp
  ultimately show ?thesis by (simp add: buildSmsLink_def encodeURIComponent_def)
qed

end
