(* ===== verification/WebElement.thy ===== *)
theory WebElement
  imports WidgetView
begin

text \<open>
  The custom element of \<open>packages/web-component/src/element.ts\<close>: attributes and property, the life of its
  controllers, what stands in its shadow root and the events it dispatches. Controllers that were replaced stay in
  the list, since their timers and answers may still come in.
\<close>

section \<open>The element\<close>

datatype element_event =
    Dispatched string ui_verification
  | DispatchedError string

record element =
  el_attrs :: "string \<Rightarrow> string option"
  el_verification :: "ui_verification option"
  el_connected :: bool
  el_controllers :: "controller list"
  el_current :: "nat option"
  el_html :: string
  el_events :: "element_event list"

definition new_element :: element where
  "new_element = \<lparr>el_attrs = (\<lambda>n. None), el_verification = None, el_connected = False, el_controllers = [], el_current = None,
     el_html = [], el_events = []\<rparr>"

definition observedAttributes :: "string list" where
  "observedAttributes = [''base-url'', ''verification'', ''poll-interval-ms'', ''initial-instruction'']"

text \<open>The callbacks the element hands to its controller.\<close>

definition el_callback :: "ui_callback \<Rightarrow> element \<Rightarrow> element" where
  "el_callback cb e =
     (case cb of
        OnChange v secs \<Rightarrow> e\<lparr>el_html := element_html (el_attrs e ''initial-instruction'') v secs\<rparr>
      | OnVerified v \<Rightarrow> e\<lparr>el_events := el_events e @ [Dispatched ''syrotp-verified'' v]\<rparr>
      | OnExpired v \<Rightarrow> e\<lparr>el_events := el_events e @ [Dispatched ''syrotp-expired'' v]\<rparr>
      | OnCancelled v \<Rightarrow> e\<lparr>el_events := el_events e @ [Dispatched ''syrotp-cancelled'' v]\<rparr>
      | OnError m \<Rightarrow> e\<lparr>el_events := el_events e @ [DispatchedError m]\<rparr>)"

text \<open>A step of controller \<open>i\<close>, with the callbacks it makes.\<close>

definition el_control :: "nat \<Rightarrow> (controller \<Rightarrow> controller) \<Rightarrow> element \<Rightarrow> element" where
  "el_control i f e =
     (let c = el_controllers e ! i; c' = f c
      in fold el_callback (drop (length (ct_log c)) (ct_log c')) (e\<lparr>el_controllers := (el_controllers e)[i := c']\<rparr>))"

definition stop_current :: "element \<Rightarrow> element" where
  "stop_current e = (case el_current e of None \<Rightarrow> e | Some i \<Rightarrow> (el_control i ui_stop e)\<lparr>el_current := None\<rparr>)"

definition restart :: "int \<Rightarrow> element \<Rightarrow> element" where
  "restart now e =
     (let e1 = stop_current e in
      case el_verification e1 of
        None \<Rightarrow> e1\<lparr>el_html := []\<rparr>
      | Some v \<Rightarrow>
        let i = length (el_controllers e1)
        in el_control i ui_start (e1\<lparr>el_controllers := el_controllers e1 @ [new_controller v now], el_current := Some i\<rparr>))"

definition dispatchError :: "string \<Rightarrow> element \<Rightarrow> element" where
  "dispatchError m e = e\<lparr>el_events := el_events e @ [DispatchedError m]\<rparr>"

text \<open>\<open>JSON.parse\<close> throws, or gives a verification or \<open>null\<close>.\<close>

type_synonym verification_parser = "string \<Rightarrow> string + ui_verification option"

definition connectedCallback :: "verification_parser \<Rightarrow> int \<Rightarrow> element \<Rightarrow> element" where
  "connectedCallback parse now e =
     (let e0 = e\<lparr>el_connected := True\<rparr>;
          a = el_attrs e0 ''verification'';
          e1 = (if el_verification e0 = None \<and> truthy a
                then (case parse (the a) of Inl m \<Rightarrow> dispatchError m e0 | Inr v \<Rightarrow> e0\<lparr>el_verification := v\<rparr>)
                else e0)
      in restart now e1)"

definition disconnectedCallback :: "element \<Rightarrow> element" where
  "disconnectedCallback e = stop_current (e\<lparr>el_connected := False\<rparr>)"

definition restart_if_connected :: "int \<Rightarrow> element \<Rightarrow> element" where
  "restart_if_connected now e = (if el_connected e then restart now e else e)"

text \<open>A text that does not parse is reported and nothing restarts.\<close>

definition attributeChangedCallback :: "verification_parser \<Rightarrow> int \<Rightarrow> string \<Rightarrow> string option \<Rightarrow> element \<Rightarrow> element" where
  "attributeChangedCallback parse now name newValue e =
     (if name = ''verification'' then
        (if truthy newValue then
           (case parse (the newValue) of
              Inl m \<Rightarrow> dispatchError m e
            | Inr v \<Rightarrow> restart_if_connected now (e\<lparr>el_verification := v\<rparr>))
         else restart_if_connected now (e\<lparr>el_verification := None\<rparr>))
      else restart_if_connected now e)"

definition set_verification :: "int \<Rightarrow> ui_verification option \<Rightarrow> element \<Rightarrow> element" where
  "set_verification now v e = restart_if_connected now (e\<lparr>el_verification := v\<rparr>)"

text \<open>
  The copy button, with the texts it has put on the clipboard. \<open>write\<close> is the clipboard, or the text area where there
  is none: the message of the error it throws, if it throws. The label of the button is changed for a moment only.
\<close>

definition handleCopy :: "(string \<Rightarrow> string option) \<Rightarrow> element \<Rightarrow> element \<times> string list" where
  "handleCopy write e =
     (let m = Option.bind (el_verification e) uv_message
      in if \<not> truthy m then (e, [])
         else case write (the m) of
           Some err \<Rightarrow> (dispatchError err e, [])
         | None \<Rightarrow> (e, [the m]))"

section \<open>Runs\<close>

text \<open>
  The page connects, disconnects and changes the element; timers fire and answers arrive for any controller. The browser
  connects only an element that is not connected, and calls back for observed attributes only.
\<close>

datatype element_step =
    SetProperty "ui_verification option"
  | Connect
  | Disconnect
  | SetAttribute string "string option"
  | Control nat ui_event

definition el_step :: "verification_parser \<Rightarrow> int \<Rightarrow> element_step \<Rightarrow> element \<Rightarrow> element" where
  "el_step parse now s e =
     (case s of
        SetProperty v \<Rightarrow> set_verification now v e
      | Connect \<Rightarrow> if el_connected e then e else connectedCallback parse now e
      | Disconnect \<Rightarrow> if el_connected e then disconnectedCallback e else e
      | SetAttribute n v \<Rightarrow>
          let e1 = e\<lparr>el_attrs := (el_attrs e)(n := v)\<rparr>
          in if n \<in> set observedAttributes then attributeChangedCallback parse now n v e1 else e1
      | Control i ev \<Rightarrow>
          if i < length (el_controllers e) \<and> ev \<noteq> UStart \<and> ev \<noteq> UStop then el_control i (ui_apply ev) e else e)"

definition el_run :: "verification_parser \<Rightarrow> (int \<times> element_step) list \<Rightarrow> element \<Rightarrow> element" where
  "el_run parse steps e = fold (\<lambda>(now, s). el_step parse now s) steps e"

section \<open>What a controller reports\<close>

text \<open>The last state and countdown that were reported.\<close>

primrec last_view :: "ui_callback list \<Rightarrow> ui_verification \<times> int \<Rightarrow> ui_verification \<times> int" where
  "last_view [] vs = vs"
| "last_view (cb # cbs) vs = last_view cbs (case cb of OnChange v s \<Rightarrow> (v, s) | _ \<Rightarrow> vs)"

definition view_of :: "controller \<Rightarrow> ui_verification \<times> int" where
  "view_of c = (ct_state c, ct_secondsLeft c)"

text \<open>A step has reported what it left.\<close>

definition reported :: "controller \<Rightarrow> controller \<Rightarrow> bool" where
  "reported c c' \<longleftrightarrow> (\<exists>new. ct_log c' = ct_log c @ new \<and> last_view new (view_of c) = view_of c')"

lemma last_view_append: "last_view (xs @ ys) vs = last_view ys (last_view xs vs)"
  by (induction xs arbitrary: vs) simp_all

lemma last_view_left: "last_view (left_pending p n) vs = vs"
  by (simp add: left_pending_def split: verification_status.split)

lemma reported_transition: "reported c (ui_transition now n c)"
  by (auto simp: reported_def ui_transition_def Let_def view_of_def clearTimers_def last_view_left intro!: exI)

lemma reported_same: "ct_log c' = ct_log c \<Longrightarrow> view_of c' = view_of c \<Longrightarrow> reported c c'"
  by (auto simp: reported_def intro!: exI [of _ "[]"])

lemma reported_tick: "reported c (onCountdownTick now c)"
proof (cases "uv_status (ct_state c) = Pending")
  case False
  then show ?thesis by (simp add: onCountdownTick_def reported_same)
next
  case True
  then show ?thesis
    by (auto simp: onCountdownTick_def Let_def reported_def ui_transition_def clearTimers_def view_of_def last_view_left)
qed

lemma reported_answer: "reported c (poll_answer now body (settle c))"
  by (auto simp: poll_answer_def Let_def settle_def reported_def ui_transition_def clearTimers_def view_of_def last_view_left
      intro!: exI [of _ "[]"])

lemma reported_apply: "ev \<noteq> UStart \<Longrightarrow> reported c (ui_apply ev c)"
proof (cases ev)
  case UStop
  then show ?thesis by (simp add: ui_apply_def ui_stop_def clearTimers_def reported_same view_of_def)
next
  case (UTick now)
  then show ?thesis by (simp add: ui_apply_def reported_tick reported_same)
next
  case UPoll
  then show ?thesis by (simp add: ui_apply_def poll_begin_def reported_same view_of_def)
next
  case (UAnswer now body)
  then show ?thesis by (simp add: ui_apply_def reported_answer reported_same)
next
  case (UFail aborted m)
  then show ?thesis by (auto simp: ui_apply_def poll_failure_def settle_def reported_def view_of_def)
qed simp

text \<open>A controller that was stopped has no timer and reports nothing any more.\<close>

definition finished :: "controller \<Rightarrow> bool" where
  "finished c \<longleftrightarrow> ct_stopped c \<and> \<not> ct_polling c \<and> \<not> ct_ticking c"

lemma finished_stop: "finished (ui_stop c)" "ct_log (ui_stop c) = ct_log c"
  by (simp_all add: finished_def ui_stop_def clearTimers_def)

lemma finished_apply:
  assumes "finished c" and "ev \<noteq> UStart"
  shows "finished (ui_apply ev c)" and "ct_log (ui_apply ev c) = ct_log c"
  using assms by (cases ev; simp add: finished_def ui_apply_def ui_stop_def clearTimers_def poll_answer_def poll_failure_def settle_def)+

lemma start_new:
  "ct_log (ui_start (new_controller v now)) = [OnChange v (computeSecondsLeft (uv_expires_at v) now)]"
  "view_of (ui_start (new_controller v now)) = (v, computeSecondsLeft (uv_expires_at v) now)"
  "ct_log (new_controller v now) = []"
  by (simp_all add: ui_start_def new_controller_def Let_def poll_begin_def view_of_def)

section \<open>The element shows its controller\<close>

lemma callback_frame [simp]:
  "el_attrs (fold el_callback cbs e) = el_attrs e" "el_verification (fold el_callback cbs e) = el_verification e"
  "el_connected (fold el_callback cbs e) = el_connected e" "el_controllers (fold el_callback cbs e) = el_controllers e"
  "el_current (fold el_callback cbs e) = el_current e"
  by (induction cbs arbitrary: e) (auto simp: el_callback_def split: ui_callback.splits)

definition shows_view :: "element \<Rightarrow> ui_verification \<times> int \<Rightarrow> bool" where
  "shows_view e vs \<longleftrightarrow> el_html e = element_html (el_attrs e ''initial-instruction'') (fst vs) (snd vs)"

lemma callback_html: "shows_view e vs \<Longrightarrow> shows_view (fold el_callback cbs e) (last_view cbs vs)"
proof (induction cbs arbitrary: e vs)
  case Nil
  then show ?case by simp
next
  case (Cons cb cbs)
  have "shows_view (el_callback cb e) (case cb of OnChange v s \<Rightarrow> (v, s) | _ \<Rightarrow> vs)"
    using Cons.prems by (cases cb) (simp_all add: shows_view_def el_callback_def)
  from Cons.IH [OF this] show ?case by simp
qed

lemma control_frame [simp]:
  "el_attrs (el_control i f e) = el_attrs e" "el_verification (el_control i f e) = el_verification e"
  "el_connected (el_control i f e) = el_connected e" "el_current (el_control i f e) = el_current e"
  "el_controllers (el_control i f e) = (el_controllers e)[i := f (el_controllers e ! i)]"
  by (simp_all add: el_control_def Let_def)

text \<open>A silent step of a controller leaves the page alone.\<close>

lemma control_silent:
  assumes "ct_log (f (el_controllers e ! i)) = ct_log (el_controllers e ! i)"
  shows "el_html (el_control i f e) = el_html e" and "el_events (el_control i f e) = el_events e"
  using assms by (simp_all add: el_control_def Let_def)

lemma control_reported:
  assumes "reported (el_controllers e ! i) (f (el_controllers e ! i))" and "shows_view e (view_of (el_controllers e ! i))"
  shows "shows_view (el_control i f e) (view_of (f (el_controllers e ! i)))"
proof -
  obtain new where new: "ct_log (f (el_controllers e ! i)) = ct_log (el_controllers e ! i) @ new"
      "last_view new (view_of (el_controllers e ! i)) = view_of (f (el_controllers e ! i))"
    using assms(1) by (auto simp: reported_def)
  have "shows_view (e\<lparr>el_controllers := (el_controllers e)[i := f (el_controllers e ! i)]\<rparr>) (view_of (el_controllers e ! i))"
    using assms(2) by (simp add: shows_view_def)
  from callback_html [OF this, of new] show ?thesis by (simp add: el_control_def Let_def new)
qed

text \<open>The invariant of the element.\<close>

definition element_ok :: "element \<Rightarrow> bool" where
  "element_ok e \<longleftrightarrow>
     (\<forall>i < length (el_controllers e). el_current e \<noteq> Some i \<longrightarrow> finished (el_controllers e ! i)) \<and>
     (case el_current e of
        None \<Rightarrow> el_connected e \<longrightarrow> el_verification e = None \<and> el_html e = []
      | Some i \<Rightarrow> el_connected e \<and> el_verification e \<noteq> None \<and> i < length (el_controllers e) \<and> shows_view e (view_of (el_controllers e ! i)))"

text \<open>Without a current controller every controller is finished.\<close>

definition all_finished :: "element \<Rightarrow> bool" where
  "all_finished e \<longleftrightarrow> el_current e = None \<and> (\<forall>c \<in> set (el_controllers e). finished c)"

definition superseded_ok :: "element \<Rightarrow> bool" where
  "superseded_ok e \<longleftrightarrow> (\<forall>i < length (el_controllers e). el_current e \<noteq> Some i \<longrightarrow> finished (el_controllers e ! i)) \<and>
     (\<forall>i. el_current e = Some i \<longrightarrow> i < length (el_controllers e))"

lemma element_ok_superseded: "element_ok e \<Longrightarrow> superseded_ok e"
  by (auto simp: element_ok_def superseded_ok_def)

lemma stop_current_ok:
  assumes "superseded_ok e"
  shows "all_finished (stop_current e)" and "el_connected (stop_current e) = el_connected e"
    and "el_verification (stop_current e) = el_verification e" and "el_attrs (stop_current e) = el_attrs e"
proof -
  show "all_finished (stop_current e)"
  proof (cases "el_current e")
    case None
    then show ?thesis using assms by (auto simp: all_finished_def superseded_ok_def stop_current_def in_set_conv_nth)
  next
    case (Some j)
    have "finished ((el_controllers e)[j := ui_stop (el_controllers e ! j)] ! i)" if "i < length (el_controllers e)" for i
      using that assms Some finished_stop(1) by (cases "i = j") (auto simp: superseded_ok_def)
    then show ?thesis using Some by (auto simp: all_finished_def stop_current_def in_set_conv_nth)
  qed
qed (simp_all add: stop_current_def split: option.split)

lemma restart_ok:
  assumes "superseded_ok e" and "el_connected e"
  shows "element_ok (restart now e)"
proof -
  let ?e = "stop_current e"
  note S = stop_current_ok [OF assms(1)]
  show ?thesis
  proof (cases "el_verification e")
    case None
    then show ?thesis using S by (auto simp: restart_def Let_def element_ok_def all_finished_def)
  next
    case (Some v)
    let ?i = "length (el_controllers ?e)"
    let ?n = "?e\<lparr>el_controllers := el_controllers ?e @ [new_controller v now], el_current := Some ?i\<rparr>"
    have r: "restart now e = el_control ?i ui_start ?n" using Some S(3) by (simp add: restart_def Let_def)
    have "shows_view (el_control ?i ui_start ?n) (view_of (ui_start (new_controller v now)))"
      by (simp add: el_control_def Let_def start_new shows_view_def el_callback_def)
    moreover have "finished (el_controllers (el_control ?i ui_start ?n) ! k)" if "k < ?i" for k
      using that S(1) by (simp add: all_finished_def nth_append)
    ultimately show ?thesis
      unfolding r using S assms(2) Some by (auto simp: element_ok_def less_Suc_eq nth_append)
  qed
qed

lemma restart_if_connected_ok:
  assumes "superseded_ok e" and "\<not> el_connected e \<Longrightarrow> el_current e = None"
  shows "element_ok (restart_if_connected now e)"
  using assms restart_ok [OF assms(1)] by (auto simp: restart_if_connected_def element_ok_def superseded_ok_def)

lemma element_ok_disconnected: "element_ok e \<Longrightarrow> \<not> el_connected e \<Longrightarrow> el_current e = None"
  by (auto simp: element_ok_def split: option.splits)

lemma element_ok_dispatch: "element_ok (dispatchError m e) = element_ok e"
  by (simp add: element_ok_def dispatchError_def shows_view_def cong: option.case_cong)

text \<open>Changing fields that are neither shown nor part of the life of the controllers.\<close>

lemma element_ok_attrs:
  assumes "element_ok e" and "n \<noteq> ''initial-instruction''"
  shows "element_ok (e\<lparr>el_attrs := (el_attrs e)(n := v)\<rparr>)"
  using assms by (simp add: element_ok_def shows_view_def cong: option.case_cong)

lemma change_ok:
  assumes "element_ok e" and "el_current e' = el_current e" and "el_controllers e' = el_controllers e" and "el_connected e' = el_connected e"
  shows "element_ok (restart_if_connected now e')"
  using assms(2-4) element_ok_superseded [OF assms(1)] element_ok_disconnected [OF assms(1)]
  by (intro restart_if_connected_ok) (simp_all add: superseded_ok_def)

lemma attribute_ok:
  assumes "element_ok e"
  shows "element_ok (attributeChangedCallback parse now n v (e\<lparr>el_attrs := (el_attrs e)(n := v)\<rparr>))"
proof -
  have "element_ok (restart_if_connected now (e\<lparr>el_attrs := a, el_verification := x\<rparr>))"
    "element_ok (restart_if_connected now (e\<lparr>el_attrs := a\<rparr>))" for a x
    by (rule change_ok [OF assms]; simp)+
  then show ?thesis
    using element_ok_attrs [OF assms, of n v]
    by (cases "n = ''verification''") (simp_all add: attributeChangedCallback_def element_ok_dispatch split: sum.split)
qed

lemma connect_ok:
  assumes "element_ok e" and "\<not> el_connected e"
  shows "element_ok (connectedCallback parse now e)"
proof -
  have "element_ok (restart now e')" if "el_current e' = el_current e" "el_controllers e' = el_controllers e" "el_connected e'" for e'
    using that element_ok_superseded [OF assms(1)] by (intro restart_ok) (simp_all add: superseded_ok_def)
  then show ?thesis by (simp add: connectedCallback_def Let_def dispatchError_def split: sum.split)
qed

lemma disconnect_ok:
  assumes "element_ok e"
  shows "element_ok (disconnectedCallback e)"
proof -
  have "superseded_ok (e\<lparr>el_connected := False\<rparr>)" using element_ok_superseded [OF assms] by (simp add: superseded_ok_def)
  from stop_current_ok [OF this] show ?thesis by (auto simp: disconnectedCallback_def element_ok_def all_finished_def)
qed

text \<open>A controller that is not the current one is silent for good.\<close>

lemma control_superseded:
  assumes "element_ok e" and "i < length (el_controllers e)" and "el_current e \<noteq> Some i" and "ev \<noteq> UStart"
  shows "element_ok (el_control i (ui_apply ev) e)" and "el_html (el_control i (ui_apply ev) e) = el_html e"
    and "el_events (el_control i (ui_apply ev) e) = el_events e"
proof -
  have f: "finished (el_controllers e ! i)" using assms by (simp add: element_ok_def)
  note A = finished_apply [OF f assms(4)] and C = control_silent [where f = "ui_apply ev", OF finished_apply(2) [OF f assms(4)]]
  show "el_html (el_control i (ui_apply ev) e) = el_html e" "el_events (el_control i (ui_apply ev) e) = el_events e" by (fact C)+
  show "element_ok (el_control i (ui_apply ev) e)"
    using assms A C(1) by (auto simp: element_ok_def shows_view_def nth_list_update split: option.splits)
qed

lemma control_ok:
  assumes "element_ok e" and "i < length (el_controllers e)" and "ev \<noteq> UStart"
  shows "element_ok (el_control i (ui_apply ev) e)"
proof (cases "el_current e = Some i")
  case True
  then have "shows_view e (view_of (el_controllers e ! i))" using assms(1) by (simp add: element_ok_def)
  from control_reported [where f = "ui_apply ev", OF reported_apply [OF assms(3)] this] show ?thesis
    using assms True by (auto simp: element_ok_def)
next
  case False
  then show ?thesis using control_superseded [OF assms(1,2) _ assms(3)] by simp
qed

lemma element_ok_step: "element_ok e \<Longrightarrow> element_ok (el_step parse now s e)"
  by (cases s) (auto simp: el_step_def Let_def set_verification_def intro: change_ok connect_ok disconnect_ok attribute_ok control_ok element_ok_attrs
      simp: observedAttributes_def)

lemma element_ok_run: "element_ok e \<Longrightarrow> element_ok (el_run parse steps e)"
  by (induction steps arbitrary: e) (auto simp: el_run_def element_ok_step)

text \<open>
  C30: the element shows its one live controller. Whatever the page does with the element and whatever timers and
  answers come in, a current controller exists exactly while the element is connected with a verification, and what
  stands in the shadow root is that controller's state and countdown; every other controller ever made is stopped
  without a timer, and nothing that happens to it shows or dispatches anything.
\<close>

theorem element_shows_controller:
  fixes parse steps
  defines "e \<equiv> el_run parse steps new_element"
  shows "(\<forall>i. el_current e = Some i \<longrightarrow> i < length (el_controllers e) \<and> el_connected e \<and>
        el_html e = element_html (el_attrs e ''initial-instruction'') (ct_state (el_controllers e ! i)) (ct_secondsLeft (el_controllers e ! i))) \<and>
     (el_connected e \<longrightarrow> (el_current e = None \<longleftrightarrow> el_verification e = None) \<and> (el_current e = None \<longrightarrow> el_html e = [])) \<and>
     (\<forall>i < length (el_controllers e). el_current e \<noteq> Some i \<longrightarrow>
        ct_stopped (el_controllers e ! i) \<and> \<not> ct_polling (el_controllers e ! i) \<and> \<not> ct_ticking (el_controllers e ! i) \<and>
        (\<forall>now ev. el_events (el_step parse now (Control i ev) e) = el_events e \<and> el_html (el_step parse now (Control i ev) e) = el_html e))"
proof -
  have ok: "element_ok e" unfolding e_def by (rule element_ok_run) (simp add: element_ok_def new_element_def)
  have silent: "el_events (el_step parse now (Control i ev) e) = el_events e \<and> el_html (el_step parse now (Control i ev) e) = el_html e"
    if "i < length (el_controllers e)" "el_current e \<noteq> Some i" for i now ev
    using control_superseded(2,3) [OF ok that] by (simp add: el_step_def)
  show ?thesis
    using ok silent by (auto simp: element_ok_def finished_def shows_view_def view_of_def split: option.splits)
qed

section \<open>The button copies the message that is shown\<close>

lemma apply_message: "uv_message (ct_state (ui_apply ev c)) \<in> {None, uv_message (ct_state c)}"
  by (cases ev; auto simp: ui_apply_def ui_start_def ui_stop_def poll_begin_def clearTimers_def onCountdownTick_def poll_answer_def poll_failure_def
      settle_def ui_transition_def Let_def)

definition message_kept :: "element \<Rightarrow> bool" where
  "message_kept e \<longleftrightarrow>
     (\<forall>i. el_current e = Some i \<longrightarrow> (\<exists>v. el_verification e = Some v \<and> uv_message (ct_state (el_controllers e ! i)) \<in> {None, uv_message v}))"

lemma restart_message: "superseded_ok e \<Longrightarrow> message_kept (restart now e)"
  using stop_current_ok [of e] start_new(2)
  by (auto simp: restart_def Let_def message_kept_def all_finished_def view_of_def split: option.split)

lemma restart_if_connected_message:
  assumes "element_ok e" and "el_current e' = el_current e" and "el_controllers e' = el_controllers e" and "el_connected e' = el_connected e"
  shows "message_kept (restart_if_connected now e')"
proof (cases "el_connected e")
  case True
  then show ?thesis
    using assms element_ok_superseded [OF assms(1)] by (simp add: restart_if_connected_def restart_message superseded_ok_def)
next
  case False
  then show ?thesis
    using assms element_ok_disconnected [OF assms(1)] by (simp add: restart_if_connected_def message_kept_def)
qed

lemma message_step:
  assumes "element_ok e" and "message_kept e"
  shows "message_kept (el_step parse now s e)"
proof (cases s)
  case (SetProperty v)
  then show ?thesis by (simp add: el_step_def set_verification_def restart_if_connected_message [OF assms(1)])
next
  case Connect
  have "message_kept (restart now e')" if "el_current e' = el_current e" "el_controllers e' = el_controllers e" for e'
    using that element_ok_superseded [OF assms(1)] by (intro restart_message) (simp add: superseded_ok_def)
  then show ?thesis using Connect assms(2) by (simp add: el_step_def connectedCallback_def Let_def dispatchError_def split: sum.split)
next
  case Disconnect
  have "superseded_ok (e\<lparr>el_connected := False\<rparr>)" using element_ok_superseded [OF assms(1)] by (simp add: superseded_ok_def)
  from stop_current_ok(1) [OF this] show ?thesis
    using Disconnect assms(2) by (simp add: el_step_def disconnectedCallback_def all_finished_def message_kept_def)
next
  case (SetAttribute n v)
  have "message_kept (restart_if_connected now (e\<lparr>el_attrs := a, el_verification := x\<rparr>))" "message_kept (restart_if_connected now (e\<lparr>el_attrs := a\<rparr>))" for a x
    by (rule restart_if_connected_message [OF assms(1)]; simp)+
  moreover have "message_kept (e\<lparr>el_attrs := a\<rparr>)" "message_kept (dispatchError m (e\<lparr>el_attrs := a\<rparr>))" for a m
    using assms(2) by (simp_all add: message_kept_def dispatchError_def)
  ultimately show ?thesis using SetAttribute by (simp add: el_step_def attributeChangedCallback_def Let_def split: sum.split)
next
  case (Control i ev)
  then show ?thesis
    using assms apply_message [of ev "el_controllers e ! i"] by (fastforce simp: el_step_def message_kept_def nth_list_update)
qed

lemma copy_writes_shown:
  fixes parse steps
  defines "e \<equiv> el_run parse steps new_element"
  assumes "el_current e = Some i" and "uv_message (ct_state (el_controllers e ! i)) = Some m" and "m \<noteq> []"
  shows "handleCopy write e = (case write m of Some err \<Rightarrow> (dispatchError err e, []) | None \<Rightarrow> (e, [m]))"
proof -
  have "element_ok (el_run parse steps e0) \<and> message_kept (el_run parse steps e0)" if "element_ok e0 \<and> message_kept e0" for e0
    using that by (induction steps arbitrary: e0) (auto simp: el_run_def element_ok_step message_step)
  moreover have "element_ok new_element \<and> message_kept new_element" by (simp add: element_ok_def message_kept_def new_element_def)
  ultimately have "message_kept e" unfolding e_def by blast
  then obtain v where "el_verification e = Some v" and "uv_message v = Some m" using assms(2,3) by (auto simp: message_kept_def)
  then show ?thesis using assms(4) by (simp add: handleCopy_def truthy_def split: option.split)
qed

section \<open>A page\<close>

text \<open>A verification is shown and verified; later the page changes the instruction.\<close>

definition says_verified :: hosted_status where
  "says_verified = \<lparr>hs_status = Verified, hs_expires_at = 60000, hs_verified_at = Some 900\<rparr>"

definition verified_page :: "(int \<times> element_step) list" where
  "verified_page = [(0, SetProperty (Some demo_pending)), (0, Connect), (1000, Control 0 (UAnswer 1000 says_verified))]"

definition no_parser :: verification_parser where
  "no_parser t = Inl ''Unexpected token''"

lemmas element_eval = el_run_def el_step_def set_verification_def restart_if_connected_def connectedCallback_def attributeChangedCallback_def
  observedAttributes_def restart_def stop_current_def el_control_def el_callback_def Let_def new_element_def new_controller_def ui_start_def ui_stop_def
  clearTimers_def poll_begin_def isTerminal_def ui_apply_def poll_answer_def settle_def ui_transition_def left_pending_def truthy_def

lemma verified_page_run:
  "el_current (el_run no_parser verified_page new_element) = Some 0"
  "map (\<lambda>ev. case ev of Dispatched n v \<Rightarrow> n | DispatchedError m \<Rightarrow> m) (el_events (el_run no_parser verified_page new_element)) = [''syrotp-verified'']"
  "uv_status (ct_state (el_controllers (el_run no_parser verified_page new_element) ! 0)) = Verified"
  by (simp_all add: verified_page_def says_verified_def demo_pending_def element_eval)

theorem element_shows_controller_witness:
  "el_html (el_run no_parser verified_page new_element) = statusBlock ''ok'' ''Phone verified.'' \<and>
     el_connected (el_run no_parser verified_page new_element)"
  using element_shows_controller [where parse = no_parser and steps = verified_page] verified_page_run
  by (simp add: element_html_def)

text \<open>
  Changing an attribute after the outcome starts over from the verification the page once set: the element shows the
  message again, and the next answer dispatches the outcome a second time.
\<close>

lemma attribute_repeats_outcome:
  "map (\<lambda>ev. case ev of Dispatched n v \<Rightarrow> n | DispatchedError m \<Rightarrow> m)
     (el_events (el_run no_parser (verified_page @ [(2000, SetAttribute ''initial-instruction'' (Some ''Hi'')), (3000, Control 1 (UAnswer 3000 says_verified))])
        new_element)) = [''syrotp-verified'', ''syrotp-verified'']"
  by (simp add: verified_page_def says_verified_def demo_pending_def element_eval)

end
