(* ===== verification/AdminPages.thy ===== *)
theory AdminPages
  imports AdminWeb Monitoring
begin

text \<open>
  The pages of the dashboard: \<open>admin/web/plugin.ts\<close> behind its two hooks, \<open>fetchHealth\<close> of
  \<open>admin/web/queries.ts\<close>, and the templates in \<open>admin/views\<close>. The template engine turns a value into
  escaped text; a page is kept as the values its template inserts, in order, with the labels around them. The
  headers of a reply are a map from names in lower case, as the framework keeps them.
\<close>

section \<open>What a page holds\<close>

datatype cell =
    Shown string
  | Pill string string
  | Millis rat

datatype page_part =
    Heading string
  | Note string
  | Card string "cell list" string
  | Table "string list" "cell list list"

record admin_page =
  pg_title :: string
  pg_active :: string
  pg_body :: "page_part list"
  pg_version :: string
  pg_now :: int

definition dashboard_eta :: "dashboard_overview \<Rightarrow> page_part list" where
  "dashboard_eta ov =
     [Heading ''Overview'',
      Card ''Receivers'' [Shown (show_nat (ov_healthy ov)), Shown (show_nat (ov_total ov)), Shown (show_nat (ov_enabled ov))] ''healthy / total, enabled'',
      Card ''Pending verifications'' [Shown (show_nat (ov_pendingVerifications ov))] ''awaiting inbound SMS'',
      Card ''Verified, last 24h'' [Shown (show_nat (ov_verifiedLast24h ov))] ''successful end-to-end'',
      Card ''Inbound SMS, last 24h'' [Shown (show_nat (ov_inboundLast24h ov))] ''total accepted'',
      Card ''Unmatched, last 24h'' [Shown (show_int (ov_unmatchedLast24h ov))] ''no pending verification matched'']"

definition latest :: "string \<Rightarrow> nat \<Rightarrow> page_part" where
  "latest what n = Heading (what @ '' (latest '' @ show_nat n @ '')'')"

definition receiver_cells :: "int \<Rightarrow> receiver_row \<times> string \<times> bool \<Rightarrow> cell list" where
  "receiver_cells now q =
     (case q of (r, appName, healthy) \<Rightarrow>
       [Shown (shortId (rc_id r)), Shown (rc_name r), Shown (if truthy (rc_operator r) then the (rc_operator r) else EM_DASH),
        Shown (maskPhone (rc_msisdn r)),
        (if \<not> rc_enabled r then Pill ''bad'' ''disabled'' else if healthy then Pill ''ok'' ''healthy'' else Pill ''warn'' ''stale''),
        Shown (relativeTime (rc_lastHeartbeatAt r) now)])"

definition receivers_eta :: "int \<Rightarrow> (receiver_row \<times> string \<times> bool) list \<Rightarrow> page_part list" where
  "receivers_eta now rows =
     [latest ''Receivers'' (length rows),
      if rows = [] then Note ''No receivers yet. Run syrotp bootstrap or syrotp receiver add.''
      else Table [''id'', ''name'', ''operator'', ''msisdn (masked)'', ''state'', ''last heartbeat''] (map (receiver_cells now) rows)]"

definition status_name :: "verification_status \<Rightarrow> string" where
  "status_name s = (case s of Pending \<Rightarrow> ''pending'' | Verified \<Rightarrow> ''verified'' | Expired \<Rightarrow> ''expired'' | Cancelled \<Rightarrow> ''cancelled'' | Failed \<Rightarrow> ''failed'')"

definition verification_cells :: "int \<Rightarrow> admin_verification_row \<Rightarrow> cell list" where
  "verification_cells now v =
     [Shown (shortId (av_id v)), Shown (maskPhone (av_phoneE164 v)), Shown (av_purpose v),
      (if av_status v = Verified then Pill ''ok'' ''verified'' else if av_status v = Pending then Pill ''warn'' ''pending''
       else Pill ''muted'' (status_name (av_status v))),
      Shown (relativeTime (Some (av_createdAt v)) now), Shown (relativeTime (Some (av_expiresAt v)) now),
      Shown (if av_verifiedAt v \<noteq> None then relativeTime (av_verifiedAt v) now else EM_DASH)]"

definition verifications_eta :: "int \<Rightarrow> admin_verification_row list \<Rightarrow> page_part list" where
  "verifications_eta now rows =
     [latest ''Verifications'' (length rows),
      if rows = [] then Note ''No verifications yet.''
      else Table [''id'', ''phone (masked)'', ''purpose'', ''status'', ''created'', ''expires'', ''verified''] (map (verification_cells now) rows)]"

definition inbound_cells :: "int \<Rightarrow> admin_inbound_row \<Rightarrow> cell list" where
  "inbound_cells now r =
     [Shown (relativeTime (Some (ai_receivedAt r)) now), Shown (maskPhone (ai_fromE164 r)), Shown (shortId (ai_receiverId r))] @
     (if truthy (ai_matchedVerificationId r) then [Pill ''ok'' ''matched'', Shown (shortId (the (ai_matchedVerificationId r)))]
      else [Pill ''muted'' ''no match'']) @
     [Shown (maskInboundBody (ai_body r))]"

definition inbound_eta :: "int \<Rightarrow> admin_inbound_row list \<Rightarrow> page_part list" where
  "inbound_eta now rows =
     [latest ''Inbound SMS'' (length rows),
      Note ''Bodies are intentionally truncated. The dashboard never displays full SMS contents.'',
      if rows = [] then Note ''No inbound SMS yet.''
      else Table [''received'', ''from (masked)'', ''receiver'', ''matched verification'', ''body (verb + length)''] (map (inbound_cells now) rows)]"

section \<open>The health page\<close>

record admin_health =
  ah_serverVersion :: string
  ah_dbOk :: bool
  ah_dbLatencyMs :: "rat option"
  ah_redisOk :: bool
  ah_redisLatencyMs :: "rat option"
  ah_receivers :: receiver_states

definition round_hundredths :: "rat \<Rightarrow> rat" where
  "round_hundredths n = of_int (js_round (n * 100)) / 100"

text \<open>
  What the outside world does while a page is built: whether the ping and the queries of the database
  succeed, what Redis answers on a connection of its own, the times the two pings take, and the two clocks.
\<close>

record page_env =
  pe_ping :: bool
  pe_queries :: bool
  pe_pong :: "string option"
  pe_dbMs :: rat
  pe_redisMs :: rat
  pe_now :: int
  pe_dbnow :: int
  pe_version :: "string option"

definition server_version :: "page_env \<Rightarrow> string" where
  "server_version pe = (case pe_version pe of None \<Rightarrow> ''0.1.0'' | Some v \<Rightarrow> v)"

definition query :: "page_env \<Rightarrow> 'a \<Rightarrow> exn + 'a" where
  "query pe a = (if pe_queries pe then Inr a else Inl (JsError ''CONNECT_TIMEOUT''))"

definition fetchHealth :: "config \<Rightarrow> page_env \<Rightarrow> db \<Rightarrow> exn + admin_health" where
  "fetchHealth cfg pe d =
     map_sum id (\<lambda>states.
         \<lparr>ah_serverVersion = server_version pe, ah_dbOk = pe_ping pe, ah_dbLatencyMs = Some (round_hundredths (pe_dbMs pe)),
          ah_redisOk = (pe_pong pe = Some ''PONG''), ah_redisLatencyMs = Some (round_hundredths (pe_redisMs pe)), ah_receivers = states\<rparr>)
       (query pe (health_receivers cfg (pe_dbnow pe) d))"

definition up_pill :: "bool \<Rightarrow> cell" where
  "up_pill ok = (if ok then Pill ''ok'' ''ok'' else Pill ''bad'' ''down'')"

definition latency_cell :: "rat option \<Rightarrow> cell" where
  "latency_cell ms = (case ms of None \<Rightarrow> Shown EM_DASH | Some t \<Rightarrow> Millis t)"

definition health_eta :: "admin_health \<Rightarrow> page_part list" where
  "health_eta h =
     [Heading ''Health'',
      Card ''Server'' [Shown (''v'' @ ah_serverVersion h)] ''running'',
      Card ''PostgreSQL'' [up_pill (ah_dbOk h), latency_cell (ah_dbLatencyMs h)] ''ping'',
      Card ''Redis'' [up_pill (ah_redisOk h), latency_cell (ah_redisLatencyMs h)] ''ping'',
      Card ''Receivers, healthy'' [Shown (show_nat (rs_healthy (ah_receivers h)))] ''heartbeat within window'',
      Card ''Receivers, stale'' [Shown (show_nat (rs_stale (ah_receivers h)))] ''enabled but no fresh heartbeat'',
      Card ''Receivers, disabled'' [Shown (show_nat (rs_disabled (ah_receivers h)))] ''enabled = false'']"

section \<open>Replies\<close>

type_synonym headers = "string \<Rightarrow> string option"

definition header :: "string \<Rightarrow> string \<Rightarrow> headers \<Rightarrow> headers" where
  "header n v hs = hs(js_lower n \<mapsto> v)"

definition squoted :: "string \<Rightarrow> string" where
  "squoted s = CHR 0x27 # s @ [CHR 0x27]"

definition ADMIN_CSP :: string where
  "ADMIN_CSP = ''default-src '' @ squoted ''none'' @ ''; style-src '' @ squoted ''self'' @ '' '' @ squoted ''unsafe-inline'' @ ''; img-src '' @
     squoted ''self'' @ ''; base-uri '' @ squoted ''none'' @ ''; frame-ancestors '' @ squoted ''none''"

definition applyHardeningHeaders :: "headers \<Rightarrow> headers" where
  "applyHardeningHeaders hs =
     header ''Content-Security-Policy'' ADMIN_CSP (header ''Cache-Control'' ''no-store'' (header ''Referrer-Policy'' ''no-referrer''
       (header ''X-Content-Type-Options'' ''nosniff'' (header ''X-Frame-Options'' ''DENY'' hs))))"

datatype admin_body =
    Html admin_page
  | Signals abuse_signals
  | Problem reply

record admin_reply =
  ar_status :: int
  ar_headers :: headers
  ar_body :: admin_body

text \<open>The \<open>onSend\<close> hook of the scope.\<close>

definition admin_onSend :: "admin_reply \<Rightarrow> admin_reply" where
  "admin_onSend r =
     (let hs = applyHardeningHeaders (ar_headers r)
      in r\<lparr>ar_headers := if hs ''content-type'' = None then header ''Content-Type'' ''text/html; charset=utf-8'' hs else hs\<rparr>)"

definition renderPage :: "page_env \<Rightarrow> string \<Rightarrow> string \<Rightarrow> page_part list \<Rightarrow> headers \<Rightarrow> admin_reply" where
  "renderPage pe title active body hs =
     \<lparr>ar_status = 200, ar_headers = header ''Content-Type'' ''text/html; charset=utf-8'' hs,
      ar_body = Html \<lparr>pg_title = title, pg_active = active, pg_body = body, pg_version = server_version pe, pg_now = pe_now pe\<rparr>\<rparr>"

text \<open>The routes of the scope; \<open>cached\<close> are the signals the refresh loop has stored.\<close>

datatype admin_route = Dashboard | ReceiversPage | VerificationsPage | InboundPage | HealthPage | AbuseSignals

definition admin_path :: "string \<Rightarrow> admin_route option" where
  "admin_path = map_of
     [(''/admin'', Dashboard), (''/admin/receivers'', ReceiversPage), (''/admin/verifications'', VerificationsPage),
      (''/admin/inbound-sms'', InboundPage), (''/admin/health'', HealthPage), (''/admin/abuse-signals'', AbuseSignals)]"

definition admin_handler ::
  "config \<Rightarrow> (string \<Rightarrow> int) \<Rightarrow> abuse_signals option \<Rightarrow> page_env \<Rightarrow> admin_route \<Rightarrow> db \<Rightarrow> headers \<Rightarrow> exn + admin_reply" where
  "admin_handler cfg collate cached pe route d hs =
     (case route of
        Dashboard \<Rightarrow> map_sum id (\<lambda>ov. renderPage pe ''Overview'' ''dashboard'' (dashboard_eta ov) hs) (query pe (fetchOverview cfg (pe_now pe) (pe_dbnow pe) d))
      | ReceiversPage \<Rightarrow> map_sum id (\<lambda>rows. renderPage pe ''Receivers'' ''receivers'' (receivers_eta (pe_now pe) rows) hs) (query pe (fetchReceivers cfg (pe_now pe) d))
      | VerificationsPage \<Rightarrow> map_sum id (\<lambda>rows. renderPage pe ''Verifications'' ''verifications'' (verifications_eta (pe_now pe) rows) hs) (query pe (fetchVerifications d))
      | InboundPage \<Rightarrow> map_sum id (\<lambda>rows. renderPage pe ''Inbound SMS'' ''inbound-sms'' (inbound_eta (pe_now pe) rows) hs) (query pe (fetchInbound d))
      | HealthPage \<Rightarrow> map_sum id (\<lambda>h. renderPage pe ''Health'' ''health'' (health_eta h) hs) (fetchHealth cfg pe d)
      | AbuseSignals \<Rightarrow>
          map_sum id (\<lambda>s. \<lparr>ar_status = 200, ar_headers = header ''Content-Type'' ''application/json; charset=utf-8'' hs, ar_body = Signals s\<rparr>)
            (case cached of Some s \<Rightarrow> Inr s | None \<Rightarrow> query pe (computeSignals collate (pe_dbnow pe) d)))"

text \<open>
  What the root error handler sends for a thrown value: JSON, whose content type the framework sets before the
  \<open>onSend\<close> hooks run.
\<close>

definition thrown_reply :: "string \<Rightarrow> exn \<Rightarrow> headers \<Rightarrow> admin_reply" where
  "thrown_reply reqid e hs =
     (let p = error_handler e reqid in \<lparr>ar_status = rp_status p, ar_headers = header ''Content-Type'' ''application/json; charset=utf-8'' hs, ar_body = Problem p\<rparr>)"

text \<open>The library answers 401 with a challenge; \<open>badHeader\<close> is the error it throws for a header it cannot read.\<close>

definition basic_realm :: string where
  "basic_realm = ''Basic realm='' @ [CHR 0x22] @ ''Restricted'' @ [CHR 0x22]"

definition invalid_credentials :: exn where
  "invalid_credentials = FastifyError \<lparr>fe_validation = False, fe_statusCode = Some 401, fe_code = None, fe_message = ''invalid credentials''\<rparr>"

record admin_env =
  ae_scrypt :: scrypt_fn
  ae_decode :: "string option \<Rightarrow> (string \<times> string) option"
  ae_badHeader :: fastify_error
  ae_user :: string
  ae_hash :: string
  ae_collate :: "string \<Rightarrow> int"
  ae_headers :: headers

text \<open>
  One GET: a path outside the table, or any path when the dashboard is not mounted, is the 404 of the root. Otherwise
  the hooks run, then the handler, and whatever was sent or thrown passes the \<open>onSend\<close> hook. \<open>limit\<close> is the setting
  \<open>RATE_LIMIT_ADMIN_PER_IP_PER_5MIN\<close>.
\<close>

definition admin_serve ::
  "config \<Rightarrow> int \<Rightarrow> admin_env \<Rightarrow> abuse_signals option \<Rightarrow> page_env \<Rightarrow> string \<Rightarrow> string \<Rightarrow> string \<Rightarrow> string option \<Rightarrow> db \<Rightarrow> redis_store \<Rightarrow> admin_reply \<times> redis_store" where
  "admin_serve cfg limit ae cached pe reqid path ip authorization d rs =
     (let absent = \<lparr>ar_status = 404, ar_headers = header ''Content-Type'' ''application/json; charset=utf-8'' (ae_headers ae), ar_body = Problem (not_found_handler reqid)\<rparr> in
      case admin_path path of
        None \<Rightarrow> (absent, rs)
      | Some route \<Rightarrow>
        (let (gate, rs1) = admin_gate (ae_scrypt ae) (ae_decode ae) (ae_user ae) (ae_hash ae) limit
               (pe_now pe) ip authorization rs
         in case gate of
           AdminNotFound \<Rightarrow> (absent, rs1)
         | AdminRateLimited n \<Rightarrow> (admin_onSend (thrown_reply reqid (rateLimited n) (applyHardeningHeaders (ae_headers ae))), rs1)
         | AdminUnauthorized \<Rightarrow>
             (admin_onSend (thrown_reply reqid (if ae_decode ae authorization = None then FastifyError (ae_badHeader ae) else invalid_credentials)
                (header ''WWW-Authenticate'' basic_realm (ae_headers ae))), rs1)
         | AdminPage \<Rightarrow>
             (admin_onSend (case admin_handler cfg (ae_collate ae) cached pe route d (ae_headers ae) of
                Inl e \<Rightarrow> thrown_reply reqid e (ae_headers ae)
              | Inr r \<Rightarrow> r), rs1)))"

section \<open>The dashboard sees the masked database\<close>

text \<open>What is left of the database when everything a page must not show is taken out or masked.\<close>

definition masked_receiver :: "receiver_row \<Rightarrow> receiver_row" where
  "masked_receiver r = r\<lparr>rc_msisdn := maskPhone (rc_msisdn r), rc_secretHash := []\<rparr>"

definition masked_verification :: "verification_row \<Rightarrow> verification_row" where
  "masked_verification v = v\<lparr>vr_phoneE164 := maskPhone (vr_phoneE164 v), vr_clientRef := None, vr_locale := None, vr_receiverId := [],
     vr_receiverMsisdnSnapshot := None, vr_receiverOperatorSnapshot := None, vr_code := [], vr_messagePrefix := [], vr_createdIp := None\<rparr>"

definition masked_inbound :: "inbound_row \<Rightarrow> inbound_row" where
  "masked_inbound i = i\<lparr>in_fromE164 := maskPhone (in_fromE164 i), in_toMsisdn := [], in_body := maskInboundBody (in_body i), in_idempotencyKey := []\<rparr>"

definition masked_binding :: "binding_row \<Rightarrow> binding_row" where
  "masked_binding b = b\<lparr>pb_receiverId := [], pb_phoneE164 := [], pb_nonce := []\<rparr>"

definition masked_db :: "db \<Rightarrow> db" where
  "masked_db d =
     empty_db\<lparr>apps := apps d, receivers := map masked_receiver (receivers d), verifications := map masked_verification (verifications d),
       inboundSms := map masked_inbound (inboundSms d), phoneBindings := map masked_binding (phoneBindings d)\<rparr>"

lemma masked_fields [simp]:
  "rc_id (masked_receiver r) = rc_id r" "rc_appId (masked_receiver r) = rc_appId r" "rc_name (masked_receiver r) = rc_name r"
  "rc_operator (masked_receiver r) = rc_operator r" "rc_enabled (masked_receiver r) = rc_enabled r"
  "rc_lastHeartbeatAt (masked_receiver r) = rc_lastHeartbeatAt r" "rc_createdAt (masked_receiver r) = rc_createdAt r"
  "rc_msisdn (masked_receiver r) = maskPhone (rc_msisdn r)"
  "vr_id (masked_verification v) = vr_id v" "vr_appId (masked_verification v) = vr_appId v" "vr_purpose (masked_verification v) = vr_purpose v"
  "vr_status (masked_verification v) = vr_status v" "vr_createdAt (masked_verification v) = vr_createdAt v"
  "vr_expiresAt (masked_verification v) = vr_expiresAt v" "vr_verifiedAt (masked_verification v) = vr_verifiedAt v"
  "vr_phoneE164 (masked_verification v) = maskPhone (vr_phoneE164 v)"
  "in_id (masked_inbound i) = in_id i" "in_receiverId (masked_inbound i) = in_receiverId i" "in_receivedAt (masked_inbound i) = in_receivedAt i"
  "in_matchedVerificationId (masked_inbound i) = in_matchedVerificationId i" "in_fromE164 (masked_inbound i) = maskPhone (in_fromE164 i)"
  "in_body (masked_inbound i) = maskInboundBody (in_body i)"
  "pb_appId (masked_binding b) = pb_appId b" "pb_status (masked_binding b) = pb_status b" "pb_createdAt (masked_binding b) = pb_createdAt b"
  "pb_expiresAt (masked_binding b) = pb_expiresAt b"
  by (simp_all add: masked_receiver_def masked_verification_def masked_inbound_def masked_binding_def)

lemma masked_tables [simp]:
  "apps (masked_db d) = apps d" "receivers (masked_db d) = map masked_receiver (receivers d)"
  "verifications (masked_db d) = map masked_verification (verifications d)" "inboundSms (masked_db d) = map masked_inbound (inboundSms d)"
  "phoneBindings (masked_db d) = map masked_binding (phoneBindings d)"
  by (simp_all add: masked_db_def)

text \<open>Sorting, filtering and counting by what masking keeps.\<close>

lemma insort_key_kept: "(\<And>x. k' (m x) = k x) \<Longrightarrow> insort_key k' (m x) (map m xs) = map m (insort_key k x xs)"
  by (induction xs) auto

lemma sort_key_kept: "(\<And>x. k' (m x) = k x) \<Longrightarrow> sort_key k' (map m xs) = map m (sort_key k xs)"
  by (induction xs) (simp_all add: sort_key_def insort_key_kept)

lemma filter_kept: "(\<And>x. P' (m x) = P x) \<Longrightarrow> filter P' (map m xs) = map m (filter P xs)"
  by (induction xs) auto

lemma group_counts_kept:
  assumes "\<And>x. key' (m x) = key x" and "\<And>x. hit' (m x) = hit x"
  shows "group_counts key' hit' (map m xs) = group_counts key hit xs"
proof -
  have "map key' (map m xs) = map key xs" using assms(1) by simp
  moreover have "length (filter (\<lambda>r. key' r = k) (map m xs)) = length (filter (\<lambda>r. key r = k) xs)"
      "length (filter (\<lambda>r. key' r = k \<and> hit' r) (map m xs)) = length (filter (\<lambda>r. key r = k \<and> hit r) xs)" for k
    by (simp_all add: filter_kept [where P = "\<lambda>r. key r = k"] filter_kept [where P = "\<lambda>r. key r = k \<and> hit r"] assms)
  ultimately show ?thesis by (simp only: group_counts_def)
qed

text \<open>Every query commutes with masking.\<close>

lemma query_healthy_masked [simp]: "query_healthy cfg dbnow (masked_receiver r) = query_healthy cfg dbnow r"
  by (simp add: query_healthy_def)

lemma masked_overview: "fetchOverview cfg now dbnow (masked_db d) = fetchOverview cfg now dbnow d"
  by (simp add: fetchOverview_def Let_def filter_map comp_def)

lemma masked_health: "health_receivers cfg dbnow (masked_db d) = health_receivers cfg dbnow d"
  by (simp add: health_receivers_def filter_map comp_def)

definition masked_item :: "receiver_row \<times> string \<times> bool \<Rightarrow> receiver_row \<times> string \<times> bool" where
  "masked_item q = (case q of (r, n, h) \<Rightarrow> (masked_receiver r, n, h))"

lemma masked_receivers: "fetchReceivers cfg now (masked_db d) = map masked_item (fetchReceivers cfg now d)"
proof -
  let ?j = "\<lambda>rs. concat (map (\<lambda>r. map (Pair r) (filter (\<lambda>a. ap_id a = rc_appId r) (apps d))) rs)"
    and ?m = "\<lambda>(r :: receiver_row, a :: app_row). (masked_receiver r, a)"
  have "?j (map masked_receiver rs) = map ?m (?j rs)" for rs by (induction rs) simp_all
  then have "sort_key (\<lambda>(r, a). - rc_createdAt r) (?j (map masked_receiver (receivers d))) =
      map ?m (sort_key (\<lambda>(r, a). - rc_createdAt r) (?j (receivers d)))"
    by (simp add: sort_key_kept [where k = "\<lambda>(r, a). - rc_createdAt r"] split: prod.split)
  then show ?thesis
    by (simp add: fetchReceivers_def Let_def take_map comp_def masked_item_def split_def cong: option.case_cong)
qed

definition masked_shown :: "admin_verification_row \<Rightarrow> admin_verification_row" where
  "masked_shown v = v\<lparr>av_phoneE164 := maskPhone (av_phoneE164 v)\<rparr>"

lemma masked_verifications: "fetchVerifications (masked_db d) = map masked_shown (fetchVerifications d)"
  by (simp add: fetchVerifications_def sort_key_kept [where k = "\<lambda>v. - vr_createdAt v"] take_map comp_def masked_shown_def)

definition masked_sms :: "admin_inbound_row \<Rightarrow> admin_inbound_row" where
  "masked_sms i = i\<lparr>ai_fromE164 := maskPhone (ai_fromE164 i), ai_body := maskInboundBody (ai_body i)\<rparr>"

lemma masked_inbounds: "fetchInbound (masked_db d) = map masked_sms (fetchInbound d)"
  by (simp add: fetchInbound_def sort_key_kept [where k = "\<lambda>i. - in_receivedAt i"] take_map comp_def masked_sms_def)

lemma masked_signals: "computeSignals collate dbnow (masked_db d) = computeSignals collate dbnow d"
proof -
  let ?m = "\<lambda>(i, r). (masked_inbound i, masked_receiver r)"
  have v: "verify_rows dbnow (masked_db d) = map masked_verification (verify_rows dbnow d)"
    by (simp add: verify_rows_def filter_map comp_def)
  have b: "binding_rows dbnow (masked_db d) = map masked_binding (binding_rows dbnow d)"
    by (simp add: binding_rows_def filter_map comp_def)
  have "concat (map (\<lambda>i. map (Pair i) (filter (\<lambda>r. rc_id r = in_receiverId i) (receivers (masked_db d)))) (map masked_inbound is)) =
      map ?m (concat (map (\<lambda>i. map (Pair i) (filter (\<lambda>r. rc_id r = in_receiverId i) (receivers d))) is))" for "is"
    by (induction "is") (simp_all add: filter_map comp_def)
  then have i: "inbound_rows dbnow (masked_db d) = map ?m (inbound_rows dbnow d)"
    by (simp add: inbound_rows_def filter_map comp_def split_def)
  have g1: "group_counts vr_appId (\<lambda>v. vr_status v = Failed) (map masked_verification vs) = group_counts vr_appId (\<lambda>v. vr_status v = Failed) vs" for vs
    by (rule group_counts_kept) simp_all
  have g2: "group_counts pb_appId (expired_binding dbnow) (map masked_binding bs) = group_counts pb_appId (expired_binding dbnow) bs" for bs
    by (rule group_counts_kept) (simp_all add: expired_binding_def)
  have g3: "group_counts (\<lambda>(i, r). (rc_appId r, in_receiverId i)) (\<lambda>(i, r). in_matchedVerificationId i = None) (map ?m ps) =
      group_counts (\<lambda>(i, r). (rc_appId r, in_receiverId i)) (\<lambda>(i, r). in_matchedVerificationId i = None) ps" for ps
    by (rule group_counts_kept) (simp_all add: split_def)
  show ?thesis unfolding computeSignals_def v b i g1 g2 g3 ..
qed

text \<open>And what the templates insert is determined by masked rows.\<close>

lemma map_same:
  assumes "map f xs = map f ys" and "\<And>x y. f x = f y \<Longrightarrow> g x = g y"
  shows "map g xs = map g ys"
proof (rule nth_equalityI)
  have n: "length xs = length ys" using assms(1) by (rule map_eq_imp_length_eq)
  then show "length (map g xs) = length (map g ys)" by simp
  fix i assume "i < length (map g xs)"
  then have i: "i < length xs" "i < length ys" using n by simp_all
  have "map f xs ! i = map f ys ! i" by (simp only: assms(1))
  then have "f (xs ! i) = f (ys ! i)" by (simp only: nth_map i)
  then show "map g xs ! i = map g ys ! i" unfolding nth_map [OF i(1)] nth_map [OF i(2)] by (rule assms(2))
qed

lemma receiver_cells_same: "masked_item p = masked_item q \<Longrightarrow> receiver_cells now p = receiver_cells now q"
proof -
  obtain r n h r' n' h' where pq: "p = (r, n, h)" "q = (r', n', h')" by (metis prod_cases3)
  assume "masked_item p = masked_item q"
  then have m: "masked_receiver r = masked_receiver r'" "n = n'" "h = h'" by (simp_all add: pq masked_item_def)
  have "rc_id r = rc_id r'" "rc_name r = rc_name r'" "rc_operator r = rc_operator r'" "maskPhone (rc_msisdn r) = maskPhone (rc_msisdn r')"
    "rc_enabled r = rc_enabled r'" "rc_lastHeartbeatAt r = rc_lastHeartbeatAt r'"
    using arg_cong [OF m(1), of rc_id] arg_cong [OF m(1), of rc_name] arg_cong [OF m(1), of rc_operator] arg_cong [OF m(1), of rc_msisdn]
      arg_cong [OF m(1), of rc_enabled] arg_cong [OF m(1), of rc_lastHeartbeatAt] by simp_all
  with m(2,3) show ?thesis unfolding pq receiver_cells_def by (simp only: prod.case)
qed

lemma verification_cells_same: "masked_shown v = masked_shown v' \<Longrightarrow> verification_cells now v = verification_cells now v'"
  by (cases v; cases v') (simp add: masked_shown_def verification_cells_def)

lemma inbound_cells_same: "masked_sms i = masked_sms i' \<Longrightarrow> inbound_cells now i = inbound_cells now i'"
  by (cases i; cases i') (simp add: masked_sms_def inbound_cells_def)

lemma tables_same:
  "map masked_item rs = map masked_item rs' \<Longrightarrow> receivers_eta now rs = receivers_eta now rs'"
  "map masked_shown vs = map masked_shown vs' \<Longrightarrow> verifications_eta now vs = verifications_eta now vs'"
  "map masked_sms ss = map masked_sms ss' \<Longrightarrow> inbound_eta now ss = inbound_eta now ss'"
proof -
  have e: "length xs = length ys \<and> (xs = [] \<longleftrightarrow> ys = [])" if "map f xs = map f ys" for f :: "'a \<Rightarrow> 'b" and xs ys
    using map_eq_imp_length_eq [OF that] by auto
  show "map masked_item rs = map masked_item rs' \<Longrightarrow> receivers_eta now rs = receivers_eta now rs'"
    using e [of masked_item rs rs'] map_same [of masked_item rs rs', OF _ receiver_cells_same] by (auto simp: receivers_eta_def)
  show "map masked_shown vs = map masked_shown vs' \<Longrightarrow> verifications_eta now vs = verifications_eta now vs'"
    using e [of masked_shown vs vs'] map_same [of masked_shown vs vs', OF _ verification_cells_same] by (auto simp: verifications_eta_def)
  show "map masked_sms ss = map masked_sms ss' \<Longrightarrow> inbound_eta now ss = inbound_eta now ss'"
    using e [of masked_sms ss ss'] map_same [of masked_sms ss ss', OF _ inbound_cells_same] by (auto simp: inbound_eta_def)
qed

lemma handler_masked:
  assumes "masked_db d = masked_db d'"
  shows "admin_handler cfg collate cached pe route d hs = admin_handler cfg collate cached pe route d' hs"
proof -
  note same = masked_overview masked_health masked_signals
  have "fetchOverview cfg (pe_now pe) (pe_dbnow pe) d = fetchOverview cfg (pe_now pe) (pe_dbnow pe) d'" by (metis assms same(1))
  moreover have "health_receivers cfg (pe_dbnow pe) d = health_receivers cfg (pe_dbnow pe) d'" by (metis assms same(2))
  moreover have "computeSignals collate (pe_dbnow pe) d = computeSignals collate (pe_dbnow pe) d'" by (metis assms same(3))
  moreover have "receivers_eta now (fetchReceivers cfg now d) = receivers_eta now (fetchReceivers cfg now d')" for now
    by (rule tables_same) (metis assms masked_receivers)
  moreover have "verifications_eta now (fetchVerifications d) = verifications_eta now (fetchVerifications d')" for now
    by (rule tables_same) (metis assms masked_verifications)
  moreover have "inbound_eta now (fetchInbound d) = inbound_eta now (fetchInbound d')" for now
    by (rule tables_same) (metis assms masked_inbounds)
  ultimately show ?thesis by (cases route) (simp_all add: admin_handler_def fetchHealth_def query_def split: option.split)
qed


section \<open>Hardening\<close>

lemma header_names:
  "js_lower ''Content-Security-Policy'' = ''content-security-policy''" "js_lower ''Cache-Control'' = ''cache-control''"
  "js_lower ''Referrer-Policy'' = ''referrer-policy''" "js_lower ''X-Content-Type-Options'' = ''x-content-type-options''"
  "js_lower ''X-Frame-Options'' = ''x-frame-options''" "js_lower ''Content-Type'' = ''content-type''"
  by code_simp+

text \<open>What the hook makes sure of.\<close>

definition hardened :: "headers \<Rightarrow> bool" where
  "hardened hs \<longleftrightarrow> hs ''x-frame-options'' = Some ''DENY'' \<and> hs ''x-content-type-options'' = Some ''nosniff'' \<and>
     hs ''referrer-policy'' = Some ''no-referrer'' \<and> hs ''cache-control'' = Some ''no-store'' \<and> hs ''content-security-policy'' = Some ADMIN_CSP"

lemma onSend_hardened: "hardened (ar_headers (admin_onSend r))"
  by (simp add: admin_onSend_def applyHardeningHeaders_def header_def hardened_def Let_def header_names)

lemma onSend_keeps:
  "ar_headers r ''content-type'' = Some t \<Longrightarrow> ar_headers (admin_onSend r) ''content-type'' = Some t"
  "ar_status (admin_onSend r) = ar_status r" "ar_body (admin_onSend r) = ar_body r"
  by (simp_all add: admin_onSend_def applyHardeningHeaders_def header_def Let_def header_names)

definition body_type :: "admin_body \<Rightarrow> string" where
  "body_type b = (case b of Html _ \<Rightarrow> ''text/html; charset=utf-8'' | _ \<Rightarrow> ''application/json; charset=utf-8'')"

definition reply_typed :: "admin_reply \<Rightarrow> bool" where
  "reply_typed r \<longleftrightarrow> ar_headers r ''content-type'' = Some (body_type (ar_body r)) \<and> (ar_status r = 200 \<or> (\<exists>p. ar_body r = Problem p))"

lemma typed_thrown: "reply_typed (thrown_reply reqid e hs)"
  by (simp add: reply_typed_def thrown_reply_def Let_def header_def header_names body_type_def)

lemma typed_handler: "admin_handler cfg collate cached pe route d hs = Inr r \<Longrightarrow> reply_typed r"
  by (cases route) (auto simp: admin_handler_def query_def fetchHealth_def renderPage_def reply_typed_def header_def header_names body_type_def
      split: if_splits option.splits)

lemma typed_onSend: "reply_typed r \<Longrightarrow> reply_typed (admin_onSend r)"
  by (simp add: reply_typed_def onSend_keeps)

theorem admin_hardened:
  assumes "admin_mounted (ae_user ae) (ae_hash ae)" and "admin_path path \<noteq> None"
  shows "hardened (ar_headers (fst (admin_serve cfg limit ae cached pe reqid path ip authorization d rs)))"
    and "reply_typed (fst (admin_serve cfg limit ae cached pe reqid path ip authorization d rs))"
proof -
  obtain route where route: "admin_path path = Some route" using assms(2) by blast
  obtain g rs1 where gate: "admin_gate (ae_scrypt ae) (ae_decode ae) (ae_user ae) (ae_hash ae) limit (pe_now pe) ip authorization rs = (g, rs1)"
    by (cases "admin_gate (ae_scrypt ae) (ae_decode ae) (ae_user ae) (ae_hash ae) limit (pe_now pe) ip authorization rs")
  then have g: "g \<noteq> AdminNotFound" using assms(1) by (auto simp: admin_gate_def Let_def split: prod.splits option.splits if_splits)
  have "\<exists>r. fst (admin_serve cfg limit ae cached pe reqid path ip authorization d rs) = admin_onSend r \<and> reply_typed r"
  proof (cases g)
    case AdminPage
    then show ?thesis
      using typed_handler typed_thrown
      by (cases "admin_handler cfg (ae_collate ae) cached pe route d (ae_headers ae)") (auto simp: admin_serve_def route gate Let_def)
  qed (use g typed_thrown in \<open>auto simp: admin_serve_def route gate Let_def\<close>)
  then show "hardened (ar_headers (fst (admin_serve cfg limit ae cached pe reqid path ip authorization d rs)))"
    "reply_typed (fst (admin_serve cfg limit ae cached pe reqid path ip authorization d rs))"
    using onSend_hardened typed_onSend by auto
qed

text \<open>
  The health page can hardly say that the database is down: it catches the failure of its ping and then sends a query
  whose failure it does not catch, so it appears only when that query succeeded.
\<close>

lemma health_page_hides_outage:
  "fetchHealth cfg pe d = Inr h \<Longrightarrow> pe_queries pe"
  "\<not> pe_queries pe \<Longrightarrow> admin_handler cfg collate cached pe HealthPage d hs = Inl (JsError ''CONNECT_TIMEOUT'')"
  by (auto simp: fetchHealth_def query_def admin_handler_def split: if_splits)

section \<open>A page\<close>

definition stored_once :: "string \<Rightarrow> string \<Rightarrow> string \<Rightarrow> db" where
  "stored_once phone code body =
     empty_db\<lparr>verifications := [\<lparr>vr_id = ''vrf_01HZZZ'', vr_appId = ''app_1'', vr_phoneE164 = phone, vr_purpose = ''login'', vr_clientRef = None,
       vr_locale = None, vr_receiverId = ''rcv_1'', vr_receiverMsisdnSnapshot = None, vr_receiverOperatorSnapshot = None, vr_code = code,
       vr_messagePrefix = ''VERIFY'', vr_status = Verified, vr_attempts = 0, vr_expiresAt = 600000, vr_verifiedAt = Some 5000, vr_cancelledAt = None,
       vr_matchedInboundId = None, vr_createdIp = None, vr_createdAt = 1000\<rparr>],
       inboundSms := [\<lparr>in_id = ''in_1'', in_receiverId = ''rcv_1'', in_fromE164 = phone, in_toMsisdn = ''+963900000000'', in_body = body,
         in_receivedAt = 5000, in_idempotencyKey = ''k'', in_matchedVerificationId = Some ''vrf_01HZZZ'', in_createdAt = 5000\<rparr>]\<rparr>"

definition demo_hash :: string where
  "demo_hash = ''scrypt$'' @ to_hex (replicate 16 CHR ''s'') @ ''$'' @ to_hex (replicate 64 CHR ''k'')"

definition demo_admin :: admin_env where
  "demo_admin = \<lparr>ae_scrypt = (\<lambda>p s n. if p = ''pw'' then Some (replicate n CHR ''k'') else None), ae_decode = map_option (\<lambda>h. (''root'', h)),
     ae_badHeader = \<lparr>fe_validation = False, fe_statusCode = Some 401, fe_code = None, fe_message = ''bad header''\<rparr>, ae_user = ''root'', ae_hash = demo_hash,
     ae_collate = (\<lambda>s. 0), ae_headers = (\<lambda>n. None)\<rparr>"

definition demo_page_env :: page_env where
  "demo_page_env = \<lparr>pe_ping = True, pe_queries = True, pe_pong = Some ''PONG'', pe_dbMs = 1, pe_redisMs = 1, pe_now = 10000, pe_dbnow = 10000, pe_version = None\<rparr>"

lemma demo_masks:
  "maskPhone ''+963991234567'' = ''+96399****567''" "maskPhone ''+963990000567'' = ''+96399****567''"
  "maskInboundBody ''VERIFY A7K9P2'' = ''VERIFY *** (13 bytes)''" "maskInboundBody ''VERIFY B22222'' = ''VERIFY *** (13 bytes)''"
  by code_simp+

lemma demo_opens: "ar_status (fst (admin_serve default_config 10 demo_admin None demo_page_env ''r'' ''/admin/inbound-sms'' ''1'' (Some ''pw'') d empty_redis)) = 200"
proof -
  have "admin_mounted ''root'' demo_hash"
    using split_stored [of "replicate 16 CHR ''s''" "replicate 64 CHR ''k''"] to_hex_class
    by (simp add: admin_mounted_def HASH_RE_def all_in_between_def demo_hash_def)
  moreover have "verifyAdminPassword (ae_scrypt demo_admin) demo_hash ''pw''"
    unfolding demo_hash_def by (rule verify_stored [THEN iffD2]) (simp_all add: demo_admin_def)
  ultimately have "fst (admin_gate (ae_scrypt demo_admin) (ae_decode demo_admin) ''root'' demo_hash 10 10000 ''1'' (Some ''pw'') empty_redis) = AdminPage"
    by (simp add: admin_gate_def admin_validate_def compareUser_def rateCheck_def redis_incr_def redis_get_def Let_def demo_admin_def empty_redis_def)
  then show ?thesis
    by (simp add: admin_serve_def admin_path_def demo_admin_def demo_page_env_def admin_handler_def query_def renderPage_def onSend_keeps split_def)
qed


text \<open>With the password the page is shown, with the mask.\<close>

lemma demo_inbound_page:
  "inbound_eta 10000 (fetchInbound (stored_once ''+963991234567'' ''A7K9P2'' ''VERIFY A7K9P2'')) ! 2 =
     Table [''received'', ''from (masked)'', ''receiver'', ''matched verification'', ''body (verb + length)'']
       [[Shown ''5s ago'', Shown ''+96399****567'', Shown ''rcv_1'', Pill ''ok'' ''matched'', Shown (''vrf_01HZ'' @ ELLIPSIS), Shown ''VERIFY *** (13 bytes)'']]"
proof -
  have "relativeTime (Some 5000) 10000 = ''5s ago''" "shortId ''rcv_1'' = ''rcv_1''" "shortId ''vrf_01HZZZ'' = ''vrf_01HZ'' @ ELLIPSIS" by code_simp+
  then show ?thesis
    by (simp add: inbound_eta_def fetchInbound_def stored_once_def inbound_cells_def PAGE_LIMIT_def truthy_def demo_masks numeral_2_eq_2)
qed

end
