(* ===== verification/Surface.thy ===== *)
theory Surface
  imports CliProps AdminPages WebAuthn Lifecycle
begin

text \<open>
  What stands around the services of \<open>apps/server/src\<close>: the routes \<open>buildApp\<close> registers (\<open>app.ts\<close> and the plugins), the
  health route (\<open>routes/health.ts\<close>), the refresh loops of the two observers (\<open>services/abuseSignals.ts\<close>,
  \<open>services/receiverGauges.ts\<close>), and the scripts \<open>scripts/bootstrap.ts\<close> and \<open>scripts/admin-password-hash.ts\<close>.
\<close>

section \<open>Routes\<close>

datatype http_method = GET | POST | DELETE

type_synonym route = "http_method \<times> string"

definition healthRoutes :: "route list" where
  "healthRoutes = [(GET, ''/v1/health'')]"

definition metricsRoutes :: "route list" where
  "metricsRoutes = [(GET, ''/metrics'')]"

definition verificationRoutes :: "route list" where
  "verificationRoutes = [(POST, ''/v1/verifications''), (GET, ''/v1/verifications/:id''), (POST, ''/v1/verifications/:id/cancel'')]"

definition inboundRoutes :: "route list" where
  "inboundRoutes = [(POST, ''/v1/inbound/sms''), (POST, ''/v1/receivers/:id/heartbeat'')]"

definition webhookRoutes :: "route list" where
  "webhookRoutes = [(POST, ''/v1/webhooks''), (GET, ''/v1/webhooks''), (GET, ''/v1/webhooks/:id''), (DELETE, ''/v1/webhooks/:id'')]"

definition phoneBindingRoutes :: "route list" where
  "phoneBindingRoutes = [(POST, ''/v1/phone-bindings/start''), (GET, ''/v1/phone-bindings/:id''), (POST, ''/v1/phone-bindings/:id/revoke'')]"

definition webauthnRoutes :: "config \<Rightarrow> string option \<Rightarrow> route list" where
  "webauthnRoutes cfg enabled =
     (if \<not> isWebAuthnConfigured cfg enabled then []
      else [(POST, ''/v1/webauthn/register/options''), (POST, ''/v1/webauthn/register/verify''),
            (POST, ''/v1/webauthn/login/options''), (POST, ''/v1/webauthn/login/verify'')])"

text \<open>The dashboard reads its two settings from the environment when the plugin is registered.\<close>

definition adminPlugin :: "string option \<Rightarrow> string option \<Rightarrow> route list" where
  "adminPlugin user hash =
     (if \<not> admin_mounted (or_else user []) (or_else hash []) then []
      else [(GET, ''/admin''), (GET, ''/admin/receivers''), (GET, ''/admin/verifications''), (GET, ''/admin/inbound-sms''),
            (GET, ''/admin/health''), (GET, ''/admin/abuse-signals'')])"

definition hostedPlugin :: "boot_config \<Rightarrow> route list" where
  "hostedPlugin c = (if \<not> bc_HOSTED_PAGE_ENABLED c then [] else [(GET, ''/v/:id''), (GET, ''/v/:id/status'')])"

definition app_routes :: "boot_config \<Rightarrow> string option \<Rightarrow> string option \<Rightarrow> string option \<Rightarrow> route list" where
  "app_routes c webauthn user hash =
     healthRoutes @ metricsRoutes @ verificationRoutes @ inboundRoutes @ webhookRoutes @ phoneBindingRoutes @
     webauthnRoutes (bc_config c) webauthn @ adminPlugin user hash @ hostedPlugin c"

lemmas route_defs = healthRoutes_def metricsRoutes_def verificationRoutes_def inboundRoutes_def webhookRoutes_def phoneBindingRoutes_def
  webauthnRoutes_def adminPlugin_def hostedPlugin_def

text \<open>No route is registered twice, which the framework would refuse, whatever is enabled.\<close>

lemma app_routes_distinct: "distinct (app_routes c webauthn user hash)"
  by (simp add: app_routes_def route_defs)

text \<open>The paths of the dashboard are those its handlers know.\<close>

lemma adminPlugin_paths: "adminPlugin user hash \<noteq> [] \<Longrightarrow> (admin_path p \<noteq> None) = ((GET, p) \<in> set (adminPlugin user hash))"
  by (auto simp: adminPlugin_def admin_path_def split: if_splits)

text \<open>The operations of \<open>openapi.yaml\<close>: the routes of a full configuration but the pages and the metrics.\<close>

definition openapi_operations :: "route list" where
  "openapi_operations =
     [(GET, ''/v1/health''), (POST, ''/v1/verifications''), (GET, ''/v1/verifications/:id''), (POST, ''/v1/verifications/:id/cancel''),
      (POST, ''/v1/inbound/sms''), (POST, ''/v1/receivers/:id/heartbeat''), (POST, ''/v1/webhooks''), (GET, ''/v1/webhooks''),
      (GET, ''/v1/webhooks/:id''), (DELETE, ''/v1/webhooks/:id''), (POST, ''/v1/phone-bindings/start''), (GET, ''/v1/phone-bindings/:id''),
      (POST, ''/v1/phone-bindings/:id/revoke''), (POST, ''/v1/webauthn/register/options''), (POST, ''/v1/webauthn/register/verify''),
      (POST, ''/v1/webauthn/login/options''), (POST, ''/v1/webauthn/login/verify''), (GET, ''/v/:id/status'')]"

lemma contract_covers_api:
  assumes "isWebAuthnConfigured (bc_config c) webauthn" and "bc_HOSTED_PAGE_ENABLED c"
  shows "set openapi_operations = set (app_routes c webauthn user hash) - (set (adminPlugin user hash) \<union> {(GET, ''/metrics''), (GET, ''/v/:id'')})"
  using assms by (auto simp: app_routes_def route_defs openapi_operations_def)

section \<open>Health\<close>

record health_reply =
  hr_status :: string
  hr_version :: string
  hr_uptime_seconds :: int

definition health_route :: "string option \<Rightarrow> int \<Rightarrow> int \<Rightarrow> health_reply" where
  "health_route version startedAt now =
     \<lparr>hr_status = ''ok'', hr_version = or_else version ''0.1.0'', hr_uptime_seconds = (now - startedAt) div 1000\<rparr>"

section \<open>The refresh loops\<close>

text \<open>
  The variables of such a module: whether the interval is set, whether it was stopped, the first run that
  is queued, and what was stored last. Both modules have the same two functions.
\<close>

record refresher =
  rf_timer :: bool
  rf_stopped :: bool
  rf_queued :: nat
  rf_cached :: "abuse_signals option"

definition new_refresher :: refresher where
  "new_refresher = \<lparr>rf_timer = False, rf_stopped = False, rf_queued = 0, rf_cached = None\<rparr>"

definition start_refresh :: "refresher \<Rightarrow> refresher" where
  "start_refresh r = (if rf_timer r \<or> rf_stopped r then r else r\<lparr>rf_queued := rf_queued r + 1, rf_timer := True\<rparr>)"

definition stop_refresh :: "refresher \<Rightarrow> refresher" where
  "stop_refresh r = r\<lparr>rf_stopped := True, rf_timer := False\<rparr>"

text \<open>\<open>runOnce\<close>: a failing query is logged and leaves what was stored.\<close>

definition signals_run :: "(string \<Rightarrow> int) \<Rightarrow> page_env \<Rightarrow> world \<Rightarrow> refresher \<Rightarrow> refresher \<times> world" where
  "signals_run collate pe w r =
     (case query pe (computeSignals collate (pe_dbnow pe) (w_db w)) of
        Inl _ \<Rightarrow> (r, w)
      | Inr s \<Rightarrow> (r\<lparr>rf_cached := Some s\<rparr>, pushToGauges s w))"

definition gauges_run :: "config \<Rightarrow> page_env \<Rightarrow> world \<Rightarrow> refresher \<Rightarrow> refresher \<times> world" where
  "gauges_run cfg pe w r =
     (case query pe () of Inl _ \<Rightarrow> (r, w) | Inr _ \<Rightarrow> (r, receiver_gauges_run cfg (pe_now pe) w))"

datatype refresh_event = StartRefresh | StopRefresh | QueuedRun | IntervalRun

text \<open>A run is begun by the queue or by the interval, and done as one step.\<close>

definition refresh_step :: "(world \<Rightarrow> refresher \<Rightarrow> refresher \<times> world) \<Rightarrow> refresh_event \<Rightarrow> refresher \<times> world \<Rightarrow> refresher \<times> world" where
  "refresh_step run ev s =
     (case s of (r, w) \<Rightarrow>
       case ev of
         StartRefresh \<Rightarrow> (start_refresh r, w)
       | StopRefresh \<Rightarrow> (stop_refresh r, w)
       | QueuedRun \<Rightarrow> if rf_queued r > 0 then run w (r\<lparr>rf_queued := rf_queued r - 1\<rparr>) else (r, w)
       | IntervalRun \<Rightarrow> if rf_timer r then run w r else (r, w))"

text \<open>Starting twice starts once; after a stop nothing starts it again, and at most the queued run is left.\<close>

definition refresher_ok :: "refresher \<Rightarrow> bool" where
  "refresher_ok r \<longleftrightarrow> rf_queued r \<le> 1 \<and> (rf_stopped r \<longrightarrow> \<not> rf_timer r) \<and> (rf_queued r = 1 \<longrightarrow> rf_timer r \<or> rf_stopped r)"

lemma runs_keep:
  "rf_timer (fst (signals_run collate pe w r)) = rf_timer r" "rf_stopped (fst (signals_run collate pe w r)) = rf_stopped r"
  "rf_queued (fst (signals_run collate pe w r)) = rf_queued r" "fst (gauges_run cfg pe w r) = r"
  by (simp_all add: signals_run_def gauges_run_def split: sum.split)

lemma refresher_ok_step:
  assumes "refresher_ok (fst s)"
  shows "refresher_ok (fst (refresh_step (signals_run collate pe) ev s))" and "refresher_ok (fst (refresh_step (gauges_run cfg pe) ev s))"
  using assms runs_keep
  by (cases s; cases ev; auto simp: refresh_step_def refresher_ok_def start_refresh_def stop_refresh_def)+

lemma stopped_for_good:
  assumes "rf_stopped (fst s)"
  shows "rf_stopped (fst (refresh_step (signals_run collate pe) ev s))" and "rf_stopped (fst (refresh_step (gauges_run cfg pe) ev s))"
  using assms runs_keep by (cases s; cases ev; auto simp: refresh_step_def start_refresh_def stop_refresh_def)+

text \<open>What the dashboard reads from the loop are the signals of the database at some run.\<close>

lemma cached_is_computed:
  assumes "rf_cached (fst (refresh_step (signals_run collate pe) ev (r, w))) = Some s"
  shows "rf_cached r = Some s \<or> s = computeSignals collate (pe_dbnow pe) (w_db w)"
  using assms by (cases ev) (auto simp: refresh_step_def start_refresh_def stop_refresh_def signals_run_def query_def split: if_splits)

section \<open>The bootstrap script\<close>

text \<open>The parsed options; \<open>parseArgs\<close> of the standard library gives them, or throws.\<close>

record script_values =
  sv_app_name :: "string option"
  sv_receiver_name :: "string option"
  sv_msisdn :: "string option"
  sv_operator :: "string option"
  sv_simulate :: bool

definition bootstrap_text :: "bootstrap_result \<Rightarrow> add_receiver_result \<Rightarrow> string" where
  "bootstrap_text app rcv =
     join_with [NEWLINE]
       [[], ''=== SYROTP bootstrap complete ==='',
        ''App ID:           '' @ br_appId app, ''App name:         '' @ br_appName app, [],
        ''Public key (frontend, restricted):'', ''  '' @ br_publicKey app, [],
        ''Secret key (backend, full access):'', ''  '' @ br_secretKey app, [],
        ''Receiver ID:      '' @ ad_receiverId rcv, ''Receiver MSISDN:  '' @ ad_msisdn rcv, [],
        ''Gateway signing key (paste into the Android gateway / GSM gateway):'', ''  '' @ ad_signingKey rcv, [],
        ''Save these values now. They will not be shown again.'', []]"

definition simulated_text :: "config \<Rightarrow> string" where
  "simulated_text cfg =
     ''(simulated heartbeat '' @ DASH @ '' receiver is healthy for '' @ show_int (RECEIVER_HEARTBEAT_TIMEOUT_SECONDS cfg) @ ''s without a real gateway)''"

definition script_receiver :: "script_values \<Rightarrow> string \<Rightarrow> add_receiver_options" where
  "script_receiver v appId =
     \<lparr>ao_appId = appId, ao_name = or_else (sv_receiver_name v) ''Receiver-1'', ao_operator = sv_operator v, ao_msisdn = the (sv_msisdn v),
      ao_simulateHeartbeat = sv_simulate v\<rparr>"

text \<open>The exit code, what is printed, and the new state. The surroundings are those of the command line.\<close>

definition bootstrap_script :: "cli_env \<Rightarrow> config \<Rightarrow> script_values option \<Rightarrow> world \<Rightarrow> int \<times> string list \<times> world" where
  "bootstrap_script ev cfg parsed w =
     (case parsed of
        None \<Rightarrow> (1, [], w)
      | Some v \<Rightarrow>
        if \<not> truthy (sv_msisdn v) then (2, [], w)
        else case admin_call (cv_down1 ev) (bootstrapApp cfg (ce_hmac (cv_crypto ev)) (cv_dbnow ev) (cv_ulids ev) (cv_rb1 ev) (cv_rb2 ev)
                    (or_else (sv_app_name v) ''Default App'')) w of
          (Inl e, w1) \<Rightarrow> (1, [], w1)
        | (Inr app, w1) \<Rightarrow>
          (case admin_call (cv_down2 ev) (add_rcv ev cfg (script_receiver v (br_appId app))) w1 of
             (Inl e, w2) \<Rightarrow> (1, [], w2)
           | (Inr rcv, w2) \<Rightarrow> (0, [bootstrap_text app rcv] @ (if sv_simulate v then [simulated_text cfg] else []), w2)))"

text \<open>The flags of \<open>syrotp bootstrap\<close> read as the options of the script.\<close>

definition as_script :: "flag_values \<Rightarrow> script_values" where
  "as_script vs = \<lparr>sv_app_name = strOrNull (vs ''app-name''), sv_receiver_name = strOrNull (vs ''receiver-name''), sv_msisdn = strOrNull (vs ''msisdn''),
     sv_operator = strOrNull (vs ''operator''), sv_simulate = (vs ''simulate-heartbeat'' = Some FTrue)\<rparr>"

text \<open>
  Both entry points share one source of truth: with the same surroundings and the options of a command line that is
  complete, the script changes the same rows as \<open>syrotp bootstrap\<close>, fails when it fails, and prints the keys it prints.
\<close>

lemma bootstrap_text_prints:
  "contains_str (bootstrap_text app rcv) (br_publicKey app)" "contains_str (bootstrap_text app rcv) (br_secretKey app)"
  "contains_str (bootstrap_text app rcv) (ad_signingKey rcv)"
proof -
  have c: "contains_str (''  '' @ k) k" for k using contains_str_parts(1) [of "''  ''" k "[]"] by simp
  show "contains_str (bootstrap_text app rcv) (br_publicKey app)" unfolding bootstrap_text_def
    by (rule contains_str_join [OF _ c]) (simp del: append_Cons append.simps)
  show "contains_str (bootstrap_text app rcv) (br_secretKey app)" unfolding bootstrap_text_def
    by (rule contains_str_join [OF _ c]) (simp del: append_Cons append.simps)
  show "contains_str (bootstrap_text app rcv) (ad_signingKey rcv)" unfolding bootstrap_text_def
    by (rule contains_str_join [OF _ c]) (simp del: append_Cons append.simps)
qed

lemma script_as_cli:
  assumes "bootstrap_missing vs = []" and "bootstrap_with ev cfg vs w = (r, ws, w1)" and "bootstrap_script ev cfg (Some (as_script vs)) w = (code, out, w2)"
  shows "w2 = w1" and "code = 0 \<longleftrightarrow> r = Returned OK"
    and "code = 0 \<Longrightarrow> \<exists>app rcv. ws = [render_bootstrap (cv_color ev) app rcv (vs ''simulate-heartbeat'' = Some FTrue)] \<and> hd out = bootstrap_text app rcv"
proof -
  obtain n m where nm: "strOrNull (vs ''app-name'') = Some n" "strOrNull (vs ''msisdn'') = Some m" "m \<noteq> []"
    using assms(1) by (auto simp: bootstrap_missing_def strOrNull_def split: if_splits option.splits flag_value.splits)
  have o: "script_receiver (as_script vs) i =
      \<lparr>ao_appId = i, ao_name = or_else (strOrNull (vs ''receiver-name'')) ''Receiver-1'', ao_operator = strOrNull (vs ''operator''),
       ao_msisdn = the (strOrNull (vs ''msisdn'')), ao_simulateHeartbeat = (vs ''simulate-heartbeat'' = Some FTrue)\<rparr>" for i
    by (simp add: script_receiver_def as_script_def)
  have v: "truthy (sv_msisdn (as_script vs))" "or_else (sv_app_name (as_script vs)) ''Default App'' = the (strOrNull (vs ''app-name''))"
    "sv_simulate (as_script vs) = (vs ''simulate-heartbeat'' = Some FTrue)"
    using nm by (simp_all add: as_script_def truthy_def or_else_def)
  note runs = assms(2) [unfolded bootstrap_with_def Let_def] assms(3) [unfolded bootstrap_script_def option.case o v]
  show "w2 = w1" "code = 0 \<longleftrightarrow> r = Returned OK"
    using runs by (auto simp: v split: prod.splits sum.splits)
  show "\<exists>app rcv. ws = [render_bootstrap (cv_color ev) app rcv (vs ''simulate-heartbeat'' = Some FTrue)] \<and> hd out = bootstrap_text app rcv" if "code = 0"
    using runs that by (auto simp: v split: prod.splits sum.splits) (intro exI conjI, rule refl, rule refl)+
qed

text \<open>The script leaves the same orphan behind: the phone is checked after the application was inserted.\<close>

lemma script_orphan:
  assumes "truthy (sv_msisdn v)" and "cv_down1 ev = None" and "cv_down2 ev = None"
    and "bootstrapApp cfg (ce_hmac (cv_crypto ev)) (cv_dbnow ev) (cv_ulids ev) (cv_rb1 ev) (cv_rb2 ev) (or_else (sv_app_name v) ''Default App'') w = (Inr app, w1)"
    and "fst (add_rcv ev cfg (script_receiver v (br_appId app)) w1) = Inl e"
  shows "bootstrap_script ev cfg (Some v) w = (1, [], w1)"
proof -
  have "add_rcv ev cfg (script_receiver v (br_appId app)) w1 = (Inl e, w1)"
    using assms(5) by (auto simp: add_rcv_def addReceiver_def Let_def split: if_splits sum.splits option.splits)
  then show ?thesis using assms(1-4) by (simp add: bootstrap_script_def admin_call_def)
qed

section \<open>The password script\<close>

definition hash_lines :: "string \<Rightarrow> string list" where
  "hash_lines hash =
     [NEWLINE # ''ADMIN_PASSWORD_HASH='' @ hash @ [NEWLINE, NEWLINE],
      ''Add this and ADMIN_USER to your .env (or secret manager).'' @ [NEWLINE] @ ''The plaintext password is NOT stored anywhere '' @ DASH @
        '' keep it in your password manager.'' @ [NEWLINE]]"

text \<open>\<open>tty\<close> is whether both ends are terminals; otherwise the password is everything on standard input, trimmed.\<close>

definition password_script :: "scrypt_fn \<Rightarrow> string \<Rightarrow> bool \<Rightarrow> string \<Rightarrow> int \<times> string list" where
  "password_script scrypt randomSalt tty typed =
     (let password = (if tty then typed else js_trim typed) in
      if length password < 12 then (2, [])
      else case hashAdminPassword scrypt randomSalt None password of
        Inl _ \<Rightarrow> (1, [])
      | Inr hash \<Rightarrow> (0, hash_lines hash))"

text \<open>
  What it prints opens the dashboard: the configuration accepts the hash, the routes are mounted with it, and the
  password that was typed, and no password that derives another key, passes.
\<close>

lemma printed_hash_opens:
  assumes "scrypt_ok scrypt" and "length randomSalt = 16" and "password_script scrypt randomSalt tty typed = (0, out)" and "user \<noteq> []"
  shows "\<exists>hash. out = hash_lines hash \<and> admin_hash_format hash \<and> admin_mounted user hash \<and>
     admin_validate scrypt user hash user (if tty then typed else js_trim typed) \<and>
     (\<forall>p. scrypt p randomSalt SCRYPT_KEYLEN \<noteq> scrypt (if tty then typed else js_trim typed) randomSalt SCRYPT_KEYLEN \<longrightarrow> \<not> admin_validate scrypt user hash user p)"
proof -
  let ?pw = "if tty then typed else js_trim typed"
  obtain hash where h: "hashAdminPassword scrypt randomSalt None ?pw = Inr hash" "out = hash_lines hash"
    using assms(3) by (auto simp: password_script_def Let_def split: if_splits sum.splits)
  have salt: "randomSalt \<noteq> []" using assms(2) by auto
  note ok = password_roundtrip [OF assms(1) h(1) salt]
  obtain key where k: "scrypt ?pw randomSalt SCRYPT_KEYLEN = Some key" "hash = ''scrypt$'' @ to_hex randomSalt @ ''$'' @ to_hex key"
    using h(1) by (auto simp: hashAdminPassword_def truthy_def split: if_splits option.splits)
  have len: "length key = 64" using assms(1) k(1) unfolding scrypt_ok_def SCRYPT_KEYLEN_def by blast
  have "HASH_RE hash" "admin_hash_format hash"
    using split_stored [of randomSalt key] to_hex_class assms(2) len
    unfolding k(2) HASH_RE_def admin_hash_format_def by (simp_all add: all_in_between_def)
  then have "admin_mounted user hash" "admin_hash_format hash" using assms(4) k(2) by (simp_all add: admin_mounted_def)
  then show ?thesis using h(2) ok by (auto simp: admin_validate_def compareUser_def)
qed

end
