(* ===== verification/LoadReport.thy ===== *)
theory LoadReport
  imports LoadSuite
begin

text \<open>
  The reports of the load-test tool as text: the summary and the table of one run (\<open>reporter.ts\<close>), the summary of a
  suite (\<open>suites.ts\<close>) and what is printed at the end (\<open>runner.ts\<close>, \<open>suites.ts\<close>), under \<open>tools/loadtest/src\<close>.
  \<open>sn\<close> prints a number as JavaScript does and \<open>show_env\<close> is \<open>JSON.stringify\<close> with two blanks;
  \<open>keys\<close> gives the names of the extra counters of an operation in the order they were first counted.
\<close>

section \<open>One run\<close>

record report_meta =
  me_scenario :: string
  me_command :: string
  me_workers :: nat
  me_total :: nat
  me_base_url :: string
  me_git_commit :: "string option"
  me_node :: string
  me_platform :: string
  me_arch :: string
  me_env :: "(string \<times> string) list"

definition four_ops :: "run_metrics \<Rightarrow> (string \<times> op_metrics) list" where
  "four_ops m = [(''start'', rm_start m), (''inbound'', rm_inbound m), (''status'', rm_status m), (''heartbeat'', rm_heartbeat m)]"

definition lat_of :: "op_metrics \<Rightarrow> latency_snapshot" where
  "lat_of x = lat_snapshot (om_latency x)"

definition shown_rate :: "op_metrics \<Rightarrow> rat" where
  "shown_rate x = round_to 10000 (successRate x)"

definition in_code :: "string \<Rightarrow> string" where
  "in_code s = CHR 0x60 # s @ [CHR 0x60]"

definition op_line :: "(rat \<Rightarrow> string) \<Rightarrow> string \<times> op_metrics \<Rightarrow> string" where
  "op_line sn ox =
     (case ox of (op, x) \<Rightarrow>
       ''| '' @ join_with '' | ''
         [op, show_nat (om_total x), show_nat (om_ok x), show_nat (om_expected_4xx x), show_nat (om_unexpected_4xx x), show_nat (om_err_5xx x),
          show_nat (om_network_err x), show_nat (om_timeout x), pct_text (shown_rate x), sn (ls_p50_ms (lat_of x)) @ ''ms'', sn (ls_p95_ms (lat_of x)) @ ''ms'',
          sn (ls_p99_ms (lat_of x)) @ ''ms''] @ '' |'')"

definition toFixed1 :: "rat \<Rightarrow> string" where
  "toFixed1 x = (let n = nat \<lfloor>x * 10 + 1 / 2\<rfloor> in show_nat (n div 10) @ ''.'' @ show_nat (n mod 10))"

definition throughput_line :: "rat \<Rightarrow> string \<times> op_metrics \<Rightarrow> string list" where
  "throughput_line duration lx =
     (case lx of (label, x) \<Rightarrow>
        if om_total x > 0 then [''- '' @ label @ ''**'' @ toFixed1 (of_nat (om_total x) / max (1 / 1000) duration) @ ''**''] else [])"

definition extras_lines :: "(op_metrics \<Rightarrow> string list) \<Rightarrow> string \<times> op_metrics \<Rightarrow> string list" where
  "extras_lines keys ox =
     (case ox of (op, x) \<Rightarrow>
        if keys x = [] then []
        else [''### '' @ op @ '' extras'', []] @ map (\<lambda>k. ''- '' @ in_code k @ '': '' @ show_nat (extra_count x k)) (keys x) @ [[]])"

definition MARK :: "bool \<Rightarrow> string" where
  "MARK ok = (if ok then [CHR 0xE2, CHR 0x9C, CHR 0x85] else [CHR 0xE2, CHR 0x9D, CHR 0x8C])"

definition verdict_mark :: "bool \<Rightarrow> string" where
  "verdict_mark ok = (if ok then MARK_PASS else MARK_FAIL)"

definition check_line :: "acceptance_check \<Rightarrow> string" where
  "check_line c = ''| '' @ ac_name c @ '' | '' @ ac_threshold c @ '' | '' @ ac_actual c @ '' | '' @ MARK (ac_pass c) @ '' |''"

definition FENCE :: string where
  "FENCE = [CHR 0x60, CHR 0x60, CHR 0x60]"

definition report_lines ::
  "(rat \<Rightarrow> string) \<Rightarrow> ((string \<times> string) list \<Rightarrow> string) \<Rightarrow> (op_metrics \<Rightarrow> string list) \<Rightarrow> report_meta \<Rightarrow> rat \<Rightarrow> run_metrics
     \<Rightarrow> bool \<times> acceptance_check list \<Rightarrow> string list" where
  "report_lines sn show_env keys meta duration m acc =
     [''# Load test '' @ DASH @ '' '' @ me_scenario meta, [],
      ''- **Result:** '' @ verdict_mark (fst acc),
      ''- **Workers:** '' @ show_nat (me_workers meta),
      ''- **Total:** '' @ show_nat (me_total meta),
      ''- **Duration:** '' @ toFixed2 duration @ ''s'',
      ''- **Target:** '' @ in_code (me_base_url meta),
      ''- **Commit:** '' @ in_code (case me_git_commit meta of None \<Rightarrow> ''unknown'' | Some c \<Rightarrow> c),
      ''- **Node:** '' @ me_node meta @ '' ('' @ me_platform meta @ ''/'' @ me_arch meta @ '')'', [],
      ''## Operations'', [],
      ''| Op | Total | OK | Expected 4xx | Unexpected 4xx | 5xx | Net err | Timeout | Success rate | p50 | p95 | p99 |'',
      ''|---|---:|---:|---:|---:|---:|---:|---:|---:|---:|---:|---:|''] @
     map (op_line sn) (filter (\<lambda>(op, x). om_total x \<noteq> 0) (four_ops m)) @ [[]] @
     concat (map (throughput_line duration)
       [(''start verifications/sec: '', rm_start m), (''inbound sms/sec:         '', rm_inbound m), (''status reads/sec:        '', rm_status m)]) @ [[]] @
     concat (map (extras_lines keys) (four_ops m)) @
     [''## Acceptance'', [], ''| Check | Threshold | Actual | Pass |'', ''|---|---|---|:---:|''] @ map check_line (snd acc) @ [[],
      ''## Environment'', [], FENCE, me_command meta, FENCE, [], FENCE @ ''json'', show_env (me_env meta), FENCE, []]"

definition renderMarkdown ::
  "(rat \<Rightarrow> string) \<Rightarrow> ((string \<times> string) list \<Rightarrow> string) \<Rightarrow> (op_metrics \<Rightarrow> string list) \<Rightarrow> report_meta \<Rightarrow> rat \<Rightarrow> run_metrics
     \<Rightarrow> bool \<times> acceptance_check list \<Rightarrow> string" where
  "renderMarkdown sn show_env keys meta duration m acc = join_with [NEWLINE] (report_lines sn show_env keys meta duration m acc)"

definition CSV_HEADER :: "string list" where
  "CSV_HEADER = [''op'', ''total'', ''ok'', ''expected_4xx'', ''unexpected_4xx'', ''err_5xx'', ''network_err'', ''timeout'', ''success_rate'', ''p50_ms'', ''p95_ms'',
     ''p99_ms'', ''min_ms'', ''max_ms'', ''mean_ms'']"

definition csv_fields :: "(rat \<Rightarrow> string) \<Rightarrow> string \<times> op_metrics \<Rightarrow> string list" where
  "csv_fields sn ox =
     (case ox of (op, x) \<Rightarrow>
       [op, show_nat (om_total x), show_nat (om_ok x), show_nat (om_expected_4xx x), show_nat (om_unexpected_4xx x), show_nat (om_err_5xx x),
        show_nat (om_network_err x), show_nat (om_timeout x), sn (shown_rate x), sn (ls_p50_ms (lat_of x)), sn (ls_p95_ms (lat_of x)), sn (ls_p99_ms (lat_of x)),
        sn (ls_min_ms (lat_of x)), sn (ls_max_ms (lat_of x)), sn (ls_mean_ms (lat_of x))])"

definition renderCsv :: "(rat \<Rightarrow> string) \<Rightarrow> run_metrics \<Rightarrow> string" where
  "renderCsv sn m = join_with [NEWLINE] (map (join_with '','') (CSV_HEADER # map (csv_fields sn) (four_ops m))) @ [NEWLINE]"

text \<open>The files of one run, by name: the object of \<open>report.json\<close> is \<open>JSON.stringify\<close> of the parts named here.\<close>

record written_report =
  wr_json :: "report_meta \<times> run_metrics \<times> (bool \<times> acceptance_check list)"
  wr_md :: string
  wr_csv :: "string option"

definition writeReport ::
  "(rat \<Rightarrow> string) \<Rightarrow> ((string \<times> string) list \<Rightarrow> string) \<Rightarrow> (op_metrics \<Rightarrow> string list) \<Rightarrow> report_meta \<Rightarrow> (string \<times> string) list \<Rightarrow> rat \<Rightarrow> bool \<Rightarrow> run_metrics
     \<Rightarrow> bool \<times> acceptance_check list \<Rightarrow> written_report" where
  "writeReport sn show_env keys input env duration csv m acc =
     (let meta = input\<lparr>me_env := envSummary env\<rparr>
      in \<lparr>wr_json = (meta, m, acc), wr_md = renderMarkdown sn show_env keys meta (round_to 10000 duration) m acc,
          wr_csv = (if csv then Some (renderCsv sn m) else None)\<rparr>)"

text \<open>What \<open>printScenarioSummary\<close> writes.\<close>

definition padEnd :: "nat \<Rightarrow> string \<Rightarrow> string" where
  "padEnd n s = s @ replicate (n - length s) CHR '' ''"

definition summary_op :: "(rat \<Rightarrow> string) \<Rightarrow> string \<times> op_metrics \<Rightarrow> string" where
  "summary_op sn ox =
     (case ox of (op, x) \<Rightarrow>
       ''  '' @ padEnd 8 op @ '' total='' @ show_nat (om_total x) @ '' ok='' @ show_nat (om_ok x) @ '' 5xx='' @ show_nat (om_err_5xx x) @
       '' timeout='' @ show_nat (om_timeout x) @ '' p50='' @ sn (ls_p50_ms (lat_of x)) @ ''ms p95='' @ sn (ls_p95_ms (lat_of x)) @ ''ms p99='' @
       sn (ls_p99_ms (lat_of x)) @ ''ms'')"

definition printScenarioSummary :: "(rat \<Rightarrow> string) \<Rightarrow> string \<Rightarrow> rat \<Rightarrow> run_out \<Rightarrow> string list" where
  "printScenarioSummary sn name duration out =
     [[], ''  scenario:  '' @ name, ''  duration:  '' @ toFixed2 (round_to 10000 duration) @ ''s''] @
     map (summary_op sn) (filter (\<lambda>(op, x). om_total x \<noteq> 0) (take 3 (four_ops (ro_metrics out)))) @ [[]] @
     map (\<lambda>c. ''  '' @ MARK (ac_pass c) @ ''  '' @ padEnd 40 (ac_name c) @ '' threshold='' @ padEnd 10 (ac_threshold c) @ '' actual='' @ ac_actual c)
       (snd (ro_acceptance out)) @ [[]] @
     [''  '' @ MARK (fst (ro_acceptance out)) @ (if fst (ro_acceptance out) then '' ACCEPTANCE PASS'' else '' ACCEPTANCE FAIL'')]"

section \<open>A suite\<close>

record suite_meta =
  sm_name :: string
  sm_description :: string
  sm_git_commit :: "string option"
  sm_target :: "string option"
  sm_startedAt :: string
  sm_finishedAt :: string
  sm_duration :: rat
  sm_node :: string
  sm_platform :: string
  sm_arch :: string
  sm_host :: string
  sm_command :: string
  sm_suiteDir :: string

definition WARN_MARK :: string where
  "WARN_MARK = [CHR 0xE2, CHR 0x9A, CHR 0xA0, CHR 0xEF, CHR 0xB8, CHR 0x8F]"

definition SKIP_MARK :: string where
  "SKIP_MARK = [CHR 0xE2, CHR 0x8F, CHR 0xAD, CHR 0xEF, CHR 0xB8, CHR 0x8F]"

definition safety_rows :: "hard_safety \<Rightarrow> (string \<times> nat) list" where
  "safety_rows h = [(''double_verifications'', hs_double_verifications h), (''unhandled_exceptions'', hs_unhandled_exceptions h),
     (''err_5xx'', hs_err_5xx h), (''network_err'', hs_network_err h), (''timeout'', hs_timeout h)]"

definition stepsAllPass :: "suite_result \<Rightarrow> bool" where
  "stepsAllPass r = list_all st_pass (su_steps r)"

definition safetyClean :: "suite_result \<Rightarrow> bool" where
  "safetyClean r = list_all (\<lambda>(n, c). c = 0) (safety_rows (su_hardSafety r))"

definition suite_lines :: "(rat \<Rightarrow> string) \<Rightarrow> suite_meta \<Rightarrow> suite_result \<Rightarrow> string list" where
  "suite_lines sn meta r =
     [''# SYROTP Loadtest '' @ DASH @ '' '' @ sm_name meta, [],
      ''**Overall: '' @ verdict_mark (su_pass r) @ ''**'', [],
      ''- Description: '' @ sm_description meta,
      ''- Git commit: '' @ in_code (case sm_git_commit meta of None \<Rightarrow> ''unknown'' | Some c \<Rightarrow> c),
      ''- Target: '' @ in_code (case sm_target meta of None \<Rightarrow> ''unknown'' | Some c \<Rightarrow> c),
      ''- Started at: '' @ sm_startedAt meta,
      ''- Finished at: '' @ sm_finishedAt meta,
      ''- Duration: '' @ toFixed2 (sm_duration meta) @ ''s'',
      ''- Node: '' @ sm_node meta @ '' ('' @ sm_platform meta @ ''/'' @ sm_arch meta @ '')'',
      ''- Host: '' @ sm_host meta] @
     (if \<not> su_ranAll r then [''- '' @ WARN_MARK @ ''  Stopped early on first failure (re-run with '' @ in_code ''--continue-on-fail'' @ '' to see all)''] else []) @
     [[], ''## Scenarios'', []] @ map (formatStep sn) (su_steps r) @
     [[], ''## Hard Safety'', [], ''| Counter | Total |'', ''|---|---:|''] @
     map (\<lambda>(n, c). ''| '' @ n @ '' | '' @ show_nat c @ '' |'') (safety_rows (su_hardSafety r)) @
     [[], ''## Final verdict'', [],
      ''- All scenarios pass: '' @ MARK (stepsAllPass r),
      ''- Hard safety counters zero: '' @ MARK (safetyClean r), [],
      ''**'' @ verdict_mark (su_pass r) @ ''**'', [], ''---'', [], FENCE, sm_command meta, FENCE]"

definition renderSuiteMarkdown :: "(rat \<Rightarrow> string) \<Rightarrow> suite_meta \<Rightarrow> suite_result \<Rightarrow> string" where
  "renderSuiteMarkdown sn meta r = join_with [NEWLINE] (suite_lines sn meta r)"

definition ran_to_text :: "ran_to \<Rightarrow> string" where
  "ran_to_text x = (case x of StepCompleted \<Rightarrow> ''completed'' | StepSkipped \<Rightarrow> ''skipped'' | StepErrored \<Rightarrow> ''errored'')"

definition step_mark :: "step_result \<Rightarrow> string" where
  "step_mark s = (if st_pass s then MARK True else if st_ranTo s = StepSkipped then SKIP_MARK else MARK False)"

definition printSuiteSummary :: "suite_meta \<Rightarrow> suite_result \<Rightarrow> string list" where
  "printSuiteSummary meta r =
     [[], ''========== SUITE: '' @ sm_name meta @ '' =========='',
      ''  duration: '' @ toFixed2 (sm_duration meta) @ ''s'',
      ''  steps:    '' @ show_nat (length (su_steps r))] @
     map (\<lambda>s. ''    '' @ step_mark s @ ''  '' @ padEnd 20 (st_scenarioName s) @ '' ('' @ ran_to_text (st_ranTo s) @ '')'') (su_steps r) @
     [[], ''  hard safety:''] @
     map (\<lambda>(n, c). ''    '' @ n @ ''='' @ show_nat c) (safety_rows (su_hardSafety r)) @
     [[], ''  '' @ MARK (su_pass r) @ (if su_pass r then '' SUITE PASS'' else '' SUITE FAIL''), [], ''  report: '' @ sm_suiteDir meta]"

section \<open>The table reads back\<close>

lemma split_on_join:
  "xs \<noteq> [] \<Longrightarrow> list_all (\<lambda>x. c \<notin> set x) xs \<Longrightarrow> split_on c (join_with [c] xs) = xs"
proof (induction "[c]" xs rule: join_with.induct)
  case (2 x)
  then show ?case by (simp add: split_on_no_sep)
next
  case (3 x y ys)
  then show ?case using split_on_append [of c x "join_with [c] (y # ys)"] by simp
qed simp

lemma join_with_snoc: "xs \<noteq> [] \<Longrightarrow> join_with sep xs @ sep = join_with sep (xs @ [[]])"
  by (induction sep xs rule: join_with.induct) simp_all

lemma join_with_chars: "set (join_with sep xs) \<subseteq> set sep \<union> (\<Union>x \<in> set xs. set x)"
  by (induction sep xs rule: join_with.induct) auto

definition plain :: "string \<Rightarrow> bool" where
  "plain s \<longleftrightarrow> CHR '','' \<notin> set s \<and> NEWLINE \<notin> set s"

lemma plain_digits: "list_all is_digit s \<Longrightarrow> plain s"
  by (auto simp: plain_def list_all_iff char_class_defs code_unit_def NEWLINE_def)

lemma csv_fields_plain:
  assumes "\<And>x. plain (sn x)" and "ox \<in> set (four_ops m)"
  shows "list_all plain (csv_fields sn ox)"
proof -
  have n: "plain (show_nat k)" for k by (rule plain_digits [OF show_nat_digits])
  have "plain (fst ox)" using assms(2) by (auto simp: four_ops_def plain_def NEWLINE_def)
  then show ?thesis using assms(1) n by (cases ox) (simp add: csv_fields_def)
qed

text \<open>
  The table of a run reads back. If numbers are printed without commas and line breaks, splitting the file at line
  breaks and the lines at commas gives the header, then for each of the four operations its name and its
  counters, rate and latencies, each under its column, and the empty line at the end.
\<close>

theorem csv_reads_back:
  assumes "\<And>x. plain (sn x)"
  shows "map (split_on (CHR '','')) (split_on NEWLINE (renderCsv sn m)) = CSV_HEADER # map (csv_fields sn) (four_ops m) @ [[[]]]"
    and "\<And>ox. length (csv_fields sn ox) = length CSV_HEADER"
proof -
  let ?rows = "CSV_HEADER # map (csv_fields sn) (four_ops m)"
  have header: "list_all plain CSV_HEADER" by (simp add: CSV_HEADER_def plain_def NEWLINE_def)
  then have p: "list_all plain r" if "r \<in> set ?rows" for r
    using that csv_fields_plain [of sn _ m, OF assms] by (cases "r = CSV_HEADER") auto
  have ne: "r \<noteq> []" if "r \<in> set ?rows" for r
    using that by (auto simp: CSV_HEADER_def csv_fields_def four_ops_def)
  have line: "NEWLINE \<notin> set (join_with '','' r)" if "r \<in> set ?rows" for r
  proof -
    have "NEWLINE \<notin> set '',''" by (simp add: NEWLINE_def)
    then show ?thesis using p [OF that] join_with_chars [of "'',''" r] by (auto simp: list_all_iff plain_def)
  qed
  have "renderCsv sn m = join_with [NEWLINE] (map (join_with '','') ?rows @ [[]])"
    unfolding renderCsv_def by (rule join_with_snoc) simp
  then have "split_on NEWLINE (renderCsv sn m) = map (join_with '','') ?rows @ [[]]"
    using line by (simp only:) (rule split_on_join, simp, simp only: list_all_append list.pred_map, auto simp: list_all_iff)
  moreover have "split_on (CHR '','') (join_with '','' r) = r" if "r \<in> set ?rows" for r
    using p [OF that] ne [OF that] by (intro split_on_join) (auto simp: list_all_iff plain_def)
  ultimately show "map (split_on (CHR '','')) (split_on NEWLINE (renderCsv sn m)) = CSV_HEADER # map (csv_fields sn) (four_ops m) @ [[[]]]"
    by (simp add: comp_def cong: map_cong)
qed (simp add: csv_fields_def CSV_HEADER_def split: prod.split)

section \<open>The summary explains its verdict\<close>

lemma stopped_means_failed:
  "suite_loop cont ov steps safety = (rs, s, False) \<Longrightarrow> \<not> list_all st_pass rs"
proof (induction steps arbitrary: safety rs s)
  case (Cons x steps)
  obtain rw step where x: "x = (rw, step)" by fastforce
  show ?case
    using Cons.prems Cons.IH unfolding x
    by (fastforce simp: Let_def split: option.splits sum.splits if_splits prod.splits)
qed simp

text \<open>
  The overall verdict is the conjunction of the two lines under it, and a suite that stopped early never passes.
\<close>

lemma summary_explains_verdict:
  assumes "runSuite name cont ov worlds = Some r"
  shows "su_pass r \<longleftrightarrow> stepsAllPass r \<and> safetyClean r" and "\<not> su_ranAll r \<Longrightarrow> \<not> stepsAllPass r"
proof -
  obtain steps where r: "r = suite_verdict (suite_loop cont ov steps ZERO_SAFETY)"
    using assms by (auto simp: runSuite_def)
  obtain rs s ranAll where l: "suite_loop cont ov steps ZERO_SAFETY = (rs, s, ranAll)" by (cases "suite_loop cont ov steps ZERO_SAFETY") auto
  show "su_pass r \<longleftrightarrow> stepsAllPass r \<and> safetyClean r"
    by (simp add: r l suite_verdict_def stepsAllPass_def safetyClean_def safety_rows_def)
  show "\<not> su_ranAll r \<Longrightarrow> \<not> stepsAllPass r"
    using stopped_means_failed [of cont ov steps ZERO_SAFETY rs s] by (auto simp: r l suite_verdict_def stepsAllPass_def)
qed

end
