(* ===== verification/CliOutput.thy ===== *)
theory CliOutput
  imports CliProps
begin

text \<open>
  The edge of the command line, \<open>packages/cli/src\<close>: what goes to standard error when a command fails (\<open>render.ts\<close>, the
  entry point of \<open>index.ts\<close>), the version (\<open>version.ts\<close>) and how the end of a child process becomes an exit code
  (\<open>spawn.ts\<close>).
\<close>

section \<open>Standard error\<close>

definition useColor :: "(string \<rightharpoonup> string) \<Rightarrow> bool \<Rightarrow> bool" where
  "useColor env tty \<longleftrightarrow> \<not> truthy (env ''NO_COLOR'') \<and> tty \<and> env ''TERM'' \<noteq> Some ''dumb''"

definition reportError :: "bool \<Rightarrow> cli_error \<Rightarrow> string" where
  "reportError col err =
     red col ''error'' @ '' '' @ cl_message err @ [NEWLINE] @
     (if truthy (cl_hint err) then ''  '' @ dimmed col ''hint:'' @ '' '' @ the (cl_hint err) @ [NEWLINE] else []) @
     ''  '' @ dimmed col ''exit:'' @ '' '' @ show_int (exit_value (cl_code err)) @ '' ('' @ nameOf (cl_code err) @ '')'' @ [NEWLINE]"

text \<open>An exception of another kind, with its stack if it is an \<open>Error\<close>.\<close>

definition reportUnexpected :: "bool \<Rightarrow> (string \<rightharpoonup> string) \<Rightarrow> string \<Rightarrow> string option \<Rightarrow> string" where
  "reportUnexpected col env message stack =
     red col ''error'' @ '' unexpected: '' @ message @ [NEWLINE] @
     (if truthy (env ''DEBUG'') \<and> truthy stack then dimmed col (the stack) @ [NEWLINE]
      else ''  '' @ dimmed col ''hint:'' @ '' re-run with DEBUG=1 for stack trace'' @ [NEWLINE])"

text \<open>How the process ends: the code and what stands on standard error. An exception that is no \<open>CliError\<close> ends with 1.\<close>

definition cli_entry :: "bool \<Rightarrow> (string \<rightharpoonup> string) \<Rightarrow> (string \<times> string option) + outcome \<Rightarrow> int \<times> string" where
  "cli_entry col env res =
     (case res of
        Inl (message, stack) \<Rightarrow> (exit_value RUNTIME, reportUnexpected col env message stack)
      | Inr (Thrown e) \<Rightarrow> (exit_status (Thrown e), reportError col e)
      | Inr other \<Rightarrow> (exit_status other, []))"

section \<open>The version\<close>

text \<open>\<open>parse\<close> reads a \<open>package.json\<close>; \<open>None\<close> where the file is missing or is not JSON.\<close>

fun readVersion_from :: "(string \<Rightarrow> json option) \<Rightarrow> string list \<Rightarrow> string" where
  "readVersion_from parse [] = ''0.0.0-unknown''"
| "readVersion_from parse (candidate # rest) =
     (case (field ''name'' (parse candidate), field ''version'' (parse candidate)) of
        (Some (JStr n), Some (JStr v)) \<Rightarrow> if n = ''@syrotp/cli'' then v else readVersion_from parse rest
      | _ \<Rightarrow> readVersion_from parse rest)"

definition readVersion :: "(string \<Rightarrow> json option) \<Rightarrow> string \<Rightarrow> string" where
  "readVersion parse here = readVersion_from parse [here @ ''/../package.json'', here @ ''/../../package.json'']"

section \<open>Child processes\<close>

datatype child_end = SpawnFailed | ExitedWith "int option" "string option"

definition isPnpm :: "string \<Rightarrow> bool" where
  "isPnpm cmd \<longleftrightarrow> cmd = ''pnpm'' \<or> ends_with cmd ''/pnpm'' \<or> ends_with cmd (CHR 0x5C # ''pnpm'')"

record spawn_request =
  sq_cmd :: string
  sq_args :: "string list"
  sq_cwd :: "string option"
  sq_env :: "string \<rightharpoonup> string"

record spawn_options =
  so_cwd :: string
  so_env :: "string \<rightharpoonup> string"
  so_shell :: bool

definition spawn_with :: "(string \<rightharpoonup> string) \<Rightarrow> string \<Rightarrow> string \<Rightarrow> spawn_request \<Rightarrow> spawn_options" where
  "spawn_with env cwd platform rq =
     \<lparr>so_cwd = (case sq_cwd rq of Some d \<Rightarrow> d | None \<Rightarrow> (case env ''INIT_CWD'' of Some d \<Rightarrow> d | None \<Rightarrow> cwd)),
      so_env = env ++ sq_env rq, so_shell = (platform = ''win32'' \<and> isPnpm (sq_cmd rq))\<rparr>"

definition child_code :: "child_end \<Rightarrow> int" where
  "child_code x =
     (case x of
        SpawnFailed \<Rightarrow> 1
      | ExitedWith code signal \<Rightarrow> (case code of Some c \<Rightarrow> c | None \<Rightarrow> 1))"

section \<open>Properties\<close>

text \<open>A child that did not end by itself never counts as a success.\<close>

lemma child_success: "child_code x = 0 \<longleftrightarrow> (\<exists>signal. x = ExitedWith (Some 0) signal)"
  by (cases x) (auto simp: child_code_def split: option.splits)

text \<open>Whenever a command fails, standard error names the exit code the process ends with, which is not zero.\<close>

lemma failure_names_code:
  assumes "cl_code e \<noteq> OK"
  shows "fst (cli_entry col env (Inr (Thrown e))) \<noteq> 0"
    and "contains_str (snd (cli_entry col env (Inr (Thrown e)))) (show_int (fst (cli_entry col env (Inr (Thrown e)))) @ '' ('' @ nameOf (cl_code e) @ '')'')"
proof -
  show "fst (cli_entry col env (Inr (Thrown e))) \<noteq> 0"
    using assms by (cases "cl_code e") (simp_all add: cli_entry_def exit_status_def exit_value_def)
  have "contains_str (a @ b @ '' '' @ (n @ '' ('' @ m @ '')'') @ [NEWLINE]) (n @ '' ('' @ m @ '')'')" for a b n m
    unfolding contains_str_iff by (metis append.assoc)
  from this [of "red col ''error'' @ '' '' @ cl_message e @ [NEWLINE] @
       (if truthy (cl_hint e) then ''  '' @ dimmed col ''hint:'' @ '' '' @ the (cl_hint e) @ [NEWLINE] else []) @ ''  ''" "dimmed col ''exit:''"]
  show "contains_str (snd (cli_entry col env (Inr (Thrown e)))) (show_int (fst (cli_entry col env (Inr (Thrown e)))) @ '' ('' @ nameOf (cl_code e) @ '')'')"
    by (simp only: cli_entry_def sum.case outcome.case snd_conv fst_conv reportError_def exit_status_def append.assoc)
qed

text \<open>The version is that of the first file that is the package of the command line.\<close>

lemma readVersion_own:
  "field ''name'' (parse (here @ ''/../package.json'')) = Some (JStr ''@syrotp/cli'') \<Longrightarrow>
     field ''version'' (parse (here @ ''/../package.json'')) = Some (JStr v) \<Longrightarrow> readVersion parse here = v"
  by (simp add: readVersion_def)

end
