(* ===== verification/Spec2Isabelle.thy ===== *)
theory Spec2Isabelle
  imports LoadPrep RouteProps WebhookFleet AdminReceivers Monitoring AdminWeb SdkClient UiController CliProps LoadSuite Lifecycle ReactHook Smoke Registry Migrate WebElement Surface LoadReport CliOutput
begin

text \<open>
  SYROTP verifies that a user controls a phone by having the phone send an SMS: the server gives an
  application a code and the number of a receiver, an SMS gateway posts the messages it receives, signed, and the
  server matches them. This development models the TypeScript of the repository: the server
  (\<open>apps/server/src\<close>), the clients (\<open>packages/sdk-js\<close>, \<open>packages/web-component\<close>, \<open>packages/react\<close>), the
  command line (\<open>packages/cli\<close>), the load-test tool (\<open>tools/loadtest\<close>) and the smoke script
  (\<open>scripts/smoke.mjs\<close>). Paths below are relative to these directories.

  \<^bold>\<open>Parts and how they interact.\<close> A request enters by a route. The route checks the bearer key or the gateway signature, counts
  the request in Redis, checks the body, calls a service and turns the result into a reply; thrown errors go through the root
  error handler. The services read and write the database in transactions and write to the webhook outbox
  in the same transaction. A worker delivers the outbox. Two observers compute gauges. Operators use the dashboard and
  the command line, applications the SDK, and end users the hosted page, the web component or the React hook.

  \<^bold>\<open>Shared theories.\<close>
  \<^item> \<open>Prelude\<close>: JavaScript strings and numbers, regular expressions as Boolean functions, tables as lists of rows.
  \<^item> \<open>Errors\<close> (\<open>lib/errors.ts\<close>, \<open>plugins/errorHandler.ts\<close>), \<open>Schema\<close> (\<open>db/schema.ts\<close>, the migrations),
    \<open>Redis\<close>, \<open>Metrics\<close> and \<open>Registry\<close> (\<open>services/metrics.ts\<close>), \<open>World\<close>: the state of the server is the record of database,
    Redis store and metrics; configuration, clock readings and fresh identifiers are arguments.
  \<^item> \<open>Crypto\<close>, \<open>Aead\<close>, \<open>Phone\<close>, \<open>SmsCommands\<close> (\<open>lib\<close>): key hashing, wrapped secrets, phone numbers, and the two SMS
    commands; \<open>Http\<close>: handlers as state transformers that return or throw, JSON bodies and their schemas.

  \<^bold>\<open>Services and routes of the server.\<close>
  \<^item> \<open>Verifications\<close>, \<open>PhoneBindings\<close>, \<open>Matching\<close>, \<open>Outbox\<close>, \<open>Webhooks\<close>, \<open>WebAuthn\<close>: the files of \<open>services\<close> with these names;
    each database transaction is one definition, and an operation composes them as the code does.
  \<^item> \<open>RateLimit\<close>, \<open>Hmac\<close>, \<open>Auth\<close>, \<open>SsrfGuard\<close>: the fixed window, the signature of gateways, API keys, the address filter
    on 32- and 16-bit words.
  \<^item> \<open>Routes\<close>, \<open>RoutesGateway\<close>, \<open>RoutesBackend\<close>: the handlers of \<open>routes\<close> and of the hosted page.
  \<^item> \<open>WebhookWorker\<close> and \<open>WebhookFleet\<close>: one delivery, and any number of workers on one table, with crashes.
  \<^item> \<open>AdminReceivers\<close>, \<open>AdminWeb\<close>, \<open>AdminPages\<close>, \<open>Monitoring\<close>: receiver administration and probe, the guard and the pages of
    the dashboard, the observers.
  \<^item> \<open>ServerConfig\<close>, \<open>Lifecycle\<close>: reading the settings, the timer loop of the worker, start and end of the processes; \<open>Migrate\<close>, the
    migration runner; \<open>Surface\<close>, the table of routes, the health route, the refresh loops and the scripts of the server.

  \<^bold>\<open>Clients and tools.\<close> \<open>SdkClient\<close>; \<open>UiController\<close>, \<open>WebElement\<close> and \<open>ReactHook\<close>, the web component and the React hook, with
  \<open>WidgetView\<close>, what both show; \<open>Cli\<close>, \<open>CliCommands\<close>, \<open>CliProps\<close>, \<open>CliOutput\<close>; \<open>LoadMetrics\<close>, \<open>LoadRun\<close>, \<open>LoadSuite\<close>,
  \<open>LoadReport\<close>, and \<open>LoadPrep\<close> on the rows the load test prepares and removes; \<open>Smoke\<close>.

  \<^bold>\<open>The state machine.\<close> \<open>Transitions\<close> states the life cycles of rows as interfaces; \<open>Server\<close> is the step relation of
  the whole server: one step is one transaction, so concurrent requests interleave as the database serialises them.
  \<open>DemoRun\<close> evaluates a full run of it. \<open>ServerProps\<close> proves by rule induction that verified rows come from an SMS of their phone,
  that terminal rows never change, that every terminal row has exactly one event, the cap on pending rows and the unique
  keys; \<open>RouteProps\<close> shows that the routes are runs of this machine, so that they inherit all of it, and that
  they are closed to requests without a key or signature and between applications.

  \<^bold>\<open>What the groups of lemmas show.\<close> Each component has the functional behaviour of its operations on all branches, the invariant
  they keep, and where two descriptions exist their equivalence (address masks against networks, grouped queries against
  counts, the verdict of a suite against the runs of its steps). The interfaces are locales, each interpreted on the definitions
  of the component that provides it: rate-limit windows, terminal updates, row life cycles, SMS commands, and for the load
  generator \<open>ledger\<close> (bookkeeping against what came over the wire) and \<open>pool\<close> (each index once).

  \<^bold>\<open>Conventions and bounds.\<close> Strings are lists of code units, interpreted in the ASCII range. Instants are integers in
  milliseconds. Doubles are rationals: their rounding is not modelled. Lists of rows stand for tables, in insertion order.
  The polling loop of the SDK is a partial function, proved to settle within the rounds its deadline allows. A scenario of
  the load generator is a finite tree of calls. The smoke script reads five times, as the code does.

  \<^bold>\<open>Parameters.\<close> Node's cryptography, libphonenumber, the WebAuthn library, the URL parser, DNS, \<open>fetch\<close>, \<open>JSON.parse\<close>, spawning
  processes and random draws are arguments, with what is relied on as hypotheses of the theorems: that deciphering undoes
  enciphering, the length and alphabet of digests, freshness of identifiers.

  \<^bold>\<open>Not modelled.\<close> Connection pools, the logger and the headers of the framework (\<open>app.ts\<close>), the
  exposition of the metrics, the layouts of pages and the hosted page's template, the styles of the React component,
  the JSON and the paths of the load-test reports, help texts: input and output, markup or calls of a
  library. Names inherited from \<open>Object.prototype\<close> are modelled in the flag parser of the command line and not in the
  scenario tables of the load-test tool. The gateways and SDKs in other languages are outside the TypeScript code.
\<close>

end
